(* ===== verification/Float64.thy ===== *)
theory Float64
  imports Complex_Main "HOL-Library.Log_Nat"
begin

text \<open>
  Python floats. Every amount, volume and meter reading of the program is a Python
  \<open>float\<close>, stored in SQLAlchemy \<open>Float\<close> columns, that is an IEEE-754 binary64 number.
  A finite double is a rational number, so a float is modelled as the \<open>rat\<close> it denotes,
  and every arithmetic operation is the exact operation followed by the rounding \<open>fl\<close>:
  round to nearest, ties to even, to a 53-bit significand with exponents from -1022 (below
  that the fixed subnormal spacing). What is left out is overflow to infinity, NaN and the
  sign of zero. \<open>fround2\<close> is the builtin \<open>round(x, 2)\<close>: it rounds the exact binary value
  to the nearest hundredth, ties to even, and converts that decimal to the nearest double.
\<close>

type_synonym pyfloat = rat

named_theorems fl_simps \<open>exact results of the rounding on small values\<close>

section \<open>The rounding function\<close>

definition round_half_even :: "rat \<Rightarrow> int" where
  "round_half_even x =
     (let f = \<lfloor>x\<rfloor>; d = x - of_int f
      in if d < 1 / 2 then f else if 1 / 2 < d then f + 1 else if even f then f else f + 1)"

definition binade :: "rat \<Rightarrow> int" where
  \<comment> \<open>the exponent of the leading binary digit of a positive rational\<close>
  "binade x =
     (let (p, q) = quotient_of x; e = bitlen p - bitlen q
      in if 2 powi e \<le> x then e else e - 1)"

definition ulp :: "rat \<Rightarrow> rat" where
  "ulp x = 2 powi (max (binade \<bar>x\<bar>) (-1022) - 52)"

definition fl :: "rat \<Rightarrow> pyfloat" where
  "fl x = (if x = 0 then 0 else of_int (round_half_even (x / ulp x)) * ulp x)"

definition is_float :: "rat \<Rightarrow> bool" where
  "is_float x \<longleftrightarrow> fl x = x"

definition fadd :: "pyfloat \<Rightarrow> pyfloat \<Rightarrow> pyfloat" where "fadd a b = fl (a + b)"
definition fsub :: "pyfloat \<Rightarrow> pyfloat \<Rightarrow> pyfloat" where "fsub a b = fl (a - b)"
definition fmul :: "pyfloat \<Rightarrow> pyfloat \<Rightarrow> pyfloat" where "fmul a b = fl (a * b)"
definition fdiv :: "pyfloat \<Rightarrow> pyfloat \<Rightarrow> pyfloat" where "fdiv a b = fl (a / b)"

definition fround2 :: "pyfloat \<Rightarrow> pyfloat" where
  "fround2 x = fl (of_int (round_half_even (x * 100)) / 100)"

definition fsum :: "pyfloat list \<Rightarrow> pyfloat" where
  \<comment> \<open>the builtin \<open>sum\<close>: a left fold from the integer 0\<close>
  "fsum xs = foldl fadd 0 xs"

section \<open>Rounding to an integer\<close>

lemma round_half_even_of_int [simp]: "round_half_even (of_int n) = n"
  by (simp add: round_half_even_def)

lemma round_half_even_bounds: "\<lfloor>x\<rfloor> \<le> round_half_even x \<and> round_half_even x \<le> \<lfloor>x\<rfloor> + 1"
  by (simp add: round_half_even_def Let_def)

lemma round_half_even_mono:
  assumes "x \<le> y" shows "round_half_even x \<le> round_half_even y"
proof (cases "\<lfloor>x\<rfloor> = \<lfloor>y\<rfloor>")
  case True
  with assms show ?thesis by (auto simp: round_half_even_def Let_def)
next
  case False
  with floor_mono [OF assms] have "\<lfloor>x\<rfloor> + 1 \<le> \<lfloor>y\<rfloor>" by simp
  with round_half_even_bounds [of x] round_half_even_bounds [of y] show ?thesis by linarith
qed

lemma round_half_even_dist: "\<bar>of_int (round_half_even x) - x\<bar> \<le> 1 / 2"
proof -
  have "of_int \<lfloor>x\<rfloor> \<le> x" "x < of_int \<lfloor>x\<rfloor> + 1" by linarith+
  then show ?thesis by (auto simp: round_half_even_def Let_def abs_le_iff)
qed

lemma round_half_even_0 [simp]: "round_half_even 0 = 0"
  using round_half_even_of_int [of 0] by simp

lemma round_half_even_minus: "round_half_even (- x) = - round_half_even x"
proof (cases "x = of_int \<lfloor>x\<rfloor>")
  case True
  have "- x = of_int (- \<lfloor>x\<rfloor>)" by (subst (1) True) simp
  with True show ?thesis by (metis round_half_even_of_int)
next
  case False
  have lt: "of_int \<lfloor>x\<rfloor> < x" using False of_int_floor_le [of x] by linarith
  have up: "x < of_int \<lfloor>x\<rfloor> + 1" by linarith
  have fl_neg: "\<lfloor>- x\<rfloor> = - \<lfloor>x\<rfloor> - 1"
    by (rule floor_unique) (use lt up in auto)
  show ?thesis
    unfolding round_half_even_def Let_def fl_neg by (auto simp: field_simps)
qed

section \<open>The binade of a positive number\<close>

lemma powi_mono: "a \<le> b \<Longrightarrow> (2::rat) powi a \<le> 2 powi b"
  by (rule power_int_increasing) auto

lemma powi_less_iff: "(2::rat) powi a < 2 powi b \<longleftrightarrow> a < b"
  by (meson linorder_not_less one_less_numeral_iff power_int_strict_increasing powi_mono semiring_norm(76))

lemma powi_add1: "(2::rat) powi (a + 1) = 2 * 2 powi a"
  by (simp add: power_int_add)

lemma bitlen_powi:
  assumes "0 < n"
  shows "(2::rat) powi (bitlen n - 1) \<le> of_int n \<and> of_int n < (2::rat) powi (bitlen n)"
proof -
  have b: "2 ^ nat (bitlen n - 1) \<le> n \<and> n < 2 ^ nat (bitlen n)" using bitlen_bounds [OF assms] .
  have pos: "1 \<le> bitlen n" using assms by (simp add: bitlen_def floorlog_def)
  have e1: "(2::rat) powi (bitlen n - 1) = of_int (2 ^ nat (bitlen n - 1))"
    using pos by (simp add: power_int_def)
  have e2: "(2::rat) powi (bitlen n) = of_int (2 ^ nat (bitlen n))"
    using pos by (simp add: power_int_def)
  show ?thesis unfolding e1 e2 of_int_le_iff of_int_less_iff using b .
qed

lemma binade_bounds:
  assumes "0 < x" shows "2 powi binade x \<le> x \<and> x < 2 powi (binade x + 1)"
proof -
  obtain p q where pq: "quotient_of x = (p, q)" by (cases "quotient_of x")
  have q: "0 < q" using pq quotient_of_denom_pos by blast
  have x: "x = of_int p / of_int q" using pq quotient_of_div by blast
  with assms q have p: "0 < p" by (simp add: zero_less_divide_iff)
  define e where "e = bitlen p - bitlen q"
  have P: "2 powi (bitlen p - 1) \<le> rat_of_int p" "rat_of_int p < 2 powi (bitlen p)"
    using bitlen_powi [OF p] by auto
  have Q: "2 powi (bitlen q - 1) \<le> rat_of_int q" "rat_of_int q < 2 powi (bitlen q)"
    using bitlen_powi [OF q] by auto
  have low: "2 powi (e - 1) \<le> x"
  proof -
    have "2 powi (e - 1) * rat_of_int q \<le> 2 powi (e - 1) * 2 powi (bitlen q)"
      using Q by (intro mult_left_mono) auto
    also have "\<dots> = 2 powi (bitlen p - 1)" by (simp add: e_def flip: power_int_add)
    also have "\<dots> \<le> rat_of_int p" using P by simp
    finally show ?thesis using q by (simp add: x pos_le_divide_eq)
  qed
  have high: "x < 2 powi (e + 1)"
  proof -
    have "rat_of_int p < 2 powi (bitlen p)" using P by simp
    also have "\<dots> = 2 powi (e + 1) * 2 powi (bitlen q - 1)" by (simp add: e_def flip: power_int_add)
    also have "\<dots> \<le> 2 powi (e + 1) * rat_of_int q" using Q by (intro mult_left_mono) auto
    finally show ?thesis using q by (simp add: x pos_divide_less_eq)
  qed
  have "binade x = (if 2 powi e \<le> x then e else e - 1)" by (simp add: binade_def pq e_def)
  with low high show ?thesis by auto
qed

lemma binade_less:
  assumes "0 < x" "x < 2 powi (k + 1)" shows "binade x \<le> k"
proof -
  have "(2::rat) powi binade x < 2 powi (k + 1)" using binade_bounds [OF assms(1)] assms(2) by linarith
  then show ?thesis by (simp add: powi_less_iff)
qed

lemma binade_ge:
  assumes "0 < x" "2 powi k \<le> x" shows "k \<le> binade x"
proof -
  have "(2::rat) powi k < 2 powi (binade x + 1)" using binade_bounds [OF assms(1)] assms(2) by linarith
  then show ?thesis by (simp add: powi_less_iff)
qed

lemma binade_mono: "0 < x \<Longrightarrow> x \<le> y \<Longrightarrow> binade x \<le> binade y"
  using binade_bounds [of x] by (intro binade_ge) auto

section \<open>Laws of the rounding\<close>

lemma ulp_pos [simp]: "0 < ulp x"
  by (simp add: ulp_def)

lemma ulp_nonzero [simp]: "ulp x \<noteq> 0"
  using ulp_pos [of x] by linarith

lemma ulp_minus [simp]: "ulp (- x) = ulp x"
  by (simp add: ulp_def)

lemma fl_0 [simp]: "fl 0 = 0"
  by (simp add: fl_def)

lemma fl_minus: "fl (- x) = - fl x"
  by (simp add: fl_def round_half_even_minus)

text \<open>A significand of at most 53 bits on the subnormal grid is left unchanged.\<close>

lemma fl_exact:
  assumes m: "\<bar>m\<bar> \<le> 2 ^ 53" and k: "- 1074 \<le> k"
  shows "fl (of_int m * 2 powi k) = of_int m * 2 powi k"
proof (cases "m = 0")
  case True
  then show ?thesis by simp
next
  case False
  define x :: rat where "x = of_int m * 2 powi k"
  define s where "s = max (binade \<bar>x\<bar>) (- 1022) - 52"
  have x0: "x \<noteq> 0" and ax: "\<bar>x\<bar> = of_int \<bar>m\<bar> * 2 powi k" and pos: "0 < \<bar>x\<bar>"
    using False by (auto simp: x_def abs_mult)
  have mr: "rat_of_int \<bar>m\<bar> \<le> of_int (2 ^ 53)" using m of_int_le_iff by blast
  have "\<bar>x\<bar> \<le> of_int (2 ^ 53) * 2 powi k" unfolding ax using mr by (rule mult_right_mono) simp
  then have le: "\<bar>x\<bar> \<le> 2 powi (53 + k)" by (simp add: power_int_add)
  have "\<exists>n. x / 2 powi s = of_int n"
  proof (cases "s \<le> k")
    case True
    have "x / 2 powi s = of_int m * 2 powi (k - s)" by (simp add: x_def power_int_diff)
    also have "\<dots> = of_int (m * 2 ^ nat (k - s))" using True by (simp add: power_int_def)
    finally show ?thesis by blast
  next
    case False
    with k have s: "k + 53 \<le> binade \<bar>x\<bar>" by (auto simp: s_def)
    have "2 powi (k + 53) \<le> \<bar>x\<bar>"
      using binade_bounds [OF pos] powi_mono [OF s] by linarith
    with le have eq: "\<bar>x\<bar> = 2 powi (k + 53)" by (simp add: add.commute)
    have "binade \<bar>x\<bar> \<le> k + 53"
      using binade_less [OF pos, of "k + 53"] by (simp add: eq powi_less_iff)
    with s k have "s = k + 1" by (auto simp: s_def)
    then have "\<bar>x\<bar> / 2 powi s = 2 powi 52" by (simp add: eq flip: power_int_diff)
    then have "\<bar>x\<bar> / 2 powi s = of_int (2 ^ 52)" by simp
    then have "x / 2 powi s = of_int (2 ^ 52) \<or> x / 2 powi s = of_int (- (2 ^ 52))"
      by (cases "0 \<le> x") (auto simp: abs_if field_simps)
    then show ?thesis by blast
  qed
  then obtain n where n: "x / ulp x = of_int n" by (auto simp: ulp_def s_def)
  then have "fl x = of_int n * ulp x" using x0 by (simp add: fl_def)
  also have "\<dots> = x" using n [symmetric] by simp
  finally show ?thesis by (simp add: x_def)
qed

lemma fl_pos_form:
  assumes "0 < x"
  shows "\<exists>m k. fl x = of_int m * 2 powi k \<and> 0 \<le> m \<and> m \<le> 2 ^ 53 \<and> - 1074 \<le> k"
proof -
  define s where "s = max (binade x) (- 1022) - 52"
  have u: "ulp x = 2 powi s" using assms by (simp add: ulp_def s_def)
  have f: "fl x = of_int (round_half_even (x / 2 powi s)) * 2 powi s" using assms by (simp add: fl_def u)
  have "x < 2 powi (s + 53)"
    using binade_bounds [OF assms] powi_mono [of "binade x + 1" "s + 53"] by (auto simp: s_def)
  then have "x / 2 powi s \<le> 2 powi 53" by (simp add: pos_divide_le_eq power_int_add mult.commute)
  then have "x / 2 powi s \<le> of_int (2 ^ 53)" by simp
  then have hi: "round_half_even (x / 2 powi s) \<le> 2 ^ 53"
    using round_half_even_mono round_half_even_of_int by metis
  have "(0::rat) \<le> x / 2 powi s" using assms by simp
  then have lo: "0 \<le> round_half_even (x / 2 powi s)" using round_half_even_mono round_half_even_0 by metis
  show ?thesis using f lo hi by (intro exI [of _ "round_half_even (x / 2 powi s)"] exI [of _ s]) (auto simp: s_def)
qed

lemma fl_idem_pos: assumes "0 < x" shows "fl (fl x) = fl x"
proof -
  obtain m k where "fl x = of_int m * 2 powi k" "0 \<le> m" "m \<le> 2 ^ 53" "- 1074 \<le> k"
    using fl_pos_form [OF assms] by blast
  then show ?thesis using fl_exact [of m k] by simp
qed

lemma fl_idem: "fl (fl x) = fl x"
proof -
  consider "x = 0" | "0 < x" | "0 < - x" by linarith
  then show ?thesis
  proof cases
    case 1
    then show ?thesis by simp
  next
    case 2
    then show ?thesis by (rule fl_idem_pos)
  next
    case 3
    have "fl (fl (- x)) = fl (- x)" using 3 by (rule fl_idem_pos)
    then show ?thesis by (simp add: fl_minus)
  qed
qed

lemma fl_nonneg: assumes "0 \<le> x" shows "0 \<le> fl x"
proof (cases "x = 0")
  case True
  then show ?thesis by simp
next
  case False
  with assms have "0 < x" by simp
  then obtain m k where "fl x = of_int m * 2 powi k" "0 \<le> m" using fl_pos_form by blast
  then show ?thesis by simp
qed

lemma fl_mono_pos:
  assumes "0 < x" "x \<le> y" shows "fl x \<le> fl y"
proof -
  define s where "s = max (binade x) (- 1022) - 52"
  define t where "t = max (binade y) (- 1022) - 52"
  have y: "0 < y" using assms by simp
  have fx: "fl x = of_int (round_half_even (x / 2 powi s)) * 2 powi s"
    using assms by (simp add: fl_def ulp_def s_def)
  have fy: "fl y = of_int (round_half_even (y / 2 powi t)) * 2 powi t"
    using y by (simp add: fl_def ulp_def t_def)
  have st: "s \<le> t" using binade_mono [OF assms] by (simp add: s_def t_def)
  show ?thesis
  proof (cases "s = t")
    case True
    have "round_half_even (x / 2 powi s) \<le> round_half_even (y / 2 powi s)"
      using assms by (intro round_half_even_mono divide_right_mono) auto
    with True show ?thesis by (simp add: fx fy)
  next
    case False
    with st have lt: "s + 1 \<le> t" by simp
    have "x < 2 powi (s + 53)"
      using binade_bounds [OF assms(1)] powi_mono [of "binade x + 1" "s + 53"] by (auto simp: s_def)
    then have "x / 2 powi s \<le> of_int (2 ^ 53)" by (simp add: pos_divide_le_eq power_int_add mult.commute)
    then have "round_half_even (x / 2 powi s) \<le> 2 ^ 53" using round_half_even_mono round_half_even_of_int by metis
    then have "of_int (round_half_even (x / 2 powi s)) \<le> (rat_of_int (2 ^ 53))" using of_int_le_iff by blast
    then have "fl x \<le> of_int (2 ^ 53) * 2 powi s" unfolding fx by (rule mult_right_mono) simp
    also have "\<dots> = 2 powi (s + 1) * 2 powi 52" by (simp add: power_int_add)
    also have "\<dots> \<le> 2 powi t * 2 powi 52" using powi_mono [OF lt] by (intro mult_right_mono) auto
    finally have xb: "fl x \<le> of_int (2 ^ 52) * 2 powi t" by (simp add: mult.commute)
    have "t + 52 = binade y" using lt by (auto simp: s_def t_def)
    then have "2 powi (t + 52) \<le> y" using binade_bounds [OF y] by simp
    then have "of_int (2 ^ 52) \<le> y / 2 powi t" by (simp add: pos_le_divide_eq power_int_add mult.commute)
    then have "2 ^ 52 \<le> round_half_even (y / 2 powi t)" using round_half_even_mono round_half_even_of_int by metis
    then have "rat_of_int (2 ^ 52) \<le> of_int (round_half_even (y / 2 powi t))" using of_int_le_iff by blast
    then have "of_int (2 ^ 52) * 2 powi t \<le> fl y" unfolding fy by (rule mult_right_mono) simp
    with xb show ?thesis by linarith
  qed
qed

lemma fl_mono: assumes "x \<le> y" shows "fl x \<le> fl y"
proof -
  consider "0 < x" | "x \<le> 0" "0 \<le> y" | "y < 0" by linarith
  then show ?thesis
  proof cases
    case 1
    then show ?thesis using assms by (rule fl_mono_pos)
  next
    case 2
    have "0 \<le> fl (- x)" using 2 by (intro fl_nonneg) simp
    then have "fl x \<le> 0" by (simp add: fl_minus)
    with fl_nonneg [OF 2(2)] show ?thesis by linarith
  next
    case 3
    have "fl (- y) \<le> fl (- x)" using 3 assms by (intro fl_mono_pos) auto
    then show ?thesis by (simp add: fl_minus)
  qed
qed


text \<open>Numbers with an exact result: integers, halves, quarters and so on of moderate size.\<close>

lemma fl_of_int: "\<bar>n\<bar> \<le> 2 ^ 53 \<Longrightarrow> fl (of_int n) = of_int n"
  using fl_exact [of n 0] by simp

lemma fl_numeral [fl_simps]: "numeral n \<le> (2 ^ 53 :: int) \<Longrightarrow> fl (numeral n) = numeral n"
  using fl_of_int [of "numeral n"] by simp

lemma fl_1 [simp]: "fl 1 = 1"
  using fl_of_int [of 1] by simp

section \<open>The interface of a rounding, and what guarded arithmetic may rely on\<close>

text \<open>
  The business code never needs more of the float unit than this: rounding is monotone,
  keeps 0, and leaves rounded values alone. Everything the guarded updates of the program
  promise (a stock that was checked against a quantity stays non-negative, a balance does
  not grow when a non-negative amount is taken off) follows from these three laws.
\<close>

locale rounding =
  fixes rnd :: "rat \<Rightarrow> rat"
  assumes rnd_mono: "x \<le> y \<Longrightarrow> rnd x \<le> rnd y"
    and rnd_zero: "rnd 0 = 0"
    and rnd_idem: "rnd (rnd x) = rnd x"
begin

lemma nonneg: "0 \<le> x \<Longrightarrow> 0 \<le> rnd x"
  using rnd_mono [of 0 x] rnd_zero by simp

lemma nonpos: "x \<le> 0 \<Longrightarrow> rnd x \<le> 0"
  using rnd_mono [of x 0] rnd_zero by simp

lemma add_nonneg: "0 \<le> a \<Longrightarrow> 0 \<le> b \<Longrightarrow> 0 \<le> rnd (a + b)"
  by (rule nonneg) simp

lemma sub_nonneg: "b \<le> a \<Longrightarrow> 0 \<le> rnd (a - b)"
  by (rule nonneg) simp

lemma mul_nonneg: "0 \<le> a \<Longrightarrow> 0 \<le> b \<Longrightarrow> 0 \<le> rnd (a * b)"
  by (rule nonneg) simp

lemma sub_le: "rnd c = c \<Longrightarrow> a \<le> c \<Longrightarrow> 0 \<le> b \<Longrightarrow> rnd (a - b) \<le> c"
  using rnd_mono [of "a - b" c] by simp

lemma add_ge: "rnd a = a \<Longrightarrow> 0 \<le> b \<Longrightarrow> a \<le> rnd (a + b)"
  using rnd_mono [of a "a + b"] by simp

lemma sum_nonneg: "\<forall>x \<in> set xs. 0 \<le> x \<Longrightarrow> 0 \<le> a \<Longrightarrow> 0 \<le> foldl (\<lambda>s x. rnd (s + x)) a xs"
  by (induction xs arbitrary: a) (auto intro: add_nonneg)

lemma sum_mono:
  "list_all2 (\<le>) xs ys \<Longrightarrow> a \<le> b
    \<Longrightarrow> foldl (\<lambda>s x. rnd (s + x)) a xs \<le> foldl (\<lambda>s x. rnd (s + x)) b ys"
proof (induction xs ys arbitrary: a b rule: list_all2_induct)
  case (Cons x xs y ys)
  have "rnd (a + x) \<le> rnd (b + y)" using Cons.hyps Cons.prems by (intro rnd_mono) simp
  then show ?case using Cons.IH by simp
qed simp

end

interpretation binary64: rounding fl
  by unfold_locales (auto simp: fl_mono fl_idem)

lemma fadd_nonneg [intro]: "0 \<le> a \<Longrightarrow> 0 \<le> b \<Longrightarrow> 0 \<le> fadd a b"
  unfolding fadd_def by (rule binary64.add_nonneg)

lemma fsub_nonneg [intro]: "b \<le> a \<Longrightarrow> 0 \<le> fsub a b"
  unfolding fsub_def by (rule binary64.sub_nonneg)

lemma fmul_nonneg [intro]: "0 \<le> a \<Longrightarrow> 0 \<le> b \<Longrightarrow> 0 \<le> fmul a b"
  unfolding fmul_def by (rule binary64.mul_nonneg)

lemma fdiv_nonneg [intro]: "0 \<le> a \<Longrightarrow> 0 \<le> b \<Longrightarrow> 0 \<le> fdiv a b"
  unfolding fdiv_def by (rule binary64.nonneg) simp

lemma fsub_le: "is_float c \<Longrightarrow> a \<le> c \<Longrightarrow> 0 \<le> b \<Longrightarrow> fsub a b \<le> c"
  unfolding fsub_def is_float_def by (rule binary64.sub_le)

lemma fadd_ge: "is_float a \<Longrightarrow> 0 \<le> b \<Longrightarrow> a \<le> fadd a b"
  unfolding fadd_def is_float_def by (rule binary64.add_ge)

lemma fadd_mono: "a \<le> c \<Longrightarrow> b \<le> d \<Longrightarrow> fadd a b \<le> fadd c d"
  unfolding fadd_def by (rule fl_mono) simp

lemma fsub_mono: "a \<le> c \<Longrightarrow> d \<le> b \<Longrightarrow> fsub a b \<le> fsub c d"
  unfolding fsub_def by (rule fl_mono) simp

lemma is_float_ops [simp, intro]:
  "is_float (fadd a b)" "is_float (fsub a b)" "is_float (fmul a b)" "is_float (fdiv a b)"
  "is_float (fround2 a)" "is_float 0"
  by (simp_all add: is_float_def fadd_def fsub_def fmul_def fdiv_def fround2_def fl_idem)

lemma fadd_0 [simp]: "is_float a \<Longrightarrow> fadd a 0 = a" "is_float a \<Longrightarrow> fadd 0 a = a"
  by (simp_all add: fadd_def is_float_def)

lemma fsub_0 [simp]: "is_float a \<Longrightarrow> fsub a 0 = a" "fsub a a = 0"
  by (simp_all add: fsub_def is_float_def)

lemma fround2_mono: "a \<le> b \<Longrightarrow> fround2 a \<le> fround2 b"
  unfolding fround2_def by (intro fl_mono divide_right_mono) (auto intro: round_half_even_mono)

lemma fround2_0 [simp]: "fround2 0 = 0"
  by (simp add: fround2_def)

lemma fround2_nonneg [intro]: "0 \<le> a \<Longrightarrow> 0 \<le> fround2 a"
  using fround2_mono [of 0 a] by simp

lemma fsum_nonneg [intro]: "\<forall>x \<in> set xs. 0 \<le> x \<Longrightarrow> 0 \<le> fsum xs"
  unfolding fsum_def fadd_def by (rule binary64.sum_nonneg) auto

lemma is_float_fsum [simp]: "is_float (fsum xs)"
  by (cases xs rule: rev_cases) (simp_all add: fsum_def)

section \<open>Whole amounts\<close>

text \<open>
  On whole numbers below \<open>2^53\<close> the arithmetic is exact, so an update and its inverse cancel.
\<close>

definition whole :: "pyfloat \<Rightarrow> bool" where
  "whole x \<longleftrightarrow> x = of_int \<lfloor>x\<rfloor> \<and> \<bar>\<lfloor>x\<rfloor>\<bar> \<le> 2 ^ 52"

lemma wholeE:
  assumes "whole x" obtains n where "x = of_int n" "\<bar>n\<bar> \<le> 2 ^ 52"
  using assms unfolding whole_def by blast

lemma whole_fadd: assumes "whole a" "whole b" shows "fadd a b = a + b"
proof -
  obtain m n where mn: "a = of_int m" "\<bar>m\<bar> \<le> 2 ^ 52" "b = of_int n" "\<bar>n\<bar> \<le> 2 ^ 52"
    using assms by (metis wholeE)
  then have "\<bar>m + n\<bar> \<le> 2 ^ 53" by (simp add: abs_le_iff)
  then show ?thesis using fl_of_int [of "m + n"] mn by (simp add: fadd_def)
qed

lemma whole_fsub: assumes "whole a" "whole b" shows "fsub a b = a - b"
proof -
  obtain m n where mn: "a = of_int m" "\<bar>m\<bar> \<le> 2 ^ 52" "b = of_int n" "\<bar>n\<bar> \<le> 2 ^ 52"
    using assms by (metis wholeE)
  then have "\<bar>m - n\<bar> \<le> 2 ^ 53" by (simp add: abs_le_iff)
  then show ?thesis using fl_of_int [of "m - n"] mn by (simp add: fsub_def)
qed

lemma whole_fsub_fadd:
  assumes "whole a" "whole b" shows "fadd (fsub a b) b = a"
proof -
  obtain m where m: "a = of_int m" "\<bar>m\<bar> \<le> 2 ^ 52" using assms(1) by (rule wholeE)
  then have "fl a = a" using fl_of_int [of m] by simp
  then show ?thesis using whole_fsub [OF assms] by (simp add: fadd_def)
qed

lemma whole_fadd_fsub:
  assumes "whole a" "whole b" shows "fsub (fadd a b) b = a"
proof -
  obtain m where m: "a = of_int m" "\<bar>m\<bar> \<le> 2 ^ 52" using assms(1) by (rule wholeE)
  then have "fl a = a" using fl_of_int [of m] by simp
  then show ?thesis using whole_fadd [OF assms] by (simp add: fsub_def)
qed

end
