(* ===== verification/Prelude.thy ===== *)
theory Prelude
  imports Float64 "HOL-Library.Char_ord" "HOL-Library.List_Lexorder"
begin

text \<open>
  What every component shares: exceptions as values, the parts of an f-string, JSON values,
  and the tables of the database with the interface \<open>row_store\<close> that the services use.

  A table is the list of its rows in insertion order. \<open>query(X).filter(X.id == i).first()\<close>
  is \<open>get_row\<close>, assigning attributes of an object of the session is \<open>put_row\<close>,
  \<open>db.add\<close> followed by a flush is \<open>add_row\<close> with the key \<open>next_id\<close> (SQLite gives a new row the
  largest key in use plus one), and \<open>db.delete\<close> is \<open>del_row\<close>.
\<close>

section \<open>Exceptions, f-strings, JSON\<close>

text \<open>
  A message built by an f-string is kept as the list of its parts, so that no rendering of
  numbers has to be modelled: \<open>T\<close> a literal or string part, \<open>I\<close> an integer, \<open>D\<close> a float,
  \<open>F2\<close> a float with the format \<open>.2f\<close>, \<open>At\<close> an instant and \<open>Day\<close> a date in ISO format.
\<close>

datatype frag = T string | I int | D pyfloat | F2 pyfloat | At int | Day int

type_synonym fstring = "frag list"

datatype pyexc =
    HTTPException nat fstring
  | AttributeError
  | IntegrityError
  | TypeError
  | ValueError fstring
  | OSError
  | DatabaseError

type_synonym 'a res = "pyexc + 'a"

abbreviation http :: "nat \<Rightarrow> string \<Rightarrow> 'a res" where
  "http status detail \<equiv> Inl (HTTPException status [T detail])"

datatype jval = JNull | JInt int | JFloat pyfloat | JStr string | JBool bool | JText fstring | JList "jval list" | JObj "(string \<times> jval) list"

definition jopt :: "string option \<Rightarrow> jval" where
  "jopt x = (case x of None \<Rightarrow> JNull | Some s \<Rightarrow> JStr s)"

definition jint :: "int option \<Rightarrow> jval" where
  "jint x = (case x of None \<Rightarrow> JNull | Some i \<Rightarrow> JInt i)"

type_synonym jobject = "(string \<times> jval) list"

definition json_sorted :: "jobject \<Rightarrow> jobject" where
  \<comment> \<open>\<open>json.dumps(..., sort_keys=True)\<close>, kept as the ordered list of members\<close>
  "json_sorted d = sort_key fst d"

text \<open>Truth value of an optional string: \<open>None\<close> and the empty string are false.\<close>

definition truthy :: "string option \<Rightarrow> bool" where
  "truthy x = (case x of None \<Rightarrow> False | Some s \<Rightarrow> s \<noteq> [])"

section \<open>Inversion of guard chains\<close>

text \<open>
  A handler is a chain of guards that raise, lookups that may fail and a final result.
  These equations turn "the handler returned normally" into the conjunction of its guards.
\<close>

named_theorems res_simps \<open>success of a chain of guards\<close>

lemma if_raise_Inr [res_simps]: "((if c then Inl e else k) = Inr y) \<longleftrightarrow> \<not> c \<and> k = Inr y"
  by simp

lemma case_None_raise_Inr [res_simps]:
  "((case x of None \<Rightarrow> Inl e | Some a \<Rightarrow> k a) = Inr y) \<longleftrightarrow> (\<exists>a. x = Some a \<and> k a = Inr y)"
  by (cases x) auto

lemma case_prod_Inr [res_simps]:
  "((case p of (a, b) \<Rightarrow> k a b) = Inr y) \<longleftrightarrow> k (fst p) (snd p) = Inr y"
  by (cases p) auto

lemma case_Inl_Inr [res_simps]:
  "((case r of Inl e \<Rightarrow> Inl e | Inr a \<Rightarrow> k a) = Inr y) \<longleftrightarrow> (\<exists>a. r = Inr a \<and> k a = Inr y)"
  by (cases r) auto

text \<open>Early exits: the optional exception of a checking function.\<close>

definition ok :: "unit res" where "ok = Inr ()"

definition check :: "unit res \<Rightarrow> 'a res \<Rightarrow> 'a res" where
  "check c k = (case c of Inl e \<Rightarrow> Inl e | Inr _ \<Rightarrow> k)"

lemma check_Inr [res_simps]: "(check c k = Inr y) \<longleftrightarrow> c = ok \<and> k = Inr y"
  by (cases c) (auto simp: check_def ok_def)

lemma check_eq_ok [res_simps]: "check c k = ok \<longleftrightarrow> c = ok \<and> k = ok"
  by (cases c) (auto simp: check_def ok_def)

definition outcome :: "('a \<times> 'd) res \<Rightarrow> 'd res" where
  \<comment> \<open>the state a handler leaves, without its answer\<close>
  "outcome r = (case r of Inl e \<Rightarrow> Inl e | Inr (_, d) \<Rightarrow> Inr d)"

lemma outcome_Inr [res_simps]: "outcome r = Inr d \<longleftrightarrow> (\<exists>a. r = Inr (a, d))"
  by (auto simp: outcome_def split: sum.splits)

lemma not_isl_pair: "\<not> isl r \<Longrightarrow> r = Inr (fst (projr r), snd (projr r))"
  by (cases r) simp_all

lemma check_ok [simp]: "check ok k = k" "check (Inr ()) k = k" "check (Inl e) k = Inl e"
  by (simp_all add: check_def ok_def)

lemma ok_not_Inl [simp]: "ok \<noteq> Inl e" "Inl e \<noteq> ok"
  by (simp_all add: ok_def)

lemma if_ok_raise [res_simps]:
  "((if c then ok else Inl e) = ok) \<longleftrightarrow> c"
  "((if c then Inl e else ok) = ok) \<longleftrightarrow> \<not> c"
  by simp_all

section \<open>Tables\<close>

definition get_row :: "('r \<Rightarrow> int) \<Rightarrow> 'r list \<Rightarrow> int \<Rightarrow> 'r option" where
  "get_row key t i = find (\<lambda>r. key r = i) t"

definition put_row :: "('r \<Rightarrow> int) \<Rightarrow> 'r \<Rightarrow> 'r list \<Rightarrow> 'r list" where
  "put_row key r t = map (\<lambda>x. if key x = key r then r else x) t"

definition next_id :: "('r \<Rightarrow> int) \<Rightarrow> 'r list \<Rightarrow> int" where
  "next_id key t = foldr (\<lambda>r. max (key r)) t 0 + 1"

definition add_row :: "'r \<Rightarrow> 'r list \<Rightarrow> 'r list" where
  "add_row r t = t @ [r]"

definition del_row :: "('r \<Rightarrow> int) \<Rightarrow> int \<Rightarrow> 'r list \<Rightarrow> 'r list" where
  "del_row key i t = filter (\<lambda>r. key r \<noteq> i) t"

definition keyed :: "('r \<Rightarrow> int) \<Rightarrow> 'r list \<Rightarrow> bool" where
  \<comment> \<open>the primary key constraint\<close>
  "keyed key t \<longleftrightarrow> distinct (map key t)"

text \<open>
  The interface the services rely on. Its laws are what a relational table with an integer
  primary key promises: a lookup returns the row last written under its key, a new key is
  not in use, the key constraint is kept.
\<close>

locale row_store =
  fixes key :: "'r \<Rightarrow> int"
    and get :: "'t \<Rightarrow> int \<Rightarrow> 'r option"
    and put :: "'r \<Rightarrow> 't \<Rightarrow> 't"
    and add :: "'r \<Rightarrow> 't \<Rightarrow> 't"
    and del :: "int \<Rightarrow> 't \<Rightarrow> 't"
    and fresh :: "'t \<Rightarrow> int"
    and rows :: "'t \<Rightarrow> 'r set"
    and wf :: "'t \<Rightarrow> bool"
  assumes get_sound: "get t i = Some r \<Longrightarrow> r \<in> rows t \<and> key r = i"
    and get_complete: "wf t \<Longrightarrow> r \<in> rows t \<Longrightarrow> get t (key r) = Some r"
    and get_put: "get (put r t) i = (if i = key r \<and> get t i \<noteq> None then Some r else get t i)"
    and get_add: "key r = fresh t \<Longrightarrow> get (add r t) i = (if i = key r then Some r else get t i)"
    and get_del: "get (del i t) j = (if j = i then None else get t j)"
    and get_fresh: "get t (fresh t) = None"
    and rows_put: "rows (put r t) \<subseteq> insert r (rows t)"
    and rows_add: "rows (add r t) = insert r (rows t)"
    and rows_del: "rows (del i t) \<subseteq> rows t"
    and wf_put: "wf t \<Longrightarrow> wf (put r t)"
    and wf_add: "wf t \<Longrightarrow> key r = fresh t \<Longrightarrow> wf (add r t)"
    and wf_del: "wf t \<Longrightarrow> wf (del i t)"
begin

lemma get_put_same: "get t (key r) = Some x \<Longrightarrow> get (put r t) (key r) = Some r"
  by (simp add: get_put)

lemma get_put_other: "i \<noteq> key r \<Longrightarrow> get (put r t) i = get t i"
  by (simp add: get_put)

lemma get_add_same: "key r = fresh t \<Longrightarrow> get (add r t) (key r) = Some r"
  by (simp add: get_add)

lemma get_add_old: "key r = fresh t \<Longrightarrow> get t i = Some x \<Longrightarrow> get (add r t) i = Some x"
  using get_fresh [of t] by (auto simp: get_add)

lemma all_put: "\<forall>x \<in> rows t. P x \<Longrightarrow> P r \<Longrightarrow> \<forall>x \<in> rows (put r t). P x"
  using rows_put by blast

lemma all_add: "\<forall>x \<in> rows t. P x \<Longrightarrow> P r \<Longrightarrow> \<forall>x \<in> rows (add r t). P x"
  by (simp add: rows_add)

lemma all_del: "\<forall>x \<in> rows t. P x \<Longrightarrow> \<forall>x \<in> rows (del i t). P x"
  using rows_del by blast

lemma all_get: "\<forall>x \<in> rows t. P x \<Longrightarrow> get t i = Some r \<Longrightarrow> P r"
  using get_sound by blast

end

lemma get_row_Some: "get_row key t i = Some r \<Longrightarrow> r \<in> set t \<and> key r = i"
  unfolding get_row_def by (metis (mono_tags, lifting) find_Some_iff nth_mem)

lemma get_row_None: "get_row key t i = None \<longleftrightarrow> i \<notin> key ` set t"
  by (auto simp: get_row_def find_None_iff)

lemma get_row_Nil [simp]: "get_row key [] i = None"
  by (simp add: get_row_def)

lemma get_row_Cons: "get_row key (r # t) i = (if key r = i then Some r else get_row key t i)"
  by (simp add: get_row_def)

lemma get_row_append:
  "get_row key (s @ t) i = (case get_row key s i of None \<Rightarrow> get_row key t i | Some r \<Rightarrow> Some r)"
  by (induction s) (simp_all add: get_row_def)

lemma next_id_greater: "r \<in> set t \<Longrightarrow> key r < next_id key t"
  by (induction t) (auto simp: next_id_def)

lemma next_id_fresh: "next_id key t \<notin> key ` set t"
  by (auto dest: next_id_greater [of _ t key])

lemma set_put_row: "set (put_row key r t) \<subseteq> insert r (set t)"
  by (auto simp: put_row_def)

lemma map_key_put_row [simp]: "map key (put_row key r t) = map key t"
  by (simp add: put_row_def)

lemma get_put_row:
  "get_row key (put_row key r t) i = (if i = key r \<and> get_row key t i \<noteq> None then Some r else get_row key t i)"
proof (induction t)
  case Nil
  then show ?case by (simp add: get_row_def put_row_def)
next
  case (Cons x t)
  have "put_row key r (x # t) = (if key x = key r then r else x) # put_row key r t"
    by (simp add: put_row_def)
  with Cons show ?case by (auto simp: get_row_Cons)
qed

lemma put_row_put_row: "key r = key r' \<Longrightarrow> put_row key r (put_row key r' t) = put_row key r t"
  by (simp add: put_row_def)

lemma put_row_get: "keyed key t \<Longrightarrow> get_row key t (key r) = Some r \<Longrightarrow> put_row key r t = t"
proof -
  assume K: "keyed key t" and G: "get_row key t (key r) = Some r"
  from get_row_Some [OF G] have "r \<in> set t" by blast
  with K have "\<And>x. x \<in> set t \<Longrightarrow> key x = key r \<Longrightarrow> x = r"
    unfolding keyed_def distinct_map by (blast dest: inj_onD)
  then show ?thesis unfolding put_row_def by (intro map_idI) metis
qed

lemma get_put_row_same:
  "get_row key t i = Some x \<Longrightarrow> key r = i \<Longrightarrow> get_row key (put_row key r t) i = Some r"
  by (simp add: get_put_row)

lemma put_rowD: "x \<in> set (put_row key r t) \<Longrightarrow> x = r \<or> x \<in> set t"
  using set_put_row [of key r t] by blast

lemma all_put_row [simp]: "list_all P t \<Longrightarrow> P r \<Longrightarrow> list_all P (put_row key r t)"
  by (auto simp: list_all_iff dest!: put_rowD)

lemma all_del_row [simp]: "list_all P t \<Longrightarrow> list_all P (del_row key i t)"
  by (auto simp: list_all_iff del_row_def)

lemma all_add_row [simp]: "list_all P (add_row r t) \<longleftrightarrow> list_all P t \<and> P r"
  by (simp add: add_row_def)

lemma all_get_row: "list_all P t \<Longrightarrow> get_row key t i = Some r \<Longrightarrow> P r"
  by (auto simp: list_all_iff dest: get_row_Some)

interpretation table: row_store key "get_row key" "put_row key" add_row "del_row key" "next_id key" set "keyed key"
  for key :: "'r \<Rightarrow> int"
proof
  fix t :: "'r list" and r i j
  show "get_row key t i = Some r \<Longrightarrow> r \<in> set t \<and> key r = i" by (rule get_row_Some)
  show "keyed key t \<Longrightarrow> r \<in> set t \<Longrightarrow> get_row key t (key r) = Some r"
    by (induction t) (auto simp: keyed_def get_row_Cons)
  show "get_row key (put_row key r t) i
      = (if i = key r \<and> get_row key t i \<noteq> None then Some r else get_row key t i)" by (rule get_put_row)
  show "key r = next_id key t \<Longrightarrow> get_row key (add_row r t) i = (if i = key r then Some r else get_row key t i)"
    using next_id_fresh [of key t]
    by (auto simp: add_row_def get_row_append get_row_None [symmetric] get_row_Cons get_row_Nil split: option.splits)
  show "get_row key (del_row key i t) j = (if j = i then None else get_row key t j)"
    by (induction t) (auto simp: del_row_def get_row_def)
  show "get_row key t (next_id key t) = None" by (simp add: get_row_None next_id_fresh)
  show "set (put_row key r t) \<subseteq> insert r (set t)" by (rule set_put_row)
  show "set (add_row r t) = insert r (set t)" by (simp add: add_row_def)
  show "set (del_row key i t) \<subseteq> set t" by (auto simp: del_row_def)
  show "keyed key t \<Longrightarrow> keyed key (put_row key r t)" by (simp add: keyed_def)
  show "keyed key t \<Longrightarrow> key r = next_id key t \<Longrightarrow> keyed key (add_row r t)"
    by (simp add: keyed_def add_row_def next_id_fresh)
  show "keyed key t \<Longrightarrow> keyed key (del_row key i t)"
    by (simp add: keyed_def del_row_def distinct_map_filter)
qed

text \<open>Writing or deleting the row of one key leaves the row of another key alone.\<close>

lemma row_keys_differ:
  assumes "get_row key t j = Some y" "get_row key t i = Some x" "x \<noteq> y" shows "key y = j \<and> i \<noteq> j"
  using assms get_row_Some [OF assms(1)] by auto

lemma put_row_other:
  assumes "get_row key t j = Some y" "get_row key t i = Some x" "x \<noteq> y" "key r = key y"
  shows "get_row key (put_row key r t) i = Some x"
  using row_keys_differ [OF assms(1-3)] assms(2,4) by (simp add: get_put_row)

lemma del_row_other:
  assumes "get_row key t j = Some y" "get_row key t i = Some x" "x \<noteq> y"
  shows "get_row key (del_row key (key y) t) i = Some x"
  using row_keys_differ [OF assms] assms(2) by (simp add: table.get_del)

lemma distinct_put_row:
  "distinct (map f t) \<Longrightarrow> \<forall>x \<in> set t. key x \<noteq> key r \<longrightarrow> f x \<noteq> f r \<Longrightarrow> keyed key t \<Longrightarrow> distinct (map f (put_row key r t))"
proof (induction t)
  case (Cons x t)
  show ?case
  proof (cases "key x = key r")
    case True
    with Cons.prems(3) have k: "key y \<noteq> key r" if "y \<in> set t" for y
      using that by (auto simp: keyed_def) (metis imageI)
    then have "put_row key r (x # t) = r # t" using True by (auto simp: put_row_def intro!: map_idI)
    with k Cons.prems(1,2) show ?thesis by force
  next
    case False
    have "put_row key r (x # t) = x # put_row key r t" using False by (simp add: put_row_def)
    moreover have "f x \<notin> f ` set (put_row key r t)"
      using Cons.prems(1,2) False set_put_row [of key r t] by auto
    ultimately show ?thesis using Cons by (simp add: keyed_def)
  qed
qed (simp add: put_row_def)

lemma put_row_unchanged: "x \<in> set t \<Longrightarrow> key x \<noteq> key r \<Longrightarrow> x \<in> set (put_row key r t)"
  by (auto simp: put_row_def)

lemma put_row_mem: "get_row key t (key r) = Some x \<Longrightarrow> r \<in> set (put_row key r t)"
  using get_row_Some [of key t "key r" x] by (auto simp: put_row_def intro!: rev_image_eqI)

lemma find_None_all: "find P t = None \<longleftrightarrow> (\<forall>x \<in> set t. \<not> P x)"
  by (auto simp: find_None_iff)

lemma put_row_split: "x \<in> set (put_row key r t) \<Longrightarrow> x = r \<or> (x \<in> set t \<and> key x \<noteq> key r)"
  by (auto simp: put_row_def)

text \<open>Ordering rows commutes with mapping them.\<close>

lemma insort_key_map: "insort_key k (h x) (map h xs) = map h (insort_key (k \<circ> h) x xs)"
  by (induction xs) simp_all

lemma sort_key_map: "sort_key k (map h xs) = map h (sort_key (k \<circ> h) xs)"
  by (induction xs) (simp_all add: insort_key_map [unfolded comp_def] comp_def)

fun count_by :: "('r \<Rightarrow> string) \<Rightarrow> 'r list \<Rightarrow> (string \<times> nat) list \<Rightarrow> (string \<times> nat) list" where
  \<comment> \<open>\<open>d[key] = d.get(key, 0) + 1\<close> over the rows\<close>
  "count_by f [] counts = counts"
| "count_by f (x # xs) counts =
     count_by f xs (case map_of counts (f x) of None \<Rightarrow> counts @ [(f x, 1)]
                    | Some n \<Rightarrow> map (\<lambda>(k, m). if k = f x then (k, n + 1) else (k, m)) counts)"

section \<open>Partial updates\<close>

text \<open>
  \<open>data.model_dump(exclude_unset=True)\<close> of an update schema: a field of the request body is either
  absent or carries a value, possibly an explicit \<open>null\<close>. \<open>setattr\<close> assigns the present ones;
  a \<open>null\<close> in a column that is not nullable fails at the commit.
\<close>

datatype 'a patch = Unset | Set 'a

definition assign :: "'a patch \<Rightarrow> 'a \<Rightarrow> 'a" where
  "assign p x = (case p of Unset \<Rightarrow> x | Set y \<Rightarrow> y)"

definition is_null :: "'a option patch \<Rightarrow> bool" where
  "is_null p \<longleftrightarrow> (case p of Set None \<Rightarrow> True | _ \<Rightarrow> False)"

definition assign_value :: "'a option patch \<Rightarrow> 'a \<Rightarrow> 'a" where
  \<comment> \<open>assignment to a column that is not nullable\<close>
  "assign_value p x = (case p of Set (Some y) \<Rightarrow> y | _ \<Rightarrow> x)"

lemma patch_simps [simp]:
  "assign Unset x = x" "assign (Set y) x = y" "assign_value Unset x = x" "assign_value (Set (Some z)) x = z"
  "\<not> is_null Unset" "is_null (Set v) \<longleftrightarrow> v = None"
  by (simp_all add: assign_def assign_value_def is_null_def split: option.split)

definition patch_details :: "string \<Rightarrow> ('a \<Rightarrow> jval) \<Rightarrow> 'a option patch \<Rightarrow> jobject" where
  \<comment> \<open>the member of \<open>model_dump(exclude_unset=True)\<close> for one field\<close>
  "patch_details name f p = (case p of Unset \<Rightarrow> [] | Set None \<Rightarrow> [(name, JNull)] | Set (Some v) \<Rightarrow> [(name, f v)])"

section \<open>Strings\<close>

text \<open>
  \<open>str.strip\<close> and \<open>str.lower\<close> / \<open>str.upper\<close> on ASCII text (the codes, names and modes the program
  normalises); other code points are left alone.
\<close>

definition is_space :: "char \<Rightarrow> bool" where
  "is_space c \<longleftrightarrow> c \<in> set [CHR '' '', CHR 0x09, CHR 0x0A, CHR 0x0B, CHR 0x0C, CHR 0x0D, CHR 0x1C, CHR 0x1D, CHR 0x1E, CHR 0x1F]"

definition py_strip :: "string \<Rightarrow> string" where
  "py_strip s = rev (dropWhile is_space (rev (dropWhile is_space s)))"

definition lower_char :: "char \<Rightarrow> char" where
  "lower_char c = (if CHR ''A'' \<le> c \<and> c \<le> CHR ''Z'' then char_of (of_char c + 32 :: nat) else c)"

definition upper_char :: "char \<Rightarrow> char" where
  "upper_char c = (if CHR ''a'' \<le> c \<and> c \<le> CHR ''z'' then char_of (of_char c - 32 :: nat) else c)"

definition py_lower :: "string \<Rightarrow> string" where "py_lower s = map lower_char s"

definition py_upper :: "string \<Rightarrow> string" where "py_upper s = map upper_char s"

definition py_startswith :: "string \<Rightarrow> string \<Rightarrow> bool" where
  "py_startswith s p \<longleftrightarrow> take (length p) s = p"

fun sql_like :: "string \<Rightarrow> string \<Rightarrow> bool" where
  \<comment> \<open>\<open>s LIKE p\<close>: a percent sign stands for any text, an underscore for any character\<close>
  "sql_like [] s \<longleftrightarrow> s = []"
| "sql_like (c # p) s \<longleftrightarrow>
     (if c = CHR ''%'' then sql_like p s \<or> (case s of [] \<Rightarrow> False | _ # s' \<Rightarrow> sql_like (c # p) s')
      else case s of [] \<Rightarrow> False | x # s' \<Rightarrow> (c = CHR ''_'' \<or> c = x) \<and> sql_like p s')"

declare sql_like.simps(2) [simp del]

definition ilike :: "string \<Rightarrow> string \<Rightarrow> bool" where
  \<comment> \<open>\<open>column.ilike(f"%{search}%")\<close>\<close>
  "ilike search s \<longleftrightarrow> sql_like (''%'' @ py_lower search @ ''%'') (py_lower s)"

fun str_nat :: "nat \<Rightarrow> string" where
  "str_nat n = (if n < 10 then [char_of (48 + n)] else str_nat (n div 10) @ [char_of (48 + n mod 10)])"

declare str_nat.simps [simp del]

definition str_int :: "int \<Rightarrow> string" where
  \<comment> \<open>\<open>str(n)\<close>\<close>
  "str_int n = (if n < 0 then CHR ''-'' # str_nat (nat (- n)) else str_nat (nat n))"

definition zfill :: "nat \<Rightarrow> string \<Rightarrow> string" where
  "zfill width s =
     (let zeros = replicate (width - length s) (CHR ''0'') in
      case s of [] \<Rightarrow> zeros
      | c # t \<Rightarrow> if c = CHR ''-'' \<or> c = CHR ''+'' then c # zeros @ t else zeros @ s)"

definition is_digit :: "char \<Rightarrow> bool" where
  "is_digit c \<longleftrightarrow> CHR ''0'' \<le> c \<and> c \<le> CHR ''9''"

fun int_digits :: "string \<Rightarrow> int \<Rightarrow> bool \<Rightarrow> int option" where
  \<comment> \<open>decimal digits, with single underscores between them\<close>
  "int_digits [] acc after_digit = (if after_digit then Some acc else None)"
| "int_digits (c # s) acc after_digit =
     (if is_digit c then int_digits s (10 * acc + (of_char c - 48)) True
      else if c = CHR ''_'' \<and> after_digit then int_digits s acc False
      else None)"

definition parse_int :: "string \<Rightarrow> int option" where
  \<comment> \<open>\<open>int(s)\<close> on ASCII text, \<open>None\<close> where it raises\<close>
  "parse_int s =
     (case py_strip s of
        [] \<Rightarrow> None
      | c # t \<Rightarrow> if c = CHR ''-'' then map_option uminus (int_digits t 0 False)
                 else if c = CHR ''+'' then int_digits t 0 False
                 else int_digits (c # t) 0 False)"

text \<open>Numbers are printed in digits, and read back from them.\<close>

lemma int_digits_append: "list_all is_digit s \<Longrightarrow> s \<noteq> [] \<Longrightarrow>
    int_digits (s @ t) acc b = int_digits t (foldl (\<lambda>a c. 10 * a + (of_char c - 48)) acc s) True"
  by (induction s arbitrary: acc b) (auto, metis append_Nil foldl_Nil list.exhaust)

lemma is_digit_char_of: "n < 10 \<Longrightarrow> is_digit (char_of (48 + n :: nat))"
  by (simp add: is_digit_def less_eq_char_def)

lemma str_nat_digits: "list_all is_digit (str_nat n) \<and> str_nat n \<noteq> []
    \<and> foldl (\<lambda>a c. 10 * a + (of_char c - 48)) 0 (str_nat n) = int n"
proof (induction n rule: str_nat.induct)
  case (1 n)
  have oc: "(of_char (char_of (48 + k)) :: int) = 48 + int k" if "k < 10" for k :: nat
    using that of_nat_of_char [of "char_of (48 + k) :: char", where 'a = int] by simp
  show ?case
  proof (cases "n < 10")
    case True
    then show ?thesis by (subst (1 2 3) str_nat.simps) (simp add: is_digit_char_of oc)
  next
    case False
    have "int (n div 10) * 10 + int (n mod 10) = int n" by presburger
    with 1 False show ?thesis
      by (subst (1 2 3) str_nat.simps) (simp add: is_digit_char_of oc algebra_simps)
  qed
qed

lemma digit_not_space: "is_digit c \<Longrightarrow> \<not> is_space c \<and> c \<noteq> CHR ''-'' \<and> c \<noteq> CHR ''+''"
  by (auto simp: is_digit_def is_space_def less_eq_char_def)

lemma py_strip_digits: "list_all is_digit s \<Longrightarrow> py_strip s = s"
proof -
  assume *: "list_all is_digit s"
  have "dropWhile is_space t = t" if "list_all is_digit t" for t
    using that by (cases t) (simp_all add: digit_not_space)
  with * show ?thesis by (simp add: py_strip_def)
qed

lemma parse_str_nat: "parse_int (str_nat n) = Some (int n)"
proof -
  note d = str_nat_digits [of n]
  then obtain c t where s: "str_nat n = c # t" by (cases "str_nat n") auto
  with d have "c \<noteq> CHR ''-''" "c \<noteq> CHR ''+''" by (auto dest: digit_not_space)
  with d s show ?thesis
    using int_digits_append [of "str_nat n" "[]" 0 False] by (simp add: parse_int_def py_strip_digits)
qed

text \<open>Reading a printed number gives it back.\<close>

lemma parse_str_int: "parse_int (str_int i) = Some i"
proof (cases "i < 0")
  case True
  note d = str_nat_digits [of "nat (- i)"]
  have "py_strip (CHR ''-'' # str_nat (nat (- i))) = CHR ''-'' # str_nat (nat (- i))"
  proof -
    from d obtain s c where r: "str_nat (nat (- i)) = s @ [c]" "is_digit c"
      by (cases "str_nat (nat (- i))" rule: rev_cases) auto
    have "\<not> is_space (CHR ''-'')" by (simp add: is_space_def)
    then show ?thesis unfolding py_strip_def r(1) by (simp add: digit_not_space r(2))
  qed
  with True d show ?thesis
    using int_digits_append [of "str_nat (nat (- i))" "[]" 0 False] by (simp add: parse_int_def str_int_def)
qed (simp add: str_int_def parse_str_nat)

section \<open>Instants and days\<close>

text \<open>
  A naive UTC \<open>datetime\<close> is its number of microseconds since 1970-01-01, a \<open>date\<close> the number of
  days. One operation reads the clock once: \<open>utc_now\<close> is the \<open>now\<close> of its environment.
\<close>

type_synonym datetime = int
type_synonym date = int

definition minutes :: "int \<Rightarrow> datetime" where "minutes m = m * 60000000"
definition days :: "int \<Rightarrow> datetime" where "days d = d * 86400000000"
definition date_of :: "datetime \<Rightarrow> date" where "date_of t = t div 86400000000"
definition no_micros :: "datetime \<Rightarrow> datetime" where
  \<comment> \<open>\<open>replace(microsecond=0)\<close>\<close>
  "no_micros t = t - t mod 1000000"

end
