(* ===== verification/DataModel.thy ===== *)
theory DataModel
  imports Prelude
begin

text \<open>
  The database: one record per SQLAlchemy model of \<open>app/models\<close> (its columns in the order of
  the class, each with a prefix of the table), the record \<open>db\<close> of all tables, and the
  environment an operation runs in (the clock, the settings of \<open>app/core/config.py\<close>, the mail
  and message gateways). A nullable column is an \<open>option\<close>; numeric columns with a default are
  always present. Foreign keys are integers; a relationship attribute (\<open>nozzle.tank\<close>) is the
  lookup of the key, \<open>None\<close> when the row is gone. \<open>User.role\<close> is the only relationship stored with
  its row. The ten reversal columns that fuel sales, purchases and payments have in common are
  the record \<open>reversal\<close>.
\<close>

section \<open>Users, stations, modules\<close>

record role =
  role_id :: int
  role_name :: string
  role_description :: "string option"

record user =
  u_id :: int
  u_full_name :: string
  u_username :: string
  u_email :: "string option"
  u_phone :: "string option"
  u_whatsapp_number :: "string option"
  u_hashed_password :: string
  u_is_active :: bool
  u_failed_login_attempts :: int
  u_last_failed_login_at :: "datetime option"
  u_locked_until :: "datetime option"
  u_last_login_at :: "datetime option"
  u_monthly_salary :: pyfloat
  u_payroll_enabled :: bool
  u_role :: role
  u_organization_id :: "int option"
  u_station_id :: "int option"
  u_created_by_user_id :: "int option"
  u_scope_level :: string
  u_is_platform_user :: bool

record organization =
  or_id :: int
  or_name :: string
  or_code :: string
  or_description :: "string option"
  or_legal_name :: "string option"
  or_brand_catalog_id :: "int option"
  or_brand_name :: "string option"
  or_brand_code :: "string option"
  or_logo_url :: "string option"
  or_contact_email :: "string option"
  or_contact_phone :: "string option"
  or_registration_number :: "string option"
  or_tax_registration_number :: "string option"
  or_onboarding_status :: string
  or_billing_status :: string
  or_station_target_count :: "int option"
  or_inherit_branding_to_stations :: bool
  or_is_active :: bool

record station =
  st_id :: int
  st_name :: string
  st_code :: string
  st_address :: "string option"
  st_city :: "string option"
  st_organization_id :: "int option"
  st_is_head_office :: bool
  st_display_name :: "string option"
  st_legal_name_override :: "string option"
  st_brand_name :: "string option"
  st_brand_code :: "string option"
  st_logo_url :: "string option"
  st_use_organization_branding :: bool
  st_is_active :: bool
  st_setup_status :: string
  st_setup_completed_at :: "datetime option"
  st_has_shops :: bool
  st_has_pos :: bool
  st_has_tankers :: bool
  st_has_hardware :: bool
  st_allow_meter_adjustments :: bool
  st_created_at :: datetime

record organization_module_setting =
  om_id :: int
  om_organization_id :: int
  om_module_name :: string
  om_is_enabled :: bool

record station_module_setting =
  sm_id :: int
  sm_station_id :: int
  sm_module_name :: string
  sm_is_enabled :: bool

section \<open>Fuel assets\<close>

record fuel_type =
  ft_id :: int
  ft_name :: string
  ft_description :: "string option"

record tank =
  tk_id :: int
  tk_name :: string
  tk_code :: string
  tk_capacity :: pyfloat
  tk_current_volume :: pyfloat
  tk_low_stock_threshold :: pyfloat
  tk_location :: "string option"
  tk_station_id :: int
  tk_fuel_type_id :: int

record dispenser =
  dp_id :: int
  dp_name :: string
  dp_code :: string
  dp_location :: "string option"
  dp_station_id :: int

record nozzle =
  nz_id :: int
  nz_name :: string
  nz_code :: string
  nz_meter_reading :: pyfloat
  nz_segment_start_reading :: pyfloat
  nz_segment_started_at :: datetime
  nz_dispenser_id :: int
  nz_tank_id :: int
  nz_fuel_type_id :: int

record nozzle_reading =
  nr_id :: int
  nr_nozzle_id :: int
  nr_reading :: pyfloat
  nr_sale_id :: "int option"
  nr_created_at :: datetime

record meter_adjustment_event =
  ma_id :: int
  ma_nozzle_id :: int
  ma_station_id :: int
  ma_old_reading :: pyfloat
  ma_new_reading :: pyfloat
  ma_reason :: string
  ma_adjusted_by_user_id :: int
  ma_adjusted_at :: datetime

record tank_dip =
  td_id :: int
  td_tank_id :: int
  td_dip_reading_mm :: pyfloat
  td_calculated_volume :: pyfloat
  td_system_volume :: pyfloat
  td_loss_gain :: pyfloat
  td_notes :: "string option"
  td_created_at :: datetime

section \<open>Parties and documents\<close>

record reversal =
  is_reversed :: bool
  request_status :: "string option"
  requested_at :: "datetime option"
  requested_by :: "int option"
  request_reason :: "string option"
  reviewed_at :: "datetime option"
  reviewed_by :: "int option"
  rejection_reason :: "string option"
  reversed_at :: "datetime option"
  reversed_by :: "int option"

definition no_reversal :: reversal where
  "no_reversal = \<lparr>is_reversed = False, request_status = None, requested_at = None, requested_by = None,
     request_reason = None, reviewed_at = None, reviewed_by = None, rejection_reason = None,
     reversed_at = None, reversed_by = None\<rparr>"

record customer =
  cu_id :: int
  cu_name :: string
  cu_code :: string
  cu_customer_type :: string
  cu_phone :: "string option"
  cu_address :: "string option"
  cu_credit_limit :: pyfloat
  cu_outstanding_balance :: pyfloat
  cu_override_status :: "string option"
  cu_override_amount :: pyfloat
  cu_override_requested_amount :: pyfloat
  cu_override_requested_at :: "datetime option"
  cu_override_requested_by :: "int option"
  cu_override_reason :: "string option"
  cu_override_reviewed_at :: "datetime option"
  cu_override_reviewed_by :: "int option"
  cu_override_rejection_reason :: "string option"
  cu_station_id :: int

record supplier =
  su_id :: int
  su_name :: string
  su_code :: string
  su_phone :: "string option"
  su_address :: "string option"
  su_payable_balance :: pyfloat

record fuel_sale =
  fs_id :: int
  fs_nozzle_id :: int
  fs_station_id :: int
  fs_fuel_type_id :: int
  fs_customer_id :: "int option"
  fs_opening_meter :: pyfloat
  fs_closing_meter :: pyfloat
  fs_quantity :: pyfloat
  fs_rate_per_liter :: pyfloat
  fs_total_amount :: pyfloat
  fs_sale_type :: string
  fs_shift_name :: "string option"
  fs_shift_id :: "int option"
  fs_reversal :: reversal
  fs_created_at :: datetime

record purchase =
  pu_id :: int
  pu_supplier_id :: int
  pu_tank_id :: int
  pu_fuel_type_id :: int
  pu_tanker_id :: "int option"
  pu_quantity :: pyfloat
  pu_rate_per_liter :: pyfloat
  pu_total_amount :: pyfloat
  pu_reference_no :: "fstring option"
  pu_notes :: "fstring option"
  pu_status :: string
  pu_submitted_by_user_id :: "int option"
  pu_approved_by_user_id :: "int option"
  pu_approved_at :: "datetime option"
  pu_rejected_at :: "datetime option"
  pu_rejection_reason :: "string option"
  pu_reversal :: reversal
  pu_created_at :: datetime

record customer_payment =
  cp_id :: int
  cp_customer_id :: int
  cp_station_id :: int
  cp_amount :: pyfloat
  cp_payment_method :: string
  cp_reference_no :: "string option"
  cp_notes :: "string option"
  cp_reversal :: reversal
  cp_created_at :: datetime

record supplier_payment =
  sp_id :: int
  sp_supplier_id :: int
  sp_station_id :: int
  sp_amount :: pyfloat
  sp_payment_method :: string
  sp_reference_no :: "string option"
  sp_notes :: "string option"
  sp_reversal :: reversal
  sp_created_at :: datetime

record shift =
  sh_id :: int
  sh_station_id :: int
  sh_user_id :: int
  sh_start_time :: datetime
  sh_end_time :: "datetime option"
  sh_status :: string
  sh_initial_cash :: pyfloat
  sh_total_sales_cash :: pyfloat
  sh_total_sales_credit :: pyfloat
  sh_expected_cash :: pyfloat
  sh_actual_cash_collected :: "pyfloat option"
  sh_difference :: "pyfloat option"
  sh_notes :: "string option"

record expense =
  ex_id :: int
  ex_title :: string
  ex_category :: string
  ex_amount :: pyfloat
  ex_notes :: "string option"
  ex_station_id :: int
  ex_status :: string
  ex_submitted_by_user_id :: "int option"
  ex_approved_by_user_id :: "int option"
  ex_approved_at :: "datetime option"
  ex_rejected_at :: "datetime option"
  ex_rejection_reason :: "string option"
  ex_created_at :: datetime

section \<open>Tanker operations\<close>

record tanker =
  tn_id :: int
  tn_registration_no :: string
  tn_name :: string
  tn_capacity :: pyfloat
  tn_ownership_type :: string
  tn_owner_name :: "string option"
  tn_driver_name :: "string option"
  tn_driver_phone :: "string option"
  tn_status :: "string option"
  tn_station_id :: int
  tn_fuel_type_id :: int

record tanker_trip =
  tt_id :: int
  tt_tanker_id :: int
  tt_station_id :: int
  tt_supplier_id :: "int option"
  tt_fuel_type_id :: int
  tt_trip_type :: string
  tt_status :: string
  tt_settlement_status :: string
  tt_linked_tank_id :: "int option"
  tt_linked_purchase_id :: "int option"
  tt_destination_name :: "string option"
  tt_notes :: "string option"
  tt_total_quantity :: pyfloat
  tt_fuel_revenue :: pyfloat
  tt_delivery_revenue :: pyfloat
  tt_expense_total :: pyfloat
  tt_net_profit :: pyfloat
  tt_created_at :: datetime
  tt_completed_at :: "datetime option"

record tanker_delivery =
  de_id :: int
  de_trip_id :: int
  de_customer_id :: "int option"
  de_destination_name :: "string option"
  de_quantity :: pyfloat
  de_fuel_rate :: pyfloat
  de_fuel_amount :: pyfloat
  de_delivery_charge :: pyfloat
  de_sale_type :: string
  de_paid_amount :: pyfloat
  de_outstanding_amount :: pyfloat
  de_created_at :: datetime

record tanker_trip_expense =
  te_id :: int
  te_trip_id :: int
  te_expense_type :: string
  te_amount :: pyfloat
  te_notes :: "string option"
  te_created_at :: datetime

section \<open>Point of sale\<close>

record pos_product =
  pp_id :: int
  pp_name :: string
  pp_code :: string
  pp_category :: string
  pp_module :: string
  pp_price :: pyfloat
  pp_stock_quantity :: pyfloat
  pp_track_inventory :: bool
  pp_is_active :: bool
  pp_station_id :: int

record pos_sale =
  ps_id :: int
  ps_station_id :: int
  ps_module :: string
  ps_payment_method :: string
  ps_customer_name :: "string option"
  ps_notes :: "string option"
  ps_total_amount :: pyfloat
  ps_is_reversed :: bool
  ps_reversed_at :: "datetime option"
  ps_reversed_by :: "int option"
  ps_created_at :: datetime

record pos_sale_item =
  pi_id :: int
  pi_sale_id :: int
  pi_product_id :: int
  pi_quantity :: pyfloat
  pi_unit_price :: pyfloat
  pi_line_total :: pyfloat

section \<open>Staff\<close>

record attendance_record =
  at_id :: int
  at_station_id :: int
  at_user_id :: int
  at_attendance_date :: date
  at_status :: string
  at_check_in_at :: "datetime option"
  at_check_out_at :: "datetime option"
  at_notes :: "string option"
  at_approved_by_user_id :: "int option"
  at_created_at :: datetime
  at_updated_at :: datetime

record payroll_run =
  pr_id :: int
  pr_station_id :: int
  pr_period_start :: date
  pr_period_end :: date
  pr_status :: string
  pr_total_staff :: int
  pr_total_gross_amount :: pyfloat
  pr_total_deductions :: pyfloat
  pr_total_net_amount :: pyfloat
  pr_notes :: "string option"
  pr_generated_by_user_id :: int
  pr_finalized_by_user_id :: "int option"
  pr_finalized_at :: "datetime option"
  pr_created_at :: datetime
  pr_updated_at :: datetime

record payroll_line =
  pl_id :: int
  pl_payroll_run_id :: int
  pl_user_id :: int
  pl_present_days :: int
  pl_leave_days :: int
  pl_absent_days :: int
  pl_payable_days :: int
  pl_monthly_salary :: pyfloat
  pl_gross_amount :: pyfloat
  pl_deductions :: pyfloat
  pl_net_amount :: pyfloat

record auth_session =
  as_id :: int
  as_user_id :: int
  as_refresh_token_hash :: string
  as_is_active :: bool
  as_expires_at :: datetime
  as_revoked_at :: "datetime option"
  as_last_seen_at :: "datetime option"
  as_ip_address :: "string option"
  as_user_agent :: "string option"
  as_created_at :: datetime
  as_updated_at :: datetime

section \<open>Hardware\<close>

record hardware_device =
  hd_id :: int
  hd_name :: string
  hd_code :: string
  hd_device_type :: string
  hd_vendor_name :: "string option"
  hd_integration_mode :: string
  hd_protocol :: "string option"
  hd_endpoint_url :: "string option"
  hd_device_identifier :: "string option"
  hd_api_key :: "string option"
  hd_status :: string
  hd_is_active :: bool
  hd_station_id :: int
  hd_dispenser_id :: "int option"
  hd_tank_id :: "int option"
  hd_last_seen_at :: "datetime option"
  hd_last_error :: "string option"

record hardware_event =
  he_id :: int
  he_device_id :: int
  he_station_id :: int
  he_event_type :: string
  he_source :: string
  he_status :: string
  he_dispenser_id :: "int option"
  he_tank_id :: "int option"
  he_nozzle_id :: "int option"
  he_meter_reading :: "pyfloat option"
  he_volume :: "pyfloat option"
  he_temperature :: "pyfloat option"
  he_notes :: "string option"
  he_payload_json :: jobject
  he_recorded_at :: datetime

section \<open>Audit trail and notifications\<close>

record audit_log =
  al_id :: int
  al_user_id :: "int option"
  al_username :: "string option"
  al_station_id :: "int option"
  al_module :: string
  al_action :: string
  al_entity_type :: string
  al_entity_id :: "int option"
  al_details_json :: "jobject option"
  al_created_at :: datetime

record notification =
  no_id :: int
  no_recipient_user_id :: int
  no_actor_user_id :: "int option"
  no_station_id :: "int option"
  no_organization_id :: "int option"
  no_event_type :: string
  no_title :: string
  no_message :: fstring
  no_entity_type :: "string option"
  no_entity_id :: "int option"
  no_is_read :: bool
  no_created_at :: datetime
  no_read_at :: "datetime option"

record notification_delivery =
  nd_id :: int
  nd_notification_id :: int
  nd_channel :: string
  nd_destination :: "string option"
  nd_status :: string
  nd_detail :: "fstring option"
  nd_attempts_count :: int
  nd_last_attempt_at :: "datetime option"
  nd_next_retry_at :: "datetime option"
  nd_processed_at :: "datetime option"
  nd_created_at :: datetime

record notification_preference =
  np_id :: int
  np_user_id :: int
  np_event_type :: string
  np_in_app_enabled :: bool
  np_email_enabled :: bool
  np_sms_enabled :: bool
  np_whatsapp_enabled :: bool

section \<open>Invoices and documents\<close>

record invoice_profile =
  ip_id :: int
  ip_station_id :: int
  ip_business_name :: string
  ip_legal_name :: "string option"
  ip_logo_url :: "string option"
  ip_registration_no :: "string option"
  ip_tax_registration_no :: "string option"
  ip_tax_label_1 :: "string option"
  ip_tax_value_1 :: "string option"
  ip_tax_label_2 :: "string option"
  ip_tax_value_2 :: "string option"
  ip_default_tax_rate :: pyfloat
  ip_tax_inclusive :: bool
  ip_region_code :: "string option"
  ip_currency_code :: "string option"
  ip_compliance_mode :: string
  ip_enforce_tax_registration :: bool
  ip_contact_email :: "string option"
  ip_contact_phone :: "string option"
  ip_footer_text :: "string option"
  ip_invoice_prefix :: "string option"
  ip_invoice_series :: "string option"
  ip_invoice_number_width :: int
  ip_payment_terms :: "string option"
  ip_sale_invoice_notes :: "string option"

record document_template =
  dt_id :: int
  dt_station_id :: int
  dt_document_type :: string
  dt_name :: string
  dt_header_html :: "string option"
  dt_body_html :: "string option"
  dt_footer_html :: "string option"
  dt_is_active :: bool

record financial_document_dispatch =
  fd_id :: int
  fd_station_id :: int
  fd_requested_by_user_id :: int
  fd_document_type :: string
  fd_entity_type :: string
  fd_entity_id :: int
  fd_channel :: string
  fd_output_format :: string
  fd_recipient_name :: "string option"
  fd_recipient_contact :: "string option"
  fd_status :: string
  fd_detail :: "fstring option"
  fd_attempts_count :: int
  fd_last_attempt_at :: "datetime option"
  fd_next_retry_at :: "datetime option"
  fd_processed_at :: "datetime option"
  fd_created_at :: datetime

text \<open>The text of an exported file is kept as the rows handed to \<open>csv.writer\<close>.\<close>

record report_export_job =
  rj_id :: int
  rj_report_type :: string
  rj_format :: string
  rj_status :: string
  rj_station_id :: "int option"
  rj_organization_id :: "int option"
  rj_requested_by_user_id :: "int option"
  rj_filters_json :: "jobject option"
  rj_file_name :: fstring
  rj_content_type :: string
  rj_content_text :: "jval list list"
  rj_created_at :: datetime

section \<open>Platform\<close>

record brand_catalog =
  bc_id :: int
  bc_code :: string
  bc_name :: string
  bc_logo_url :: "string option"
  bc_primary_color :: "string option"
  bc_sort_order :: int
  bc_is_active :: bool

record subscription_plan =
  pn_id :: int
  pn_name :: string
  pn_code :: string
  pn_description :: "string option"
  pn_monthly_price :: pyfloat
  pn_yearly_price :: "pyfloat option"
  pn_max_stations :: "int option"
  pn_max_users :: "int option"
  pn_feature_summary :: "string option"
  pn_is_active :: bool
  pn_is_default :: bool

record organization_subscription =
  os_id :: int
  os_organization_id :: int
  os_plan_id :: "int option"
  os_status :: string
  os_billing_cycle :: string
  os_start_date :: "datetime option"
  os_end_date :: "datetime option"
  os_trial_ends_at :: "datetime option"
  os_auto_renew :: bool
  os_price_override :: "pyfloat option"
  os_notes :: "string option"
  os_created_at :: datetime
  os_updated_at :: datetime

record employee_profile =
  ep_id :: int
  ep_organization_id :: int
  ep_station_id :: int
  ep_linked_user_id :: "int option"
  ep_full_name :: string
  ep_staff_type :: string
  ep_employee_code :: "string option"
  ep_phone :: "string option"
  ep_national_id :: "string option"
  ep_address :: "string option"
  ep_is_active :: bool
  ep_payroll_enabled :: bool
  ep_monthly_salary :: pyfloat
  ep_can_login :: bool
  ep_notes :: "string option"
  ep_created_at :: datetime
  ep_updated_at :: datetime

record online_api_hook =
  ho_id :: int
  ho_organization_id :: int
  ho_name :: string
  ho_event_type :: string
  ho_target_url :: string
  ho_auth_type :: string
  ho_auth_token :: "string option"
  ho_secret_key :: "string option"
  ho_signature_header :: "string option"
  ho_is_active :: bool
  ho_last_status :: "string option"
  ho_last_detail :: "fstring option"
  ho_last_triggered_at :: "datetime option"
  ho_created_at :: datetime
  ho_updated_at :: datetime

record inbound_webhook_event =
  ie_id :: int
  ie_organization_id :: int
  ie_hook_name :: string
  ie_event_type :: string
  ie_source :: string
  ie_headers_json :: "jobject option"
  ie_payload_json :: "jval option"
  ie_status :: string
  ie_detail :: "string option"
  ie_received_at :: datetime

section \<open>The database and the environment\<close>

text \<open>
  The audit trail and the notification tables form the sub-record \<open>comms\<close>, the invoice settings, document
  templates, dispatches and exports the sub-record \<open>document_tables\<close>, and the tables of the platform the sub-record \<open>platform_tables\<close>.
\<close>

record comms_db =
  audit_logs :: "audit_log list"
  notifications :: "notification list"
  notification_deliveries :: "notification_delivery list"
  notification_preferences :: "notification_preference list"

record documents_db =
  invoice_profiles :: "invoice_profile list"
  document_templates :: "document_template list"
  document_dispatches :: "financial_document_dispatch list"
  report_export_jobs :: "report_export_job list"

record platform_db =
  brands :: "brand_catalog list"
  subscription_plans :: "subscription_plan list"
  organization_subscriptions :: "organization_subscription list"
  employee_profiles :: "employee_profile list"
  online_api_hooks :: "online_api_hook list"
  inbound_webhook_events :: "inbound_webhook_event list"

record db =
  users :: "user list"
  roles :: "role list"
  organizations :: "organization list"
  organization_modules :: "organization_module_setting list"
  stations :: "station list"
  station_modules :: "station_module_setting list"
  fuel_types :: "fuel_type list"
  tanks :: "tank list"
  dispensers :: "dispenser list"
  nozzles :: "nozzle list"
  nozzle_readings :: "nozzle_reading list"
  meter_adjustments :: "meter_adjustment_event list"
  tank_dips :: "tank_dip list"
  customers :: "customer list"
  suppliers :: "supplier list"
  fuel_sales :: "fuel_sale list"
  purchases :: "purchase list"
  customer_payments :: "customer_payment list"
  supplier_payments :: "supplier_payment list"
  shifts :: "shift list"
  expenses :: "expense list"
  tankers :: "tanker list"
  tanker_trips :: "tanker_trip list"
  tanker_deliveries :: "tanker_delivery list"
  trip_expenses :: "tanker_trip_expense list"
  pos_products :: "pos_product list"
  pos_sales :: "pos_sale list"
  pos_sale_items :: "pos_sale_item list"
  attendance_records :: "attendance_record list"
  payroll_runs :: "payroll_run list"
  payroll_lines :: "payroll_line list"
  auth_sessions :: "auth_session list"
  hardware_devices :: "hardware_device list"
  hardware_events :: "hardware_event list"
  comms :: comms_db
  document_tables :: documents_db
  platform_tables :: platform_db

text \<open>
  \<open>smtp_send\<close> and \<open>http_post\<close> stand for \<open>smtplib\<close> and \<open>requests\<close>: the text of the exception they
  raise, or nothing, respectively \<open>response.ok\<close> and \<open>response.status_code\<close>; \<open>http_post_json\<close> posts the
  text of a JSON object, kept as the object. \<open>http_get\<close> gives the body as
  well, nothing when it is not JSON; the services answer with a JSON object. \<open>format_special\<close> is
  \<open>str.format_map\<close> on texts with a field that is more than a name, \<open>pdf_bytes\<close> the layout of the header
  lines and the HTML of a document by \<open>reportlab\<close>.
\<close>

record mail_message =
  mm_subject :: string
  mm_from :: string
  mm_to :: string
  mm_text :: fstring
  mm_html :: "fstring option"
  mm_attachment :: "(string \<times> fstring) option"

record http_request =
  hr_url :: fstring
  hr_data :: "(string \<times> fstring) list"

record get_request =
  gr_url :: string
  gr_headers :: "(string \<times> string) list"

record raw_request =
  rr_url :: string
  rr_headers :: "(string \<times> string) list"
  rr_body :: jobject

record env =
  now :: datetime
  app_env :: string
  delivery_mode :: string
  hardware_vendor_mode :: string
  online_hooks_mode :: string
  smtp_host :: string
  smtp_from_email :: string
  twilio_account_sid :: string
  twilio_auth_token :: string
  twilio_sms_from :: string
  twilio_whatsapp_from :: string
  max_failed_login_attempts :: int
  account_lock_minutes :: int
  refresh_token_expire_days :: int
  smtp_send :: "mail_message \<Rightarrow> string option"
  http_post :: "http_request \<Rightarrow> string + (bool \<times> int)"
  http_post_json :: "raw_request \<Rightarrow> string + (bool \<times> int)"
  http_get :: "get_request \<Rightarrow> string + (bool \<times> int \<times> jobject option)"
  format_special :: "string \<Rightarrow> (string \<times> fstring) list \<Rightarrow> fstring res"
  pdf_bytes :: "fstring list \<Rightarrow> fstring \<Rightarrow> fstring"

definition empty_comms :: comms_db where
  "empty_comms = \<lparr>audit_logs = [], notifications = [], notification_deliveries = [], notification_preferences = []\<rparr>"

definition empty_documents :: documents_db where
  "empty_documents = \<lparr>invoice_profiles = [], document_templates = [], document_dispatches = [], report_export_jobs = []\<rparr>"

definition empty_platform :: platform_db where
  "empty_platform = \<lparr>brands = [], subscription_plans = [], organization_subscriptions = [], employee_profiles = [],
     online_api_hooks = [], inbound_webhook_events = []\<rparr>"

definition empty_db :: db where
  "empty_db = \<lparr>users = [], roles = [], organizations = [], organization_modules = [], stations = [], station_modules = [], fuel_types = [], tanks = [],
     dispensers = [], nozzles = [], nozzle_readings = [], meter_adjustments = [], tank_dips = [],
     customers = [], suppliers = [], fuel_sales = [], purchases = [], customer_payments = [],
     supplier_payments = [], shifts = [], expenses = [], tankers = [], tanker_trips = [],
     tanker_deliveries = [], trip_expenses = [], pos_products = [], pos_sales = [], pos_sale_items = [],
     attendance_records = [], payroll_runs = [], payroll_lines = [], auth_sessions = [],
     hardware_devices = [], hardware_events = [], comms = empty_comms, document_tables = empty_documents, platform_tables = empty_platform\<rparr>"

end
