(* ===== verification/Access.thy ===== *)
theory Access
  imports DataModel
begin

text \<open>
  \<open>app/core/access.py\<close> and \<open>app/core/permissions.py\<close>: who may act on which station and
  organization, the permission matrix, and the rules for creating users of a role. Python
  dictionaries of constants are association lists in source order, sets are lists.
\<close>

section \<open>Station and organization scope (\<open>access.py\<close>)\<close>

definition role_of :: "user \<Rightarrow> string" where
  "role_of u = role_name (u_role u)"

definition is_platform_user :: "user \<Rightarrow> bool" where
  "is_platform_user u = u_is_platform_user u"

definition is_master_admin :: "user \<Rightarrow> bool" where
  "is_master_admin u \<longleftrightarrow> role_of u = ''MasterAdmin'' \<or> is_platform_user u"

definition require_admin :: "user \<Rightarrow> unit res" where
  "require_admin u =
     (if role_of u \<notin> set [''Admin'', ''MasterAdmin''] \<and> \<not> is_platform_user u
      then http 403 ''Admin access required'' else ok)"

definition user_station :: "db \<Rightarrow> user \<Rightarrow> station option" where
  \<comment> \<open>the relationship \<open>current_user.station\<close>\<close>
  "user_station d u = (case u_station_id u of None \<Rightarrow> None | Some i \<Rightarrow> get_row st_id (stations d) i)"

definition station_organization :: "db \<Rightarrow> user \<Rightarrow> int option" where
  \<comment> \<open>\<open>current_user.station.organization_id if current_user.station else None\<close>\<close>
  "station_organization d u = (case user_station d u of None \<Rightarrow> None | Some s \<Rightarrow> st_organization_id s)"

definition get_user_organization_id :: "db \<Rightarrow> user \<Rightarrow> int option" where
  "get_user_organization_id d u =
     (case u_organization_id u of Some i \<Rightarrow> Some i | None \<Rightarrow> station_organization d u)"

definition is_head_office_user :: "user \<Rightarrow> bool" where
  "is_head_office_user u \<longleftrightarrow> role_of u = ''HeadOffice''"

definition require_station_access :: "user \<Rightarrow> int \<Rightarrow> string \<Rightarrow> unit res" where
  "require_station_access u station_id detail =
     (if role_of u \<in> set [''Admin'', ''MasterAdmin''] \<or> is_platform_user u then ok
      else if u_station_id u \<noteq> Some station_id then http 403 detail
      else ok)"

definition require_organization_access :: "db \<Rightarrow> user \<Rightarrow> int option \<Rightarrow> string \<Rightarrow> unit res" where
  "require_organization_access d u organization_id detail =
     (if role_of u \<in> set [''Admin'', ''MasterAdmin''] \<or> is_platform_user u then ok
      else if organization_id = None then http 403 detail
      else if get_user_organization_id d u \<noteq> organization_id then http 403 detail
      else ok)"

text \<open>
  The test the services repeat: \<open>current_user.role.name == "Admin" or is_master_admin(current_user)\<close>.
\<close>

definition is_admin :: "user \<Rightarrow> bool" where
  "is_admin u \<longleftrightarrow> role_of u = ''Admin'' \<or> is_master_admin u"

definition station_guard :: "user \<Rightarrow> int \<Rightarrow> string \<Rightarrow> unit res" where
  \<comment> \<open>the guard \<open>not admin and current_user.station_id != station_id\<close> that opens most services\<close>
  "station_guard u station_id detail =
     (if \<not> is_admin u \<and> u_station_id u \<noteq> Some station_id then http 403 detail else ok)"

section \<open>Roles and permissions (\<open>permissions.py\<close>)\<close>

definition CORE_ROLE_NAMES :: "string list" where
  "CORE_ROLE_NAMES = [''MasterAdmin'', ''Admin'', ''StationAdmin'', ''HeadOffice'', ''Manager'', ''Operator'', ''Accountant'']"

record scope_rule =
  scope_level :: string
  requires_organization :: bool
  requires_station :: bool
  platform_only :: bool

definition ROLE_SCOPE_RULES :: "(string \<times> scope_rule) list" where
  "ROLE_SCOPE_RULES =
   [(''MasterAdmin'', \<lparr>scope_level = ''platform'', requires_organization = False, requires_station = False, platform_only = True\<rparr>),
    (''HeadOffice'', \<lparr>scope_level = ''organization'', requires_organization = True, requires_station = False, platform_only = False\<rparr>),
    (''Admin'', \<lparr>scope_level = ''organization'', requires_organization = True, requires_station = False, platform_only = False\<rparr>),
    (''StationAdmin'', \<lparr>scope_level = ''station'', requires_organization = True, requires_station = True, platform_only = False\<rparr>),
    (''Manager'', \<lparr>scope_level = ''station'', requires_organization = True, requires_station = True, platform_only = False\<rparr>),
    (''Accountant'', \<lparr>scope_level = ''station'', requires_organization = True, requires_station = True, platform_only = False\<rparr>),
    (''Operator'', \<lparr>scope_level = ''station'', requires_organization = True, requires_station = True, platform_only = False\<rparr>)]"

definition ROLE_CREATION_RULES :: "(string \<times> string list) list" where
  "ROLE_CREATION_RULES =
   [(''MasterAdmin'', [''MasterAdmin'', ''HeadOffice'', ''Admin'', ''StationAdmin'', ''Manager'', ''Accountant'', ''Operator'']),
    (''HeadOffice'', [''Admin'', ''StationAdmin'', ''Manager'', ''Accountant'', ''Operator'']),
    (''Admin'', [''StationAdmin'', ''Manager'', ''Accountant'', ''Operator'']),
    (''StationAdmin'', [''Manager'', ''Accountant'', ''Operator'']),
    (''Manager'', [''Operator''])]"

definition PERMISSION_MATRIX :: "(string \<times> (string \<times> string list) list) list" where
  "PERMISSION_MATRIX =
   [(''users'',
      [(''create'', [''Admin'']),
       (''update'', [''Admin'']),
       (''delete'', [''Admin'']),
       (''read'', [''Admin'', ''HeadOffice''])]),
    (''employee_profiles'',
      [(''create'', [''MasterAdmin'', ''Admin'', ''HeadOffice'', ''StationAdmin'', ''Manager'']),
       (''update'', [''MasterAdmin'', ''Admin'', ''HeadOffice'', ''StationAdmin'', ''Manager'']),
       (''delete'', [''MasterAdmin'', ''Admin'', ''HeadOffice'', ''StationAdmin'']),
       (''read'', [''MasterAdmin'', ''Admin'', ''HeadOffice'', ''StationAdmin'', ''Manager'', ''Accountant''])]),
    (''organizations'',
      [(''create'', [''Admin'']),
       (''update'', [''Admin'']),
       (''delete'', [''Admin'']),
       (''read'', [''Admin'', ''HeadOffice''])]),
    (''organization_modules'',
      [(''read'', [''Admin'', ''HeadOffice'']),
       (''update'', [''Admin'', ''HeadOffice''])]),
    (''online_api_hooks'',
      [(''read'', [''Admin'', ''HeadOffice'']),
       (''update'', [''Admin'', ''HeadOffice'']),
       (''trigger'', [''Admin'', ''HeadOffice''])]),
    (''roles'',
      [(''create'', [''Admin'']),
       (''update'', [''Admin'']),
       (''delete'', [''Admin'']),
       (''read'', [''Admin'', ''HeadOffice''])]),
    (''stations'',
      [(''create'', [''Admin'']),
       (''update'', [''Admin'']),
       (''delete'', [''Admin'']),
       (''read'', [''Admin'', ''HeadOffice''])]),
    (''station_modules'',
      [(''read'', [''Admin'', ''HeadOffice'']),
       (''update'', [''Admin'', ''HeadOffice''])]),
    (''invoice_profiles'',
      [(''read'', [''Admin'', ''HeadOffice'', ''Manager'', ''Accountant'']),
       (''update'', [''Admin'', ''HeadOffice'', ''Manager''])]),
    (''document_templates'',
      [(''read'', [''Admin'', ''HeadOffice'', ''Manager'', ''Accountant'']),
       (''update'', [''Admin'', ''HeadOffice'', ''Manager''])]),
    (''maintenance'',
      [(''read'', [''Admin'']),
       (''execute'', [''Admin''])]),
    (''saas'',
      [(''read'', [''Admin'', ''HeadOffice'']),
       (''manage'', [''Admin''])]),
    (''fuel_types'',
      [(''create'', [''Admin'']),
       (''update'', [''Admin'']),
       (''delete'', [''Admin''])]),
    (''tanks'',
      [(''create'', [''Admin'', ''Manager'']),
       (''update'', [''Admin'', ''Manager'']),
       (''delete'', [''Admin'', ''Manager''])]),
    (''dispensers'',
      [(''create'', [''Admin'', ''Manager'']),
       (''update'', [''Admin'', ''Manager'']),
       (''delete'', [''Admin'', ''Manager''])]),
    (''nozzles'',
      [(''create'', [''Admin'', ''Manager'']),
       (''update'', [''Admin'', ''Manager'']),
       (''delete'', [''Admin'', ''Manager'']),
       (''adjust_meter'', [''Admin'']),
       (''read_meter_history'', [''Admin'', ''HeadOffice'', ''Manager'', ''Accountant''])]),
    (''tankers'',
      [(''read'', [''Admin'', ''HeadOffice'', ''Manager'', ''Operator'', ''Accountant'']),
       (''create'', [''Admin'', ''Manager'']),
       (''update'', [''Admin'', ''Manager'']),
       (''delete'', [''Admin'', ''Manager'']),
       (''trip_create'', [''Admin'', ''Manager'', ''Operator'']),
       (''delivery_create'', [''Admin'', ''Manager'', ''Operator'']),
       (''expense_create'', [''Admin'', ''Manager'', ''Operator'', ''Accountant'']),
       (''complete'', [''Admin'', ''Manager'', ''Operator''])]),
    (''customers'',
      [(''create'', [''Admin'', ''Manager'', ''Accountant'']),
       (''update'', [''Admin'', ''Manager'', ''Accountant'']),
       (''delete'', [''Admin'', ''Manager'']),
       (''request_credit_override'', [''Admin'', ''Manager'', ''Accountant'']),
       (''approve_credit_override'', [''Admin'', ''HeadOffice'']),
       (''reject_credit_override'', [''Admin'', ''HeadOffice''])]),
    (''suppliers'',
      [(''create'', [''Admin'', ''Manager'', ''Accountant'']),
       (''update'', [''Admin'', ''Manager'', ''Accountant'']),
       (''delete'', [''Admin'', ''Manager''])]),
    (''fuel_sales'',
      [(''create'', [''Admin'', ''Manager'', ''Operator'']),
       (''reverse'', [''Admin'', ''Manager'', ''Operator'']),
       (''approve_reverse'', [''Admin'', ''HeadOffice'']),
       (''reject_reverse'', [''Admin'', ''HeadOffice''])]),
    (''purchases'',
      [(''create'', [''Admin'', ''Manager'', ''Operator'']),
       (''approve'', [''Admin'', ''HeadOffice'']),
       (''reject'', [''Admin'', ''HeadOffice'']),
       (''reverse'', [''Admin'', ''Manager'', ''Operator'']),
       (''approve_reverse'', [''Admin'', ''HeadOffice'']),
       (''reject_reverse'', [''Admin'', ''HeadOffice''])]),
    (''customer_payments'',
      [(''create'', [''Admin'', ''Manager'', ''Operator'', ''Accountant'']),
       (''reverse'', [''Admin'', ''Manager'', ''Operator'', ''Accountant'']),
       (''approve_reverse'', [''Admin'', ''HeadOffice'']),
       (''reject_reverse'', [''Admin'', ''HeadOffice''])]),
    (''supplier_payments'',
      [(''create'', [''Admin'', ''Manager'', ''Operator'', ''Accountant'']),
       (''reverse'', [''Admin'', ''Manager'', ''Operator'', ''Accountant'']),
       (''approve_reverse'', [''Admin'', ''HeadOffice'']),
       (''reject_reverse'', [''Admin'', ''HeadOffice''])]),
    (''shifts'',
      [(''open'', [''Admin'', ''Manager'', ''Operator'']),
       (''close'', [''Admin'', ''Manager'', ''Operator''])]),
    (''attendance'',
      [(''check_in'', [''Admin'', ''Manager'', ''Operator'', ''Accountant'']),
       (''check_out'', [''Admin'', ''Manager'', ''Operator'', ''Accountant'']),
       (''create'', [''Admin'', ''HeadOffice'', ''Manager'', ''Accountant'']),
       (''update'', [''Admin'', ''HeadOffice'', ''Manager'', ''Accountant'']),
       (''read'', [''Admin'', ''HeadOffice'', ''Manager'', ''Accountant''])]),
    (''payroll'',
      [(''create'', [''Admin'', ''HeadOffice'', ''Manager'', ''Accountant'']),
       (''finalize'', [''Admin'', ''HeadOffice'', ''Accountant'']),
       (''read'', [''Admin'', ''HeadOffice'', ''Manager'', ''Accountant''])]),
    (''tank_dips'',
      [(''create'', [''Admin'', ''Manager'', ''Operator''])]),
    (''pos_products'',
      [(''create'', [''Admin'', ''Manager'']),
       (''update'', [''Admin'', ''Manager'']),
       (''delete'', [''Admin'', ''Manager''])]),
    (''pos_sales'',
      [(''create'', [''Admin'', ''Manager'', ''Operator'']),
       (''reverse'', [''Admin'', ''Manager'', ''Operator''])]),
    (''audit_logs'',
      [(''read'', [''Admin'', ''HeadOffice'', ''Manager'', ''Accountant''])]),
    (''notifications'',
      [(''read'', [''Admin'', ''HeadOffice'', ''Manager'', ''Operator'', ''Accountant''])]),
    (''delivery_jobs'',
      [(''process'', [''Admin'', ''HeadOffice''])]),
    (''reports'',
      [(''read'', [''Admin'', ''HeadOffice'', ''Manager'', ''Accountant''])]),
    (''expenses'',
      [(''create'', [''Admin'', ''Manager'', ''Accountant'']),
       (''update'', [''Admin'', ''Manager'', ''Accountant'']),
       (''delete'', [''Admin'', ''Manager'', ''Accountant'']),
       (''approve'', [''Admin'', ''HeadOffice'']),
       (''reject'', [''Admin'', ''HeadOffice''])]),
    (''hardware'',
      [(''read'', [''Admin'', ''HeadOffice'', ''Manager'', ''Operator'', ''Accountant'']),
       (''create'', [''Admin'', ''Manager'']),
       (''update'', [''Admin'', ''Manager'']),
       (''delete'', [''Admin'', ''Manager''])])]"

definition list_available_modules :: "string list" where
  "list_available_modules = sort (map fst PERMISSION_MATRIX)"

definition get_role_permissions :: "string \<Rightarrow> (string \<times> string list) list" where
  "get_role_permissions r =
     (if r = ''MasterAdmin'' then map (\<lambda>(m, acts). (m, sort (map fst acts))) PERMISSION_MATRIX
      else filter (\<lambda>(m, acts). acts \<noteq> [])
             (map (\<lambda>(m, acts). (m, sort (map fst (filter (\<lambda>(a, rs). r \<in> set rs) acts)))) PERMISSION_MATRIX))"

definition get_effective_permissions :: "user \<Rightarrow> (string \<times> string list) list" where
  "get_effective_permissions u = get_role_permissions (role_of u)"

definition is_core_role_name :: "string \<Rightarrow> bool" where
  "is_core_role_name r \<longleftrightarrow> r \<in> set CORE_ROLE_NAMES"

definition ensure_core_role_mutation_allowed :: "string \<Rightarrow> string \<Rightarrow> unit res" where
  "ensure_core_role_mutation_allowed r action =
     (if is_core_role_name r
      then Inl (HTTPException 400 [T (''Core role '' @ [CHR 0x27]), T r, T (CHR 0x27 # '' cannot be ''), T action]) else ok)"

definition creation_targets :: "string \<Rightarrow> string list" where
  \<comment> \<open>\<open>ROLE_CREATION_RULES.get(role_name, set())\<close>\<close>
  "creation_targets r = (case map_of ROLE_CREATION_RULES r of None \<Rightarrow> [] | Some ts \<Rightarrow> ts)"

definition get_creatable_roles :: "string \<Rightarrow> string list" where
  "get_creatable_roles r = sort (creation_targets r)"

definition ensure_role_creation_allowed :: "user \<Rightarrow> string \<Rightarrow> unit res" where
  "ensure_role_creation_allowed u target =
     (if role_of u = ''MasterAdmin'' \<or> u_is_platform_user u then ok
      else if target \<notin> set (creation_targets (role_of u))
      then Inl (HTTPException 403 [T (''You are not allowed to create users with the role '' @ [CHR 0x27]), T target, T [CHR 0x27]])
      else ok)"

definition get_role_scope_rule :: "string \<Rightarrow> scope_rule" where
  "get_role_scope_rule r =
     (case map_of ROLE_SCOPE_RULES r of
        Some rule \<Rightarrow> rule
      | None \<Rightarrow> \<lparr>scope_level = ''station'', requires_organization = True, requires_station = True, platform_only = False\<rparr>)"

definition allowed_roles :: "string \<Rightarrow> string \<Rightarrow> string list" where
  \<comment> \<open>\<open>PERMISSION_MATRIX.get(module, {}).get(action)\<close>, the empty list for a missing entry\<close>
  "allowed_roles m a =
     (case map_of PERMISSION_MATRIX m of None \<Rightarrow> []
      | Some acts \<Rightarrow> (case map_of acts a of None \<Rightarrow> [] | Some rs \<Rightarrow> rs))"

definition require_permission :: "user \<Rightarrow> string \<Rightarrow> string \<Rightarrow> string \<Rightarrow> unit res" where
  "require_permission u m a detail =
     (if allowed_roles m a = [] then http 403 detail
      else if role_of u = ''MasterAdmin'' \<or> u_is_platform_user u then ok
      else if role_of u \<notin> set (allowed_roles m a) then http 403 detail
      else ok)"

section \<open>The guards, read backwards\<close>

lemma station_guard_ok [res_simps]:
  "station_guard u i detail = ok \<longleftrightarrow> is_admin u \<or> u_station_id u = Some i"
  by (simp add: station_guard_def)

lemma require_station_access_ok [res_simps]:
  "require_station_access u i detail = ok \<longleftrightarrow> is_admin u \<or> u_station_id u = Some i"
  by (auto simp: require_station_access_def is_admin_def is_master_admin_def is_platform_user_def)

lemma require_admin_ok [res_simps]: "require_admin u = ok \<longleftrightarrow> is_admin u"
  by (auto simp: require_admin_def is_admin_def is_master_admin_def is_platform_user_def)

lemma require_organization_access_ok [res_simps]:
  "require_organization_access d u i detail = ok
    \<longleftrightarrow> is_admin u \<or> (i \<noteq> None \<and> get_user_organization_id d u = i)"
  by (auto simp: require_organization_access_def is_admin_def is_master_admin_def is_platform_user_def)

lemma require_permission_ok [res_simps]:
  "require_permission u m a detail = ok
    \<longleftrightarrow> allowed_roles m a \<noteq> [] \<and> (is_master_admin u \<or> role_of u \<in> set (allowed_roles m a))"
  by (auto simp: require_permission_def is_master_admin_def is_platform_user_def)

section \<open>The permission matrix\<close>

definition matrix_wf :: "(string \<times> (string \<times> string list) list) list \<Rightarrow> bool" where
  \<comment> \<open>module names and action names are unique and every action has a role\<close>
  "matrix_wf mx \<longleftrightarrow> distinct (map fst mx)
     \<and> list_all (\<lambda>(m, acts). acts \<noteq> [] \<and> distinct (map fst acts) \<and> list_all (\<lambda>(a, rs). rs \<noteq> []) acts) mx"

lemma PERMISSION_MATRIX_wf: "matrix_wf PERMISSION_MATRIX"
  by code_simp

lemma allowed_roles_iff:
  "r \<in> set (allowed_roles m a)
    \<longleftrightarrow> (\<exists>acts rs. (m, acts) \<in> set PERMISSION_MATRIX \<and> (a, rs) \<in> set acts \<and> r \<in> set rs)"
proof -
  have D: "map_of PERMISSION_MATRIX m = Some acts \<longleftrightarrow> (m, acts) \<in> set PERMISSION_MATRIX" for acts
    using PERMISSION_MATRIX_wf by (intro map_of_eq_Some_iff) (simp add: matrix_wf_def)
  have A: "map_of acts a = Some rs \<longleftrightarrow> (a, rs) \<in> set acts" if "(m, acts) \<in> set PERMISSION_MATRIX" for acts rs
    using PERMISSION_MATRIX_wf that by (intro map_of_eq_Some_iff) (auto simp: matrix_wf_def list_all_iff)
  have "r \<in> set (allowed_roles m a)
      \<longleftrightarrow> (\<exists>acts rs. map_of PERMISSION_MATRIX m = Some acts \<and> map_of acts a = Some rs \<and> r \<in> set rs)"
    by (cases "map_of PERMISSION_MATRIX m"; cases "map_of (the (map_of PERMISSION_MATRIX m)) a")
      (auto simp: allowed_roles_def)
  with D A show ?thesis by blast
qed

lemma matrix_roles_nonempty:
  "(m, acts) \<in> set PERMISSION_MATRIX \<Longrightarrow> (a, rs) \<in> set acts \<Longrightarrow> rs \<noteq> []"
  using PERMISSION_MATRIX_wf by (auto simp: matrix_wf_def list_all_iff)

lemma allowed_roles_nonempty:
  "allowed_roles m a \<noteq> [] \<longleftrightarrow> (\<exists>acts. (m, acts) \<in> set PERMISSION_MATRIX \<and> a \<in> fst ` set acts)"
proof -
  have "allowed_roles m a \<noteq> [] \<longleftrightarrow> (\<exists>r. r \<in> set (allowed_roles m a))"
    by (cases "allowed_roles m a") auto
  also have "\<dots> \<longleftrightarrow> (\<exists>acts rs. (m, acts) \<in> set PERMISSION_MATRIX \<and> (a, rs) \<in> set acts \<and> rs \<noteq> [])"
    unfolding allowed_roles_iff using hd_in_set by fastforce
  also have "\<dots> \<longleftrightarrow> (\<exists>acts. (m, acts) \<in> set PERMISSION_MATRIX \<and> a \<in> fst ` set acts)"
    by (rule iffI) (fastforce intro: rev_image_eqI dest: matrix_roles_nonempty)+
  finally show ?thesis .
qed

lemma master_permissions_row:
  "(m, l) \<in> set (get_role_permissions ''MasterAdmin'')
    \<longleftrightarrow> (\<exists>acts. (m, acts) \<in> set PERMISSION_MATRIX \<and> l = sort (map fst acts))"
  by (auto simp: get_role_permissions_def)

lemma other_permissions_row:
  "r \<noteq> ''MasterAdmin'' \<Longrightarrow> (m, l) \<in> set (get_role_permissions r)
    \<longleftrightarrow> (\<exists>acts. (m, acts) \<in> set PERMISSION_MATRIX
          \<and> l = sort (map fst (filter (\<lambda>(a, rs). r \<in> set rs) acts)) \<and> l \<noteq> [])"
  by (auto simp: get_role_permissions_def)

lemma role_permissions_master:
  "(\<exists>acts. (m, acts) \<in> set (get_role_permissions ''MasterAdmin'') \<and> a \<in> set acts) \<longleftrightarrow> allowed_roles m a \<noteq> []"
proof -
  have "a \<in> set (sort (map fst acts)) \<longleftrightarrow> a \<in> fst ` set acts" for acts :: "(string \<times> string list) list"
    by simp
  then show ?thesis unfolding master_permissions_row allowed_roles_nonempty by blast
qed

lemma role_permissions_other:
  assumes "r \<noteq> ''MasterAdmin''"
  shows "(\<exists>acts. (m, acts) \<in> set (get_role_permissions r) \<and> a \<in> set acts) \<longleftrightarrow> r \<in> set (allowed_roles m a)"
proof -
  have "a \<in> set (sort (map fst (filter (\<lambda>(a, rs). r \<in> set rs) acts)))
      \<longleftrightarrow> (\<exists>rs. (a, rs) \<in> set acts \<and> r \<in> set rs)" for acts :: "(string \<times> string list) list"
    by (auto simp: image_iff)
  moreover have "a \<in> set l \<Longrightarrow> l \<noteq> []" for l :: "string list" by auto
  ultimately show ?thesis
    unfolding other_permissions_row [OF assms] allowed_roles_iff by blast
qed

text \<open>
  C1. The permission check every route runs and the permission list a user is shown are the same
  relation: \<open>require_permission\<close> lets a user perform an action exactly when \<open>get_role_permissions\<close>
  lists the action for the role, a platform user counting as MasterAdmin.
\<close>

theorem require_permission_iff_listed:
  "require_permission u m a detail = ok
    \<longleftrightarrow> (\<exists>acts. (m, acts) \<in> set (get_role_permissions (if is_platform_user u then ''MasterAdmin'' else role_of u))
             \<and> a \<in> set acts)"
proof (cases "is_platform_user u \<or> role_of u = ''MasterAdmin''")
  case True
  then have "(if is_platform_user u then ''MasterAdmin'' else role_of u) = ''MasterAdmin''" by auto
  with True show ?thesis
    by (simp only: role_permissions_master) (auto simp: require_permission_ok is_master_admin_def)
next
  case False
  then show ?thesis
    by (auto simp: require_permission_ok role_permissions_other is_master_admin_def)
qed

section \<open>Separation of duties\<close>

definition dual_control :: "(string \<times> string \<times> string) list" where
  \<comment> \<open>a module, the action that starts a transaction, the action that reviews it\<close>
  "dual_control =
     [(''purchases'', ''create'', ''approve''), (''purchases'', ''create'', ''reject''),
      (''purchases'', ''reverse'', ''approve_reverse''), (''purchases'', ''reverse'', ''reject_reverse''),
      (''fuel_sales'', ''reverse'', ''approve_reverse''), (''fuel_sales'', ''reverse'', ''reject_reverse''),
      (''customer_payments'', ''reverse'', ''approve_reverse''),
      (''customer_payments'', ''reverse'', ''reject_reverse''),
      (''supplier_payments'', ''reverse'', ''approve_reverse''),
      (''supplier_payments'', ''reverse'', ''reject_reverse''),
      (''customers'', ''request_credit_override'', ''approve_credit_override''),
      (''customers'', ''request_credit_override'', ''reject_credit_override''),
      (''expenses'', ''create'', ''approve''), (''expenses'', ''create'', ''reject'')]"

lemma dual_control_roles:
  "list_all (\<lambda>(m, c, a). let reviewers = allowed_roles m a in
     list_all (\<lambda>r. r = ''Admin'' \<or> r \<notin> set reviewers) (allowed_roles m c)) dual_control"
  by code_simp

lemma duties_separated:
  assumes "(m, start, review) \<in> set dual_control"
    and "require_permission u m start detail1 = ok"
    and "require_permission v m review detail2 = ok"
    and "role_of u = role_of v"
  shows "is_admin u \<or> is_admin v"
  using assms dual_control_roles
  by (fastforce simp: require_permission_ok is_admin_def list_all_iff Let_def)

text \<open>
  Separation of duties: no role but Admin (and the platform's MasterAdmin) may both start one
  of the reviewed transactions and review it.
\<close>

theorem separation_of_duties:
  assumes "(m, start, review) \<in> set dual_control"
    and "require_permission u m start detail1 = ok"
    and "require_permission u m review detail2 = ok"
  shows "is_admin u"
  using duties_separated [OF assms refl] by blast

definition sample_manager :: user where
  "sample_manager =
     \<lparr>u_id = 3, u_full_name = ''Mira'', u_username = ''mira'', u_email = None, u_phone = None,
      u_whatsapp_number = None, u_hashed_password = ''h'', u_is_active = True,
      u_failed_login_attempts = 0, u_last_failed_login_at = None, u_locked_until = None,
      u_last_login_at = None, u_monthly_salary = 3000, u_payroll_enabled = True,
      u_role = \<lparr>role_id = 5, role_name = ''Manager'', role_description = None\<rparr>, u_organization_id = Some 1,
      u_station_id = Some 1, u_created_by_user_id = None, u_scope_level = ''station'',
      u_is_platform_user = False\<rparr>"

definition sample_admin :: user where
  "sample_admin = sample_manager\<lparr>u_id := 1, u_full_name := ''Ada'', u_username := ''ada'',
     u_role := \<lparr>role_id = 2, role_name = ''Admin'', role_description = None\<rparr>, u_station_id := None, u_scope_level := ''organization''\<rparr>"

theorem separation_of_duties_witness: "is_admin sample_admin"
proof (rule separation_of_duties)
  show "(''purchases'', ''create'', ''approve'') \<in> set dual_control" by (simp add: dual_control_def)
  show "require_permission sample_admin ''purchases'' ''create'' ''no'' = ok" by code_simp
  show "require_permission sample_admin ''purchases'' ''approve'' ''no'' = ok" by code_simp
qed

end
