(* ===== verification/Samples.thy ===== *)
theory Samples
  imports Access
begin

text \<open>
  A small concrete installation on which the witnesses evaluate the operations: one organization
  with one station, a tank of 10000 litres holding 4000, a dispenser with one nozzle, a customer
  with a credit limit of 1000 and a balance of 200, a supplier who is owed 500, two products, and
  four users.
\<close>

definition sample_operator :: user where
  "sample_operator = sample_manager\<lparr>u_id := 4, u_full_name := ''Omar'', u_username := ''omar'',
     u_role := \<lparr>role_id = 6, role_name = ''Operator'', role_description = None\<rparr>\<rparr>"

definition sample_head_office :: user where
  "sample_head_office = sample_manager\<lparr>u_id := 2, u_full_name := ''Hana'', u_username := ''hana'',
     u_phone := Some ''555'',
     u_role := \<lparr>role_id = 4, role_name = ''HeadOffice'', role_description = None\<rparr>, u_scope_level := ''organization''\<rparr>"

definition sample_organization :: organization where
  "sample_organization = \<lparr>or_id = 1, or_name = ''Org'', or_code = ''ORG'', or_description = None,
     or_legal_name = None, or_brand_catalog_id = None, or_brand_name = None, or_brand_code = None,
     or_logo_url = None, or_contact_email = None, or_contact_phone = None, or_registration_number = None,
     or_tax_registration_number = None, or_onboarding_status = ''draft'', or_billing_status = ''trial'',
     or_station_target_count = None, or_inherit_branding_to_stations = True, or_is_active = True\<rparr>"

definition sample_station :: station where
  "sample_station = \<lparr>st_id = 1, st_name = ''Main'', st_code = ''ST1'', st_address = None, st_city = None,
     st_organization_id = Some 1, st_is_head_office = False, st_display_name = None,
     st_legal_name_override = None, st_brand_name = None, st_brand_code = None, st_logo_url = None,
     st_use_organization_branding = True, st_is_active = True, st_setup_status = ''draft'',
     st_setup_completed_at = None, st_has_shops = True, st_has_pos = True, st_has_tankers = True,
     st_has_hardware = True, st_allow_meter_adjustments = True, st_created_at = 0\<rparr>"

definition sample_tank :: tank where
  "sample_tank = \<lparr>tk_id = 1, tk_name = ''T1'', tk_code = ''T1'', tk_capacity = 10000, tk_current_volume = 4000,
     tk_low_stock_threshold = 1000, tk_location = None, tk_station_id = 1, tk_fuel_type_id = 1\<rparr>"

definition sample_nozzle :: nozzle where
  "sample_nozzle = \<lparr>nz_id = 1, nz_name = ''N1'', nz_code = ''N1'', nz_meter_reading = 100,
     nz_segment_start_reading = 0, nz_segment_started_at = 0, nz_dispenser_id = 1, nz_tank_id = 1,
     nz_fuel_type_id = 1\<rparr>"

definition sample_customer :: customer where
  "sample_customer = \<lparr>cu_id = 1, cu_name = ''Carla'', cu_code = ''C1'', cu_customer_type = ''individual'',
     cu_phone = None, cu_address = None, cu_credit_limit = 1000, cu_outstanding_balance = 200,
     cu_override_status = None, cu_override_amount = 0, cu_override_requested_amount = 0,
     cu_override_requested_at = None, cu_override_requested_by = None, cu_override_reason = None,
     cu_override_reviewed_at = None, cu_override_reviewed_by = None, cu_override_rejection_reason = None,
     cu_station_id = 1\<rparr>"

definition sample_supplier :: supplier where
  "sample_supplier = \<lparr>su_id = 1, su_name = ''Sid'', su_code = ''S1'', su_phone = None, su_address = None,
     su_payable_balance = 500\<rparr>"

definition sample_product :: pos_product where
  "sample_product = \<lparr>pp_id = 1, pp_name = ''Oil'', pp_code = ''P1'', pp_category = ''lube'', pp_module = ''mart'',
     pp_price = 25, pp_stock_quantity = 8, pp_track_inventory = True, pp_is_active = True, pp_station_id = 1\<rparr>"

definition sample_env :: env where
  "sample_env = \<lparr>now = 1700000000000000, app_env = ''production'', delivery_mode = ''live'',
     hardware_vendor_mode = ''mock'', online_hooks_mode = ''live'', smtp_host = [], smtp_from_email = [], twilio_account_sid = ''sid'',
     twilio_auth_token = ''token'', twilio_sms_from = ''100'', twilio_whatsapp_from = ''100'',
     max_failed_login_attempts = 5, account_lock_minutes = 15, refresh_token_expire_days = 14,
     smtp_send = (\<lambda>m. None), http_post = (\<lambda>r. Inr (False, 500)), http_post_json = (\<lambda>r. Inr (False, 500)), http_get = (\<lambda>r. Inr (False, 500, None)),
     format_special = (\<lambda>s context. Inr [T s]), pdf_bytes = (\<lambda>lines html. concat lines @ html)\<rparr>"

definition sample_db :: db where
  "sample_db = empty_db\<lparr>
     users := [sample_admin, sample_head_office, sample_manager, sample_operator],
     roles := map u_role [sample_admin, sample_head_office, sample_manager, sample_operator],
     organizations := [sample_organization], stations := [sample_station],
     fuel_types := [\<lparr>ft_id = 1, ft_name = ''Diesel'', ft_description = None\<rparr>],
     tanks := [sample_tank],
     dispensers := [\<lparr>dp_id = 1, dp_name = ''D1'', dp_code = ''D1'', dp_location = None, dp_station_id = 1\<rparr>],
     nozzles := [sample_nozzle], customers := [sample_customer], suppliers := [sample_supplier],
     pos_products := [sample_product, sample_product\<lparr>pp_id := 2, pp_code := ''P2'', pp_price := 10\<rparr>]\<rparr>"

end
