(* ===== verification/RetryQueue.thy ===== *)
theory RetryQueue
  imports DataModel "HOL-Library.Multiset"
begin

text \<open>
  The interface of a queue of deliveries that a worker drains with retries: a delivery counts its
  attempts, stays pending as long as an attempt fails and the limit is not reached, and a pending
  delivery becomes due again after a bounded delay. A pass of the worker attempts the due deliveries,
  those with the smallest keys first and at most a given number. Shown from these laws: a worker never
  makes more attempts than the limit, no delivery starves, and a bounded number of spaced passes
  settles every delivery, however many there are.
\<close>

lemma in_take_sort_key:
  assumes "distinct (map k xs)" "x \<in> set xs"
  shows "x \<in> set (take n (sort_key (k :: 'a \<Rightarrow> int) xs)) \<longleftrightarrow> length (filter (\<lambda>y. k y < k x) xs) < n"
proof -
  let ?ys = "sort_key k xs"
  from assms(2) obtain i where i: "i < length ?ys" "?ys ! i = x" by (metis in_set_conv_nth set_sort)
  have "mset (map k ?ys) = mset (map k xs)" by simp
  then have D: "distinct (map k ?ys)" using assms(1) mset_eq_imp_distinct_iff by blast
  then have S: "sorted_wrt (<) (map k ?ys)" by (simp add: strict_sorted_iff)
  have less: "k (?ys ! j) < k x \<longleftrightarrow> j < i" if "j < length ?ys" for j
    using that i sorted_wrt_nth_less [OF S, of j i] sorted_wrt_nth_less [OF S, of i j]
    by (cases i j rule: linorder_cases) simp_all
  have "filter (\<lambda>y. k y < k x) ?ys = filter (\<lambda>y. k y < k x) (take i ?ys) @ filter (\<lambda>y. k y < k x) (drop i ?ys)"
    by (metis append_take_drop_id filter_append)
  also have "filter (\<lambda>y. k y < k x) (take i ?ys) = take i ?ys"
    using less i(1) by (auto simp: filter_id_conv in_set_conv_nth)
  also have "filter (\<lambda>y. k y < k x) (drop i ?ys) = []"
    using less by (auto simp: filter_empty_conv in_set_conv_nth)
  finally have "length (filter (\<lambda>y. k y < k x) ?ys) = i" using i(1) by simp
  moreover have "length (filter (\<lambda>y. k y < k x) ?ys) = length (filter (\<lambda>y. k y < k x) xs)"
    by (metis mset_filter mset_sort size_mset)
  moreover have "x \<in> set (take n ?ys) \<longleftrightarrow> i < n"
  proof
    assume "x \<in> set (take n ?ys)"
    then obtain j where "j < n" "j < length ?ys" "?ys ! j = x" by (auto simp: in_set_conv_nth)
    with less [of j] less [of i] i show "i < n" by (metis less_irrefl linorder_neqE_nat less_trans not_less_iff_gr_or_eq)
  next
    assume "i < n"
    with i show "x \<in> set (take n ?ys)" unfolding in_set_conv_nth by (intro exI [of _ i]) simp
  qed
  ultimately show ?thesis by simp
qed

locale retry_queue =
  fixes attempt :: "'e \<Rightarrow> 'd \<Rightarrow> 'd"
    and tries :: "'d \<Rightarrow> int"
    and pending :: "'d \<Rightarrow> bool"
    and due :: "datetime \<Rightarrow> 'd \<Rightarrow> bool"
    and clock :: "'e \<Rightarrow> datetime"
    and limit :: int
    and delay :: datetime
    and key :: "'d \<Rightarrow> int"
  assumes tries_step: "tries d \<le> tries (attempt e d)" "tries (attempt e d) \<le> tries d + 1"
    and pending_again: "pending (attempt e d) \<Longrightarrow> tries (attempt e d) = tries d + 1 \<and> tries (attempt e d) < limit"
    and due_again: "0 \<le> tries d \<Longrightarrow> pending (attempt e d) \<Longrightarrow> clock e + delay \<le> t \<Longrightarrow> due t (attempt e d)"
    and due_pending: "due t d \<Longrightarrow> pending d"
    and due_later: "due s d \<Longrightarrow> s \<le> t \<Longrightarrow> due t d"
    and key_attempt: "key (attempt e d) = key d"
    and delay_nonneg: "0 \<le> delay"
begin

definition first_due :: "nat \<Rightarrow> 'e \<Rightarrow> 'd list \<Rightarrow> 'd list" where
  "first_due n e t = take n (sort_key key (filter (due (clock e)) t))"

definition serve :: "nat \<Rightarrow> 'e \<Rightarrow> 'd list \<Rightarrow> 'd \<Rightarrow> 'd" where
  "serve n e t d = (if d \<in> set (first_due n e t) then attempt e d else d)"

definition pass :: "nat \<Rightarrow> 'e \<Rightarrow> 'd list \<Rightarrow> 'd list" where
  "pass n e t = map (serve n e t) t"

fun spaced :: "datetime \<Rightarrow> 'e list \<Rightarrow> bool" where
  "spaced t [] \<longleftrightarrow> True"
| "spaced t (e # es) \<longleftrightarrow> t \<le> clock e \<and> spaced (clock e + delay) es"

definition queue_wf :: "'d list \<Rightarrow> bool" where
  "queue_wf t \<longleftrightarrow> distinct (map key t) \<and> (\<forall>d \<in> set t. 0 \<le> tries d \<and> (pending d \<longrightarrow> tries d < limit))"

definition ready :: "datetime \<Rightarrow> 'd list \<Rightarrow> bool" where
  "ready s t \<longleftrightarrow> (\<forall>d \<in> set t. pending d \<longrightarrow> due s d)"

definition rank :: "'d list \<Rightarrow> 'd \<Rightarrow> nat" where
  \<comment> \<open>how many pending deliveries come before\<close>
  "rank t d = length (filter (\<lambda>z. pending z \<and> key z < key d) t)"

lemma spaced_successively: "es \<noteq> [] \<Longrightarrow> successively (\<lambda>e e'. clock e + delay \<le> clock e') es \<Longrightarrow> spaced (clock (hd es)) es"
proof (induction es)
  case (Cons e es)
  then show ?case by (cases es) auto
qed simp

lemma first_due_pending: "d \<in> set (first_due n e t) \<Longrightarrow> pending d"
  unfolding first_due_def using due_pending by (auto dest!: in_set_takeD)

lemma serve_key [simp]: "key (serve n e t d) = key d"
  by (simp add: serve_def key_attempt)

lemma serve_pending: "pending (serve n e t d) \<Longrightarrow> pending d"
  using first_due_pending [of d n e t] by (auto simp: serve_def split: if_splits)

lemma pass_keys [simp]: "map key (pass n e t) = map key t"
  by (simp add: pass_def)

lemma passes_keys [simp]: "map key (fold (pass n) es t) = map key t"
  by (induction es arbitrary: t) simp_all

lemma queue_wf_pass: assumes "queue_wf t" shows "queue_wf (pass n e t)"
proof -
  have "0 \<le> tries (serve n e t d) \<and> (pending (serve n e t d) \<longrightarrow> tries (serve n e t d) < limit)" if "d \<in> set t" for d
    using that assms tries_step(1) [of d e] pending_again [of e d] by (auto simp: serve_def queue_wf_def)
  then have "\<forall>d \<in> set (pass n e t). 0 \<le> tries d \<and> (pending d \<longrightarrow> tries d < limit)" by (auto simp: pass_def)
  with assms show ?thesis by (simp add: queue_wf_def)
qed

lemma ready_pass:
  assumes "queue_wf t" "ready (clock e) t" "clock e + delay \<le> s" shows "ready s (pass n e t)"
proof -
  have "due s (serve n e t d)" if "d \<in> set t" "pending (serve n e t d)" for d
  proof (cases "d \<in> set (first_due n e t)")
    case True
    with that assms(1,3) due_again [of d e s] show ?thesis by (auto simp: serve_def queue_wf_def)
  next
    case False
    with that assms(2) have "due (clock e) d" by (auto simp: serve_def ready_def)
    with False assms(3) delay_nonneg due_later [of "clock e" d s] show ?thesis by (simp add: serve_def)
  qed
  then show ?thesis by (auto simp: ready_def pass_def)
qed

lemma ready_later: "ready s t \<Longrightarrow> s \<le> s' \<Longrightarrow> ready s' t"
  unfolding ready_def using due_later by blast

lemma passes_ready:
  assumes "queue_wf t" "ready s t" "spaced s (us @ vs)"
  obtains s' where "queue_wf (fold (pass n) us t)" "ready s' (fold (pass n) us t)" "spaced s' vs"
proof -
  from assms have "\<exists>s'. queue_wf (fold (pass n) us t) \<and> ready s' (fold (pass n) us t) \<and> spaced s' vs"
  proof (induction us arbitrary: s t)
    case Nil
    then show ?case by auto
  next
    case (Cons e us)
    then have "ready (clock e + delay) (pass n e t)"
      using ready_pass [OF Cons.prems(1), of e "clock e + delay" n] ready_later [of s t "clock e"] by auto
    with Cons.IH [of "pass n e t" "clock e + delay"] Cons.prems queue_wf_pass show ?case by simp
  qed
  with that show thesis by blast
qed

lemma ready_due: "ready s t \<Longrightarrow> filter (due s) t = filter pending t"
  using due_pending by (auto simp: ready_def intro!: filter_cong)

lemma rank_pass:
  assumes "d \<in> set t" shows "rank (pass n e t) (serve n e t d) \<le> rank t d"
proof -
  let ?P = "\<lambda>z. pending z \<and> key z < key d"
  have "length (filter ?P (pass n e t)) = length (filter (?P \<circ> serve n e t) t)" by (simp add: pass_def filter_map)
  also have "filter (?P \<circ> serve n e t) t = filter (?P \<circ> serve n e t) (filter ?P t)"
    using serve_pending by (auto intro!: filter_cong)
  also have "length \<dots> \<le> length (filter ?P t)" by (rule length_filter_le)
  finally show ?thesis by (simp add: rank_def)
qed

text \<open>A delivery among the first is served by every pass, until it is settled.\<close>

lemma first_served:
  assumes "queue_wf t" "ready (clock e) t" "d \<in> set t" "pending d" "rank t d < n"
  shows "serve n e t d = attempt e d"
proof -
  let ?ps = "filter pending t"
  have "distinct (map key ?ps)" using assms(1) by (simp add: queue_wf_def distinct_map_filter)
  then have "d \<in> set (take n (sort_key key ?ps))"
    using assms(3-5) in_take_sort_key [of key ?ps d n] by (simp add: rank_def conj_commute)
  then show ?thesis using ready_due [OF assms(2)] by (simp add: serve_def first_due_def)
qed

lemma first_settled:
  assumes "queue_wf t" "ready s t" "spaced s es" "d \<in> set t"
    and "pending d \<Longrightarrow> rank t d < n \<and> limit - tries d \<le> int (length es)"
    and "y \<in> set (fold (pass n) es t)" "key y = key d"
  shows "\<not> pending y"
  using assms
proof (induction es arbitrary: s t d)
  case Nil
  then have "y = d" by (auto simp: queue_wf_def distinct_map inj_on_def)
  with Nil show ?case by (auto simp: queue_wf_def)
next
  case (Cons e es)
  let ?t = "pass n e t" and ?d = "serve n e t d"
  have r: "ready (clock e) t" using Cons.prems(2,3) ready_later by auto
  have "rank ?t ?d < n \<and> limit - tries ?d \<le> int (length es)" if "pending ?d"
  proof -
    from that have p: "pending d" by (rule serve_pending)
    then have "?d = attempt e d" using first_served [OF Cons.prems(1) r Cons.prems(4)] Cons.prems(5) by blast
    with that pending_again [of e d] p Cons.prems(5) rank_pass [OF Cons.prems(4), of n e] show ?thesis by auto
  qed
  moreover have "?d \<in> set ?t" using Cons.prems(4) by (simp add: pass_def)
  moreover have "ready (clock e + delay) ?t" using ready_pass [OF Cons.prems(1) r] by simp
  ultimately show ?case
    using Cons.IH [of ?t "clock e + delay" ?d] Cons.prems(3,6,7) queue_wf_pass [OF Cons.prems(1)] by simp
qed

text \<open>So as many spaced passes as there are attempts settle as many deliveries as a pass can serve.\<close>

lemma round_settles:
  assumes "queue_wf t" "ready s t" "spaced s es" "limit \<le> int (length es)"
  shows "length (filter pending (fold (pass n) es t)) \<le> length (filter pending t) - n"
proof -
  let ?t = "fold (pass n) es t" and ?ps = "filter pending t"
  let ?ys = "sort_key key ?ps"
  have D: "distinct (map key ?t)" "distinct (map key ?ps)"
    using assms(1) by (simp_all add: queue_wf_def distinct_map_filter)
  have "key y \<in> key ` set (drop n ?ys)" if y: "y \<in> set ?t" "pending y" for y
  proof -
    have "set (map key ?t) = set (map key t)" by (simp only: passes_keys)
    with y(1) obtain d where d: "d \<in> set t" "key y = key d" by (metis imageE imageI list.set_map)
    have "0 \<le> tries d" using assms(1) d(1) by (simp add: queue_wf_def)
    with first_settled [OF assms(1-3) d(1) _ y(1) d(2)] y(2) assms(4) have "pending d" "\<not> rank t d < n" by fastforce+
    then have "d \<in> set ?ys" "d \<notin> set (take n ?ys)"
      using d(1) in_take_sort_key [OF D(2), of d n] by (simp_all add: rank_def conj_commute)
    moreover have "set ?ys = set (take n ?ys) \<union> set (drop n ?ys)" by (metis append_take_drop_id set_append)
    ultimately show ?thesis using d(2) by blast
  qed
  then have "key ` set (filter pending ?t) \<subseteq> key ` set (drop n ?ys)" by auto
  then have "card (key ` set (filter pending ?t)) \<le> card (key ` set (drop n ?ys))" by (intro card_mono) simp_all
  also have "\<dots> \<le> length (drop n ?ys)" by (metis card_length length_map list.set_map)
  finally show ?thesis
    using D(1) by (metis distinct_card distinct_map_filter length_drop length_map length_sort list.set_map)
qed

lemma passes_pending: "y \<in> set (fold (pass n) es t) \<Longrightarrow> pending y \<Longrightarrow> \<exists>d \<in> set t. pending d"
proof (induction es arbitrary: t)
  case (Cons e es)
  then obtain d where "d \<in> set (pass n e t)" "pending d" by auto
  then obtain x where "x \<in> set t" "pending (serve n e t x)" by (auto simp: pass_def)
  then show ?case using serve_pending by blast
qed auto

lemma all_settled:
  assumes "queue_wf t" "ready s t" "spaced s es" "length (filter pending t) \<le> k * n" "nat limit * k \<le> length es"
    and "y \<in> set (fold (pass n) es t)"
  shows "\<not> pending y"
  using assms
proof (induction k arbitrary: s es t)
  case 0
  then show ?case using passes_pending by (fastforce simp: filter_empty_conv)
next
  case (Suc k)
  let ?us = "take (nat limit) es" and ?vs = "drop (nat limit) es"
  have es: "es = ?us @ ?vs" by simp
  obtain s' where s': "queue_wf (fold (pass n) ?us t)" "ready s' (fold (pass n) ?us t)" "spaced s' ?vs"
    using passes_ready [OF Suc.prems(1,2), of ?us ?vs] Suc.prems(3) es by metis
  have "spaced s (us @ vs) \<Longrightarrow> spaced s us" for us vs s
    by (induction us arbitrary: s) auto
  then have "spaced s ?us" using Suc.prems(3) es by metis
  then have "length (filter pending (fold (pass n) ?us t)) \<le> length (filter pending t) - n"
    using Suc.prems(5) by (intro round_settles [OF Suc.prems(1,2)]) auto
  then have "length (filter pending (fold (pass n) ?us t)) \<le> k * n" using Suc.prems(4) by simp
  moreover have "nat limit * k \<le> length ?vs" using Suc.prems(5) by simp
  moreover have "y \<in> set (fold (pass n) ?vs (fold (pass n) ?us t))"
    using Suc.prems(6) fold_append [of "pass n" ?us ?vs] by simp
  ultimately show ?case by (rule Suc.IH [OF s'])
qed

lemma passes_tries:
  assumes "queue_wf t"
  shows "list_all2 (\<lambda>x y. key y = key x \<and> tries y \<le> max (tries x) limit) t (fold (pass n) es t)"
  using assms
proof (induction es arbitrary: t)
  case Nil
  then show ?case by (simp add: list_all2_same)
next
  case (Cons e es)
  have "tries (serve n e t d) \<le> max (tries d) limit" if "d \<in> set t" for d
    using that Cons.prems tries_step(2) [of e d] first_due_pending [of d n e t] by (fastforce simp: serve_def queue_wf_def)
  then have "list_all2 (\<lambda>x y. key y = key x \<and> tries y \<le> max (tries x) limit) t (pass n e t)"
    by (simp add: pass_def list_all2_map2 list_all2_same)
  then have "list_all2 (\<lambda>x y. key y = key x \<and> tries y \<le> max (tries x) limit) t (fold (pass n) es (pass n e t))"
    by (rule list_all2_trans [OF _ _ Cons.IH [OF queue_wf_pass [OF Cons.prems]], rotated]) auto
  then show ?case by simp
qed

text \<open>What a worker does with a queue in enough spaced passes.\<close>

lemma settles:
  assumes "queue_wf t" "es \<noteq> []" "ready (clock (hd es)) t" "successively (\<lambda>e e'. clock e + delay \<le> clock e') es"
    and "length (filter pending t) \<le> k * n" "nat limit * k \<le> length es"
  shows "list_all2 (\<lambda>x y. key y = key x \<and> \<not> pending y \<and> tries y \<le> max (tries x) limit) t (fold (pass n) es t)"
proof -
  have "\<not> pending y" if "y \<in> set (fold (pass n) es t)" for y
    by (rule all_settled [OF assms(1,3) spaced_successively [OF assms(2,4)] assms(5,6) that])
  with passes_tries [OF assms(1), of n es] show ?thesis
    by (auto simp: list_all2_conv_all_nth)
qed

end

end
