(* ===== verification/Notify.thy ===== *)
theory Notify
  imports Samples RetryQueue
begin

text \<open>
  \<open>app/services/audit.py\<close>, \<open>notifications.py\<close>, \<open>delivery_queue.py\<close> and \<open>delivery_channels.py\<close>: the
  audit trail, the fan-out of a notification to its recipients, the delivery of each channel and
  the retry queue. These functions only touch the sub-record \<open>comms\<close> of the database.
\<close>

section \<open>Audit trail (\<open>audit.py\<close>)\<close>

definition log_audit_event ::
  "env \<Rightarrow> user option \<Rightarrow> string \<Rightarrow> string \<Rightarrow> string \<Rightarrow> int option \<Rightarrow> int option \<Rightarrow> jobject option
     \<Rightarrow> comms_db \<Rightarrow> comms_db" where
  "log_audit_event e current_user m action entity_type entity_id station_id details c =
     c\<lparr>audit_logs := add_row
        \<lparr>al_id = next_id al_id (audit_logs c),
         al_user_id = map_option u_id current_user,
         al_username = map_option u_username current_user,
         al_station_id = (if station_id \<noteq> None then station_id
                          else case current_user of None \<Rightarrow> None | Some u \<Rightarrow> u_station_id u),
         al_module = m, al_action = action, al_entity_type = entity_type, al_entity_id = entity_id,
         al_details_json = (case details of None \<Rightarrow> None
                            | Some o' \<Rightarrow> if o' = [] then None else Some (json_sorted o')),
         al_created_at = now e\<rparr> (audit_logs c)\<rparr>"

section \<open>Delivery channels (\<open>delivery_channels.py\<close>)\<close>

definition mock_enabled :: "env \<Rightarrow> bool" where
  "mock_enabled e \<longleftrightarrow> delivery_mode e = ''mock'' \<or> app_env e \<in> set [''development'', ''test'']"

type_synonym outcome = "string \<times> fstring option"

definition deliver_email ::
  "env \<Rightarrow> string option \<Rightarrow> string \<Rightarrow> fstring \<Rightarrow> fstring option \<Rightarrow> (string \<times> fstring) option \<Rightarrow> outcome" where
  "deliver_email e to_email subject body_text body_html attachment =
     (case to_email of
        None \<Rightarrow> (''skipped'', Some [T ''No destination configured for email''])
      | Some to' \<Rightarrow>
        if to' = [] then (''skipped'', Some [T ''No destination configured for email''])
        else if mock_enabled e then (''sent'', Some [T ''Mock email delivery to '', T to'])
        else if smtp_host e = [] \<or> smtp_from_email e = []
        then (''skipped'', Some [T ''SMTP provider is not configured''])
        else case smtp_send e \<lparr>mm_subject = subject, mm_from = smtp_from_email e, mm_to = to',
                    mm_text = body_text, mm_html = body_html, mm_attachment = attachment\<rparr> of
               None \<Rightarrow> (''sent'', None)
             | Some exc \<Rightarrow> (''failed'', Some [T ''SMTP delivery failed: '', T exc]))"

definition twilio_url :: "env \<Rightarrow> fstring" where
  "twilio_url e = [T ''https://api.twilio.com/2010-04-01/Accounts/'', T (twilio_account_sid e), T ''/Messages.json'']"

definition twilio_outcome :: "string \<Rightarrow> string + (bool \<times> int) \<Rightarrow> outcome" where
  \<comment> \<open>the end of \<open>deliver_sms\<close> and \<open>deliver_whatsapp\<close>\<close>
  "twilio_outcome prefix r =
     (case r of
        Inl exc \<Rightarrow> (''failed'', Some [T prefix, T exc])
      | Inr (is_ok, status_code) \<Rightarrow>
          if is_ok then (''sent'', None) else (''failed'', Some [T prefix, I status_code]))"

definition deliver_sms :: "env \<Rightarrow> string option \<Rightarrow> fstring \<Rightarrow> outcome" where
  "deliver_sms e to_number body_text =
     (case to_number of
        None \<Rightarrow> (''skipped'', Some [T ''No destination configured for sms''])
      | Some to' \<Rightarrow>
        if to' = [] then (''skipped'', Some [T ''No destination configured for sms''])
        else if mock_enabled e then (''sent'', Some [T ''Mock sms delivery to '', T to'])
        else if twilio_account_sid e = [] \<or> twilio_auth_token e = [] \<or> twilio_sms_from e = []
        then (''skipped'', Some [T ''Twilio SMS provider is not configured''])
        else twilio_outcome ''Twilio SMS failed: ''
               (http_post e \<lparr>hr_url = twilio_url e,
                  hr_data = [(''From'', [T (twilio_sms_from e)]), (''To'', [T to']), (''Body'', body_text)]\<rparr>))"

definition whatsapp_address :: "string \<Rightarrow> fstring" where
  "whatsapp_address s = (if py_startswith s ''whatsapp:'' then [T s] else [T ''whatsapp:'', T s])"

definition deliver_whatsapp :: "env \<Rightarrow> string option \<Rightarrow> fstring \<Rightarrow> outcome" where
  "deliver_whatsapp e to_number body_text =
     (case to_number of
        None \<Rightarrow> (''skipped'', Some [T ''No destination configured for whatsapp''])
      | Some to' \<Rightarrow>
        if to' = [] then (''skipped'', Some [T ''No destination configured for whatsapp''])
        else if mock_enabled e then (''sent'', Some [T ''Mock whatsapp delivery to '', T to'])
        else if twilio_account_sid e = [] \<or> twilio_auth_token e = [] \<or> twilio_whatsapp_from e = []
        then (''skipped'', Some [T ''Twilio WhatsApp provider is not configured''])
        else twilio_outcome ''Twilio WhatsApp failed: ''
               (http_post e \<lparr>hr_url = twilio_url e,
                  hr_data = [(''From'', whatsapp_address (twilio_whatsapp_from e)),
                             (''To'', whatsapp_address to'), (''Body'', body_text)]\<rparr>))"

section \<open>Retry policy (\<open>delivery_queue.py\<close>)\<close>

definition MAX_DELIVERY_ATTEMPTS :: int where "MAX_DELIVERY_ATTEMPTS = 3"
definition RETRY_BASE_MINUTES :: int where "RETRY_BASE_MINUTES = 5"

definition next_retry_time :: "env \<Rightarrow> int \<Rightarrow> datetime" where
  "next_retry_time e attempts_count =
     now e + minutes (RETRY_BASE_MINUTES * 2 ^ nat (max (attempts_count - 1) 0))"

definition should_retry :: "string \<Rightarrow> int \<Rightarrow> bool" where
  "should_retry status attempts_count \<longleftrightarrow> status = ''failed'' \<and> attempts_count < MAX_DELIVERY_ATTEMPTS"

section \<open>Delivering one notification (\<open>notifications.py\<close>)\<close>

definition delivered_if_sent :: "outcome \<Rightarrow> outcome" where
  "delivered_if_sent r = (if fst r = ''sent'' then ''delivered'' else fst r, snd r)"

definition deliver_notification_channel :: "env \<Rightarrow> string \<Rightarrow> string option \<Rightarrow> notification \<Rightarrow> outcome" where
  "deliver_notification_channel e channel destination n =
    (let body_text = T (no_title n) # T [CHR 0x0A, CHR 0x0A] # no_message n in
     if channel = ''in_app'' then (''delivered'', None)
     else if channel = ''email'' then
       delivered_if_sent (deliver_email e destination (no_title n) body_text
         (Some (T ''<h3>'' # T (no_title n) # T ''</h3><p>'' # no_message n @ [T ''</p>''])) None)
     else if channel = ''sms'' then delivered_if_sent (deliver_sms e destination body_text)
     else if channel = ''whatsapp'' then delivered_if_sent (deliver_whatsapp e destination body_text)
     else (''skipped'', Some [T ''Unsupported channel '', T channel]))"

definition record_attempt :: "env \<Rightarrow> notification option \<Rightarrow> notification_delivery \<Rightarrow> notification_delivery" where
  \<comment> \<open>\<open>process_notification_delivery\<close> on the delivery row, given the notification it belongs to\<close>
  "record_attempt e notification delivery =
    (case notification of
       None \<Rightarrow> delivery\<lparr>nd_status := ''failed'', nd_detail := Some [T ''Notification record not found''],
                 nd_processed_at := Some (now e)\<rparr>
     | Some n \<Rightarrow>
       let delivery = delivery\<lparr>nd_attempts_count := nd_attempts_count delivery + 1,
                               nd_last_attempt_at := Some (now e)\<rparr>;
           (status, detail) = deliver_notification_channel e (nd_channel delivery) (nd_destination delivery) n
       in if status \<in> set [''delivered'', ''skipped''] then
            delivery\<lparr>nd_status := status, nd_detail := detail, nd_next_retry_at := None,
                     nd_processed_at := Some (now e)\<rparr>
          else if should_retry status (nd_attempts_count delivery) then
            delivery\<lparr>nd_status := ''retrying'', nd_detail := detail,
                     nd_next_retry_at := Some (next_retry_time e (nd_attempts_count delivery)),
                     nd_processed_at := None\<rparr>
          else
            delivery\<lparr>nd_status := ''failed'', nd_detail := detail, nd_next_retry_at := None,
                     nd_processed_at := Some (now e)\<rparr>)"

definition process_notification_delivery ::
  "env \<Rightarrow> notification_delivery \<Rightarrow> comms_db \<Rightarrow> notification_delivery \<times> comms_db" where
  "process_notification_delivery e delivery c =
    (let delivery' = record_attempt e (get_row no_id (notifications c) (nd_notification_id delivery)) delivery
     in (delivery', c\<lparr>notification_deliveries := put_row nd_id delivery' (notification_deliveries c)\<rparr>))"

section \<open>Fan-out\<close>

definition channel_states :: "notification_preference option \<Rightarrow> (string \<times> bool) list" where
  "channel_states preference =
    (case preference of
       None \<Rightarrow> [(''in_app'', True), (''email'', False), (''sms'', False), (''whatsapp'', False)]
     | Some p \<Rightarrow> [(''in_app'', np_in_app_enabled p), (''email'', np_email_enabled p),
                  (''sms'', np_sms_enabled p), (''whatsapp'', np_whatsapp_enabled p)])"

definition destination_of :: "user \<Rightarrow> string \<Rightarrow> string option" where
  "destination_of recipient channel =
     (case map_of [(''in_app'', Some (str_int (u_id recipient))),
             (''email'', u_email recipient),
             (''sms'', u_phone recipient),
             (''whatsapp'', if truthy (u_whatsapp_number recipient) then u_whatsapp_number recipient
                            else u_phone recipient)] channel
      of None \<Rightarrow> None | Some destination \<Rightarrow> destination)"

definition queue_delivery :: "env \<Rightarrow> notification \<Rightarrow> user \<Rightarrow> string \<times> bool \<Rightarrow> comms_db \<Rightarrow> comms_db" where
  \<comment> \<open>the body of the loop of \<open>_create_delivery_logs\<close>\<close>
  "queue_delivery e n recipient ch c =
    (if \<not> snd ch then c
     else let delivery = \<lparr>nd_id = next_id nd_id (notification_deliveries c), nd_notification_id = no_id n,
                nd_channel = fst ch, nd_destination = destination_of recipient (fst ch),
                nd_status = ''queued'', nd_detail = Some [T ''Queued for delivery''], nd_attempts_count = 0,
                nd_last_attempt_at = None, nd_next_retry_at = None, nd_processed_at = None,
                nd_created_at = now e\<rparr>
          in snd (process_notification_delivery e delivery
                    (c\<lparr>notification_deliveries := add_row delivery (notification_deliveries c)\<rparr>)))"

definition create_delivery_logs ::
  "env \<Rightarrow> notification \<Rightarrow> user \<Rightarrow> notification_preference option \<Rightarrow> comms_db \<Rightarrow> comms_db" where
  "create_delivery_logs e n recipient preference c =
     fold (queue_delivery e n recipient) (channel_states preference) c"

fun distinct_users_from :: "int set \<Rightarrow> user list \<Rightarrow> user list" where
  "distinct_users_from seen [] = []"
| "distinct_users_from seen (u # us) =
     (if u_id u \<in> seen then distinct_users_from seen us
      else u # distinct_users_from (insert (u_id u) seen) us)"

definition distinct_users :: "user list \<Rightarrow> user list" where
  "distinct_users us = distinct_users_from {} us"

text \<open>The keyword arguments of \<open>notify_users\<close> that end up in the row.\<close>

record notice =
  nt_station_id :: "int option"
  nt_organization_id :: "int option"
  nt_event_type :: string
  nt_title :: string
  nt_message :: fstring
  nt_entity_type :: "string option"
  nt_entity_id :: "int option"

definition preference_of :: "comms_db \<Rightarrow> int \<Rightarrow> string \<Rightarrow> notification_preference option" where
  "preference_of c user_id event_type =
     find (\<lambda>p. np_user_id p = user_id \<and> np_event_type p = event_type) (notification_preferences c)"

definition muted :: "notification_preference option \<Rightarrow> bool" where
  "muted preference \<longleftrightarrow>
     (case preference of None \<Rightarrow> False
      | Some p \<Rightarrow> \<not> (np_in_app_enabled p \<or> np_email_enabled p \<or> np_sms_enabled p \<or> np_whatsapp_enabled p))"

definition notification_row :: "env \<Rightarrow> user option \<Rightarrow> notice \<Rightarrow> user \<Rightarrow> comms_db \<Rightarrow> notification" where
  "notification_row e actor nt recipient c =
     \<lparr>no_id = next_id no_id (notifications c), no_recipient_user_id = u_id recipient,
      no_actor_user_id = map_option u_id actor, no_station_id = nt_station_id nt,
      no_organization_id = nt_organization_id nt, no_event_type = nt_event_type nt,
      no_title = nt_title nt, no_message = nt_message nt, no_entity_type = nt_entity_type nt,
      no_entity_id = nt_entity_id nt, no_is_read = False, no_created_at = now e, no_read_at = None\<rparr>"

definition notify_recipient ::
  "env \<Rightarrow> user option \<Rightarrow> notice \<Rightarrow> user \<Rightarrow> notification list \<times> comms_db \<Rightarrow> notification list \<times> comms_db" where
  \<comment> \<open>the body of the loop of \<open>notify_users\<close>\<close>
  "notify_recipient e actor nt recipient s =
    (let c = snd s; preference = preference_of c (u_id recipient) (nt_event_type nt) in
     if map_option u_id actor = Some (u_id recipient) then s
     else if muted preference then s
     else let n = notification_row e actor nt recipient c
          in (fst s @ [n],
              create_delivery_logs e n recipient preference
                (c\<lparr>notifications := add_row n (notifications c)\<rparr>)))"

definition notify_users ::
  "env \<Rightarrow> user list \<Rightarrow> user option \<Rightarrow> notice \<Rightarrow> comms_db \<Rightarrow> notification list \<times> comms_db" where
  "notify_users e recipients actor nt c = fold (notify_recipient e actor nt) (distinct_users recipients) ([], c)"

section \<open>Who is told\<close>

definition eligible_users :: "db \<Rightarrow> user list" where
  "eligible_users d = filter u_is_active (users d)"

definition in_organization :: "db \<Rightarrow> int \<Rightarrow> user \<Rightarrow> bool" where
  \<comment> \<open>\<open>User.station.has(organization_id=organization_id)\<close>\<close>
  "in_organization d organization_id u \<longleftrightarrow>
     (case user_station d u of None \<Rightarrow> False | Some s \<Rightarrow> st_organization_id s = Some organization_id)"

definition head_office_of :: "db \<Rightarrow> int option \<Rightarrow> user list" where
  "head_office_of d organization_id =
     (case organization_id of None \<Rightarrow> []
      | Some i \<Rightarrow> filter (\<lambda>u. role_of u = ''HeadOffice'' \<and> in_organization d i u) (eligible_users d))"

definition get_station_approvers :: "db \<Rightarrow> int \<Rightarrow> int option \<Rightarrow> user list" where
  "get_station_approvers d station_id organization_id =
     distinct_users (filter (\<lambda>u. role_of u = ''Admin'') (eligible_users d) @ head_office_of d organization_id)"

definition get_station_watchers :: "db \<Rightarrow> int \<Rightarrow> int option \<Rightarrow> user list" where
  "get_station_watchers d station_id organization_id =
     distinct_users
       (filter (\<lambda>u. u_station_id u = Some station_id \<and> (role_of u = ''Manager'' \<or> role_of u = ''Accountant''))
          (eligible_users d)
        @ head_office_of d organization_id
        @ filter (\<lambda>u. role_of u = ''Admin'') (eligible_users d))"

definition notify_watchers :: "env \<Rightarrow> user list \<Rightarrow> user option \<Rightarrow> notice \<Rightarrow> db \<Rightarrow> db" where
  \<comment> \<open>a statement \<open>notify_users(db, recipients=..., ...)\<close> of another service\<close>
  "notify_watchers e recipients actor nt d = d\<lparr>comms := snd (notify_users e recipients actor nt (comms d))\<rparr>"

definition notify_approval_requested :: "env \<Rightarrow> user \<Rightarrow> notice \<Rightarrow> db \<Rightarrow> db" where
  "notify_approval_requested e actor nt d = d\<lparr>comms :=
     (case nt_station_id nt of None \<Rightarrow> comms d
      | Some station_id \<Rightarrow>
          snd (notify_users e (get_station_approvers d station_id (nt_organization_id nt)) (Some actor) nt (comms d)))\<rparr>"

definition notify_decision :: "env \<Rightarrow> int option \<Rightarrow> user \<Rightarrow> notice \<Rightarrow> db \<Rightarrow> db" where
  "notify_decision e recipient_user_id actor nt d = d\<lparr>comms :=
     (case recipient_user_id of None \<Rightarrow> comms d
      | Some i \<Rightarrow>
        (case find (\<lambda>u. u_id u = i \<and> u_is_active u) (users d) of
           None \<Rightarrow> comms d
         | Some recipient \<Rightarrow> snd (notify_users e [recipient] (Some actor) nt (comms d))))\<rparr>"

definition notify_actor :: "env \<Rightarrow> user \<Rightarrow> notice \<Rightarrow> db \<Rightarrow> db" where
  \<comment> \<open>the notice goes to the actor: \<open>actor_user=None\<close>\<close>
  "notify_actor e actor nt d =
     d\<lparr>comms := snd (notify_users e [actor] None (nt\<lparr>nt_organization_id := station_organization d actor\<rparr>)
                        (comms d))\<rparr>"

definition audit :: "env \<Rightarrow> user \<Rightarrow> string \<Rightarrow> string \<Rightarrow> string \<Rightarrow> int option \<Rightarrow> int option \<Rightarrow> jobject \<Rightarrow> db \<Rightarrow> db" where
  \<comment> \<open>a statement \<open>log_audit_event(db, current_user=current_user, ...)\<close> of another service\<close>
  "audit e u m action entity_type entity_id station_id details d =
     d\<lparr>comms := log_audit_event e (Some u) m action entity_type entity_id station_id (Some details) (comms d)\<rparr>"

lemmas comms_updates = notify_watchers_def notify_approval_requested_def notify_decision_def
  notify_actor_def audit_def

section \<open>Reading and preferences\<close>

definition newest_first :: "('r \<Rightarrow> datetime) \<Rightarrow> ('r \<Rightarrow> int) \<Rightarrow> 'r list \<Rightarrow> 'r list" where
  \<comment> \<open>\<open>order_by(created_at.desc(), id.desc())\<close>\<close>
  "newest_first created key t = rev (sort_key created (sort_key key t))"

definition page :: "nat \<Rightarrow> nat \<Rightarrow> 'r list \<Rightarrow> 'r list" where
  "page skip limit t = take limit (drop skip t)"

definition list_notifications :: "comms_db \<Rightarrow> user \<Rightarrow> bool \<Rightarrow> string option \<Rightarrow> nat \<Rightarrow> nat \<Rightarrow> notification list" where
  "list_notifications c current_user unread_only event_type limit skip =
     page skip limit (newest_first no_created_at no_id
       (filter (\<lambda>n. no_recipient_user_id n = u_id current_user
                  \<and> (unread_only \<longrightarrow> \<not> no_is_read n)
                  \<and> (truthy event_type \<longrightarrow> Some (no_event_type n) = event_type)) (notifications c)))"

definition mark_notification_read ::
  "env \<Rightarrow> notification \<Rightarrow> user \<Rightarrow> comms_db \<Rightarrow> (notification \<times> comms_db) res" where
  "mark_notification_read e n current_user c =
     (if no_recipient_user_id n \<noteq> u_id current_user then http 403 ''Not authorized for this notification''
      else if no_is_read n then Inr (n, c)
      else let n' = n\<lparr>no_is_read := True, no_read_at := Some (now e)\<rparr>
           in Inr (n', c\<lparr>notifications := put_row no_id n' (notifications c)\<rparr>))"

definition mark_all_notifications_read :: "env \<Rightarrow> user \<Rightarrow> comms_db \<Rightarrow> nat \<times> comms_db" where
  "mark_all_notifications_read e current_user c =
     (let mine = (\<lambda>n. no_recipient_user_id n = u_id current_user \<and> \<not> no_is_read n)
      in (length (filter mine (notifications c)),
          c\<lparr>notifications := map (\<lambda>n. if mine n then n\<lparr>no_is_read := True, no_read_at := Some (now e)\<rparr> else n)
                                 (notifications c)\<rparr>))"

definition get_or_create_preference :: "user \<Rightarrow> string \<Rightarrow> comms_db \<Rightarrow> notification_preference \<times> comms_db" where
  "get_or_create_preference current_user event_type c =
     (case preference_of c (u_id current_user) event_type of
        Some p \<Rightarrow> (p, c)
      | None \<Rightarrow> let p = \<lparr>np_id = next_id np_id (notification_preferences c), np_user_id = u_id current_user,
                       np_event_type = event_type, np_in_app_enabled = True, np_email_enabled = False,
                       np_sms_enabled = False, np_whatsapp_enabled = False\<rparr>
                in (p, c\<lparr>notification_preferences := add_row p (notification_preferences c)\<rparr>))"

definition update_preference ::
  "user \<Rightarrow> string \<Rightarrow> bool \<Rightarrow> bool \<Rightarrow> bool \<Rightarrow> bool \<Rightarrow> comms_db \<Rightarrow> notification_preference \<times> comms_db" where
  "update_preference current_user event_type in_app email sms whatsapp c =
     (let (p, c') = get_or_create_preference current_user event_type c;
          p' = p\<lparr>np_in_app_enabled := in_app, np_email_enabled := email, np_sms_enabled := sms,
                 np_whatsapp_enabled := whatsapp\<rparr>
      in (p', c'\<lparr>notification_preferences := put_row np_id p' (notification_preferences c')\<rparr>))"

definition list_preferences :: "comms_db \<Rightarrow> user \<Rightarrow> notification_preference list" where
  "list_preferences c current_user =
     sort_key np_event_type (filter (\<lambda>p. np_user_id p = u_id current_user) (notification_preferences c))"

definition notification_summary :: "comms_db \<Rightarrow> user \<Rightarrow> nat \<times> nat" where
  \<comment> \<open>unread, total\<close>
  "notification_summary c current_user =
     (let mine = filter (\<lambda>n. no_recipient_user_id n = u_id current_user) (notifications c)
      in (length (filter (\<lambda>n. \<not> no_is_read n) mine), length mine))"

definition my_deliveries :: "comms_db \<Rightarrow> user \<Rightarrow> notification_delivery list" where
  \<comment> \<open>the join of deliveries with the user's notifications\<close>
  "my_deliveries c current_user =
     filter (\<lambda>x. case get_row no_id (notifications c) (nd_notification_id x) of None \<Rightarrow> False
                | Some n \<Rightarrow> no_recipient_user_id n = u_id current_user) (notification_deliveries c)"

definition list_deliveries_filtered ::
  "comms_db \<Rightarrow> user \<Rightarrow> nat \<Rightarrow> nat \<Rightarrow> string option \<Rightarrow> string option \<Rightarrow> notification_delivery list" where
  "list_deliveries_filtered c current_user limit skip status channel =
     page skip limit (newest_first nd_created_at nd_id
       (filter (\<lambda>x. (truthy status \<longrightarrow> Some (nd_status x) = status)
                  \<and> (truthy channel \<longrightarrow> Some (nd_channel x) = channel)) (my_deliveries c current_user)))"

section \<open>Retrying\<close>

definition get_delivery_owner :: "db \<Rightarrow> notification_delivery \<Rightarrow> user res" where
  "get_delivery_owner d delivery =
     (case get_row no_id (notifications (comms d)) (nd_notification_id delivery) of
        None \<Rightarrow> http 404 ''Notification not found''
      | Some n \<Rightarrow>
        (case find (\<lambda>u. u_id u = no_recipient_user_id n \<and> u_is_active u) (users d) of
           None \<Rightarrow> http 404 ''Notification recipient not found''
         | Some u \<Rightarrow> Inr u))"

definition retry_delivery :: "env \<Rightarrow> notification_delivery \<Rightarrow> user \<Rightarrow> db \<Rightarrow> (notification_delivery \<times> db) res" where
  "retry_delivery e delivery current_user d =
     (case get_delivery_owner d delivery of Inl exc \<Rightarrow> Inl exc | Inr owner \<Rightarrow>
      if u_id owner \<noteq> u_id current_user \<and> role_of current_user \<notin> set [''Admin'', ''HeadOffice'']
      then http 403 ''Not authorized for this delivery''
      else if nd_status delivery \<notin> set [''failed'', ''retrying'']
      then http 400 ''Delivery is not eligible for retry''
      else let (delivery', c) = process_notification_delivery e (delivery\<lparr>nd_next_retry_at := None\<rparr>) (comms d)
           in Inr (delivery', d\<lparr>comms := c\<rparr>))"

definition delivery_due :: "datetime \<Rightarrow> notification_delivery \<Rightarrow> bool" where
  "delivery_due t x \<longleftrightarrow> nd_status x \<in> set [''queued'', ''retrying'']
     \<and> (case nd_next_retry_at x of None \<Rightarrow> True | Some r \<Rightarrow> r \<le> t)"

definition process_due_notification_deliveries :: "env \<Rightarrow> nat \<Rightarrow> comms_db \<Rightarrow> nat \<times> comms_db" where
  "process_due_notification_deliveries e limit c =
     (let due = take limit (sort_key nd_id (filter (delivery_due (now e)) (notification_deliveries c)))
      in (length due, fold (\<lambda>x c. snd (process_notification_delivery e x c)) due c))"

section \<open>The fan-out\<close>

lemma put_row_add_fresh:
  "key r = next_id key t \<Longrightarrow> key r' = key r \<Longrightarrow> put_row key r' (add_row r t) = add_row r' t"
  using next_id_fresh [of key t] by (force simp: put_row_def add_row_def intro!: map_idI)

lemma record_attempt_keeps [simp]:
  "nd_id (record_attempt e n x) = nd_id x"
  "nd_notification_id (record_attempt e n x) = nd_notification_id x"
  "nd_channel (record_attempt e n x) = nd_channel x"
  "nd_destination (record_attempt e n x) = nd_destination x"
  by (auto simp: record_attempt_def Let_def split: option.split prod.split)

lemma process_notification_delivery_frame [simp]:
  "notifications (snd (process_notification_delivery e x c)) = notifications c"
  "notification_preferences (snd (process_notification_delivery e x c)) = notification_preferences c"
  "audit_logs (snd (process_notification_delivery e x c)) = audit_logs c"
  by (simp_all add: process_notification_delivery_def Let_def)

lemma queue_delivery_frame [simp]:
  "notifications (queue_delivery e n r ch c) = notifications c"
  "notification_preferences (queue_delivery e n r ch c) = notification_preferences c"
  "audit_logs (queue_delivery e n r ch c) = audit_logs c"
  by (simp_all add: queue_delivery_def Let_def)

lemma fold_queue_delivery_frame [simp]:
  "notifications (fold (queue_delivery e n r) chs c) = notifications c"
  "notification_preferences (fold (queue_delivery e n r) chs c) = notification_preferences c"
  "audit_logs (fold (queue_delivery e n r) chs c) = audit_logs c"
  by (induction chs arbitrary: c) simp_all

definition delivery_targets :: "comms_db \<Rightarrow> (int \<times> string) list" where
  "delivery_targets c = map (\<lambda>x. (nd_notification_id x, nd_channel x)) (notification_deliveries c)"

lemma queue_delivery_targets:
  "delivery_targets (queue_delivery e n r ch c)
    = delivery_targets c @ (if snd ch then [(no_id n, fst ch)] else [])"
  by (auto simp: queue_delivery_def delivery_targets_def process_notification_delivery_def Let_def
      put_row_add_fresh) (simp add: add_row_def)

lemma fold_queue_delivery_targets:
  "delivery_targets (fold (queue_delivery e n r) chs c)
    = delivery_targets c @ map (Pair (no_id n)) (map fst (filter snd chs))"
  by (induction chs arbitrary: c) (simp_all add: queue_delivery_targets)

definition enabled_channels :: "notification_preference option \<Rightarrow> string list" where
  "enabled_channels p = map fst (filter snd (channel_states p))"

definition wants_notice :: "comms_db \<Rightarrow> user option \<Rightarrow> string \<Rightarrow> int \<Rightarrow> bool" where
  "wants_notice c actor event_type i
    \<longleftrightarrow> map_option u_id actor \<noteq> Some i \<and> \<not> muted (preference_of c i event_type)"

lemma preference_of_cong:
  "notification_preferences c = notification_preferences c' \<Longrightarrow> preference_of c = preference_of c'"
  by (simp add: preference_of_def fun_eq_iff)

lemma notify_recipient_step:
  assumes "notify_recipient e actor nt r (ns, c) = (ns', c')"
  shows "\<exists>new. ns' = ns @ new \<and> notifications c' = notifications c @ new
      \<and> map no_recipient_user_id new = filter (wants_notice c actor (nt_event_type nt)) [u_id r]
      \<and> delivery_targets c' = delivery_targets c @ concat (map (\<lambda>n. map (Pair (no_id n))
           (enabled_channels (preference_of c (no_recipient_user_id n) (nt_event_type nt)))) new)
      \<and> notification_preferences c' = notification_preferences c"
proof (cases "wants_notice c actor (nt_event_type nt) (u_id r)")
  case True
  let ?n = "notification_row e actor nt r c"
  from True assms have N: "ns' = ns @ [?n]"
    and C: "c' = create_delivery_logs e ?n r (preference_of c (u_id r) (nt_event_type nt))
                  (c\<lparr>notifications := add_row ?n (notifications c)\<rparr>)"
    by (simp_all only: notify_recipient_def wants_notice_def Let_def if_False snd_conv fst_conv prod.inject)
  have "delivery_targets c' = delivery_targets c
      @ map (Pair (no_id ?n)) (enabled_channels (preference_of c (u_id r) (nt_event_type nt)))"
    unfolding C create_delivery_logs_def fold_queue_delivery_targets enabled_channels_def
    by (simp add: delivery_targets_def)
  moreover have "no_recipient_user_id ?n = u_id r" by (simp add: notification_row_def)
  moreover have "notifications c' = notifications c @ [?n]"
    "notification_preferences c' = notification_preferences c"
    unfolding C by (simp_all add: create_delivery_logs_def add_row_def)
  ultimately show ?thesis
    using N True by (intro exI [of _ "[?n]"]) simp
next
  case False
  then show ?thesis
    using assms by (auto simp: notify_recipient_def wants_notice_def Let_def split: if_splits)
qed

lemma notify_recipients_steps:
  assumes "fold (notify_recipient e actor nt) rs (ns, c) = (ns', c')"
  shows "\<exists>new. ns' = ns @ new \<and> notifications c' = notifications c @ new
      \<and> map no_recipient_user_id new = filter (wants_notice c actor (nt_event_type nt)) (map u_id rs)
      \<and> delivery_targets c' = delivery_targets c @ concat (map (\<lambda>n. map (Pair (no_id n))
           (enabled_channels (preference_of c (no_recipient_user_id n) (nt_event_type nt)))) new)
      \<and> notification_preferences c' = notification_preferences c"
  using assms
proof (induction rs arbitrary: ns c)
  case Nil
  then show ?case by simp
next
  case (Cons r rs)
  obtain ns1 c1 where 1: "notify_recipient e actor nt r (ns, c) = (ns1, c1)" by fastforce
  from notify_recipient_step [OF this] obtain new1 where
    S1: "ns1 = ns @ new1" "notifications c1 = notifications c @ new1"
        "map no_recipient_user_id new1 = filter (wants_notice c actor (nt_event_type nt)) [u_id r]"
        "delivery_targets c1 = delivery_targets c @ concat (map (\<lambda>n. map (Pair (no_id n))
           (enabled_channels (preference_of c (no_recipient_user_id n) (nt_event_type nt)))) new1)"
        "notification_preferences c1 = notification_preferences c" by blast
  from S1(5) have P1: "preference_of c1 = preference_of c" by (rule preference_of_cong)
  then have P2: "wants_notice c1 = wants_notice c" by (simp add: wants_notice_def fun_eq_iff)
  note P = P1 P2
  from Cons.prems 1 have "fold (notify_recipient e actor nt) rs (ns1, c1) = (ns', c')" by simp
  from Cons.IH [OF this] obtain new2 where
    S2: "ns' = ns1 @ new2" "notifications c' = notifications c1 @ new2"
    "map no_recipient_user_id new2 = filter (wants_notice c actor (nt_event_type nt)) (map u_id rs)"
    "delivery_targets c' = delivery_targets c1 @ concat (map (\<lambda>n. map (Pair (no_id n))
       (enabled_channels (preference_of c (no_recipient_user_id n) (nt_event_type nt)))) new2)"
    "notification_preferences c' = notification_preferences c1" unfolding P by blast
  show ?case
    by (rule exI [of _ "new1 @ new2"])
      (simp only: S2 S1 append_assoc map_append concat_append filter_append list.map append_Cons append_Nil
        filter.simps if_distrib [where f = "\<lambda>x. x @ _"] refl simp_thms)
qed

lemma distinct_users_from_ids:
  "distinct (map u_id (distinct_users_from seen us)) \<and>
   u_id ` set (distinct_users_from seen us) = u_id ` set us - seen"
  by (induction us arbitrary: seen) auto

text \<open>
  Fan-out of a notification: the rows added are exactly one per distinct recipient other than
  the actor whose preference does not mute the event, in the order of the recipients, and each of
  them gets exactly one delivery for every channel that the recipient's preference enables.
\<close>

theorem notify_users_fanout:
  "\<exists>new. fst (notify_users e recipients actor nt c) = new
    \<and> notifications (snd (notify_users e recipients actor nt c)) = notifications c @ new
    \<and> map no_recipient_user_id new
        = filter (wants_notice c actor (nt_event_type nt)) (map u_id (distinct_users recipients))
    \<and> distinct (map no_recipient_user_id new)
    \<and> set (map u_id (distinct_users recipients)) = u_id ` set recipients
    \<and> delivery_targets (snd (notify_users e recipients actor nt c))
        = delivery_targets c @ concat (map (\<lambda>n. map (Pair (no_id n))
            (enabled_channels (preference_of c (no_recipient_user_id n) (nt_event_type nt)))) new)"
proof -
  obtain ns c' where R: "notify_users e recipients actor nt c = (ns, c')" by fastforce
  from notify_recipients_steps [OF this [unfolded notify_users_def]] show ?thesis
    unfolding R using distinct_users_from_ids [of "{}" recipients]
    by (auto simp: distinct_users_def)
qed

section \<open>The retry queue\<close>

definition delivery_pending :: "notification_delivery \<Rightarrow> bool" where
  "delivery_pending x \<longleftrightarrow> nd_status x \<in> set [''queued'', ''retrying'']"

definition delivery_wf :: "notification_delivery \<Rightarrow> bool" where
  \<comment> \<open>what every delivery of the queue satisfies: a pending one has attempts left, a retrying one is
      scheduled at most ten minutes after its last attempt, a settled one is marked processed\<close>
  "delivery_wf x \<longleftrightarrow>
     0 \<le> nd_attempts_count x
     \<and> nd_status x \<in> set [''queued'', ''retrying'', ''delivered'', ''skipped'', ''failed'']
     \<and> (delivery_pending x \<longrightarrow> nd_attempts_count x < MAX_DELIVERY_ATTEMPTS)
     \<and> (nd_status x = ''retrying'' \<longrightarrow>
          (case (nd_last_attempt_at x, nd_next_retry_at x) of
             (Some l, Some r) \<Rightarrow> r = l + minutes (RETRY_BASE_MINUTES * 2 ^ nat (max (nd_attempts_count x - 1) 0))
           | _ \<Rightarrow> False))
     \<and> (nd_processed_at x = None \<longleftrightarrow> delivery_pending x)"

lemma outcome_status:
  "fst (deliver_notification_channel e ch dest n) \<in> set [''delivered'', ''skipped'', ''failed'']"
  by (auto simp: deliver_notification_channel_def delivered_if_sent_def deliver_email_def deliver_sms_def
      deliver_whatsapp_def twilio_outcome_def Let_def split: option.split sum.split)

lemma record_attempt_cases:
  obtains (lost) "nd_status (record_attempt e m x) = ''failed''"
      "nd_attempts_count (record_attempt e m x) = nd_attempts_count x"
      "nd_processed_at (record_attempt e m x) = Some (now e)"
  | (settled) "nd_status (record_attempt e m x) \<in> set [''delivered'', ''skipped'', ''failed'']"
      "nd_attempts_count (record_attempt e m x) = nd_attempts_count x + 1"
      "nd_processed_at (record_attempt e m x) = Some (now e)"
  | (again) "nd_status (record_attempt e m x) = ''retrying''"
      "nd_attempts_count (record_attempt e m x) = nd_attempts_count x + 1"
      "nd_attempts_count x + 1 < MAX_DELIVERY_ATTEMPTS"
      "nd_last_attempt_at (record_attempt e m x) = Some (now e)"
      "nd_next_retry_at (record_attempt e m x) = Some (next_retry_time e (nd_attempts_count x + 1))"
      "nd_processed_at (record_attempt e m x) = None"
proof (cases m)
  case None
  then show ?thesis using lost by (simp add: record_attempt_def)
next
  case (Some n)
  obtain st dt where O: "deliver_notification_channel e (nd_channel x) (nd_destination x) n = (st, dt)"
    by fastforce
  with outcome_status [of e "nd_channel x" "nd_destination x" n]
  have "st \<in> set [''delivered'', ''skipped'', ''failed'']" by simp
  show ?thesis
  proof (cases "st = ''failed'' \<and> nd_attempts_count x + 1 < MAX_DELIVERY_ATTEMPTS")
    case True
    then show ?thesis by (intro again) (simp_all add: record_attempt_def Some O should_retry_def)
  next
    case False
    with \<open>st \<in> _\<close> show ?thesis
      by (intro settled) (auto simp: record_attempt_def Some O should_retry_def)
  qed
qed

lemma retry_delay_bound:
  assumes "0 \<le> a" "a + 1 < MAX_DELIVERY_ATTEMPTS"
  shows "next_retry_time e (a + 1) \<le> now e + minutes 10"
proof -
  from assms have "a = 0 \<or> a = 1" by (auto simp: MAX_DELIVERY_ATTEMPTS_def)
  then show ?thesis by (auto simp: next_retry_time_def RETRY_BASE_MINUTES_def minutes_def)
qed

interpretation notification_queue:
  retry_queue "\<lambda>e x. record_attempt e (lookup (nd_notification_id x)) x" nd_attempts_count delivery_pending
    delivery_due now MAX_DELIVERY_ATTEMPTS "minutes 10" nd_id
  for lookup :: "int \<Rightarrow> notification option"
proof
  fix e s t and x :: notification_delivery
  let ?m = "lookup (nd_notification_id x)" let ?y = "record_attempt e ?m x"
  show "nd_attempts_count x \<le> nd_attempts_count ?y"
    by (rule record_attempt_cases [of e ?m x]) simp_all
  show "nd_attempts_count ?y \<le> nd_attempts_count x + 1"
    by (rule record_attempt_cases [of e ?m x]) simp_all
  show "delivery_pending ?y \<Longrightarrow>
      nd_attempts_count ?y = nd_attempts_count x + 1 \<and> nd_attempts_count ?y < MAX_DELIVERY_ATTEMPTS"
    by (rule record_attempt_cases [of e ?m x]) (auto simp: delivery_pending_def)
  show "0 \<le> nd_attempts_count x \<Longrightarrow> delivery_pending ?y \<Longrightarrow> now e + minutes 10 \<le> t \<Longrightarrow> delivery_due t ?y"
    by (rule record_attempt_cases [of e ?m x])
      (use retry_delay_bound [of "nd_attempts_count x" e] in \<open>auto simp: delivery_pending_def delivery_due_def\<close>)
  show "delivery_due t x \<Longrightarrow> delivery_pending x"
    by (simp add: delivery_due_def delivery_pending_def)
  show "delivery_due s x \<Longrightarrow> s \<le> t \<Longrightarrow> delivery_due t x"
    by (auto simp: delivery_due_def split: option.splits)
  show "nd_id ?y = nd_id x" by (rule record_attempt_keeps)
  show "0 \<le> minutes 10" by (simp add: minutes_def)
qed

lemma record_attempt_wf:
  assumes "0 \<le> nd_attempts_count x"
  shows "delivery_wf (record_attempt e m x)"
  using assms
  by (rule_tac record_attempt_cases [of e m x])
    (auto simp: delivery_wf_def delivery_pending_def next_retry_time_def)

lemma fold_put_rows:
  assumes "keyed key t" "\<And>x. key (f x) = key x" "set xs \<subseteq> set t" "distinct xs"
  shows "fold (\<lambda>x. put_row key (f x)) xs t = map (\<lambda>x. if x \<in> set xs then f x else x) t"
  using assms(3,4)
proof (induction xs rule: rev_induct)
  case Nil
  then show ?case by simp
next
  case (snoc a xs)
  have K: "x \<in> set t \<Longrightarrow> key x = key a \<longleftrightarrow> x = a" for x
    using assms(1) snoc.prems(1) by (auto simp: keyed_def distinct_map inj_on_def)
  show ?case
    using snoc K assms(2) by (auto simp: put_row_def)
qed

lemma process_deliveries_fold:
  "fold (\<lambda>x c. snd (process_notification_delivery e x c)) xs c
    = c\<lparr>notification_deliveries := fold (\<lambda>x. put_row nd_id
          (record_attempt e (get_row no_id (notifications c) (nd_notification_id x)) x)) xs
        (notification_deliveries c)\<rparr>"
  by (induction xs arbitrary: c) (simp_all add: process_notification_delivery_def Let_def)

lemma process_due_pass:
  assumes "keyed nd_id (notification_deliveries c)"
  shows "snd (process_due_notification_deliveries e n c)
      = c\<lparr>notification_deliveries :=
             notification_queue.pass (get_row no_id (notifications c)) n e (notification_deliveries c)\<rparr>"
proof -
  let ?t = "notification_deliveries c" let ?first = "notification_queue.first_due n e ?t"
  have first: "?first = take n (sort_key nd_id (filter (delivery_due (now e)) ?t))"
    by (simp add: notification_queue.first_due_def)
  have "distinct ?t" using assms by (simp add: keyed_def distinct_map)
  then have "distinct ?first" "set ?first \<subseteq> set ?t" unfolding first by (auto dest: in_set_takeD)
  then have "fold (\<lambda>x. put_row nd_id (record_attempt e (get_row no_id (notifications c) (nd_notification_id x)) x)) ?first ?t
      = map (\<lambda>x. if x \<in> set ?first then record_attempt e (get_row no_id (notifications c) (nd_notification_id x)) x else x) ?t"
    by (intro fold_put_rows assms) auto
  also have "\<dots> = notification_queue.pass (get_row no_id (notifications c)) n e ?t"
    unfolding notification_queue.pass_def notification_queue.serve_def by simp
  finally show ?thesis
    unfolding process_due_notification_deliveries_def Let_def process_deliveries_fold first by simp
qed

text \<open>The worker: one pass per iteration of its loop, each at its own instant.\<close>

definition run_delivery_worker :: "env list \<Rightarrow> nat \<Rightarrow> comms_db \<Rightarrow> comms_db" where
  "run_delivery_worker es limit c = fold (\<lambda>e c. snd (process_due_notification_deliveries e limit c)) es c"

lemma run_delivery_worker_passes:
  assumes "keyed nd_id (notification_deliveries c)"
  shows "run_delivery_worker es n c
    = c\<lparr>notification_deliveries :=
          fold (notification_queue.pass (get_row no_id (notifications c)) n) es (notification_deliveries c)\<rparr>"
  using assms
proof (induction es arbitrary: c)
  case Nil
  then show ?case by (simp add: run_delivery_worker_def)
next
  case (Cons e es)
  let ?c = "c\<lparr>notification_deliveries :=
      notification_queue.pass (get_row no_id (notifications c)) n e (notification_deliveries c)\<rparr>"
  have "run_delivery_worker (e # es) n c = run_delivery_worker es n ?c"
    using process_due_pass [OF Cons.prems] by (simp add: run_delivery_worker_def)
  moreover have "keyed nd_id (notification_deliveries ?c)"
    using Cons.prems by (simp add: keyed_def)
  ultimately show ?case
    using Cons.IH [of ?c] by simp
qed

text \<open>
  C2. The background worker settles every pending delivery, however many there are: with a limit of \<open>n\<close> deliveries in a pass,
  \<open>3 k\<close> passes at least ten minutes apart (the longest retry delay) leave none of at most \<open>k n\<close> pending deliveries queued or
  retrying, when all are due at the first pass and none is added meanwhile, and no delivery that was within the limit is
  attempted more than \<open>MAX_DELIVERY_ATTEMPTS\<close> times.
\<close>

theorem worker_settles_deliveries:
  assumes "keyed nd_id (notification_deliveries c)" "\<forall>x \<in> set (notification_deliveries c). delivery_wf x"
    and "\<forall>x \<in> set (notification_deliveries c). delivery_pending x \<longrightarrow> delivery_due (now (hd es)) x"
    and "es \<noteq> []" "successively (\<lambda>e e'. now e + minutes 10 \<le> now e') es"
    and "length (filter delivery_pending (notification_deliveries c)) \<le> k * n" "3 * k \<le> length es"
  shows "list_all2 (\<lambda>x y. nd_id y = nd_id x \<and> \<not> delivery_pending y
            \<and> nd_attempts_count y \<le> max (nd_attempts_count x) MAX_DELIVERY_ATTEMPTS)
          (notification_deliveries c)
          (notification_deliveries (run_delivery_worker es n c))"
proof -
  have "notification_queue.queue_wf (notification_deliveries c)"
    using assms(1,2) by (auto simp: notification_queue.queue_wf_def keyed_def delivery_wf_def)
  moreover have "notification_queue.ready (now (hd es)) (notification_deliveries c)"
    using assms(3) by (simp add: notification_queue.ready_def)
  moreover have "nat MAX_DELIVERY_ATTEMPTS * k \<le> length es" using assms(7) by (simp add: MAX_DELIVERY_ATTEMPTS_def)
  ultimately show ?thesis
    using notification_queue.settles [of "notification_deliveries c" es k n "get_row no_id (notifications c)"] assms(4-6)
    by (simp add: run_delivery_worker_passes [OF assms(1)])
qed

definition sample_notification :: notification where
  "sample_notification =
     \<lparr>no_id = 1, no_recipient_user_id = 2, no_actor_user_id = Some 3, no_station_id = Some 1,
      no_organization_id = Some 1, no_event_type = ''event'', no_title = ''Title'', no_message = [T ''text''],
      no_entity_type = None, no_entity_id = None, no_is_read = False, no_created_at = 0, no_read_at = None\<rparr>"

definition sample_queue :: comms_db where
  \<comment> \<open>an sms delivery whose first attempt has failed, and one that waits\<close>
  "sample_queue = empty_comms\<lparr>notifications := [sample_notification],
     notification_deliveries := [\<lparr>nd_id = 1, nd_notification_id = 1, nd_channel = ''sms'',
       nd_destination = Some ''555'', nd_status = ''retrying'', nd_detail = None, nd_attempts_count = 1,
       nd_last_attempt_at = Some 0, nd_next_retry_at = Some 300000000, nd_processed_at = None,
       nd_created_at = 0\<rparr>,
      \<lparr>nd_id = 2, nd_notification_id = 1, nd_channel = ''sms'',
       nd_destination = Some ''556'', nd_status = ''queued'', nd_detail = None, nd_attempts_count = 0,
       nd_last_attempt_at = None, nd_next_retry_at = None, nd_processed_at = None,
       nd_created_at = 0\<rparr>]\<rparr>"

text \<open>Two deliveries and a worker that attempts one in a pass: six passes.\<close>

theorem worker_settles_deliveries_witness:
  "list_all2 (\<lambda>x y. nd_id y = nd_id x \<and> \<not> delivery_pending y
            \<and> nd_attempts_count y \<le> max (nd_attempts_count x) MAX_DELIVERY_ATTEMPTS)
     (notification_deliveries sample_queue)
     (notification_deliveries (run_delivery_worker
        [sample_env, sample_env\<lparr>now := 1700001000000000\<rparr>, sample_env\<lparr>now := 1700002000000000\<rparr>,
         sample_env\<lparr>now := 1700003000000000\<rparr>, sample_env\<lparr>now := 1700004000000000\<rparr>, sample_env\<lparr>now := 1700005000000000\<rparr>]
        1 sample_queue))"
proof (rule worker_settles_deliveries [where k = 2])
  show "keyed nd_id (notification_deliveries sample_queue)" by code_simp
  show "\<forall>x \<in> set (notification_deliveries sample_queue). delivery_wf x" by code_simp
  show "\<forall>x \<in> set (notification_deliveries sample_queue). delivery_pending x \<longrightarrow> delivery_due (now (hd
      [sample_env, sample_env\<lparr>now := 1700001000000000\<rparr>, sample_env\<lparr>now := 1700002000000000\<rparr>,
         sample_env\<lparr>now := 1700003000000000\<rparr>, sample_env\<lparr>now := 1700004000000000\<rparr>, sample_env\<lparr>now := 1700005000000000\<rparr>])) x"
    by code_simp
qed (code_simp+)

end
