(* ===== verification/Reversal.thy ===== *)
theory Reversal
  imports Notify
begin

text \<open>
  The reversal workflow that fuel sales, purchases, customer payments and supplier payments share.
  Each service writes the same ten columns; the four transitions of the record \<open>reversal\<close> are
  defined once. The interface \<open>reversal_workflow\<close> states what the routes of one kind of document
  promise; from it follow that a document is reversed at most once and never without an
  administrator or two people of different roles. Every kind of document interprets it.
\<close>

section \<open>The transitions\<close>

definition mark_requested :: "env \<Rightarrow> user \<Rightarrow> string option \<Rightarrow> reversal \<Rightarrow> reversal" where
  "mark_requested e u reason r = r\<lparr>request_status := Some ''pending'', requested_at := Some (now e),
     requested_by := Some (u_id u), request_reason := reason, reviewed_at := None, reviewed_by := None,
     rejection_reason := None\<rparr>"

definition mark_approved :: "env \<Rightarrow> user \<Rightarrow> reversal \<Rightarrow> reversal" where
  "mark_approved e u r = r\<lparr>request_status := Some ''approved'', reviewed_at := Some (now e),
     reviewed_by := Some (u_id u), rejection_reason := None\<rparr>"

definition mark_rejected :: "env \<Rightarrow> user \<Rightarrow> string option \<Rightarrow> reversal \<Rightarrow> reversal" where
  "mark_rejected e u reason r = r\<lparr>request_status := Some ''rejected'', reviewed_at := Some (now e),
     reviewed_by := Some (u_id u), rejection_reason := reason\<rparr>"

definition mark_reversed :: "env \<Rightarrow> user \<Rightarrow> reversal \<Rightarrow> reversal" where
  "mark_reversed e u r = r\<lparr>is_reversed := True, reversed_at := Some (now e), reversed_by := Some (u_id u)\<rparr>"

lemmas reversal_marks = mark_requested_def mark_approved_def mark_rejected_def mark_reversed_def

section \<open>Histories of one document\<close>

text \<open>
  The three routes of a document: \<open>POST /{id}/reverse\<close>, \<open>/approve-reversal\<close>, \<open>/reject-reversal\<close>,
  with the user and the reason of the body. A history is any sequence of successful calls of these
  routes, interleaved with arbitrary other changes of the database that leave the reversal columns
  of the document alone.
\<close>

datatype reversal_action =
    Reverse user "string option"
  | Approve user "string option"
  | Reject user "string option"

inductive reversal_history ::
  "(env \<Rightarrow> 's \<Rightarrow> reversal_action \<Rightarrow> ('d \<times> 's) res) \<Rightarrow> ('s \<Rightarrow> reversal option) \<Rightarrow> 's \<Rightarrow> reversal_action list \<Rightarrow> 's \<Rightarrow> bool"
  for exec :: "env \<Rightarrow> 's \<Rightarrow> reversal_action \<Rightarrow> ('d \<times> 's) res" and rev :: "'s \<Rightarrow> reversal option" and s :: 's
where
  start: "reversal_history exec rev s [] s"
| act: "reversal_history exec rev s h t \<Longrightarrow> exec e t a = Inr (x, t') \<Longrightarrow> reversal_history exec rev s (h @ [a]) t'"
| other: "reversal_history exec rev s h t \<Longrightarrow> rev t' = rev t \<Longrightarrow> reversal_history exec rev s h t'"

definition unreversed :: "reversal option \<Rightarrow> bool" where
  \<comment> \<open>a document that exists, is not reversed and whose reversal is not approved\<close>
  "unreversed r \<longleftrightarrow> (case r of None \<Rightarrow> False
     | Some r \<Rightarrow> \<not> is_reversed r \<and> request_status r \<in> set [None, Some ''pending'', Some ''rejected''])"

definition reversed_doc :: "reversal option \<Rightarrow> bool" where
  "reversed_doc r \<longleftrightarrow> (case r of None \<Rightarrow> False | Some r \<Rightarrow> is_reversed r)"

definition authorised :: "reversal_action list \<Rightarrow> bool" where
  \<comment> \<open>an administrator acted, or a request of one user was approved by a user of another role\<close>
  "authorised h \<longleftrightarrow>
     (\<exists>a \<in> set h. case a of Reverse u _ \<Rightarrow> is_admin u | Approve u _ \<Rightarrow> is_admin u | Reject _ _ \<Rightarrow> False)
     \<or> (\<exists>a \<in> set h. \<exists>b \<in> set h. case (a, b) of
          (Reverse u _, Approve v _) \<Rightarrow> role_of u \<noteq> role_of v | _ \<Rightarrow> False)"

locale reversal_workflow =
  fixes exec :: "env \<Rightarrow> 's \<Rightarrow> reversal_action \<Rightarrow> ('d \<times> 's) res"
    and rev :: "'s \<Rightarrow> reversal option"
    and may_reverse :: "user \<Rightarrow> bool"
    and may_review :: "user \<Rightarrow> bool"
  assumes reverse_ok: "exec e s (Reverse u reason) = Inr (x, s') \<Longrightarrow>
      \<exists>r. rev s = Some r \<and> \<not> is_reversed r \<and> may_reverse u
        \<and> (is_admin u \<longrightarrow> rev s' = Some (mark_reversed e u r))
        \<and> (\<not> is_admin u \<longrightarrow> request_status r \<noteq> Some ''pending'' \<and> rev s' = Some (mark_requested e u reason r))"
    and approve_ok: "exec e s (Approve u reason) = Inr (x, s') \<Longrightarrow>
      \<exists>r. rev s = Some r \<and> \<not> is_reversed r \<and> may_review u
        \<and> request_status r \<in> set [Some ''pending'', Some ''approved'']
        \<and> rev s' = Some (mark_reversed e u (mark_approved e u r))"
    and reject_ok: "exec e s (Reject u reason) = Inr (x, s') \<Longrightarrow>
      \<exists>r. rev s = Some r \<and> \<not> is_reversed r \<and> request_status r = Some ''pending''
        \<and> rev s' = Some (mark_rejected e u reason r)"
    and separated: "may_reverse u \<Longrightarrow> may_review v \<Longrightarrow> role_of u = role_of v \<Longrightarrow> is_admin v \<or> is_admin u"
begin

lemma reversed_stuck:
  assumes "reversed_doc (rev s)"
  shows "exec e s a \<noteq> Inr (x, s')"
  using assms reverse_ok [of e s _ _ x s'] approve_ok [of e s _ _ x s'] reject_ok [of e s _ _ x s']
  by (cases a) (fastforce simp: reversed_doc_def split: option.splits)+

lemma exec_cases:
  assumes "exec e s a = Inr (x, s')" "unreversed (rev s)"
  obtains (quiet) "unreversed (rev s')" "\<And>r. rev s' = Some r \<Longrightarrow> request_status r \<noteq> Some ''pending''"
  | (requested) u reason where "unreversed (rev s')" "a = Reverse u reason" "may_reverse u" "\<not> is_admin u"
  | (administered) u reason where "reversed_doc (rev s')" "a = Reverse u reason" "is_admin u"
  | (approved) u reason r where "reversed_doc (rev s')" "a = Approve u reason" "may_review u"
      "rev s = Some r" "request_status r = Some ''pending''"
proof (cases a)
  case (Reverse u reason)
  show ?thesis
  proof (cases "is_admin u")
    case True
    then show ?thesis using Reverse reverse_ok [of e s u reason x s'] assms
      by (intro administered) (auto simp: reversed_doc_def reversal_marks)
  next
    case False
    then show ?thesis using Reverse reverse_ok [of e s u reason x s'] assms
      by (intro requested) (auto simp: unreversed_def reversal_marks)
  qed
next
  case (Approve u reason)
  from approve_ok [OF assms(1) [unfolded Approve]] obtain r where
    "rev s = Some r" "may_review u" "request_status r \<in> set [Some ''pending'', Some ''approved'']"
    "rev s' = Some (mark_reversed e u (mark_approved e u r))" by blast
  with Approve assms(2) show ?thesis
    by (intro approved) (auto simp: unreversed_def reversed_doc_def reversal_marks)
next
  case (Reject u reason)
  with reject_ok [of e s u reason x s'] assms show ?thesis
    by (intro quiet) (auto simp: unreversed_def reversal_marks)
qed

definition requested_by_staff :: "'s \<Rightarrow> reversal_action list \<Rightarrow> bool" where
  "requested_by_staff t h \<longleftrightarrow> (\<forall>r. rev t = Some r \<and> request_status r = Some ''pending'' \<longrightarrow>
     (\<exists>u reason. Reverse u reason \<in> set h \<and> may_reverse u \<and> \<not> is_admin u))"

lemma approved_authorised:
  assumes "Reverse v why \<in> set h" "may_reverse v" "\<not> is_admin v" "may_review u"
  shows "authorised (h @ [Approve u reason])"
proof (cases "is_admin u")
  case False
  then have "role_of v \<noteq> role_of u" using separated [of v u] assms by blast
  with assms(1) show ?thesis unfolding authorised_def
    by (intro disjI2 bexI [of _ "Reverse v why"] bexI [of _ "Approve u reason"]) auto
qed (simp add: authorised_def)

lemma history_invariant:
  assumes "reversal_history exec rev s h t" "unreversed (rev s)"
    and "\<And>r. rev s = Some r \<Longrightarrow> request_status r \<noteq> Some ''pending''"
  shows "unreversed (rev t) \<and> requested_by_staff t h \<or> reversed_doc (rev t) \<and> authorised h"
  using assms
proof (induction rule: reversal_history.induct)
  case start
  then show ?case by (simp add: requested_by_staff_def)
next
  case (other h t t')
  then show ?case by (simp add: requested_by_staff_def)
next
  case (act h t e a x t')
  have "unreversed (rev t) \<and> requested_by_staff t h"
    using act reversed_stuck [of t e a x t'] by blast
  then have un: "unreversed (rev t)" and staff: "requested_by_staff t h" by blast+
  show ?case
    using act.hyps(2) un
  proof (cases rule: exec_cases)
    case quiet
    then show ?thesis by (intro disjI1 conjI) (auto simp: requested_by_staff_def)
  next
    case (requested u reason)
    then show ?thesis by (auto simp: requested_by_staff_def)
  next
    case (administered u reason)
    then show ?thesis by (intro disjI2 conjI) (auto simp: authorised_def)
  next
    case (approved u reason r)
    with staff obtain v why where "Reverse v why \<in> set h" "may_reverse v" "\<not> is_admin v"
      by (auto simp: requested_by_staff_def)
    then have "authorised (h @ [Approve u reason])"
      using approved(3) by (rule approved_authorised)
    with approved show ?thesis by simp
  qed
qed

lemma reversal_authorised:
  assumes "reversal_history exec rev s h t" "unreversed (rev s)"
    and "\<And>r. rev s = Some r \<Longrightarrow> request_status r \<noteq> Some ''pending''"
    and "reversed_doc (rev t)"
  shows "authorised h"
  using history_invariant [OF assms(1-3)] assms(4)
  by (auto simp: unreversed_def reversed_doc_def split: option.splits)

lemma reversed_forever:
  assumes "reversal_history exec rev s h t" "reversed_doc (rev s)"
  shows "h = [] \<and> rev t = rev s"
  using assms
proof (induction rule: reversal_history.induct)
  case (act h t e a x t')
  then show ?case using reversed_stuck [of t e a x t'] by auto
qed auto

end

definition organization_of_station :: "db \<Rightarrow> int \<Rightarrow> int option" where
  \<comment> \<open>\<open>x.station.organization_id if x.station else None\<close>\<close>
  "organization_of_station d station_id =
     (case get_row st_id (stations d) station_id of None \<Rightarrow> None | Some s \<Rightarrow> st_organization_id s)"

end
