(* ===== verification/FeatureModules.thy ===== *)
theory FeatureModules
  imports Samples
begin

text \<open>
  \<open>app/services/station_modules.py\<close> and \<open>organization_modules.py\<close>: the feature switches of a
  station and of an organization.
\<close>

definition station_module_setting_of :: "db \<Rightarrow> int \<Rightarrow> string \<Rightarrow> station_module_setting option" where
  "station_module_setting_of d station_id module_name =
     find (\<lambda>s. sm_station_id s = station_id \<and> sm_module_name s = module_name) (station_modules d)"

definition is_station_module_enabled :: "db \<Rightarrow> int \<Rightarrow> string \<Rightarrow> bool" where
  "is_station_module_enabled d station_id module_name =
     (case station_module_setting_of d station_id module_name of None \<Rightarrow> False | Some s \<Rightarrow> sm_is_enabled s)"

definition require_station_module_enabled :: "db \<Rightarrow> int \<Rightarrow> string \<Rightarrow> unit res" where
  "require_station_module_enabled d station_id module_name =
     (if \<not> is_station_module_enabled d station_id module_name
      then Inl (HTTPException 403 [T module_name, T '' module is not enabled for this station'']) else ok)"

definition ensure_station_module_access :: "db \<Rightarrow> int \<Rightarrow> user \<Rightarrow> station res" where
  "ensure_station_module_access d station_id u =
     (case get_row st_id (stations d) station_id of
        None \<Rightarrow> http 404 ''Station not found''
      | Some station \<Rightarrow>
        if is_admin u then Inr station
        else if role_of u = ''HeadOffice'' then
          (if st_organization_id station \<noteq> station_organization d u then http 403 ''Not authorized for this station''
           else Inr station)
        else if u_station_id u \<noteq> Some station_id then http 403 ''Not authorized for this station''
        else Inr station)"

definition station_scope :: "db \<Rightarrow> user \<Rightarrow> int \<Rightarrow> string \<Rightarrow> unit res" where
  \<comment> \<open>the body that the access checks of tankers, trips, shifts and others share: an administrator, a
      head office user of the station's organization, or a user of the station\<close>
  "station_scope d u station_id detail =
     (if is_admin u then ok
      else if role_of u = ''HeadOffice'' then
        (case get_row st_id (stations d) station_id of
           None \<Rightarrow> Inl AttributeError
         | Some s \<Rightarrow> if st_organization_id s = station_organization d u then ok else http 403 detail)
      else if u_station_id u \<noteq> Some station_id then http 403 detail
      else ok)"

definition set_station_module :: "int \<Rightarrow> string \<Rightarrow> bool \<Rightarrow> db \<Rightarrow> station_module_setting \<times> db" where
  "set_station_module station_id module_name is_enabled d =
     (case station_module_setting_of d station_id module_name of
        None \<Rightarrow> let s = \<lparr>sm_id = next_id sm_id (station_modules d), sm_station_id = station_id,
                        sm_module_name = module_name, sm_is_enabled = is_enabled\<rparr>
                in (s, d\<lparr>station_modules := add_row s (station_modules d)\<rparr>)
      | Some s \<Rightarrow> let s' = s\<lparr>sm_is_enabled := is_enabled\<rparr>
                  in (s', d\<lparr>station_modules := put_row sm_id s' (station_modules d)\<rparr>))"

definition ensure_organization_module_access :: "db \<Rightarrow> int \<Rightarrow> user \<Rightarrow> organization res" where
  "ensure_organization_module_access d organization_id u =
     (case get_row or_id (organizations d) organization_id of
        None \<Rightarrow> http 404 ''Organization not found''
      | Some organization \<Rightarrow>
        if is_admin u then Inr organization
        else if is_head_office_user u \<and> get_user_organization_id d u = Some organization_id then Inr organization
        else http 403 ''Not authorized for this organization'')"

definition organization_module_setting_of :: "db \<Rightarrow> int \<Rightarrow> string \<Rightarrow> organization_module_setting option" where
  "organization_module_setting_of d organization_id module_name =
     find (\<lambda>s. om_organization_id s = organization_id \<and> om_module_name s = module_name) (organization_modules d)"

definition is_organization_module_enabled :: "db \<Rightarrow> int \<Rightarrow> string \<Rightarrow> bool" where
  "is_organization_module_enabled d organization_id module_name =
     (case organization_module_setting_of d organization_id module_name of None \<Rightarrow> False | Some s \<Rightarrow> om_is_enabled s)"

definition set_organization_module :: "int \<Rightarrow> string \<Rightarrow> bool \<Rightarrow> db \<Rightarrow> organization_module_setting \<times> db" where
  "set_organization_module organization_id module_name is_enabled d =
     (case organization_module_setting_of d organization_id module_name of
        None \<Rightarrow> let s = \<lparr>om_id = next_id om_id (organization_modules d), om_organization_id = organization_id,
                        om_module_name = module_name, om_is_enabled = is_enabled\<rparr>
                in (s, d\<lparr>organization_modules := add_row s (organization_modules d)\<rparr>)
      | Some s \<Rightarrow> let s' = s\<lparr>om_is_enabled := is_enabled\<rparr>
                  in (s', d\<lparr>organization_modules := put_row om_id s' (organization_modules d)\<rparr>))"

section \<open>The switch is a map from station and module to a flag\<close>

lemma find_add_row: "find P (add_row r t) = (case find P t of None \<Rightarrow> if P r then Some r else None | Some x \<Rightarrow> Some x)"
  by (induction t) (simp_all add: add_row_def)

lemma put_row_head: "key x \<notin> key ` set t \<Longrightarrow> key r = key x \<Longrightarrow> put_row key r (x # t) = r # t"
proof -
  assume "key x \<notin> key ` set t" "key r = key x"
  then have "map (\<lambda>y. if key y = key r then r else y) t = t"
    by (intro map_idI) (metis image_eqI)
  then show ?thesis using \<open>key r = key x\<close> by (simp add: put_row_def)
qed

lemma find_put_same_key:
  assumes "keyed key t" "find P t = Some r" "key r' = key r" "P r'" "\<And>x. Q x \<Longrightarrow> \<not> P x"
  shows "find P (put_row key r' t) = Some r'" "\<not> Q r' \<Longrightarrow> find Q (put_row key r' t) = find Q t"
  using assms
proof (induction t)
  case (Cons x t)
  { case 1
    then show ?case
    proof (cases "P x")
      case True
      with 1 show ?thesis by (simp add: put_row_def)
    next
      case False
      with 1 have "r \<in> set t" by (auto simp: find_Some_iff in_set_conv_nth)
      with 1 have "key x \<noteq> key r'" by (auto simp: keyed_def)
      with 1 False Cons.IH(1) show ?thesis by (simp add: put_row_def keyed_def)
    qed
  next
    case 2
    then show ?case
    proof (cases "P x")
      case True
      with 2 have "r = x" by simp
      with 2 have "put_row key r' (x # t) = r' # t"
        by (simp add: put_row_head keyed_def)
      with True 2 show ?thesis by auto
    next
      case False
      with 2 have "r \<in> set t" by (auto simp: find_Some_iff in_set_conv_nth)
      with 2 have "key x \<noteq> key r'" by (auto simp: keyed_def)
      with 2 False Cons.IH(2) show ?thesis by (simp add: put_row_def keyed_def)
    qed
  }
qed simp_all

text \<open>
  \<open>set_station_module\<close> switches exactly the module it is given: afterwards that module of that
  station is enabled as requested, and every other module and every other station is as before.
\<close>

theorem set_station_module_updates:
  assumes "keyed sm_id (station_modules d)"
  shows "is_station_module_enabled (snd (set_station_module i m flag d)) j n
    = (if j = i \<and> n = m then flag else is_station_module_enabled d j n)"
proof (cases "station_module_setting_of d i m")
  case None
  then show ?thesis
    by (auto simp: set_station_module_def is_station_module_enabled_def station_module_setting_of_def
        find_add_row Let_def split: option.split)
next
  case (Some s)
  let ?s' = "s\<lparr>sm_is_enabled := flag\<rparr>"
  let ?P = "\<lambda>j n x. sm_station_id x = j \<and> sm_module_name x = n"
  from Some have F: "find (?P i m) (station_modules d) = Some s" by (simp add: station_module_setting_of_def)
  then have s: "sm_station_id s = i" "sm_module_name s = m" by (auto simp: find_Some_iff)
  have "find (?P j n) (put_row sm_id ?s' (station_modules d))
      = (if j = i \<and> n = m then Some ?s' else find (?P j n) (station_modules d))"
    using find_put_same_key(1) [OF assms F, of ?s' "\<lambda>x. False"]
      find_put_same_key(2) [OF assms F, of ?s' "?P j n"] s by auto
  then show ?thesis
    using Some by (auto simp: set_station_module_def is_station_module_enabled_def station_module_setting_of_def Let_def)
qed

theorem set_station_module_updates_witness:
  "is_station_module_enabled (snd (set_station_module 1 ''mart'' True sample_db)) 1 ''mart''"
  using set_station_module_updates [of sample_db 1 "''mart''" True 1 "''mart''"]
  by (simp add: keyed_def sample_db_def empty_db_def)

section \<open>Filters of the listings\<close>

definition own_station :: "user \<Rightarrow> int option \<Rightarrow> int option" where
  \<comment> \<open>the station filter of a listing: the requested one for an administrator, else the user's own\<close>
  "own_station u station_id = (if \<not> is_admin u then u_station_id u else station_id)"

definition selects :: "int option \<Rightarrow> int \<Rightarrow> bool" where
  \<comment> \<open>\<open>if x: q = q.filter(column == x)\<close>\<close>
  "selects x column \<longleftrightarrow> x \<in> set [None, Some 0] \<or> x = Some column"

definition in_window :: "date option \<Rightarrow> date option \<Rightarrow> datetime \<Rightarrow> bool" where
  \<comment> \<open>\<open>created_at >= from_date\<close> and \<open>created_at < to_date\<close>, each only when given\<close>
  "in_window from_date to_date t \<longleftrightarrow>
     (case from_date of None \<Rightarrow> True | Some x \<Rightarrow> days x \<le> t) \<and> (case to_date of None \<Rightarrow> True | Some x \<Rightarrow> t < days x)"

definition station_in :: "db \<Rightarrow> int \<Rightarrow> int option \<Rightarrow> bool" where
  \<comment> \<open>the station exists and belongs to the organization\<close>
  "station_in d i organization_id \<longleftrightarrow>
     (case get_row st_id (stations d) i of None \<Rightarrow> False | Some s \<Rightarrow> st_organization_id s = organization_id)"

end
