(* ===== verification/Books.thy ===== *)
theory Books
  imports Reversal FeatureModules
begin

text \<open>
  The books of a station: the stock of its tanks, what its customers owe, what it owes its
  suppliers. \<open>books_ok\<close> is the invariant that the operations of the other theories keep: every
  figure is a binary64 number, no tank is below empty or above its capacity, and no balance is
  negative.
\<close>

definition tank_ok :: "tank \<Rightarrow> bool" where
  "tank_ok k \<longleftrightarrow> is_float (tk_current_volume k) \<and> is_float (tk_capacity k)
     \<and> 0 \<le> tk_current_volume k \<and> tk_current_volume k \<le> tk_capacity k"

definition customer_ok :: "customer \<Rightarrow> bool" where
  "customer_ok c \<longleftrightarrow> is_float (cu_outstanding_balance c) \<and> 0 \<le> cu_outstanding_balance c
     \<and> is_float (cu_override_amount c) \<and> 0 \<le> cu_override_amount c
     \<and> is_float (cu_override_requested_amount c) \<and> 0 \<le> cu_override_requested_amount c"

definition supplier_ok :: "supplier \<Rightarrow> bool" where
  "supplier_ok s \<longleftrightarrow> is_float (su_payable_balance s) \<and> 0 \<le> su_payable_balance s"

text \<open>The amounts of the documents, which a reversal gives back.\<close>

definition sale_ok :: "fuel_sale \<Rightarrow> bool" where
  "sale_ok s \<longleftrightarrow> 0 \<le> fs_quantity s \<and> 0 \<le> fs_total_amount s"

definition purchase_ok :: "purchase \<Rightarrow> bool" where
  "purchase_ok p \<longleftrightarrow> 0 \<le> pu_quantity p \<and> 0 \<le> pu_total_amount p"

definition customer_payment_ok :: "customer_payment \<Rightarrow> bool" where
  "customer_payment_ok p \<longleftrightarrow> 0 \<le> cp_amount p"

definition supplier_payment_ok :: "supplier_payment \<Rightarrow> bool" where
  "supplier_payment_ok p \<longleftrightarrow> 0 \<le> sp_amount p"

definition delivery_ok :: "tanker_delivery \<Rightarrow> bool" where
  "delivery_ok v \<longleftrightarrow> 0 \<le> de_quantity v \<and> 0 \<le> de_fuel_amount v \<and> 0 \<le> de_outstanding_amount v"

definition books_ok :: "db \<Rightarrow> bool" where
  "books_ok d \<longleftrightarrow> list_all tank_ok (tanks d) \<and> list_all customer_ok (customers d)
     \<and> list_all supplier_ok (suppliers d) \<and> list_all sale_ok (fuel_sales d) \<and> list_all purchase_ok (purchases d)
     \<and> list_all customer_payment_ok (customer_payments d) \<and> list_all supplier_payment_ok (supplier_payments d)
     \<and> list_all delivery_ok (tanker_deliveries d)"

lemma books_ok_cong:
  "tanks d' = tanks d \<Longrightarrow> customers d' = customers d \<Longrightarrow> suppliers d' = suppliers d \<Longrightarrow>
   fuel_sales d' = fuel_sales d \<Longrightarrow> purchases d' = purchases d \<Longrightarrow> customer_payments d' = customer_payments d \<Longrightarrow>
   supplier_payments d' = supplier_payments d \<Longrightarrow> tanker_deliveries d' = tanker_deliveries d \<Longrightarrow> books_ok d' = books_ok d"
  by (simp add: books_ok_def)

lemma books_ok_rows:
  assumes "books_ok d"
  shows "get_row tk_id (tanks d) i = Some k \<Longrightarrow> tank_ok k"
    "get_row cu_id (customers d) i = Some c \<Longrightarrow> customer_ok c"
    "get_row su_id (suppliers d) i = Some s \<Longrightarrow> supplier_ok s"
    "get_row fs_id (fuel_sales d) i = Some f \<Longrightarrow> sale_ok f"
    "get_row pu_id (purchases d) i = Some p \<Longrightarrow> purchase_ok p"
    "get_row cp_id (customer_payments d) i = Some cp \<Longrightarrow> customer_payment_ok cp"
    "get_row sp_id (supplier_payments d) i = Some sp \<Longrightarrow> supplier_payment_ok sp"
    "get_row de_id (tanker_deliveries d) i = Some v \<Longrightarrow> delivery_ok v"
  using assms unfolding books_ok_def by (blast intro: all_get_row)+

lemma tank_ok_volume:
  "tank_ok k \<Longrightarrow> is_float v \<Longrightarrow> 0 \<le> v \<Longrightarrow> v \<le> tk_capacity k \<Longrightarrow> tank_ok (k\<lparr>tk_current_volume := v\<rparr>)"
  by (simp add: tank_ok_def)

lemma tank_ok_draw:
  assumes "tank_ok k" "0 \<le> q" "q \<le> tk_current_volume k"
  shows "tank_ok (k\<lparr>tk_current_volume := fsub (tk_current_volume k) q\<rparr>)"
  using assms fsub_le [of "tk_capacity k" "tk_current_volume k" q]
  by (intro tank_ok_volume) (auto simp: tank_ok_def)

lemma tank_ok_fill:
  assumes "tank_ok k" "0 \<le> q" "fadd (tk_current_volume k) q \<le> tk_capacity k"
  shows "tank_ok (k\<lparr>tk_current_volume := fadd (tk_current_volume k) q\<rparr>)"
  using assms by (intro tank_ok_volume) (auto simp: tank_ok_def)

lemma customer_ok_balance:
  "customer_ok c \<Longrightarrow> is_float b \<Longrightarrow> 0 \<le> b \<Longrightarrow> customer_ok (c\<lparr>cu_outstanding_balance := b\<rparr>)"
  by (simp add: customer_ok_def)

lemma supplier_ok_balance:
  "supplier_ok s \<Longrightarrow> is_float b \<Longrightarrow> 0 \<le> b \<Longrightarrow> supplier_ok (s\<lparr>su_payable_balance := b\<rparr>)"
  by (simp add: supplier_ok_def)

end
