(* ===== verification/FuelSales.thy ===== *)
theory FuelSales
  imports Books
begin

text \<open>
  \<open>app/services/fuel_sales.py\<close> and the routes of \<open>app/api/fuel_sale.py\<close>: recording a sale at a
  nozzle, its effect on the nozzle meter, the tank stock and the customer's credit, and the
  reversal of a sale.
\<close>

section \<open>Recording a sale\<close>

record fuel_sale_create =
  sd_nozzle_id :: int
  sd_station_id :: int
  sd_fuel_type_id :: int
  sd_customer_id :: "int option"
  sd_closing_meter :: pyfloat
  sd_rate_per_liter :: pyfloat
  sd_sale_type :: string
  sd_shift_name :: "string option"
  sd_shift_id :: "int option"

definition ensure_sale_access :: "db \<Rightarrow> fuel_sale \<Rightarrow> user \<Rightarrow> unit res" where
  "ensure_sale_access d sale u =
     (if is_admin u then ok
      else if is_head_office_user u then
        (case get_row st_id (stations d) (fs_station_id sale) of
           None \<Rightarrow> http 403 ''Not authorized for this fuel sale''
         | Some s \<Rightarrow> if st_organization_id s = get_user_organization_id d u then ok
                     else http 403 ''Not authorized for this fuel sale'')
      else if u_station_id u \<noteq> Some (fs_station_id sale) then http 403 ''Not authorized for this fuel sale''
      else ok)"

definition open_shift_of :: "db \<Rightarrow> int \<Rightarrow> int \<Rightarrow> shift option" where
  \<comment> \<open>the query for the open shift of a user at a station\<close>
  "open_shift_of d user_id station_id =
     find (\<lambda>s. sh_user_id s = user_id \<and> sh_station_id s = station_id \<and> sh_status s = ''open'') (shifts d)"

definition sale_shift_id :: "db \<Rightarrow> fuel_sale_create \<Rightarrow> user \<Rightarrow> int option res" where
  "sale_shift_id d data u =
     (if sd_shift_id data \<in> set [None, Some 0] then
        (case open_shift_of d (u_id u) (sd_station_id data) of
           None \<Rightarrow> Inr (sd_shift_id data) | Some s \<Rightarrow> Inr (Some (sh_id s)))
      else case get_row sh_id (shifts d) (the (sd_shift_id data)) of
             None \<Rightarrow> http 404 ''Shift not found''
           | Some s \<Rightarrow>
             if sh_station_id s \<noteq> sd_station_id data then http 400 ''Shift does not belong to the selected station''
             else if sh_status s \<noteq> ''open'' then http 400 ''Fuel sales can only be recorded on an open shift''
             else Inr (sd_shift_id data))"

definition sale_customer :: "db \<Rightarrow> fuel_sale_create \<Rightarrow> customer option res" where
  "sale_customer d data =
     (case sd_customer_id data of
        None \<Rightarrow> Inr None
      | Some i \<Rightarrow>
        (case get_row cu_id (customers d) i of
           None \<Rightarrow> http 404 ''Customer not found''
         | Some c \<Rightarrow> if cu_station_id c \<noteq> sd_station_id data
                     then http 400 ''Customer does not belong to the selected station'' else Inr (Some c)))"

definition charge_credit :: "customer \<Rightarrow> pyfloat \<Rightarrow> customer res" where
  \<comment> \<open>the credit branch at the end of \<open>create_fuel_sale\<close>\<close>
  "charge_credit c total_amount =
     (let projected_balance = fadd (cu_outstanding_balance c) total_amount;
          allowed_limit = fadd (cu_credit_limit c) (cu_override_amount c) in
      if cu_credit_limit c > 0 \<and> projected_balance > allowed_limit then http 400 ''Credit limit exceeded''
      else if projected_balance > cu_credit_limit c \<and> cu_override_amount c > 0 then
        (let excess_amount = fsub projected_balance (cu_credit_limit c);
             override_amount = max (fsub (cu_override_amount c) excess_amount) 0 in
         Inr (c\<lparr>cu_outstanding_balance := projected_balance,
                cu_override_amount := override_amount,
                cu_override_status := (if override_amount = 0 then None else cu_override_status c),
                cu_override_requested_amount := 0, cu_override_requested_at := None,
                cu_override_requested_by := None, cu_override_reason := None,
                cu_override_reviewed_at := None, cu_override_reviewed_by := None,
                cu_override_rejection_reason := None\<rparr>))
      else Inr (c\<lparr>cu_outstanding_balance := projected_balance\<rparr>))"

definition put_tank_volume :: "tank option \<Rightarrow> (pyfloat \<Rightarrow> pyfloat) \<Rightarrow> tank list \<Rightarrow> tank list" where
  \<comment> \<open>\<open>if nozzle.tank: nozzle.tank.current_volume = f(nozzle.tank.current_volume)\<close>\<close>
  "put_tank_volume tank f t =
     (case tank of None \<Rightarrow> t
      | Some k \<Rightarrow> put_row tk_id (k\<lparr>tk_current_volume := f (tk_current_volume k)\<rparr>) t)"

definition new_fuel_sale ::
  "env \<Rightarrow> db \<Rightarrow> fuel_sale_create \<Rightarrow> int option \<Rightarrow> pyfloat \<Rightarrow> pyfloat \<Rightarrow> pyfloat \<Rightarrow> fuel_sale" where
  "new_fuel_sale e d data shift_id opening_meter quantity total_amount =
     \<lparr>fs_id = next_id fs_id (fuel_sales d), fs_nozzle_id = sd_nozzle_id data, fs_station_id = sd_station_id data,
      fs_fuel_type_id = sd_fuel_type_id data, fs_customer_id = sd_customer_id data,
      fs_opening_meter = opening_meter, fs_closing_meter = sd_closing_meter data, fs_quantity = quantity,
      fs_rate_per_liter = sd_rate_per_liter data, fs_total_amount = total_amount,
      fs_sale_type = sd_sale_type data, fs_shift_name = sd_shift_name data, fs_shift_id = shift_id,
      fs_reversal = no_reversal, fs_created_at = now e\<rparr>"

definition record_fuel_sale :: "env \<Rightarrow> user \<Rightarrow> fuel_sale \<Rightarrow> nozzle \<Rightarrow> tank option \<Rightarrow> db \<Rightarrow> db" where
  \<comment> \<open>the sale row, its audit entry, the meter reading and the stock\<close>
  "record_fuel_sale e u sale nozzle tank d =
     (audit e u ''fuel_sales'' ''fuel_sales.create'' ''fuel_sale'' (Some (fs_id sale)) (Some (fs_station_id sale))
        [(''sale_type'', JStr (fs_sale_type sale)), (''total_amount'', JFloat (fs_total_amount sale)),
         (''quantity'', JFloat (fs_quantity sale))] d)
     \<lparr>fuel_sales := add_row sale (fuel_sales d),
      nozzle_readings := add_row \<lparr>nr_id = next_id nr_id (nozzle_readings d), nr_nozzle_id = fs_nozzle_id sale,
         nr_reading = fs_closing_meter sale, nr_sale_id = Some (fs_id sale), nr_created_at = now e\<rparr> (nozzle_readings d),
      nozzles := put_row nz_id (nozzle\<lparr>nz_meter_reading := fs_closing_meter sale\<rparr>) (nozzles d),
      tanks := put_tank_volume tank (\<lambda>v. fsub v (fs_quantity sale)) (tanks d)\<rparr>"

definition create_fuel_sale :: "env \<Rightarrow> db \<Rightarrow> fuel_sale_create \<Rightarrow> user \<Rightarrow> (fuel_sale \<times> db) res" where
  "create_fuel_sale e d data u =
     check (station_guard u (sd_station_id data) ''Not authorized for this station'')
     (case sale_shift_id d data u of Inl x \<Rightarrow> Inl x | Inr shift_id \<Rightarrow>
      case get_row nz_id (nozzles d) (sd_nozzle_id data) of None \<Rightarrow> http 404 ''Nozzle not found'' | Some nozzle \<Rightarrow>
      if get_row st_id (stations d) (sd_station_id data) = None then http 404 ''Station not found''
      else if get_row ft_id (fuel_types d) (sd_fuel_type_id data) = None then http 404 ''Fuel type not found''
      else case get_row dp_id (dispensers d) (nz_dispenser_id nozzle) of None \<Rightarrow> Inl AttributeError | Some dispenser \<Rightarrow>
      if dp_station_id dispenser \<noteq> sd_station_id data
      then http 400 ''Nozzle does not belong to the selected station''
      else if nz_fuel_type_id nozzle \<noteq> sd_fuel_type_id data
      then http 400 ''Nozzle fuel type does not match sale fuel type''
      else let tank = get_row tk_id (tanks d) (nz_tank_id nozzle) in
      if (case tank of None \<Rightarrow> False | Some k \<Rightarrow> tk_fuel_type_id k \<noteq> sd_fuel_type_id data)
      then http 400 ''Tank fuel type does not match sale fuel type''
      else case sale_customer d data of Inl x \<Rightarrow> Inl x | Inr customer \<Rightarrow>
      if sd_sale_type data = ''credit'' \<and> sd_customer_id data = None
      then http 400 ''Credit sale requires customer_id''
      else if sd_closing_meter data < nz_meter_reading nozzle
      then http 400 ''Closing meter cannot be less than opening meter''
      else if sd_rate_per_liter data \<le> 0 then http 400 ''Rate per liter must be greater than 0''
      else let quantity = fsub (sd_closing_meter data) (nz_meter_reading nozzle);
               total_amount = fmul quantity (sd_rate_per_liter data) in
      if (case tank of None \<Rightarrow> False | Some k \<Rightarrow> quantity > tk_current_volume k)
      then http 400 ''Insufficient tank stock for this sale''
      else let sale = new_fuel_sale e d data shift_id (nz_meter_reading nozzle) quantity total_amount;
               d' = record_fuel_sale e u sale nozzle tank d in
      case (if fs_sale_type sale = ''credit'' then customer else None) of
        None \<Rightarrow> Inr (sale, d')
      | Some c \<Rightarrow> (case charge_credit c total_amount of Inl x \<Rightarrow> Inl x
                   | Inr c' \<Rightarrow> Inr (sale, d'\<lparr>customers := put_row cu_id c' (customers d')\<rparr>)))"

section \<open>Reversing a sale\<close>

definition refund_customer :: "db \<Rightarrow> fuel_sale \<Rightarrow> customer list res" where
  \<comment> \<open>the customer part of \<open>reverse_fuel_sale\<close>: the customer table afterwards\<close>
  "refund_customer d sale =
     (case fs_customer_id sale of
        None \<Rightarrow> Inr (customers d)
      | Some i \<Rightarrow>
        (case get_row cu_id (customers d) i of
           None \<Rightarrow> http 400 ''Cannot reverse a sale without its customer record''
         | Some c \<Rightarrow>
           let balance = fsub (cu_outstanding_balance c) (fs_total_amount sale) in
           if balance < 0 then http 400 ''Cannot reverse sale because customer balance would become negative''
           else Inr (put_row cu_id (c\<lparr>cu_outstanding_balance := balance\<rparr>) (customers d))))"

definition drop_sale_reading :: "fuel_sale \<Rightarrow> nozzle_reading list \<Rightarrow> nozzle_reading list" where
  "drop_sale_reading sale t =
     (case find (\<lambda>r. nr_sale_id r = Some (fs_id sale)) t of None \<Rightarrow> t | Some r \<Rightarrow> del_row nr_id (nr_id r) t)"

definition reverse_fuel_sale :: "env \<Rightarrow> db \<Rightarrow> fuel_sale \<Rightarrow> user \<Rightarrow> (fuel_sale \<times> db) res" where
  "reverse_fuel_sale e d sale u =
     check (ensure_sale_access d sale u)
     (if request_status (fs_reversal sale) \<noteq> Some ''approved'' \<and> \<not> is_admin u
      then http 400 ''Fuel sale reversal must be approved first''
      else if is_reversed (fs_reversal sale) then http 400 ''Fuel sale is already reversed''
      else case get_row nz_id (nozzles d) (fs_nozzle_id sale) of
             None \<Rightarrow> http 400 ''Cannot reverse a sale without its nozzle record'' | Some nozzle \<Rightarrow>
      if nz_meter_reading nozzle \<noteq> fs_closing_meter sale
      then http 400 ''Fuel sale cannot be reversed after later nozzle activity''
      else let tank = get_row tk_id (tanks d) (nz_tank_id nozzle) in
      if (case tank of None \<Rightarrow> False | Some k \<Rightarrow> fadd (tk_current_volume k) (fs_quantity sale) > tk_capacity k)
      then http 400 ''Reversing this sale would exceed tank capacity''
      else case refund_customer d sale of Inl x \<Rightarrow> Inl x | Inr customers' \<Rightarrow>
      let sale' = sale\<lparr>fs_reversal := mark_reversed e u (fs_reversal sale)\<rparr> in
      Inr (sale', (audit e u ''fuel_sales'' ''fuel_sales.reverse'' ''fuel_sale'' (Some (fs_id sale))
                     (Some (fs_station_id sale)) [(''total_amount'', JFloat (fs_total_amount sale)),
                       (''quantity'', JFloat (fs_quantity sale))] d)
             \<lparr>customers := customers',
              nozzles := put_row nz_id (nozzle\<lparr>nz_meter_reading := fs_opening_meter sale\<rparr>) (nozzles d),
              tanks := put_tank_volume tank (\<lambda>v. fadd v (fs_quantity sale)) (tanks d),
              nozzle_readings := drop_sale_reading sale (nozzle_readings d),
              fuel_sales := put_row fs_id sale' (fuel_sales d)\<rparr>))"

definition fuel_sale_notice :: "db \<Rightarrow> fuel_sale \<Rightarrow> string \<Rightarrow> string \<Rightarrow> fstring \<Rightarrow> notice" where
  "fuel_sale_notice d sale event title message =
     \<lparr>nt_station_id = Some (fs_station_id sale),
      nt_organization_id = organization_of_station d (fs_station_id sale), nt_event_type = event,
      nt_title = title, nt_message = message, nt_entity_type = Some ''fuel_sale'', nt_entity_id = Some (fs_id sale)\<rparr>"

definition request_fuel_sale_reversal ::
  "env \<Rightarrow> db \<Rightarrow> fuel_sale \<Rightarrow> user \<Rightarrow> string option \<Rightarrow> (fuel_sale \<times> db) res" where
  "request_fuel_sale_reversal e d sale u reason =
     check (ensure_sale_access d sale u)
     (if is_reversed (fs_reversal sale) then http 400 ''Fuel sale is already reversed''
      else if request_status (fs_reversal sale) = Some ''pending''
      then http 400 ''Fuel sale reversal is already pending approval''
      else let sale' = sale\<lparr>fs_reversal := mark_requested e u reason (fs_reversal sale)\<rparr>;
               d' = audit e u ''fuel_sales'' ''fuel_sales.request_reversal'' ''fuel_sale'' (Some (fs_id sale))
                      (Some (fs_station_id sale)) [(''reason'', jopt reason)]
                      (d\<lparr>fuel_sales := put_row fs_id sale' (fuel_sales d)\<rparr>) in
           Inr (sale', notify_approval_requested e u
             (fuel_sale_notice d sale ''fuel_sale.reversal_requested'' ''Fuel sale reversal requested''
                [T (u_full_name u), T '' requested reversal for fuel sale #'', I (fs_id sale), T ''.'']) d'))"

definition approve_fuel_sale_reversal ::
  "env \<Rightarrow> db \<Rightarrow> fuel_sale \<Rightarrow> user \<Rightarrow> string option \<Rightarrow> (fuel_sale \<times> db) res" where
  "approve_fuel_sale_reversal e d sale u reason =
     check (ensure_sale_access d sale u)
     (if is_reversed (fs_reversal sale) then http 400 ''Fuel sale is already reversed''
      else if request_status (fs_reversal sale) \<notin> set [Some ''pending'', Some ''approved'']
      then http 400 ''Fuel sale reversal has not been requested''
      else let sale' = sale\<lparr>fs_reversal := mark_approved e u (fs_reversal sale)\<rparr>;
               d' = audit e u ''fuel_sales'' ''fuel_sales.approve_reversal'' ''fuel_sale'' (Some (fs_id sale))
                      (Some (fs_station_id sale)) [(''reason'', jopt reason)]
                      (d\<lparr>fuel_sales := put_row fs_id sale' (fuel_sales d)\<rparr>);
               d'' = notify_decision e (requested_by (fs_reversal sale)) u
                      (fuel_sale_notice d sale ''fuel_sale.reversal_approved'' ''Fuel sale reversal approved''
                         [T ''Reversal for fuel sale #'', I (fs_id sale), T '' was approved.'']) d' in
           reverse_fuel_sale e d'' sale' u)"

definition reject_fuel_sale_reversal ::
  "env \<Rightarrow> db \<Rightarrow> fuel_sale \<Rightarrow> user \<Rightarrow> string option \<Rightarrow> (fuel_sale \<times> db) res" where
  "reject_fuel_sale_reversal e d sale u reason =
     check (ensure_sale_access d sale u)
     (if is_reversed (fs_reversal sale) then http 400 ''Fuel sale is already reversed''
      else if request_status (fs_reversal sale) \<noteq> Some ''pending''
      then http 400 ''Fuel sale reversal is not pending approval''
      else let sale' = sale\<lparr>fs_reversal := mark_rejected e u reason (fs_reversal sale)\<rparr>;
               d' = audit e u ''fuel_sales'' ''fuel_sales.reject_reversal'' ''fuel_sale'' (Some (fs_id sale))
                      (Some (fs_station_id sale)) [(''reason'', jopt reason)]
                      (d\<lparr>fuel_sales := put_row fs_id sale' (fuel_sales d)\<rparr>) in
           Inr (sale', notify_decision e (requested_by (fs_reversal sale)) u
             (fuel_sale_notice d sale ''fuel_sale.reversal_rejected'' ''Fuel sale reversal rejected''
                [T ''Reversal for fuel sale #'', I (fs_id sale), T '' was rejected.'']) d'))"

section \<open>Routes (\<open>api/fuel_sale.py\<close>)\<close>

definition route_create_fuel_sale :: "env \<Rightarrow> db \<Rightarrow> fuel_sale_create \<Rightarrow> user \<Rightarrow> (fuel_sale \<times> db) res" where
  "route_create_fuel_sale e d data u =
     check (require_permission u ''fuel_sales'' ''create'' ''You do not have permission to create fuel sales'')
       (create_fuel_sale e d data u)"

definition route_get_fuel_sale :: "db \<Rightarrow> int \<Rightarrow> user \<Rightarrow> fuel_sale res" where
  "route_get_fuel_sale d sale_id u =
     (case get_row fs_id (fuel_sales d) sale_id of None \<Rightarrow> http 404 ''Fuel sale not found''
      | Some sale \<Rightarrow> check (ensure_sale_access d sale u) (Inr sale))"

definition route_reverse_fuel_sale :: "env \<Rightarrow> db \<Rightarrow> int \<Rightarrow> user \<Rightarrow> string option \<Rightarrow> (fuel_sale \<times> db) res" where
  "route_reverse_fuel_sale e d sale_id u reason =
     (case get_row fs_id (fuel_sales d) sale_id of None \<Rightarrow> http 404 ''Fuel sale not found'' | Some sale \<Rightarrow>
      check (require_permission u ''fuel_sales'' ''reverse'' ''You do not have permission to reverse fuel sales'')
        (if is_admin u then reverse_fuel_sale e d sale u else request_fuel_sale_reversal e d sale u reason))"

definition route_approve_fuel_sale_reversal ::
  "env \<Rightarrow> db \<Rightarrow> int \<Rightarrow> user \<Rightarrow> string option \<Rightarrow> (fuel_sale \<times> db) res" where
  "route_approve_fuel_sale_reversal e d sale_id u reason =
     (case get_row fs_id (fuel_sales d) sale_id of None \<Rightarrow> http 404 ''Fuel sale not found'' | Some sale \<Rightarrow>
      check (require_permission u ''fuel_sales'' ''approve_reverse''
               ''You do not have permission to approve fuel sale reversals'')
        (approve_fuel_sale_reversal e d sale u reason))"

definition route_reject_fuel_sale_reversal ::
  "env \<Rightarrow> db \<Rightarrow> int \<Rightarrow> user \<Rightarrow> string option \<Rightarrow> (fuel_sale \<times> db) res" where
  "route_reject_fuel_sale_reversal e d sale_id u reason =
     (case get_row fs_id (fuel_sales d) sale_id of None \<Rightarrow> http 404 ''Fuel sale not found'' | Some sale \<Rightarrow>
      check (require_permission u ''fuel_sales'' ''reject_reverse''
               ''You do not have permission to reject fuel sale reversals'')
        (reject_fuel_sale_reversal e d sale u reason))"

fun fuel_sale_route :: "int \<Rightarrow> env \<Rightarrow> db \<Rightarrow> reversal_action \<Rightarrow> (fuel_sale \<times> db) res" where
  "fuel_sale_route sale_id e d (Reverse u reason) = route_reverse_fuel_sale e d sale_id u reason"
| "fuel_sale_route sale_id e d (Approve u reason) = route_approve_fuel_sale_reversal e d sale_id u reason"
| "fuel_sale_route sale_id e d (Reject u reason) = route_reject_fuel_sale_reversal e d sale_id u reason"

definition list_fuel_sales ::
  "db \<Rightarrow> user \<Rightarrow> int option \<Rightarrow> int option \<Rightarrow> int option \<Rightarrow> string option \<Rightarrow> string option \<Rightarrow> int option
     \<Rightarrow> date option \<Rightarrow> date option \<Rightarrow> nat \<Rightarrow> nat \<Rightarrow> fuel_sale list" where
  \<comment> \<open>a filter that is \<open>None\<close>, 0 or empty is not applied; rows created at the same instant stay in table order\<close>
  "list_fuel_sales d u station_id customer_id fuel_type_id sale_type shift_name shift_id from_date to_date skip limit =
     (let station_id = (if is_admin u then station_id else u_station_id u);
          int_filter = (\<lambda>x v. x \<in> set [None, Some 0] \<or> x = Some v) in
      page skip limit (sort_key (\<lambda>s. - fs_created_at s)
        (filter (\<lambda>s. int_filter station_id (fs_station_id s)
           \<and> (customer_id \<in> set [None, Some 0] \<or> fs_customer_id s = customer_id)
           \<and> int_filter fuel_type_id (fs_fuel_type_id s)
           \<and> (truthy sale_type \<longrightarrow> Some (fs_sale_type s) = sale_type)
           \<and> (truthy shift_name \<longrightarrow> fs_shift_name s = shift_name)
           \<and> (shift_id \<in> set [None, Some 0] \<or> fs_shift_id s = shift_id)
           \<and> (case from_date of None \<Rightarrow> True | Some t \<Rightarrow> fs_created_at s \<ge> days t)
           \<and> (case to_date of None \<Rightarrow> True | Some t \<Rightarrow> fs_created_at s < days t)) (fuel_sales d))))"

section \<open>What a recorded sale does\<close>

lemma create_fuel_sale_Inr:
  assumes "create_fuel_sale e d data u = Inr (sale, d')"
  obtains nozzle dispenser customer shift_id d1 where
    "get_row nz_id (nozzles d) (sd_nozzle_id data) = Some nozzle"
    "get_row dp_id (dispensers d) (nz_dispenser_id nozzle) = Some dispenser"
    "dp_station_id dispenser = sd_station_id data" "nz_fuel_type_id nozzle = sd_fuel_type_id data"
    "is_admin u \<or> u_station_id u = Some (sd_station_id data)"
    "sale_shift_id d data u = Inr shift_id"
    "sale_customer d data = Inr customer" "sd_sale_type data = ''credit'' \<Longrightarrow> sd_customer_id data \<noteq> None"
    "nz_meter_reading nozzle \<le> sd_closing_meter data" "0 < sd_rate_per_liter data"
    "\<And>k. get_row tk_id (tanks d) (nz_tank_id nozzle) = Some k \<Longrightarrow>
        fs_quantity sale \<le> tk_current_volume k \<and> tk_fuel_type_id k = sd_fuel_type_id data"
    "sale = new_fuel_sale e d data shift_id (nz_meter_reading nozzle)
              (fsub (sd_closing_meter data) (nz_meter_reading nozzle))
              (fmul (fsub (sd_closing_meter data) (nz_meter_reading nozzle)) (sd_rate_per_liter data))"
    "d1 = record_fuel_sale e u sale nozzle (get_row tk_id (tanks d) (nz_tank_id nozzle)) d"
    "(sd_sale_type data \<noteq> ''credit'' \<or> customer = None) \<and> d' = d1
      \<or> sd_sale_type data = ''credit'' \<and> (\<exists>c c'. customer = Some c
          \<and> charge_credit c (fs_total_amount sale) = Inr c'
          \<and> d' = d1\<lparr>customers := put_row cu_id c' (customers d1)\<rparr>)"
proof -
  from assms obtain nozzle dispenser customer shift_id where
    1: "get_row nz_id (nozzles d) (sd_nozzle_id data) = Some nozzle"
      "get_row dp_id (dispensers d) (nz_dispenser_id nozzle) = Some dispenser"
      "dp_station_id dispenser = sd_station_id data" "nz_fuel_type_id nozzle = sd_fuel_type_id data"
      "is_admin u \<or> u_station_id u = Some (sd_station_id data)"
      "sale_shift_id d data u = Inr shift_id" "sale_customer d data = Inr customer"
    and rest: "create_fuel_sale e d data u = Inr (sale, d')"
    by (auto simp: create_fuel_sale_def res_simps Let_def)
  let ?q = "fsub (sd_closing_meter data) (nz_meter_reading nozzle)"
  let ?sale = "new_fuel_sale e d data shift_id (nz_meter_reading nozzle) ?q (fmul ?q (sd_rate_per_liter data))"
  let ?d1 = "record_fuel_sale e u ?sale nozzle (get_row tk_id (tanks d) (nz_tank_id nozzle)) d"
  from rest 1 have R: "sd_sale_type data = ''credit'' \<Longrightarrow> sd_customer_id data \<noteq> None"
      "nz_meter_reading nozzle \<le> sd_closing_meter data" "0 < sd_rate_per_liter data"
      "get_row tk_id (tanks d) (nz_tank_id nozzle) = Some k \<Longrightarrow>
        ?q \<le> tk_current_volume k \<and> tk_fuel_type_id k = sd_fuel_type_id data"
      "(case (if fs_sale_type ?sale = ''credit'' then customer else None) of
          None \<Rightarrow> Inr (?sale, ?d1)
        | Some c \<Rightarrow> (case charge_credit c (fmul ?q (sd_rate_per_liter data)) of Inl x \<Rightarrow> Inl x
                   | Inr c' \<Rightarrow> Inr (?sale, ?d1\<lparr>customers := put_row cu_id c' (customers ?d1)\<rparr>)))
        = (Inr (sale, d') :: (fuel_sale \<times> db) res)" for k
    by (auto simp: create_fuel_sale_def res_simps Let_def)
  have S: "sale = ?sale" "(sd_sale_type data \<noteq> ''credit'' \<or> customer = None) \<and> d' = ?d1
      \<or> sd_sale_type data = ''credit'' \<and> (\<exists>c c'. customer = Some c
          \<and> charge_credit c (fs_total_amount sale) = Inr c'
          \<and> d' = ?d1\<lparr>customers := put_row cu_id c' (customers ?d1)\<rparr>)"
    using R(5) by (auto simp: res_simps new_fuel_sale_def split: if_splits option.splits sum.splits)
  from S(1) have "fs_quantity sale = ?q" by (simp add: new_fuel_sale_def)
  with 1 R S show thesis
    by (intro that [of nozzle dispenser shift_id customer ?d1]) simp_all
qed

lemma record_fuel_sale_tables [simp]:
  "fuel_sales (record_fuel_sale e u sale nozzle tank d) = fuel_sales d @ [sale]"
  "nozzles (record_fuel_sale e u sale nozzle tank d)
    = put_row nz_id (nozzle\<lparr>nz_meter_reading := fs_closing_meter sale\<rparr>) (nozzles d)"
  "tanks (record_fuel_sale e u sale nozzle tank d) = put_tank_volume tank (\<lambda>v. fsub v (fs_quantity sale)) (tanks d)"
  "customers (record_fuel_sale e u sale nozzle tank d) = customers d"
  "suppliers (record_fuel_sale e u sale nozzle tank d) = suppliers d"
  "stations (record_fuel_sale e u sale nozzle tank d) = stations d"
  "users (record_fuel_sale e u sale nozzle tank d) = users d"
  "purchases (record_fuel_sale e u sale nozzle tank d) = purchases d"
  "customer_payments (record_fuel_sale e u sale nozzle tank d) = customer_payments d"
  "supplier_payments (record_fuel_sale e u sale nozzle tank d) = supplier_payments d"
  "nozzle_readings (record_fuel_sale e u sale nozzle tank d)
    = nozzle_readings d @ [\<lparr>nr_id = next_id nr_id (nozzle_readings d), nr_nozzle_id = fs_nozzle_id sale,
         nr_reading = fs_closing_meter sale, nr_sale_id = Some (fs_id sale), nr_created_at = now e\<rparr>]"
  "tanker_deliveries (record_fuel_sale e u sale nozzle tank d) = tanker_deliveries d"
  by (simp_all add: record_fuel_sale_def comms_updates add_row_def)

lemma put_tank_volume_get:
  "get_row tk_id t i = Some k \<Longrightarrow>
    get_row tk_id (put_tank_volume (Some k) f t) j
      = (if j = i then Some (k\<lparr>tk_current_volume := f (tk_current_volume k)\<rparr>) else get_row tk_id t j)"
  using get_row_Some [of tk_id t i k] by (auto simp: put_tank_volume_def get_put_row)

lemma new_fuel_sale_fields [simp]:
  "fs_id (new_fuel_sale e d data s m q a) = next_id fs_id (fuel_sales d)"
  "fs_nozzle_id (new_fuel_sale e d data s m q a) = sd_nozzle_id data"
  "fs_station_id (new_fuel_sale e d data s m q a) = sd_station_id data"
  "fs_customer_id (new_fuel_sale e d data s m q a) = sd_customer_id data"
  "fs_opening_meter (new_fuel_sale e d data s m q a) = m"
  "fs_closing_meter (new_fuel_sale e d data s m q a) = sd_closing_meter data"
  "fs_quantity (new_fuel_sale e d data s m q a) = q"
  "fs_total_amount (new_fuel_sale e d data s m q a) = a"
  "fs_sale_type (new_fuel_sale e d data s m q a) = sd_sale_type data"
  "fs_shift_id (new_fuel_sale e d data s m q a) = s"
  "fs_reversal (new_fuel_sale e d data s m q a) = no_reversal"
  by (simp_all add: new_fuel_sale_def)

lemma create_fuel_sale_stock:
  assumes "create_fuel_sale e d data u = Inr (sale, d')"
    and "get_row nz_id (nozzles d) (sd_nozzle_id data) = Some nozzle"
    and "get_row tk_id (tanks d) (nz_tank_id nozzle) = Some tank"
  shows "fs_opening_meter sale = nz_meter_reading nozzle \<and> fs_closing_meter sale = sd_closing_meter data
    \<and> fs_quantity sale = fsub (sd_closing_meter data) (nz_meter_reading nozzle)
    \<and> fs_total_amount sale = fmul (fs_quantity sale) (sd_rate_per_liter data)
    \<and> 0 \<le> fs_quantity sale \<and> fs_quantity sale \<le> tk_current_volume tank
    \<and> fuel_sales d' = fuel_sales d @ [sale] \<and> fs_reversal sale = no_reversal
    \<and> (\<forall>i. get_row nz_id (nozzles d') i
          = (if i = nz_id nozzle then Some (nozzle\<lparr>nz_meter_reading := sd_closing_meter data\<rparr>)
             else get_row nz_id (nozzles d) i))
    \<and> (\<forall>i. get_row tk_id (tanks d') i
          = (if i = tk_id tank then Some (tank\<lparr>tk_current_volume := fsub (tk_current_volume tank) (fs_quantity sale)\<rparr>)
             else get_row tk_id (tanks d) i))"
  using assms(1)
proof (rule create_fuel_sale_Inr, goal_cases)
  case (1 nozzle' dispenser customer shift_id d1)
  from 1 assms(2) have n: "nozzle' = nozzle" by simp
  from assms(2,3) have ids: "nz_id nozzle = sd_nozzle_id data" "tk_id tank = nz_tank_id nozzle"
    by (auto dest: get_row_Some)
  from 1(14) have D: "fuel_sales d' = fuel_sales d1" "nozzles d' = nozzles d1" "tanks d' = tanks d1"
    by auto
  from 1(9) n have "0 \<le> fs_quantity sale" by (simp add: 1(12) fsub_nonneg)
  moreover from 1(11) n assms(3) have "fs_quantity sale \<le> tk_current_volume tank" by blast
  moreover have "get_row nz_id (nozzles d') i
      = (if i = nz_id nozzle then Some (nozzle\<lparr>nz_meter_reading := sd_closing_meter data\<rparr>)
         else get_row nz_id (nozzles d) i)" for i
    using assms(2) ids(1) by (simp add: D 1(13) n 1(12) get_put_row)
  moreover have "get_row tk_id (tanks d') i
      = (if i = tk_id tank then Some (tank\<lparr>tk_current_volume := fsub (tk_current_volume tank) (fs_quantity sale)\<rparr>)
         else get_row tk_id (tanks d) i)" for i
    using assms(3) ids(2) by (simp add: D 1(13) n put_tank_volume_get)
  ultimately show ?case
    by (simp add: D 1(13)) (simp add: 1(12) n)
qed

lemma charge_credit_Inr:
  assumes "charge_credit c amount = Inr c'"
  shows "cu_id c' = cu_id c \<and> cu_outstanding_balance c' = fadd (cu_outstanding_balance c) amount
    \<and> cu_credit_limit c' = cu_credit_limit c
    \<and> (0 < cu_credit_limit c \<longrightarrow> cu_outstanding_balance c' \<le> fadd (cu_credit_limit c) (cu_override_amount c))
    \<and> (cu_override_amount c' = cu_override_amount c
       \<or> cu_override_amount c' = max (fsub (cu_override_amount c) (fsub (cu_outstanding_balance c') (cu_credit_limit c))) 0)"
  using assms by (auto simp: charge_credit_def Let_def split: if_splits)

lemma create_fuel_sale_customers:
  assumes "create_fuel_sale e d data u = Inr (sale, d')"
  shows "if sd_sale_type data = ''credit''
    then \<exists>c c'. sd_customer_id data = Some (cu_id c) \<and> get_row cu_id (customers d) (cu_id c) = Some c
      \<and> cu_outstanding_balance c' = fadd (cu_outstanding_balance c) (fs_total_amount sale)
      \<and> (\<forall>i. get_row cu_id (customers d') i = (if i = cu_id c then Some c' else get_row cu_id (customers d) i))
    else customers d' = customers d"
  using assms
proof (rule create_fuel_sale_Inr, goal_cases)
  case (1 nozzle dispenser customer shift_id d1)
  have some: "sd_sale_type data = ''credit'' \<Longrightarrow> customer \<noteq> None"
    using 1(7,8) by (auto simp: sale_customer_def res_simps split: option.splits if_splits)
  show ?case
  proof (cases "sd_sale_type data = ''credit''")
    case False
    with 1(14) show ?thesis by (simp add: 1(13))
  next
    case True
    with 1(14) some obtain c c' where c: "customer = Some c" "charge_credit c (fs_total_amount sale) = Inr c'"
      "d' = d1\<lparr>customers := put_row cu_id c' (customers d1)\<rparr>" by blast
    then have g: "sd_customer_id data = Some (cu_id c)" "get_row cu_id (customers d) (cu_id c) = Some c"
      using 1(7) by (auto simp: sale_customer_def res_simps dest: get_row_Some split: option.splits if_splits)
    have "\<forall>i. get_row cu_id (customers d') i = (if i = cu_id c then Some c' else get_row cu_id (customers d) i)"
      using c(3) g(2) charge_credit_Inr [OF c(2)] by (simp add: 1(13) get_put_row)
    with True g charge_credit_Inr [OF c(2)] show ?thesis by auto
  qed
qed

text \<open>
  C3. A recorded fuel sale starts where the nozzle's meter stood, takes the metered quantity out of the nozzle's tank, which held at least
  that much, moves the meter to the closing reading, and appends one unreversed sale row; every other nozzle and tank is
  untouched. A credit sale adds its amount to the balance of its customer and to no other; any other sale leaves the customers alone, also when it
  names one.
\<close>

theorem create_fuel_sale_effect:
  assumes "create_fuel_sale e d data u = Inr (sale, d')"
    and "get_row nz_id (nozzles d) (sd_nozzle_id data) = Some nozzle"
    and "get_row tk_id (tanks d) (nz_tank_id nozzle) = Some tank"
  shows "fs_opening_meter sale = nz_meter_reading nozzle \<and> fs_closing_meter sale = sd_closing_meter data
    \<and> fs_quantity sale = fsub (sd_closing_meter data) (nz_meter_reading nozzle)
    \<and> fs_total_amount sale = fmul (fs_quantity sale) (sd_rate_per_liter data)
    \<and> 0 \<le> fs_quantity sale \<and> fs_quantity sale \<le> tk_current_volume tank
    \<and> fuel_sales d' = fuel_sales d @ [sale] \<and> fs_reversal sale = no_reversal
    \<and> (\<forall>i. get_row nz_id (nozzles d') i
          = (if i = nz_id nozzle then Some (nozzle\<lparr>nz_meter_reading := sd_closing_meter data\<rparr>)
             else get_row nz_id (nozzles d) i))
    \<and> (\<forall>i. get_row tk_id (tanks d') i
          = (if i = tk_id tank then Some (tank\<lparr>tk_current_volume := fsub (tk_current_volume tank) (fs_quantity sale)\<rparr>)
             else get_row tk_id (tanks d) i))
    \<and> (if sd_sale_type data = ''credit''
       then \<exists>c c'. sd_customer_id data = Some (cu_id c) \<and> get_row cu_id (customers d) (cu_id c) = Some c
          \<and> cu_outstanding_balance c' = fadd (cu_outstanding_balance c) (fs_total_amount sale)
          \<and> (\<forall>i. get_row cu_id (customers d') i = (if i = cu_id c then Some c' else get_row cu_id (customers d) i))
       else customers d' = customers d)"
  using create_fuel_sale_stock [OF assms] create_fuel_sale_customers [OF assms(1)] by blast
lemma charge_credit_ok:
  assumes "charge_credit c amount = Inr c'" "customer_ok c" "0 \<le> amount"
  shows "customer_ok c'"
  using assms by (auto simp: charge_credit_def Let_def customer_ok_def max_def fl_idem split: if_splits)

text \<open>
  C4. A credit sale charges its customer with exactly the amount of the sale and never beyond the
  credit limit plus the approved override (a limit of 0 means no limit); any other sale leaves
  every customer's balance alone.
\<close>

theorem fuel_sale_credit_limit:
  assumes "create_fuel_sale e d data u = Inr (sale, d')"
  shows "if sd_sale_type data = ''credit''
    then \<exists>i c c'. sd_customer_id data = Some i \<and> get_row cu_id (customers d) i = Some c
           \<and> get_row cu_id (customers d') i = Some c' \<and> cu_station_id c = sd_station_id data
           \<and> cu_outstanding_balance c' = fadd (cu_outstanding_balance c) (fs_total_amount sale)
           \<and> (cu_credit_limit c > 0 \<longrightarrow>
                cu_outstanding_balance c' \<le> fadd (cu_credit_limit c) (cu_override_amount c))
    else customers d' = customers d"
  using assms
proof (rule create_fuel_sale_Inr, goal_cases)
  case (1 nozzle dispenser customer shift_id d1)
  show ?case
  proof (cases "sd_sale_type data = ''credit''")
    case False
    with 1(14) show ?thesis by (auto simp: 1(13))
  next
    case True
    with 1(8) obtain i where i: "sd_customer_id data = Some i" by blast
    with 1(7) obtain c where c: "customer = Some c" "get_row cu_id (customers d) i = Some c"
        "cu_station_id c = sd_station_id data"
      by (auto simp: sale_customer_def res_simps split: if_splits)
    with 1(14) True obtain c' where c': "charge_credit c (fs_total_amount sale) = Inr c'"
        "d' = d1\<lparr>customers := put_row cu_id c' (customers d1)\<rparr>" by auto
    have "get_row cu_id (customers d') i = Some c'"
      using c(2) charge_credit_Inr [OF c'(1)] get_row_Some [OF c(2)]
      by (simp add: c'(2) 1(13) get_put_row_same)
    with charge_credit_Inr [OF c'(1)] True i c show ?thesis by auto
  qed
qed

lemma put_tank_volume_ok:
  assumes "list_all tank_ok t"
    and "\<And>k. tank = Some k \<Longrightarrow> tank_ok (k\<lparr>tk_current_volume := f (tk_current_volume k)\<rparr>)"
  shows "list_all tank_ok (put_tank_volume tank f t)"
  using assms by (cases tank) (simp_all add: put_tank_volume_def)

lemma create_fuel_sale_books:
  assumes "create_fuel_sale e d data u = Inr (sale, d')" "books_ok d"
  shows "books_ok d'"
  using assms(1)
proof (rule create_fuel_sale_Inr, goal_cases)
  case (1 nozzle dispenser customer shift_id d1)
  have q: "0 \<le> fs_quantity sale" using 1(9) by (simp add: 1(12) fsub_nonneg)
  have t: "0 \<le> fs_total_amount sale" using q 1(10) by (simp add: 1(12) fmul_nonneg)
  have "list_all tank_ok (tanks d1)"
    unfolding 1(13) record_fuel_sale_tables
  proof (rule put_tank_volume_ok)
    show "list_all tank_ok (tanks d)" using assms(2) by (simp add: books_ok_def)
    show "tank_ok (k\<lparr>tk_current_volume := fsub (tk_current_volume k) (fs_quantity sale)\<rparr>)"
      if "get_row tk_id (tanks d) (nz_tank_id nozzle) = Some k" for k
      using 1(11) [OF that] q books_ok_rows(1) [OF assms(2) that] by (intro tank_ok_draw) auto
  qed
  moreover have "customer_ok c'"
    if "customer = Some c" "charge_credit c (fs_total_amount sale) = Inr c'" for c c'
  proof -
    from that(1) 1(7) have "get_row cu_id (customers d) (cu_id c) = Some c"
      by (auto simp: sale_customer_def res_simps split: option.splits if_splits dest: get_row_Some)
    with assms(2) have "customer_ok c" by (rule books_ok_rows)
    with that(2) t show ?thesis by (simp add: charge_credit_ok)
  qed
  ultimately show ?case
    using 1(14) assms(2) q t
    by (elim disjE conjE exE) (simp_all add: books_ok_def 1(13) sale_ok_def)
qed

section \<open>Reversal\<close>

lemma ensure_sale_access_cong:
  "stations d' = stations d \<Longrightarrow> fs_station_id sale' = fs_station_id sale \<Longrightarrow>
    ensure_sale_access d' sale' u = ensure_sale_access d sale u"
  by (simp add: ensure_sale_access_def get_user_organization_id_def station_organization_def user_station_def
      cong: option.case_cong if_cong)

lemma reverse_fuel_sale_Inr:
  assumes "reverse_fuel_sale e d sale u = Inr (sale', d')"
  obtains nozzle cs where
    "ensure_sale_access d sale u = ok"
    "request_status (fs_reversal sale) = Some ''approved'' \<or> is_admin u"
    "\<not> is_reversed (fs_reversal sale)"
    "get_row nz_id (nozzles d) (fs_nozzle_id sale) = Some nozzle"
    "nz_meter_reading nozzle = fs_closing_meter sale"
    "\<And>k. get_row tk_id (tanks d) (nz_tank_id nozzle) = Some k \<Longrightarrow>
        fadd (tk_current_volume k) (fs_quantity sale) \<le> tk_capacity k"
    "refund_customer d sale = Inr cs"
    "sale' = sale\<lparr>fs_reversal := mark_reversed e u (fs_reversal sale)\<rparr>"
    "\<exists>c. d' = d\<lparr>comms := c, customers := cs,
       nozzles := put_row nz_id (nozzle\<lparr>nz_meter_reading := fs_opening_meter sale\<rparr>) (nozzles d),
       tanks := put_tank_volume (get_row tk_id (tanks d) (nz_tank_id nozzle))
                  (\<lambda>v. fadd v (fs_quantity sale)) (tanks d),
       nozzle_readings := drop_sale_reading sale (nozzle_readings d),
       fuel_sales := put_row fs_id sale' (fuel_sales d)\<rparr>"
proof -
  from assms obtain nozzle cs where R:
    "ensure_sale_access d sale u = ok"
    "request_status (fs_reversal sale) = Some ''approved'' \<or> is_admin u"
    "\<not> is_reversed (fs_reversal sale)"
    "get_row nz_id (nozzles d) (fs_nozzle_id sale) = Some nozzle"
    "refund_customer d sale = Inr cs"
    and rest: "reverse_fuel_sale e d sale u = Inr (sale', d')"
    by (auto simp: reverse_fuel_sale_def res_simps Let_def)
  from rest R have "nz_meter_reading nozzle = fs_closing_meter sale"
    "get_row tk_id (tanks d) (nz_tank_id nozzle) = Some k \<Longrightarrow>
        fadd (tk_current_volume k) (fs_quantity sale) \<le> tk_capacity k" for k
    by (auto simp: reverse_fuel_sale_def res_simps Let_def)
  moreover from rest R have "sale' = sale\<lparr>fs_reversal := mark_reversed e u (fs_reversal sale)\<rparr>"
    by (simp add: reverse_fuel_sale_def res_simps Let_def)
  moreover from rest R have "\<exists>c. d' = d\<lparr>comms := c, customers := cs,
       nozzles := put_row nz_id (nozzle\<lparr>nz_meter_reading := fs_opening_meter sale\<rparr>) (nozzles d),
       tanks := put_tank_volume (get_row tk_id (tanks d) (nz_tank_id nozzle))
                  (\<lambda>v. fadd v (fs_quantity sale)) (tanks d),
       nozzle_readings := drop_sale_reading sale (nozzle_readings d),
       fuel_sales := put_row fs_id sale' (fuel_sales d)\<rparr>"
    by (auto simp: reverse_fuel_sale_def res_simps Let_def comms_updates)
  ultimately show thesis using R by (intro that) 
qed

lemma refund_customer_ok:
  assumes "refund_customer d sale = Inr cs" "list_all customer_ok (customers d)"
  shows "list_all customer_ok cs"
proof (cases "fs_customer_id sale")
  case None
  with assms show ?thesis by (simp add: refund_customer_def)
next
  case (Some i)
  with assms(1) obtain c where c: "get_row cu_id (customers d) i = Some c"
    "0 \<le> fsub (cu_outstanding_balance c) (fs_total_amount sale)"
    "cs = put_row cu_id (c\<lparr>cu_outstanding_balance := fsub (cu_outstanding_balance c) (fs_total_amount sale)\<rparr>) (customers d)"
    by (auto simp: refund_customer_def res_simps Let_def)
  with assms(2) all_get_row [OF assms(2) c(1)] show ?thesis
    by (simp add: customer_ok_balance)
qed

lemma reverse_fuel_sale_books:
  assumes "reverse_fuel_sale e d sale u = Inr (sale', d')" "books_ok d" "sale_ok sale"
  shows "books_ok d'"
  using assms(1)
proof (rule reverse_fuel_sale_Inr)
  fix nozzle :: nozzle and cs :: "customer list"
  let ?tank = "get_row tk_id (tanks d) (nz_tank_id nozzle)"
  let ?tanks = "put_tank_volume ?tank (\<lambda>v. fadd v (fs_quantity sale)) (tanks d)"
  assume cap: "\<And>k. ?tank = Some k \<Longrightarrow> fadd (tk_current_volume k) (fs_quantity sale) \<le> tk_capacity k"
    and refund: "refund_customer d sale = Inr cs"
    and sale': "sale' = sale\<lparr>fs_reversal := mark_reversed e u (fs_reversal sale)\<rparr>"
    and "\<exists>c. d' = d\<lparr>comms := c, customers := cs,
       nozzles := put_row nz_id (nozzle\<lparr>nz_meter_reading := fs_opening_meter sale\<rparr>) (nozzles d),
       tanks := ?tanks, nozzle_readings := drop_sale_reading sale (nozzle_readings d),
       fuel_sales := put_row fs_id sale' (fuel_sales d)\<rparr>"
  moreover have "list_all tank_ok ?tanks"
  proof (rule put_tank_volume_ok)
    show "list_all tank_ok (tanks d)" using assms(2) by (simp add: books_ok_def)
    show "tank_ok (k\<lparr>tk_current_volume := fadd (tk_current_volume k) (fs_quantity sale)\<rparr>)"
      if "?tank = Some k" for k
      using cap [OF that] assms(3) books_ok_rows(1) [OF assms(2) that]
      by (intro tank_ok_fill) (auto simp: sale_ok_def)
  qed
  moreover have "list_all customer_ok cs"
    using refund by (rule refund_customer_ok) (use assms(2) in \<open>simp add: books_ok_def\<close>)
  ultimately show ?thesis
    using assms(2,3) by (auto simp: books_ok_def sale_ok_def)
qed

lemma reversal_steps_books:
  "request_fuel_sale_reversal e d sale u reason = Inr (sale', d') \<Longrightarrow> books_ok d \<Longrightarrow> sale_ok sale \<Longrightarrow> books_ok d'"
  "reject_fuel_sale_reversal e d sale u reason = Inr (sale', d') \<Longrightarrow> books_ok d \<Longrightarrow> sale_ok sale \<Longrightarrow> books_ok d'"
  unfolding request_fuel_sale_reversal_def reject_fuel_sale_reversal_def
  by (clarsimp simp: res_simps Let_def comms_updates books_ok_def sale_ok_def)+

lemma approve_fuel_sale_reversal_books:
  assumes "approve_fuel_sale_reversal e d sale u reason = Inr (sale', d')" "books_ok d" "sale_ok sale"
  shows "books_ok d'"
proof -
  from assms(1) obtain d1 sale1 where 1: "reverse_fuel_sale e d1 sale1 u = Inr (sale', d')"
    "sale1 = sale\<lparr>fs_reversal := mark_approved e u (fs_reversal sale)\<rparr>"
    "tanks d1 = tanks d" "customers d1 = customers d" "suppliers d1 = suppliers d" "purchases d1 = purchases d"
    "customer_payments d1 = customer_payments d" "supplier_payments d1 = supplier_payments d"
    "fuel_sales d1 = put_row fs_id sale1 (fuel_sales d)" "tanker_deliveries d1 = tanker_deliveries d"
    by (auto simp: approve_fuel_sale_reversal_def res_simps Let_def comms_updates)
  have "sale_ok sale1" using assms(3) by (simp add: 1(2) sale_ok_def)
  moreover from this assms(2) have "books_ok d1" by (simp add: books_ok_def 1(3-10))
  ultimately show ?thesis using reverse_fuel_sale_books [OF 1(1)] by blast
qed

definition fuel_sale_reversal_state :: "int \<Rightarrow> db \<Rightarrow> reversal option" where
  "fuel_sale_reversal_state sale_id d = map_option fs_reversal (get_row fs_id (fuel_sales d) sale_id)"

interpretation fuel_sale_workflow: reversal_workflow "fuel_sale_route sale_id" "fuel_sale_reversal_state sale_id"
  "\<lambda>u. require_permission u ''fuel_sales'' ''reverse'' [] = ok"
  "\<lambda>u. require_permission u ''fuel_sales'' ''approve_reverse'' [] = ok"
  for sale_id
proof
  fix e d u reason x d' v
  show "\<exists>r. fuel_sale_reversal_state sale_id d = Some r \<and> \<not> is_reversed r
      \<and> require_permission u ''fuel_sales'' ''reverse'' [] = ok
      \<and> (is_admin u \<longrightarrow> fuel_sale_reversal_state sale_id d' = Some (mark_reversed e u r))
      \<and> (\<not> is_admin u \<longrightarrow> request_status r \<noteq> Some ''pending''
           \<and> fuel_sale_reversal_state sale_id d' = Some (mark_requested e u reason r))"
    if "fuel_sale_route sale_id e d (Reverse u reason) = Inr (x, d')"
  proof -
    from that obtain sale where S: "get_row fs_id (fuel_sales d) sale_id = Some sale"
      "require_permission u ''fuel_sales'' ''reverse'' [] = ok"
      "(if is_admin u then reverse_fuel_sale e d sale u else request_fuel_sale_reversal e d sale u reason) = Inr (x, d')"
      by (auto simp: route_reverse_fuel_sale_def res_simps)
    from get_row_Some [OF S(1)] have id: "fs_id sale = sale_id" by blast
    show ?thesis
    proof (cases "is_admin u")
      case True
      with S(3) have "reverse_fuel_sale e d sale u = Inr (x, d')" by simp
      then show ?thesis
        by (rule reverse_fuel_sale_Inr)
          (use S(1,2) id True in \<open>auto simp: fuel_sale_reversal_state_def get_put_row_same\<close>)
    next
      case False
      with S id show ?thesis
        by (auto simp: request_fuel_sale_reversal_def res_simps Let_def comms_updates
            fuel_sale_reversal_state_def get_put_row_same)
    qed
  qed
  show "\<exists>r. fuel_sale_reversal_state sale_id d = Some r \<and> \<not> is_reversed r
      \<and> require_permission u ''fuel_sales'' ''approve_reverse'' [] = ok
      \<and> request_status r \<in> set [Some ''pending'', Some ''approved'']
      \<and> fuel_sale_reversal_state sale_id d' = Some (mark_reversed e u (mark_approved e u r))"
    if "fuel_sale_route sale_id e d (Approve u reason) = Inr (x, d')"
  proof -
    from that obtain sale d1 sale1 where S: "get_row fs_id (fuel_sales d) sale_id = Some sale"
      "require_permission u ''fuel_sales'' ''approve_reverse'' [] = ok"
      "\<not> is_reversed (fs_reversal sale)"
      "request_status (fs_reversal sale) \<in> set [Some ''pending'', Some ''approved'']"
      "reverse_fuel_sale e d1 sale1 u = Inr (x, d')"
      "sale1 = sale\<lparr>fs_reversal := mark_approved e u (fs_reversal sale)\<rparr>"
      "fuel_sales d1 = put_row fs_id sale1 (fuel_sales d)"
      by (auto simp: route_approve_fuel_sale_reversal_def approve_fuel_sale_reversal_def res_simps Let_def comms_updates)
    from get_row_Some [OF S(1)] have id: "fs_id sale = sale_id" by blast
    from S(5) show ?thesis
      by (rule reverse_fuel_sale_Inr)
        (use S(1-4,6,7) id in \<open>auto simp: fuel_sale_reversal_state_def get_put_row_same put_row_put_row\<close>)
  qed
  show "\<exists>r. fuel_sale_reversal_state sale_id d = Some r \<and> \<not> is_reversed r
      \<and> request_status r = Some ''pending''
      \<and> fuel_sale_reversal_state sale_id d' = Some (mark_rejected e u reason r)"
    if "fuel_sale_route sale_id e d (Reject u reason) = Inr (x, d')"
  proof -
    from that obtain sale where S: "get_row fs_id (fuel_sales d) sale_id = Some sale"
      "\<not> is_reversed (fs_reversal sale)" "request_status (fs_reversal sale) = Some ''pending''"
      "fuel_sales d' = put_row fs_id (sale\<lparr>fs_reversal := mark_rejected e u reason (fs_reversal sale)\<rparr>) (fuel_sales d)"
      by (auto simp: route_reject_fuel_sale_reversal_def reject_fuel_sale_reversal_def res_simps Let_def comms_updates)
    from get_row_Some [OF S(1)] S show ?thesis
      by (simp add: fuel_sale_reversal_state_def get_put_row_same)
  qed
  show "require_permission u ''fuel_sales'' ''reverse'' [] = ok \<Longrightarrow>
      require_permission v ''fuel_sales'' ''approve_reverse'' [] = ok \<Longrightarrow>
      role_of u = role_of v \<Longrightarrow> is_admin v \<or> is_admin u"
    using duties_separated [of "''fuel_sales''" "''reverse''" "''approve_reverse''" u "[]" v "[]"]
    by (auto simp: dual_control_def)
qed

text \<open>
  C5. A fuel sale is reversed at most once and never on one person's word: in every history of its
  reversal routes, interleaved with anything else that leaves its reversal columns alone, a sale
  that ends up reversed was reversed by an administrator or requested and approved by users of
  different roles; and once it is reversed no reversal route succeeds again.
\<close>

theorem fuel_sale_reversal_authorised:
  assumes "reversal_history (fuel_sale_route i) (fuel_sale_reversal_state i) d h d1"
    and "fuel_sale_reversal_state i d = Some no_reversal"
    and "reversed_doc (fuel_sale_reversal_state i d1)"
    and "reversal_history (fuel_sale_route i) (fuel_sale_reversal_state i) d1 h' d2"
  shows "authorised h \<and> h' = [] \<and> fuel_sale_reversal_state i d2 = fuel_sale_reversal_state i d1"
  using fuel_sale_workflow.reversal_authorised [OF assms(1) _ _ assms(3)]
    fuel_sale_workflow.reversed_forever [OF assms(4,3)] assms(2)
  by (simp add: unreversed_def no_reversal_def)

text \<open>
  C6. Reversal undoes recording: when all figures are whole numbers (so that binary64 arithmetic is
  exact) and the sale is to a credit customer without an override or to no customer, an
  administrator can reverse a sale that was just recorded, and this restores the nozzles, tanks,
  customers and meter readings exactly; the sale stays in the table, marked as reversed.
\<close>

theorem fuel_sale_reverse_restores:
  assumes "create_fuel_sale e d data u = Inr (sale, d1)" and "books_ok d" and "is_admin a"
    and "keyed nz_id (nozzles d)" "keyed tk_id (tanks d)" "keyed cu_id (customers d)" "keyed fs_id (fuel_sales d)"
    and "\<forall>r \<in> set (nozzle_readings d). nr_sale_id r \<noteq> Some (fs_id sale)"
    and "get_row nz_id (nozzles d) (sd_nozzle_id data) = Some nozzle"
    and "get_row tk_id (tanks d) (nz_tank_id nozzle) = Some tank"
    and "whole (tk_current_volume tank)" "whole (fs_quantity sale)" "whole (fs_total_amount sale)"
    and "case sd_customer_id data of None \<Rightarrow> True
         | Some i \<Rightarrow> sd_sale_type data = ''credit'' \<and> (\<forall>c. get_row cu_id (customers d) i = Some c
              \<longrightarrow> whole (cu_outstanding_balance c) \<and> cu_override_amount c = 0)"
  shows "\<exists>sale' d2. reverse_fuel_sale e' d1 sale a = Inr (sale', d2)
    \<and> nozzles d2 = nozzles d \<and> tanks d2 = tanks d \<and> customers d2 = customers d
    \<and> nozzle_readings d2 = nozzle_readings d \<and> fuel_sales d2 = fuel_sales d @ [sale']
    \<and> is_reversed (fs_reversal sale')"
  using assms(1)
proof (rule create_fuel_sale_Inr, goal_cases)
  case (1 nozzle' dispenser customer shift_id d0)
  from 1(1) assms(9) have n: "nozzle' = nozzle" by simp
  have ids: "nz_id nozzle = sd_nozzle_id data" "tk_id tank = nz_tank_id nozzle"
    using get_row_Some [OF assms(9)] get_row_Some [OF assms(10)] by simp_all
  let ?q = "fs_quantity sale"
  define nozzle1 where "nozzle1 = nozzle\<lparr>nz_meter_reading := fs_closing_meter sale\<rparr>"
  define tank1 where "tank1 = tank\<lparr>tk_current_volume := fsub (tk_current_volume tank) ?q\<rparr>"
  have same: "nozzles d1 = nozzles d0" "tanks d1 = tanks d0" "nozzle_readings d1 = nozzle_readings d0"
    "fuel_sales d1 = fuel_sales d0" using 1(14) by auto
  have sale: "fs_nozzle_id sale = sd_nozzle_id data" "fs_opening_meter sale = nz_meter_reading nozzle"
    "fs_id sale = next_id fs_id (fuel_sales d)" "fs_reversal sale = no_reversal" "fs_customer_id sale = sd_customer_id data"
    by (simp_all add: 1(12) n)
  have T: "nozzles d1 = put_row nz_id nozzle1 (nozzles d)" "tanks d1 = put_row tk_id tank1 (tanks d)"
    "get_row nz_id (nozzles d1) (fs_nozzle_id sale) = Some nozzle1"
    "get_row tk_id (tanks d1) (nz_tank_id nozzle1) = Some tank1"
    using assms(9,10) ids
    by (simp_all add: same sale(1) 1(13) n nozzle1_def tank1_def put_tank_volume_def get_put_row_same)
  have vol: "fadd (tk_current_volume tank1) ?q = tk_current_volume tank"
    using assms(11,12) by (simp add: tank1_def whole_fsub_fadd)
  have cap: "tk_current_volume tank \<le> tk_capacity tank1"
    using books_ok_rows(1) [OF assms(2,10)] by (simp add: tank1_def tank_ok_def)
  have nback: "put_row nz_id (nozzle1\<lparr>nz_meter_reading := fs_opening_meter sale\<rparr>) (nozzles d1) = nozzles d"
    using put_row_get [OF assms(4)] assms(9) ids(1)
    by (simp add: T(1) put_row_put_row nozzle1_def sale(2))
  have tback: "put_tank_volume (Some tank1) (\<lambda>v. fadd v ?q) (tanks d1) = tanks d"
    using put_row_get [OF assms(5)] assms(10) ids(2) vol
    by (simp add: T(2) put_row_put_row tank1_def put_tank_volume_def)
  have rback: "drop_sale_reading sale (nozzle_readings d1) = nozzle_readings d"
  proof -
    have "find (\<lambda>r. nr_sale_id r = Some (fs_id sale)) (nozzle_readings d) = None"
      using assms(8) by (simp add: find_None_iff)
    then show ?thesis
      by (simp add: same 1(13) drop_sale_reading_def find_add_row [unfolded add_row_def] del_row_def)
        (metis (mono_tags, lifting) filter_True next_id_greater less_irrefl)
  qed
  have cback: "refund_customer d1 sale = Inr (customers d)"
  proof (cases "sd_customer_id data")
    case None
    with 1(7,14) show ?thesis by (auto simp: refund_customer_def sale(5) sale_customer_def 1(13))
  next
    case (Some i)
    with 1(7) obtain c where c: "customer = Some c" "get_row cu_id (customers d) i = Some c"
      by (auto simp: sale_customer_def res_simps)
    with assms(14) Some have cr: "sd_sale_type data = ''credit''" "whole (cu_outstanding_balance c)"
      "cu_override_amount c = 0" by auto
    let ?c1 = "c\<lparr>cu_outstanding_balance := fadd (cu_outstanding_balance c) (fs_total_amount sale)\<rparr>"
    from 1(14) c(1) cr have "customers d1 = put_row cu_id ?c1 (customers d)"
      by (auto simp: charge_credit_def 1(13) Let_def split: if_splits)
    moreover have "0 \<le> cu_outstanding_balance c"
      using books_ok_rows(2) [OF assms(2) c(2)] by (simp add: customer_ok_def)
    moreover have "put_row cu_id c (customers d) = customers d"
      using put_row_get [OF assms(6)] c(2) get_row_Some [OF c(2)] by simp
    ultimately show ?thesis
      using Some c(2) get_row_Some [OF c(2)] cr(2) assms(13)
      by (simp add: refund_customer_def sale(5) get_put_row_same whole_fadd_fsub put_row_put_row)
  qed
  have fresh: "\<And>r. put_row fs_id (sale\<lparr>fs_reversal := r\<rparr>) (fuel_sales d1)
      = fuel_sales d @ [sale\<lparr>fs_reversal := r\<rparr>]"
    using put_row_add_fresh [of fs_id sale "fuel_sales d"] sale(3)
    by (simp add: same 1(13) add_row_def)
  have acc: "ensure_sale_access d1 sale a = ok" using assms(3) by (simp add: ensure_sale_access_def)
  have meter: "nz_meter_reading nozzle1 = fs_closing_meter sale" by (simp add: nozzle1_def)
  have "\<not> tk_current_volume tank > tk_capacity tank1" using cap by simp
  with acc T(3,4) cback nback tback rback fresh vol meter show ?case
    by (simp add: reverse_fuel_sale_def assms(3) sale(4) no_reversal_def Let_def mark_reversed_def comms_updates)
qed

section \<open>Listing\<close>

lemma list_fuel_sales_own_station:
  assumes "s \<in> set (list_fuel_sales d u st c f sale_type sn sh t1 t2 skip limit)"
    and "\<not> is_admin u" "u_station_id u = Some i" "i \<noteq> 0"
  shows "s \<in> set (fuel_sales d) \<and> fs_station_id s = i"
  using assms by (auto simp: list_fuel_sales_def page_def Let_def dest!: in_set_takeD in_set_dropD)

lemma list_fuel_sales_without_station:
  \<comment> \<open>a user of the organization scope (\<open>HeadOffice\<close>) has no station and sees the sales of all organizations\<close>
  assumes "\<not> is_admin u" "u_station_id u = None"
  shows "list_fuel_sales d u st None None None None None None None 0 limit
    = take limit (sort_key (\<lambda>s. - fs_created_at s) (fuel_sales d))"
  using assms by (simp add: list_fuel_sales_def page_def truthy_def Let_def)

section \<open>Witnesses\<close>

definition sample_sale_data :: fuel_sale_create where
  "sample_sale_data = \<lparr>sd_nozzle_id = 1, sd_station_id = 1, sd_fuel_type_id = 1, sd_customer_id = Some 1,
     sd_closing_meter = 150, sd_rate_per_liter = 4, sd_sale_type = ''credit'', sd_shift_name = None, sd_shift_id = None\<rparr>"

lemma sample_fuel_sale:
  "\<exists>sale d'. create_fuel_sale sample_env sample_db sample_sale_data sample_operator = Inr (sale, d')
    \<and> fs_quantity sale = 50 \<and> fs_total_amount sale = 200 \<and> fs_id sale = 1"
proof -
  let ?r = "create_fuel_sale sample_env sample_db sample_sale_data sample_operator"
  have "case ?r of Inl x \<Rightarrow> False
      | Inr (sale, d') \<Rightarrow> fs_quantity sale = 50 \<and> fs_total_amount sale = 200 \<and> fs_id sale = 1"
    by code_simp
  then show ?thesis by (auto split: sum.splits)
qed

theorem create_fuel_sale_effect_witness:
  "\<exists>sale d'. create_fuel_sale sample_env sample_db sample_sale_data sample_operator = Inr (sale, d')
    \<and> fs_opening_meter sale = 100 \<and> fuel_sales d' = [sale]
    \<and> get_row tk_id (tanks d') 1 = Some (sample_tank\<lparr>tk_current_volume := fsub 4000 50\<rparr>)"
proof -
  from sample_fuel_sale obtain sale d' where S:
    "create_fuel_sale sample_env sample_db sample_sale_data sample_operator = Inr (sale, d')"
    "fs_quantity sale = 50" by blast
  have "get_row nz_id (nozzles sample_db) (sd_nozzle_id sample_sale_data) = Some sample_nozzle"
    "get_row tk_id (tanks sample_db) (nz_tank_id sample_nozzle) = Some sample_tank"
    by (simp_all add: sample_db_def sample_sale_data_def sample_nozzle_def sample_tank_def get_row_Cons)
  from create_fuel_sale_effect [OF S(1) this] show ?thesis
    using S by (simp add: sample_nozzle_def sample_tank_def sample_db_def empty_db_def)
qed

theorem fuel_sale_credit_limit_witness:
  "\<exists>sale d' c c'. create_fuel_sale sample_env sample_db sample_sale_data sample_operator = Inr (sale, d')
    \<and> get_row cu_id (customers sample_db) 1 = Some c \<and> get_row cu_id (customers d') 1 = Some c'
    \<and> cu_outstanding_balance c' = fadd (cu_outstanding_balance c) 200"
proof -
  from sample_fuel_sale obtain sale d' where S:
    "create_fuel_sale sample_env sample_db sample_sale_data sample_operator = Inr (sale, d')"
    "fs_total_amount sale = 200" by blast
  from fuel_sale_credit_limit [OF S(1)] show ?thesis
    using S by (auto simp: sample_sale_data_def)
qed

definition sample_sold_db :: db where
  "sample_sold_db = snd (projr (create_fuel_sale sample_env sample_db sample_sale_data sample_operator))"

definition sample_requested_db :: db where
  "sample_requested_db = snd (projr (fuel_sale_route 1 sample_env sample_sold_db (Reverse sample_manager None)))"

definition sample_reversed_db :: db where
  "sample_reversed_db = snd (projr (fuel_sale_route 1 sample_env sample_requested_db (Approve sample_head_office None)))"

theorem fuel_sale_reversal_authorised_witness:
  "authorised [Reverse sample_manager None, Approve sample_head_office None]"
proof -
  have 1: "\<not> isl (fuel_sale_route 1 sample_env sample_sold_db (Reverse sample_manager None))" by code_simp
  have 2: "\<not> isl (fuel_sale_route 1 sample_env sample_requested_db (Approve sample_head_office None))" by code_simp
  let ?H = "reversal_history (fuel_sale_route 1) (fuel_sale_reversal_state 1)"
  have "?H sample_sold_db ([] @ [Reverse sample_manager None]) sample_requested_db"
    by (rule reversal_history.act, rule reversal_history.start)
      (rule not_isl_pair [OF 1, folded sample_requested_db_def])
  then have "?H sample_sold_db (([] @ [Reverse sample_manager None]) @ [Approve sample_head_office None]) sample_reversed_db"
    by (rule reversal_history.act) (rule not_isl_pair [OF 2, folded sample_reversed_db_def])
  moreover have "fuel_sale_reversal_state 1 sample_sold_db = Some no_reversal" by code_simp
  moreover have "reversed_doc (fuel_sale_reversal_state 1 sample_reversed_db)" by code_simp
  ultimately show ?thesis
    using fuel_sale_reversal_authorised [OF _ _ _ reversal_history.start] by fastforce
qed

theorem fuel_sale_reverse_restores_witness:
  "\<exists>sale d1 sale' d2. create_fuel_sale sample_env sample_db sample_sale_data sample_operator = Inr (sale, d1)
    \<and> reverse_fuel_sale sample_env d1 sale sample_admin = Inr (sale', d2) \<and> customers d2 = [sample_customer]"
proof -
  from sample_fuel_sale obtain sale d1 where S:
    "create_fuel_sale sample_env sample_db sample_sale_data sample_operator = Inr (sale, d1)"
    "fs_quantity sale = 50" "fs_total_amount sale = 200" by blast
  have "\<exists>sale' d2. reverse_fuel_sale sample_env d1 sale sample_admin = Inr (sale', d2)
    \<and> nozzles d2 = nozzles sample_db \<and> tanks d2 = tanks sample_db \<and> customers d2 = customers sample_db
    \<and> nozzle_readings d2 = nozzle_readings sample_db \<and> fuel_sales d2 = fuel_sales sample_db @ [sale']
    \<and> is_reversed (fs_reversal sale')"
  proof (rule fuel_sale_reverse_restores [OF S(1), where nozzle = sample_nozzle and tank = sample_tank])
    show "books_ok sample_db" by code_simp
    show "is_admin sample_admin" by code_simp
    show "case sd_customer_id sample_sale_data of None \<Rightarrow> True
         | Some i \<Rightarrow> sd_sale_type sample_sale_data = ''credit'' \<and> (\<forall>c. get_row cu_id (customers sample_db) i = Some c
              \<longrightarrow> whole (cu_outstanding_balance c) \<and> cu_override_amount c = 0)"
      by (simp add: sample_db_def sample_sale_data_def sample_customer_def get_row_Cons whole_def)
  qed (simp_all add: sample_db_def empty_db_def keyed_def S sample_sale_data_def sample_nozzle_def sample_tank_def
        get_row_Cons sample_product_def whole_def)
  with S(1) show ?thesis by (auto simp: sample_db_def)
qed

end
