(* ===== verification/Payments.thy ===== *)
theory Payments
  imports Books
begin

text \<open>
  \<open>app/services/payments.py\<close> and the routes of \<open>app/api/customer_payment.py\<close> and
  \<open>supplier_payment.py\<close>: a payment lowers the balance it settles, its reversal raises it again.
  The two kinds of payment differ in whom they settle with and in who may see them.
\<close>

section \<open>Customer payments\<close>

record customer_payment_create =
  cd_customer_id :: int
  cd_station_id :: int
  cd_amount :: pyfloat
  cd_payment_method :: string
  cd_reference_no :: "string option"
  cd_notes :: "string option"

definition ensure_customer_payment_access :: "db \<Rightarrow> customer_payment \<Rightarrow> user \<Rightarrow> unit res" where
  "ensure_customer_payment_access d payment u =
     (if is_admin u then ok
      else if is_head_office_user u then
        (case get_row cu_id (customers d) (cp_customer_id payment) of
           None \<Rightarrow> http 403 ''Not authorized for this customer payment''
         | Some c \<Rightarrow>
           (case get_row st_id (stations d) (cu_station_id c) of
              None \<Rightarrow> http 403 ''Not authorized for this customer payment''
            | Some s \<Rightarrow> if st_organization_id s = get_user_organization_id d u then ok
                        else http 403 ''Not authorized for this customer payment''))
      else if u_station_id u \<noteq> Some (cp_station_id payment)
      then http 403 ''Not authorized for this customer payment''
      else ok)"

definition new_customer_payment :: "env \<Rightarrow> db \<Rightarrow> customer_payment_create \<Rightarrow> customer_payment" where
  "new_customer_payment e d data =
     \<lparr>cp_id = next_id cp_id (customer_payments d), cp_customer_id = cd_customer_id data, cp_station_id = cd_station_id data,
      cp_amount = cd_amount data, cp_payment_method = cd_payment_method data,
      cp_reference_no = cd_reference_no data, cp_notes = cd_notes data, cp_reversal = no_reversal,
      cp_created_at = now e\<rparr>"

definition audit_customer_payment :: "env \<Rightarrow> user \<Rightarrow> string \<Rightarrow> customer_payment \<Rightarrow> jobject \<Rightarrow> db \<Rightarrow> db" where
  "audit_customer_payment e u action payment details d =
     audit e u ''customer_payments'' action ''customer_payment'' (Some (cp_id payment)) (Some (cp_station_id payment)) details d"

definition create_customer_payment :: "env \<Rightarrow> db \<Rightarrow> customer_payment_create \<Rightarrow> user \<Rightarrow> (customer_payment \<times> db) res" where
  "create_customer_payment e d data u =
     check (station_guard u (cd_station_id data) ''Not authorized for this station'')
     (if cd_amount data \<le> 0 then http 400 ''Payment amount must be greater than 0''
      else case get_row cu_id (customers d) (cd_customer_id data) of None \<Rightarrow> http 404 ''Customer not found'' | Some customer \<Rightarrow>
      if get_row st_id (stations d) (cd_station_id data) = None then http 404 ''Station not found''
      else if cu_station_id customer \<noteq> cd_station_id data
      then http 400 ''Customer does not belong to the selected station''
      else if cu_outstanding_balance customer \<le> 0 then http 400 ''Customer has no outstanding balance''
      else if cd_amount data > cu_outstanding_balance customer
      then http 400 ''Payment exceeds outstanding balance''
      else let payment = new_customer_payment e d data in
      Inr (payment, audit_customer_payment e u ''customer_payments.create'' payment
        [(''customer_id'', JInt (cp_customer_id payment)), (''amount'', JFloat (cp_amount payment))]
        (d\<lparr>customer_payments := add_row payment (customer_payments d),
           customers := put_row cu_id (customer\<lparr>cu_outstanding_balance := fsub (cu_outstanding_balance customer) (cd_amount data)\<rparr>) (customers d)\<rparr>)))"

definition reverse_customer_payment :: "env \<Rightarrow> db \<Rightarrow> customer_payment \<Rightarrow> user \<Rightarrow> (customer_payment \<times> db) res" where
  "reverse_customer_payment e d payment u =
     check (ensure_customer_payment_access d payment u)
     (if request_status (cp_reversal payment) \<noteq> Some ''approved'' \<and> \<not> is_admin u
      then http 400 ''Customer payment reversal must be approved first''
      else if is_reversed (cp_reversal payment) then http 400 ''Customer payment is already reversed''
      else case get_row cu_id (customers d) (cp_customer_id payment) of
             None \<Rightarrow> http 400 ''Cannot reverse payment because the customer record is missing'' | Some customer \<Rightarrow>
      let payment' = payment\<lparr>cp_reversal := mark_reversed e u (cp_reversal payment)\<rparr> in
      Inr (payment', audit_customer_payment e u ''customer_payments.reverse'' payment
        [(''customer_id'', JInt (cp_customer_id payment)), (''amount'', JFloat (cp_amount payment))]
        (d\<lparr>customers := put_row cu_id (customer\<lparr>cu_outstanding_balance := fadd (cu_outstanding_balance customer) (cp_amount payment)\<rparr>) (customers d),
           customer_payments := put_row cp_id payment' (customer_payments d)\<rparr>)))"

definition customer_payment_notice :: "db \<Rightarrow> customer_payment \<Rightarrow> string \<Rightarrow> string \<Rightarrow> fstring \<Rightarrow> notice" where
  "customer_payment_notice d payment event title message =
     \<lparr>nt_station_id = Some (cp_station_id payment),
      nt_organization_id = organization_of_station d (cp_station_id payment), nt_event_type = event,
      nt_title = title, nt_message = message, nt_entity_type = Some ''customer_payment'',
      nt_entity_id = Some (cp_id payment)\<rparr>"

definition request_customer_payment_reversal ::
  "env \<Rightarrow> db \<Rightarrow> customer_payment \<Rightarrow> user \<Rightarrow> string option \<Rightarrow> (customer_payment \<times> db) res" where
  "request_customer_payment_reversal e d payment u reason =
     check (ensure_customer_payment_access d payment u)
     (if is_reversed (cp_reversal payment) then http 400 ''Customer payment is already reversed''
      else if request_status (cp_reversal payment) = Some ''pending''
      then http 400 ''Customer payment reversal is already pending approval''
      else let payment' = payment\<lparr>cp_reversal := mark_requested e u reason (cp_reversal payment)\<rparr>;
               d' = audit_customer_payment e u ''customer_payments.request_reversal'' payment [(''reason'', jopt reason)]
                      (d\<lparr>customer_payments := put_row cp_id payment' (customer_payments d)\<rparr>) in
           Inr (payment', notify_approval_requested e u
             (customer_payment_notice d payment ''customer_payment.reversal_requested'' ''Customer payment reversal requested''
                [T (u_full_name u), T '' requested reversal for customer payment #'', I (cp_id payment), T ''.'']) d'))"

definition approve_customer_payment_reversal ::
  "env \<Rightarrow> db \<Rightarrow> customer_payment \<Rightarrow> user \<Rightarrow> string option \<Rightarrow> (customer_payment \<times> db) res" where
  "approve_customer_payment_reversal e d payment u reason =
     check (ensure_customer_payment_access d payment u)
     (if is_reversed (cp_reversal payment) then http 400 ''Customer payment is already reversed''
      else if request_status (cp_reversal payment) \<notin> set [Some ''pending'', Some ''approved'']
      then http 400 ''Customer payment reversal has not been requested''
      else let payment' = payment\<lparr>cp_reversal := mark_approved e u (cp_reversal payment)\<rparr>;
               d' = audit_customer_payment e u ''customer_payments.approve_reversal'' payment [(''reason'', jopt reason)]
                      (d\<lparr>customer_payments := put_row cp_id payment' (customer_payments d)\<rparr>);
               d'' = notify_decision e (requested_by (cp_reversal payment)) u
                      (customer_payment_notice d payment ''customer_payment.reversal_approved'' ''Customer payment reversal approved''
                         [T ''Reversal for customer payment #'', I (cp_id payment), T '' was approved.'']) d' in
           reverse_customer_payment e d'' payment' u)"

definition reject_customer_payment_reversal ::
  "env \<Rightarrow> db \<Rightarrow> customer_payment \<Rightarrow> user \<Rightarrow> string option \<Rightarrow> (customer_payment \<times> db) res" where
  "reject_customer_payment_reversal e d payment u reason =
     check (ensure_customer_payment_access d payment u)
     (if is_reversed (cp_reversal payment) then http 400 ''Customer payment is already reversed''
      else if request_status (cp_reversal payment) \<noteq> Some ''pending''
      then http 400 ''Customer payment reversal is not pending approval''
      else let payment' = payment\<lparr>cp_reversal := mark_rejected e u reason (cp_reversal payment)\<rparr>;
               d' = audit_customer_payment e u ''customer_payments.reject_reversal'' payment [(''reason'', jopt reason)]
                      (d\<lparr>customer_payments := put_row cp_id payment' (customer_payments d)\<rparr>) in
           Inr (payment', notify_decision e (requested_by (cp_reversal payment)) u
             (customer_payment_notice d payment ''customer_payment.reversal_rejected'' ''Customer payment reversal rejected''
                [T ''Reversal for customer payment #'', I (cp_id payment), T '' was rejected.'']) d'))"

text \<open>Routes of \<open>api/customer_payment.py\<close>.\<close>

definition route_create_customer_payment :: "env \<Rightarrow> db \<Rightarrow> customer_payment_create \<Rightarrow> user \<Rightarrow> (customer_payment \<times> db) res" where
  "route_create_customer_payment e d data u =
     check (require_permission u ''customer_payments'' ''create'' ''You do not have permission to create customer payments'')
       (create_customer_payment e d data u)"

definition route_get_customer_payment :: "db \<Rightarrow> int \<Rightarrow> user \<Rightarrow> customer_payment res" where
  "route_get_customer_payment d payment_id u =
     (case get_row cp_id (customer_payments d) payment_id of None \<Rightarrow> http 404 ''Customer payment not found''
      | Some payment \<Rightarrow> check (ensure_customer_payment_access d payment u) (Inr payment))"

definition route_reverse_customer_payment :: "env \<Rightarrow> db \<Rightarrow> int \<Rightarrow> user \<Rightarrow> string option \<Rightarrow> (customer_payment \<times> db) res" where
  "route_reverse_customer_payment e d payment_id u reason =
     (case get_row cp_id (customer_payments d) payment_id of None \<Rightarrow> http 404 ''Customer payment not found'' | Some payment \<Rightarrow>
      check (require_permission u ''customer_payments'' ''reverse''
               ''You do not have permission to reverse customer payments'')
        (if is_admin u then reverse_customer_payment e d payment u
         else request_customer_payment_reversal e d payment u reason))"

definition route_approve_customer_payment_reversal ::
  "env \<Rightarrow> db \<Rightarrow> int \<Rightarrow> user \<Rightarrow> string option \<Rightarrow> (customer_payment \<times> db) res" where
  "route_approve_customer_payment_reversal e d payment_id u reason =
     (case get_row cp_id (customer_payments d) payment_id of None \<Rightarrow> http 404 ''Customer payment not found'' | Some payment \<Rightarrow>
      check (require_permission u ''customer_payments'' ''approve_reverse''
               ''You do not have permission to approve customer payment reversals'')
        (approve_customer_payment_reversal e d payment u reason))"

definition route_reject_customer_payment_reversal ::
  "env \<Rightarrow> db \<Rightarrow> int \<Rightarrow> user \<Rightarrow> string option \<Rightarrow> (customer_payment \<times> db) res" where
  "route_reject_customer_payment_reversal e d payment_id u reason =
     (case get_row cp_id (customer_payments d) payment_id of None \<Rightarrow> http 404 ''Customer payment not found'' | Some payment \<Rightarrow>
      check (require_permission u ''customer_payments'' ''reject_reverse''
               ''You do not have permission to reject customer payment reversals'')
        (reject_customer_payment_reversal e d payment u reason))"

fun customer_payment_route :: "int \<Rightarrow> env \<Rightarrow> db \<Rightarrow> reversal_action \<Rightarrow> (customer_payment \<times> db) res" where
  "customer_payment_route i e d (Reverse u reason) = route_reverse_customer_payment e d i u reason"
| "customer_payment_route i e d (Approve u reason) = route_approve_customer_payment_reversal e d i u reason"
| "customer_payment_route i e d (Reject u reason) = route_reject_customer_payment_reversal e d i u reason"

definition list_customer_payments ::
  "db \<Rightarrow> user \<Rightarrow> int option \<Rightarrow> int option \<Rightarrow> date option \<Rightarrow> date option \<Rightarrow> nat \<Rightarrow> nat \<Rightarrow> customer_payment list" where
  "list_customer_payments d u station_id customer_id from_date to_date skip limit =
     (let station_id = (if is_admin u then station_id else u_station_id u);
          int_filter = (\<lambda>x v. x \<in> set [None, Some 0] \<or> x = Some v) in
      page skip limit (sort_key (\<lambda>p. - cp_created_at p)
        (filter (\<lambda>p. int_filter station_id (cp_station_id p) \<and> int_filter customer_id (cp_customer_id p)
           \<and> (case from_date of None \<Rightarrow> True | Some t \<Rightarrow> cp_created_at p \<ge> days t)
           \<and> (case to_date of None \<Rightarrow> True | Some t \<Rightarrow> cp_created_at p < days t)) (customer_payments d))))"

section \<open>Supplier payments\<close>

record supplier_payment_create =
  zd_supplier_id :: int
  zd_station_id :: int
  zd_amount :: pyfloat
  zd_payment_method :: string
  zd_reference_no :: "string option"
  zd_notes :: "string option"

definition ensure_supplier_payment_access :: "db \<Rightarrow> supplier_payment \<Rightarrow> user \<Rightarrow> unit res" where
  "ensure_supplier_payment_access d payment u =
     (if is_admin u then ok
      else if is_head_office_user u then
        (case get_row st_id (stations d) (sp_station_id payment) of
           None \<Rightarrow> http 403 ''Not authorized for this supplier payment''
         | Some s \<Rightarrow> if st_organization_id s = get_user_organization_id d u then ok
                     else http 403 ''Not authorized for this supplier payment'')
      else if u_station_id u \<noteq> Some (sp_station_id payment)
      then http 403 ''Not authorized for this supplier payment''
      else ok)"

definition new_supplier_payment :: "env \<Rightarrow> db \<Rightarrow> supplier_payment_create \<Rightarrow> supplier_payment" where
  "new_supplier_payment e d data =
     \<lparr>sp_id = next_id sp_id (supplier_payments d), sp_supplier_id = zd_supplier_id data, sp_station_id = zd_station_id data,
      sp_amount = zd_amount data, sp_payment_method = zd_payment_method data,
      sp_reference_no = zd_reference_no data, sp_notes = zd_notes data, sp_reversal = no_reversal,
      sp_created_at = now e\<rparr>"

definition audit_supplier_payment :: "env \<Rightarrow> user \<Rightarrow> string \<Rightarrow> supplier_payment \<Rightarrow> jobject \<Rightarrow> db \<Rightarrow> db" where
  "audit_supplier_payment e u action payment details d =
     audit e u ''supplier_payments'' action ''supplier_payment'' (Some (sp_id payment)) (Some (sp_station_id payment)) details d"

definition create_supplier_payment :: "env \<Rightarrow> db \<Rightarrow> supplier_payment_create \<Rightarrow> user \<Rightarrow> (supplier_payment \<times> db) res" where
  "create_supplier_payment e d data u =
     check (station_guard u (zd_station_id data) ''Not authorized for this station'')
     (if zd_amount data \<le> 0 then http 400 ''Payment amount must be greater than 0''
      else case get_row su_id (suppliers d) (zd_supplier_id data) of None \<Rightarrow> http 404 ''Supplier not found'' | Some supplier \<Rightarrow>
      if get_row st_id (stations d) (zd_station_id data) = None then http 404 ''Station not found''
      else if su_payable_balance supplier \<le> 0 then http 400 ''Supplier has no payable balance''
      else if zd_amount data > su_payable_balance supplier then http 400 ''Payment exceeds payable balance''
      else let payment = new_supplier_payment e d data in
      Inr (payment, audit_supplier_payment e u ''supplier_payments.create'' payment
        [(''supplier_id'', JInt (sp_supplier_id payment)), (''amount'', JFloat (sp_amount payment))]
        (d\<lparr>supplier_payments := add_row payment (supplier_payments d),
           suppliers := put_row su_id (supplier\<lparr>su_payable_balance := fsub (su_payable_balance supplier) (zd_amount data)\<rparr>) (suppliers d)\<rparr>)))"

definition reverse_supplier_payment :: "env \<Rightarrow> db \<Rightarrow> supplier_payment \<Rightarrow> user \<Rightarrow> (supplier_payment \<times> db) res" where
  "reverse_supplier_payment e d payment u =
     check (ensure_supplier_payment_access d payment u)
     (if request_status (sp_reversal payment) \<noteq> Some ''approved'' \<and> \<not> is_admin u
      then http 400 ''Supplier payment reversal must be approved first''
      else if is_reversed (sp_reversal payment) then http 400 ''Supplier payment is already reversed''
      else case get_row su_id (suppliers d) (sp_supplier_id payment) of
             None \<Rightarrow> http 400 ''Cannot reverse payment because the supplier record is missing'' | Some supplier \<Rightarrow>
      let payment' = payment\<lparr>sp_reversal := mark_reversed e u (sp_reversal payment)\<rparr> in
      Inr (payment', audit_supplier_payment e u ''supplier_payments.reverse'' payment
        [(''supplier_id'', JInt (sp_supplier_id payment)), (''amount'', JFloat (sp_amount payment))]
        (d\<lparr>suppliers := put_row su_id (supplier\<lparr>su_payable_balance := fadd (su_payable_balance supplier) (sp_amount payment)\<rparr>) (suppliers d),
           supplier_payments := put_row sp_id payment' (supplier_payments d)\<rparr>)))"

definition supplier_payment_notice :: "db \<Rightarrow> supplier_payment \<Rightarrow> string \<Rightarrow> string \<Rightarrow> fstring \<Rightarrow> notice" where
  "supplier_payment_notice d payment event title message =
     \<lparr>nt_station_id = Some (sp_station_id payment),
      nt_organization_id = organization_of_station d (sp_station_id payment), nt_event_type = event,
      nt_title = title, nt_message = message, nt_entity_type = Some ''supplier_payment'',
      nt_entity_id = Some (sp_id payment)\<rparr>"

definition request_supplier_payment_reversal ::
  "env \<Rightarrow> db \<Rightarrow> supplier_payment \<Rightarrow> user \<Rightarrow> string option \<Rightarrow> (supplier_payment \<times> db) res" where
  "request_supplier_payment_reversal e d payment u reason =
     check (ensure_supplier_payment_access d payment u)
     (if is_reversed (sp_reversal payment) then http 400 ''Supplier payment is already reversed''
      else if request_status (sp_reversal payment) = Some ''pending''
      then http 400 ''Supplier payment reversal is already pending approval''
      else let payment' = payment\<lparr>sp_reversal := mark_requested e u reason (sp_reversal payment)\<rparr>;
               d' = audit_supplier_payment e u ''supplier_payments.request_reversal'' payment [(''reason'', jopt reason)]
                      (d\<lparr>supplier_payments := put_row sp_id payment' (supplier_payments d)\<rparr>) in
           Inr (payment', notify_approval_requested e u
             (supplier_payment_notice d payment ''supplier_payment.reversal_requested'' ''Supplier payment reversal requested''
                [T (u_full_name u), T '' requested reversal for supplier payment #'', I (sp_id payment), T ''.'']) d'))"

definition approve_supplier_payment_reversal ::
  "env \<Rightarrow> db \<Rightarrow> supplier_payment \<Rightarrow> user \<Rightarrow> string option \<Rightarrow> (supplier_payment \<times> db) res" where
  "approve_supplier_payment_reversal e d payment u reason =
     check (ensure_supplier_payment_access d payment u)
     (if is_reversed (sp_reversal payment) then http 400 ''Supplier payment is already reversed''
      else if request_status (sp_reversal payment) \<notin> set [Some ''pending'', Some ''approved'']
      then http 400 ''Supplier payment reversal has not been requested''
      else let payment' = payment\<lparr>sp_reversal := mark_approved e u (sp_reversal payment)\<rparr>;
               d' = audit_supplier_payment e u ''supplier_payments.approve_reversal'' payment [(''reason'', jopt reason)]
                      (d\<lparr>supplier_payments := put_row sp_id payment' (supplier_payments d)\<rparr>);
               d'' = notify_decision e (requested_by (sp_reversal payment)) u
                      (supplier_payment_notice d payment ''supplier_payment.reversal_approved'' ''Supplier payment reversal approved''
                         [T ''Reversal for supplier payment #'', I (sp_id payment), T '' was approved.'']) d' in
           reverse_supplier_payment e d'' payment' u)"

definition reject_supplier_payment_reversal ::
  "env \<Rightarrow> db \<Rightarrow> supplier_payment \<Rightarrow> user \<Rightarrow> string option \<Rightarrow> (supplier_payment \<times> db) res" where
  "reject_supplier_payment_reversal e d payment u reason =
     check (ensure_supplier_payment_access d payment u)
     (if is_reversed (sp_reversal payment) then http 400 ''Supplier payment is already reversed''
      else if request_status (sp_reversal payment) \<noteq> Some ''pending''
      then http 400 ''Supplier payment reversal is not pending approval''
      else let payment' = payment\<lparr>sp_reversal := mark_rejected e u reason (sp_reversal payment)\<rparr>;
               d' = audit_supplier_payment e u ''supplier_payments.reject_reversal'' payment [(''reason'', jopt reason)]
                      (d\<lparr>supplier_payments := put_row sp_id payment' (supplier_payments d)\<rparr>) in
           Inr (payment', notify_decision e (requested_by (sp_reversal payment)) u
             (supplier_payment_notice d payment ''supplier_payment.reversal_rejected'' ''Supplier payment reversal rejected''
                [T ''Reversal for supplier payment #'', I (sp_id payment), T '' was rejected.'']) d'))"

text \<open>Routes of \<open>api/supplier_payment.py\<close>.\<close>

definition route_create_supplier_payment :: "env \<Rightarrow> db \<Rightarrow> supplier_payment_create \<Rightarrow> user \<Rightarrow> (supplier_payment \<times> db) res" where
  "route_create_supplier_payment e d data u =
     check (require_permission u ''supplier_payments'' ''create'' ''You do not have permission to create supplier payments'')
       (create_supplier_payment e d data u)"

definition route_get_supplier_payment :: "db \<Rightarrow> int \<Rightarrow> user \<Rightarrow> supplier_payment res" where
  "route_get_supplier_payment d payment_id u =
     (case get_row sp_id (supplier_payments d) payment_id of None \<Rightarrow> http 404 ''Supplier payment not found''
      | Some payment \<Rightarrow> check (ensure_supplier_payment_access d payment u) (Inr payment))"

definition route_reverse_supplier_payment :: "env \<Rightarrow> db \<Rightarrow> int \<Rightarrow> user \<Rightarrow> string option \<Rightarrow> (supplier_payment \<times> db) res" where
  "route_reverse_supplier_payment e d payment_id u reason =
     (case get_row sp_id (supplier_payments d) payment_id of None \<Rightarrow> http 404 ''Supplier payment not found'' | Some payment \<Rightarrow>
      check (require_permission u ''supplier_payments'' ''reverse''
               ''You do not have permission to reverse supplier payments'')
        (if is_admin u then reverse_supplier_payment e d payment u
         else request_supplier_payment_reversal e d payment u reason))"

definition route_approve_supplier_payment_reversal ::
  "env \<Rightarrow> db \<Rightarrow> int \<Rightarrow> user \<Rightarrow> string option \<Rightarrow> (supplier_payment \<times> db) res" where
  "route_approve_supplier_payment_reversal e d payment_id u reason =
     (case get_row sp_id (supplier_payments d) payment_id of None \<Rightarrow> http 404 ''Supplier payment not found'' | Some payment \<Rightarrow>
      check (require_permission u ''supplier_payments'' ''approve_reverse''
               ''You do not have permission to approve supplier payment reversals'')
        (approve_supplier_payment_reversal e d payment u reason))"

definition route_reject_supplier_payment_reversal ::
  "env \<Rightarrow> db \<Rightarrow> int \<Rightarrow> user \<Rightarrow> string option \<Rightarrow> (supplier_payment \<times> db) res" where
  "route_reject_supplier_payment_reversal e d payment_id u reason =
     (case get_row sp_id (supplier_payments d) payment_id of None \<Rightarrow> http 404 ''Supplier payment not found'' | Some payment \<Rightarrow>
      check (require_permission u ''supplier_payments'' ''reject_reverse''
               ''You do not have permission to reject supplier payment reversals'')
        (reject_supplier_payment_reversal e d payment u reason))"

fun supplier_payment_route :: "int \<Rightarrow> env \<Rightarrow> db \<Rightarrow> reversal_action \<Rightarrow> (supplier_payment \<times> db) res" where
  "supplier_payment_route i e d (Reverse u reason) = route_reverse_supplier_payment e d i u reason"
| "supplier_payment_route i e d (Approve u reason) = route_approve_supplier_payment_reversal e d i u reason"
| "supplier_payment_route i e d (Reject u reason) = route_reject_supplier_payment_reversal e d i u reason"

definition list_supplier_payments ::
  "db \<Rightarrow> user \<Rightarrow> int option \<Rightarrow> int option \<Rightarrow> date option \<Rightarrow> date option \<Rightarrow> nat \<Rightarrow> nat \<Rightarrow> supplier_payment list" where
  "list_supplier_payments d u station_id supplier_id from_date to_date skip limit =
     (let station_id = (if is_admin u then station_id else u_station_id u);
          int_filter = (\<lambda>x v. x \<in> set [None, Some 0] \<or> x = Some v) in
      page skip limit (sort_key (\<lambda>p. - sp_created_at p)
        (filter (\<lambda>p. int_filter station_id (sp_station_id p) \<and> int_filter supplier_id (sp_supplier_id p)
           \<and> (case from_date of None \<Rightarrow> True | Some t \<Rightarrow> sp_created_at p \<ge> days t)
           \<and> (case to_date of None \<Rightarrow> True | Some t \<Rightarrow> sp_created_at p < days t)) (supplier_payments d))))"

section \<open>Customer payments: lemmas\<close>

lemma create_customer_payment_Inr:
  assumes "create_customer_payment e d data u = Inr (payment, d')"
  obtains customer c where
    "is_admin u \<or> u_station_id u = Some (cd_station_id data)"
    "get_row cu_id (customers d) (cd_customer_id data) = Some customer"
    "0 < cd_amount data" "cd_amount data \<le> cu_outstanding_balance customer"
    "payment = new_customer_payment e d data"
    "d' = d\<lparr>customer_payments := customer_payments d @ [payment],
            customers := put_row cu_id (customer\<lparr>cu_outstanding_balance := fsub (cu_outstanding_balance customer) (cd_amount data)\<rparr>) (customers d), comms := c\<rparr>"
proof -
  from assms obtain customer where R:
    "is_admin u \<or> u_station_id u = Some (cd_station_id data)"
    "get_row cu_id (customers d) (cd_customer_id data) = Some customer"
    "0 < cd_amount data" "cd_amount data \<le> cu_outstanding_balance customer" "payment = new_customer_payment e d data"
    by (auto simp: create_customer_payment_def res_simps Let_def)
  moreover from assms R have "\<exists>c. d' = d\<lparr>customer_payments := customer_payments d @ [payment],
      customers := put_row cu_id (customer\<lparr>cu_outstanding_balance := fsub (cu_outstanding_balance customer) (cd_amount data)\<rparr>) (customers d), comms := c\<rparr>"
    by (auto simp: create_customer_payment_def res_simps Let_def audit_customer_payment_def comms_updates add_row_def)
  ultimately show thesis using that by blast
qed

lemma reverse_customer_payment_Inr:
  assumes "reverse_customer_payment e d payment u = Inr (payment', d')"
  obtains customer c where
    "request_status (cp_reversal payment) = Some ''approved'' \<or> is_admin u"
    "\<not> is_reversed (cp_reversal payment)"
    "get_row cu_id (customers d) (cp_customer_id payment) = Some customer"
    "payment' = payment\<lparr>cp_reversal := mark_reversed e u (cp_reversal payment)\<rparr>"
    "d' = d\<lparr>customers := put_row cu_id (customer\<lparr>cu_outstanding_balance := fadd (cu_outstanding_balance customer) (cp_amount payment)\<rparr>) (customers d),
            customer_payments := put_row cp_id payment' (customer_payments d), comms := c\<rparr>"
proof -
  from assms obtain customer where R:
    "request_status (cp_reversal payment) = Some ''approved'' \<or> is_admin u"
    "\<not> is_reversed (cp_reversal payment)"
    "get_row cu_id (customers d) (cp_customer_id payment) = Some customer"
    "payment' = payment\<lparr>cp_reversal := mark_reversed e u (cp_reversal payment)\<rparr>"
    by (auto simp: reverse_customer_payment_def res_simps Let_def)
  moreover from assms R have "\<exists>c. d' = d\<lparr>customers := put_row cu_id (customer\<lparr>cu_outstanding_balance := fadd (cu_outstanding_balance customer) (cp_amount payment)\<rparr>) (customers d),
            customer_payments := put_row cp_id payment' (customer_payments d), comms := c\<rparr>"
    by (auto simp: reverse_customer_payment_def res_simps Let_def audit_customer_payment_def comms_updates)
  ultimately show thesis using that by blast
qed

lemma approve_customer_payment_reversal_Inr:
  assumes "approve_customer_payment_reversal e d payment u reason = Inr (payment', d')"
  obtains payment1 c where
    "\<not> is_reversed (cp_reversal payment)"
    "request_status (cp_reversal payment) \<in> set [Some ''pending'', Some ''approved'']"
    "payment1 = payment\<lparr>cp_reversal := mark_approved e u (cp_reversal payment)\<rparr>"
    "reverse_customer_payment e (d\<lparr>customer_payments := put_row cp_id payment1 (customer_payments d), comms := c\<rparr>) payment1 u
      = Inr (payment', d')"
proof -
  let ?payment = "payment\<lparr>cp_reversal := mark_approved e u (cp_reversal payment)\<rparr>"
  from assms have "\<not> is_reversed (cp_reversal payment)"
    "request_status (cp_reversal payment) \<in> set [Some ''pending'', Some ''approved'']"
    by (auto simp: approve_customer_payment_reversal_def res_simps)
  moreover from assms have "\<exists>c. reverse_customer_payment e
      (d\<lparr>customer_payments := put_row cp_id ?payment (customer_payments d), comms := c\<rparr>) ?payment u = Inr (payment', d')"
    unfolding approve_customer_payment_reversal_def Let_def audit_customer_payment_def comms_updates
    by (simp add: res_simps) (elim conjE, rule exI, assumption)
  ultimately show thesis using that by blast
qed

lemma create_customer_payment_books:
  assumes "create_customer_payment e d data u = Inr (payment, d')" "books_ok d"
  shows "books_ok d'"
  using assms(1)
proof (rule create_customer_payment_Inr)
  fix customer c
  assume k: "get_row cu_id (customers d) (cd_customer_id data) = Some customer"
    and "0 < cd_amount data" "cd_amount data \<le> cu_outstanding_balance customer" "payment = new_customer_payment e d data"
    "d' = d\<lparr>customer_payments := customer_payments d @ [payment],
            customers := put_row cu_id (customer\<lparr>cu_outstanding_balance := fsub (cu_outstanding_balance customer) (cd_amount data)\<rparr>) (customers d), comms := c\<rparr>"
  moreover from this have "customer_ok (customer\<lparr>cu_outstanding_balance := fsub (cu_outstanding_balance customer) (cd_amount data)\<rparr>)"
    using books_ok_rows(2) [OF assms(2) k] by (intro customer_ok_balance) auto
  ultimately show ?thesis
    using assms(2) by (auto simp: books_ok_def customer_payment_ok_def new_customer_payment_def)
qed

lemma reverse_customer_payment_books:
  assumes "reverse_customer_payment e d payment u = Inr (payment', d')" "books_ok d" "customer_payment_ok payment"
  shows "books_ok d'"
  using assms(1)
proof (rule reverse_customer_payment_Inr)
  fix customer c
  assume k: "get_row cu_id (customers d) (cp_customer_id payment) = Some customer"
    and "payment' = payment\<lparr>cp_reversal := mark_reversed e u (cp_reversal payment)\<rparr>"
    "d' = d\<lparr>customers := put_row cu_id (customer\<lparr>cu_outstanding_balance := fadd (cu_outstanding_balance customer) (cp_amount payment)\<rparr>) (customers d),
            customer_payments := put_row cp_id payment' (customer_payments d), comms := c\<rparr>"
  moreover have "customer_ok (customer\<lparr>cu_outstanding_balance := fadd (cu_outstanding_balance customer) (cp_amount payment)\<rparr>)"
    using books_ok_rows(2) [OF assms(2) k] assms(3)
    by (intro customer_ok_balance) (auto simp: customer_payment_ok_def customer_ok_def)
  ultimately show ?thesis
    using assms(2,3) by (auto simp: books_ok_def customer_payment_ok_def)
qed

lemma customer_payment_reversal_steps_books:
  "request_customer_payment_reversal e d payment u reason = Inr (payment', d') \<Longrightarrow> books_ok d \<Longrightarrow>
    customer_payment_ok payment \<Longrightarrow> books_ok d'"
  "reject_customer_payment_reversal e d payment u reason = Inr (payment', d') \<Longrightarrow> books_ok d \<Longrightarrow>
    customer_payment_ok payment \<Longrightarrow> books_ok d'"
  unfolding request_customer_payment_reversal_def reject_customer_payment_reversal_def
  by (clarsimp simp: res_simps Let_def audit_customer_payment_def comms_updates books_ok_def customer_payment_ok_def)+

lemma approve_customer_payment_reversal_books:
  assumes "approve_customer_payment_reversal e d payment u reason = Inr (payment', d')" "books_ok d" "customer_payment_ok payment"
  shows "books_ok d'"
  using assms(1)
proof (rule approve_customer_payment_reversal_Inr)
  fix payment1 c
  assume "payment1 = payment\<lparr>cp_reversal := mark_approved e u (cp_reversal payment)\<rparr>"
    and R: "reverse_customer_payment e (d\<lparr>customer_payments := put_row cp_id payment1 (customer_payments d), comms := c\<rparr>) payment1 u
      = Inr (payment', d')"
  with assms(2,3) show ?thesis
    by (intro reverse_customer_payment_books [OF R]) (auto simp: books_ok_def customer_payment_ok_def)
qed

definition customer_payment_reversal_state :: "int \<Rightarrow> db \<Rightarrow> reversal option" where
  "customer_payment_reversal_state i d = map_option cp_reversal (get_row cp_id (customer_payments d) i)"

interpretation customer_payment_workflow: reversal_workflow "customer_payment_route i" "customer_payment_reversal_state i"
  "\<lambda>u. require_permission u ''customer_payments'' ''reverse'' [] = ok"
  "\<lambda>u. require_permission u ''customer_payments'' ''approve_reverse'' [] = ok"
  for i
proof
  fix e d u reason x d' v
  show "\<exists>r. customer_payment_reversal_state i d = Some r \<and> \<not> is_reversed r
      \<and> require_permission u ''customer_payments'' ''reverse'' [] = ok
      \<and> (is_admin u \<longrightarrow> customer_payment_reversal_state i d' = Some (mark_reversed e u r))
      \<and> (\<not> is_admin u \<longrightarrow> request_status r \<noteq> Some ''pending''
           \<and> customer_payment_reversal_state i d' = Some (mark_requested e u reason r))"
    if "customer_payment_route i e d (Reverse u reason) = Inr (x, d')"
  proof -
    from that obtain p where S: "get_row cp_id (customer_payments d) i = Some p"
      "require_permission u ''customer_payments'' ''reverse'' [] = ok"
      "(if is_admin u then reverse_customer_payment e d p u else request_customer_payment_reversal e d p u reason) = Inr (x, d')"
      by (auto simp: route_reverse_customer_payment_def res_simps)
    from get_row_Some [OF S(1)] have id: "cp_id p = i" by blast
    show ?thesis
    proof (cases "is_admin u")
      case True
      with S(3) have "reverse_customer_payment e d p u = Inr (x, d')" by simp
      then show ?thesis
        by (rule reverse_customer_payment_Inr)
          (use S(1,2) id True in \<open>auto simp: customer_payment_reversal_state_def get_put_row_same\<close>)
    next
      case False
      with S id show ?thesis
        by (auto simp: request_customer_payment_reversal_def res_simps Let_def audit_customer_payment_def comms_updates
            customer_payment_reversal_state_def get_put_row_same)
    qed
  qed
  show "\<exists>r. customer_payment_reversal_state i d = Some r \<and> \<not> is_reversed r
      \<and> require_permission u ''customer_payments'' ''approve_reverse'' [] = ok
      \<and> request_status r \<in> set [Some ''pending'', Some ''approved'']
      \<and> customer_payment_reversal_state i d' = Some (mark_reversed e u (mark_approved e u r))"
    if "customer_payment_route i e d (Approve u reason) = Inr (x, d')"
  proof -
    from that obtain p where S: "get_row cp_id (customer_payments d) i = Some p"
      "require_permission u ''customer_payments'' ''approve_reverse'' [] = ok"
      "approve_customer_payment_reversal e d p u reason = Inr (x, d')"
      by (auto simp: route_approve_customer_payment_reversal_def res_simps)
    from get_row_Some [OF S(1)] have id: "cp_id p = i" by blast
    from S(3) show ?thesis
      by (elim approve_customer_payment_reversal_Inr reverse_customer_payment_Inr)
        (use S(1,2) id in \<open>auto simp: customer_payment_reversal_state_def get_put_row_same put_row_put_row\<close>)
  qed
  show "\<exists>r. customer_payment_reversal_state i d = Some r \<and> \<not> is_reversed r
      \<and> request_status r = Some ''pending''
      \<and> customer_payment_reversal_state i d' = Some (mark_rejected e u reason r)"
    if "customer_payment_route i e d (Reject u reason) = Inr (x, d')"
  proof -
    from that obtain p where S: "get_row cp_id (customer_payments d) i = Some p"
      "\<not> is_reversed (cp_reversal p)" "request_status (cp_reversal p) = Some ''pending''"
      "customer_payments d' = put_row cp_id (p\<lparr>cp_reversal := mark_rejected e u reason (cp_reversal p)\<rparr>) (customer_payments d)"
      by (auto simp: route_reject_customer_payment_reversal_def reject_customer_payment_reversal_def res_simps Let_def
          audit_customer_payment_def comms_updates)
    from get_row_Some [OF S(1)] S show ?thesis
      by (simp add: customer_payment_reversal_state_def get_put_row_same)
  qed
  show "require_permission u ''customer_payments'' ''reverse'' [] = ok \<Longrightarrow>
      require_permission v ''customer_payments'' ''approve_reverse'' [] = ok \<Longrightarrow>
      role_of u = role_of v \<Longrightarrow> is_admin v \<or> is_admin u"
    using duties_separated [of "''customer_payments''" "''reverse''" "''approve_reverse''" u "[]" v "[]"]
    by (auto simp: dual_control_def)
qed

section \<open>Supplier payments: lemmas\<close>

lemma create_supplier_payment_Inr:
  assumes "create_supplier_payment e d data u = Inr (payment, d')"
  obtains supplier c where
    "is_admin u \<or> u_station_id u = Some (zd_station_id data)"
    "get_row su_id (suppliers d) (zd_supplier_id data) = Some supplier"
    "0 < zd_amount data" "zd_amount data \<le> su_payable_balance supplier"
    "payment = new_supplier_payment e d data"
    "d' = d\<lparr>supplier_payments := supplier_payments d @ [payment],
            suppliers := put_row su_id (supplier\<lparr>su_payable_balance := fsub (su_payable_balance supplier) (zd_amount data)\<rparr>) (suppliers d), comms := c\<rparr>"
proof -
  from assms obtain supplier where R:
    "is_admin u \<or> u_station_id u = Some (zd_station_id data)"
    "get_row su_id (suppliers d) (zd_supplier_id data) = Some supplier"
    "0 < zd_amount data" "zd_amount data \<le> su_payable_balance supplier" "payment = new_supplier_payment e d data"
    by (auto simp: create_supplier_payment_def res_simps Let_def)
  moreover from assms R have "\<exists>c. d' = d\<lparr>supplier_payments := supplier_payments d @ [payment],
      suppliers := put_row su_id (supplier\<lparr>su_payable_balance := fsub (su_payable_balance supplier) (zd_amount data)\<rparr>) (suppliers d), comms := c\<rparr>"
    by (auto simp: create_supplier_payment_def res_simps Let_def audit_supplier_payment_def comms_updates add_row_def)
  ultimately show thesis using that by blast
qed

lemma reverse_supplier_payment_Inr:
  assumes "reverse_supplier_payment e d payment u = Inr (payment', d')"
  obtains supplier c where
    "request_status (sp_reversal payment) = Some ''approved'' \<or> is_admin u"
    "\<not> is_reversed (sp_reversal payment)"
    "get_row su_id (suppliers d) (sp_supplier_id payment) = Some supplier"
    "payment' = payment\<lparr>sp_reversal := mark_reversed e u (sp_reversal payment)\<rparr>"
    "d' = d\<lparr>suppliers := put_row su_id (supplier\<lparr>su_payable_balance := fadd (su_payable_balance supplier) (sp_amount payment)\<rparr>) (suppliers d),
            supplier_payments := put_row sp_id payment' (supplier_payments d), comms := c\<rparr>"
proof -
  from assms obtain supplier where R:
    "request_status (sp_reversal payment) = Some ''approved'' \<or> is_admin u"
    "\<not> is_reversed (sp_reversal payment)"
    "get_row su_id (suppliers d) (sp_supplier_id payment) = Some supplier"
    "payment' = payment\<lparr>sp_reversal := mark_reversed e u (sp_reversal payment)\<rparr>"
    by (auto simp: reverse_supplier_payment_def res_simps Let_def)
  moreover from assms R have "\<exists>c. d' = d\<lparr>suppliers := put_row su_id (supplier\<lparr>su_payable_balance := fadd (su_payable_balance supplier) (sp_amount payment)\<rparr>) (suppliers d),
            supplier_payments := put_row sp_id payment' (supplier_payments d), comms := c\<rparr>"
    by (auto simp: reverse_supplier_payment_def res_simps Let_def audit_supplier_payment_def comms_updates)
  ultimately show thesis using that by blast
qed

lemma approve_supplier_payment_reversal_Inr:
  assumes "approve_supplier_payment_reversal e d payment u reason = Inr (payment', d')"
  obtains payment1 c where
    "\<not> is_reversed (sp_reversal payment)"
    "request_status (sp_reversal payment) \<in> set [Some ''pending'', Some ''approved'']"
    "payment1 = payment\<lparr>sp_reversal := mark_approved e u (sp_reversal payment)\<rparr>"
    "reverse_supplier_payment e (d\<lparr>supplier_payments := put_row sp_id payment1 (supplier_payments d), comms := c\<rparr>) payment1 u
      = Inr (payment', d')"
proof -
  let ?payment = "payment\<lparr>sp_reversal := mark_approved e u (sp_reversal payment)\<rparr>"
  from assms have "\<not> is_reversed (sp_reversal payment)"
    "request_status (sp_reversal payment) \<in> set [Some ''pending'', Some ''approved'']"
    by (auto simp: approve_supplier_payment_reversal_def res_simps)
  moreover from assms have "\<exists>c. reverse_supplier_payment e
      (d\<lparr>supplier_payments := put_row sp_id ?payment (supplier_payments d), comms := c\<rparr>) ?payment u = Inr (payment', d')"
    unfolding approve_supplier_payment_reversal_def Let_def audit_supplier_payment_def comms_updates
    by (simp add: res_simps) (elim conjE, rule exI, assumption)
  ultimately show thesis using that by blast
qed

lemma create_supplier_payment_books:
  assumes "create_supplier_payment e d data u = Inr (payment, d')" "books_ok d"
  shows "books_ok d'"
  using assms(1)
proof (rule create_supplier_payment_Inr)
  fix supplier c
  assume k: "get_row su_id (suppliers d) (zd_supplier_id data) = Some supplier"
    and "0 < zd_amount data" "zd_amount data \<le> su_payable_balance supplier" "payment = new_supplier_payment e d data"
    "d' = d\<lparr>supplier_payments := supplier_payments d @ [payment],
            suppliers := put_row su_id (supplier\<lparr>su_payable_balance := fsub (su_payable_balance supplier) (zd_amount data)\<rparr>) (suppliers d), comms := c\<rparr>"
  moreover from this have "supplier_ok (supplier\<lparr>su_payable_balance := fsub (su_payable_balance supplier) (zd_amount data)\<rparr>)"
    using books_ok_rows(3) [OF assms(2) k] by (intro supplier_ok_balance) auto
  ultimately show ?thesis
    using assms(2) by (auto simp: books_ok_def supplier_payment_ok_def new_supplier_payment_def)
qed

lemma reverse_supplier_payment_books:
  assumes "reverse_supplier_payment e d payment u = Inr (payment', d')" "books_ok d" "supplier_payment_ok payment"
  shows "books_ok d'"
  using assms(1)
proof (rule reverse_supplier_payment_Inr)
  fix supplier c
  assume k: "get_row su_id (suppliers d) (sp_supplier_id payment) = Some supplier"
    and "payment' = payment\<lparr>sp_reversal := mark_reversed e u (sp_reversal payment)\<rparr>"
    "d' = d\<lparr>suppliers := put_row su_id (supplier\<lparr>su_payable_balance := fadd (su_payable_balance supplier) (sp_amount payment)\<rparr>) (suppliers d),
            supplier_payments := put_row sp_id payment' (supplier_payments d), comms := c\<rparr>"
  moreover have "supplier_ok (supplier\<lparr>su_payable_balance := fadd (su_payable_balance supplier) (sp_amount payment)\<rparr>)"
    using books_ok_rows(3) [OF assms(2) k] assms(3)
    by (intro supplier_ok_balance) (auto simp: supplier_payment_ok_def supplier_ok_def)
  ultimately show ?thesis
    using assms(2,3) by (auto simp: books_ok_def supplier_payment_ok_def)
qed

lemma supplier_payment_reversal_steps_books:
  "request_supplier_payment_reversal e d payment u reason = Inr (payment', d') \<Longrightarrow> books_ok d \<Longrightarrow>
    supplier_payment_ok payment \<Longrightarrow> books_ok d'"
  "reject_supplier_payment_reversal e d payment u reason = Inr (payment', d') \<Longrightarrow> books_ok d \<Longrightarrow>
    supplier_payment_ok payment \<Longrightarrow> books_ok d'"
  unfolding request_supplier_payment_reversal_def reject_supplier_payment_reversal_def
  by (clarsimp simp: res_simps Let_def audit_supplier_payment_def comms_updates books_ok_def supplier_payment_ok_def)+

lemma approve_supplier_payment_reversal_books:
  assumes "approve_supplier_payment_reversal e d payment u reason = Inr (payment', d')" "books_ok d" "supplier_payment_ok payment"
  shows "books_ok d'"
  using assms(1)
proof (rule approve_supplier_payment_reversal_Inr)
  fix payment1 c
  assume "payment1 = payment\<lparr>sp_reversal := mark_approved e u (sp_reversal payment)\<rparr>"
    and R: "reverse_supplier_payment e (d\<lparr>supplier_payments := put_row sp_id payment1 (supplier_payments d), comms := c\<rparr>) payment1 u
      = Inr (payment', d')"
  with assms(2,3) show ?thesis
    by (intro reverse_supplier_payment_books [OF R]) (auto simp: books_ok_def supplier_payment_ok_def)
qed

definition supplier_payment_reversal_state :: "int \<Rightarrow> db \<Rightarrow> reversal option" where
  "supplier_payment_reversal_state i d = map_option sp_reversal (get_row sp_id (supplier_payments d) i)"

interpretation supplier_payment_workflow: reversal_workflow "supplier_payment_route i" "supplier_payment_reversal_state i"
  "\<lambda>u. require_permission u ''supplier_payments'' ''reverse'' [] = ok"
  "\<lambda>u. require_permission u ''supplier_payments'' ''approve_reverse'' [] = ok"
  for i
proof
  fix e d u reason x d' v
  show "\<exists>r. supplier_payment_reversal_state i d = Some r \<and> \<not> is_reversed r
      \<and> require_permission u ''supplier_payments'' ''reverse'' [] = ok
      \<and> (is_admin u \<longrightarrow> supplier_payment_reversal_state i d' = Some (mark_reversed e u r))
      \<and> (\<not> is_admin u \<longrightarrow> request_status r \<noteq> Some ''pending''
           \<and> supplier_payment_reversal_state i d' = Some (mark_requested e u reason r))"
    if "supplier_payment_route i e d (Reverse u reason) = Inr (x, d')"
  proof -
    from that obtain p where S: "get_row sp_id (supplier_payments d) i = Some p"
      "require_permission u ''supplier_payments'' ''reverse'' [] = ok"
      "(if is_admin u then reverse_supplier_payment e d p u else request_supplier_payment_reversal e d p u reason) = Inr (x, d')"
      by (auto simp: route_reverse_supplier_payment_def res_simps)
    from get_row_Some [OF S(1)] have id: "sp_id p = i" by blast
    show ?thesis
    proof (cases "is_admin u")
      case True
      with S(3) have "reverse_supplier_payment e d p u = Inr (x, d')" by simp
      then show ?thesis
        by (rule reverse_supplier_payment_Inr)
          (use S(1,2) id True in \<open>auto simp: supplier_payment_reversal_state_def get_put_row_same\<close>)
    next
      case False
      with S id show ?thesis
        by (auto simp: request_supplier_payment_reversal_def res_simps Let_def audit_supplier_payment_def comms_updates
            supplier_payment_reversal_state_def get_put_row_same)
    qed
  qed
  show "\<exists>r. supplier_payment_reversal_state i d = Some r \<and> \<not> is_reversed r
      \<and> require_permission u ''supplier_payments'' ''approve_reverse'' [] = ok
      \<and> request_status r \<in> set [Some ''pending'', Some ''approved'']
      \<and> supplier_payment_reversal_state i d' = Some (mark_reversed e u (mark_approved e u r))"
    if "supplier_payment_route i e d (Approve u reason) = Inr (x, d')"
  proof -
    from that obtain p where S: "get_row sp_id (supplier_payments d) i = Some p"
      "require_permission u ''supplier_payments'' ''approve_reverse'' [] = ok"
      "approve_supplier_payment_reversal e d p u reason = Inr (x, d')"
      by (auto simp: route_approve_supplier_payment_reversal_def res_simps)
    from get_row_Some [OF S(1)] have id: "sp_id p = i" by blast
    from S(3) show ?thesis
      by (elim approve_supplier_payment_reversal_Inr reverse_supplier_payment_Inr)
        (use S(1,2) id in \<open>auto simp: supplier_payment_reversal_state_def get_put_row_same put_row_put_row\<close>)
  qed
  show "\<exists>r. supplier_payment_reversal_state i d = Some r \<and> \<not> is_reversed r
      \<and> request_status r = Some ''pending''
      \<and> supplier_payment_reversal_state i d' = Some (mark_rejected e u reason r)"
    if "supplier_payment_route i e d (Reject u reason) = Inr (x, d')"
  proof -
    from that obtain p where S: "get_row sp_id (supplier_payments d) i = Some p"
      "\<not> is_reversed (sp_reversal p)" "request_status (sp_reversal p) = Some ''pending''"
      "supplier_payments d' = put_row sp_id (p\<lparr>sp_reversal := mark_rejected e u reason (sp_reversal p)\<rparr>) (supplier_payments d)"
      by (auto simp: route_reject_supplier_payment_reversal_def reject_supplier_payment_reversal_def res_simps Let_def
          audit_supplier_payment_def comms_updates)
    from get_row_Some [OF S(1)] S show ?thesis
      by (simp add: supplier_payment_reversal_state_def get_put_row_same)
  qed
  show "require_permission u ''supplier_payments'' ''reverse'' [] = ok \<Longrightarrow>
      require_permission v ''supplier_payments'' ''approve_reverse'' [] = ok \<Longrightarrow>
      role_of u = role_of v \<Longrightarrow> is_admin v \<or> is_admin u"
    using duties_separated [of "''supplier_payments''" "''reverse''" "''approve_reverse''" u "[]" v "[]"]
    by (auto simp: dual_control_def)
qed

text \<open>
  A recorded customer payment is positive and no larger than the balance it settles; it lowers
  exactly that customer's balance, which stays non-negative, leaves every other customer alone and
  appends one unreversed payment row with the amount of the request.
\<close>

theorem customer_payment_settles:
  assumes "create_customer_payment e d data u = Inr (payment, d')"
  shows "\<exists>customer. get_row cu_id (customers d) (cd_customer_id data) = Some customer
    \<and> 0 < cp_amount payment \<and> cp_amount payment \<le> cu_outstanding_balance customer \<and> cp_amount payment = cd_amount data
    \<and> cp_reversal payment = no_reversal \<and> customer_payments d' = customer_payments d @ [payment]
    \<and> 0 \<le> fsub (cu_outstanding_balance customer) (cp_amount payment)
    \<and> (\<forall>i. get_row cu_id (customers d') i
         = (if i = cu_id customer then Some (customer\<lparr>cu_outstanding_balance := fsub (cu_outstanding_balance customer) (cp_amount payment)\<rparr>)
            else get_row cu_id (customers d) i))"
  using assms
proof (rule create_customer_payment_Inr)
  fix customer c
  assume "get_row cu_id (customers d) (cd_customer_id data) = Some customer"
    "0 < cd_amount data" "cd_amount data \<le> cu_outstanding_balance customer" "payment = new_customer_payment e d data"
    "d' = d\<lparr>customer_payments := customer_payments d @ [payment],
            customers := put_row cu_id (customer\<lparr>cu_outstanding_balance := fsub (cu_outstanding_balance customer) (cd_amount data)\<rparr>) (customers d), comms := c\<rparr>"
  moreover from this(1) have "cu_id customer = cd_customer_id data" by (auto dest: get_row_Some)
  ultimately show ?thesis
    by (intro exI [of _ customer]) (auto simp: new_customer_payment_def get_put_row fsub_nonneg)
qed

text \<open>
  Reversal undoes a supplier payment: with whole amounts an administrator can reverse a payment that
  was just recorded, and the suppliers' balances are then exactly what they were; the payment row
  stays, marked as reversed.
\<close>

theorem supplier_payment_reverse_restores:
  assumes "create_supplier_payment e d data u = Inr (payment, d1)" and "is_admin a"
    and "keyed su_id (suppliers d)" "keyed sp_id (supplier_payments d)"
    and "get_row su_id (suppliers d) (zd_supplier_id data) = Some supplier"
    and "whole (su_payable_balance supplier)" "whole (zd_amount data)"
  shows "\<exists>payment' d2. reverse_supplier_payment e' d1 payment a = Inr (payment', d2) \<and> suppliers d2 = suppliers d
    \<and> supplier_payments d2 = supplier_payments d @ [payment'] \<and> is_reversed (sp_reversal payment')"
  using assms(1)
proof (rule create_supplier_payment_Inr)
  fix k c
  assume "get_row su_id (suppliers d) (zd_supplier_id data) = Some k"
    and P: "payment = new_supplier_payment e d data"
    and D: "d1 = d\<lparr>supplier_payments := supplier_payments d @ [payment],
            suppliers := put_row su_id (k\<lparr>su_payable_balance := fsub (su_payable_balance k) (zd_amount data)\<rparr>) (suppliers d), comms := c\<rparr>"
  with assms(5) have k: "k = supplier" by simp
  let ?k = "supplier\<lparr>su_payable_balance := fsub (su_payable_balance supplier) (zd_amount data)\<rparr>"
  have id: "su_id supplier = zd_supplier_id data" using assms(5) by (auto dest: get_row_Some)
  have fields: "sp_supplier_id payment = zd_supplier_id data" "sp_amount payment = zd_amount data"
    "sp_reversal payment = no_reversal" "sp_id payment = next_id sp_id (supplier_payments d)"
    by (simp_all add: P new_supplier_payment_def)
  have get: "get_row su_id (suppliers d1) (sp_supplier_id payment) = Some ?k"
    using assms(5) id by (simp add: D k fields get_put_row_same)
  have restored: "put_row su_id (?k\<lparr>su_payable_balance := fadd (su_payable_balance ?k) (sp_amount payment)\<rparr>) (suppliers d1) = suppliers d"
    using put_row_get [OF assms(3)] assms(5,6,7) id
    by (simp add: D k fields put_row_put_row whole_fsub_fadd)
  have fresh: "\<And>r. put_row sp_id (payment\<lparr>sp_reversal := r\<rparr>) (supplier_payments d1)
      = supplier_payments d @ [payment\<lparr>sp_reversal := r\<rparr>]"
    using put_row_add_fresh [of sp_id payment "supplier_payments d"] fields(4) by (simp add: D add_row_def)
  have "ensure_supplier_payment_access d1 payment a = ok" using assms(2) by (simp add: ensure_supplier_payment_access_def)
  with get restored fresh assms(2) fields(3) show ?thesis
    by (simp add: reverse_supplier_payment_def no_reversal_def Let_def mark_reversed_def audit_supplier_payment_def comms_updates)
qed

section \<open>Witnesses\<close>

definition sample_customer_payment_data :: customer_payment_create where
  "sample_customer_payment_data = \<lparr>cd_customer_id = 1, cd_station_id = 1, cd_amount = 150,
     cd_payment_method = ''cash'', cd_reference_no = None, cd_notes = None\<rparr>"

definition sample_supplier_payment_data :: supplier_payment_create where
  "sample_supplier_payment_data = \<lparr>zd_supplier_id = 1, zd_station_id = 1, zd_amount = 150,
     zd_payment_method = ''cash'', zd_reference_no = None, zd_notes = None\<rparr>"

theorem customer_payment_settles_witness:
  "\<exists>payment d' c. create_customer_payment sample_env sample_db sample_customer_payment_data sample_operator = Inr (payment, d')
    \<and> get_row cu_id (customers sample_db) 1 = Some c \<and> cp_amount payment \<le> cu_outstanding_balance c"
proof -
  have "\<not> isl (create_customer_payment sample_env sample_db sample_customer_payment_data sample_operator)" by code_simp
  then obtain payment d' where P:
    "create_customer_payment sample_env sample_db sample_customer_payment_data sample_operator = Inr (payment, d')"
    by (metis not_isl_pair)
  from customer_payment_settles [OF P] obtain c where
    "get_row cu_id (customers sample_db) (cd_customer_id sample_customer_payment_data) = Some c"
    "cp_amount payment \<le> cu_outstanding_balance c" by blast
  with P show ?thesis by (intro exI [of _ payment] exI [of _ d'] exI [of _ c]) (simp add: sample_customer_payment_data_def)
qed

theorem supplier_payment_reverse_restores_witness:
  "\<exists>payment d1 payment' d2.
     create_supplier_payment sample_env sample_db sample_supplier_payment_data sample_operator = Inr (payment, d1)
     \<and> reverse_supplier_payment sample_env d1 payment sample_admin = Inr (payment', d2) \<and> suppliers d2 = [sample_supplier]"
proof -
  have "\<not> isl (create_supplier_payment sample_env sample_db sample_supplier_payment_data sample_operator)" by code_simp
  then obtain payment d1 where P:
    "create_supplier_payment sample_env sample_db sample_supplier_payment_data sample_operator = Inr (payment, d1)"
    by (metis not_isl_pair)
  have "\<exists>payment' d2. reverse_supplier_payment sample_env d1 payment sample_admin = Inr (payment', d2)
      \<and> suppliers d2 = suppliers sample_db \<and> supplier_payments d2 = supplier_payments sample_db @ [payment']
      \<and> is_reversed (sp_reversal payment')"
  proof (rule supplier_payment_reverse_restores [OF P, where supplier = sample_supplier])
    show "is_admin sample_admin" by code_simp
  qed (simp_all add: sample_db_def empty_db_def keyed_def sample_supplier_payment_data_def sample_supplier_def
        get_row_Cons whole_def)
  with P show ?thesis by (auto simp: sample_db_def)
qed

end
