(* ===== verification/Purchases.thy ===== *)
theory Purchases
  imports Books
begin

text \<open>
  \<open>app/services/purchases.py\<close> and the routes of \<open>app/api/purchase.py\<close>: fuel bought from a supplier
  enters the tank when the purchase is approved, which the administrator's own purchases are at
  once; the reversal of an approved purchase takes stock and debt back.
\<close>

section \<open>The service\<close>

record purchase_create =
  pd_supplier_id :: int
  pd_tank_id :: int
  pd_fuel_type_id :: int
  pd_tanker_id :: "int option"
  pd_quantity :: pyfloat
  pd_rate_per_liter :: pyfloat
  pd_reference_no :: "string option"
  pd_notes :: "string option"

definition ensure_purchase_access :: "db \<Rightarrow> purchase \<Rightarrow> user \<Rightarrow> unit res" where
  "ensure_purchase_access d purchase u =
     (if is_admin u then ok
      else case get_row tk_id (tanks d) (pu_tank_id purchase) of None \<Rightarrow> Inl AttributeError | Some k \<Rightarrow>
      if is_head_office_user u then
        (case get_row st_id (stations d) (tk_station_id k) of
           None \<Rightarrow> Inl AttributeError
         | Some s \<Rightarrow> if st_organization_id s = get_user_organization_id d u then ok
                     else http 403 ''Not authorized for this purchase'')
      else if u_station_id u \<noteq> Some (tk_station_id k) then http 403 ''Not authorized for this purchase''
      else ok)"

definition purchase_tanker :: "db \<Rightarrow> int option \<Rightarrow> tanker option" where
  "purchase_tanker d tanker_id = (case tanker_id of None \<Rightarrow> None | Some i \<Rightarrow> get_row tn_id (tankers d) i)"

definition validate_purchase_inputs ::
  "db \<Rightarrow> purchase_create \<Rightarrow> user \<Rightarrow> (tank \<times> supplier \<times> tanker option \<times> pyfloat) res" where
  "validate_purchase_inputs d data u =
     (case get_row tk_id (tanks d) (pd_tank_id data) of None \<Rightarrow> http 404 ''Tank not found'' | Some tank \<Rightarrow>
      check (station_guard u (tk_station_id tank) ''Not authorized for this tank'')
      (case get_row su_id (suppliers d) (pd_supplier_id data) of None \<Rightarrow> http 404 ''Supplier not found'' | Some supplier \<Rightarrow>
       if get_row ft_id (fuel_types d) (pd_fuel_type_id data) = None then http 404 ''Fuel type not found''
       else if pd_tanker_id data \<noteq> None \<and> purchase_tanker d (pd_tanker_id data) = None
       then http 404 ''Tanker not found''
       else if tk_fuel_type_id tank \<noteq> pd_fuel_type_id data
       then http 400 ''Tank fuel type does not match purchase fuel type''
       else if pd_quantity data \<le> 0 then http 400 ''Quantity must be greater than 0''
       else if pd_rate_per_liter data \<le> 0 then http 400 ''Rate per liter must be greater than 0''
       else if fadd (tk_current_volume tank) (pd_quantity data) > tk_capacity tank
       then http 400 ''Tank capacity exceeded''
       else Inr (tank, supplier, purchase_tanker d (pd_tanker_id data),
                 fmul (pd_quantity data) (pd_rate_per_liter data))))"

definition apply_purchase_effects :: "purchase \<Rightarrow> tank \<Rightarrow> supplier \<Rightarrow> tanker option \<Rightarrow> db \<Rightarrow> db" where
  "apply_purchase_effects purchase tank supplier tanker d =
     d\<lparr>tanks := put_row tk_id (tank\<lparr>tk_current_volume := fadd (tk_current_volume tank) (pu_quantity purchase)\<rparr>) (tanks d),
       suppliers := put_row su_id
         (supplier\<lparr>su_payable_balance := fadd (su_payable_balance supplier) (pu_total_amount purchase)\<rparr>) (suppliers d),
       tankers := (case tanker of None \<Rightarrow> tankers d
                   | Some t \<Rightarrow> put_row tn_id (t\<lparr>tn_status := Some ''active''\<rparr>) (tankers d))\<rparr>"

definition purchase_notice :: "db \<Rightarrow> purchase \<Rightarrow> int \<Rightarrow> string \<Rightarrow> string \<Rightarrow> fstring \<Rightarrow> notice" where
  \<comment> \<open>the keyword arguments of a notification about a purchase into a tank of the station\<close>
  "purchase_notice d purchase station_id event title message =
     \<lparr>nt_station_id = Some station_id, nt_organization_id = organization_of_station d station_id,
      nt_event_type = event, nt_title = title, nt_message = message, nt_entity_type = Some ''purchase'',
      nt_entity_id = Some (pu_id purchase)\<rparr>"

definition audit_purchase :: "env \<Rightarrow> user \<Rightarrow> string \<Rightarrow> purchase \<Rightarrow> int \<Rightarrow> jobject \<Rightarrow> db \<Rightarrow> db" where
  "audit_purchase e u action purchase station_id details d =
     audit e u ''purchases'' action ''purchase'' (Some (pu_id purchase)) (Some station_id) details d"

definition new_purchase :: "env \<Rightarrow> db \<Rightarrow> purchase_create \<Rightarrow> user \<Rightarrow> pyfloat \<Rightarrow> purchase" where
  "new_purchase e d data u total_amount =
     \<lparr>pu_id = next_id pu_id (purchases d), pu_supplier_id = pd_supplier_id data, pu_tank_id = pd_tank_id data,
      pu_fuel_type_id = pd_fuel_type_id data, pu_tanker_id = pd_tanker_id data, pu_quantity = pd_quantity data,
      pu_rate_per_liter = pd_rate_per_liter data, pu_total_amount = total_amount,
      pu_reference_no = map_option (\<lambda>s. [T s]) (pd_reference_no data),
      pu_notes = map_option (\<lambda>s. [T s]) (pd_notes data),
      pu_status = (if is_admin u then ''approved'' else ''pending''), pu_submitted_by_user_id = Some (u_id u),
      pu_approved_by_user_id = (if is_admin u then Some (u_id u) else None),
      pu_approved_at = (if is_admin u then Some (now e) else None), pu_rejected_at = None,
      pu_rejection_reason = None, pu_reversal = no_reversal, pu_created_at = now e\<rparr>"

definition create_purchase :: "env \<Rightarrow> db \<Rightarrow> purchase_create \<Rightarrow> user \<Rightarrow> (purchase \<times> db) res" where
  "create_purchase e d data u =
     (case validate_purchase_inputs d data u of Inl x \<Rightarrow> Inl x | Inr (tank, supplier, tanker, total_amount) \<Rightarrow>
      let purchase = new_purchase e d data u total_amount;
          d1 = d\<lparr>purchases := add_row purchase (purchases d)\<rparr>;
          d2 = (if is_admin u then apply_purchase_effects purchase tank supplier tanker d1 else d1);
          d3 = audit_purchase e u ''purchases.create'' purchase (tk_station_id tank)
                 [(''total_amount'', JFloat total_amount), (''quantity'', JFloat (pd_quantity data)),
                  (''status'', JStr (pu_status purchase))] d2
      in Inr (purchase,
           if is_admin u then d3
           else notify_approval_requested e u
             (purchase_notice d3 purchase (tk_station_id tank) ''purchase.pending_approval'' ''Purchase approval requested''
                [T (u_full_name u), T '' submitted purchase #'', I (pu_id purchase), T '' for approval.'']) d3))"

definition approve_purchase :: "env \<Rightarrow> db \<Rightarrow> purchase \<Rightarrow> user \<Rightarrow> string option \<Rightarrow> (purchase \<times> db) res" where
  "approve_purchase e d purchase u reason =
     check (ensure_purchase_access d purchase u)
     (if pu_status purchase = ''approved'' then http 400 ''Purchase is already approved''
      else if pu_status purchase = ''rejected'' then http 400 ''Rejected purchases cannot be approved''
      else case (get_row tk_id (tanks d) (pu_tank_id purchase), get_row su_id (suppliers d) (pu_supplier_id purchase)) of
        (Some tank, Some supplier) \<Rightarrow>
          if fadd (tk_current_volume tank) (pu_quantity purchase) > tk_capacity tank
          then http 400 ''Approving this purchase would exceed tank capacity''
          else let purchase' = purchase\<lparr>pu_status := ''approved'', pu_approved_by_user_id := Some (u_id u),
                       pu_approved_at := Some (now e), pu_rejected_at := None, pu_rejection_reason := None\<rparr>;
                   d1 = apply_purchase_effects purchase' tank supplier (purchase_tanker d (pu_tanker_id purchase))
                          (d\<lparr>purchases := put_row pu_id purchase' (purchases d)\<rparr>);
                   d2 = audit_purchase e u ''purchases.approve'' purchase' (tk_station_id tank)
                          [(''reason'', jopt reason), (''total_amount'', JFloat (pu_total_amount purchase))] d1
               in Inr (purchase', notify_decision e (pu_submitted_by_user_id purchase) u
                    (purchase_notice d2 purchase (tk_station_id tank) ''purchase.approved'' ''Purchase approved''
                       [T ''Purchase #'', I (pu_id purchase), T '' was approved.'']) d2)
      | _ \<Rightarrow> http 400 ''Cannot approve purchase because related records are missing'')"

definition reject_purchase :: "env \<Rightarrow> db \<Rightarrow> purchase \<Rightarrow> user \<Rightarrow> string option \<Rightarrow> (purchase \<times> db) res" where
  "reject_purchase e d purchase u reason =
     check (ensure_purchase_access d purchase u)
     (if pu_status purchase = ''approved'' then http 400 ''Approved purchases cannot be rejected''
      else if pu_status purchase = ''rejected'' then http 400 ''Purchase is already rejected''
      else case get_row tk_id (tanks d) (pu_tank_id purchase) of None \<Rightarrow> Inl AttributeError | Some tank \<Rightarrow>
      let purchase' = purchase\<lparr>pu_status := ''rejected'', pu_approved_by_user_id := None, pu_approved_at := None,
            pu_rejected_at := Some (now e), pu_rejection_reason := reason\<rparr>;
          d1 = audit_purchase e u ''purchases.reject'' purchase (tk_station_id tank) [(''reason'', jopt reason)]
                 (d\<lparr>purchases := put_row pu_id purchase' (purchases d)\<rparr>)
      in Inr (purchase', notify_decision e (pu_submitted_by_user_id purchase) u
           (purchase_notice d1 purchase (tk_station_id tank) ''purchase.rejected'' ''Purchase rejected''
              [T ''Purchase #'', I (pu_id purchase), T '' was rejected.'']) d1))"

definition reverse_purchase :: "env \<Rightarrow> db \<Rightarrow> purchase \<Rightarrow> user \<Rightarrow> (purchase \<times> db) res" where
  "reverse_purchase e d purchase u =
     check (ensure_purchase_access d purchase u)
     (if pu_status purchase \<noteq> ''approved'' then http 400 ''Only approved purchases can be reversed''
      else if request_status (pu_reversal purchase) \<noteq> Some ''approved'' \<and> \<not> is_admin u
      then http 400 ''Purchase reversal must be approved first''
      else if is_reversed (pu_reversal purchase) then http 400 ''Purchase is already reversed''
      else case (get_row tk_id (tanks d) (pu_tank_id purchase), get_row su_id (suppliers d) (pu_supplier_id purchase)) of
        (Some tank, Some supplier) \<Rightarrow>
          if tk_current_volume tank < pu_quantity purchase
          then http 400 ''Purchase cannot be reversed because stock has already been consumed''
          else if su_payable_balance supplier < pu_total_amount purchase
          then http 400 ''Purchase cannot be reversed after supplier balance has been settled''
          else let purchase' = purchase\<lparr>pu_reversal := mark_reversed e u (pu_reversal purchase)\<rparr> in
          Inr (purchase', audit_purchase e u ''purchases.reverse'' purchase (tk_station_id tank)
            [(''total_amount'', JFloat (pu_total_amount purchase)), (''quantity'', JFloat (pu_quantity purchase))]
            (d\<lparr>tanks := put_row tk_id
                 (tank\<lparr>tk_current_volume := fsub (tk_current_volume tank) (pu_quantity purchase)\<rparr>) (tanks d),
               suppliers := put_row su_id
                 (supplier\<lparr>su_payable_balance := fsub (su_payable_balance supplier) (pu_total_amount purchase)\<rparr>) (suppliers d),
               purchases := put_row pu_id purchase' (purchases d)\<rparr>))
      | _ \<Rightarrow> http 400 ''Cannot reverse purchase because related records are missing'')"

definition request_purchase_reversal ::
  "env \<Rightarrow> db \<Rightarrow> purchase \<Rightarrow> user \<Rightarrow> string option \<Rightarrow> (purchase \<times> db) res" where
  "request_purchase_reversal e d purchase u reason =
     check (ensure_purchase_access d purchase u)
     (if pu_status purchase \<noteq> ''approved'' then http 400 ''Only approved purchases can request reversal''
      else if is_reversed (pu_reversal purchase) then http 400 ''Purchase is already reversed''
      else if request_status (pu_reversal purchase) = Some ''pending''
      then http 400 ''Purchase reversal is already pending approval''
      else case get_row tk_id (tanks d) (pu_tank_id purchase) of None \<Rightarrow> Inl AttributeError | Some tank \<Rightarrow>
      let purchase' = purchase\<lparr>pu_reversal := mark_requested e u reason (pu_reversal purchase)\<rparr>;
          d1 = audit_purchase e u ''purchases.request_reversal'' purchase (tk_station_id tank) [(''reason'', jopt reason)]
                 (d\<lparr>purchases := put_row pu_id purchase' (purchases d)\<rparr>)
      in Inr (purchase', notify_approval_requested e u
           (purchase_notice d1 purchase (tk_station_id tank) ''purchase.reversal_requested'' ''Purchase reversal requested''
              [T (u_full_name u), T '' requested reversal for purchase #'', I (pu_id purchase), T ''.'']) d1))"

definition approve_purchase_reversal ::
  "env \<Rightarrow> db \<Rightarrow> purchase \<Rightarrow> user \<Rightarrow> string option \<Rightarrow> (purchase \<times> db) res" where
  "approve_purchase_reversal e d purchase u reason =
     check (ensure_purchase_access d purchase u)
     (if is_reversed (pu_reversal purchase) then http 400 ''Purchase is already reversed''
      else if request_status (pu_reversal purchase) \<notin> set [Some ''pending'', Some ''approved'']
      then http 400 ''Purchase reversal has not been requested''
      else case get_row tk_id (tanks d) (pu_tank_id purchase) of None \<Rightarrow> Inl AttributeError | Some tank \<Rightarrow>
      let purchase' = purchase\<lparr>pu_reversal := mark_approved e u (pu_reversal purchase)\<rparr>;
          d1 = audit_purchase e u ''purchases.approve_reversal'' purchase (tk_station_id tank) [(''reason'', jopt reason)]
                 (d\<lparr>purchases := put_row pu_id purchase' (purchases d)\<rparr>);
          d2 = notify_decision e (requested_by (pu_reversal purchase)) u
                 (purchase_notice d1 purchase (tk_station_id tank) ''purchase.reversal_approved''
                    ''Purchase reversal approved''
                    [T ''Reversal for purchase #'', I (pu_id purchase), T '' was approved.'']) d1
      in reverse_purchase e d2 purchase' u)"

definition reject_purchase_reversal ::
  "env \<Rightarrow> db \<Rightarrow> purchase \<Rightarrow> user \<Rightarrow> string option \<Rightarrow> (purchase \<times> db) res" where
  "reject_purchase_reversal e d purchase u reason =
     check (ensure_purchase_access d purchase u)
     (if is_reversed (pu_reversal purchase) then http 400 ''Purchase is already reversed''
      else if request_status (pu_reversal purchase) \<noteq> Some ''pending''
      then http 400 ''Purchase reversal is not pending approval''
      else case get_row tk_id (tanks d) (pu_tank_id purchase) of None \<Rightarrow> Inl AttributeError | Some tank \<Rightarrow>
      let purchase' = purchase\<lparr>pu_reversal := mark_rejected e u reason (pu_reversal purchase)\<rparr>;
          d1 = audit_purchase e u ''purchases.reject_reversal'' purchase (tk_station_id tank) [(''reason'', jopt reason)]
                 (d\<lparr>purchases := put_row pu_id purchase' (purchases d)\<rparr>)
      in Inr (purchase', notify_decision e (requested_by (pu_reversal purchase)) u
           (purchase_notice d1 purchase (tk_station_id tank) ''purchase.reversal_rejected'' ''Purchase reversal rejected''
              [T ''Reversal for purchase #'', I (pu_id purchase), T '' was rejected.'']) d1))"

section \<open>Routes (\<open>api/purchase.py\<close>)\<close>

definition with_purchase :: "db \<Rightarrow> int \<Rightarrow> (purchase \<Rightarrow> 'a res) \<Rightarrow> 'a res" where
  "with_purchase d purchase_id k =
     (case get_row pu_id (purchases d) purchase_id of None \<Rightarrow> http 404 ''Purchase not found'' | Some p \<Rightarrow> k p)"

definition route_create_purchase :: "env \<Rightarrow> db \<Rightarrow> purchase_create \<Rightarrow> user \<Rightarrow> (purchase \<times> db) res" where
  "route_create_purchase e d data u =
     check (require_permission u ''purchases'' ''create'' ''You do not have permission to create purchases'')
       (create_purchase e d data u)"

definition route_get_purchase :: "db \<Rightarrow> int \<Rightarrow> user \<Rightarrow> purchase res" where
  "route_get_purchase d purchase_id u =
     with_purchase d purchase_id (\<lambda>p. check (ensure_purchase_access d p u) (Inr p))"

definition route_approve_purchase :: "env \<Rightarrow> db \<Rightarrow> int \<Rightarrow> user \<Rightarrow> string option \<Rightarrow> (purchase \<times> db) res" where
  "route_approve_purchase e d purchase_id u reason =
     with_purchase d purchase_id (\<lambda>p.
       check (require_permission u ''purchases'' ''approve'' ''You do not have permission to approve purchases'')
         (approve_purchase e d p u reason))"

definition route_reject_purchase :: "env \<Rightarrow> db \<Rightarrow> int \<Rightarrow> user \<Rightarrow> string option \<Rightarrow> (purchase \<times> db) res" where
  "route_reject_purchase e d purchase_id u reason =
     with_purchase d purchase_id (\<lambda>p.
       check (require_permission u ''purchases'' ''reject'' ''You do not have permission to reject purchases'')
         (reject_purchase e d p u reason))"

definition route_reverse_purchase :: "env \<Rightarrow> db \<Rightarrow> int \<Rightarrow> user \<Rightarrow> string option \<Rightarrow> (purchase \<times> db) res" where
  "route_reverse_purchase e d purchase_id u reason =
     with_purchase d purchase_id (\<lambda>p.
       check (require_permission u ''purchases'' ''reverse'' ''You do not have permission to reverse purchases'')
         (if is_admin u then reverse_purchase e d p u else request_purchase_reversal e d p u reason))"

definition route_approve_purchase_reversal :: "env \<Rightarrow> db \<Rightarrow> int \<Rightarrow> user \<Rightarrow> string option \<Rightarrow> (purchase \<times> db) res" where
  "route_approve_purchase_reversal e d purchase_id u reason =
     with_purchase d purchase_id (\<lambda>p.
       check (require_permission u ''purchases'' ''approve_reverse''
                ''You do not have permission to approve purchase reversals'')
         (approve_purchase_reversal e d p u reason))"

definition route_reject_purchase_reversal :: "env \<Rightarrow> db \<Rightarrow> int \<Rightarrow> user \<Rightarrow> string option \<Rightarrow> (purchase \<times> db) res" where
  "route_reject_purchase_reversal e d purchase_id u reason =
     with_purchase d purchase_id (\<lambda>p.
       check (require_permission u ''purchases'' ''reject_reverse''
                ''You do not have permission to reject purchase reversals'')
         (reject_purchase_reversal e d p u reason))"

fun purchase_route :: "int \<Rightarrow> env \<Rightarrow> db \<Rightarrow> reversal_action \<Rightarrow> (purchase \<times> db) res" where
  "purchase_route i e d (Reverse u reason) = route_reverse_purchase e d i u reason"
| "purchase_route i e d (Approve u reason) = route_approve_purchase_reversal e d i u reason"
| "purchase_route i e d (Reject u reason) = route_reject_purchase_reversal e d i u reason"

definition purchase_station :: "db \<Rightarrow> purchase \<Rightarrow> int option" where
  \<comment> \<open>the join of a purchase with its tank\<close>
  "purchase_station d p = map_option tk_station_id (get_row tk_id (tanks d) (pu_tank_id p))"

definition list_purchases ::
  "db \<Rightarrow> user \<Rightarrow> int option \<Rightarrow> int option \<Rightarrow> int option \<Rightarrow> int option \<Rightarrow> string option
     \<Rightarrow> date option \<Rightarrow> date option \<Rightarrow> nat \<Rightarrow> nat \<Rightarrow> purchase list" where
  "list_purchases d u station_id organization_id supplier_id fuel_type_id status from_date to_date skip limit =
     (let organization_id = (if is_admin u then organization_id
            else if is_head_office_user u then get_user_organization_id d u else organization_id);
          station_id = (if is_admin u \<or> is_head_office_user u then station_id else u_station_id u);
          by_organization = organization_id \<notin> set [None, Some 0] \<and> station_id = None \<and> (is_admin u \<or> is_head_office_user u)
      in page skip limit (sort_key (\<lambda>p. - pu_created_at p)
        (filter (\<lambda>p. (station_id \<in> set [None, Some 0] \<or> purchase_station d p = station_id)
           \<and> (by_organization \<longrightarrow>
                (case purchase_station d p of None \<Rightarrow> False
                 | Some s \<Rightarrow> get_row st_id (stations d) s \<noteq> None \<and> organization_of_station d s = organization_id))
           \<and> (supplier_id \<in> set [None, Some 0] \<or> supplier_id = Some (pu_supplier_id p))
           \<and> (fuel_type_id \<in> set [None, Some 0] \<or> fuel_type_id = Some (pu_fuel_type_id p))
           \<and> (truthy status \<longrightarrow> Some (pu_status p) = status)
           \<and> (case from_date of None \<Rightarrow> True | Some t \<Rightarrow> pu_created_at p \<ge> days t)
           \<and> (case to_date of None \<Rightarrow> True | Some t \<Rightarrow> pu_created_at p < days t)) (purchases d))))"

section \<open>What the operations do\<close>

lemma validate_purchase_inputs_Inr:
  "validate_purchase_inputs d data u = Inr (tank, supplier, tanker, total_amount) \<longleftrightarrow>
     get_row tk_id (tanks d) (pd_tank_id data) = Some tank \<and> get_row su_id (suppliers d) (pd_supplier_id data) = Some supplier
     \<and> (is_admin u \<or> u_station_id u = Some (tk_station_id tank))
     \<and> get_row ft_id (fuel_types d) (pd_fuel_type_id data) \<noteq> None
     \<and> tanker = purchase_tanker d (pd_tanker_id data) \<and> (pd_tanker_id data = None \<or> tanker \<noteq> None)
     \<and> tk_fuel_type_id tank = pd_fuel_type_id data \<and> 0 < pd_quantity data \<and> 0 < pd_rate_per_liter data
     \<and> fadd (tk_current_volume tank) (pd_quantity data) \<le> tk_capacity tank
     \<and> total_amount = fmul (pd_quantity data) (pd_rate_per_liter data)"
  by (auto simp: validate_purchase_inputs_def res_simps)

lemma create_purchase_Inr:
  assumes "create_purchase e d data u = Inr (purchase, d')"
  obtains tank supplier tanker c where
    "get_row tk_id (tanks d) (pd_tank_id data) = Some tank" "get_row su_id (suppliers d) (pd_supplier_id data) = Some supplier"
    "0 < pd_quantity data" "0 < pd_rate_per_liter data"
    "fadd (tk_current_volume tank) (pd_quantity data) \<le> tk_capacity tank"
    "purchase = new_purchase e d data u (fmul (pd_quantity data) (pd_rate_per_liter data))"
    "d' = (if is_admin u
       then (apply_purchase_effects purchase tank supplier tanker (d\<lparr>purchases := purchases d @ [purchase]\<rparr>))\<lparr>comms := c\<rparr>
       else d\<lparr>purchases := purchases d @ [purchase], comms := c\<rparr>)"
proof -
  from assms obtain tank supplier tanker where R:
    "validate_purchase_inputs d data u = Inr (tank, supplier, tanker, fmul (pd_quantity data) (pd_rate_per_liter data))"
    "purchase = new_purchase e d data u (fmul (pd_quantity data) (pd_rate_per_liter data))"
    by (auto simp: create_purchase_def res_simps Let_def validate_purchase_inputs_Inr)
  moreover from assms R have "\<exists>c. d' = (if is_admin u
       then (apply_purchase_effects purchase tank supplier tanker (d\<lparr>purchases := purchases d @ [purchase]\<rparr>))\<lparr>comms := c\<rparr>
       else d\<lparr>purchases := purchases d @ [purchase], comms := c\<rparr>)"
    by (cases "is_admin u")
      (auto simp: create_purchase_def Let_def audit_purchase_def comms_updates apply_purchase_effects_def add_row_def)
  ultimately show thesis using that unfolding validate_purchase_inputs_Inr by blast
qed

lemma approve_purchase_Inr:
  assumes "approve_purchase e d purchase u reason = Inr (purchase', d')"
  obtains tank supplier tanker c where
    "pu_status purchase \<notin> set [''approved'', ''rejected'']"
    "get_row tk_id (tanks d) (pu_tank_id purchase) = Some tank" "get_row su_id (suppliers d) (pu_supplier_id purchase) = Some supplier"
    "fadd (tk_current_volume tank) (pu_quantity purchase) \<le> tk_capacity tank"
    "purchase' = purchase\<lparr>pu_status := ''approved'', pu_approved_by_user_id := Some (u_id u),
       pu_approved_at := Some (now e), pu_rejected_at := None, pu_rejection_reason := None\<rparr>"
    "d' = (apply_purchase_effects purchase' tank supplier tanker
             (d\<lparr>purchases := put_row pu_id purchase' (purchases d)\<rparr>))\<lparr>comms := c\<rparr>"
proof -
  from assms obtain tank supplier where R: "pu_status purchase \<notin> set [''approved'', ''rejected'']"
    "get_row tk_id (tanks d) (pu_tank_id purchase) = Some tank" "get_row su_id (suppliers d) (pu_supplier_id purchase) = Some supplier"
    by (auto simp: approve_purchase_def res_simps split: option.splits if_splits)
  let ?purchase = "purchase\<lparr>pu_status := ''approved'', pu_approved_by_user_id := Some (u_id u),
       pu_approved_at := Some (now e), pu_rejected_at := None, pu_rejection_reason := None\<rparr>"
  from assms R have "purchase' = ?purchase" "fadd (tk_current_volume tank) (pu_quantity purchase) \<le> tk_capacity tank"
    by (auto simp: approve_purchase_def res_simps Let_def)
  moreover from assms R have "\<exists>c. d' = (apply_purchase_effects ?purchase tank supplier
        (purchase_tanker d (pu_tanker_id purchase)) (d\<lparr>purchases := put_row pu_id ?purchase (purchases d)\<rparr>))\<lparr>comms := c\<rparr>"
    by (auto simp: approve_purchase_def res_simps Let_def audit_purchase_def comms_updates)
  ultimately show thesis using that R by blast
qed

lemma reverse_purchase_Inr:
  assumes "reverse_purchase e d purchase u = Inr (purchase', d')"
  obtains tank supplier c where
    "pu_status purchase = ''approved''" "request_status (pu_reversal purchase) = Some ''approved'' \<or> is_admin u"
    "\<not> is_reversed (pu_reversal purchase)"
    "get_row tk_id (tanks d) (pu_tank_id purchase) = Some tank" "get_row su_id (suppliers d) (pu_supplier_id purchase) = Some supplier"
    "pu_quantity purchase \<le> tk_current_volume tank" "pu_total_amount purchase \<le> su_payable_balance supplier"
    "purchase' = purchase\<lparr>pu_reversal := mark_reversed e u (pu_reversal purchase)\<rparr>"
    "d' = d\<lparr>tanks := put_row tk_id
               (tank\<lparr>tk_current_volume := fsub (tk_current_volume tank) (pu_quantity purchase)\<rparr>) (tanks d),
            suppliers := put_row su_id
               (supplier\<lparr>su_payable_balance := fsub (su_payable_balance supplier) (pu_total_amount purchase)\<rparr>) (suppliers d),
            purchases := put_row pu_id purchase' (purchases d), comms := c\<rparr>"
proof -
  from assms obtain tank supplier where R: "pu_status purchase = ''approved''"
    "request_status (pu_reversal purchase) = Some ''approved'' \<or> is_admin u" "\<not> is_reversed (pu_reversal purchase)"
    "get_row tk_id (tanks d) (pu_tank_id purchase) = Some tank" "get_row su_id (suppliers d) (pu_supplier_id purchase) = Some supplier"
    by (auto simp: reverse_purchase_def res_simps split: option.splits if_splits)
  let ?purchase = "purchase\<lparr>pu_reversal := mark_reversed e u (pu_reversal purchase)\<rparr>"
  from assms R have "purchase' = ?purchase"
    "pu_quantity purchase \<le> tk_current_volume tank" "pu_total_amount purchase \<le> su_payable_balance supplier"
    by (auto simp: reverse_purchase_def res_simps Let_def)
  moreover from assms R have "\<exists>c. d' = d\<lparr>tanks := put_row tk_id
               (tank\<lparr>tk_current_volume := fsub (tk_current_volume tank) (pu_quantity purchase)\<rparr>) (tanks d),
            suppliers := put_row su_id
               (supplier\<lparr>su_payable_balance := fsub (su_payable_balance supplier) (pu_total_amount purchase)\<rparr>) (suppliers d),
            purchases := put_row pu_id ?purchase (purchases d), comms := c\<rparr>"
    by (auto simp: reverse_purchase_def res_simps Let_def audit_purchase_def comms_updates)
  ultimately show thesis using that R by blast
qed

lemma approve_purchase_reversal_Inr:
  assumes "approve_purchase_reversal e d purchase u reason = Inr (purchase', d')"
  obtains purchase1 c where
    "\<not> is_reversed (pu_reversal purchase)"
    "request_status (pu_reversal purchase) \<in> set [Some ''pending'', Some ''approved'']"
    "purchase1 = purchase\<lparr>pu_reversal := mark_approved e u (pu_reversal purchase)\<rparr>"
    "reverse_purchase e (d\<lparr>purchases := put_row pu_id purchase1 (purchases d), comms := c\<rparr>) purchase1 u = Inr (purchase', d')"
proof -
  let ?purchase = "purchase\<lparr>pu_reversal := mark_approved e u (pu_reversal purchase)\<rparr>"
  from assms have "\<not> is_reversed (pu_reversal purchase)"
    "request_status (pu_reversal purchase) \<in> set [Some ''pending'', Some ''approved'']"
    by (auto simp: approve_purchase_reversal_def res_simps)
  moreover from assms have "\<exists>c. reverse_purchase e
      (d\<lparr>purchases := put_row pu_id ?purchase (purchases d), comms := c\<rparr>) ?purchase u = Inr (purchase', d')"
    unfolding approve_purchase_reversal_def Let_def audit_purchase_def comms_updates
    by (simp add: res_simps) (elim conjE exE, rule exI, assumption)
  ultimately show thesis using that by blast
qed

lemma apply_purchase_effects_books:
  assumes "list_all tank_ok (tanks d)" "list_all supplier_ok (suppliers d)" "purchase_ok purchase"
    and "tank_ok tank" "supplier_ok supplier" "fadd (tk_current_volume tank) (pu_quantity purchase) \<le> tk_capacity tank"
  shows "list_all tank_ok (tanks (apply_purchase_effects purchase tank supplier tanker d))"
    "list_all supplier_ok (suppliers (apply_purchase_effects purchase tank supplier tanker d))"
  using assms tank_ok_fill [of tank "pu_quantity purchase"]
    supplier_ok_balance [of supplier "fadd (su_payable_balance supplier) (pu_total_amount purchase)"]
  by (auto simp: apply_purchase_effects_def purchase_ok_def supplier_ok_def fadd_nonneg)

lemma apply_purchase_effects_frame [simp]:
  "customers (apply_purchase_effects p t s k d) = customers d"
  "fuel_sales (apply_purchase_effects p t s k d) = fuel_sales d"
  "purchases (apply_purchase_effects p t s k d) = purchases d"
  "customer_payments (apply_purchase_effects p t s k d) = customer_payments d"
  "supplier_payments (apply_purchase_effects p t s k d) = supplier_payments d"
  "tanker_deliveries (apply_purchase_effects p t s k d) = tanker_deliveries d"
  by (simp_all add: apply_purchase_effects_def)

lemma create_purchase_books:
  assumes "create_purchase e d data u = Inr (purchase, d')" "books_ok d"
  shows "books_ok d'"
  using assms(1)
proof (rule create_purchase_Inr)
  fix tank supplier tanker c
  assume R: "get_row tk_id (tanks d) (pd_tank_id data) = Some tank"
      "get_row su_id (suppliers d) (pd_supplier_id data) = Some supplier"
    and pos: "0 < pd_quantity data" "0 < pd_rate_per_liter data"
    and cap: "fadd (tk_current_volume tank) (pd_quantity data) \<le> tk_capacity tank"
    and p: "purchase = new_purchase e d data u (fmul (pd_quantity data) (pd_rate_per_liter data))"
    and d': "d' = (if is_admin u
       then (apply_purchase_effects purchase tank supplier tanker (d\<lparr>purchases := purchases d @ [purchase]\<rparr>))\<lparr>comms := c\<rparr>
       else d\<lparr>purchases := purchases d @ [purchase], comms := c\<rparr>)"
  have "purchase_ok purchase"
    using pos by (auto simp: p new_purchase_def purchase_ok_def fmul_nonneg)
  moreover have "pu_quantity purchase = pd_quantity data" by (simp add: p new_purchase_def)
  ultimately show ?thesis
    using assms(2) cap d' apply_purchase_effects_books [of "d\<lparr>purchases := purchases d @ [purchase]\<rparr>" purchase tank supplier tanker]
      books_ok_rows(1) [OF assms(2) R(1)] books_ok_rows(3) [OF assms(2) R(2)]
    by (auto simp: books_ok_def)
qed

lemma approve_purchase_books:
  assumes "approve_purchase e d purchase u reason = Inr (purchase', d')" "books_ok d" "purchase_ok purchase"
  shows "books_ok d'"
  using assms(1)
proof (rule approve_purchase_Inr)
  fix tank supplier tanker c
  let ?d = "d\<lparr>purchases := put_row pu_id purchase' (purchases d)\<rparr>"
  assume R: "get_row tk_id (tanks d) (pu_tank_id purchase) = Some tank"
      "get_row su_id (suppliers d) (pu_supplier_id purchase) = Some supplier"
    and cap: "fadd (tk_current_volume tank) (pu_quantity purchase) \<le> tk_capacity tank"
    and p: "purchase' = purchase\<lparr>pu_status := ''approved'', pu_approved_by_user_id := Some (u_id u),
       pu_approved_at := Some (now e), pu_rejected_at := None, pu_rejection_reason := None\<rparr>"
    and d': "d' = (apply_purchase_effects purchase' tank supplier tanker ?d)\<lparr>comms := c\<rparr>"
  have "purchase_ok purchase'" "pu_quantity purchase' = pu_quantity purchase"
    using assms(3) by (simp_all add: p purchase_ok_def)
  with assms(2) cap d' apply_purchase_effects_books [of ?d purchase' tank supplier tanker]
      books_ok_rows(1) [OF assms(2) R(1)] books_ok_rows(3) [OF assms(2) R(2)]
  show ?thesis by (auto simp: books_ok_def)
qed

lemma reverse_purchase_books:
  assumes "reverse_purchase e d purchase u = Inr (purchase', d')" "books_ok d" "purchase_ok purchase"
  shows "books_ok d'"
  using assms(1)
proof (rule reverse_purchase_Inr)
  fix tank supplier c
  assume R: "get_row tk_id (tanks d) (pu_tank_id purchase) = Some tank"
      "get_row su_id (suppliers d) (pu_supplier_id purchase) = Some supplier"
    and le: "pu_quantity purchase \<le> tk_current_volume tank" "pu_total_amount purchase \<le> su_payable_balance supplier"
    and p: "purchase' = purchase\<lparr>pu_reversal := mark_reversed e u (pu_reversal purchase)\<rparr>"
    and d': "d' = d\<lparr>tanks := put_row tk_id
               (tank\<lparr>tk_current_volume := fsub (tk_current_volume tank) (pu_quantity purchase)\<rparr>) (tanks d),
            suppliers := put_row su_id
               (supplier\<lparr>su_payable_balance := fsub (su_payable_balance supplier) (pu_total_amount purchase)\<rparr>) (suppliers d),
            purchases := put_row pu_id purchase' (purchases d), comms := c\<rparr>"
  have "purchase_ok purchase'" using assms(3) by (simp add: p purchase_ok_def)
  moreover have "tank_ok (tank\<lparr>tk_current_volume := fsub (tk_current_volume tank) (pu_quantity purchase)\<rparr>)"
    using books_ok_rows(1) [OF assms(2) R(1)] le assms(3) by (intro tank_ok_draw) (auto simp: purchase_ok_def)
  moreover have "supplier_ok (supplier\<lparr>su_payable_balance := fsub (su_payable_balance supplier) (pu_total_amount purchase)\<rparr>)"
    using books_ok_rows(3) [OF assms(2) R(2)] le by (intro supplier_ok_balance) auto
  ultimately show ?thesis using assms(2) d' by (auto simp: books_ok_def)
qed

lemma purchase_review_books:
  "reject_purchase e d purchase u reason = Inr (purchase', d') \<Longrightarrow> books_ok d \<Longrightarrow> purchase_ok purchase \<Longrightarrow> books_ok d'"
  "request_purchase_reversal e d purchase u reason = Inr (purchase', d') \<Longrightarrow> books_ok d \<Longrightarrow> purchase_ok purchase \<Longrightarrow> books_ok d'"
  "reject_purchase_reversal e d purchase u reason = Inr (purchase', d') \<Longrightarrow> books_ok d \<Longrightarrow> purchase_ok purchase \<Longrightarrow> books_ok d'"
  unfolding reject_purchase_def request_purchase_reversal_def reject_purchase_reversal_def
  by (clarsimp simp: res_simps Let_def audit_purchase_def comms_updates books_ok_def purchase_ok_def)+

lemma approve_purchase_reversal_books:
  assumes "approve_purchase_reversal e d purchase u reason = Inr (purchase', d')" "books_ok d" "purchase_ok purchase"
  shows "books_ok d'"
  using assms(1)
proof (rule approve_purchase_reversal_Inr)
  fix purchase1 c
  assume "purchase1 = purchase\<lparr>pu_reversal := mark_approved e u (pu_reversal purchase)\<rparr>"
    and R: "reverse_purchase e (d\<lparr>purchases := put_row pu_id purchase1 (purchases d), comms := c\<rparr>) purchase1 u
      = Inr (purchase', d')"
  with assms(2,3) show ?thesis
    by (intro reverse_purchase_books [OF R]) (auto simp: books_ok_def purchase_ok_def)
qed

definition purchase_reversal_state :: "int \<Rightarrow> db \<Rightarrow> reversal option" where
  "purchase_reversal_state i d = map_option pu_reversal (get_row pu_id (purchases d) i)"

interpretation purchase_workflow: reversal_workflow "purchase_route i" "purchase_reversal_state i"
  "\<lambda>u. require_permission u ''purchases'' ''reverse'' [] = ok"
  "\<lambda>u. require_permission u ''purchases'' ''approve_reverse'' [] = ok"
  for i
proof
  fix e d u reason x d' v
  show "\<exists>r. purchase_reversal_state i d = Some r \<and> \<not> is_reversed r
      \<and> require_permission u ''purchases'' ''reverse'' [] = ok
      \<and> (is_admin u \<longrightarrow> purchase_reversal_state i d' = Some (mark_reversed e u r))
      \<and> (\<not> is_admin u \<longrightarrow> request_status r \<noteq> Some ''pending''
           \<and> purchase_reversal_state i d' = Some (mark_requested e u reason r))"
    if "purchase_route i e d (Reverse u reason) = Inr (x, d')"
  proof -
    from that obtain p where S: "get_row pu_id (purchases d) i = Some p"
      "require_permission u ''purchases'' ''reverse'' [] = ok"
      "(if is_admin u then reverse_purchase e d p u else request_purchase_reversal e d p u reason) = Inr (x, d')"
      by (auto simp: route_reverse_purchase_def with_purchase_def res_simps)
    from get_row_Some [OF S(1)] have id: "pu_id p = i" by blast
    show ?thesis
    proof (cases "is_admin u")
      case True
      with S(3) have "reverse_purchase e d p u = Inr (x, d')" by simp
      then show ?thesis
        by (rule reverse_purchase_Inr)
          (use S(1,2) id True in \<open>auto simp: purchase_reversal_state_def get_put_row_same\<close>)
    next
      case False
      with S id show ?thesis
        by (auto simp: request_purchase_reversal_def res_simps Let_def audit_purchase_def comms_updates
            purchase_reversal_state_def get_put_row_same)
    qed
  qed
  show "\<exists>r. purchase_reversal_state i d = Some r \<and> \<not> is_reversed r
      \<and> require_permission u ''purchases'' ''approve_reverse'' [] = ok
      \<and> request_status r \<in> set [Some ''pending'', Some ''approved'']
      \<and> purchase_reversal_state i d' = Some (mark_reversed e u (mark_approved e u r))"
    if "purchase_route i e d (Approve u reason) = Inr (x, d')"
  proof -
    from that obtain p where S: "get_row pu_id (purchases d) i = Some p"
      "require_permission u ''purchases'' ''approve_reverse'' [] = ok"
      "approve_purchase_reversal e d p u reason = Inr (x, d')"
      by (auto simp: route_approve_purchase_reversal_def with_purchase_def res_simps)
    from get_row_Some [OF S(1)] have id: "pu_id p = i" by blast
    from S(3) show ?thesis
      by (elim approve_purchase_reversal_Inr reverse_purchase_Inr)
        (use S(1,2) id in \<open>auto simp: purchase_reversal_state_def get_put_row_same put_row_put_row\<close>)
  qed
  show "\<exists>r. purchase_reversal_state i d = Some r \<and> \<not> is_reversed r
      \<and> request_status r = Some ''pending''
      \<and> purchase_reversal_state i d' = Some (mark_rejected e u reason r)"
    if "purchase_route i e d (Reject u reason) = Inr (x, d')"
  proof -
    from that obtain p where S: "get_row pu_id (purchases d) i = Some p"
      "\<not> is_reversed (pu_reversal p)" "request_status (pu_reversal p) = Some ''pending''"
      "purchases d' = put_row pu_id (p\<lparr>pu_reversal := mark_rejected e u reason (pu_reversal p)\<rparr>) (purchases d)"
      by (auto simp: route_reject_purchase_reversal_def reject_purchase_reversal_def with_purchase_def res_simps Let_def
          audit_purchase_def comms_updates)
    from get_row_Some [OF S(1)] S show ?thesis
      by (simp add: purchase_reversal_state_def get_put_row_same)
  qed
  show "require_permission u ''purchases'' ''reverse'' [] = ok \<Longrightarrow>
      require_permission v ''purchases'' ''approve_reverse'' [] = ok \<Longrightarrow>
      role_of u = role_of v \<Longrightarrow> is_admin v \<or> is_admin u"
    using duties_separated [of "''purchases''" "''reverse''" "''approve_reverse''" u "[]" v "[]"]
    by (auto simp: dual_control_def)
qed

text \<open>
  A purchase changes stock and debt only when it is approved: an administrator's purchase is
  approved at once, fills the tank within its capacity and raises the supplier's balance by its
  amount; anybody else's purchase is pending and leaves every tank and supplier as they were.
\<close>

theorem create_purchase_effect:
  assumes "create_purchase e d data u = Inr (purchase, d')"
  shows "pu_quantity purchase = pd_quantity data \<and> 0 < pu_quantity purchase
    \<and> pu_total_amount purchase = fmul (pd_quantity data) (pd_rate_per_liter data)
    \<and> purchases d' = purchases d @ [purchase] \<and> pu_reversal purchase = no_reversal
    \<and> (if is_admin u
       then pu_status purchase = ''approved'' \<and> (\<exists>tank supplier.
              get_row tk_id (tanks d) (pd_tank_id data) = Some tank
            \<and> get_row tk_id (tanks d') (pd_tank_id data)
                = Some (tank\<lparr>tk_current_volume := fadd (tk_current_volume tank) (pd_quantity data)\<rparr>)
            \<and> fadd (tk_current_volume tank) (pd_quantity data) \<le> tk_capacity tank
            \<and> get_row su_id (suppliers d) (pd_supplier_id data) = Some supplier
            \<and> get_row su_id (suppliers d') (pd_supplier_id data)
                = Some (supplier\<lparr>su_payable_balance := fadd (su_payable_balance supplier) (pu_total_amount purchase)\<rparr>))
       else pu_status purchase = ''pending'' \<and> tanks d' = tanks d \<and> suppliers d' = suppliers d)"
  using assms
proof (rule create_purchase_Inr)
  fix tank supplier tanker c
  assume R: "get_row tk_id (tanks d) (pd_tank_id data) = Some tank"
      "get_row su_id (suppliers d) (pd_supplier_id data) = Some supplier"
    and "0 < pd_quantity data" "0 < pd_rate_per_liter data"
    "fadd (tk_current_volume tank) (pd_quantity data) \<le> tk_capacity tank"
    "purchase = new_purchase e d data u (fmul (pd_quantity data) (pd_rate_per_liter data))"
    "d' = (if is_admin u
       then (apply_purchase_effects purchase tank supplier tanker (d\<lparr>purchases := purchases d @ [purchase]\<rparr>))\<lparr>comms := c\<rparr>
       else d\<lparr>purchases := purchases d @ [purchase], comms := c\<rparr>)"
  with get_row_Some [OF R(1)] get_row_Some [OF R(2)] show ?thesis
    by (auto simp: new_purchase_def apply_purchase_effects_def get_put_row_same)
qed

text \<open>
  C7. Approving a purchase happens once and undoing it is exact: an approved purchase was neither
  approved nor rejected before, no later call approves or rejects it again, and with whole figures
  an administrator's reversal of it right after restores tanks and suppliers to what they were.
\<close>

theorem approve_purchase_once_and_reversible:
  assumes "approve_purchase e d purchase u reason = Inr (purchase', d1)" and "is_admin a"
    and "books_ok d" "purchase_ok purchase" "\<not> is_reversed (pu_reversal purchase)"
    and "keyed tk_id (tanks d)" "keyed su_id (suppliers d)"
    and "get_row tk_id (tanks d) (pu_tank_id purchase) = Some tank" "get_row su_id (suppliers d) (pu_supplier_id purchase) = Some supplier"
    and "whole (tk_current_volume tank)" "whole (pu_quantity purchase)"
    and "whole (su_payable_balance supplier)" "whole (pu_total_amount purchase)"
  shows "pu_status purchase \<notin> set [''approved'', ''rejected''] \<and> pu_status purchase' = ''approved''
    \<and> (\<forall>d2 v why. isl (approve_purchase e d2 purchase' v why) \<and> isl (reject_purchase e d2 purchase' v why))
    \<and> (\<exists>purchase'' d2. reverse_purchase e' d1 purchase' a = Inr (purchase'', d2)
         \<and> tanks d2 = tanks d \<and> suppliers d2 = suppliers d \<and> is_reversed (pu_reversal purchase''))"
  using assms(1)
proof (rule approve_purchase_Inr)
  fix tank' supplier' tanker c
  let ?q = "pu_quantity purchase" and ?t = "pu_total_amount purchase"
  let ?tank = "tank\<lparr>tk_current_volume := fadd (tk_current_volume tank) ?q\<rparr>"
  let ?supplier = "supplier\<lparr>su_payable_balance := fadd (su_payable_balance supplier) ?t\<rparr>"
  assume st: "pu_status purchase \<notin> set [''approved'', ''rejected'']"
    and R: "get_row tk_id (tanks d) (pu_tank_id purchase) = Some tank'"
      "get_row su_id (suppliers d) (pu_supplier_id purchase) = Some supplier'"
    and p: "purchase' = purchase\<lparr>pu_status := ''approved'', pu_approved_by_user_id := Some (u_id u),
       pu_approved_at := Some (now e), pu_rejected_at := None, pu_rejection_reason := None\<rparr>"
    and D: "d1 = (apply_purchase_effects purchase' tank' supplier' tanker
             (d\<lparr>purchases := put_row pu_id purchase' (purchases d)\<rparr>))\<lparr>comms := c\<rparr>"
  from R assms(8,9) have eq: "tank' = tank" "supplier' = supplier" by simp_all
  have ids: "tk_id tank = pu_tank_id purchase" "su_id supplier = pu_supplier_id purchase"
    using get_row_Some [OF assms(8)] get_row_Some [OF assms(9)] by simp_all
  have T: "tanks d1 = put_row tk_id ?tank (tanks d)" "suppliers d1 = put_row su_id ?supplier (suppliers d)"
    by (simp_all add: D eq apply_purchase_effects_def p)
  have G: "get_row tk_id (tanks d1) (pu_tank_id purchase) = Some ?tank"
    "get_row su_id (suppliers d1) (pu_supplier_id purchase) = Some ?supplier"
    using assms(8,9) ids by (simp_all add: T get_put_row_same)
  have "0 \<le> tk_current_volume tank" "0 \<le> su_payable_balance supplier" "0 \<le> ?q" "0 \<le> ?t"
    using books_ok_rows(1) [OF assms(3,8)] books_ok_rows(3) [OF assms(3,9)] assms(4)
    by (simp_all add: tank_ok_def supplier_ok_def purchase_ok_def)
  then have le: "?q \<le> fadd (tk_current_volume tank) ?q" "?t \<le> fadd (su_payable_balance supplier) ?t"
    using assms(10-13) by (simp_all add: whole_fadd)
  have restored: "put_row tk_id (?tank\<lparr>tk_current_volume := fsub (fadd (tk_current_volume tank) ?q) ?q\<rparr>) (tanks d1) = tanks d"
    "put_row su_id (?supplier\<lparr>su_payable_balance := fsub (fadd (su_payable_balance supplier) ?t) ?t\<rparr>) (suppliers d1) = suppliers d"
    using put_row_get [OF assms(6)] put_row_get [OF assms(7)] assms(8-13) ids
    by (simp_all add: T put_row_put_row whole_fadd_fsub)
  have acc: "ensure_purchase_access d1 purchase' a = ok" using assms(2) by (simp add: ensure_purchase_access_def)
  have "isl (approve_purchase e d2 purchase' v why)" "isl (reject_purchase e d2 purchase' v why)" for d2 v why
    by (auto simp: approve_purchase_def reject_purchase_def p check_def split: sum.split)
  moreover have "\<exists>purchase'' d2. reverse_purchase e' d1 purchase' a = Inr (purchase'', d2)
      \<and> tanks d2 = tanks d \<and> suppliers d2 = suppliers d \<and> is_reversed (pu_reversal purchase'')"
    using acc G le restored assms(2,5)
    by (simp add: reverse_purchase_def p Let_def audit_purchase_def comms_updates mark_reversed_def)
  ultimately show ?thesis using st by (simp add: p)
qed

section \<open>Witnesses\<close>

definition sample_purchase_data :: purchase_create where
  "sample_purchase_data = \<lparr>pd_supplier_id = 1, pd_tank_id = 1, pd_fuel_type_id = 1, pd_tanker_id = None,
     pd_quantity = 1000, pd_rate_per_liter = 3, pd_reference_no = None, pd_notes = None\<rparr>"

theorem create_purchase_effect_witness:
  "\<exists>purchase d'. create_purchase sample_env sample_db sample_purchase_data sample_manager = Inr (purchase, d')
    \<and> tanks d' = [sample_tank] \<and> pu_status purchase = ''pending''"
proof -
  have "\<not> isl (create_purchase sample_env sample_db sample_purchase_data sample_manager)" by code_simp
  then obtain purchase d' where P:
    "create_purchase sample_env sample_db sample_purchase_data sample_manager = Inr (purchase, d')"
    by (metis not_isl_pair)
  have "\<not> is_admin sample_manager" by code_simp
  with create_purchase_effect [OF P] P show ?thesis by (simp add: sample_db_def)
qed

definition sample_purchase :: purchase where
  "sample_purchase = new_purchase sample_env sample_db sample_purchase_data sample_manager 3000"

definition sample_pending_db :: db where
  "sample_pending_db = sample_db\<lparr>purchases := [sample_purchase]\<rparr>"

theorem approve_purchase_once_and_reversible_witness:
  "\<exists>p1 d1 p2 d2. approve_purchase sample_env sample_pending_db sample_purchase sample_admin None = Inr (p1, d1)
    \<and> reverse_purchase sample_env d1 p1 sample_admin = Inr (p2, d2) \<and> tanks d2 = [sample_tank]"
proof -
  have "\<not> isl (approve_purchase sample_env sample_pending_db sample_purchase sample_admin None)" by code_simp
  then obtain p1 d1 where P:
    "approve_purchase sample_env sample_pending_db sample_purchase sample_admin None = Inr (p1, d1)"
    by (metis not_isl_pair)
  have "books_ok sample_pending_db" "is_admin sample_admin" by code_simp+
  note H = approve_purchase_once_and_reversible [OF P this(2,1), where tank = sample_tank
      and supplier = sample_supplier and e' = sample_env]
  have "\<exists>purchase'' d2. reverse_purchase sample_env d1 p1 sample_admin = Inr (purchase'', d2)
      \<and> tanks d2 = tanks sample_pending_db"
    using H by (simp add: sample_purchase_def new_purchase_def sample_purchase_data_def purchase_ok_def no_reversal_def
        sample_pending_db_def sample_db_def empty_db_def keyed_def sample_tank_def sample_supplier_def get_row_Cons whole_def)
      blast
  with P show ?thesis by (auto simp: sample_pending_db_def sample_db_def)
qed

end
