(* ===== verification/Tankers.thy ===== *)
theory Tankers
  imports Purchases
begin

text \<open>
  \<open>app/services/tanker_ops.py\<close> and \<open>app/api/tanker.py\<close>: the tanker fleet, its trips with their
  deliveries and expenses, the figures of a trip that are recomputed from them, and completing a
  trip, which either fills a tank of the station and generates an approved purchase or charges the
  customers who bought on credit.
\<close>

section \<open>Request schemas\<close>

record tanker_create =
  nd_registration_no :: string
  nd_name :: string
  nd_capacity :: pyfloat
  nd_ownership_type :: string
  nd_owner_name :: "string option"
  nd_driver_name :: "string option"
  nd_driver_phone :: "string option"
  nd_status :: string
  nd_station_id :: int
  nd_fuel_type_id :: int

record tanker_update =
  nu_name :: "string option patch"
  nu_capacity :: "pyfloat option patch"
  nu_ownership_type :: "string option patch"
  nu_owner_name :: "string option patch"
  nu_driver_name :: "string option patch"
  nu_driver_phone :: "string option patch"
  nu_status :: "string option patch"

record tanker_trip_create =
  rd_tanker_id :: int
  rd_supplier_id :: "int option"
  rd_fuel_type_id :: int
  rd_trip_type :: string
  rd_linked_tank_id :: "int option"
  rd_destination_name :: "string option"
  rd_notes :: "string option"

record tanker_delivery_create =
  vd_customer_id :: "int option"
  vd_destination_name :: "string option"
  vd_quantity :: pyfloat
  vd_fuel_rate :: pyfloat
  vd_delivery_charge :: pyfloat
  vd_sale_type :: string
  vd_paid_amount :: pyfloat

record tanker_trip_expense_create =
  xd_expense_type :: string
  xd_amount :: pyfloat
  xd_notes :: "string option"

section \<open>The figures of a trip\<close>

definition tanker_module :: string where "tanker_module = ''tanker_operations''"

definition trip_deliveries :: "db \<Rightarrow> tanker_trip \<Rightarrow> tanker_delivery list" where
  "trip_deliveries d trip = filter (\<lambda>v. de_trip_id v = tt_id trip) (tanker_deliveries d)"

definition trip_expense_rows :: "db \<Rightarrow> tanker_trip \<Rightarrow> tanker_trip_expense list" where
  "trip_expense_rows d trip = filter (\<lambda>x. te_trip_id x = tt_id trip) (trip_expenses d)"

definition ensure_trip_access :: "db \<Rightarrow> tanker_trip \<Rightarrow> user \<Rightarrow> unit res" where
  "ensure_trip_access d trip u = station_scope d u (tt_station_id trip) ''Not authorized for this trip''"

definition recompute_trip_financials ::
  "tanker_delivery list \<Rightarrow> tanker_trip_expense list \<Rightarrow> tanker_trip \<Rightarrow> tanker_trip" where
  "recompute_trip_financials deliveries costs trip =
     (let total_quantity = fround2 (fsum (map de_quantity deliveries));
          fuel_revenue = fround2 (fsum (map de_fuel_amount deliveries));
          delivery_revenue = fround2 (fsum (map de_delivery_charge deliveries));
          expense_total = fround2 (fsum (map te_amount costs));
          net_profit = (if tt_trip_type trip = ''supplier_to_station'' then fround2 (fsub 0 expense_total)
                        else fround2 (fsub (fadd fuel_revenue delivery_revenue) expense_total));
          total_outstanding = fround2 (fsum (map de_outstanding_amount deliveries));
          total_value = fround2 (fsum (map (\<lambda>v. fadd (de_fuel_amount v) (de_delivery_charge v)) deliveries))
      in trip\<lparr>tt_settlement_status := (if total_outstanding \<le> 0 then ''paid''
                else if total_outstanding < total_value then ''partial'' else ''unpaid''),
              tt_total_quantity := total_quantity, tt_fuel_revenue := fuel_revenue,
              tt_delivery_revenue := delivery_revenue, tt_expense_total := expense_total,
              tt_net_profit := net_profit\<rparr>)"

section \<open>The fleet\<close>

definition create_tanker :: "db \<Rightarrow> tanker_create \<Rightarrow> user \<Rightarrow> (tanker \<times> db) res" where
  "create_tanker d data u =
     check (station_guard u (nd_station_id data) ''Not authorized for this station'')
     (check (require_station_module_enabled d (nd_station_id data) tanker_module)
     (if find (\<lambda>t. tn_registration_no t = nd_registration_no data) (tankers d) \<noteq> None
      then http 400 ''Tanker registration already exists''
      else if get_row st_id (stations d) (nd_station_id data) = None then http 404 ''Station not found''
      else if get_row ft_id (fuel_types d) (nd_fuel_type_id data) = None then http 404 ''Fuel type not found''
      else let t = \<lparr>tn_id = next_id tn_id (tankers d), tn_registration_no = nd_registration_no data,
             tn_name = nd_name data, tn_capacity = nd_capacity data, tn_ownership_type = nd_ownership_type data,
             tn_owner_name = nd_owner_name data, tn_driver_name = nd_driver_name data,
             tn_driver_phone = nd_driver_phone data, tn_status = Some (nd_status data),
             tn_station_id = nd_station_id data, tn_fuel_type_id = nd_fuel_type_id data\<rparr>
           in Inr (t, d\<lparr>tankers := add_row t (tankers d)\<rparr>)))"

definition update_tanker :: "tanker \<Rightarrow> tanker_update \<Rightarrow> db \<Rightarrow> (tanker \<times> db) res" where
  "update_tanker t data d =
     (if is_null (nu_name data) \<or> is_null (nu_capacity data) \<or> is_null (nu_ownership_type data)
      then Inl IntegrityError
      else let t' = t\<lparr>tn_name := assign_value (nu_name data) (tn_name t),
             tn_capacity := assign_value (nu_capacity data) (tn_capacity t),
             tn_ownership_type := assign_value (nu_ownership_type data) (tn_ownership_type t),
             tn_owner_name := assign (nu_owner_name data) (tn_owner_name t),
             tn_driver_name := assign (nu_driver_name data) (tn_driver_name t),
             tn_driver_phone := assign (nu_driver_phone data) (tn_driver_phone t),
             tn_status := assign (nu_status data) (tn_status t)\<rparr>
           in Inr (t', d\<lparr>tankers := put_row tn_id t' (tankers d)\<rparr>))"

definition ensure_tanker_access :: "db \<Rightarrow> tanker \<Rightarrow> user \<Rightarrow> unit res" where
  "ensure_tanker_access d t u = station_scope d u (tn_station_id t) ''Not authorized for this tanker''"

section \<open>Trips\<close>

definition trip_inputs_ok :: "db \<Rightarrow> tanker_trip_create \<Rightarrow> tanker \<Rightarrow> unit res" where
  \<comment> \<open>the checks of \<open>create_trip\<close> on the request\<close>
  "trip_inputs_ok d data t =
     (if rd_trip_type data \<notin> set [''supplier_to_station'', ''supplier_to_customer'']
      then http 400 ''Unsupported trip type''
      else if rd_trip_type data = ''supplier_to_station'' \<and> rd_linked_tank_id data = None
      then http 400 ''supplier_to_station trips require linked_tank_id''
      else if rd_trip_type data = ''supplier_to_customer'' \<and> \<not> truthy (rd_destination_name data)
      then http 400 ''supplier_to_customer trips require destination_name''
      else if (case rd_supplier_id data of None \<Rightarrow> False | Some i \<Rightarrow> get_row su_id (suppliers d) i = None)
      then http 404 ''Supplier not found''
      else case rd_linked_tank_id data of None \<Rightarrow> ok | Some i \<Rightarrow>
        (case get_row tk_id (tanks d) i of None \<Rightarrow> http 404 ''Tank not found'' | Some tank \<Rightarrow>
         if tk_station_id tank \<noteq> tn_station_id t
         then http 400 ''Linked tank must belong to the same station as the tanker''
         else if tk_fuel_type_id tank \<noteq> rd_fuel_type_id data
         then http 400 ''Linked tank fuel type must match trip fuel type''
         else ok))"

definition create_trip :: "env \<Rightarrow> db \<Rightarrow> tanker_trip_create \<Rightarrow> user \<Rightarrow> (tanker_trip \<times> db) res" where
  "create_trip e d data u =
     (case get_row tn_id (tankers d) (rd_tanker_id data) of None \<Rightarrow> http 404 ''Tanker not found'' | Some t \<Rightarrow>
      check (station_guard u (tn_station_id t) ''Not authorized for this tanker'')
      (check (require_station_module_enabled d (tn_station_id t) tanker_module)
      (check (trip_inputs_ok d data t)
      (let trip = \<lparr>tt_id = next_id tt_id (tanker_trips d), tt_tanker_id = tn_id t, tt_station_id = tn_station_id t,
             tt_supplier_id = rd_supplier_id data, tt_fuel_type_id = rd_fuel_type_id data,
             tt_trip_type = rd_trip_type data, tt_status = ''in_progress'', tt_settlement_status = ''unpaid'',
             tt_linked_tank_id = rd_linked_tank_id data, tt_linked_purchase_id = None,
             tt_destination_name = rd_destination_name data, tt_notes = rd_notes data,
             tt_total_quantity = 0, tt_fuel_revenue = 0, tt_delivery_revenue = 0, tt_expense_total = 0,
             tt_net_profit = 0, tt_created_at = now e, tt_completed_at = None\<rparr>
       in Inr (trip, audit e u ''tankers'' ''tankers.trip_create'' ''tanker_trip'' (Some (tt_id trip)) (Some (tt_station_id trip))
            [(''trip_type'', JStr (tt_trip_type trip)), (''destination_name'', jopt (tt_destination_name trip))]
            (d\<lparr>tanker_trips := add_row trip (tanker_trips d)\<rparr>))))))"

definition new_delivery :: "env \<Rightarrow> db \<Rightarrow> tanker_trip \<Rightarrow> tanker_delivery_create \<Rightarrow> pyfloat \<Rightarrow> tanker_delivery" where
  "new_delivery e d trip data total_value =
     \<lparr>de_id = next_id de_id (tanker_deliveries d), de_trip_id = tt_id trip, de_customer_id = vd_customer_id data,
      de_destination_name = (if truthy (vd_destination_name data) then vd_destination_name data
                             else tt_destination_name trip),
      de_quantity = vd_quantity data, de_fuel_rate = vd_fuel_rate data,
      de_fuel_amount = fround2 (fmul (vd_quantity data) (vd_fuel_rate data)),
      de_delivery_charge = vd_delivery_charge data, de_sale_type = vd_sale_type data,
      de_paid_amount = vd_paid_amount data,
      de_outstanding_amount = fround2 (fsub total_value (vd_paid_amount data)), de_created_at = now e\<rparr>"

definition delivery_customer :: "db \<Rightarrow> tanker_trip \<Rightarrow> tanker_delivery_create \<Rightarrow> customer option res" where
  "delivery_customer d trip data =
     (case vd_customer_id data of None \<Rightarrow> Inr None | Some i \<Rightarrow>
      case get_row cu_id (customers d) i of None \<Rightarrow> http 404 ''Customer not found'' | Some c \<Rightarrow>
      if cu_station_id c \<noteq> tt_station_id trip then http 400 ''Customer must belong to the trip station''
      else Inr (Some c))"

definition add_trip_delivery ::
  "env \<Rightarrow> db \<Rightarrow> tanker_trip \<Rightarrow> tanker_delivery_create \<Rightarrow> user \<Rightarrow> (tanker_trip \<times> db) res" where
  "add_trip_delivery e d trip data u =
     check (ensure_trip_access d trip u)
     (check (require_station_module_enabled d (tt_station_id trip) tanker_module)
     (if tt_status trip \<noteq> ''in_progress'' then http 400 ''Deliveries can only be added to in-progress trips''
      else if vd_quantity data \<le> 0 \<or> vd_fuel_rate data \<le> 0
      then http 400 ''Quantity and fuel rate must be greater than 0''
      else if vd_delivery_charge data < 0 then http 400 ''Delivery charge cannot be negative''
      else if vd_sale_type data \<notin> set [''cash'', ''credit''] then http 400 ''sale_type must be cash or credit''
      else case delivery_customer d trip data of Inl x \<Rightarrow> Inl x | Inr customer \<Rightarrow>
      let total_value = fround2 (fadd (fmul (vd_quantity data) (vd_fuel_rate data)) (vd_delivery_charge data)) in
      if vd_paid_amount data < 0 \<or> vd_paid_amount data > total_value then http 400 ''paid_amount is invalid''
      else if vd_sale_type data = ''credit'' \<and> customer = None
      then http 400 ''Credit tanker delivery requires customer_id''
      else let v = new_delivery e d trip data total_value;
               d1 = d\<lparr>tanker_deliveries := add_row v (tanker_deliveries d)\<rparr>;
               trip' = recompute_trip_financials (trip_deliveries d1 trip) (trip_expense_rows d1 trip) trip
           in Inr (trip', audit e u ''tankers'' ''tankers.delivery_create'' ''tanker_delivery''
                (Some (de_id v)) (Some (tt_station_id trip))
                [(''quantity'', JFloat (de_quantity v)), (''fuel_amount'', JFloat (de_fuel_amount v)),
                 (''delivery_charge'', JFloat (de_delivery_charge v))]
                (d1\<lparr>tanker_trips := put_row tt_id trip' (tanker_trips d1)\<rparr>))))"

definition add_trip_expense ::
  "env \<Rightarrow> db \<Rightarrow> tanker_trip \<Rightarrow> tanker_trip_expense_create \<Rightarrow> user \<Rightarrow> (tanker_trip \<times> db) res" where
  "add_trip_expense e d trip data u =
     check (ensure_trip_access d trip u)
     (check (require_station_module_enabled d (tt_station_id trip) tanker_module)
     (if xd_amount data \<le> 0 then http 400 ''Expense amount must be greater than 0''
      else let x = \<lparr>te_id = next_id te_id (trip_expenses d), te_trip_id = tt_id trip,
             te_expense_type = xd_expense_type data, te_amount = xd_amount data, te_notes = xd_notes data,
             te_created_at = now e\<rparr>;
               d1 = d\<lparr>trip_expenses := add_row x (trip_expenses d)\<rparr>;
               trip' = recompute_trip_financials (trip_deliveries d1 trip) (trip_expense_rows d1 trip) trip
           in Inr (trip', audit e u ''tankers'' ''tankers.expense_create'' ''tanker_trip_expense''
                (Some (te_id x)) (Some (tt_station_id trip))
                [(''expense_type'', JStr (te_expense_type x)), (''amount'', JFloat (te_amount x))]
                (d1\<lparr>tanker_trips := put_row tt_id trip' (tanker_trips d1)\<rparr>))))"

section \<open>Completing a trip\<close>

definition credit_customer :: "customer list \<Rightarrow> tanker_delivery \<Rightarrow> customer option" where
  \<comment> \<open>the customer a delivery is charged to\<close>
  "credit_customer cs v =
     (if de_sale_type v = ''credit'' then Option.bind (de_customer_id v) (get_row cu_id cs) else None)"

fun charge_deliveries :: "tanker_delivery list \<Rightarrow> customer list \<Rightarrow> customer list" where
  "charge_deliveries [] cs = cs"
| "charge_deliveries (v # vs) cs =
     charge_deliveries vs
       (case credit_customer cs v of
          None \<Rightarrow> cs
        | Some c \<Rightarrow> put_row cu_id
            (c\<lparr>cu_outstanding_balance := fadd (cu_outstanding_balance c) (de_outstanding_amount v)\<rparr>) cs)"

definition trip_purchase :: "env \<Rightarrow> db \<Rightarrow> tanker_trip \<Rightarrow> tank \<Rightarrow> supplier \<Rightarrow> user \<Rightarrow> purchase" where
  "trip_purchase e d trip tank supplier u =
     \<lparr>pu_id = next_id pu_id (purchases d), pu_supplier_id = su_id supplier, pu_tank_id = tk_id tank,
      pu_fuel_type_id = tt_fuel_type_id trip, pu_tanker_id = Some (tt_tanker_id trip),
      pu_quantity = tt_total_quantity trip,
      pu_rate_per_liter = (if tt_total_quantity trip \<noteq> 0 then fdiv (tt_fuel_revenue trip) (tt_total_quantity trip) else 0),
      pu_total_amount = tt_fuel_revenue trip, pu_reference_no = Some [T ''TANKER-TRIP-'', I (tt_id trip)],
      pu_notes = Some [T ''Generated from tanker trip '', I (tt_id trip)], pu_status = ''approved'',
      pu_submitted_by_user_id = Some (u_id u), pu_approved_by_user_id = Some (u_id u), pu_approved_at = Some (now e),
      pu_rejected_at = None, pu_rejection_reason = None, pu_reversal = no_reversal, pu_created_at = now e\<rparr>"

definition settle_trip :: "env \<Rightarrow> db \<Rightarrow> tanker_trip \<Rightarrow> user \<Rightarrow> (tanker_trip \<times> db) res" where
  \<comment> \<open>the two branches of \<open>complete_trip\<close> on the trip type\<close>
  "settle_trip e d trip u =
     (if tt_trip_type trip = ''supplier_to_station'' then
        (case (Option.bind (tt_linked_tank_id trip) (get_row tk_id (tanks d)),
               if tt_supplier_id trip \<notin> set [None, Some 0] then Option.bind (tt_supplier_id trip) (get_row su_id (suppliers d))
               else None) of
           (Some tank, Some supplier) \<Rightarrow>
             if fadd (tk_current_volume tank) (tt_total_quantity trip) > tk_capacity tank
             then http 400 ''Completing this trip would exceed storage tank capacity''
             else let p = trip_purchase e d trip tank supplier u in
               Inr (trip\<lparr>tt_linked_purchase_id := Some (pu_id p)\<rparr>,
                 d\<lparr>tanks := put_row tk_id
                      (tank\<lparr>tk_current_volume := fadd (tk_current_volume tank) (tt_total_quantity trip)\<rparr>) (tanks d),
                   suppliers := put_row su_id
                      (supplier\<lparr>su_payable_balance := fadd (su_payable_balance supplier) (pu_total_amount p)\<rparr>) (suppliers d),
                   purchases := add_row p (purchases d)\<rparr>)
         | _ \<Rightarrow> http 400 ''Supplier-to-station trips require linked tank and supplier'')
      else Inr (trip, d\<lparr>customers := charge_deliveries (trip_deliveries d trip) (customers d)\<rparr>))"

definition complete_trip :: "env \<Rightarrow> db \<Rightarrow> tanker_trip \<Rightarrow> user \<Rightarrow> (tanker_trip \<times> db) res" where
  "complete_trip e d trip u =
     check (ensure_trip_access d trip u)
     (check (require_station_module_enabled d (tt_station_id trip) tanker_module)
     (if tt_status trip = ''completed'' then http 400 ''Trip is already completed''
      else if trip_deliveries d trip = [] then http 400 ''Trip must have at least one delivery before completion''
      else case settle_trip e d (recompute_trip_financials (trip_deliveries d trip) (trip_expense_rows d trip) trip) u of
        Inl x \<Rightarrow> Inl x
      | Inr (trip1, d1) \<Rightarrow>
        let trip2 = trip1\<lparr>tt_status := ''completed'', tt_completed_at := Some (now e)\<rparr> in
        Inr (trip2, audit e u ''tankers'' ''tankers.trip_complete'' ''tanker_trip'' (Some (tt_id trip2)) (Some (tt_station_id trip2))
          [(''trip_type'', JStr (tt_trip_type trip2)), (''net_profit'', JFloat (tt_net_profit trip2)),
           (''linked_purchase_id'', jint (tt_linked_purchase_id trip2))]
          (d1\<lparr>tanker_trips := put_row tt_id trip2 (tanker_trips d1)\<rparr>))))"

section \<open>The routes\<close>

definition with_trip :: "db \<Rightarrow> int \<Rightarrow> (tanker_trip \<Rightarrow> 'a res) \<Rightarrow> 'a res" where
  "with_trip d i k = (case get_row tt_id (tanker_trips d) i of None \<Rightarrow> http 404 ''Tanker trip not found'' | Some t \<Rightarrow> k t)"

definition with_tanker :: "db \<Rightarrow> int \<Rightarrow> (tanker \<Rightarrow> 'a res) \<Rightarrow> 'a res" where
  "with_tanker d i k = (case get_row tn_id (tankers d) i of None \<Rightarrow> http 404 ''Tanker not found'' | Some t \<Rightarrow> k t)"

definition create_trip_route :: "env \<Rightarrow> db \<Rightarrow> tanker_trip_create \<Rightarrow> user \<Rightarrow> (tanker_trip \<times> db) res" where
  "create_trip_route e d data u =
     check (require_permission u ''tankers'' ''trip_create'' ''You do not have permission to create tanker trips'')
     (create_trip e d data u)"

definition list_trips ::
  "db \<Rightarrow> user \<Rightarrow> int option \<Rightarrow> string option \<Rightarrow> string option \<Rightarrow> nat \<Rightarrow> nat \<Rightarrow> tanker_trip list res" where
  "list_trips d u station_id trip_type status skip limit =
     check (require_permission u ''tankers'' ''read'' ''You do not have permission to view tanker trips'')
     (let head_office = \<not> is_admin u \<and> role_of u = ''HeadOffice'';
          station_id = (if is_admin u \<or> head_office then station_id else u_station_id u)
      in Inr (page skip limit (filter (\<lambda>t.
           (head_office \<longrightarrow> (case get_row st_id (stations d) (tt_station_id t) of None \<Rightarrow> False
               | Some s \<Rightarrow> st_organization_id s = station_organization d u))
           \<and> (station_id \<in> set [None, Some 0] \<or> station_id = Some (tt_station_id t))
           \<and> (truthy trip_type \<longrightarrow> trip_type = Some (tt_trip_type t))
           \<and> (truthy status \<longrightarrow> status = Some (tt_status t))) (tanker_trips d))))"

definition get_trip :: "db \<Rightarrow> int \<Rightarrow> user \<Rightarrow> tanker_trip res" where
  "get_trip d i u =
     check (require_permission u ''tankers'' ''read'' ''You do not have permission to view tanker trips'')
     (with_trip d i (\<lambda>trip. check (ensure_trip_access d trip u)
       (check (require_station_module_enabled d (tt_station_id trip) tanker_module) (Inr trip))))"

definition add_delivery :: "env \<Rightarrow> db \<Rightarrow> int \<Rightarrow> tanker_delivery_create \<Rightarrow> user \<Rightarrow> (tanker_trip \<times> db) res" where
  "add_delivery e d i data u =
     check (require_permission u ''tankers'' ''delivery_create'' ''You do not have permission to add tanker deliveries'')
     (with_trip d i (\<lambda>trip. add_trip_delivery e d trip data u))"

definition add_expense :: "env \<Rightarrow> db \<Rightarrow> int \<Rightarrow> tanker_trip_expense_create \<Rightarrow> user \<Rightarrow> (tanker_trip \<times> db) res" where
  "add_expense e d i data u =
     check (require_permission u ''tankers'' ''expense_create'' ''You do not have permission to add tanker trip expenses'')
     (with_trip d i (\<lambda>trip. add_trip_expense e d trip data u))"

definition complete_trip_route :: "env \<Rightarrow> db \<Rightarrow> int \<Rightarrow> user \<Rightarrow> (tanker_trip \<times> db) res" where
  "complete_trip_route e d i u =
     check (require_permission u ''tankers'' ''complete'' ''You do not have permission to complete tanker trips'')
     (with_trip d i (\<lambda>trip. complete_trip e d trip u))"

definition create_tanker_route :: "db \<Rightarrow> tanker_create \<Rightarrow> user \<Rightarrow> (tanker \<times> db) res" where
  "create_tanker_route d data u =
     check (require_permission u ''tankers'' ''create'' ''You do not have permission to create tankers'')
     (create_tanker d data u)"

definition list_tankers :: "db \<Rightarrow> user \<Rightarrow> int option \<Rightarrow> string option \<Rightarrow> nat \<Rightarrow> nat \<Rightarrow> tanker list res" where
  "list_tankers d u station_id status skip limit =
     check (require_permission u ''tankers'' ''read'' ''You do not have permission to view tankers'')
     (let head_office = \<not> is_admin u \<and> role_of u = ''HeadOffice'';
          station_id = (if is_admin u \<or> head_office then station_id else u_station_id u)
      in Inr (page skip limit (filter (\<lambda>t.
           (head_office \<longrightarrow> (case get_row st_id (stations d) (tn_station_id t) of None \<Rightarrow> False
               | Some s \<Rightarrow> st_organization_id s = station_organization d u))
           \<and> (station_id \<in> set [None, Some 0] \<or> station_id = Some (tn_station_id t))
           \<and> (truthy status \<longrightarrow> status = tn_status t)) (tankers d))))"

definition get_tanker :: "db \<Rightarrow> int \<Rightarrow> user \<Rightarrow> tanker res" where
  "get_tanker d i u =
     check (require_permission u ''tankers'' ''read'' ''You do not have permission to view tankers'')
     (with_tanker d i (\<lambda>t. check (ensure_tanker_access d t u)
       (check (require_station_module_enabled d (tn_station_id t) tanker_module) (Inr t))))"

definition update_tanker_route :: "db \<Rightarrow> int \<Rightarrow> tanker_update \<Rightarrow> user \<Rightarrow> (tanker \<times> db) res" where
  "update_tanker_route d i data u =
     check (require_permission u ''tankers'' ''update'' ''You do not have permission to update tankers'')
     (with_tanker d i (\<lambda>t. check (ensure_tanker_access d t u)
       (check (require_station_module_enabled d (tn_station_id t) tanker_module) (update_tanker t data d))))"

definition delete_tanker :: "db \<Rightarrow> int \<Rightarrow> user \<Rightarrow> db res" where
  "delete_tanker d i u =
     check (require_permission u ''tankers'' ''delete'' ''You do not have permission to delete tankers'')
     (with_tanker d i (\<lambda>t. check (ensure_tanker_access d t u)
       (check (require_station_module_enabled d (tn_station_id t) tanker_module)
       (if find (\<lambda>r. tt_tanker_id r = tn_id t) (tanker_trips d) \<noteq> None
        then http 400 ''Tanker cannot be deleted while trip history exists''
        else Inr (d\<lparr>tankers := del_row tn_id (tn_id t) (tankers d)\<rparr>)))))"

section \<open>The figures stay current\<close>

definition trip_current :: "db \<Rightarrow> tanker_trip \<Rightarrow> bool" where
  \<comment> \<open>the stored figures are those of the deliveries and expenses on file, or nothing is on file yet\<close>
  "trip_current d trip \<longleftrightarrow>
     recompute_trip_financials (trip_deliveries d trip) (trip_expense_rows d trip) trip = trip
     \<or> trip_deliveries d trip = [] \<and> trip_expense_rows d trip = []"

definition trips_current :: "db \<Rightarrow> bool" where
  "trips_current d \<longleftrightarrow> list_all (trip_current d) (tanker_trips d)"

definition trip_rows_known :: "db \<Rightarrow> bool" where
  \<comment> \<open>deliveries and expenses belong to trips that exist (the foreign keys)\<close>
  "trip_rows_known d \<longleftrightarrow> de_trip_id ` set (tanker_deliveries d) \<union> te_trip_id ` set (trip_expenses d)
     \<subseteq> tt_id ` set (tanker_trips d)"

lemma key_set_put_row [simp]: "key ` set (put_row key r t) = key ` set t"
  by (metis map_key_put_row set_map)

lemma recompute_keeps [simp]:
  "tt_id (recompute_trip_financials vs xs trip) = tt_id trip"
  "tt_trip_type (recompute_trip_financials vs xs trip) = tt_trip_type trip"
  "tt_station_id (recompute_trip_financials vs xs trip) = tt_station_id trip"
  "tt_status (recompute_trip_financials vs xs trip) = tt_status trip"
  "tt_linked_tank_id (recompute_trip_financials vs xs trip) = tt_linked_tank_id trip"
  "tt_supplier_id (recompute_trip_financials vs xs trip) = tt_supplier_id trip"
  by (simp_all add: recompute_trip_financials_def Let_def)

lemma recompute_recompute [simp]:
  "recompute_trip_financials vs xs (recompute_trip_financials vs' xs' trip) = recompute_trip_financials vs xs trip"
  by (simp add: recompute_trip_financials_def Let_def)

lemma recompute_total_quantity [simp]:
  "tt_total_quantity (recompute_trip_financials vs xs trip) = fround2 (fsum (map de_quantity vs))"
  "tt_fuel_revenue (recompute_trip_financials vs xs trip) = fround2 (fsum (map de_fuel_amount vs))"
  by (simp_all add: recompute_trip_financials_def Let_def)

lemma recompute_marks:
  "recompute_trip_financials vs xs (trip\<lparr>tt_linked_purchase_id := p\<rparr>)
     = (recompute_trip_financials vs xs trip)\<lparr>tt_linked_purchase_id := p\<rparr>"
  "recompute_trip_financials vs xs (trip\<lparr>tt_status := s, tt_completed_at := t\<rparr>)
     = (recompute_trip_financials vs xs trip)\<lparr>tt_status := s, tt_completed_at := t\<rparr>"
  by (simp_all add: recompute_trip_financials_def Let_def)

lemma trip_rows_cong:
  "tt_id t' = tt_id t \<Longrightarrow> tanker_deliveries d' = tanker_deliveries d \<Longrightarrow> trip_deliveries d' t' = trip_deliveries d t"
  "tt_id t' = tt_id t \<Longrightarrow> trip_expenses d' = trip_expenses d \<Longrightarrow> trip_expense_rows d' t' = trip_expense_rows d t"
  by (simp_all add: trip_deliveries_def trip_expense_rows_def)

lemma trip_rows_add [simp]:
  "trip_deliveries (d\<lparr>tanker_deliveries := tanker_deliveries d @ [v]\<rparr>) t
     = (if de_trip_id v = tt_id t then trip_deliveries d t @ [v] else trip_deliveries d t)"
  "trip_expense_rows (d\<lparr>trip_expenses := trip_expenses d @ [x]\<rparr>) t
     = (if te_trip_id x = tt_id t then trip_expense_rows d t @ [x] else trip_expense_rows d t)"
  "trip_deliveries (d\<lparr>trip_expenses := xs\<rparr>) t = trip_deliveries d t"
  "trip_expense_rows (d\<lparr>tanker_deliveries := vs\<rparr>) t = trip_expense_rows d t"
  by (simp_all add: trip_deliveries_def trip_expense_rows_def)

lemma new_delivery_trip [simp]: "de_trip_id (new_delivery e d trip data x) = tt_id trip"
  by (simp add: new_delivery_def)

lemma trip_current_cong:
  "trip_deliveries d' t = trip_deliveries d t \<Longrightarrow> trip_expense_rows d' t = trip_expense_rows d t
    \<Longrightarrow> trip_current d' t = trip_current d t"
  by (simp add: trip_current_def)

text \<open>Storing a current trip, with changes to the rows of that trip only, keeps every trip current.\<close>

lemma trips_current_put:
  assumes "trips_current d" "trip_current d' trip"
    and "tanker_trips d' = put_row tt_id trip (tanker_trips d)"
    and "\<And>t. tt_id t \<noteq> tt_id trip \<Longrightarrow> trip_deliveries d' t = trip_deliveries d t \<and> trip_expense_rows d' t = trip_expense_rows d t"
  shows "trips_current d'"
  unfolding trips_current_def list_all_iff
proof
  fix t assume "t \<in> set (tanker_trips d')"
  then have "t = trip \<or> (t \<in> set (tanker_trips d) \<and> tt_id t \<noteq> tt_id trip)"
    by (auto simp: assms(3) put_row_def)
  then show "trip_current d' t"
    using assms(1,2) trip_current_cong [of d' t d] assms(4) [of t] by (auto simp: trips_current_def list_all_iff)
qed

lemma add_trip_delivery_Inr:
  assumes "add_trip_delivery e d trip data u = Inr (trip', d')"
  obtains v c where "tt_status trip = ''in_progress''" "0 < vd_quantity data" "0 < vd_fuel_rate data" "0 \<le> vd_delivery_charge data"
    "0 \<le> vd_paid_amount data"
    "vd_paid_amount data \<le> fround2 (fadd (fmul (vd_quantity data) (vd_fuel_rate data)) (vd_delivery_charge data))"
    "v = new_delivery e d trip data (fround2 (fadd (fmul (vd_quantity data) (vd_fuel_rate data)) (vd_delivery_charge data)))"
    "trip' = recompute_trip_financials (trip_deliveries d trip @ [v]) (trip_expense_rows d trip) trip"
    "d' = d\<lparr>tanker_deliveries := tanker_deliveries d @ [v], tanker_trips := put_row tt_id trip' (tanker_trips d), comms := c\<rparr>"
proof -
  let ?t = "fround2 (fadd (fmul (vd_quantity data) (vd_fuel_rate data)) (vd_delivery_charge data))"
  let ?v = "new_delivery e d trip data ?t"
  let ?trip = "recompute_trip_financials (trip_deliveries d trip @ [?v]) (trip_expense_rows d trip) trip"
  from assms have "tt_status trip = ''in_progress''" "0 < vd_quantity data" "0 < vd_fuel_rate data" "0 \<le> vd_delivery_charge data"
    "0 \<le> vd_paid_amount data" "vd_paid_amount data \<le> ?t" "trip' = ?trip"
    by (auto simp: add_trip_delivery_def res_simps Let_def add_row_def not_le not_less)
  moreover from assms have "\<exists>c. d' = d\<lparr>tanker_deliveries := tanker_deliveries d @ [?v], tanker_trips := put_row tt_id ?trip (tanker_trips d), comms := c\<rparr>"
    by (auto simp: add_trip_delivery_def res_simps Let_def add_row_def audit_def)
  ultimately show thesis using that by blast
qed

lemma add_trip_expense_Inr:
  assumes "add_trip_expense e d trip data u = Inr (trip', d')"
  obtains x c where "0 < xd_amount data" "te_trip_id x = tt_id trip"
    "trip' = recompute_trip_financials (trip_deliveries d trip) (trip_expense_rows d trip @ [x]) trip"
    "d' = d\<lparr>trip_expenses := trip_expenses d @ [x], tanker_trips := put_row tt_id trip' (tanker_trips d), comms := c\<rparr>"
proof -
  let ?x = "\<lparr>te_id = next_id te_id (trip_expenses d), te_trip_id = tt_id trip, te_expense_type = xd_expense_type data,
    te_amount = xd_amount data, te_notes = xd_notes data, te_created_at = now e\<rparr>"
  let ?trip = "recompute_trip_financials (trip_deliveries d trip) (trip_expense_rows d trip @ [?x]) trip"
  from assms have "0 < xd_amount data" "trip' = ?trip" "te_trip_id ?x = tt_id trip"
    by (auto simp: add_trip_expense_def res_simps Let_def add_row_def not_le)
  moreover from assms have "\<exists>c. d' = d\<lparr>trip_expenses := trip_expenses d @ [?x], tanker_trips := put_row tt_id ?trip (tanker_trips d), comms := c\<rparr>"
    by (auto simp: add_trip_expense_def res_simps Let_def add_row_def audit_def)
  ultimately show thesis using that by blast
qed

lemma settle_trip_Inr:
  assumes "settle_trip e d trip u = Inr (trip', d')"
  obtains (storage) tank supplier where "tt_trip_type trip = ''supplier_to_station''"
    "Option.bind (tt_linked_tank_id trip) (get_row tk_id (tanks d)) = Some tank"
    "Option.bind (tt_supplier_id trip) (get_row su_id (suppliers d)) = Some supplier"
    "fadd (tk_current_volume tank) (tt_total_quantity trip) \<le> tk_capacity tank"
    "trip' = trip\<lparr>tt_linked_purchase_id := Some (next_id pu_id (purchases d))\<rparr>"
    "d' = d\<lparr>tanks := put_row tk_id
                (tank\<lparr>tk_current_volume := fadd (tk_current_volume tank) (tt_total_quantity trip)\<rparr>) (tanks d),
            suppliers := put_row su_id
                (supplier\<lparr>su_payable_balance := fadd (su_payable_balance supplier) (tt_fuel_revenue trip)\<rparr>) (suppliers d),
            purchases := purchases d @ [trip_purchase e d trip tank supplier u]\<rparr>"
  | (customers) "tt_trip_type trip \<noteq> ''supplier_to_station''" "trip' = trip"
    "d' = d\<lparr>customers := charge_deliveries (trip_deliveries d trip) (customers d)\<rparr>"
proof (cases "tt_trip_type trip = ''supplier_to_station''")
  case True
  with assms obtain tank supplier where R:
    "Option.bind (tt_linked_tank_id trip) (get_row tk_id (tanks d)) = Some tank"
    "Option.bind (tt_supplier_id trip) (get_row su_id (suppliers d)) = Some supplier"
    "tt_supplier_id trip \<notin> set [None, Some 0]"
    by (auto simp: settle_trip_def split: option.splits if_splits)
  from True assms R show thesis
    by (intro storage) (auto simp: settle_trip_def res_simps Let_def add_row_def trip_purchase_def not_less)
next
  case False
  with assms show thesis by (intro customers) (auto simp: settle_trip_def)
qed

lemma complete_trip_Inr:
  assumes "complete_trip e d trip u = Inr (trip', d')"
  obtains trip1 d1 c where "tt_status trip \<noteq> ''completed''" "trip_deliveries d trip \<noteq> []"
    "settle_trip e d (recompute_trip_financials (trip_deliveries d trip) (trip_expense_rows d trip) trip) u = Inr (trip1, d1)"
    "trip' = trip1\<lparr>tt_status := ''completed'', tt_completed_at := Some (now e)\<rparr>"
    "d' = d1\<lparr>tanker_trips := put_row tt_id trip' (tanker_trips d1), comms := c\<rparr>"
  using assms by (auto simp: complete_trip_def res_simps Let_def audit_def)


lemma complete_trip_tables:
  assumes "complete_trip e d trip u = Inr (trip', d')"
  shows "tanker_deliveries d' = tanker_deliveries d" "trip_expenses d' = trip_expenses d"
    "tanker_trips d' = put_row tt_id trip' (tanker_trips d)" "tt_id trip' = tt_id trip"
    "recompute_trip_financials (trip_deliveries d trip) (trip_expense_rows d trip) trip' = trip'"
    "tt_status trip' = ''completed''"
  using assms
  by (auto elim!: complete_trip_Inr settle_trip_Inr simp: recompute_marks)

lemma create_trip_tables:
  assumes "create_trip e d data u = Inr (trip', d')"
  shows "tanker_deliveries d' = tanker_deliveries d" "trip_expenses d' = trip_expenses d"
    "tanker_trips d' = tanker_trips d @ [trip']" "tt_id trip' = next_id tt_id (tanker_trips d)"
    "\<exists>c. d' = d\<lparr>tanker_trips := tanker_trips d @ [trip'], comms := c\<rparr>"
  using assms by (auto simp: create_trip_def res_simps Let_def audit_def add_row_def)

text \<open>Every operation on trips keeps the figures of every trip current.\<close>

lemma create_trip_current:
  assumes "create_trip e d data u = Inr (trip', d')" "trips_current d" "trip_rows_known d"
  shows "trips_current d' \<and> trip_rows_known d'"
proof -
  note T = create_trip_tables [OF assms(1)]
  have "tt_id trip' \<notin> tt_id ` set (tanker_trips d)" by (simp add: T(4) next_id_fresh)
  with assms(3) have "\<forall>v \<in> set (tanker_deliveries d). de_trip_id v \<noteq> tt_id trip'" "\<forall>x \<in> set (trip_expenses d). te_trip_id x \<noteq> tt_id trip'"
    unfolding trip_rows_known_def by (metis Un_subset_iff image_subset_iff)+
  then have "trip_deliveries d trip' = []" "trip_expense_rows d trip' = []"
    by (simp_all add: trip_deliveries_def trip_expense_rows_def)
  then have "trip_current d trip'" by (simp add: trip_current_def)
  moreover have "trip_current d' = trip_current d"
    using T(1,2) trip_rows_cong [of _ _ d' d] by (intro ext trip_current_cong) auto
  ultimately show ?thesis using assms(2,3) T(1-3) by (auto simp: trips_current_def trip_rows_known_def)
qed

lemma add_trip_delivery_current:
  assumes "add_trip_delivery e d trip data u = Inr (trip', d')" "trips_current d" "trip_rows_known d"
    and "tt_id trip \<in> tt_id ` set (tanker_trips d)"
  shows "trips_current d' \<and> trip_rows_known d'"
  using assms(1)
proof (rule add_trip_delivery_Inr)
  fix v c
  assume *: "trip' = recompute_trip_financials (trip_deliveries d trip @ [v]) (trip_expense_rows d trip) trip"
    "d' = d\<lparr>tanker_deliveries := tanker_deliveries d @ [v], tanker_trips := put_row tt_id trip' (tanker_trips d), comms := c\<rparr>"
    "v = new_delivery e d trip data (fround2 (fadd (fmul (vd_quantity data) (vd_fuel_rate data)) (vd_delivery_charge data)))"
  then have "trips_current d'"
    by (intro trips_current_put [OF assms(2), of d' trip'])
      (auto simp: trip_current_def trip_deliveries_def trip_expense_rows_def)
  with * assms(3,4) show ?thesis by (simp add: trip_rows_known_def)
qed

lemma add_trip_expense_current:
  assumes "add_trip_expense e d trip data u = Inr (trip', d')" "trips_current d" "trip_rows_known d"
    and "tt_id trip \<in> tt_id ` set (tanker_trips d)"
  shows "trips_current d' \<and> trip_rows_known d'"
  using assms(1)
proof (rule add_trip_expense_Inr)
  fix x c
  assume *: "te_trip_id x = tt_id trip"
    "trip' = recompute_trip_financials (trip_deliveries d trip) (trip_expense_rows d trip @ [x]) trip"
    "d' = d\<lparr>trip_expenses := trip_expenses d @ [x], tanker_trips := put_row tt_id trip' (tanker_trips d), comms := c\<rparr>"
  then have "trips_current d'"
    by (intro trips_current_put [OF assms(2), of d' trip'])
      (auto simp: trip_current_def trip_deliveries_def trip_expense_rows_def)
  with * assms(3,4) show ?thesis by (simp add: trip_rows_known_def)
qed

lemma complete_trip_current:
  assumes "complete_trip e d trip u = Inr (trip', d')" "trips_current d" "trip_rows_known d"
  shows "trips_current d' \<and> trip_rows_known d'"
proof
  note T = complete_trip_tables [OF assms(1)]
  show "trips_current d'"
  proof (rule trips_current_put [OF assms(2) _ T(3)])
    show "trip_current d' trip'"
      using T(5) trip_rows_cong(1) [OF T(4,1)] trip_rows_cong(2) [OF T(4,2)] by (simp add: trip_current_def)
    show "trip_deliveries d' t = trip_deliveries d t \<and> trip_expense_rows d' t = trip_expense_rows d t" for t
      using T(1,2) trip_rows_cong [of t t d' d] by simp
  qed
  show "trip_rows_known d'" using assms(3) T(1-3) by (simp add: trip_rows_known_def)
qed

section \<open>What completing a trip does\<close>

definition charged_to :: "int \<Rightarrow> tanker_delivery list \<Rightarrow> pyfloat list" where
  \<comment> \<open>the amounts a list of deliveries leaves owing by a customer\<close>
  "charged_to i vs = map de_outstanding_amount
     (filter (\<lambda>v. de_sale_type v = ''credit'' \<and> de_customer_id v = Some i) vs)"

lemma charge_deliveries_balance:
  "get_row cu_id (charge_deliveries vs cs) i = map_option
     (\<lambda>c. c\<lparr>cu_outstanding_balance := foldl fadd (cu_outstanding_balance c) (charged_to i vs)\<rparr>) (get_row cu_id cs i)"
proof (induction vs cs rule: charge_deliveries.induct)
  case (1 cs)
  then show ?case by (simp add: charged_to_def option.map_ident)
next
  case (2 v vs cs)
  show ?case
  proof (cases "credit_customer cs v")
    case None
    then show ?thesis using 2
      by (cases "get_row cu_id cs i") (auto simp: charged_to_def credit_customer_def split: if_splits)
  next
    case (Some c)
    then have "de_sale_type v = ''credit''" "de_customer_id v = Some (cu_id c)" "get_row cu_id cs (cu_id c) = Some c"
      by (auto simp: credit_customer_def bind_eq_Some_conv split: if_splits dest: get_row_Some)
    with 2 Some show ?thesis by (auto simp: charged_to_def get_put_row)
  qed
qed

lemma charge_deliveries_books:
  "list_all customer_ok cs \<Longrightarrow> list_all delivery_ok vs \<Longrightarrow> list_all customer_ok (charge_deliveries vs cs)"
proof (induction vs cs rule: charge_deliveries.induct)
  case (2 v vs cs)
  have "list_all customer_ok (case credit_customer cs v of None \<Rightarrow> cs
      | Some c \<Rightarrow> put_row cu_id (c\<lparr>cu_outstanding_balance := fadd (cu_outstanding_balance c) (de_outstanding_amount v)\<rparr>) cs)"
  proof (cases "credit_customer cs v")
    case (Some c)
    then obtain i where "get_row cu_id cs i = Some c"
      by (auto simp: credit_customer_def bind_eq_Some_conv split: if_splits)
    with 2(2) have "customer_ok c" by (rule all_get_row)
    with 2(2,3) Some show ?thesis
      by (auto intro!: all_put_row customer_ok_balance fadd_nonneg simp: delivery_ok_def [of v] customer_ok_def [of c])
  qed (simp add: 2(2))
  with 2 show ?case by simp
qed simp

lemma add_trip_delivery_books:
  assumes "add_trip_delivery e d trip data u = Inr (trip', d')" "books_ok d"
  shows "books_ok d'"
  using assms(1)
proof (rule add_trip_delivery_Inr)
  fix v c
  assume *: "0 < vd_quantity data" "0 < vd_fuel_rate data"
    "vd_paid_amount data \<le> fround2 (fadd (fmul (vd_quantity data) (vd_fuel_rate data)) (vd_delivery_charge data))"
    "v = new_delivery e d trip data (fround2 (fadd (fmul (vd_quantity data) (vd_fuel_rate data)) (vd_delivery_charge data)))"
    "d' = d\<lparr>tanker_deliveries := tanker_deliveries d @ [v], tanker_trips := put_row tt_id trip' (tanker_trips d), comms := c\<rparr>"
  then have "delivery_ok v" by (auto simp: delivery_ok_def new_delivery_def fmul_nonneg fsub_nonneg)
  with *(5) assms(2) show ?thesis by (simp add: books_ok_def)
qed

lemma other_trip_steps_books:
  "add_trip_expense e d trip data u = Inr (trip', d') \<Longrightarrow> books_ok d \<Longrightarrow> books_ok d'"
  "create_trip e d td u = Inr (trip', d') \<Longrightarrow> books_ok d \<Longrightarrow> books_ok d'"
  by (auto simp: books_ok_def elim!: add_trip_expense_Inr dest!: create_trip_tables(5))

lemma complete_trip_books:
  assumes "complete_trip e d trip u = Inr (trip', d')" "books_ok d"
  shows "books_ok d'"
  using assms(1)
proof (rule complete_trip_Inr)
  fix trip1 d1 c
  let ?trip = "recompute_trip_financials (trip_deliveries d trip) (trip_expense_rows d trip) trip"
  assume S: "settle_trip e d ?trip u = Inr (trip1, d1)"
    and d': "d' = d1\<lparr>tanker_trips := put_row tt_id trip' (tanker_trips d1), comms := c\<rparr>"
  have V: "list_all delivery_ok (trip_deliveries d t)" for t
    using assms(2) by (auto simp: books_ok_def trip_deliveries_def list_all_iff)
  then have q: "0 \<le> fround2 (fsum (map de_quantity (trip_deliveries d trip)))"
      "0 \<le> fround2 (fsum (map de_fuel_amount (trip_deliveries d trip)))"
    by (auto simp: delivery_ok_def list_all_iff intro!: fround2_nonneg fsum_nonneg)
  from S have "books_ok d1"
  proof (cases rule: settle_trip_Inr)
    case (storage tank supplier)
    have "tank_ok tank" "supplier_ok supplier"
      using storage(2,3) books_ok_rows(1,3) [OF assms(2)] by (auto simp: bind_eq_Some_conv)
    with storage q assms(2) show ?thesis
      by (auto simp: books_ok_def purchase_ok_def trip_purchase_def supplier_ok_def fadd_nonneg intro!: tank_ok_fill all_put_row)
  next
    case customers
    with assms(2) V show ?thesis by (simp add: books_ok_def charge_deliveries_books)
  qed
  with d' show ?thesis by (simp add: books_ok_def)
qed

text \<open>
  Completing a trip happens once and settles it. A trip into the station's storage adds the
  recomputed quantity to the linked tank, which has room for it, adds the fuel value to what the
  supplier is owed, and books one approved purchase of exactly these figures; any other trip
  raises each customer's balance by the outstanding amounts of the credit deliveries to that customer
  and touches no stock. A completed trip cannot be completed again.
\<close>

theorem complete_trip_effect:
  assumes "complete_trip e d trip u = Inr (trip', d')"
  shows "trip_deliveries d trip \<noteq> [] \<and> tt_status trip' = ''completed'' \<and> isl (complete_trip e' d2 trip' v)
    \<and> (if tt_trip_type trip = ''supplier_to_station''
       then \<exists>tank supplier p.
           Option.bind (tt_linked_tank_id trip) (get_row tk_id (tanks d)) = Some tank
         \<and> Option.bind (tt_supplier_id trip) (get_row su_id (suppliers d)) = Some supplier
         \<and> purchases d' = purchases d @ [p] \<and> pu_status p = ''approved'' \<and> tt_linked_purchase_id trip' = Some (pu_id p)
         \<and> pu_quantity p = tt_total_quantity trip' \<and> pu_total_amount p = tt_fuel_revenue trip'
         \<and> fadd (tk_current_volume tank) (pu_quantity p) \<le> tk_capacity tank
         \<and> get_row tk_id (tanks d') (tk_id tank)
             = Some (tank\<lparr>tk_current_volume := fadd (tk_current_volume tank) (pu_quantity p)\<rparr>)
         \<and> get_row su_id (suppliers d') (su_id supplier)
             = Some (supplier\<lparr>su_payable_balance := fadd (su_payable_balance supplier) (pu_total_amount p)\<rparr>)
         \<and> customers d' = customers d
       else tanks d' = tanks d \<and> suppliers d' = suppliers d \<and> purchases d' = purchases d
         \<and> (\<forall>i. get_row cu_id (customers d') i = map_option (\<lambda>c. c\<lparr>cu_outstanding_balance :=
                foldl fadd (cu_outstanding_balance c) (charged_to i (trip_deliveries d trip))\<rparr>)
              (get_row cu_id (customers d) i)))"
  using assms
proof (rule complete_trip_Inr)
  fix trip1 d1 c
  let ?trip = "recompute_trip_financials (trip_deliveries d trip) (trip_expense_rows d trip) trip"
  assume *: "trip_deliveries d trip \<noteq> []" "settle_trip e d ?trip u = Inr (trip1, d1)"
    "trip' = trip1\<lparr>tt_status := ''completed'', tt_completed_at := Some (now e)\<rparr>"
    "d' = d1\<lparr>tanker_trips := put_row tt_id trip' (tanker_trips d1), comms := c\<rparr>"
  have again: "isl (complete_trip e' d2 trip' v)"
    by (simp add: *(3) complete_trip_def check_def split: sum.split)
  from *(2) show ?thesis
  proof (cases rule: settle_trip_Inr)
    case (storage tank supplier)
    from storage(2,3) have R: "get_row tk_id (tanks d) (tk_id tank) = Some tank" "get_row su_id (suppliers d) (su_id supplier) = Some supplier"
      by (auto simp: bind_eq_Some_conv dest: get_row_Some)
    let ?p = "trip_purchase e d ?trip tank supplier u"
    have P: "pu_status ?p = ''approved''" "pu_quantity ?p = tt_total_quantity ?trip" "pu_total_amount ?p = tt_fuel_revenue ?trip"
        "pu_id ?p = next_id pu_id (purchases d)"
      by (simp_all add: trip_purchase_def)
    have "tt_trip_type trip = ''supplier_to_station''" using storage(1) by simp
    moreover have "\<exists>tank supplier p. Option.bind (tt_linked_tank_id trip) (get_row tk_id (tanks d)) = Some tank
         \<and> Option.bind (tt_supplier_id trip) (get_row su_id (suppliers d)) = Some supplier
         \<and> purchases d' = purchases d @ [p] \<and> pu_status p = ''approved'' \<and> tt_linked_purchase_id trip' = Some (pu_id p)
         \<and> pu_quantity p = tt_total_quantity trip' \<and> pu_total_amount p = tt_fuel_revenue trip'
         \<and> fadd (tk_current_volume tank) (pu_quantity p) \<le> tk_capacity tank
         \<and> get_row tk_id (tanks d') (tk_id tank)
             = Some (tank\<lparr>tk_current_volume := fadd (tk_current_volume tank) (pu_quantity p)\<rparr>)
         \<and> get_row su_id (suppliers d') (su_id supplier)
             = Some (supplier\<lparr>su_payable_balance := fadd (su_payable_balance supplier) (pu_total_amount p)\<rparr>)
         \<and> customers d' = customers d"
      using storage(2-4)
      by (intro exI [of _ tank] exI [of _ supplier] exI [of _ ?p])
        (simp add: *(3,4) storage(5,6) P get_put_row_same [OF R(1)] get_put_row_same [OF R(2)] del: recompute_total_quantity)
    ultimately show ?thesis using * again by simp
  next
    case customers
    have "trip_deliveries d ?trip = trip_deliveries d trip" by (rule trip_rows_cong) simp_all
    with customers * again show ?thesis by (simp add: charge_deliveries_balance)
  qed
qed

definition sample_trip :: tanker_trip where
  "sample_trip = \<lparr>tt_id = 1, tt_tanker_id = 1, tt_station_id = 1, tt_supplier_id = Some 1, tt_fuel_type_id = 1,
     tt_trip_type = ''supplier_to_station'', tt_status = ''in_progress'', tt_settlement_status = ''unpaid'',
     tt_linked_tank_id = Some 1, tt_linked_purchase_id = None, tt_destination_name = None, tt_notes = None,
     tt_total_quantity = 0, tt_fuel_revenue = 0, tt_delivery_revenue = 0, tt_expense_total = 0, tt_net_profit = 0,
     tt_created_at = 0, tt_completed_at = None\<rparr>"

definition sample_delivery :: tanker_delivery where
  "sample_delivery = \<lparr>de_id = 1, de_trip_id = 1, de_customer_id = None, de_destination_name = None, de_quantity = 500,
     de_fuel_rate = 2, de_fuel_amount = 1000, de_delivery_charge = 0, de_sale_type = ''cash'', de_paid_amount = 1000,
     de_outstanding_amount = 0, de_created_at = 0\<rparr>"

definition sample_trip_db :: db where
  "sample_trip_db = sample_db\<lparr>
     station_modules := [\<lparr>sm_id = 1, sm_station_id = 1, sm_module_name = tanker_module, sm_is_enabled = True\<rparr>],
     tanker_trips := [sample_trip], tanker_deliveries := [sample_delivery]\<rparr>"

theorem complete_trip_effect_witness:
  "\<exists>trip' d' tank. complete_trip sample_env sample_trip_db sample_trip sample_admin = Inr (trip', d')
    \<and> isl (complete_trip sample_env d' trip' sample_admin)
    \<and> get_row tk_id (tanks d') 1 = Some tank \<and> tk_current_volume tank = fadd 4000 (tt_total_quantity trip')"
proof -
  have "\<not> isl (complete_trip sample_env sample_trip_db sample_trip sample_admin)" by code_simp
  then obtain trip' d' where T: "complete_trip sample_env sample_trip_db sample_trip sample_admin = Inr (trip', d')"
    by (metis not_isl_pair)
  have "tt_trip_type sample_trip = ''supplier_to_station''" "tt_linked_tank_id sample_trip = Some 1"
      "get_row tk_id (tanks sample_trip_db) 1 = Some sample_tank"
    by code_simp+
  with complete_trip_effect [OF T, of sample_env d' sample_admin] T show ?thesis
    by (auto simp: sample_tank_def)
qed

end
