(* ===== verification/Assets.thy ===== *)
theory Assets
  imports Purchases
begin

text \<open>
  The physical installation and its master data: fuel types (\<open>app/api/fuel_type.py\<close>), tanks
  (\<open>api/tank.py\<close>), dispensers (\<open>api/dispenser.py\<close>), nozzles and their meters (\<open>api/nozzle.py\<close>,
  \<open>services/nozzle_meter.py\<close>), tank dips (\<open>api/tank_dip.py\<close>, \<open>services/tank_dips.py\<close>) and suppliers
  (\<open>api/supplier.py\<close>). Columns that are nullable only for want of a constraint (volumes, meter
  readings) take no explicit null in an update here.
\<close>

section \<open>Fuel types\<close>

record fuel_type_create =
  fd_name :: string
  fd_description :: "string option"

record fuel_type_update =
  fu_name :: "string option patch"
  fu_description :: "string option patch"

definition create_fuel_type :: "db \<Rightarrow> fuel_type_create \<Rightarrow> user \<Rightarrow> (fuel_type \<times> db) res" where
  "create_fuel_type d data u =
     check (require_admin u)
     (if find (\<lambda>f. ft_name f = fd_name data) (fuel_types d) \<noteq> None then http 400 ''Fuel type already exists''
      else let f = \<lparr>ft_id = next_id ft_id (fuel_types d), ft_name = fd_name data, ft_description = fd_description data\<rparr>
           in Inr (f, d\<lparr>fuel_types := add_row f (fuel_types d)\<rparr>))"

definition list_fuel_types :: "db \<Rightarrow> nat \<Rightarrow> nat \<Rightarrow> fuel_type list" where
  "list_fuel_types d skip limit = page skip limit (fuel_types d)"

definition get_fuel_type :: "db \<Rightarrow> int \<Rightarrow> fuel_type res" where
  "get_fuel_type d i =
     (case get_row ft_id (fuel_types d) i of None \<Rightarrow> http 404 ''Fuel type not found'' | Some f \<Rightarrow> Inr f)"

definition update_fuel_type :: "db \<Rightarrow> int \<Rightarrow> fuel_type_update \<Rightarrow> user \<Rightarrow> (fuel_type \<times> db) res" where
  "update_fuel_type d i data u =
     check (require_admin u)
     (case get_row ft_id (fuel_types d) i of None \<Rightarrow> http 404 ''Fuel type not found'' | Some f \<Rightarrow>
      let f' = f\<lparr>ft_name := assign_value (fu_name data) (ft_name f),
                 ft_description := assign (fu_description data) (ft_description f)\<rparr>
      in if is_null (fu_name data) \<or> find (\<lambda>g. ft_id g \<noteq> i \<and> ft_name g = ft_name f') (fuel_types d) \<noteq> None
         then Inl IntegrityError
         else Inr (f', d\<lparr>fuel_types := put_row ft_id f' (fuel_types d)\<rparr>))"

definition delete_fuel_type :: "db \<Rightarrow> int \<Rightarrow> user \<Rightarrow> db res" where
  "delete_fuel_type d i u =
     check (require_admin u)
     (case get_row ft_id (fuel_types d) i of None \<Rightarrow> http 404 ''Fuel type not found'' | Some f \<Rightarrow>
      if find (\<lambda>k. tk_fuel_type_id k = i) (tanks d) \<noteq> None \<or> find (\<lambda>n. nz_fuel_type_id n = i) (nozzles d) \<noteq> None
         \<or> find (\<lambda>p. pu_fuel_type_id p = i) (purchases d) \<noteq> None
      then http 400 ''Fuel type cannot be deleted while dependent records exist''
      else Inr (d\<lparr>fuel_types := del_row ft_id i (fuel_types d)\<rparr>))"

section \<open>Tanks\<close>

record tank_create =
  kd_name :: string
  kd_code :: string
  kd_capacity :: pyfloat
  kd_current_volume :: pyfloat
  kd_low_stock_threshold :: pyfloat
  kd_location :: "string option"
  kd_station_id :: int
  kd_fuel_type_id :: int

record tank_update =
  ku_name :: "string option patch"
  ku_capacity :: "pyfloat option patch"
  ku_current_volume :: "pyfloat patch"
  ku_low_stock_threshold :: "pyfloat patch"
  ku_location :: "string option patch"

definition create_tank :: "db \<Rightarrow> tank_create \<Rightarrow> user \<Rightarrow> (tank \<times> db) res" where
  "create_tank d data u =
     check (require_permission u ''tanks'' ''create'' ''You do not have permission to create tanks'')
     (check (require_station_access u (kd_station_id data) ''Not authorized for this station'')
     (if find (\<lambda>k. tk_code k = kd_code data) (tanks d) \<noteq> None then http 400 ''Tank code already exists''
      else if get_row st_id (stations d) (kd_station_id data) = None then http 404 ''Station not found''
      else if get_row ft_id (fuel_types d) (kd_fuel_type_id data) = None then http 404 ''Fuel type not found''
      else let k = \<lparr>tk_id = next_id tk_id (tanks d), tk_name = kd_name data, tk_code = kd_code data,
             tk_capacity = kd_capacity data, tk_current_volume = kd_current_volume data,
             tk_low_stock_threshold = kd_low_stock_threshold data, tk_location = kd_location data,
             tk_station_id = kd_station_id data, tk_fuel_type_id = kd_fuel_type_id data\<rparr>
           in Inr (k, d\<lparr>tanks := add_row k (tanks d)\<rparr>)))"

definition list_tanks :: "db \<Rightarrow> user \<Rightarrow> int option \<Rightarrow> int option \<Rightarrow> nat \<Rightarrow> nat \<Rightarrow> tank list" where
  "list_tanks d u station_id fuel_type_id skip limit =
     page skip limit (filter (\<lambda>k. selects (own_station u station_id) (tk_station_id k)
       \<and> selects fuel_type_id (tk_fuel_type_id k)) (tanks d))"

definition with_tank :: "db \<Rightarrow> int \<Rightarrow> user \<Rightarrow> (tank \<Rightarrow> 'a res) \<Rightarrow> 'a res" where
  "with_tank d i u f =
     (case get_row tk_id (tanks d) i of None \<Rightarrow> http 404 ''Tank not found'' | Some k \<Rightarrow>
      check (require_station_access u (tk_station_id k) ''Not authorized for this tank'') (f k))"

definition get_tank :: "db \<Rightarrow> int \<Rightarrow> user \<Rightarrow> tank res" where
  "get_tank d i u = with_tank d i u Inr"

definition update_tank :: "db \<Rightarrow> int \<Rightarrow> tank_update \<Rightarrow> user \<Rightarrow> (tank \<times> db) res" where
  "update_tank d i data u = with_tank d i u (\<lambda>k.
     check (require_permission u ''tanks'' ''update'' ''You do not have permission to update tanks'')
     (if is_null (ku_name data) \<or> is_null (ku_capacity data) then Inl IntegrityError
      else let k' = k\<lparr>tk_name := assign_value (ku_name data) (tk_name k),
             tk_capacity := assign_value (ku_capacity data) (tk_capacity k),
             tk_current_volume := assign (ku_current_volume data) (tk_current_volume k),
             tk_low_stock_threshold := assign (ku_low_stock_threshold data) (tk_low_stock_threshold k),
             tk_location := assign (ku_location data) (tk_location k)\<rparr>
           in Inr (k', d\<lparr>tanks := put_row tk_id k' (tanks d)\<rparr>)))"

definition delete_tank :: "db \<Rightarrow> int \<Rightarrow> user \<Rightarrow> db res" where
  "delete_tank d i u = with_tank d i u (\<lambda>k.
     check (require_permission u ''tanks'' ''delete'' ''You do not have permission to delete tanks'')
     (if find (\<lambda>n. nz_tank_id n = tk_id k) (nozzles d) \<noteq> None \<or> find (\<lambda>p. pu_tank_id p = tk_id k) (purchases d) \<noteq> None
         \<or> find (\<lambda>t. td_tank_id t = tk_id k) (tank_dips d) \<noteq> None
      then http 400 ''Tank cannot be deleted while dependent records exist''
      else Inr (d\<lparr>tanks := del_row tk_id (tk_id k) (tanks d)\<rparr>)))"

section \<open>Tank dips\<close>

record tank_dip_create =
  ed_tank_id :: int
  ed_dip_reading_mm :: pyfloat
  ed_calculated_volume :: pyfloat
  ed_notes :: "string option"

definition create_tank_dip :: "env \<Rightarrow> db \<Rightarrow> tank_dip_create \<Rightarrow> user \<Rightarrow> (tank_dip \<times> db) res" where
  "create_tank_dip e d data u =
     (case get_row tk_id (tanks d) (ed_tank_id data) of None \<Rightarrow> http 404 ''Tank not found'' | Some tank \<Rightarrow>
      check (station_guard u (tk_station_id tank) ''Not authorized for this tank'')
      (let dip = \<lparr>td_id = next_id td_id (tank_dips d), td_tank_id = ed_tank_id data,
             td_dip_reading_mm = ed_dip_reading_mm data, td_calculated_volume = ed_calculated_volume data,
             td_system_volume = tk_current_volume tank,
             td_loss_gain = fsub (ed_calculated_volume data) (tk_current_volume tank),
             td_notes = ed_notes data, td_created_at = now e\<rparr>
       in Inr (dip, d\<lparr>tank_dips := add_row dip (tank_dips d),
                      tanks := put_row tk_id (tank\<lparr>tk_current_volume := ed_calculated_volume data\<rparr>) (tanks d)\<rparr>)))"

definition ensure_tank_dip_access :: "db \<Rightarrow> tank_dip \<Rightarrow> user \<Rightarrow> unit res" where
  "ensure_tank_dip_access d dip u =
     (if \<not> is_admin u
      then (case get_row tk_id (tanks d) (td_tank_id dip) of None \<Rightarrow> Inl AttributeError
            | Some tank \<Rightarrow> if u_station_id u \<noteq> Some (tk_station_id tank)
                           then http 403 ''Not authorized for this tank dip'' else ok)
      else ok)"

definition route_create_tank_dip :: "env \<Rightarrow> db \<Rightarrow> tank_dip_create \<Rightarrow> user \<Rightarrow> (tank_dip \<times> db) res" where
  "route_create_tank_dip e d data u =
     check (require_permission u ''tank_dips'' ''create'' ''You do not have permission to record tank dips'')
     (create_tank_dip e d data u)"

definition list_tank_dips ::
  "db \<Rightarrow> user \<Rightarrow> int option \<Rightarrow> int option \<Rightarrow> date option \<Rightarrow> date option \<Rightarrow> nat \<Rightarrow> nat \<Rightarrow> tank_dip list" where
  "list_tank_dips d u station_id tank_id from_date to_date skip limit =
     (let station_id = own_station u station_id in
      page skip limit (sort_key (\<lambda>t. - td_created_at t) (filter (\<lambda>t.
          (station_id \<in> set [None, Some 0]
             \<or> (case get_row tk_id (tanks d) (td_tank_id t) of None \<Rightarrow> False | Some k \<Rightarrow> Some (tk_station_id k) = station_id))
          \<and> selects tank_id (td_tank_id t) \<and> in_window from_date to_date (td_created_at t)) (tank_dips d))))"

definition get_tank_dip :: "db \<Rightarrow> int \<Rightarrow> user \<Rightarrow> tank_dip res" where
  "get_tank_dip d i u =
     (case get_row td_id (tank_dips d) i of None \<Rightarrow> http 404 ''Tank dip reading not found'' | Some dip \<Rightarrow>
      check (ensure_tank_dip_access d dip u) (Inr dip))"

section \<open>Dispensers\<close>

record dispenser_create =
  qd_name :: string
  qd_code :: string
  qd_location :: "string option"
  qd_station_id :: int

record dispenser_update =
  qu_name :: "string option patch"
  qu_location :: "string option patch"

definition create_dispenser :: "db \<Rightarrow> dispenser_create \<Rightarrow> user \<Rightarrow> (dispenser \<times> db) res" where
  "create_dispenser d data u =
     check (require_permission u ''dispensers'' ''create'' ''You do not have permission to create dispensers'')
     (check (require_station_access u (qd_station_id data) ''Not authorized for this station'')
     (if find (\<lambda>p. dp_code p = qd_code data) (dispensers d) \<noteq> None then http 400 ''Dispenser code already exists''
      else if get_row st_id (stations d) (qd_station_id data) = None then http 404 ''Station not found''
      else let p = \<lparr>dp_id = next_id dp_id (dispensers d), dp_name = qd_name data, dp_code = qd_code data,
             dp_location = qd_location data, dp_station_id = qd_station_id data\<rparr>
           in Inr (p, d\<lparr>dispensers := add_row p (dispensers d)\<rparr>)))"

definition list_dispensers :: "db \<Rightarrow> user \<Rightarrow> int option \<Rightarrow> nat \<Rightarrow> nat \<Rightarrow> dispenser list" where
  "list_dispensers d u station_id skip limit =
     page skip limit (filter (\<lambda>p. selects (own_station u station_id) (dp_station_id p)) (dispensers d))"

definition with_dispenser :: "db \<Rightarrow> int \<Rightarrow> (dispenser \<Rightarrow> 'a res) \<Rightarrow> 'a res" where
  "with_dispenser d i f =
     (case get_row dp_id (dispensers d) i of None \<Rightarrow> http 404 ''Dispenser not found'' | Some p \<Rightarrow> f p)"

definition get_dispenser :: "db \<Rightarrow> int \<Rightarrow> user \<Rightarrow> dispenser res" where
  "get_dispenser d i u = with_dispenser d i (\<lambda>p.
     check (require_permission u ''dispensers'' ''update'' ''You do not have permission to update dispensers'')
     (check (require_station_access u (dp_station_id p) ''Not authorized for this dispenser'') (Inr p)))"

definition update_dispenser :: "db \<Rightarrow> int \<Rightarrow> dispenser_update \<Rightarrow> user \<Rightarrow> (dispenser \<times> db) res" where
  "update_dispenser d i data u = with_dispenser d i (\<lambda>p.
     check (require_permission u ''dispensers'' ''delete'' ''You do not have permission to delete dispensers'')
     (check (require_station_access u (dp_station_id p) ''Not authorized for this dispenser'')
     (if is_null (qu_name data) then Inl IntegrityError
      else let p' = p\<lparr>dp_name := assign_value (qu_name data) (dp_name p),
                      dp_location := assign (qu_location data) (dp_location p)\<rparr>
           in Inr (p', d\<lparr>dispensers := put_row dp_id p' (dispensers d)\<rparr>))))"

definition delete_dispenser :: "db \<Rightarrow> int \<Rightarrow> user \<Rightarrow> db res" where
  \<comment> \<open>the unit of work clears \<open>dispenser_id\<close> of the nozzles in \<open>Dispenser.nozzles\<close>, a column that is not nullable\<close>
  "delete_dispenser d i u = with_dispenser d i (\<lambda>p.
     check (require_station_access u (dp_station_id p) ''Not authorized for this dispenser'')
     (if find (\<lambda>n. nz_dispenser_id n = dp_id p) (nozzles d) \<noteq> None then Inl IntegrityError
      else Inr (d\<lparr>dispensers := del_row dp_id (dp_id p) (dispensers d)\<rparr>)))"

section \<open>Nozzles and meters\<close>

record nozzle_create =
  nc_name :: string
  nc_code :: string
  nc_meter_reading :: pyfloat
  nc_dispenser_id :: int
  nc_tank_id :: int
  nc_fuel_type_id :: int

record nozzle_update =
  zu_name :: "string option patch"
  zu_meter_reading :: "pyfloat option patch"
  zu_tank_id :: "int option patch"
  zu_fuel_type_id :: "int option patch"

record meter_adjustment_request =
  mq_new_reading :: pyfloat
  mq_reason :: string

definition create_nozzle :: "env \<Rightarrow> db \<Rightarrow> nozzle_create \<Rightarrow> user \<Rightarrow> (nozzle \<times> db) res" where
  "create_nozzle e d data u =
     check (require_permission u ''nozzles'' ''create'' ''You do not have permission to create nozzles'')
     (case get_row dp_id (dispensers d) (nc_dispenser_id data) of None \<Rightarrow> http 404 ''Dispenser not found'' | Some p \<Rightarrow>
      check (require_station_access u (dp_station_id p) ''Not authorized for this station'')
      (if find (\<lambda>n. nz_code n = nc_code data) (nozzles d) \<noteq> None then http 400 ''Nozzle code already exists''
       else if get_row tk_id (tanks d) (nc_tank_id data) = None then http 404 ''Tank not found''
       else if get_row ft_id (fuel_types d) (nc_fuel_type_id data) = None then http 404 ''Fuel type not found''
       else let n = \<lparr>nz_id = next_id nz_id (nozzles d), nz_name = nc_name data, nz_code = nc_code data,
              nz_meter_reading = nc_meter_reading data, nz_segment_start_reading = nc_meter_reading data,
              nz_segment_started_at = now e, nz_dispenser_id = nc_dispenser_id data, nz_tank_id = nc_tank_id data,
              nz_fuel_type_id = nc_fuel_type_id data\<rparr>
            in Inr (n, d\<lparr>nozzles := add_row n (nozzles d)\<rparr>)))"

definition nozzle_station :: "db \<Rightarrow> nozzle \<Rightarrow> int res" where
  \<comment> \<open>\<open>nozzle.dispenser.station_id\<close>\<close>
  "nozzle_station d n =
     (case get_row dp_id (dispensers d) (nz_dispenser_id n) of None \<Rightarrow> Inl AttributeError | Some p \<Rightarrow> Inr (dp_station_id p))"

definition ensure_nozzle_access :: "db \<Rightarrow> nozzle \<Rightarrow> user \<Rightarrow> unit res" where
  "ensure_nozzle_access d n u =
     (case nozzle_station d n of Inl x \<Rightarrow> Inl x
      | Inr s \<Rightarrow> require_station_access u s ''Not authorized for this nozzle'')"

definition with_nozzle :: "db \<Rightarrow> int \<Rightarrow> (nozzle \<Rightarrow> 'a res) \<Rightarrow> 'a res" where
  "with_nozzle d i f = (case get_row nz_id (nozzles d) i of None \<Rightarrow> http 404 ''Nozzle not found'' | Some n \<Rightarrow> f n)"

definition list_nozzles :: "db \<Rightarrow> user \<Rightarrow> int option \<Rightarrow> int option \<Rightarrow> int option \<Rightarrow> nat \<Rightarrow> nat \<Rightarrow> nozzle list" where
  "list_nozzles d u station_id dispenser_id fuel_type_id skip limit =
     (let station_id = own_station u station_id in
      page skip limit (filter (\<lambda>n.
        (station_id \<in> set [None, Some 0] \<or> (\<exists>p \<in> set (dispensers d). dp_id p = nz_dispenser_id n \<and> Some (dp_station_id p) = station_id))
        \<and> selects dispenser_id (nz_dispenser_id n) \<and> selects fuel_type_id (nz_fuel_type_id n)) (nozzles d)))"

definition get_nozzle :: "db \<Rightarrow> int \<Rightarrow> user \<Rightarrow> nozzle res" where
  "get_nozzle d i u = with_nozzle d i (\<lambda>n.
     check (require_permission u ''nozzles'' ''update'' ''You do not have permission to update nozzles'')
     (check (ensure_nozzle_access d n u) (Inr n)))"

definition update_nozzle :: "db \<Rightarrow> int \<Rightarrow> nozzle_update \<Rightarrow> user \<Rightarrow> (nozzle \<times> db) res" where
  "update_nozzle d i data u = with_nozzle d i (\<lambda>n.
     check (require_permission u ''nozzles'' ''delete'' ''You do not have permission to delete nozzles'')
     (check (ensure_nozzle_access d n u)
     (if zu_meter_reading data \<noteq> Unset
      then http 400 ''Use the dedicated meter adjustment endpoint to change nozzle meter readings''
      else if is_null (zu_name data) \<or> is_null (zu_tank_id data) \<or> is_null (zu_fuel_type_id data) then Inl IntegrityError
      else let n' = n\<lparr>nz_name := assign_value (zu_name data) (nz_name n),
                      nz_tank_id := assign_value (zu_tank_id data) (nz_tank_id n),
                      nz_fuel_type_id := assign_value (zu_fuel_type_id data) (nz_fuel_type_id n)\<rparr>
           in Inr (n', d\<lparr>nozzles := put_row nz_id n' (nozzles d)\<rparr>))))"

definition delete_nozzle :: "db \<Rightarrow> int \<Rightarrow> user \<Rightarrow> db res" where
  "delete_nozzle d i u = with_nozzle d i (\<lambda>n.
     check (ensure_nozzle_access d n u) (Inr (d\<lparr>nozzles := del_row nz_id (nz_id n) (nozzles d)\<rparr>)))"

definition get_nozzle_readings :: "db \<Rightarrow> int \<Rightarrow> nat \<Rightarrow> nat \<Rightarrow> user \<Rightarrow> nozzle_reading list res" where
  "get_nozzle_readings d i skip limit u = with_nozzle d i (\<lambda>n.
     check (require_permission u ''nozzles'' ''read_meter_history'' ''You do not have permission to view nozzle meter history'')
     (check (ensure_nozzle_access d n u)
     (Inr (page skip limit (sort_key (\<lambda>r. - nr_created_at r) (filter (\<lambda>r. nr_nozzle_id r = i) (nozzle_readings d)))))))"

definition adjust_nozzle_meter ::
  "env \<Rightarrow> db \<Rightarrow> nozzle \<Rightarrow> pyfloat \<Rightarrow> string \<Rightarrow> user \<Rightarrow> (meter_adjustment_event \<times> db) res" where
  "adjust_nozzle_meter e d n new_reading reason u =
     (if \<not> is_admin u then http 403 ''Only admin users can adjust nozzle meter readings''
      else case nozzle_station d n of Inl x \<Rightarrow> Inl x | Inr station_id \<Rightarrow>
      check (require_station_module_enabled d station_id ''meter_adjustments'')
      (if new_reading = nz_meter_reading n
       then http 400 ''New meter reading must be different from the current reading''
       else let organization_id = organization_of_station d station_id;
                a = \<lparr>ma_id = next_id ma_id (meter_adjustments d), ma_nozzle_id = nz_id n, ma_station_id = station_id,
                     ma_old_reading = nz_meter_reading n, ma_new_reading = new_reading, ma_reason = py_strip reason,
                     ma_adjusted_by_user_id = u_id u, ma_adjusted_at = now e\<rparr>;
                d1 = audit e u ''nozzles'' ''nozzles.adjust_meter'' ''meter_adjustment_event'' (Some (ma_id a)) (Some station_id)
                  [(''nozzle_id'', JInt (nz_id n)), (''old_reading'', JFloat (nz_meter_reading n)),
                   (''new_reading'', JFloat new_reading), (''reason'', JStr (py_strip reason))]
                  (d\<lparr>nozzles := put_row nz_id (n\<lparr>nz_meter_reading := new_reading,
                        nz_segment_start_reading := new_reading, nz_segment_started_at := now e\<rparr>) (nozzles d),
                     meter_adjustments := add_row a (meter_adjustments d)\<rparr>)
            in Inr (a, notify_watchers e (get_station_watchers d1 station_id organization_id) (Some u)
                 \<lparr>nt_station_id = Some station_id, nt_organization_id = organization_id,
                  nt_event_type = ''nozzle.meter_adjusted'', nt_title = ''Nozzle meter adjusted'',
                  nt_message = [T (u_full_name u), T '' adjusted nozzle '', T (nz_code n), T '' from '',
                     D (nz_meter_reading n), T '' to '', D new_reading, T ''.''],
                  nt_entity_type = Some ''meter_adjustment_event'', nt_entity_id = Some (ma_id a)\<rparr> d1)))"

definition adjust_meter_reading ::
  "env \<Rightarrow> db \<Rightarrow> int \<Rightarrow> meter_adjustment_request \<Rightarrow> user \<Rightarrow> (meter_adjustment_event \<times> db) res" where
  "adjust_meter_reading e d i data u =
     check (require_permission u ''nozzles'' ''adjust_meter'' ''You do not have permission to adjust nozzle meter readings'')
     (with_nozzle d i (\<lambda>n. check (ensure_nozzle_access d n u)
       (adjust_nozzle_meter e d n (mq_new_reading data) (mq_reason data) u)))"

definition get_meter_adjustments :: "db \<Rightarrow> int \<Rightarrow> nat \<Rightarrow> nat \<Rightarrow> user \<Rightarrow> meter_adjustment_event list res" where
  "get_meter_adjustments d i skip limit u =
     check (require_permission u ''nozzles'' ''read_meter_history'' ''You do not have permission to view nozzle meter history'')
     (with_nozzle d i (\<lambda>n. check (ensure_nozzle_access d n u)
       (Inr (page skip limit (sort_key (\<lambda>a. - ma_adjusted_at a)
          (filter (\<lambda>a. ma_nozzle_id a = i) (meter_adjustments d)))))))"

section \<open>Suppliers\<close>

record supplier_create =
  yd_name :: string
  yd_code :: string
  yd_phone :: "string option"
  yd_address :: "string option"

record supplier_update =
  yu_name :: "string option patch"
  yu_phone :: "string option patch"
  yu_address :: "string option patch"

definition create_supplier :: "db \<Rightarrow> supplier_create \<Rightarrow> user \<Rightarrow> (supplier \<times> db) res" where
  "create_supplier d data u =
     check (require_permission u ''suppliers'' ''create'' ''You do not have permission to create suppliers'')
     (if find (\<lambda>s. su_code s = yd_code data) (suppliers d) \<noteq> None then http 400 ''Supplier already exists''
      else let s = \<lparr>su_id = next_id su_id (suppliers d), su_name = yd_name data, su_code = yd_code data,
             su_phone = yd_phone data, su_address = yd_address data, su_payable_balance = 0\<rparr>
           in Inr (s, d\<lparr>suppliers := add_row s (suppliers d)\<rparr>))"

definition list_suppliers :: "db \<Rightarrow> string option \<Rightarrow> nat \<Rightarrow> nat \<Rightarrow> supplier list" where
  "list_suppliers d search skip limit =
     page skip limit (filter (\<lambda>s. truthy search \<longrightarrow> ilike (the search) (su_name s) \<or> ilike (the search) (su_code s)) (suppliers d))"

definition get_supplier :: "db \<Rightarrow> int \<Rightarrow> supplier res" where
  "get_supplier d i = (case get_row su_id (suppliers d) i of None \<Rightarrow> http 404 ''Supplier not found'' | Some s \<Rightarrow> Inr s)"

definition update_supplier :: "db \<Rightarrow> int \<Rightarrow> supplier_update \<Rightarrow> user \<Rightarrow> (supplier \<times> db) res" where
  "update_supplier d i data u =
     (case get_supplier d i of Inl x \<Rightarrow> Inl x | Inr s \<Rightarrow>
      check (require_permission u ''suppliers'' ''update'' ''You do not have permission to update suppliers'')
      (if is_null (yu_name data) then Inl IntegrityError
       else let s' = s\<lparr>su_name := assign_value (yu_name data) (su_name s), su_phone := assign (yu_phone data) (su_phone s),
              su_address := assign (yu_address data) (su_address s)\<rparr>
            in Inr (s', d\<lparr>suppliers := put_row su_id s' (suppliers d)\<rparr>)))"

definition delete_supplier :: "db \<Rightarrow> int \<Rightarrow> user \<Rightarrow> db res" where
  "delete_supplier d i u =
     (case get_supplier d i of Inl x \<Rightarrow> Inl x | Inr s \<Rightarrow>
      check (require_permission u ''suppliers'' ''delete'' ''You do not have permission to delete suppliers'')
      (if find (\<lambda>p. pu_supplier_id p = su_id s) (purchases d) \<noteq> None
          \<or> find (\<lambda>p. sp_supplier_id p = su_id s) (supplier_payments d) \<noteq> None
       then http 400 ''Supplier cannot be deleted while transaction history exists''
       else Inr (d\<lparr>suppliers := del_row su_id (su_id s) (suppliers d)\<rparr>)))"

section \<open>Searching is containment\<close>

definition plain :: "string \<Rightarrow> bool" where
  \<comment> \<open>no wildcard of \<open>LIKE\<close>\<close>
  "plain w \<longleftrightarrow> CHR ''%'' \<notin> set w \<and> CHR ''_'' \<notin> set w"

lemma sql_like_plain: "plain w \<Longrightarrow> sql_like (w @ p) s \<longleftrightarrow> (\<exists>t. s = w @ t \<and> sql_like p t)"
proof (induction w arbitrary: s)
  case (Cons c w)
  then have c: "c \<noteq> CHR ''%''" "c \<noteq> CHR ''_''" "plain w" by (auto simp: plain_def)
  show ?case
  proof (cases s)
    case Nil
    with c show ?thesis by (simp add: sql_like.simps)
  next
    case (Cons x s')
    with c Cons.IH [of s'] show ?thesis by (auto simp: sql_like.simps)
  qed
qed simp

lemma sql_like_percent: "sql_like (CHR ''%'' # p) s \<longleftrightarrow> (\<exists>a t. s = a @ t \<and> sql_like p t)"
proof (induction s)
  case Nil
  then show ?case by (simp add: sql_like.simps)
next
  case (Cons x s)
  have "sql_like (CHR ''%'' # p) (x # s) \<longleftrightarrow> sql_like p (x # s) \<or> sql_like (CHR ''%'' # p) s"
    by (simp add: sql_like.simps(2))
  also have "\<dots> \<longleftrightarrow> (\<exists>a t. x # s = a @ t \<and> sql_like p t)"
    unfolding Cons.IH by (auto simp: Cons_eq_append_conv)
  finally show ?case .
qed

lemma of_char_lower_char:
  "(of_char (lower_char c) :: nat) = (if 65 \<le> (of_char c :: nat) \<and> (of_char c :: nat) \<le> 90 then of_char c + 32 else of_char c)"
  by (auto simp: lower_char_def less_eq_char_def)

lemma lower_char_wildcard: "lower_char c = CHR ''%'' \<longleftrightarrow> c = CHR ''%''" "lower_char c = CHR ''_'' \<longleftrightarrow> c = CHR ''_''"
proof -
  have eq: "x = y \<longleftrightarrow> (of_char x :: nat) = of_char y" for x y :: char
    by simp
  show "lower_char c = CHR ''%'' \<longleftrightarrow> c = CHR ''%''" "lower_char c = CHR ''_'' \<longleftrightarrow> c = CHR ''_''"
    unfolding eq of_char_lower_char by auto
qed

lemma plain_lower: "plain (py_lower w) \<longleftrightarrow> plain w"
proof (induction w)
  case (Cons c w)
  have "CHR ''%'' = lower_char c \<longleftrightarrow> CHR ''%'' = c" "CHR ''_'' = lower_char c \<longleftrightarrow> CHR ''_'' = c"
    using lower_char_wildcard [of c] by metis+
  with Cons show ?case unfolding plain_def py_lower_def list.map list.set insert_iff by blast
qed (simp add: py_lower_def)

lemma ilike_plain:
  assumes "plain w" shows "ilike w s \<longleftrightarrow> (\<exists>a b. py_lower s = a @ py_lower w @ b)"
proof -
  have "ilike w s \<longleftrightarrow> (\<exists>a t. py_lower s = a @ t \<and> sql_like (py_lower w @ ''%'') t)"
    unfolding ilike_def by (simp add: sql_like_percent)
  also have "\<dots> \<longleftrightarrow> (\<exists>a b. py_lower s = a @ py_lower w @ b \<and> sql_like ''%'' b)"
    using assms by (auto simp: sql_like_plain plain_lower)
  also have "\<dots> \<longleftrightarrow> (\<exists>a b. py_lower s = a @ py_lower w @ b)"
    by (simp add: sql_like_percent)
  finally show ?thesis .
qed

text \<open>
  Searching suppliers for a word without \<open>%\<close> and \<open>_\<close> lists exactly the suppliers that have the
  word in their name or code, upper and lower case alike, in table order; the wildcards of \<open>LIKE\<close>
  cannot widen or narrow such a search.
\<close>

theorem list_suppliers_search:
  assumes "plain w" and "w \<noteq> []"
  shows "list_suppliers d (Some w) 0 (length (suppliers d)) =
    filter (\<lambda>s. (\<exists>a b. py_lower (su_name s) = a @ py_lower w @ b) \<or> (\<exists>a b. py_lower (su_code s) = a @ py_lower w @ b)) (suppliers d)"
  using assms by (simp add: list_suppliers_def page_def truthy_def ilike_plain [OF assms(1)] length_filter_le)

theorem list_suppliers_search_witness:
  "list_suppliers sample_db (Some ''iD'') 0 1 = [sample_supplier]"
proof -
  have P: "plain ''iD''" by code_simp
  have S: "suppliers sample_db = [sample_supplier]" by (simp add: sample_db_def)
  have M: "\<exists>a b. py_lower (su_name sample_supplier) = a @ py_lower ''iD'' @ b"
    by (rule exI [of _ "''s''"], rule exI [of _ "[]"]) code_simp
  show ?thesis using list_suppliers_search [OF P, of sample_db] M by (simp add: S)
qed

section \<open>What the meters and tanks record\<close>

text \<open>
  Only an administrator moves a meter by hand, and never without a trace: a successful
  adjustment appends one event with the old and the new reading, the reason and who did it, starts a
  new meter segment at the new reading, and leaves every other nozzle, every tank and every sale alone.
\<close>

theorem meter_adjustment_effect:
  assumes "adjust_nozzle_meter e d n new_reading reason u = Inr (a, d')"
    and "get_row nz_id (nozzles d) (nz_id n) = Some n"
  shows "is_admin u \<and> new_reading \<noteq> nz_meter_reading n
    \<and> meter_adjustments d' = meter_adjustments d @ [a] \<and> ma_nozzle_id a = nz_id n
    \<and> ma_old_reading a = nz_meter_reading n \<and> ma_new_reading a = new_reading
    \<and> ma_reason a = py_strip reason \<and> ma_adjusted_by_user_id a = u_id u
    \<and> (\<forall>i. get_row nz_id (nozzles d') i
        = (if i = nz_id n then Some (n\<lparr>nz_meter_reading := new_reading, nz_segment_start_reading := new_reading,
             nz_segment_started_at := now e\<rparr>) else get_row nz_id (nozzles d) i))
    \<and> tanks d' = tanks d \<and> fuel_sales d' = fuel_sales d \<and> nozzle_readings d' = nozzle_readings d"
  using assms
  by (auto simp: adjust_nozzle_meter_def res_simps Let_def audit_def notify_watchers_def add_row_def get_put_row)

definition sample_metered_db :: db where
  "sample_metered_db = sample_db\<lparr>station_modules := [\<lparr>sm_id = 1, sm_station_id = 1,
     sm_module_name = ''meter_adjustments'', sm_is_enabled = True\<rparr>]\<rparr>"

theorem meter_adjustment_effect_witness:
  "\<exists>a d'. adjust_nozzle_meter sample_env sample_metered_db sample_nozzle 250 '' drift '' sample_admin = Inr (a, d')
     \<and> ma_old_reading a = 100 \<and> ma_new_reading a = 250"
proof -
  have "\<not> isl (adjust_nozzle_meter sample_env sample_metered_db sample_nozzle 250 '' drift '' sample_admin)" by code_simp
  then obtain a d' where A: "adjust_nozzle_meter sample_env sample_metered_db sample_nozzle 250 '' drift '' sample_admin = Inr (a, d')"
    by (metis not_isl_pair)
  have "get_row nz_id (nozzles sample_metered_db) (nz_id sample_nozzle) = Some sample_nozzle" "nz_meter_reading sample_nozzle = 100"
    by code_simp+
  with meter_adjustment_effect [OF A] A show ?thesis by auto
qed

text \<open>
  A dip is believed whatever it says. The measured volume becomes the stock of its tank, and the
  difference to the volume on file is recorded as loss or gain together with that volume; no other
  tank changes. No bound is checked: the stock may afterwards exceed the capacity.
\<close>

theorem tank_dip_effect:
  assumes "create_tank_dip e d data u = Inr (dip, d')"
    and "get_row tk_id (tanks d) (ed_tank_id data) = Some tank"
  shows "td_system_volume dip = tk_current_volume tank
    \<and> td_loss_gain dip = fsub (ed_calculated_volume data) (tk_current_volume tank)
    \<and> tank_dips d' = tank_dips d @ [dip]
    \<and> (\<forall>i. get_row tk_id (tanks d') i
        = (if i = tk_id tank then Some (tank\<lparr>tk_current_volume := ed_calculated_volume data\<rparr>) else get_row tk_id (tanks d) i))"
  using assms get_row_Some [OF assms(2)]
  by (auto simp: create_tank_dip_def res_simps Let_def add_row_def get_put_row)

theorem tank_dip_effect_witness:
  "\<exists>dip d' tank. create_tank_dip sample_env sample_db
       \<lparr>ed_tank_id = 1, ed_dip_reading_mm = 0, ed_calculated_volume = 20000, ed_notes = None\<rparr> sample_admin = Inr (dip, d')
     \<and> get_row tk_id (tanks d') 1 = Some tank \<and> tk_capacity tank < tk_current_volume tank"
proof -
  let ?data = "\<lparr>ed_tank_id = 1, ed_dip_reading_mm = 0, ed_calculated_volume = 20000, ed_notes = None\<rparr>"
  have "\<not> isl (create_tank_dip sample_env sample_db ?data sample_admin)" by code_simp
  then obtain dip d' where C: "create_tank_dip sample_env sample_db ?data sample_admin = Inr (dip, d')"
    by (metis not_isl_pair)
  have "get_row tk_id (tanks sample_db) (ed_tank_id ?data) = Some sample_tank" by code_simp
  with tank_dip_effect [OF C] C show ?thesis by (auto simp: sample_tank_def)
qed

end
