(* ===== verification/Shifts.thy ===== *)
theory Shifts
  imports FuelSales Assets
begin

text \<open>
  \<open>app/services/shifts.py\<close> and \<open>app/api/shift.py\<close>: a user opens a shift at a station with some
  cash, sells during it, and closes it by counting the cash; closing totals the sales of the shift.
\<close>

record shift_create =
  hc_station_id :: int
  hc_initial_cash :: pyfloat
  hc_notes :: "string option"

record shift_update =
  hu_actual_cash_collected :: pyfloat
  hu_notes :: "string option"

definition create_shift :: "env \<Rightarrow> db \<Rightarrow> shift_create \<Rightarrow> user \<Rightarrow> (shift \<times> db) res" where
  "create_shift e d data u =
     check (station_guard u (hc_station_id data) ''Not authorized for this station'')
     (case open_shift_of d (u_id u) (hc_station_id data) of
        Some s \<Rightarrow> Inl (HTTPException 400 [T ''You already have an open shift (ID: '', I (sh_id s), T '') at this station''])
      | None \<Rightarrow>
        if get_row st_id (stations d) (hc_station_id data) = None then http 404 ''Station not found''
        else let s = \<lparr>sh_id = next_id sh_id (shifts d), sh_station_id = hc_station_id data, sh_user_id = u_id u,
               sh_start_time = now e, sh_end_time = None, sh_status = ''open'', sh_initial_cash = hc_initial_cash data,
               sh_total_sales_cash = 0, sh_total_sales_credit = 0, sh_expected_cash = hc_initial_cash data,
               sh_actual_cash_collected = None, sh_difference = None, sh_notes = hc_notes data\<rparr>
             in Inr (s, audit e u ''shifts'' ''shifts.open'' ''shift'' (Some (sh_id s)) (Some (sh_station_id s))
                  [(''initial_cash'', JFloat (sh_initial_cash s))] (d\<lparr>shifts := add_row s (shifts d)\<rparr>)))"

definition shift_sales :: "db \<Rightarrow> shift \<Rightarrow> string \<Rightarrow> pyfloat" where
  \<comment> \<open>the total of the unreversed sales of a shift with a given sale type\<close>
  "shift_sales d s sale_type =
     fsum (map fs_total_amount (filter (\<lambda>f. fs_sale_type f = sale_type)
       (filter (\<lambda>f. fs_shift_id f = Some (sh_id s) \<and> \<not> is_reversed (fs_reversal f)) (fuel_sales d))))"

definition close_shift :: "env \<Rightarrow> db \<Rightarrow> shift \<Rightarrow> shift_update \<Rightarrow> user \<Rightarrow> (shift \<times> db) res" where
  "close_shift e d s data u =
     (if sh_status s = ''closed'' then http 400 ''Shift is already closed''
      else if sh_user_id s \<noteq> u_id u then http 403 ''You can only close your own shifts''
      else let total_cash = shift_sales d s ''cash''; total_credit = shift_sales d s ''credit'';
               expected = fadd (sh_initial_cash s) total_cash;
               s' = s\<lparr>sh_end_time := Some (now e), sh_status := ''closed'', sh_total_sales_cash := total_cash,
                      sh_total_sales_credit := total_credit, sh_expected_cash := expected,
                      sh_actual_cash_collected := Some (hu_actual_cash_collected data),
                      sh_difference := Some (fsub (hu_actual_cash_collected data) expected),
                      sh_notes := (if truthy (hu_notes data) then hu_notes data else sh_notes s)\<rparr>
           in Inr (s', audit e u ''shifts'' ''shifts.close'' ''shift'' (Some (sh_id s)) (Some (sh_station_id s))
                [(''expected_cash'', JFloat expected), (''actual_cash_collected'', JFloat (hu_actual_cash_collected data)),
                 (''difference'', JFloat (fsub (hu_actual_cash_collected data) expected))]
                (d\<lparr>shifts := put_row sh_id s' (shifts d)\<rparr>)))"

definition ensure_shift_access :: "shift \<Rightarrow> user \<Rightarrow> unit res" where
  "ensure_shift_access s u = station_guard u (sh_station_id s) ''Not authorized for this shift''"

section \<open>The routes\<close>

definition open_shift :: "env \<Rightarrow> db \<Rightarrow> shift_create \<Rightarrow> user \<Rightarrow> (shift \<times> db) res" where
  "open_shift e d data u =
     check (require_permission u ''shifts'' ''open'' ''You do not have permission to open shifts'') (create_shift e d data u)"

definition route_close_shift :: "env \<Rightarrow> db \<Rightarrow> int \<Rightarrow> shift_update \<Rightarrow> user \<Rightarrow> (shift \<times> db) res" where
  "route_close_shift e d i data u =
     (case get_row sh_id (shifts d) i of None \<Rightarrow> http 404 ''Shift not found'' | Some s \<Rightarrow>
      check (require_permission u ''shifts'' ''close'' ''You do not have permission to close shifts'')
      (close_shift e d s data u))"

definition list_shifts :: "db \<Rightarrow> user \<Rightarrow> int option \<Rightarrow> int option \<Rightarrow> string option \<Rightarrow> nat \<Rightarrow> nat \<Rightarrow> shift list" where
  "list_shifts d u station_id user_id status skip limit =
     page skip limit (sort_key (\<lambda>s. - sh_start_time s) (filter (\<lambda>s.
       selects (own_station u station_id) (sh_station_id s) \<and> selects user_id (sh_user_id s)
       \<and> (truthy status \<longrightarrow> Some (sh_status s) = status)) (shifts d)))"

definition get_shift :: "db \<Rightarrow> int \<Rightarrow> user \<Rightarrow> shift res" where
  "get_shift d i u =
     (case get_row sh_id (shifts d) i of None \<Rightarrow> http 404 ''Shift not found'' | Some s \<Rightarrow>
      check (ensure_shift_access s u) (Inr s))"

section \<open>At most one open shift\<close>








text \<open>
  Closing a shift counts it: the expected cash is the initial cash plus the unreversed cash sales
  of the shift, the difference is what was counted minus that, and recording it changes no other
  shift and no sale.
\<close>

theorem close_shift_reconciles:
  assumes "close_shift e d s data u = Inr (s', d')" and "get_row sh_id (shifts d) (sh_id s) = Some s"
  shows "sh_expected_cash s' = fadd (sh_initial_cash s) (fsum (map fs_total_amount (filter (\<lambda>f.
          fs_shift_id f = Some (sh_id s) \<and> \<not> is_reversed (fs_reversal f) \<and> fs_sale_type f = ''cash'') (fuel_sales d))))
    \<and> sh_difference s' = Some (fsub (hu_actual_cash_collected data) (sh_expected_cash s'))
    \<and> sh_end_time s' = Some (now e) \<and> fuel_sales d' = fuel_sales d
    \<and> (\<forall>i. get_row sh_id (shifts d') i = (if i = sh_id s then Some s' else get_row sh_id (shifts d) i))"
  using assms by (auto simp: close_shift_def res_simps Let_def audit_def shift_sales_def get_put_row)

definition sample_shift :: shift where
  "sample_shift = \<lparr>sh_id = 1, sh_station_id = 1, sh_user_id = 4, sh_start_time = 0, sh_end_time = None, sh_status = ''open'',
     sh_initial_cash = 50, sh_total_sales_cash = 0, sh_total_sales_credit = 0, sh_expected_cash = 50,
     sh_actual_cash_collected = None, sh_difference = None, sh_notes = None\<rparr>"

definition sample_sale :: fuel_sale where
  "sample_sale = \<lparr>fs_id = 1, fs_nozzle_id = 1, fs_station_id = 1, fs_fuel_type_id = 1, fs_customer_id = None,
     fs_opening_meter = 0, fs_closing_meter = 100, fs_quantity = 100, fs_rate_per_liter = 2, fs_total_amount = 200,
     fs_sale_type = ''cash'', fs_shift_name = None, fs_shift_id = Some 1, fs_reversal = no_reversal, fs_created_at = 0\<rparr>"

theorem close_shift_reconciles_witness:
  "\<exists>s' d'. close_shift sample_env (sample_db\<lparr>shifts := [sample_shift], fuel_sales := [sample_sale]\<rparr>) sample_shift
       \<lparr>hu_actual_cash_collected = 240, hu_notes = None\<rparr> sample_operator = Inr (s', d')
     \<and> sh_difference s' = Some (fsub 240 (fadd 50 (fsum [200])))"
proof -
  let ?d = "sample_db\<lparr>shifts := [sample_shift], fuel_sales := [sample_sale]\<rparr>"
  let ?data = "\<lparr>hu_actual_cash_collected = 240, hu_notes = None\<rparr>"
  have "\<not> isl (close_shift sample_env ?d sample_shift ?data sample_operator)" by code_simp
  then obtain s' d' where C: "close_shift sample_env ?d sample_shift ?data sample_operator = Inr (s', d')"
    by (metis not_isl_pair)
  have "get_row sh_id (shifts ?d) (sh_id sample_shift) = Some sample_shift" by code_simp
  from close_shift_reconciles [OF C this] C show ?thesis
    by (auto simp: sample_shift_def sample_sale_def no_reversal_def)
qed

end
