(* ===== verification/Customers.thy ===== *)
theory Customers
  imports FuelSales Assets
begin

text \<open>
  \<open>app/services/customers.py\<close> and \<open>app/api/customer.py\<close>: the customers of a station and the
  credit override, an extra credit that is requested for a customer and approved or rejected.
\<close>

record customer_create =
  ce_name :: string
  ce_code :: string
  ce_customer_type :: string
  ce_phone :: "string option"
  ce_address :: "string option"
  ce_credit_limit :: pyfloat
  ce_station_id :: int

record customer_update =
  \<comment> \<open>the schema also lets a client clear \<open>customer_type\<close> and \<open>credit_limit\<close>; these columns are never \<open>NULL\<close> here\<close>
  cx_name :: "string option patch"
  cx_customer_type :: "string patch"
  cx_phone :: "string option patch"
  cx_address :: "string option patch"
  cx_credit_limit :: "pyfloat patch"

record credit_override_request =
  co_amount :: pyfloat
  co_reason :: "string option"

definition ensure_customer_scope :: "db \<Rightarrow> customer \<Rightarrow> user \<Rightarrow> unit res" where
  "ensure_customer_scope d c u =
     (if is_admin u then ok
      else if is_head_office_user u then
        (case get_row st_id (stations d) (cu_station_id c) of
           None \<Rightarrow> http 403 ''Not authorized for this customer''
         | Some s \<Rightarrow> if st_organization_id s = get_user_organization_id d u then ok
                     else http 403 ''Not authorized for this customer'')
      else if u_station_id u \<noteq> Some (cu_station_id c) then http 403 ''Not authorized for this customer''
      else ok)"

definition create_customer :: "db \<Rightarrow> customer_create \<Rightarrow> user \<Rightarrow> (customer \<times> db) res" where
  "create_customer d data u =
     check (station_guard u (ce_station_id data) ''Not authorized for this station'')
     (if find (\<lambda>c. cu_code c = ce_code data) (customers d) \<noteq> None then http 400 ''Customer code already exists''
      else if get_row st_id (stations d) (ce_station_id data) = None then http 404 ''Station not found''
      else let c = \<lparr>cu_id = next_id cu_id (customers d), cu_name = ce_name data, cu_code = ce_code data,
             cu_customer_type = ce_customer_type data, cu_phone = ce_phone data, cu_address = ce_address data,
             cu_credit_limit = ce_credit_limit data, cu_outstanding_balance = 0, cu_override_status = None,
             cu_override_amount = 0, cu_override_requested_amount = 0, cu_override_requested_at = None,
             cu_override_requested_by = None, cu_override_reason = None, cu_override_reviewed_at = None,
             cu_override_reviewed_by = None, cu_override_rejection_reason = None, cu_station_id = ce_station_id data\<rparr>
           in Inr (c, d\<lparr>customers := add_row c (customers d)\<rparr>))"

definition update_customer :: "customer \<Rightarrow> customer_update \<Rightarrow> db \<Rightarrow> (customer \<times> db) res" where
  "update_customer c data d =
     (if is_null (cx_name data) then Inl IntegrityError
      else let c' = c\<lparr>cu_name := assign_value (cx_name data) (cu_name c),
             cu_customer_type := assign (cx_customer_type data) (cu_customer_type c),
             cu_phone := assign (cx_phone data) (cu_phone c), cu_address := assign (cx_address data) (cu_address c),
             cu_credit_limit := assign (cx_credit_limit data) (cu_credit_limit c)\<rparr>
           in Inr (c', d\<lparr>customers := put_row cu_id c' (customers d)\<rparr>))"

definition audit_override :: "env \<Rightarrow> user \<Rightarrow> string \<Rightarrow> customer \<Rightarrow> pyfloat \<Rightarrow> string option \<Rightarrow> db \<Rightarrow> db" where
  "audit_override e u action c amount reason =
     audit e u ''customers'' action ''customer'' (Some (cu_id c)) (Some (cu_station_id c))
       [(''amount'', JFloat amount), (''reason'', jopt reason)]"

definition request_credit_override ::
  "env \<Rightarrow> db \<Rightarrow> customer \<Rightarrow> credit_override_request \<Rightarrow> user \<Rightarrow> (customer \<times> db) res" where
  "request_credit_override e d c data u =
     check (ensure_customer_scope d c u)
     (if co_amount data \<le> 0 then http 400 ''Override amount must be greater than 0''
      else let c' = c\<lparr>cu_override_status := Some ''pending'', cu_override_requested_amount := co_amount data,
             cu_override_requested_at := Some (now e), cu_override_requested_by := Some (u_id u),
             cu_override_reason := co_reason data, cu_override_reviewed_at := None, cu_override_reviewed_by := None,
             cu_override_rejection_reason := None\<rparr>
           in Inr (c', audit_override e u ''customers.request_credit_override'' c (co_amount data) (co_reason data)
                (d\<lparr>customers := put_row cu_id c' (customers d)\<rparr>)))"

definition approve_credit_override ::
  "env \<Rightarrow> db \<Rightarrow> customer \<Rightarrow> credit_override_request \<Rightarrow> user \<Rightarrow> (customer \<times> db) res" where
  "approve_credit_override e d c data u =
     check (ensure_customer_scope d c u)
     (if cu_override_status c \<noteq> Some ''pending'' then http 400 ''Customer credit override is not pending approval''
      else let c' = c\<lparr>cu_override_status := Some ''approved'', cu_override_amount := cu_override_requested_amount c,
             cu_override_reviewed_at := Some (now e), cu_override_reviewed_by := Some (u_id u),
             cu_override_rejection_reason := None\<rparr>
           in Inr (c', audit_override e u ''customers.approve_credit_override'' c (cu_override_amount c') (co_reason data)
                (d\<lparr>customers := put_row cu_id c' (customers d)\<rparr>)))"

definition reject_credit_override ::
  "env \<Rightarrow> db \<Rightarrow> customer \<Rightarrow> credit_override_request \<Rightarrow> user \<Rightarrow> (customer \<times> db) res" where
  "reject_credit_override e d c data u =
     check (ensure_customer_scope d c u)
     (if cu_override_status c \<noteq> Some ''pending'' then http 400 ''Customer credit override is not pending approval''
      else let c' = c\<lparr>cu_override_status := Some ''rejected'', cu_override_amount := 0,
             cu_override_reviewed_at := Some (now e), cu_override_reviewed_by := Some (u_id u),
             cu_override_rejection_reason := co_reason data\<rparr>
           in Inr (c', audit_override e u ''customers.reject_credit_override'' c (cu_override_requested_amount c) (co_reason data)
                (d\<lparr>customers := put_row cu_id c' (customers d)\<rparr>)))"

section \<open>The routes\<close>

definition route_create_customer :: "db \<Rightarrow> customer_create \<Rightarrow> user \<Rightarrow> (customer \<times> db) res" where
  "route_create_customer d data u =
     check (require_permission u ''customers'' ''create'' ''You do not have permission to create customers'')
     (create_customer d data u)"

definition list_customers :: "db \<Rightarrow> user \<Rightarrow> int option \<Rightarrow> string option \<Rightarrow> string option \<Rightarrow> nat \<Rightarrow> nat \<Rightarrow> customer list" where
  "list_customers d u station_id customer_type search skip limit =
     page skip limit (filter (\<lambda>c. selects (own_station u station_id) (cu_station_id c)
       \<and> (truthy customer_type \<longrightarrow> customer_type = Some (cu_customer_type c))
       \<and> (truthy search \<longrightarrow> ilike (the search) (cu_name c) \<or> ilike (the search) (cu_code c))) (customers d))"

definition with_customer :: "db \<Rightarrow> int \<Rightarrow> (customer \<Rightarrow> 'a res) \<Rightarrow> 'a res" where
  "with_customer d i f = (case get_row cu_id (customers d) i of None \<Rightarrow> http 404 ''Customer not found'' | Some c \<Rightarrow> f c)"

definition get_customer :: "db \<Rightarrow> int \<Rightarrow> user \<Rightarrow> customer res" where
  "get_customer d i u = with_customer d i (\<lambda>c.
     check (require_station_access u (cu_station_id c) ''Not authorized for this customer'') (Inr c))"

definition route_update_customer :: "db \<Rightarrow> int \<Rightarrow> customer_update \<Rightarrow> user \<Rightarrow> (customer \<times> db) res" where
  "route_update_customer d i data u = with_customer d i (\<lambda>c.
     check (require_station_access u (cu_station_id c) ''Not authorized for this customer'')
     (check (require_permission u ''customers'' ''update'' ''You do not have permission to update customers'')
     (update_customer c data d)))"

definition delete_customer :: "db \<Rightarrow> int \<Rightarrow> user \<Rightarrow> db res" where
  "delete_customer d i u = with_customer d i (\<lambda>c.
     check (require_station_access u (cu_station_id c) ''Not authorized for this customer'')
     (check (require_permission u ''customers'' ''delete'' ''You do not have permission to delete customers'')
     (if find (\<lambda>f. fs_customer_id f = Some (cu_id c)) (fuel_sales d) \<noteq> None
         \<or> find (\<lambda>p. cp_customer_id p = cu_id c) (customer_payments d) \<noteq> None
      then http 400 ''Customer cannot be deleted while transaction history exists''
      else Inr (d\<lparr>customers := del_row cu_id (cu_id c) (customers d)\<rparr>))))"

definition route_request_credit_override ::
  "env \<Rightarrow> db \<Rightarrow> int \<Rightarrow> credit_override_request \<Rightarrow> user \<Rightarrow> (customer \<times> db) res" where
  "route_request_credit_override e d i data u = with_customer d i (\<lambda>c.
     check (require_station_access u (cu_station_id c) ''Not authorized for this customer'')
     (check (require_permission u ''customers'' ''request_credit_override'' ''You do not have permission to request credit overrides'')
     (request_credit_override e d c data u)))"

definition route_approve_credit_override ::
  "env \<Rightarrow> db \<Rightarrow> int \<Rightarrow> credit_override_request \<Rightarrow> user \<Rightarrow> (customer \<times> db) res" where
  "route_approve_credit_override e d i data u = with_customer d i (\<lambda>c.
     check (require_permission u ''customers'' ''approve_credit_override'' ''You do not have permission to approve credit overrides'')
     (approve_credit_override e d c data u))"

definition route_reject_credit_override ::
  "env \<Rightarrow> db \<Rightarrow> int \<Rightarrow> credit_override_request \<Rightarrow> user \<Rightarrow> (customer \<times> db) res" where
  "route_reject_credit_override e d i data u = with_customer d i (\<lambda>c.
     check (require_permission u ''customers'' ''reject_credit_override'' ''You do not have permission to reject credit overrides'')
     (reject_credit_override e d c data u))"

section \<open>How an override is granted\<close>

text \<open>The steps of a customer's override: the three routes, and what a credit sale uses up.\<close>

datatype override_action =
    RequestOverride user credit_override_request
  | ApproveOverride user credit_override_request
  | RejectOverride user credit_override_request
  | CreditSale pyfloat

fun override_step :: "env \<Rightarrow> int \<Rightarrow> override_action \<Rightarrow> db \<Rightarrow> db res" where
  "override_step e i (RequestOverride u data) d = outcome (route_request_credit_override e d i data u)"
| "override_step e i (ApproveOverride u data) d = outcome (route_approve_credit_override e d i data u)"
| "override_step e i (RejectOverride u data) d = outcome (route_reject_credit_override e d i data u)"
| "override_step e i (CreditSale amount) d = with_customer d i (\<lambda>c.
     case charge_credit c amount of Inl x \<Rightarrow> Inl x | Inr c' \<Rightarrow> Inr (d\<lparr>customers := put_row cu_id c' (customers d)\<rparr>))"

definition floats_only :: "override_action \<Rightarrow> bool" where
  \<comment> \<open>the amount of a request is a binary64 number, as every amount is\<close>
  "floats_only a \<longleftrightarrow> (case a of RequestOverride u data \<Rightarrow> is_float (co_amount data) | _ \<Rightarrow> True)"

inductive override_history :: "int \<Rightarrow> db \<Rightarrow> override_action list \<Rightarrow> db \<Rightarrow> bool" where
  start: "override_history i d [] d"
| step: "override_history i d h d1 \<Longrightarrow> floats_only a \<Longrightarrow> override_step e i a d1 = Inr d2 \<Longrightarrow> override_history i d (h @ [a]) d2"

definition override_of :: "int \<Rightarrow> db \<Rightarrow> (string option \<times> pyfloat \<times> pyfloat) option" where
  "override_of i d = map_option (\<lambda>c. (cu_override_status c, cu_override_amount c, cu_override_requested_amount c))
     (get_row cu_id (customers d) i)"

definition may_request :: "user \<Rightarrow> bool" where
  "may_request u \<longleftrightarrow> require_permission u ''customers'' ''request_credit_override'' [] = ok"

definition may_approve :: "user \<Rightarrow> bool" where
  "may_approve u \<longleftrightarrow> require_permission u ''customers'' ''approve_credit_override'' [] = ok"

definition granted_by :: "override_action list \<Rightarrow> pyfloat \<Rightarrow> bool" where
  \<comment> \<open>the history holds a request of at least this amount, later followed by an approval\<close>
  "granted_by h x \<longleftrightarrow> (\<exists>h1 h2 h3 u data v data'. h = h1 @ RequestOverride u data # h2 @ ApproveOverride v data' # h3
     \<and> x \<le> co_amount data \<and> may_request u \<and> may_approve v \<and> (role_of u \<noteq> role_of v \<or> is_admin u \<or> is_admin v))"

definition requested_by :: "override_action list \<Rightarrow> pyfloat \<Rightarrow> bool" where
  "requested_by h x \<longleftrightarrow> (\<exists>h1 h2 u data. h = h1 @ RequestOverride u data # h2 \<and> co_amount data = x \<and> may_request u)"

lemma granted_by_append: "granted_by h x \<Longrightarrow> granted_by (h @ k) x"
  unfolding granted_by_def by (metis append_Cons append_assoc)

lemma granted_by_less: "granted_by h x \<Longrightarrow> y \<le> x \<Longrightarrow> granted_by h y"
  unfolding granted_by_def using order_trans by blast

lemma requested_by_append: "requested_by h x \<Longrightarrow> requested_by (h @ k) x"
  unfolding requested_by_def by (metis append_Cons append_assoc)

lemma requested_by_last: "may_request u \<Longrightarrow> requested_by (h @ [RequestOverride u data]) (co_amount data)"
  unfolding requested_by_def by blast

lemma granted_by_last:
  assumes "requested_by h x" "may_approve v" shows "granted_by (h @ [ApproveOverride v data']) x"
proof -
  from assms(1) obtain h1 h2 u data where "h = h1 @ RequestOverride u data # h2" "co_amount data = x" "may_request u"
    unfolding requested_by_def by blast
  moreover from this(3) assms(2) have "role_of u \<noteq> role_of v \<or> is_admin u \<or> is_admin v"
    using duties_separated [of "''customers''" "''request_credit_override''" "''approve_credit_override''" u "[]" v "[]"]
    by (auto simp: may_request_def may_approve_def dual_control_def)
  ultimately have "h @ [ApproveOverride v data'] = h1 @ RequestOverride u data # h2 @ ApproveOverride v data' # []"
    "x \<le> co_amount data" "may_request u" "may_approve v" "role_of u \<noteq> role_of v \<or> is_admin u \<or> is_admin v"
    using assms(2) by simp_all
  then show ?thesis unfolding granted_by_def by blast
qed

lemma charge_credit_override:
  assumes "charge_credit c amount = Inr c'"
  shows "cu_override_status c' = cu_override_status c \<or> cu_override_status c' = None"
    "cu_override_amount c' = cu_override_amount c \<or>
       cu_override_amount c' = max (fsub (cu_override_amount c) (fsub (fadd (cu_outstanding_balance c) amount) (cu_credit_limit c))) 0
         \<and> cu_credit_limit c < fadd (cu_outstanding_balance c) amount"
    "cu_override_requested_amount c' = cu_override_requested_amount c \<or> cu_override_requested_amount c' = 0"
    "cu_id c' = cu_id c"
  using assms by (auto simp: charge_credit_def Let_def split: if_splits)


definition override_justified :: "override_action list \<Rightarrow> customer \<Rightarrow> bool" where
  "override_justified h c \<longleftrightarrow> is_float (cu_override_amount c) \<and> is_float (cu_override_requested_amount c)
     \<and> (0 < cu_override_amount c \<longrightarrow> granted_by h (cu_override_amount c))
     \<and> (0 < cu_override_requested_amount c \<longrightarrow> requested_by h (cu_override_requested_amount c))"

lemma override_step_justified:
  assumes "override_step e i a d = Inr d'" "floats_only a"
    and "\<And>c. get_row cu_id (customers d) i = Some c \<Longrightarrow> override_justified h c"
    and "get_row cu_id (customers d') i = Some c'"
  shows "override_justified (h @ [a]) c'"
proof -
  from assms(1) obtain c where c: "get_row cu_id (customers d) i = Some c"
    by (cases a) (auto simp: with_customer_def route_request_credit_override_def route_approve_credit_override_def
        route_reject_credit_override_def outcome_Inr split: option.splits)
  then have id: "cu_id c = i" by (auto dest: get_row_Some)
  note J = assms(3) [OF c] and U = with_customer_def c res_simps Let_def audit_override_def audit_def get_put_row id
  show ?thesis
  proof (cases a)
    case (RequestOverride u data)
    with assms(1,4) have "may_request u"
        "c' = c\<lparr>cu_override_status := Some ''pending'', cu_override_requested_amount := co_amount data,
             cu_override_requested_at := Some (now e), cu_override_requested_by := Some (u_id u),
             cu_override_reason := co_reason data, cu_override_reviewed_at := None, cu_override_reviewed_by := None,
             cu_override_rejection_reason := None\<rparr>"
      by (auto simp: U route_request_credit_override_def request_credit_override_def may_request_def)
    with J assms(2) RequestOverride show ?thesis
      by (auto simp: override_justified_def floats_only_def granted_by_append requested_by_last)
  next
    case (ApproveOverride u data)
    with assms(1,4) have "may_approve u"
        "c' = c\<lparr>cu_override_status := Some ''approved'', cu_override_amount := cu_override_requested_amount c,
             cu_override_reviewed_at := Some (now e), cu_override_reviewed_by := Some (u_id u),
             cu_override_rejection_reason := None\<rparr>"
      by (auto simp: U route_approve_credit_override_def approve_credit_override_def may_approve_def)
    with J ApproveOverride show ?thesis
      by (auto simp: override_justified_def granted_by_last requested_by_append)
  next
    case (RejectOverride u data)
    with assms(1,4) have "cu_override_amount c' = 0" "cu_override_requested_amount c' = cu_override_requested_amount c"
      by (auto simp: U route_reject_credit_override_def reject_credit_override_def)
    with J show ?thesis by (auto simp: override_justified_def requested_by_append)
  next
    case (CreditSale amount)
    with assms(1) obtain c1 where ch: "charge_credit c amount = Inr c1" "d' = d\<lparr>customers := put_row cu_id c1 (customers d)\<rparr>"
      by (auto simp: U)
    note C = charge_credit_override [OF ch(1)]
    have "c' = c1" using assms(4) ch(2) C(4) by (simp add: U)
    moreover have "cu_override_amount c1 \<le> cu_override_amount c \<or> cu_override_amount c1 = 0" "is_float (cu_override_amount c1)"
      using C(2) J fsub_le [of "cu_override_amount c" "cu_override_amount c"] fsub_nonneg
      by (auto simp: override_justified_def max_def)
    ultimately show ?thesis using J C(3)
      by (auto simp: override_justified_def intro!: granted_by_append requested_by_append intro: granted_by_less)
  qed
qed


text \<open>
  C9. Extra credit never appears by itself. Along every history of the override routes and of
  credit sales to a customer who starts without an override, an override in force was requested by
  someone who may request overrides, for at least that amount, and approved afterwards by someone
  who may approve them; the two have different roles unless an administrator is involved.
\<close>

theorem credit_override_granted:
  assumes "override_history i d h d'" and "override_of i d = Some (None, 0, 0)"
    and "override_of i d' = Some (status, amount, requested)" and "0 < amount"
  shows "granted_by h amount"
proof -
  have "\<And>c'. get_row cu_id (customers d') i = Some c' \<Longrightarrow> override_justified h c'"
    using assms(1,2)
  proof (induction rule: override_history.induct)
    case (start i d)
    then show ?case by (auto simp: override_of_def override_justified_def)
  next
    case (step i d h d1 a e d2)
    then show ?case using override_step_justified [OF step.hyps(3,2)] by blast
  qed
  with assms(3,4) show ?thesis by (auto simp: override_of_def override_justified_def)
qed

theorem credit_override_granted_witness:
  "\<exists>d2. override_history 1 sample_db
       [RequestOverride sample_manager \<lparr>co_amount = 300, co_reason = None\<rparr>,
        ApproveOverride sample_admin \<lparr>co_amount = 0, co_reason = None\<rparr>] d2
    \<and> override_of 1 d2 = Some (Some ''approved'', 300, 300)
    \<and> granted_by [RequestOverride sample_manager \<lparr>co_amount = 300, co_reason = None\<rparr>,
        ApproveOverride sample_admin \<lparr>co_amount = 0, co_reason = None\<rparr>] 300"
proof -
  let ?a = "RequestOverride sample_manager \<lparr>co_amount = 300, co_reason = None\<rparr>"
  let ?b = "ApproveOverride sample_admin \<lparr>co_amount = 0, co_reason = None\<rparr>"
  let ?r = "override_step sample_env 1 ?a sample_db"
  let ?s = "override_step sample_env 1 ?b (projr ?r)"
  have F: "\<not> isl ?r" "\<not> isl ?s" "floats_only ?a" "floats_only ?b"
    and O: "override_of 1 sample_db = Some (None, 0, 0)" "override_of 1 (projr ?s) = Some (Some ''approved'', 300, 300)"
    by code_simp+
  have "override_history 1 sample_db ([] @ [?a]) (projr ?r)"
    using F(1) by (intro override_history.step [OF override_history.start F(3), of sample_env]) (cases ?r; simp)
  then have "override_history 1 sample_db (([] @ [?a]) @ [?b]) (projr ?s)"
    using F(2) by (intro override_history.step [OF _ F(4), of _ _ _ _ sample_env]) (assumption | (cases ?s; simp))+
  then have H: "override_history 1 sample_db [?a, ?b] (projr ?s)" by simp
  from credit_override_granted [OF H O] H O show ?thesis by auto
qed

text \<open>
  An override is decided once: the override of a customer is approved or rejected only while a
  request is pending, an approval puts exactly the requested amount in force and a rejection
  removes any override, and after either decision no further one succeeds without a new request.
\<close>

theorem credit_override_decided_once:
  "(\<forall>c' d'. approve_credit_override e d c data u = Inr (c', d') \<longrightarrow>
       cu_override_status c = Some ''pending'' \<and> cu_override_amount c' = cu_override_requested_amount c
       \<and> isl (approve_credit_override e' d' c' data' v) \<and> isl (reject_credit_override e' d' c' data' v))
   \<and> (\<forall>c' d'. reject_credit_override e d c data u = Inr (c', d') \<longrightarrow>
       cu_override_status c = Some ''pending'' \<and> cu_override_amount c' = 0
       \<and> isl (approve_credit_override e' d' c' data' v) \<and> isl (reject_credit_override e' d' c' data' v))"
  by (auto simp: approve_credit_override_def reject_credit_override_def res_simps Let_def check_def split: sum.splits)

theorem credit_override_decided_once_witness:
  "\<exists>c' d'. approve_credit_override sample_env sample_db (sample_customer\<lparr>cu_override_status := Some ''pending'',
        cu_override_requested_amount := 70\<rparr>) \<lparr>co_amount = 0, co_reason = None\<rparr> sample_admin = Inr (c', d')
     \<and> cu_override_amount c' = 70 \<and> isl (approve_credit_override sample_env d' c' \<lparr>co_amount = 0, co_reason = None\<rparr> sample_admin)"
proof -
  let ?c = "sample_customer\<lparr>cu_override_status := Some ''pending'', cu_override_requested_amount := 70\<rparr>"
  let ?data = "\<lparr>co_amount = 0, co_reason = None\<rparr>"
  have "\<not> isl (approve_credit_override sample_env sample_db ?c ?data sample_admin)" by code_simp
  then obtain c' d' where A: "approve_credit_override sample_env sample_db ?c ?data sample_admin = Inr (c', d')"
    by (metis not_isl_pair)
  with credit_override_decided_once [of sample_env sample_db ?c ?data sample_admin sample_env ?data sample_admin]
  show ?thesis by auto
qed

section \<open>The books\<close>

lemma request_credit_override_books:
  assumes "request_credit_override e d c data u = Inr (c', d')" "books_ok d" "customer_ok c" "is_float (co_amount data)"
  shows "books_ok d'"
  using assms by (auto simp: request_credit_override_def res_simps Let_def audit_override_def audit_def books_ok_def customer_ok_def)

lemma create_customer_books: "create_customer d data u = Inr (c, d') \<Longrightarrow> books_ok d \<Longrightarrow> books_ok d'"
  by (auto simp: create_customer_def res_simps Let_def books_ok_def customer_ok_def)

lemma update_customer_books: "update_customer c data d = Inr (c', d') \<Longrightarrow> books_ok d \<Longrightarrow> customer_ok c \<Longrightarrow> books_ok d'"
  by (auto simp: update_customer_def res_simps Let_def books_ok_def customer_ok_def)

lemma reject_credit_override_books:
  "reject_credit_override e d c data u = Inr (c', d') \<Longrightarrow> books_ok d \<Longrightarrow> customer_ok c \<Longrightarrow> books_ok d'"
  by (auto simp: reject_credit_override_def res_simps Let_def audit_override_def audit_def books_ok_def customer_ok_def)

lemma approve_credit_override_books:
  "approve_credit_override e d c data u = Inr (c', d') \<Longrightarrow> books_ok d \<Longrightarrow> customer_ok c \<Longrightarrow> books_ok d'"
  by (auto simp: approve_credit_override_def res_simps Let_def audit_override_def audit_def books_ok_def customer_ok_def)

end
