(* ===== verification/Expenses.thy ===== *)
theory Expenses
  imports Assets
begin

text \<open>
  \<open>app/services/expenses.py\<close> and \<open>app/api/expense.py\<close>: expenses are submitted, corrected or
  withdrawn while pending, and approved or rejected.
\<close>

record expense_create =
  xc_title :: string
  xc_category :: string
  xc_amount :: pyfloat
  xc_notes :: "string option"
  xc_station_id :: int

record expense_update =
  xu_title :: "string option patch"
  xu_category :: "string option patch"
  xu_amount :: "pyfloat option patch"
  xu_notes :: "string option patch"

definition get_station_or_404 :: "db \<Rightarrow> int \<Rightarrow> station res" where
  "get_station_or_404 d i = (case get_row st_id (stations d) i of None \<Rightarrow> http 404 ''Station not found'' | Some s \<Rightarrow> Inr s)"

definition ensure_expense_read_access :: "db \<Rightarrow> expense \<Rightarrow> user \<Rightarrow> unit res" where
  "ensure_expense_read_access d x u =
     (case get_station_or_404 d (ex_station_id x) of Inl err \<Rightarrow> Inl err | Inr s \<Rightarrow>
      if is_admin u then ok
      else if is_head_office_user u then
        (if st_organization_id s \<noteq> get_user_organization_id d u then http 403 ''Not authorized for this expense'' else ok)
      else if u_station_id u \<noteq> Some (ex_station_id x) then http 403 ''Not authorized for this expense''
      else ok)"

definition ensure_expense_approval_access :: "db \<Rightarrow> expense \<Rightarrow> user \<Rightarrow> unit res" where
  "ensure_expense_approval_access d x u =
     (case get_station_or_404 d (ex_station_id x) of Inl err \<Rightarrow> Inl err | Inr s \<Rightarrow>
      if is_admin u then ok
      else if is_head_office_user u \<and> st_organization_id s = get_user_organization_id d u then ok
      else http 403 ''You do not have permission to approve expenses'')"

definition audit_expense :: "env \<Rightarrow> user \<Rightarrow> string \<Rightarrow> expense \<Rightarrow> jobject \<Rightarrow> db \<Rightarrow> db" where
  "audit_expense e u action x = audit e u ''expenses'' action ''expense'' (Some (ex_id x)) (Some (ex_station_id x))"

definition expense_notice :: "station \<Rightarrow> expense \<Rightarrow> string \<Rightarrow> string \<Rightarrow> fstring \<Rightarrow> notice" where
  "expense_notice s x event_type title message =
     \<lparr>nt_station_id = Some (ex_station_id x), nt_organization_id = st_organization_id s, nt_event_type = event_type,
      nt_title = title, nt_message = message, nt_entity_type = Some ''expense'', nt_entity_id = Some (ex_id x)\<rparr>"

definition create_expense :: "env \<Rightarrow> db \<Rightarrow> expense_create \<Rightarrow> user \<Rightarrow> (expense \<times> db) res" where
  "create_expense e d data u =
     (case get_station_or_404 d (xc_station_id data) of Inl err \<Rightarrow> Inl err | Inr s \<Rightarrow>
      check (station_guard u (xc_station_id data) ''Not authorized for this station'')
      (if xc_amount data \<le> 0 then http 400 ''Expense amount must be greater than 0''
       else let x = \<lparr>ex_id = next_id ex_id (expenses d), ex_title = xc_title data, ex_category = xc_category data,
              ex_amount = xc_amount data, ex_notes = xc_notes data, ex_station_id = xc_station_id data,
              ex_status = (if is_admin u then ''approved'' else ''pending''), ex_submitted_by_user_id = Some (u_id u),
              ex_approved_by_user_id = (if is_admin u then Some (u_id u) else None),
              ex_approved_at = (if is_admin u then Some (now e) else None), ex_rejected_at = None,
              ex_rejection_reason = None, ex_created_at = now e\<rparr>;
                d1 = audit_expense e u ''expenses.create'' x
                  [(''title'', JStr (ex_title x)), (''amount'', JFloat (ex_amount x)), (''category'', JStr (ex_category x)),
                   (''status'', JStr (ex_status x)), (''organization_id'', jint (st_organization_id s))]
                  (d\<lparr>expenses := add_row x (expenses d)\<rparr>)
            in Inr (x, if is_admin u then d1
                 else notify_approval_requested e u
                   (expense_notice s x ''expense.pending_approval'' ''Expense approval requested''
                      [T (u_full_name u), T ('' submitted expense '' @ [CHR 0x27]), T (ex_title x), T (CHR 0x27 # '' for approval.'')]) d1)))"

definition update_expense :: "env \<Rightarrow> db \<Rightarrow> expense \<Rightarrow> expense_update \<Rightarrow> user \<Rightarrow> (expense \<times> db) res" where
  "update_expense e d x data u =
     (if ex_status x \<noteq> ''pending'' then http 400 ''Only pending expenses can be updated''
      else if (case xu_amount data of Set (Some a) \<Rightarrow> a \<le> 0 | _ \<Rightarrow> False)
      then http 400 ''Expense amount must be greater than 0''
      else if is_null (xu_title data) \<or> is_null (xu_category data) \<or> is_null (xu_amount data) then Inl IntegrityError
      else let x' = x\<lparr>ex_title := assign_value (xu_title data) (ex_title x),
             ex_category := assign_value (xu_category data) (ex_category x),
             ex_amount := assign_value (xu_amount data) (ex_amount x), ex_notes := assign (xu_notes data) (ex_notes x),
             ex_rejected_at := None, ex_rejection_reason := None\<rparr>
           in Inr (x', audit_expense e u ''expenses.update'' x
                (patch_details ''title'' JStr (xu_title data) @ patch_details ''category'' JStr (xu_category data)
                 @ patch_details ''amount'' JFloat (xu_amount data) @ patch_details ''notes'' JStr (xu_notes data))
                (d\<lparr>expenses := put_row ex_id x' (expenses d)\<rparr>)))"

definition approve_expense :: "env \<Rightarrow> db \<Rightarrow> expense \<Rightarrow> user \<Rightarrow> string option \<Rightarrow> (expense \<times> db) res" where
  "approve_expense e d x u reason =
     (if ex_status x = ''approved'' then http 400 ''Expense is already approved''
      else check (ensure_expense_approval_access d x u)
      (case get_station_or_404 d (ex_station_id x) of Inl err \<Rightarrow> Inl err | Inr s \<Rightarrow>
       let x' = x\<lparr>ex_status := ''approved'', ex_approved_by_user_id := Some (u_id u), ex_approved_at := Some (now e),
                  ex_rejected_at := None, ex_rejection_reason := None\<rparr>;
           d1 = audit_expense e u ''expenses.approve'' x [(''reason'', jopt reason)]
                  (d\<lparr>expenses := put_row ex_id x' (expenses d)\<rparr>)
       in Inr (x', notify_decision e (ex_submitted_by_user_id x) u
            (expense_notice s x ''expense.approved'' ''Expense approved''
               [T (''Expense '' @ [CHR 0x27]), T (ex_title x), T (CHR 0x27 # '' was approved.'')]) d1)))"

definition reject_expense :: "env \<Rightarrow> db \<Rightarrow> expense \<Rightarrow> user \<Rightarrow> string option \<Rightarrow> (expense \<times> db) res" where
  "reject_expense e d x u reason =
     (if ex_status x = ''approved'' then http 400 ''Approved expenses cannot be rejected''
      else check (ensure_expense_approval_access d x u)
      (case get_station_or_404 d (ex_station_id x) of Inl err \<Rightarrow> Inl err | Inr s \<Rightarrow>
       let x' = x\<lparr>ex_status := ''rejected'', ex_approved_by_user_id := None, ex_approved_at := None,
                  ex_rejected_at := Some (now e), ex_rejection_reason := reason\<rparr>;
           d1 = audit_expense e u ''expenses.reject'' x [(''reason'', jopt reason)]
                  (d\<lparr>expenses := put_row ex_id x' (expenses d)\<rparr>)
       in Inr (x', notify_decision e (ex_submitted_by_user_id x) u
            (expense_notice s x ''expense.rejected'' ''Expense rejected''
               [T (''Expense '' @ [CHR 0x27]), T (ex_title x), T (CHR 0x27 # '' was rejected.'')]) d1)))"

section \<open>The routes\<close>

definition route_create_expense :: "env \<Rightarrow> db \<Rightarrow> expense_create \<Rightarrow> user \<Rightarrow> (expense \<times> db) res" where
  "route_create_expense e d data u =
     check (require_permission u ''expenses'' ''create'' ''You do not have permission to create expenses'')
     (create_expense e d data u)"

definition list_expenses ::
  "db \<Rightarrow> user \<Rightarrow> int option \<Rightarrow> int option \<Rightarrow> string option \<Rightarrow> string option
     \<Rightarrow> date option \<Rightarrow> date option \<Rightarrow> nat \<Rightarrow> nat \<Rightarrow> expense list res" where
  "list_expenses d u station_id organization_id category status from_date to_date skip limit =
     (let head_office = \<not> is_admin u \<and> is_head_office_user u;
          organization_id = (if head_office then get_user_organization_id d u else organization_id) in
      if is_admin u \<and> station_id \<noteq> None \<and> organization_id \<noteq> None \<and> \<not> station_in d (the station_id) organization_id
      then http 403 ''Station does not belong to the requested organization''
      else if head_office \<and> station_id \<noteq> None \<and> \<not> station_in d (the station_id) organization_id
      then http 403 ''Not authorized for this station''
      else let station_id = (if is_admin u \<or> head_office then station_id else u_station_id u) in
      Inr (page skip limit (sort_key (\<lambda>x. - ex_created_at x) (filter (\<lambda>x.
          (head_office \<longrightarrow> station_in d (ex_station_id x) organization_id
             \<and> (station_id = None \<or> station_id = Some (ex_station_id x)))
          \<and> selects station_id (ex_station_id x)
          \<and> (station_id \<in> set [None, Some 0] \<and> organization_id \<notin> set [None, Some 0] \<and> is_admin u
               \<longrightarrow> station_in d (ex_station_id x) organization_id)
          \<and> (truthy category \<longrightarrow> category = Some (ex_category x)) \<and> (truthy status \<longrightarrow> status = Some (ex_status x))
          \<and> in_window from_date to_date (ex_created_at x)) (expenses d)))))"

definition with_expense :: "db \<Rightarrow> int \<Rightarrow> (expense \<Rightarrow> 'a res) \<Rightarrow> 'a res" where
  "with_expense d i f = (case get_row ex_id (expenses d) i of None \<Rightarrow> http 404 ''Expense not found'' | Some x \<Rightarrow> f x)"

definition get_expense :: "db \<Rightarrow> int \<Rightarrow> user \<Rightarrow> expense res" where
  "get_expense d i u = with_expense d i (\<lambda>x. check (ensure_expense_read_access d x u) (Inr x))"

definition route_update_expense :: "env \<Rightarrow> db \<Rightarrow> int \<Rightarrow> expense_update \<Rightarrow> user \<Rightarrow> (expense \<times> db) res" where
  "route_update_expense e d i data u = with_expense d i (\<lambda>x.
     check (require_station_access u (ex_station_id x) ''Not authorized for this expense'')
     (check (require_permission u ''expenses'' ''update'' ''You do not have permission to update expenses'')
     (update_expense e d x data u)))"

definition delete_expense :: "env \<Rightarrow> db \<Rightarrow> int \<Rightarrow> user \<Rightarrow> db res" where
  "delete_expense e d i u = with_expense d i (\<lambda>x.
     check (require_station_access u (ex_station_id x) ''Not authorized for this expense'')
     (check (require_permission u ''expenses'' ''delete'' ''You do not have permission to delete expenses'')
     (if ex_status x \<noteq> ''pending'' then http 400 ''Only pending expenses can be deleted''
      else Inr (audit_expense e u ''expenses.delete'' x [(''title'', JStr (ex_title x)), (''amount'', JFloat (ex_amount x))]
             (d\<lparr>expenses := del_row ex_id (ex_id x) (expenses d)\<rparr>)))))"

definition route_approve_expense :: "env \<Rightarrow> db \<Rightarrow> int \<Rightarrow> user \<Rightarrow> string option \<Rightarrow> (expense \<times> db) res" where
  "route_approve_expense e d i u reason =
     check (require_permission u ''expenses'' ''approve'' ''You do not have permission to approve expenses'')
     (with_expense d i (\<lambda>x. approve_expense e d x u reason))"

definition route_reject_expense :: "env \<Rightarrow> db \<Rightarrow> int \<Rightarrow> user \<Rightarrow> string option \<Rightarrow> (expense \<times> db) res" where
  "route_reject_expense e d i u reason =
     check (require_permission u ''expenses'' ''reject'' ''You do not have permission to reject expenses'')
     (with_expense d i (\<lambda>x. reject_expense e d x u reason))"

section \<open>The life of an expense\<close>

datatype expense_action =
    CreateExpense user expense_create
  | UpdateExpense user int expense_update
  | DeleteExpense user int
  | ApproveExpense user int "string option"
  | RejectExpense user int "string option"

fun perform_expense :: "env \<Rightarrow> db \<Rightarrow> expense_action \<Rightarrow> db res" where
  "perform_expense e d (CreateExpense u data) = outcome (route_create_expense e d data u)"
| "perform_expense e d (UpdateExpense u i data) = outcome (route_update_expense e d i data u)"
| "perform_expense e d (DeleteExpense u i) = delete_expense e d i u"
| "perform_expense e d (ApproveExpense u i reason) = outcome (route_approve_expense e d i u reason)"
| "perform_expense e d (RejectExpense u i reason) = outcome (route_reject_expense e d i u reason)"

inductive expense_step :: "db \<Rightarrow> expense_action \<Rightarrow> db \<Rightarrow> bool" where
  "perform_expense e d a = Inr d' \<Longrightarrow> expense_step d a d'"

inductive_cases expense_stepE: "expense_step d a d'"

inductive expense_run :: "db \<Rightarrow> db \<Rightarrow> bool" where
  here: "expense_run d d"
| later: "expense_run d d1 \<Longrightarrow> expense_step d1 a d2 \<Longrightarrow> expense_run d d2"

lemma expense_tables:
  "create_expense e d data u = Inr (x', d') \<Longrightarrow>
     expenses d' = add_row x' (expenses d) \<and> ex_id x' = next_id ex_id (expenses d)"
  "update_expense e d x xd u = Inr (x', d') \<Longrightarrow>
     ex_status x \<noteq> ''approved'' \<and> ex_id x' = ex_id x \<and> expenses d' = put_row ex_id x' (expenses d)"
  "approve_expense e d x u reason = Inr (x', d') \<Longrightarrow>
     ex_status x \<noteq> ''approved'' \<and> ex_id x' = ex_id x \<and> expenses d' = put_row ex_id x' (expenses d)"
  "reject_expense e d x u reason = Inr (x', d') \<Longrightarrow>
     ex_status x \<noteq> ''approved'' \<and> ex_id x' = ex_id x \<and> expenses d' = put_row ex_id x' (expenses d)"
  by (auto simp: create_expense_def update_expense_def approve_expense_def reject_expense_def res_simps Let_def
      audit_expense_def comms_updates split: if_splits)

lemma approved_expense_kept:
  assumes "expense_step d a d'" "get_row ex_id (expenses d) i = Some x" "ex_status x = ''approved''"
  shows "get_row ex_id (expenses d') i = Some x"
  using assms(1)
proof (rule expense_stepE)
  fix e assume S: "perform_expense e d a = Inr d'"
  note D = with_expense_def res_simps audit_expense_def audit_def
  show ?thesis
  proof (cases a)
    case (CreateExpense u data)
    with S obtain y where "expenses d' = add_row y (expenses d)" "ex_id y = next_id ex_id (expenses d)"
      by (auto simp: D route_create_expense_def dest!: expense_tables(1))
    then show ?thesis using table.get_add_old [OF _ assms(2), of y] by simp
  next
    case (UpdateExpense u j data)
    with S obtain y y' where "get_row ex_id (expenses d) j = Some y" "ex_status y \<noteq> ''approved''" "ex_id y' = ex_id y"
        "expenses d' = put_row ex_id y' (expenses d)"
      by (auto simp: D route_update_expense_def dest!: expense_tables(2))
    then show ?thesis using assms(2,3) by (auto intro: put_row_other)
  next
    case (DeleteExpense u j)
    with S obtain y where "get_row ex_id (expenses d) j = Some y" "ex_status y \<noteq> ''approved''"
        "expenses d' = del_row ex_id (ex_id y) (expenses d)"
      by (auto simp: D delete_expense_def)
    then show ?thesis using assms(2,3) by (auto intro: del_row_other)
  next
    case (ApproveExpense u j reason)
    with S obtain y y' where "get_row ex_id (expenses d) j = Some y" "ex_status y \<noteq> ''approved''" "ex_id y' = ex_id y"
        "expenses d' = put_row ex_id y' (expenses d)"
      by (auto simp: D route_approve_expense_def dest!: expense_tables(3))
    then show ?thesis using assms(2,3) by (auto intro: put_row_other)
  next
    case (RejectExpense u j reason)
    with S obtain y y' where "get_row ex_id (expenses d) j = Some y" "ex_status y \<noteq> ''approved''" "ex_id y' = ex_id y"
        "expenses d' = put_row ex_id y' (expenses d)"
      by (auto simp: D route_reject_expense_def dest!: expense_tables(4))
    then show ?thesis using assms(2,3) by (auto intro: put_row_other)
  qed
qed

text \<open>
  C10. Approval is final: whatever sequence of submissions, corrections, withdrawals, approvals and
  rejections follows, by anyone, an approved expense stays in the table exactly as it was approved.
\<close>

theorem approved_expense_final:
  assumes "expense_run d d'" and "get_row ex_id (expenses d) i = Some x" and "ex_status x = ''approved''"
  shows "get_row ex_id (expenses d') i = Some x"
  using assms(1,2)
  by (induction rule: expense_run.induct) (auto intro: approved_expense_kept [OF _ _ assms(3)])


definition sample_expense :: expense where
  "sample_expense = \<lparr>ex_id = 1, ex_title = ''Lamp'', ex_category = ''repair'', ex_amount = 40, ex_notes = None,
     ex_station_id = 1, ex_status = ''approved'', ex_submitted_by_user_id = Some 3, ex_approved_by_user_id = Some 1,
     ex_approved_at = Some 0, ex_rejected_at = None, ex_rejection_reason = None, ex_created_at = 0\<rparr>"

theorem approved_expense_final_witness:
  "\<exists>d'. expense_run (sample_db\<lparr>expenses := [sample_expense]\<rparr>) d' \<and> length (expenses d') = 2
    \<and> isl (delete_expense sample_env d' 1 sample_admin) \<and> get_row ex_id (expenses d') 1 = Some sample_expense"
proof -
  let ?d = "sample_db\<lparr>expenses := [sample_expense]\<rparr>"
  let ?a = "CreateExpense sample_manager \<lparr>xc_title = ''Tape'', xc_category = ''office'', xc_amount = 5, xc_notes = None, xc_station_id = 1\<rparr>"
  let ?r = "perform_expense sample_env ?d ?a"
  have R: "\<not> isl ?r" "length (expenses (projr ?r)) = 2" "isl (delete_expense sample_env (projr ?r) 1 sample_admin)"
    and G: "get_row ex_id (expenses ?d) 1 = Some sample_expense" "ex_status sample_expense = ''approved''"
    by code_simp+
  have "expense_step ?d ?a (projr ?r)"
    using R(1) by (intro expense_step.intros [of sample_env]) (cases ?r; simp)
  then have "expense_run ?d (projr ?r)" by (rule expense_run.later [OF expense_run.here])
  with approved_expense_final [OF this G] R show ?thesis by blast
qed

end
