(* ===== verification/Pos.thy ===== *)
theory Pos
  imports Assets
begin

text \<open>
  The shop: \<open>app/services/pos.py\<close>, \<open>app/api/pos_product.py\<close> and \<open>app/api/pos_sale.py\<close>. Products of
  a station carry a stock; a sale of several lines takes them out of it and its reversal puts them back.
\<close>

section \<open>Products\<close>

record pos_product_create =
  oc_name :: string
  oc_code :: string
  oc_category :: string
  oc_module :: string
  oc_price :: pyfloat
  oc_stock_quantity :: pyfloat
  oc_track_inventory :: bool
  oc_is_active :: bool
  oc_station_id :: int

record pos_product_update =
  ou_name :: "string option patch"
  ou_category :: "string option patch"
  ou_module :: "string option patch"
  ou_price :: "pyfloat option patch"
  ou_stock_quantity :: "pyfloat option patch"
  ou_track_inventory :: "bool option patch"
  ou_is_active :: "bool option patch"

definition VALID_POS_MODULES :: "string list" where
  "VALID_POS_MODULES = [''mart'', ''service_station'', ''tyre_shop'', ''other'']"

definition ensure_pos_station_access :: "int \<Rightarrow> user \<Rightarrow> unit res" where
  "ensure_pos_station_access station_id u = station_guard u station_id ''Not authorized for this station''"

definition ensure_pos_sale_access :: "pos_sale \<Rightarrow> user \<Rightarrow> unit res" where
  "ensure_pos_sale_access sale u = ensure_pos_station_access (ps_station_id sale) u"

definition create_pos_product :: "db \<Rightarrow> pos_product_create \<Rightarrow> user \<Rightarrow> (pos_product \<times> db) res" where
  "create_pos_product d data u =
     check (ensure_pos_station_access (oc_station_id data) u)
     (if oc_module data \<notin> set VALID_POS_MODULES then http 400 ''Invalid POS module''
      else if oc_price data \<le> 0 then http 400 ''Price must be greater than 0''
      else if oc_stock_quantity data < 0 then http 400 ''Stock quantity cannot be negative''
      else if get_row st_id (stations d) (oc_station_id data) = None then http 404 ''Station not found''
      else if find (\<lambda>p. pp_code p = oc_code data) (pos_products d) \<noteq> None
      then http 400 ''POS product code already exists''
      else let p = \<lparr>pp_id = next_id pp_id (pos_products d), pp_name = oc_name data, pp_code = oc_code data,
             pp_category = oc_category data, pp_module = oc_module data, pp_price = oc_price data,
             pp_stock_quantity = oc_stock_quantity data, pp_track_inventory = oc_track_inventory data,
             pp_is_active = oc_is_active data, pp_station_id = oc_station_id data\<rparr>
           in Inr (p, d\<lparr>pos_products := add_row p (pos_products d)\<rparr>))"

definition update_pos_product :: "db \<Rightarrow> pos_product \<Rightarrow> pos_product_update \<Rightarrow> (pos_product \<times> db) res" where
  \<comment> \<open>a null price or stock is compared with 0 first, which raises\<close>
  "update_pos_product d p data =
     (if (case ou_module data of Unset \<Rightarrow> False | Set None \<Rightarrow> True | Set (Some m) \<Rightarrow> m \<notin> set VALID_POS_MODULES)
      then http 400 ''Invalid POS module''
      else if is_null (ou_price data) then Inl TypeError
      else if assign_value (ou_price data) 1 \<le> 0 then http 400 ''Price must be greater than 0''
      else if is_null (ou_stock_quantity data) then Inl TypeError
      else if assign_value (ou_stock_quantity data) 0 < 0 then http 400 ''Stock quantity cannot be negative''
      else if is_null (ou_name data) \<or> is_null (ou_category data) \<or> is_null (ou_track_inventory data) \<or> is_null (ou_is_active data)
      then Inl IntegrityError
      else let p' = p\<lparr>pp_name := assign_value (ou_name data) (pp_name p),
             pp_category := assign_value (ou_category data) (pp_category p),
             pp_module := assign_value (ou_module data) (pp_module p), pp_price := assign_value (ou_price data) (pp_price p),
             pp_stock_quantity := assign_value (ou_stock_quantity data) (pp_stock_quantity p),
             pp_track_inventory := assign_value (ou_track_inventory data) (pp_track_inventory p),
             pp_is_active := assign_value (ou_is_active data) (pp_is_active p)\<rparr>
           in Inr (p', d\<lparr>pos_products := put_row pp_id p' (pos_products d)\<rparr>))"

section \<open>Sales\<close>

record pos_sale_item_create =
  ic_product_id :: int
  ic_quantity :: pyfloat

record pos_sale_create =
  oz_station_id :: int
  oz_module :: string
  oz_payment_method :: string
  oz_customer_name :: "string option"
  oz_notes :: "string option"
  oz_items :: "pos_sale_item_create list"

type_synonym sale_line = "pos_product \<times> pyfloat \<times> pyfloat"

definition pos_line :: "db \<Rightarrow> pos_sale_create \<Rightarrow> pos_sale_item_create \<Rightarrow> sale_line res" where
  \<comment> \<open>the checks of one item: its product, quantity and line total\<close>
  "pos_line d data item =
     (if ic_quantity item \<le> 0 then http 400 ''Item quantity must be greater than 0''
      else case get_row pp_id (pos_products d) (ic_product_id item) of
        None \<Rightarrow> Inl (HTTPException 404 [T ''POS product '', I (ic_product_id item), T '' not found''])
      | Some p \<Rightarrow>
        if pp_station_id p \<noteq> oz_station_id data then http 400 ''POS product does not belong to the selected station''
        else if pp_module p \<noteq> oz_module data then http 400 ''POS product does not belong to the selected POS module''
        else if \<not> pp_is_active p then http 400 ''Inactive POS product cannot be sold''
        else if pp_track_inventory p \<and> pp_stock_quantity p < ic_quantity item
        then http 400 ''Insufficient POS product stock''
        else Inr (p, ic_quantity item, fmul (ic_quantity item) (pp_price p)))"

fun pos_lines :: "db \<Rightarrow> pos_sale_create \<Rightarrow> pos_sale_item_create list \<Rightarrow> sale_line list res" where
  "pos_lines d data [] = Inr []"
| "pos_lines d data (item # items) =
     (case pos_line d data item of Inl x \<Rightarrow> Inl x | Inr l \<Rightarrow>
      case pos_lines d data items of Inl x \<Rightarrow> Inl x | Inr ls \<Rightarrow> Inr (l # ls))"

definition move_stock :: "int \<Rightarrow> (pyfloat \<Rightarrow> pyfloat) \<Rightarrow> pos_product list \<Rightarrow> pos_product list" where
  \<comment> \<open>change the stock of a product whose inventory is tracked\<close>
  "move_stock i f ps =
     (case get_row pp_id ps i of None \<Rightarrow> ps
      | Some p \<Rightarrow> if pp_track_inventory p then put_row pp_id (p\<lparr>pp_stock_quantity := f (pp_stock_quantity p)\<rparr>) ps else ps)"

definition sell_line :: "int \<Rightarrow> sale_line \<Rightarrow> db \<Rightarrow> db" where
  "sell_line sale_id l d =
     (case l of (p, quantity, line_total) \<Rightarrow>
      d\<lparr>pos_products := move_stock (pp_id p) (\<lambda>s. fsub s quantity) (pos_products d),
        pos_sale_items := add_row \<lparr>pi_id = next_id pi_id (pos_sale_items d), pi_sale_id = sale_id, pi_product_id = pp_id p,
          pi_quantity = quantity, pi_unit_price = pp_price p, pi_line_total = line_total\<rparr> (pos_sale_items d)\<rparr>)"

definition create_pos_sale :: "env \<Rightarrow> db \<Rightarrow> pos_sale_create \<Rightarrow> user \<Rightarrow> (pos_sale \<times> db) res" where
  "create_pos_sale e d data u =
     check (ensure_pos_station_access (oz_station_id data) u)
     (if oz_module data \<notin> set VALID_POS_MODULES then http 400 ''Invalid POS module''
      else if oz_items data = [] then http 400 ''POS sale requires at least one item''
      else case pos_lines d data (oz_items data) of Inl x \<Rightarrow> Inl x | Inr ls \<Rightarrow>
      let sale = \<lparr>ps_id = next_id ps_id (pos_sales d), ps_station_id = oz_station_id data, ps_module = oz_module data,
            ps_payment_method = oz_payment_method data, ps_customer_name = oz_customer_name data, ps_notes = oz_notes data,
            ps_total_amount = fsum (map (\<lambda>(_, _, line_total). line_total) ls), ps_is_reversed = False,
            ps_reversed_at = None, ps_reversed_by = None, ps_created_at = now e\<rparr>
      in Inr (sale, fold (sell_line (ps_id sale)) ls (d\<lparr>pos_sales := add_row sale (pos_sales d)\<rparr>)))"

definition sale_items :: "db \<Rightarrow> int \<Rightarrow> pos_sale_item list" where
  "sale_items d sale_id = filter (\<lambda>l. pi_sale_id l = sale_id) (pos_sale_items d)"

definition reverse_pos_sale :: "env \<Rightarrow> db \<Rightarrow> pos_sale \<Rightarrow> user \<Rightarrow> (pos_sale \<times> db) res" where
  "reverse_pos_sale e d sale u =
     check (ensure_pos_sale_access sale u)
     (if ps_is_reversed sale then http 400 ''POS sale is already reversed''
      else let sale' = sale\<lparr>ps_is_reversed := True, ps_reversed_at := Some (now e), ps_reversed_by := Some (u_id u)\<rparr>
           in Inr (sale', d\<lparr>pos_products := fold (\<lambda>l. move_stock (pi_product_id l) (\<lambda>s. fadd s (pi_quantity l)))
                                        (sale_items d (ps_id sale)) (pos_products d),
                           pos_sales := put_row ps_id sale' (pos_sales d)\<rparr>))"

section \<open>The routes\<close>

definition route_create_pos_product :: "db \<Rightarrow> pos_product_create \<Rightarrow> user \<Rightarrow> (pos_product \<times> db) res" where
  "route_create_pos_product d data u =
     check (require_permission u ''pos_products'' ''create'' ''You do not have permission to create POS products'')
     (create_pos_product d data u)"

definition list_pos_products :: "db \<Rightarrow> user \<Rightarrow> int option \<Rightarrow> string option \<Rightarrow> bool option \<Rightarrow> nat \<Rightarrow> nat \<Rightarrow> pos_product list" where
  "list_pos_products d u station_id pos_module is_active skip limit =
     page skip limit (filter (\<lambda>p. selects (own_station u station_id) (pp_station_id p)
       \<and> (truthy pos_module \<longrightarrow> pos_module = Some (pp_module p))
       \<and> (is_active = None \<or> is_active = Some (pp_is_active p))) (pos_products d))"

definition with_pos_product :: "db \<Rightarrow> int \<Rightarrow> user \<Rightarrow> (pos_product \<Rightarrow> 'a res) \<Rightarrow> 'a res" where
  "with_pos_product d i u f =
     (case get_row pp_id (pos_products d) i of None \<Rightarrow> http 404 ''POS product not found'' | Some p \<Rightarrow>
      check (require_station_access u (pp_station_id p) ''Not authorized for this POS product'') (f p))"

definition get_pos_product :: "db \<Rightarrow> int \<Rightarrow> user \<Rightarrow> pos_product res" where
  "get_pos_product d i u = with_pos_product d i u Inr"

definition route_update_pos_product :: "db \<Rightarrow> int \<Rightarrow> pos_product_update \<Rightarrow> user \<Rightarrow> (pos_product \<times> db) res" where
  "route_update_pos_product d i data u = with_pos_product d i u (\<lambda>p.
     check (require_permission u ''pos_products'' ''update'' ''You do not have permission to update POS products'')
     (update_pos_product d p data))"

definition delete_pos_product :: "db \<Rightarrow> int \<Rightarrow> user \<Rightarrow> db res" where
  "delete_pos_product d i u = with_pos_product d i u (\<lambda>p.
     check (require_permission u ''pos_products'' ''delete'' ''You do not have permission to delete POS products'')
     (if find (\<lambda>l. pi_product_id l = pp_id p) (pos_sale_items d) \<noteq> None
      then http 400 ''POS product cannot be deleted while sale history exists''
      else Inr (d\<lparr>pos_products := del_row pp_id (pp_id p) (pos_products d)\<rparr>)))"

definition route_create_pos_sale :: "env \<Rightarrow> db \<Rightarrow> pos_sale_create \<Rightarrow> user \<Rightarrow> (pos_sale \<times> db) res" where
  "route_create_pos_sale e d data u =
     check (require_permission u ''pos_sales'' ''create'' ''You do not have permission to create POS sales'')
     (create_pos_sale e d data u)"

definition list_pos_sales ::
  "db \<Rightarrow> user \<Rightarrow> int option \<Rightarrow> string option \<Rightarrow> date option \<Rightarrow> date option \<Rightarrow> nat \<Rightarrow> nat
     \<Rightarrow> (pos_sale \<times> pos_sale_item list) list" where
  "list_pos_sales d u station_id pos_module from_date to_date skip limit =
     map (\<lambda>s. (s, sale_items d (ps_id s))) (page skip limit (sort_key (\<lambda>s. - ps_created_at s) (filter (\<lambda>s.
       selects (own_station u station_id) (ps_station_id s) \<and> (truthy pos_module \<longrightarrow> pos_module = Some (ps_module s))
       \<and> in_window from_date to_date (ps_created_at s)) (pos_sales d))))"

definition get_pos_sale :: "db \<Rightarrow> int \<Rightarrow> user \<Rightarrow> (pos_sale \<times> pos_sale_item list) res" where
  "get_pos_sale d i u =
     (case get_row ps_id (pos_sales d) i of None \<Rightarrow> http 404 ''POS sale not found'' | Some s \<Rightarrow>
      check (ensure_pos_sale_access s u) (Inr (s, sale_items d (ps_id s))))"

definition route_reverse_pos_sale :: "env \<Rightarrow> db \<Rightarrow> int \<Rightarrow> user \<Rightarrow> (pos_sale \<times> db) res" where
  "route_reverse_pos_sale e d i u =
     (case get_row ps_id (pos_sales d) i of None \<Rightarrow> http 404 ''POS sale not found'' | Some s \<Rightarrow>
      check (require_permission u ''pos_sales'' ''reverse'' ''You do not have permission to reverse POS sales'')
      (reverse_pos_sale e d s u))"

section \<open>How the stock moves\<close>

definition moved :: "(pyfloat \<Rightarrow> pyfloat) \<Rightarrow> pos_product \<Rightarrow> pos_product" where
  "moved f p = (if pp_track_inventory p then p\<lparr>pp_stock_quantity := f (pp_stock_quantity p)\<rparr> else p)"

definition quantities :: "int \<Rightarrow> pos_sale_item_create list \<Rightarrow> pyfloat list" where
  \<comment> \<open>what the items ask of a product, in order\<close>
  "quantities j items = map ic_quantity (filter (\<lambda>i. ic_product_id i = j) items)"

definition product_ok :: "pos_product \<Rightarrow> bool" where
  "product_ok p \<longleftrightarrow> 0 < pp_price p \<and> 0 \<le> pp_stock_quantity p"

lemma moved_fields [simp]:
  "pp_id (moved f p) = pp_id p" "pp_price (moved f p) = pp_price p" "pp_track_inventory (moved f p) = pp_track_inventory p"
  by (simp_all add: moved_def)

lemma get_move_stock:
  "get_row pp_id (move_stock i f ps) j = (if j = i then map_option (moved f) (get_row pp_id ps j) else get_row pp_id ps j)"
proof (cases "get_row pp_id ps i")
  case (Some p)
  then have "pp_id p = i" by (auto dest: get_row_Some)
  with Some show ?thesis by (auto simp: move_stock_def moved_def get_put_row)
qed (auto simp: move_stock_def)

lemma get_fold_move_stock:
  "get_row pp_id (fold (\<lambda>x. move_stock (i x) (g (q x))) xs ps) j
    = map_option (fold (\<lambda>x. moved (g x)) (map q (filter (\<lambda>x. i x = j) xs))) (get_row pp_id ps j)"
proof (induction xs arbitrary: ps)
  case Nil
  then show ?case by (simp add: option.map_ident)
next
  case (Cons x xs)
  then show ?case by (simp add: get_move_stock option.map_comp comp_def)
qed

lemma fold_moved_stock:
  "pp_track_inventory p \<Longrightarrow> pp_stock_quantity (fold (\<lambda>x. moved (g x)) qs p) = fold g qs (pp_stock_quantity p)"
  by (induction qs arbitrary: p) (simp_all add: moved_def)

lemma fold_moved_fields [simp]:
  "pp_price (fold (\<lambda>x. moved (g x)) qs p) = pp_price p" "pp_track_inventory (fold (\<lambda>x. moved (g x)) qs p) = pp_track_inventory p"
  by (induction qs arbitrary: p) simp_all

lemma fold_moved_untracked: "\<not> pp_track_inventory p \<Longrightarrow> fold (\<lambda>x. moved (g x)) qs p = p"
  by (induction qs) (simp_all add: moved_def)

lemma fold_sell_line_products:
  "pos_products (fold (sell_line i) ls d)
    = fold (\<lambda>l. move_stock (pp_id (fst l)) ((\<lambda>q s. fsub s q) (fst (snd l)))) ls (pos_products d)"
  by (induction ls arbitrary: d) (simp_all add: sell_line_def split: prod.splits)

lemma fold_sell_line_frame [simp]:
  "pos_sales (fold (sell_line i) ls d) = pos_sales d" "tanks (fold (sell_line i) ls d) = tanks d"
  "customers (fold (sell_line i) ls d) = customers d" "suppliers (fold (sell_line i) ls d) = suppliers d"
  by (induction ls arbitrary: d) (simp_all add: sell_line_def split: prod.splits)

lemma fold_sell_line_items:
  "map (\<lambda>l. (pi_product_id l, pi_quantity l)) (sale_items (fold (sell_line i) ls d) i)
    = map (\<lambda>l. (pi_product_id l, pi_quantity l)) (sale_items d i) @ map (\<lambda>l. (pp_id (fst l), fst (snd l))) ls"
  by (induction ls arbitrary: d) (simp_all add: sell_line_def sale_items_def add_row_def split: prod.splits)

lemma pos_line_Inr:
  assumes "pos_line d data item = Inr l"
  shows "get_row pp_id (pos_products d) (ic_product_id item) = Some (fst l)" "pp_id (fst l) = ic_product_id item"
    "fst (snd l) = ic_quantity item" "0 < ic_quantity item"
    "pp_track_inventory (fst l) \<Longrightarrow> ic_quantity item \<le> pp_stock_quantity (fst l)"
    "snd (snd l) = fmul (ic_quantity item) (pp_price (fst l))"
  using assms by (auto simp: pos_line_def res_simps not_le not_less dest: get_row_Some)

lemma pos_lines_Inr: "pos_lines d data items = Inr ls \<Longrightarrow> list_all2 (\<lambda>i l. pos_line d data i = Inr l) items ls"
  by (induction items arbitrary: ls) (auto simp: res_simps)

lemma pos_lines_quantities:
  "list_all2 (\<lambda>i l. pos_line d data i = Inr l) items ls \<Longrightarrow>
    map (\<lambda>l. fst (snd l)) (filter (\<lambda>l. pp_id (fst l) = j) ls) = quantities j items"
  by (induction rule: list_all2_induct) (auto simp: quantities_def pos_line_Inr)

lemma create_pos_sale_Inr:
  assumes "create_pos_sale e d data u = Inr (sale, d')"
  obtains ls where "pos_lines d data (oz_items data) = Inr ls" "oz_items data \<noteq> []"
    "ps_id sale = next_id ps_id (pos_sales d)" "ps_total_amount sale = fsum (map (\<lambda>l. snd (snd l)) ls)"
    "ps_is_reversed sale = False" "ps_station_id sale = oz_station_id data"
    "d' = fold (sell_line (ps_id sale)) ls (d\<lparr>pos_sales := pos_sales d @ [sale]\<rparr>)"
  using assms
  by (auto simp: create_pos_sale_def res_simps Let_def add_row_def split_beta cong: map_cong intro: that)

lemma stock_after_sale:
  assumes "create_pos_sale e d data u = Inr (sale, d')"
  shows "get_row pp_id (pos_products d') j
    = map_option (fold (\<lambda>q. moved (\<lambda>s. fsub s q)) (quantities j (oz_items data))) (get_row pp_id (pos_products d) j)"
  using assms
proof (rule create_pos_sale_Inr)
  fix ls
  assume L: "pos_lines d data (oz_items data) = Inr ls"
    and D: "d' = fold (sell_line (ps_id sale)) ls (d\<lparr>pos_sales := pos_sales d @ [sale]\<rparr>)"
  show ?thesis
    using get_fold_move_stock [of "\<lambda>l. pp_id (fst l)" "\<lambda>q s. fsub s q" "\<lambda>l. fst (snd l)" ls "pos_products d" j]
    by (simp add: D fold_sell_line_products pos_lines_quantities [OF pos_lines_Inr [OF L]])
qed

lemma quantities_distinct:
  assumes "distinct (map ic_product_id items)"
  shows "quantities j items = [] \<or> (\<exists>i \<in> set items. ic_product_id i = j \<and> quantities j items = [ic_quantity i])"
  using assms
proof (induction items)
  case (Cons a items)
  show ?case
  proof (cases "ic_product_id a = j")
    case True
    with Cons.prems have "filter (\<lambda>i. ic_product_id i = j) items = []" by (simp add: filter_empty_conv) (metis image_eqI)
    with True show ?thesis by (simp add: quantities_def)
  next
    case False
    with Cons show ?thesis by (auto simp: quantities_def)
  qed
qed (simp add: quantities_def)

text \<open>
  C11. A shop sale totals its lines and takes them out of stock: the total is the sum, in the order of
  the items, of quantity times price; each tracked product loses the quantities asked of it, one after
  the other, and nothing else of it changes; untracked products and tanks are untouched. When no
  product is listed twice, no stock falls below zero.
\<close>

theorem create_pos_sale_effect:
  assumes "create_pos_sale e d data u = Inr (sale, d')"
  shows "ps_total_amount sale = fsum (map (\<lambda>i. fmul (ic_quantity i)
           (pp_price (the (get_row pp_id (pos_products d) (ic_product_id i))))) (oz_items data))
    \<and> tanks d' = tanks d
    \<and> (\<forall>j p. get_row pp_id (pos_products d) j = Some p \<longrightarrow> (\<exists>p'. get_row pp_id (pos_products d') j = Some p'
         \<and> p' = (if pp_track_inventory p
                 then p\<lparr>pp_stock_quantity := fold (\<lambda>q s. fsub s q) (quantities j (oz_items data)) (pp_stock_quantity p)\<rparr> else p)
         \<and> (distinct (map ic_product_id (oz_items data)) \<and> product_ok p \<longrightarrow> product_ok p')))"
  using assms
proof (rule create_pos_sale_Inr, intro conjI allI impI)
  fix ls
  assume L: "pos_lines d data (oz_items data) = Inr ls"
    and t: "ps_total_amount sale = fsum (map (\<lambda>l. snd (snd l)) ls)"
    and D: "d' = fold (sell_line (ps_id sale)) ls (d\<lparr>pos_sales := pos_sales d @ [sale]\<rparr>)"
  note L2 = pos_lines_Inr [OF L]
  have "list_all2 (\<lambda>i l. fmul (ic_quantity i) (pp_price (the (get_row pp_id (pos_products d) (ic_product_id i)))) = snd (snd l))
      (oz_items data) ls"
    using L2 by (rule list_all2_mono) (simp add: pos_line_Inr)
  then have "map (\<lambda>i. fmul (ic_quantity i) (pp_price (the (get_row pp_id (pos_products d) (ic_product_id i))))) (oz_items data)
      = map (\<lambda>l. snd (snd l)) ls"
    by (simp add: list_eq_iff_nth_eq list_all2_conv_all_nth)
  with t show "ps_total_amount sale = fsum (map (\<lambda>i. fmul (ic_quantity i)
      (pp_price (the (get_row pp_id (pos_products d) (ic_product_id i))))) (oz_items data))" by simp
  show "tanks d' = tanks d" by (simp add: D)
  fix j p
  assume p: "get_row pp_id (pos_products d) j = Some p"
  let ?q = "quantities j (oz_items data)"
  let ?p = "if pp_track_inventory p then p\<lparr>pp_stock_quantity := fold (\<lambda>q s. fsub s q) ?q (pp_stock_quantity p)\<rparr> else p"
  have f: "fold (\<lambda>q. moved (\<lambda>s. fsub s q)) qs r
      = (if pp_track_inventory r then r\<lparr>pp_stock_quantity := fold (\<lambda>q s. fsub s q) qs (pp_stock_quantity r)\<rparr> else r)" for qs r
    by (induction qs arbitrary: r) (simp_all add: moved_def)
  have ok: "product_ok ?p" if dist: "distinct (map ic_product_id (oz_items data))" and okp: "product_ok p"
    using quantities_distinct [OF dist, of j]
  proof
    assume "?q = []" then show ?thesis using okp by (simp add: product_ok_def)
  next
    assume "\<exists>i \<in> set (oz_items data). ic_product_id i = j \<and> ?q = [ic_quantity i]"
    then obtain i where i: "i \<in> set (oz_items data)" "ic_product_id i = j" "?q = [ic_quantity i]" by blast
    then obtain n where "n < length (oz_items data)" "oz_items data ! n = i" by (auto simp: in_set_conv_nth)
    then have l: "pos_line d data i = Inr (ls ! n)" using list_all2_nthD [OF L2] by blast
    then have "fst (ls ! n) = p" using pos_line_Inr(1) [OF l] i(2) p by simp
    then have "pp_track_inventory p \<Longrightarrow> ic_quantity i \<le> pp_stock_quantity p" using pos_line_Inr(5) [OF l] by simp
    then show ?thesis using okp i(3) by (auto simp: product_ok_def fsub_nonneg)
  qed
  show "\<exists>p'. get_row pp_id (pos_products d') j = Some p' \<and> p' = ?p
      \<and> (distinct (map ic_product_id (oz_items data)) \<and> product_ok p \<longrightarrow> product_ok p')"
    using stock_after_sale [OF assms, of j] p ok by (intro exI [of _ ?p]) (simp add: f)
qed


definition sample_pos_data :: pos_sale_create where
  "sample_pos_data = \<lparr>oz_station_id = 1, oz_module = ''mart'', oz_payment_method = ''cash'', oz_customer_name = None,
     oz_notes = None, oz_items = [\<lparr>ic_product_id = 1, ic_quantity = 5\<rparr>, \<lparr>ic_product_id = 2, ic_quantity = 3\<rparr>]\<rparr>"

theorem create_pos_sale_effect_witness:
  "\<exists>sale d' p. create_pos_sale sample_env sample_db sample_pos_data sample_operator = Inr (sale, d')
    \<and> get_row pp_id (pos_products d') 1 = Some p \<and> pp_stock_quantity p = fsub 8 5"
proof -
  have "\<not> isl (create_pos_sale sample_env sample_db sample_pos_data sample_operator)" by code_simp
  then obtain sale d' where S: "create_pos_sale sample_env sample_db sample_pos_data sample_operator = Inr (sale, d')"
    by (metis not_isl_pair)
  have "get_row pp_id (pos_products sample_db) 1 = Some sample_product" "quantities 1 (oz_items sample_pos_data) = [5]"
      "pp_track_inventory sample_product" "pp_stock_quantity sample_product = 8"
    by code_simp+
  with create_pos_sale_effect [OF S] S show ?thesis by fastforce
qed

text \<open>
  The stock check looks at each line alone, so two lines of one product may together take more than
  there is: the stock then falls below zero.
\<close>

lemma pos_stock_oversold:
  "\<exists>sale d' p. create_pos_sale sample_env sample_db
      (sample_pos_data\<lparr>oz_items := [\<lparr>ic_product_id = 1, ic_quantity = 5\<rparr>, \<lparr>ic_product_id = 1, ic_quantity = 5\<rparr>]\<rparr>)
      sample_operator = Inr (sale, d')
    \<and> get_row pp_id (pos_products d') 1 = Some p \<and> pp_stock_quantity p < 0"
proof -
  let ?r = "create_pos_sale sample_env sample_db
      (sample_pos_data\<lparr>oz_items := [\<lparr>ic_product_id = 1, ic_quantity = 5\<rparr>, \<lparr>ic_product_id = 1, ic_quantity = 5\<rparr>]\<rparr>) sample_operator"
  have "\<not> isl ?r \<and> (case get_row pp_id (pos_products (snd (projr ?r))) 1 of None \<Rightarrow> False | Some p \<Rightarrow> pp_stock_quantity p < 0)"
    by code_simp
  then show ?thesis by (auto split: option.splits dest!: not_isl_pair)
qed

section \<open>Reversal\<close>

text \<open>
  C12. Reversing a shop sale right after it was made puts back every product exactly as it was, when
  no product was listed twice and the stocks and quantities are whole numbers, and it can be done once.
\<close>

theorem pos_sale_reverse_restores:
  assumes "create_pos_sale e d data u = Inr (sale, d1)" and "reverse_pos_sale e' d1 sale v = Inr (sale', d2)"
    and "sale_items d (ps_id sale) = []" and "distinct (map ic_product_id (oz_items data))"
    and "list_all (\<lambda>p. whole (pp_stock_quantity p)) (pos_products d)" and "list_all (\<lambda>i. whole (ic_quantity i)) (oz_items data)"
  shows "(\<forall>j. get_row pp_id (pos_products d2) j = get_row pp_id (pos_products d) j)
    \<and> ps_is_reversed sale' \<and> isl (reverse_pos_sale e'' d2 sale' w)"
proof (intro conjI allI)
  from assms(2) have D2: "ps_is_reversed sale'" "pos_products d2 =
      fold (\<lambda>l. move_stock (pi_product_id l) (\<lambda>s. fadd s (pi_quantity l))) (sale_items d1 (ps_id sale)) (pos_products d1)"
    by (auto simp: reverse_pos_sale_def res_simps Let_def)
  show "ps_is_reversed sale'" by (rule D2)
  then show "isl (reverse_pos_sale e'' d2 sale' w)" by (simp add: reverse_pos_sale_def check_def split: sum.split)
  fix j
  let ?q = "quantities j (oz_items data)"
  have items: "map pi_quantity (filter (\<lambda>l. pi_product_id l = j) (sale_items d1 (ps_id sale))) = ?q"
    using assms(1)
  proof (rule create_pos_sale_Inr)
    fix ls
    assume L: "pos_lines d data (oz_items data) = Inr ls"
      and D: "d1 = fold (sell_line (ps_id sale)) ls (d\<lparr>pos_sales := pos_sales d @ [sale]\<rparr>)"
    have "map (\<lambda>l. (pi_product_id l, pi_quantity l)) (sale_items d1 (ps_id sale)) = map (\<lambda>l. (pp_id (fst l), fst (snd l))) ls"
      using assms(3) by (simp add: D fold_sell_line_items) (simp add: sale_items_def)
    then have "map snd (filter (\<lambda>x. fst x = j) (map (\<lambda>l. (pi_product_id l, pi_quantity l)) (sale_items d1 (ps_id sale))))
        = map snd (filter (\<lambda>x. fst x = j) (map (\<lambda>l. (pp_id (fst l), fst (snd l))) ls))" by simp
    then show ?thesis
      by (simp add: filter_map comp_def pos_lines_quantities [OF pos_lines_Inr [OF L]])
  qed
  have "get_row pp_id (pos_products d2) j = map_option (fold (\<lambda>q. moved (\<lambda>s. fadd s q)) ?q) (get_row pp_id (pos_products d1) j)"
    using get_fold_move_stock [of pi_product_id "\<lambda>q s. fadd s q" pi_quantity "sale_items d1 (ps_id sale)" "pos_products d1" j]
    by (simp add: D2(2) items)
  also have "\<dots> = map_option (\<lambda>p. fold (\<lambda>q. moved (\<lambda>s. fadd s q)) ?q (fold (\<lambda>q. moved (\<lambda>s. fsub s q)) ?q p)) (get_row pp_id (pos_products d) j)"
    by (simp add: stock_after_sale [OF assms(1)] option.map_comp comp_def)
  also have "\<dots> = get_row pp_id (pos_products d) j"
  proof (cases "get_row pp_id (pos_products d) j")
    case (Some p)
    then have w: "whole (pp_stock_quantity p)" using assms(5) by (rule all_get_row [rotated])
    from quantities_distinct [OF assms(4), of j] show ?thesis
    proof
      assume "\<exists>i \<in> set (oz_items data). ic_product_id i = j \<and> ?q = [ic_quantity i]"
      then obtain i where i: "i \<in> set (oz_items data)" "?q = [ic_quantity i]" by blast
      with assms(6) have "whole (ic_quantity i)" by (simp add: list_all_iff)
      with i(2) w Some show ?thesis by (simp add: moved_def whole_fsub_fadd)
    qed (simp add: Some)
  qed simp
  finally show "get_row pp_id (pos_products d2) j = get_row pp_id (pos_products d) j" .
qed

theorem pos_sale_reverse_restores_witness:
  "\<exists>sale d1 sale' d2. create_pos_sale sample_env sample_db sample_pos_data sample_operator = Inr (sale, d1)
    \<and> reverse_pos_sale sample_env d1 sale sample_manager = Inr (sale', d2)
    \<and> get_row pp_id (pos_products d2) 1 = Some sample_product"
proof -
  let ?r = "create_pos_sale sample_env sample_db sample_pos_data sample_operator"
  let ?s = "reverse_pos_sale sample_env (snd (projr ?r)) (fst (projr ?r)) sample_manager"
  have "\<not> isl ?r" "\<not> isl ?s" by code_simp+
  then obtain sale d1 sale' d2 where R: "?r = Inr (sale, d1)" "reverse_pos_sale sample_env d1 sale sample_manager = Inr (sale', d2)"
    by (metis not_isl_pair fst_conv snd_conv sum.sel(2))
  have "pos_sale_items sample_db = []" by (simp add: sample_db_def empty_db_def)
  then have "sale_items sample_db (ps_id sale) = []" by (simp add: sale_items_def)
  moreover have "distinct (map ic_product_id (oz_items sample_pos_data))" by code_simp
  moreover have "list_all (\<lambda>p. whole (pp_stock_quantity p)) (pos_products sample_db)"
      "list_all (\<lambda>i. whole (ic_quantity i)) (oz_items sample_pos_data)"
    by (simp_all add: whole_def sample_db_def sample_pos_data_def sample_product_def)
  moreover have "get_row pp_id (pos_products sample_db) 1 = Some sample_product" by code_simp
  ultimately show ?thesis using pos_sale_reverse_restores [OF R] R by metis
qed

end
