(* ===== verification/Auth.thy ===== *)
theory Auth
  imports Notify FeatureModules Samples "HOL-Library.Countable"
begin

text \<open>
  Who is logged in: \<open>app/core/security.py\<close>, \<open>app/core/dependencies.py\<close>,
  \<open>app/services/auth_sessions.py\<close> and \<open>app/api/auth.py\<close>. The libraries bcrypt, python-jose and the
  standard hash and token functions are the record \<open>crypto\<close>; what is proved about them is stated as
  hypotheses of the theorems. A handler that raises after a commit leaves a changed database, so
  \<open>login\<close> returns the answer and the database separately.
\<close>

section \<open>Passwords and tokens\<close>

record claims =
  cl_sub :: "string option"
  cl_sid :: "int option"
  cl_exp :: datetime
  cl_type :: "string option"

text \<open>
  \<open>new_token\<close> is what \<open>secrets.token_urlsafe\<close> returns during the operation, \<open>jwt_decode\<close> the claims
  of a token whose signature verifies and that has not expired at that time, \<open>bcrypt_hash\<close> the hash with the salt drawn during the operation.
\<close>

record crypto =
  bcrypt_hash :: "string \<Rightarrow> string"
  bcrypt_check :: "string \<Rightarrow> string \<Rightarrow> bool"
  new_token :: string
  sha256_hex :: "string \<Rightarrow> string"
  jwt_encode :: "claims \<Rightarrow> string"
  jwt_decode :: "string \<Rightarrow> claims option"
  access_token_expire_minutes :: int

definition validate_password_strength :: "string \<Rightarrow> unit res" where
  "validate_password_strength password =
     (if length password < 8 then Inl (ValueError [T ''Password must be at least 8 characters long'']) else ok)"

definition hash_password :: "crypto \<Rightarrow> string \<Rightarrow> string res" where
  "hash_password c password = check (validate_password_strength password) (Inr (bcrypt_hash c password))"

definition verify_password :: "crypto \<Rightarrow> string \<Rightarrow> string \<Rightarrow> bool" where
  "verify_password c plain hashed = bcrypt_check c plain hashed"

definition create_access_token :: "crypto \<Rightarrow> env \<Rightarrow> int \<Rightarrow> int \<Rightarrow> string" where
  \<comment> \<open>for the claims \<open>{"sub": str(user_id), "sid": session_id}\<close>\<close>
  "create_access_token c e user_id session_id =
     jwt_encode c \<lparr>cl_sub = Some (str_int user_id), cl_sid = Some session_id,
       cl_exp = now e + minutes (access_token_expire_minutes c), cl_type = Some ''access''\<rparr>"

definition create_refresh_token :: "crypto \<Rightarrow> env \<Rightarrow> string \<times> string \<times> datetime" where
  "create_refresh_token c e = (new_token c, sha256_hex c (new_token c), now e + days (refresh_token_expire_days e))"

section \<open>The current user\<close>

definition credentials_exception :: "'a res" where
  "credentials_exception = http 401 ''Invalid or expired token''"

definition live :: "auth_session \<Rightarrow> bool" where
  \<comment> \<open>active and not revoked\<close>
  "live s \<longleftrightarrow> as_is_active s \<and> as_revoked_at s = None"

definition get_current_user :: "crypto \<Rightarrow> env \<Rightarrow> db \<Rightarrow> string \<Rightarrow> user res" where
  "get_current_user c e d token =
     (case jwt_decode c token of None \<Rightarrow> credentials_exception | Some payload \<Rightarrow>
      if cl_type payload \<noteq> Some ''access'' then credentials_exception
      else case (Option.bind (cl_sub payload) parse_int, cl_sid payload) of
        (Some user_id, Some session_id) \<Rightarrow>
          (case get_row u_id (users d) user_id of None \<Rightarrow> credentials_exception | Some u \<Rightarrow>
           if \<not> u_is_active u then credentials_exception
           else if find (\<lambda>s. as_id s = session_id \<and> as_user_id s = u_id u \<and> live s \<and> now e < as_expires_at s)
                     (auth_sessions d) = None then credentials_exception
           else Inr u)
      | _ \<Rightarrow> credentials_exception)"

section \<open>Failed logins and sessions (\<open>auth_sessions.py\<close>)\<close>

definition ensure_account_not_locked :: "env \<Rightarrow> user \<Rightarrow> unit res" where
  "ensure_account_not_locked e u =
     (case u_locked_until u of None \<Rightarrow> ok
      | Some t \<Rightarrow> if now e < t then Inl (HTTPException 423 [T ''Account is temporarily locked until '', At t]) else ok)"

definition record_failed_login :: "env \<Rightarrow> user option \<Rightarrow> db \<Rightarrow> db" where
  "record_failed_login e user d =
     (case user of None \<Rightarrow> d | Some u \<Rightarrow>
      let n = u_failed_login_attempts u + 1;
          u' = (if n \<ge> max_failed_login_attempts e
                then u\<lparr>u_failed_login_attempts := 0, u_last_failed_login_at := Some (now e),
                       u_locked_until := Some (no_micros (now e) + minutes (account_lock_minutes e))\<rparr>
                else u\<lparr>u_failed_login_attempts := n, u_last_failed_login_at := Some (now e)\<rparr>)
      in d\<lparr>users := put_row u_id u' (users d)\<rparr>)"

definition reset_login_failures :: "env \<Rightarrow> user \<Rightarrow> user" where
  "reset_login_failures e u =
     u\<lparr>u_failed_login_attempts := 0, u_last_failed_login_at := None, u_locked_until := None, u_last_login_at := Some (now e)\<rparr>"

definition create_user_session ::
  "crypto \<Rightarrow> env \<Rightarrow> db \<Rightarrow> user \<Rightarrow> string option \<Rightarrow> string option \<Rightarrow> (auth_session \<times> string \<times> db) res" where
  "create_user_session c e d u ip_address user_agent =
     (case create_refresh_token c e of (refresh_token, refresh_token_hash, expires_at) \<Rightarrow>
      if find (\<lambda>s. as_refresh_token_hash s = refresh_token_hash) (auth_sessions d) \<noteq> None then Inl IntegrityError
      else let s = \<lparr>as_id = next_id as_id (auth_sessions d), as_user_id = u_id u, as_refresh_token_hash = refresh_token_hash,
             as_is_active = True, as_expires_at = expires_at, as_revoked_at = None, as_last_seen_at = Some (now e),
             as_ip_address = ip_address, as_user_agent = user_agent, as_created_at = now e, as_updated_at = now e\<rparr>
           in Inr (s, refresh_token, d\<lparr>auth_sessions := add_row s (auth_sessions d)\<rparr>))"

definition refresh_user_session ::
  "crypto \<Rightarrow> env \<Rightarrow> db \<Rightarrow> string \<Rightarrow> string option \<Rightarrow> string option \<Rightarrow> (auth_session \<times> user \<times> string \<times> db) res" where
  "refresh_user_session c e d refresh_token ip_address user_agent =
     (case find (\<lambda>s. as_refresh_token_hash s = sha256_hex c refresh_token \<and> get_row u_id (users d) (as_user_id s) \<noteq> None)
             (auth_sessions d) of
        None \<Rightarrow> http 401 ''Invalid or expired refresh token''
      | Some s \<Rightarrow>
        if \<not> live s \<or> as_expires_at s \<le> now e then http 401 ''Invalid or expired refresh token''
        else case get_row u_id (users d) (as_user_id s) of None \<Rightarrow> http 401 ''Invalid or expired refresh token'' | Some u \<Rightarrow>
        if \<not> u_is_active u then http 401 ''Invalid or expired refresh token''
        else check (ensure_account_not_locked e u)
        (case create_refresh_token c e of (new_refresh_token, new_hash, expires_at) \<Rightarrow>
         let s' = s\<lparr>as_refresh_token_hash := new_hash, as_expires_at := expires_at, as_last_seen_at := Some (now e),
               as_ip_address := (if truthy ip_address then ip_address else as_ip_address s),
               as_user_agent := (if truthy user_agent then user_agent else as_user_agent s), as_updated_at := now e\<rparr>
         in if find (\<lambda>x. as_id x \<noteq> as_id s \<and> as_refresh_token_hash x = new_hash) (auth_sessions d) \<noteq> None
            then Inl IntegrityError
            else Inr (s', u, new_refresh_token, d\<lparr>auth_sessions := put_row as_id s' (auth_sessions d)\<rparr>)))"

definition get_active_session :: "db \<Rightarrow> int \<Rightarrow> auth_session option" where
  "get_active_session d i = find (\<lambda>s. as_id s = i \<and> live s) (auth_sessions d)"

definition revoke_session :: "env \<Rightarrow> auth_session \<Rightarrow> auth_session" where
  "revoke_session e s = s\<lparr>as_is_active := False, as_revoked_at := Some (now e), as_updated_at := now e\<rparr>"

definition revoke_user_sessions :: "env \<Rightarrow> user \<Rightarrow> int option \<Rightarrow> db \<Rightarrow> int \<times> db" where
  "revoke_user_sessions e u except_session_id d =
     (let revoked = (\<lambda>s. as_user_id s = u_id u \<and> live s
                        \<and> \<not> (except_session_id \<notin> set [None, Some 0] \<and> except_session_id = Some (as_id s)))
      in (int (length (filter revoked (auth_sessions d))),
          d\<lparr>auth_sessions := map (\<lambda>s. if revoked s then revoke_session e s else s) (auth_sessions d)\<rparr>))"

definition list_user_sessions :: "db \<Rightarrow> user \<Rightarrow> auth_session list" where
  "list_user_sessions d u = newest_first as_created_at as_id (filter (\<lambda>s. as_user_id s = u_id u) (auth_sessions d))"

section \<open>The routes (\<open>api/auth.py\<close>)\<close>

record token_response =
  tr_access_token :: string
  tr_refresh_token :: string
  tr_user_id :: int
  tr_username :: string
  tr_full_name :: string
  tr_role_id :: int
  tr_role_name :: string
  tr_station_id :: "int option"
  tr_organization_id :: "int option"
  tr_scope_level :: string
  tr_is_platform_user :: bool

definition token_answer :: "db \<Rightarrow> user \<Rightarrow> string \<Rightarrow> string \<Rightarrow> token_response" where
  "token_answer d u access refresh =
     \<lparr>tr_access_token = access, tr_refresh_token = refresh, tr_user_id = u_id u, tr_username = u_username u,
      tr_full_name = u_full_name u, tr_role_id = role_id (u_role u), tr_role_name = role_of u,
      tr_station_id = u_station_id u, tr_organization_id = get_user_organization_id d u,
      tr_scope_level = u_scope_level u, tr_is_platform_user = u_is_platform_user u\<rparr>"

definition audit_auth :: "env \<Rightarrow> user \<Rightarrow> string \<Rightarrow> string \<Rightarrow> int option \<Rightarrow> int option \<Rightarrow> jobject \<Rightarrow> db \<Rightarrow> db" where
  "audit_auth e u action = audit e u ''auth'' action"

definition login ::
  "crypto \<Rightarrow> env \<Rightarrow> db \<Rightarrow> string \<Rightarrow> string \<Rightarrow> string option \<Rightarrow> string option \<Rightarrow> token_response res \<times> db" where
  "login c e d username password ip_address user_agent =
     (let user = find (\<lambda>u. u_username u = username) (users d) in
      case (case user of None \<Rightarrow> ok | Some u \<Rightarrow> ensure_account_not_locked e u) of Inl x \<Rightarrow> (Inl x, d) | Inr _ \<Rightarrow>
      case user of
        None \<Rightarrow> (http 401 ''Invalid username or password'', record_failed_login e None d)
      | Some u \<Rightarrow>
        if \<not> verify_password c password (u_hashed_password u)
        then (http 401 ''Invalid username or password'', record_failed_login e (Some u) d)
        else if \<not> u_is_active u then (http 403 ''Account is inactive'', d)
        else let u' = reset_login_failures e u; d1 = d\<lparr>users := put_row u_id u' (users d)\<rparr> in
        case create_user_session c e d1 u' ip_address user_agent of Inl x \<Rightarrow> (Inl x, d)
        | Inr (s, refresh, d2) \<Rightarrow>
          (Inr (token_answer d u' (create_access_token c e (u_id u) (as_id s)) refresh),
           audit_auth e u' ''auth.login'' ''session'' (Some (as_id s)) (u_station_id u) [] d2))"

record me_response =
  me_user :: user
  me_organization_id :: "int option"
  me_scope_rule :: scope_rule
  me_creatable_roles :: "string list"
  me_permissions :: "(string \<times> string list) list"

definition get_me :: "db \<Rightarrow> user \<Rightarrow> me_response" where
  "get_me d u = \<lparr>me_user = u, me_organization_id = get_user_organization_id d u,
     me_scope_rule = get_role_scope_rule (role_of u), me_creatable_roles = get_creatable_roles (role_of u),
     me_permissions = get_effective_permissions u\<rparr>"

definition refresh_auth_token ::
  "crypto \<Rightarrow> env \<Rightarrow> db \<Rightarrow> string \<Rightarrow> string option \<Rightarrow> string option \<Rightarrow> (token_response \<times> db) res" where
  "refresh_auth_token c e d refresh_token ip_address user_agent =
     (case refresh_user_session c e d refresh_token ip_address user_agent of Inl x \<Rightarrow> Inl x | Inr (s, u, refresh, d1) \<Rightarrow>
      Inr (token_answer d u (create_access_token c e (u_id u) (as_id s)) refresh,
           audit_auth e u ''auth.refresh'' ''session'' (Some (as_id s)) (u_station_id u) [] d1))"

fun remove_first :: "string \<Rightarrow> string \<Rightarrow> string" where
  \<comment> \<open>\<open>text.replace(part, "", 1)\<close>\<close>
  "remove_first part [] = []"
| "remove_first part (c # s) =
     (if py_startswith (c # s) part then drop (length part) (c # s) else c # remove_first part s)"

definition header_session :: "crypto \<Rightarrow> string \<Rightarrow> int option" where
  \<comment> \<open>the non-zero \<open>sid\<close> of the token in the \<open>Authorization\<close> header\<close>
  "header_session c header =
     (let token = py_strip (remove_first ''Bearer '' header) in
      if token = [] then None
      else case jwt_decode c token of None \<Rightarrow> None
        | Some payload \<Rightarrow> if cl_sid payload = Some 0 then None else cl_sid payload)"

definition logout :: "crypto \<Rightarrow> env \<Rightarrow> db \<Rightarrow> user \<Rightarrow> string \<Rightarrow> db" where
  "logout c e d u header =
     (case Option.bind (header_session c header) (get_active_session d) of
        None \<Rightarrow> d
      | Some s \<Rightarrow> audit_auth e u ''auth.logout'' ''session'' (Some (as_id s)) (u_station_id u) []
          (d\<lparr>auth_sessions := put_row as_id (revoke_session e s) (auth_sessions d)\<rparr>))"

definition logout_all :: "crypto \<Rightarrow> env \<Rightarrow> db \<Rightarrow> user \<Rightarrow> string \<Rightarrow> db" where
  "logout_all c e d u header =
     (case revoke_user_sessions e u (header_session c header) d of (revoked_count, d1) \<Rightarrow>
      audit_auth e u ''auth.logout_all'' ''session'' None (u_station_id u) [(''revoked_sessions'', JInt revoked_count)] d1)"

definition set_password :: "crypto \<Rightarrow> env \<Rightarrow> user \<Rightarrow> string \<Rightarrow> db \<Rightarrow> db res" where
  \<comment> \<open>hashing a new password, a weak one being a 400, and revoking the sessions of the user\<close>
  "set_password c e u password d =
     (case hash_password c password of
        Inl (ValueError message) \<Rightarrow> Inl (HTTPException 400 message)
      | Inl x \<Rightarrow> Inl x
      | Inr h \<Rightarrow> Inr (snd (revoke_user_sessions e u None (d\<lparr>users := put_row u_id (u\<lparr>u_hashed_password := h\<rparr>) (users d)\<rparr>))))"

definition change_password :: "crypto \<Rightarrow> env \<Rightarrow> db \<Rightarrow> user \<Rightarrow> string \<Rightarrow> string \<Rightarrow> db res" where
  "change_password c e d u current_password new_password =
     (if \<not> verify_password c current_password (u_hashed_password u) then http 400 ''Current password is incorrect''
      else if current_password = new_password then http 400 ''New password must be different from the current password''
      else case set_password c e u new_password d of Inl x \<Rightarrow> Inl x | Inr d1 \<Rightarrow>
        Inr (audit_auth e u ''auth.change_password'' ''user'' (Some (u_id u)) (u_station_id u) [] d1))"

definition admin_reset_password :: "crypto \<Rightarrow> env \<Rightarrow> db \<Rightarrow> int \<Rightarrow> string \<Rightarrow> user \<Rightarrow> db res" where
  "admin_reset_password c e d user_id new_password u =
     check (require_admin u)
     (case get_row u_id (users d) user_id of None \<Rightarrow> http 404 ''User not found'' | Some target \<Rightarrow>
      case set_password c e target new_password d of Inl x \<Rightarrow> Inl x | Inr d1 \<Rightarrow>
        Inr (audit_auth e u ''auth.admin_reset_password'' ''user'' (Some (u_id target)) (u_station_id target)
          [(''target_username'', JStr (u_username target))] d1))"

section \<open>Logging in\<close>

lemma find_put:
  assumes "keyed key t" "find P t = Some r" "key r' = key r" "P r'"
  shows "find P (put_row key r' t) = Some r'"
  using find_put_same_key(1) [OF assms, of "\<lambda>_. False"] by simp

lemma login_Inr:
  assumes "login c e d username password ip ua = (Inr tr, d')"
  obtains u s refresh d1 x where "find (\<lambda>u. u_username u = username) (users d) = Some u"
    "bcrypt_check c password (u_hashed_password u)" "u_is_active u" "ensure_account_not_locked e u = ok"
    "s = \<lparr>as_id = next_id as_id (auth_sessions d), as_user_id = u_id u, as_refresh_token_hash = sha256_hex c (new_token c),
        as_is_active = True, as_expires_at = now e + days (refresh_token_expire_days e), as_revoked_at = None,
        as_last_seen_at = Some (now e), as_ip_address = ip, as_user_agent = ua, as_created_at = now e, as_updated_at = now e\<rparr>"
    "tr_access_token tr = create_access_token c e (u_id u) (as_id s)" "tr_refresh_token tr = new_token c"
    "tr_user_id tr = u_id u" "tr_username tr = u_username u"
    "d' = d\<lparr>users := put_row u_id (reset_login_failures e u) (users d), auth_sessions := auth_sessions d @ [s], comms := x\<rparr>"
proof -
  from assms obtain u where u: "find (\<lambda>u. u_username u = username) (users d) = Some u"
    by (cases "find (\<lambda>u. u_username u = username) (users d)") (auto simp: login_def Let_def ok_def)
  with assms have l: "ensure_account_not_locked e u = ok"
    by (cases "ensure_account_not_locked e u") (auto simp: login_def Let_def ok_def)
  with assms u have *: "bcrypt_check c password (u_hashed_password u)" "u_is_active u"
    by (auto simp: login_def Let_def verify_password_def ok_def split: if_splits)
  let ?d = "d\<lparr>users := put_row u_id (reset_login_failures e u) (users d)\<rparr>"
  from assms u l * obtain s refresh d2 where S: "create_user_session c e ?d (reset_login_failures e u) ip ua = Inr (s, refresh, d2)"
    by (auto simp: login_def Let_def verify_password_def ok_def split: sum.splits)
  with assms u l * have T: "tr = token_answer d (reset_login_failures e u) (create_access_token c e (u_id u) (as_id s)) refresh"
    "d' = audit_auth e (reset_login_failures e u) ''auth.login'' ''session'' (Some (as_id s)) (u_station_id u) [] d2"
    by (auto simp: login_def Let_def verify_password_def ok_def)
  from S T show thesis
    by (intro that [OF u *(1,2) l, of s _])
      (auto simp: create_user_session_def create_refresh_token_def res_simps Let_def token_answer_def
        reset_login_failures_def audit_auth_def audit_def add_row_def)
qed

text \<open>
  C13. The access token of a login authenticates the user who logged in: as long as neither the token nor the session has expired, every
  request with it runs as that user. Of the token library this needs that a token decodes to its claims until its \<open>exp\<close>.
\<close>

theorem login_authenticates:
  assumes "login c e d username password ip ua = (Inr tr, d')" and "keyed u_id (users d)"
    and "\<And>cl. now e' < cl_exp cl \<Longrightarrow> jwt_decode c' (jwt_encode c cl) = Some cl"
    and "now e' < now e + minutes (access_token_expire_minutes c)"
    and "now e' < now e + days (refresh_token_expire_days e)"
  shows "\<exists>u. get_current_user c' e' d' (tr_access_token tr) = Inr u \<and> u_id u = tr_user_id tr \<and> u_username u = username"
  using assms(1)
proof (rule login_Inr)
  fix u s x
  assume u: "find (\<lambda>u. u_username u = username) (users d) = Some u" "u_is_active u"
    and s: "s = \<lparr>as_id = next_id as_id (auth_sessions d), as_user_id = u_id u, as_refresh_token_hash = sha256_hex c (new_token c),
        as_is_active = True, as_expires_at = now e + days (refresh_token_expire_days e), as_revoked_at = None,
        as_last_seen_at = Some (now e), as_ip_address = ip, as_user_agent = ua, as_created_at = now e, as_updated_at = now e\<rparr>"
    and t: "tr_access_token tr = create_access_token c e (u_id u) (as_id s)" "tr_user_id tr = u_id u"
    and d': "d' = d\<lparr>users := put_row u_id (reset_login_failures e u) (users d), auth_sessions := auth_sessions d @ [s], comms := x\<rparr>"
  from u(1) have m: "u \<in> set (users d)" "u_username u = username" by (auto simp: find_Some_iff in_set_conv_nth)
  then have "get_row u_id (users d) (u_id u) = Some u" using assms(2) by (intro table.get_complete)
  then have g: "get_row u_id (users d') (u_id u) = Some (reset_login_failures e u)"
    by (simp add: d' get_put_row_same reset_login_failures_def)
  have "s \<in> set (auth_sessions d')" "as_user_id s = u_id u \<and> live s \<and> now e' < as_expires_at s"
    using assms(5) by (simp_all add: d' s live_def)
  then have "find (\<lambda>x. as_id x = as_id s \<and> as_user_id x = u_id u \<and> live x \<and> now e' < as_expires_at x) (auth_sessions d') \<noteq> None"
    by (auto simp: find_None_iff)
  then show ?thesis
    using g u(2) m(2) t assms(3,4)
    by (auto simp: get_current_user_def create_access_token_def parse_str_int reset_login_failures_def)
qed

section \<open>The lockout\<close>

text \<open>Tries of passwords for one user name, each at its own time.\<close>

definition try_passwords :: "crypto \<Rightarrow> string \<Rightarrow> (env \<times> string) list \<Rightarrow> db \<Rightarrow> db" where
  "try_passwords c username tries d = fold (\<lambda>(e, pw) d. snd (login c e d username pw None None)) tries d"

definition unlocked :: "env \<Rightarrow> user \<Rightarrow> bool" where
  "unlocked e u \<longleftrightarrow> (case u_locked_until u of None \<Rightarrow> True | Some t \<Rightarrow> t \<le> now e)"

lemma not_locked_iff: "ensure_account_not_locked e u = ok \<longleftrightarrow> unlocked e u"
  by (auto simp: ensure_account_not_locked_def unlocked_def split: option.splits)

lemma failed_login:
  assumes "find (\<lambda>u. u_username u = n) (users d) = Some u" "unlocked e u" "\<not> bcrypt_check c pw (u_hashed_password u)"
  shows "login c e d n pw ip ua = (http 401 ''Invalid username or password'', record_failed_login e (Some u) d)"
proof -
  have "ensure_account_not_locked e u = Inr ()" using assms(2) not_locked_iff by (simp add: ok_def)
  with assms(1,3) show ?thesis by (simp add: login_def verify_password_def)
qed

lemma record_failed_login_user:
  assumes "keyed u_id (users d)" "find (\<lambda>u. u_username u = n) (users d) = Some u"
  shows "keyed u_id (users (record_failed_login e (Some u) d))
    \<and> find (\<lambda>u. u_username u = n) (users (record_failed_login e (Some u) d)) =
      Some (if u_failed_login_attempts u + 1 \<ge> max_failed_login_attempts e
            then u\<lparr>u_failed_login_attempts := 0, u_last_failed_login_at := Some (now e),
                   u_locked_until := Some (no_micros (now e) + minutes (account_lock_minutes e))\<rparr>
            else u\<lparr>u_failed_login_attempts := u_failed_login_attempts u + 1, u_last_failed_login_at := Some (now e)\<rparr>)"
  using assms find_put [OF assms] by (auto simp: record_failed_login_def Let_def keyed_def find_Some_iff)

lemma tries_below_limit:
  assumes "keyed u_id (users d)" "find (\<lambda>u. u_username u = n) (users d) = Some u"
    and "\<forall>(e, pw) \<in> set tries. unlocked e u \<and> \<not> bcrypt_check c pw (u_hashed_password u) \<and> max_failed_login_attempts e = limit"
    and "u_failed_login_attempts u + int (length tries) < limit"
  shows "keyed u_id (users (try_passwords c n tries d))
    \<and> (\<exists>t. find (\<lambda>u. u_username u = n) (users (try_passwords c n tries d))
        = Some (u\<lparr>u_failed_login_attempts := u_failed_login_attempts u + int (length tries), u_last_failed_login_at := t\<rparr>))"
  using assms
proof (induction tries arbitrary: d u)
  case Nil
  have "u\<lparr>u_failed_login_attempts := u_failed_login_attempts u, u_last_failed_login_at := u_last_failed_login_at u\<rparr> = u" by simp
  with Nil show ?case by (auto simp: try_passwords_def intro!: exI [of _ "u_last_failed_login_at u"])
next
  case (Cons x tries)
  obtain e pw where x: "x = (e, pw)" by (cases x)
  let ?d = "record_failed_login e (Some u) d"
  let ?u = "u\<lparr>u_failed_login_attempts := u_failed_login_attempts u + 1, u_last_failed_login_at := Some (now e)\<rparr>"
  have L: "login c e d n pw None None = (http 401 ''Invalid username or password'', ?d)"
    using Cons.prems by (intro failed_login) (auto simp: x)
  have U: "keyed u_id (users ?d)" "find (\<lambda>u. u_username u = n) (users ?d) = Some ?u"
    using record_failed_login_user [OF Cons.prems(1,2), of e] Cons.prems(3,4) by (auto simp: x)
  have T: "try_passwords c n (x # tries) d = try_passwords c n tries ?d"
    by (simp add: try_passwords_def x L)
  have "\<forall>(e, pw) \<in> set tries. unlocked e ?u \<and> \<not> bcrypt_check c pw (u_hashed_password ?u) \<and> max_failed_login_attempts e = limit"
    using Cons.prems(3) by (auto simp: unlocked_def)
  with Cons.IH [OF U] Cons.prems(4) show ?case by (auto simp: T algebra_simps)
qed

text \<open>
  C14. Guessing locks the account: after as many wrong passwords in a row as the limit allows, every
  login to the account is refused with 423 until the lock expires, the right password included, and a
  refused login changes nothing.
\<close>

theorem guessing_locks_account:
  assumes "keyed u_id (users d)" and "find (\<lambda>u. u_username u = n) (users d) = Some u" and "u_failed_login_attempts u = 0"
    and "\<forall>(e, pw) \<in> set (tries @ [(e0, pw0)]). unlocked e u \<and> \<not> bcrypt_check c pw (u_hashed_password u)
           \<and> max_failed_login_attempts e = 1 + int (length tries)"
    and "now e < no_micros (now e0) + minutes (account_lock_minutes e0)"
  shows "login c e (try_passwords c n (tries @ [(e0, pw0)]) d) n pw ip ua
    = (Inl (HTTPException 423 [T ''Account is temporarily locked until '',
         At (no_micros (now e0) + minutes (account_lock_minutes e0))]), try_passwords c n (tries @ [(e0, pw0)]) d)"
proof -
  let ?d = "try_passwords c n tries d"
  obtain t where U: "keyed u_id (users ?d)" "find (\<lambda>u. u_username u = n) (users ?d)
      = Some (u\<lparr>u_failed_login_attempts := int (length tries), u_last_failed_login_at := t\<rparr>)"
    using tries_below_limit [OF assms(1,2), of tries c "1 + int (length tries)"] assms(3,4) by auto
  let ?u = "u\<lparr>u_failed_login_attempts := int (length tries), u_last_failed_login_at := t\<rparr>"
  have "login c e0 ?d n pw0 None None = (http 401 ''Invalid username or password'', record_failed_login e0 (Some ?u) ?d)"
    using assms(4) by (intro failed_login U) (auto simp: unlocked_def)
  then have T: "try_passwords c n (tries @ [(e0, pw0)]) d = record_failed_login e0 (Some ?u) ?d"
    by (simp add: try_passwords_def)
  have "max_failed_login_attempts e0 = 1 + int (length tries)" using assms(4) by auto
  with record_failed_login_user [OF U, of e0]
  have "find (\<lambda>u. u_username u = n) (users (record_failed_login e0 (Some ?u) ?d))
      = Some (?u\<lparr>u_failed_login_attempts := 0, u_last_failed_login_at := Some (now e0),
                 u_locked_until := Some (no_micros (now e0) + minutes (account_lock_minutes e0))\<rparr>)"
    by simp
  then show ?thesis using assms(5) unfolding T by (simp add: login_def ensure_account_not_locked_def)
qed

section \<open>Concrete checks\<close>

text \<open>
  A token library for the witnesses: a token is the number of its claims in unary, a password is its
  own hash.
\<close>

definition sample_crypto :: crypto where
  "sample_crypto = \<lparr>bcrypt_hash = (\<lambda>p. p), bcrypt_check = (\<lambda>p h. p = h), new_token = ''tok'', sha256_hex = (\<lambda>s. s),
     jwt_encode = (\<lambda>cl. replicate (to_nat (cl_sub cl, cl_sid cl, cl_exp cl, cl_type cl)) CHR ''x''),
     jwt_decode = (\<lambda>s. case from_nat (length s) of (sub, sid, expires, type) \<Rightarrow>
       Some \<lparr>cl_sub = sub, cl_sid = sid, cl_exp = expires, cl_type = type\<rparr>),
     access_token_expire_minutes = 30\<rparr>"

lemma sample_decode: "jwt_decode sample_crypto (jwt_encode sample_crypto cl) = Some cl"
  by (simp add: sample_crypto_def)

lemma sample_users_keyed: "keyed u_id (users sample_db)"
  by code_simp

lemma sample_login: "\<exists>tr d. login sample_crypto sample_env sample_db ''omar'' ''h'' None None = (Inr tr, d)"
  by (simp add: login_def Let_def sample_db_def empty_db_def sample_admin_def sample_head_office_def sample_operator_def
      sample_manager_def sample_crypto_def verify_password_def ensure_account_not_locked_def ok_def
      create_user_session_def create_refresh_token_def reset_login_failures_def)

theorem login_authenticates_witness:
  "\<exists>tr d u. login sample_crypto sample_env sample_db ''omar'' ''h'' None None = (Inr tr, d)
    \<and> get_current_user sample_crypto sample_env d (tr_access_token tr) = Inr u \<and> u_username u = ''omar''"
proof -
  obtain tr d where L: "login sample_crypto sample_env sample_db ''omar'' ''h'' None None = (Inr tr, d)"
    using sample_login by blast
  have "now sample_env < now sample_env + minutes (access_token_expire_minutes sample_crypto)"
    "now sample_env < now sample_env + days (refresh_token_expire_days sample_env)" by code_simp+
  with login_authenticates [OF L sample_users_keyed sample_decode] L show ?thesis by blast
qed

theorem guessing_locks_account_witness:
  "fst (login sample_crypto sample_env
     (try_passwords sample_crypto ''omar'' (replicate 4 (sample_env, ''no'') @ [(sample_env, ''no'')]) sample_db) ''omar'' ''h'' None None)
   = Inl (HTTPException 423 [T ''Account is temporarily locked until '', At (no_micros (now sample_env) + minutes 15)])"
proof -
  have u: "find (\<lambda>u. u_username u = ''omar'') (users sample_db) = Some sample_operator" by code_simp
  have f: "u_failed_login_attempts sample_operator = 0" by code_simp
  have ts: "\<forall>(e, pw) \<in> set (replicate 4 (sample_env, ''no'') @ [(sample_env, ''no'')]). unlocked e sample_operator
      \<and> \<not> bcrypt_check sample_crypto pw (u_hashed_password sample_operator)
      \<and> max_failed_login_attempts e = 1 + int (length (replicate 4 (sample_env, ''no'')))"
    by (simp add: sample_crypto_def unlocked_def sample_operator_def sample_manager_def sample_env_def)
  have n: "now sample_env < no_micros (now sample_env) + minutes (account_lock_minutes sample_env)" by code_simp
  have "account_lock_minutes sample_env = 15" by code_simp
  with guessing_locks_account [OF sample_users_keyed u f ts n, of "''h''" None None] show ?thesis by simp
qed

end
