(* ===== verification/Sessions.thy ===== *)
theory Sessions
  imports Auth
begin

text \<open>
  The life of a login session over the whole of \<open>api/auth.py\<close>: any sequence of its routes, each with
  its own time and drawn tokens. A session that was revoked stays as it is, so a password change shuts
  out every token given before it, and a refresh token works once.
\<close>

section \<open>Sequences of authentication requests\<close>

datatype auth_action =
    Login string string "string option" "string option"
  | Refresh string "string option" "string option"
  | Logout user string
  | Logout_All user string
  | Change_Password user string string
  | Reset_Password user int string

fun auth_step :: "crypto \<Rightarrow> env \<Rightarrow> auth_action \<Rightarrow> db \<Rightarrow> db" where
  "auth_step c e (Login username pw ip ua) d = snd (login c e d username pw ip ua)"
| "auth_step c e (Refresh token ip ua) d = (case refresh_auth_token c e d token ip ua of Inl _ \<Rightarrow> d | Inr (_, d') \<Rightarrow> d')"
| "auth_step c e (Logout u header) d = logout c e d u header"
| "auth_step c e (Logout_All u header) d = logout_all c e d u header"
| "auth_step c e (Change_Password u old new) d = (case change_password c e d u old new of Inl _ \<Rightarrow> d | Inr d' \<Rightarrow> d')"
| "auth_step c e (Reset_Password u i new) d = (case admin_reset_password c e d i new u of Inl _ \<Rightarrow> d | Inr d' \<Rightarrow> d')"

definition auth_run :: "(crypto \<times> env \<times> auth_action) list \<Rightarrow> db \<Rightarrow> db" where
  "auth_run steps d = fold (\<lambda>(c, e, a). auth_step c e a) steps d"

section \<open>Revoked sessions\<close>

text \<open>The sessions of the database have distinct keys and one of them is the revoked \<open>s\<close>.\<close>

definition revoked_in :: "auth_session \<Rightarrow> auth_session list \<Rightarrow> bool" where
  "revoked_in s t \<longleftrightarrow> keyed as_id t \<and> s \<in> set t \<and> \<not> live s"

lemma audit_auth_sessions [simp]: "auth_sessions (audit_auth e u a en i st x d) = auth_sessions d"
  by (simp add: audit_auth_def audit_def)

lemma revoked_in_put: "revoked_in s t \<Longrightarrow> x \<in> set t \<Longrightarrow> live x \<Longrightarrow> as_id x' = as_id x \<Longrightarrow> revoked_in s (put_row as_id x' t)"
  by (auto simp: revoked_in_def put_row_def image_iff keyed_def distinct_map inj_on_def comp_def)

lemma revoked_in_add: "revoked_in s t \<Longrightarrow> as_id x = next_id as_id t \<Longrightarrow> revoked_in s (add_row x t)"
  by (auto simp: revoked_in_def table.rows_add table.wf_add)

lemma revoke_user_sessions_rows:
  "auth_sessions (snd (revoke_user_sessions e u i d)) =
     map (\<lambda>s. if as_user_id s = u_id u \<and> live s \<and> \<not> (i \<notin> set [None, Some 0] \<and> i = Some (as_id s)) then revoke_session e s else s)
       (auth_sessions d)"
  by (simp add: revoke_user_sessions_def)

lemma revoked_in_map:
  assumes "keyed as_id t" "s \<in> set t" "\<And>x. as_id (f x) = as_id x" "\<not> live (f s)"
  shows "revoked_in (f s) (map f t)"
  using assms by (simp add: revoked_in_def keyed_def comp_def)

lemma revoked_in_revoke:
  "revoked_in s (auth_sessions d) \<Longrightarrow> revoked_in s (auth_sessions (snd (revoke_user_sessions e u i d)))"
proof -
  assume *: "revoked_in s (auth_sessions d)"
  let ?f = "\<lambda>s. if as_user_id s = u_id u \<and> live s \<and> \<not> (i \<notin> set [None, Some 0] \<and> i = Some (as_id s)) then revoke_session e s else s"
  have "revoked_in (?f s) (map ?f (auth_sessions d))"
    using * by (intro revoked_in_map) (simp_all add: revoked_in_def revoke_session_def)
  with * show ?thesis unfolding revoke_user_sessions_rows by (simp add: revoked_in_def)
qed

lemma record_failed_login_sessions [simp]: "auth_sessions (record_failed_login e u d) = auth_sessions d"
  by (simp add: record_failed_login_def Let_def split: option.splits)

lemma find_SomeD: "find P t = Some x \<Longrightarrow> x \<in> set t \<and> P x"
  by (auto simp: find_Some_iff)

lemma create_user_session_sessions:
  "create_user_session c e d u ip ua = Inr (s, r, d') \<Longrightarrow>
    as_id s = next_id as_id (auth_sessions d) \<and> auth_sessions d' = add_row s (auth_sessions d)"
  by (auto simp: create_user_session_def create_refresh_token_def Let_def split: if_splits)

lemma revoked_in_login:
  "revoked_in s (auth_sessions d) \<Longrightarrow> revoked_in s (auth_sessions (snd (login c e d n pw ip ua)))"
  by (auto simp: login_def Let_def ok_def revoked_in_add dest!: create_user_session_sessions
      split: option.split sum.split)

lemma refresh_sessions:
  assumes "refresh_user_session c e d tok ip ua = Inr (s', u, tok', d')"
  obtains s where "s \<in> set (auth_sessions d)" "live s" "as_id s' = as_id s" "as_refresh_token_hash s = sha256_hex c tok"
    "as_refresh_token_hash s' = sha256_hex c (new_token c)" "tok' = new_token c"
    "find (\<lambda>x. as_id x \<noteq> as_id s \<and> as_refresh_token_hash x = sha256_hex c (new_token c)) (auth_sessions d) = None"
    "d' = d\<lparr>auth_sessions := put_row as_id s' (auth_sessions d)\<rparr>"
proof -
  from assms obtain s where f: "find (\<lambda>s. as_refresh_token_hash s = sha256_hex c tok
      \<and> get_row u_id (users d) (as_user_id s) \<noteq> None) (auth_sessions d) = Some s"
    by (auto simp: refresh_user_session_def split: option.splits)
  from find_SomeD [OF f] have s: "s \<in> set (auth_sessions d)" "as_refresh_token_hash s = sha256_hex c tok" by auto
  from assms f have "live s" by (auto simp: refresh_user_session_def split: if_splits)
  from assms f have "as_id s' = as_id s \<and> as_refresh_token_hash s' = sha256_hex c (new_token c) \<and> tok' = new_token c
      \<and> find (\<lambda>x. as_id x \<noteq> as_id s \<and> as_refresh_token_hash x = sha256_hex c (new_token c)) (auth_sessions d) = None
      \<and> d' = d\<lparr>auth_sessions := put_row as_id s' (auth_sessions d)\<rparr>"
    by (auto simp: refresh_user_session_def create_refresh_token_def res_simps Let_def
        split: option.splits if_split_asm)
  with s that \<open>live s\<close> show thesis by blast
qed

lemma revoked_in_logout:
  "revoked_in s (auth_sessions d) \<Longrightarrow> revoked_in s (auth_sessions (logout c e d u h))"
  by (auto simp: logout_def get_active_session_def revoke_session_def bind_eq_Some_conv
      intro: revoked_in_put dest!: find_SomeD split: option.split)

lemma set_password_sessions:
  "set_password c e u pw d = Inr d' \<Longrightarrow> auth_sessions d' = auth_sessions (snd (revoke_user_sessions e u None d))"
  by (auto simp: set_password_def revoke_user_sessions_def split: sum.splits pyexc.splits)

lemma revoked_in_step: "revoked_in s (auth_sessions d) \<Longrightarrow> revoked_in s (auth_sessions (auth_step c e a d))"
proof (induction a)
  case (Login n pw ip ua)
  then show ?case by (simp add: revoked_in_login)
next
  case (Refresh tok ip ua)
  then show ?case
    by (auto simp: refresh_auth_token_def elim!: refresh_sessions intro: revoked_in_put split: sum.splits)
next
  case (Logout u h)
  then show ?case by (simp add: revoked_in_logout)
next
  case (Logout_All u h)
  then show ?case using revoked_in_revoke [of s d e u "header_session c h"]
    by (cases "revoke_user_sessions e u (header_session c h) d") (simp add: logout_all_def)
next
  case (Change_Password u old new)
  then show ?case
    by (auto simp: change_password_def set_password_sessions revoked_in_revoke split: sum.splits if_splits)
next
  case (Reset_Password u i new)
  then show ?case
    by (auto simp: admin_reset_password_def res_simps set_password_sessions revoked_in_revoke check_def
        split: sum.splits if_splits option.splits)
qed

lemma revoked_in_run: "revoked_in s (auth_sessions d) \<Longrightarrow> revoked_in s (auth_sessions (auth_run steps d))"
  unfolding auth_run_def
  by (rule fold_invariant [where Q = "\<lambda>_. True" and P = "\<lambda>d. revoked_in s (auth_sessions d)"]) (auto intro: revoked_in_step)

lemma revoked_session_refused:
  assumes "revoked_in s (auth_sessions d)" "jwt_decode c token = Some cl" "cl_sid cl = Some (as_id s)"
  shows "get_current_user c e d token = credentials_exception"
proof -
  have "x = s" if "x \<in> set (auth_sessions d)" "as_id x = as_id s" for x
    using assms(1) that by (auto simp: revoked_in_def keyed_def distinct_map inj_on_def)
  then have "find (\<lambda>x. as_id x = as_id s \<and> as_user_id x = i \<and> live x \<and> now e < as_expires_at x) (auth_sessions d) = None" for i
    using assms(1) by (auto simp: find_None_iff revoked_in_def)
  then show ?thesis using assms(2,3) by (auto simp: get_current_user_def split: option.splits)
qed

text \<open>
  C15. A changed password shuts everybody out: every token made for a session that existed when the
  user changed the password is refused by every request afterwards, whatever logins, refreshes,
  logouts and password changes of anybody come in between.
\<close>

theorem password_change_ends_sessions:
  assumes "change_password c e d u old new = Inr d1" and "keyed as_id (auth_sessions d)"
    and "s \<in> set (auth_sessions d)" and "as_user_id s = u_id u"
    and "jwt_decode c' token = Some cl" and "cl_sid cl = Some (as_id s)"
  shows "get_current_user c' e' (auth_run steps d1) token = credentials_exception"
proof -
  have d1: "auth_sessions d1 = auth_sessions (snd (revoke_user_sessions e u None d))"
    using assms(1) by (auto simp: change_password_def set_password_sessions split: sum.splits if_splits)
  let ?f = "\<lambda>s. if as_user_id s = u_id u \<and> live s \<and> \<not> ((None :: int option) \<notin> set [None, Some 0] \<and> None = Some (as_id s))
    then revoke_session e s else s"
  let ?s = "?f s"
  have "revoked_in ?s (auth_sessions d1)"
    using assms(2-4) unfolding d1 revoke_user_sessions_rows
    by (intro revoked_in_map) (auto simp: revoke_session_def live_def)
  moreover have "as_id ?s = as_id s" by (simp add: revoke_session_def)
  ultimately show ?thesis
    using revoked_session_refused [OF revoked_in_run assms(5)] assms(6) by metis
qed

section \<open>Refresh tokens\<close>

text \<open>
  A refresh token works once: after a refresh the database holds no session for the token that
  was used, so every later request with it is refused, as long as the new token has another hash.
\<close>

theorem refresh_token_single_use:
  assumes "refresh_auth_token c e d token ip ua = Inr (tr, d')" and "keyed as_id (auth_sessions d)"
    and "distinct (map as_refresh_token_hash (auth_sessions d))"
    and "sha256_hex c token \<noteq> sha256_hex c (tr_refresh_token tr)" and "sha256_hex c' = sha256_hex c"
  shows "refresh_auth_token c' e' d' token ip' ua' = http 401 ''Invalid or expired refresh token''"
proof -
  from assms(1) obtain s' u tok' d1 where r: "refresh_user_session c e d token ip ua = Inr (s', u, tok', d1)"
      "tr_refresh_token tr = tok'" "auth_sessions d' = auth_sessions d1"
    by (auto simp: refresh_auth_token_def token_answer_def split: sum.splits)
  from r(1) show ?thesis
  proof (rule refresh_sessions)
    fix s assume s: "s \<in> set (auth_sessions d)" "as_id s' = as_id s" "as_refresh_token_hash s = sha256_hex c token"
      "as_refresh_token_hash s' = sha256_hex c (new_token c)" "tok' = new_token c"
      "d1 = d\<lparr>auth_sessions := put_row as_id s' (auth_sessions d)\<rparr>"
    have "x = s" if "x \<in> set (auth_sessions d)" "as_refresh_token_hash x = sha256_hex c token" for x
      using assms(3) s(1,3) that by (auto simp: distinct_map inj_on_def)
    moreover have "x = s' \<or> x \<in> set (auth_sessions d) \<and> as_id x \<noteq> as_id s" if "x \<in> set (auth_sessions d')" for x
      using that unfolding r(3) s(6) by (auto simp: put_row_def s(2) split: if_splits)
    moreover have "as_refresh_token_hash s' \<noteq> sha256_hex c token" using assms(4) r(2) s(4,5) by simp
    ultimately have "as_refresh_token_hash x \<noteq> sha256_hex c token" if "x \<in> set (auth_sessions d')" for x
      using that by blast
    then have "find (\<lambda>x. as_refresh_token_hash x = sha256_hex c' token \<and> get_row u_id (users d') (as_user_id x) \<noteq> None)
        (auth_sessions d') = None"
      using assms(5) by (auto simp: find_None_iff)
    then show ?thesis by (simp add: refresh_auth_token_def refresh_user_session_def)
  qed
qed

section \<open>Concrete checks\<close>

definition sample_session :: auth_session where
  "sample_session = \<lparr>as_id = 1, as_user_id = 4, as_refresh_token_hash = ''old'', as_is_active = True,
     as_expires_at = now sample_env + days 1, as_revoked_at = None, as_last_seen_at = None, as_ip_address = None,
     as_user_agent = None, as_created_at = 0, as_updated_at = 0\<rparr>"

definition session_db :: db where
  "session_db = sample_db\<lparr>auth_sessions := [sample_session]\<rparr>"

lemma session_db_rows: "keyed as_id (auth_sessions session_db)" "sample_session \<in> set (auth_sessions session_db)"
    "as_user_id sample_session = u_id sample_operator" "distinct (map as_refresh_token_hash (auth_sessions session_db))"
  by code_simp+

definition sample_claims :: claims where
  "sample_claims = \<lparr>cl_sub = Some ''4'', cl_sid = Some 1, cl_exp = 0, cl_type = Some ''access''\<rparr>"

lemma sample_change_password:
  "\<exists>d. change_password sample_crypto sample_env session_db sample_operator ''h'' ''new secret'' = Inr d"
  by (simp add: change_password_def set_password_def hash_password_def validate_password_strength_def verify_password_def
      sample_crypto_def sample_operator_def sample_manager_def)

theorem password_change_ends_sessions_witness:
  "\<exists>d. change_password sample_crypto sample_env session_db sample_operator ''h'' ''new secret'' = Inr d
    \<and> get_current_user sample_crypto sample_env session_db (jwt_encode sample_crypto sample_claims) = Inr sample_operator
    \<and> get_current_user sample_crypto sample_env (auth_run [(sample_crypto, sample_env, Login ''omar'' ''new secret'' None None)] d)
        (jwt_encode sample_crypto sample_claims) = credentials_exception"
proof -
  obtain d where d: "change_password sample_crypto sample_env session_db sample_operator ''h'' ''new secret'' = Inr d"
    using sample_change_password by blast
  have "cl_sid sample_claims = Some (as_id sample_session)" by code_simp
  note password_change_ends_sessions [OF d session_db_rows(1-3) sample_decode this]
  moreover have "parse_int ''4'' = Some 4" by code_simp
  moreover have "get_row u_id (users session_db) 4 = Some sample_operator" by code_simp
  moreover have "now sample_env < as_expires_at sample_session" by code_simp
  ultimately show ?thesis
    using d by (simp add: get_current_user_def sample_decode)
      (simp add: sample_claims_def session_db_def sample_session_def live_def sample_operator_def sample_manager_def)
qed

theorem refresh_token_single_use_witness:
  "\<exists>tr d. refresh_auth_token sample_crypto sample_env session_db ''old'' None None = Inr (tr, d)
    \<and> refresh_auth_token sample_crypto sample_env d ''old'' None None = http 401 ''Invalid or expired refresh token''"
proof -
  have u: "get_row u_id (users session_db) 4 = Some sample_operator" by code_simp
  have n: "now sample_env < as_expires_at sample_session" by code_simp
  have a: "auth_sessions session_db = [sample_session]" by (simp add: session_db_def)
  have k: "ensure_account_not_locked sample_env sample_operator = ok" "u_is_active sample_operator" by code_simp+
  have l: "live sample_session" "as_user_id sample_session = 4" "as_refresh_token_hash sample_session = ''old''" by code_simp+
  have h: "sha256_hex sample_crypto x = x" "new_token sample_crypto = ''tok''" for x by (simp_all add: sample_crypto_def)
  obtain tr d where r: "refresh_auth_token sample_crypto sample_env session_db ''old'' None None = Inr (tr, d)"
      "tr_refresh_token tr = ''tok''"
    using n by (simp add: refresh_auth_token_def refresh_user_session_def a k l h u create_refresh_token_def Let_def
        token_answer_def)
  then have "sha256_hex sample_crypto ''old'' \<noteq> sha256_hex sample_crypto (tr_refresh_token tr)"
    by (simp add: sample_crypto_def)
  from refresh_token_single_use [OF r(1) session_db_rows(1,4) this refl] r(1) show ?thesis by blast
qed

end
