(* ===== verification/Users.thy ===== *)
theory Users
  imports Auth
begin

text \<open>
  \<open>app/api/role.py\<close> and \<open>app/api/user.py\<close>: the roles and the accounts. A user carries the row of its
  role, so renaming a role is seen by its users. Deleting a user makes the unit of work clear
  \<open>user_id\<close> of the sessions and attendance records of the user, columns that are not nullable.
\<close>

section \<open>Roles\<close>

record role_create =
  rc_name :: string
  rc_description :: "string option"

record role_update =
  ru_name :: "string option patch"
  ru_description :: "string option patch"

definition create_role :: "db \<Rightarrow> role_create \<Rightarrow> user \<Rightarrow> (role \<times> db) res" where
  "create_role d data u =
     check (require_admin u)
     (if find (\<lambda>r. role_name r = rc_name data) (roles d) \<noteq> None then http 400 ''Role already exists''
      else let r = \<lparr>role_id = next_id role_id (roles d), role_name = rc_name data, role_description = rc_description data\<rparr>
           in Inr (r, d\<lparr>roles := add_row r (roles d)\<rparr>))"

definition list_roles :: "db \<Rightarrow> nat \<Rightarrow> nat \<Rightarrow> user \<Rightarrow> role list res" where
  "list_roles d skip limit u = check (require_admin u) (Inr (page skip limit (roles d)))"

definition with_role :: "db \<Rightarrow> int \<Rightarrow> (role \<Rightarrow> 'a res) \<Rightarrow> 'a res" where
  "with_role d i f = (case get_row role_id (roles d) i of None \<Rightarrow> http 404 ''Role not found'' | Some r \<Rightarrow> f r)"

definition get_role :: "db \<Rightarrow> int \<Rightarrow> user \<Rightarrow> role res" where
  "get_role d i u = check (require_admin u) (with_role d i Inr)"

definition update_role :: "db \<Rightarrow> int \<Rightarrow> role_update \<Rightarrow> user \<Rightarrow> (role \<times> db) res" where
  "update_role d i data u =
     check (require_admin u) (with_role d i (\<lambda>r.
     check (if ru_name data \<noteq> Unset \<and> ru_name data \<noteq> Set (Some (role_name r))
            then ensure_core_role_mutation_allowed (role_name r) ''renamed'' else ok)
     (let r' = r\<lparr>role_name := assign_value (ru_name data) (role_name r),
                 role_description := assign (ru_description data) (role_description r)\<rparr>
      in if is_null (ru_name data) \<or> find (\<lambda>x. role_id x \<noteq> i \<and> role_name x = role_name r') (roles d) \<noteq> None
         then Inl IntegrityError
         else Inr (r', d\<lparr>roles := put_row role_id r' (roles d),
                       users := map (\<lambda>x. if role_id (u_role x) = i then x\<lparr>u_role := r'\<rparr> else x) (users d)\<rparr>))))"

definition delete_role :: "db \<Rightarrow> int \<Rightarrow> user \<Rightarrow> db res" where
  "delete_role d i u =
     check (require_admin u) (with_role d i (\<lambda>r.
     check (ensure_core_role_mutation_allowed (role_name r) ''deleted'')
     (if find (\<lambda>x. role_id (u_role x) = i) (users d) \<noteq> None
      then http 400 ''Role cannot be deleted while users are assigned to it''
      else Inr (d\<lparr>roles := del_row role_id i (roles d)\<rparr>))))"

definition get_roles_permission_catalog :: "user \<Rightarrow> (string list \<times> (string \<times> (string \<times> string list) list) list) res" where
  \<comment> \<open>the role names and the matrix; the role summaries are fixed texts\<close>
  "get_roles_permission_catalog u =
     check (require_permission u ''roles'' ''read'' ''You do not have permission to view role policy data'')
     (Inr (CORE_ROLE_NAMES, PERMISSION_MATRIX))"

definition get_role_permission_summary :: "user \<Rightarrow> string \<Rightarrow> (string \<times> (string \<times> string list) list) res" where
  "get_role_permission_summary u r =
     check (require_permission u ''roles'' ''read'' ''You do not have permission to view role policy data'')
     (Inr (r, get_role_permissions r))"

section \<open>Accounts\<close>

record user_create =
  uc_full_name :: string
  uc_username :: string
  uc_email :: "string option"
  uc_password :: string
  uc_role_id :: int
  uc_organization_id :: "int option"
  uc_station_id :: "int option"
  uc_scope_level :: string
  uc_is_platform_user :: bool
  uc_monthly_salary :: pyfloat
  uc_payroll_enabled :: bool

text \<open>
  The request may send null for every field; a null \<open>is_active\<close>, which the column takes and the
  response then refuses, is left out.
\<close>

record user_update =
  uu_full_name :: "string option patch"
  uu_email :: "string option patch"
  uu_is_active :: "bool patch"
  uu_role_id :: "int option patch"
  uu_organization_id :: "int option patch"
  uu_station_id :: "int option patch"
  uu_scope_level :: "string option patch"
  uu_is_platform_user :: "bool option patch"
  uu_monthly_salary :: "pyfloat option patch"
  uu_payroll_enabled :: "bool option patch"

definition station_in_organization :: "db \<Rightarrow> int option \<Rightarrow> int option \<Rightarrow> int option res" where
  \<comment> \<open>the organization after looking up the requested station, if one is requested\<close>
  "station_in_organization d organization_id station_id =
     (case station_id of None \<Rightarrow> Inr organization_id | Some i \<Rightarrow>
      case get_row st_id (stations d) i of None \<Rightarrow> http 404 ''Station not found'' | Some s \<Rightarrow>
      if organization_id \<noteq> None \<and> st_organization_id s \<noteq> organization_id
      then http 400 ''Station does not belong to the provided organization'' else Inr (st_organization_id s))"

definition ensure_user_scope :: "db \<Rightarrow> user \<Rightarrow> int option \<Rightarrow> unit res" where
  \<comment> \<open>the users an actor may put into the organization\<close>
  "ensure_user_scope d u organization_id =
     (if role_of u \<notin> set [''MasterAdmin'', ''Admin''] \<and> \<not> u_is_platform_user u then
        (if organization_id \<noteq> get_user_organization_id d u
         then http 403 ''You can only manage users inside your organization'' else ok)
      else if role_of u = ''Admin'' \<and> organization_id \<noteq> None then
        (if get_user_organization_id d u \<noteq> None \<and> organization_id \<noteq> get_user_organization_id d u
         then http 403 ''Admin can only manage users inside the assigned organization'' else ok)
      else ok)"

definition normalize_user_scope ::
  "db \<Rightarrow> user \<Rightarrow> string \<Rightarrow> int option \<Rightarrow> int option \<Rightarrow> user option \<Rightarrow> (int option \<times> int option \<times> string \<times> bool) res" where
  "normalize_user_scope d u r requested_organization_id requested_station_id existing =
     (let rule = get_role_scope_rule r in
      case station_in_organization d requested_organization_id requested_station_id of Inl x \<Rightarrow> Inl x | Inr organization_id \<Rightarrow>
      if platform_only rule then
        (if \<not> (role_of u = ''MasterAdmin'' \<or> u_is_platform_user u) then http 403 ''Only platform users can assign platform roles''
         else Inr (None, None, ''platform'', True))
      else let organization_id = (if requires_organization rule \<and> organization_id = None
              then (case existing of Some x \<Rightarrow> u_organization_id x | None \<Rightarrow> get_user_organization_id d u) else organization_id) in
      if requires_organization rule \<and> organization_id = None
      then Inl (HTTPException 400 [T (''Role '' @ [CHR 0x27]), T r, T (CHR 0x27 # '' requires an organization assignment'')])
      else let station_id = (if requires_station rule \<and> requested_station_id = None
              then (case existing of Some x \<Rightarrow> u_station_id x | None \<Rightarrow> None) else requested_station_id) in
      if requires_station rule \<and> station_id = None
      then Inl (HTTPException 400 [T (''Role '' @ [CHR 0x27]), T r, T (CHR 0x27 # '' requires a station assignment'')])
      else check (ensure_user_scope d u organization_id)
        (Inr (organization_id, if requires_station rule then station_id else None, scope_level rule, False)))"

definition create_user :: "crypto \<Rightarrow> db \<Rightarrow> user_create \<Rightarrow> user \<Rightarrow> (user \<times> db) res" where
  "create_user c d data u =
     (if find (\<lambda>x. u_username x = uc_username data) (users d) \<noteq> None then http 400 ''Username already exists''
      else if truthy (uc_email data) \<and> find (\<lambda>x. u_email x = uc_email data) (users d) \<noteq> None then http 400 ''Email already exists''
      else case get_row role_id (roles d) (uc_role_id data) of None \<Rightarrow> http 404 ''Role not found'' | Some r \<Rightarrow>
      check (ensure_role_creation_allowed u (role_name r))
      (case normalize_user_scope d u (role_name r) (uc_organization_id data) (uc_station_id data) None of
         Inl x \<Rightarrow> Inl x
       | Inr (organization_id, station_id, level, platform) \<Rightarrow>
       case hash_password c (uc_password data) of Inl x \<Rightarrow> Inl x | Inr hashed_password \<Rightarrow>
       let x = \<lparr>u_id = next_id u_id (users d), u_full_name = uc_full_name data, u_username = uc_username data,
             u_email = uc_email data, u_phone = None, u_whatsapp_number = None, u_hashed_password = hashed_password,
             u_is_active = True, u_failed_login_attempts = 0, u_last_failed_login_at = None, u_locked_until = None,
             u_last_login_at = None, u_monthly_salary = uc_monthly_salary data, u_payroll_enabled = uc_payroll_enabled data,
             u_role = r, u_organization_id = organization_id, u_station_id = station_id,
             u_created_by_user_id = Some (u_id u), u_scope_level = level, u_is_platform_user = platform\<rparr>
       in Inr (x, d\<lparr>users := add_row x (users d)\<rparr>)))"

definition of_organization :: "db \<Rightarrow> int option \<Rightarrow> user \<Rightarrow> bool" where
  \<comment> \<open>the filter over the outer join with the station; a comparison with null is \<open>IS NULL\<close>\<close>
  "of_organization d organization_id x \<longleftrightarrow>
     u_organization_id x = organization_id \<or> station_organization d x = organization_id"

definition list_users ::
  "db \<Rightarrow> user \<Rightarrow> int option \<Rightarrow> int option \<Rightarrow> int option \<Rightarrow> bool option \<Rightarrow> nat \<Rightarrow> nat \<Rightarrow> user list res" where
  "list_users d u station_id organization_id role active skip limit =
     (let own = get_user_organization_id d u;
          scope = (if is_admin u then Inr (\<lambda>x. organization_id \<noteq> None \<longrightarrow> u_organization_id x = organization_id)
            else if is_head_office_user u then
              check (require_permission u ''users'' ''read'' ''You do not have permission to view users'')
              (if organization_id \<noteq> None \<and> organization_id \<noteq> own then http 403 ''Not authorized for this organization''
               else if (case station_id of None \<Rightarrow> False | Some i \<Rightarrow>
                  (case get_row st_id (stations d) i of None \<Rightarrow> True | Some s \<Rightarrow> st_organization_id s \<noteq> own))
               then http 403 ''Not authorized for this station''
               else Inr (of_organization d own))
            else http 403 ''Admin access required'')
      in case scope of Inl x \<Rightarrow> Inl x | Inr p \<Rightarrow>
      Inr (page skip limit (filter (\<lambda>x. p x
          \<and> (station_id \<in> set [None, Some 0] \<or> u_station_id x = station_id) \<and> selects role (role_id (u_role x))
          \<and> (active = None \<or> Some (u_is_active x) = active)) (users d))))"

definition get_user :: "db \<Rightarrow> int \<Rightarrow> user \<Rightarrow> user res" where
  "get_user d i u =
     (case get_row u_id (users d) i of None \<Rightarrow> http 404 ''User not found'' | Some x \<Rightarrow>
      if is_admin u then Inr x
      else if is_head_office_user u then
        check (require_permission u ''users'' ''read'' ''You do not have permission to view users'')
        (let organization_id = (if u_organization_id x \<in> set [None, Some 0] then station_organization d x else u_organization_id x)
         in if organization_id \<noteq> get_user_organization_id d u then http 403 ''Not authorized for this user'' else Inr x)
      else http 403 ''Admin access required'')"

definition target_role :: "db \<Rightarrow> user_update \<Rightarrow> user \<Rightarrow> user \<Rightarrow> role res" where
  "target_role d data x u =
     (case uu_role_id data of Unset \<Rightarrow> Inr (u_role x)
      | Set i \<Rightarrow> (case Option.bind i (get_row role_id (roles d)) of None \<Rightarrow> http 404 ''Role not found''
          | Some r \<Rightarrow> check (ensure_role_creation_allowed u (role_name r)) (Inr r)))"

definition update_user :: "db \<Rightarrow> int \<Rightarrow> user_update \<Rightarrow> user \<Rightarrow> (user \<times> db) res" where
  "update_user d i data u =
     check (require_admin u)
     (case get_row u_id (users d) i of None \<Rightarrow> http 404 ''User not found'' | Some x \<Rightarrow>
      case target_role d data x u of Inl err \<Rightarrow> Inl err | Inr r \<Rightarrow>
      case normalize_user_scope d u (role_name r) (assign (uu_organization_id data) (u_organization_id x))
             (assign (uu_station_id data) (u_station_id x)) (Some x) of
        Inl err \<Rightarrow> Inl err
      | Inr (organization_id, station_id, level, platform) \<Rightarrow>
      let x' = x\<lparr>u_full_name := assign_value (uu_full_name data) (u_full_name x), u_email := assign (uu_email data) (u_email x),
            u_is_active := assign (uu_is_active data) (u_is_active x), u_role := r,
            u_organization_id := organization_id, u_station_id := station_id, u_scope_level := level,
            u_is_platform_user := platform,
            u_monthly_salary := assign_value (uu_monthly_salary data) (u_monthly_salary x),
            u_payroll_enabled := assign_value (uu_payroll_enabled data) (u_payroll_enabled x)\<rparr>
      in if is_null (uu_full_name data) \<or> is_null (uu_monthly_salary data) \<or> is_null (uu_payroll_enabled data)
            \<or> (u_email x' \<noteq> None \<and> find (\<lambda>y. u_id y \<noteq> i \<and> u_email y = u_email x') (users d) \<noteq> None)
         then Inl IntegrityError
         else Inr (x', d\<lparr>users := put_row u_id x' (users d)\<rparr>))"

definition delete_user :: "db \<Rightarrow> int \<Rightarrow> user \<Rightarrow> db res" where
  "delete_user d i u =
     check (require_admin u)
     (case get_row u_id (users d) i of None \<Rightarrow> http 404 ''User not found'' | Some x \<Rightarrow>
      if find (\<lambda>s. as_user_id s = i) (auth_sessions d) \<noteq> None \<or> find (\<lambda>a. at_user_id a = i) (attendance_records d) \<noteq> None
      then Inl IntegrityError
      else Inr (d\<lparr>users := del_row u_id i (users d)\<rparr>))"

section \<open>Histories of account management\<close>

datatype account_action =
    Create_Role role_create
  | Update_Role int role_update
  | Delete_Role int
  | Create_User user_create
  | Update_User int user_update
  | Delete_User int

definition account_result :: "crypto \<Rightarrow> user \<Rightarrow> account_action \<Rightarrow> db \<Rightarrow> db res" where
  "account_result c u a d = (case a of
     Create_Role data \<Rightarrow> outcome (create_role d data u)
   | Update_Role i data \<Rightarrow> outcome (update_role d i data u)
   | Delete_Role i \<Rightarrow> delete_role d i u
   | Create_User data \<Rightarrow> outcome (create_user c d data u)
   | Update_User i data \<Rightarrow> outcome (update_user d i data u)
   | Delete_User i \<Rightarrow> delete_user d i u)"

definition account_step :: "crypto \<Rightarrow> user \<Rightarrow> account_action \<Rightarrow> db \<Rightarrow> db" where
  "account_step c u a d = (case account_result c u a d of Inl _ \<Rightarrow> d | Inr d' \<Rightarrow> d')"

definition account_run :: "(crypto \<times> user \<times> account_action) list \<Rightarrow> db \<Rightarrow> db" where
  "account_run steps d = fold (\<lambda>(c, u, a). account_step c u a) steps d"

text \<open>
  What the tables promise: keys and names are unique, the core roles exist, and the role of every user
  is in the table.
\<close>

definition accounts_ok :: "db \<Rightarrow> bool" where
  "accounts_ok d \<longleftrightarrow> keyed role_id (roles d) \<and> distinct (map role_name (roles d))
     \<and> set CORE_ROLE_NAMES \<subseteq> role_name ` set (roles d) \<and> u_role ` set (users d) \<subseteq> set (roles d)
     \<and> keyed u_id (users d) \<and> distinct (map u_username (users d))"

lemma with_role_Inr [res_simps]:
  "with_role d i f = Inr y \<longleftrightarrow> (\<exists>r. get_row role_id (roles d) i = Some r \<and> f r = Inr y)"
  by (simp add: with_role_def split: option.splits)

lemma core_mutation_ok [res_simps]: "ensure_core_role_mutation_allowed r a = ok \<longleftrightarrow> r \<notin> set CORE_ROLE_NAMES"
  by (simp add: ensure_core_role_mutation_allowed_def is_core_role_name_def)

lemma update_role_Inr:
  assumes "update_role d i data u = Inr (r', d')"
  obtains r where "get_row role_id (roles d) i = Some r" "role_id r' = i"
    "role_name r \<in> set CORE_ROLE_NAMES \<Longrightarrow> role_name r' = role_name r"
    "\<forall>x \<in> set (roles d). role_id x \<noteq> i \<longrightarrow> role_name x \<noteq> role_name r'"
    "d' = d\<lparr>roles := put_row role_id r' (roles d), users := map (\<lambda>x. if role_id (u_role x) = i then x\<lparr>u_role := r'\<rparr> else x) (users d)\<rparr>"
proof -
  from assms obtain r where r: "get_row role_id (roles d) i = Some r" by (auto simp: update_role_def res_simps)
  have "role_id r' = i \<and> (role_name r \<in> set CORE_ROLE_NAMES \<longrightarrow> role_name r' = role_name r)
      \<and> (\<forall>x \<in> set (roles d). role_id x \<noteq> i \<longrightarrow> role_name x \<noteq> role_name r')
      \<and> d' = d\<lparr>roles := put_row role_id r' (roles d), users := map (\<lambda>x. if role_id (u_role x) = i then x\<lparr>u_role := r'\<rparr> else x) (users d)\<rparr>"
    using get_row_Some [OF r] assms r
    by (auto simp: update_role_def res_simps Let_def find_None_all is_null_def assign_value_def
        split: if_splits option.splits patch.splits)
  with that [OF r] show thesis by blast
qed


lemma normalize_scope_Inr:
  assumes "normalize_user_scope d u r oid sid x = Inr (organization_id, station_id, level, platform)"
  shows "platform = platform_only (get_role_scope_rule r) \<and> (platform \<longrightarrow> is_master_admin u)
    \<and> (\<not> is_admin u \<longrightarrow> organization_id = get_user_organization_id d u)"
  using assms
  by (auto simp: normalize_user_scope_def ensure_user_scope_def Let_def res_simps is_admin_def is_master_admin_def
      is_platform_user_def split: sum.splits if_splits option.splits)

lemma platform_only_role: "platform_only (get_role_scope_rule r) \<longleftrightarrow> r = ''MasterAdmin''"
  by (simp add: get_role_scope_rule_def ROLE_SCOPE_RULES_def)

lemma create_user_Inr:
  assumes "create_user c d data u = Inr (x, d')"
  shows "u_role x \<in> set (roles d) \<and> ensure_role_creation_allowed u (role_of x) = ok
    \<and> u_id x = next_id u_id (users d) \<and> u_username x = uc_username data
    \<and> (\<forall>y \<in> set (users d). u_username y \<noteq> uc_username data)
    \<and> (u_is_platform_user x \<longleftrightarrow> role_of x = ''MasterAdmin'') \<and> (u_is_platform_user x \<longrightarrow> is_master_admin u)
    \<and> (is_admin u \<or> u_organization_id x = get_user_organization_id d u)
    \<and> length (uc_password data) \<ge> 8 \<and> u_hashed_password x = bcrypt_hash c (uc_password data)
    \<and> d' = d\<lparr>users := add_row x (users d)\<rparr>"
proof -
  from assms obtain r where r: "get_row role_id (roles d) (uc_role_id data) = Some r"
      and a: "ensure_role_creation_allowed u (role_name r) = ok"
    by (auto simp: create_user_def res_simps split: option.splits if_splits)
  from assms r a obtain organization_id station_id level platform where
      n: "normalize_user_scope d u (role_name r) (uc_organization_id data) (uc_station_id data) None
          = Inr (organization_id, station_id, level, platform)"
    by (auto simp: create_user_def split: if_splits sum.splits)
  from assms r a n normalize_scope_Inr [OF n] get_row_Some [OF r] show ?thesis
    by (auto simp: create_user_def find_None_all hash_password_def validate_password_strength_def res_simps
        platform_only_role role_of_def Let_def is_master_admin_def split: if_splits sum.splits)
qed

lemma update_user_Inr:
  assumes "update_user d i data u = Inr (x', d')"
  obtains x where "get_row u_id (users d) i = Some x" "u_id x' = i" "u_username x' = u_username x"
    "u_role x' = u_role x \<or> u_role x' \<in> set (roles d)"
    "u_is_platform_user x' \<longleftrightarrow> role_of x' = ''MasterAdmin''" "u_is_platform_user x' \<longrightarrow> is_master_admin u"
    "d' = d\<lparr>users := put_row u_id x' (users d)\<rparr>"
proof -
  from assms obtain x where x: "get_row u_id (users d) i = Some x"
    by (auto simp: update_user_def res_simps split: option.splits)
  with assms obtain r where r: "target_role d data x u = Inr r"
    by (auto simp: update_user_def res_simps split: sum.splits)
  then have R: "r = u_role x \<or> r \<in> set (roles d)"
    by (auto simp: target_role_def res_simps bind_eq_Some_conv split: patch.splits option.splits dest: get_row_Some)
  from assms x r obtain organization_id station_id level platform where
      n: "normalize_user_scope d u (role_name r) (assign (uu_organization_id data) (u_organization_id x))
             (assign (uu_station_id data) (u_station_id x)) (Some x) = Inr (organization_id, station_id, level, platform)"
    by (auto simp: update_user_def res_simps split: sum.splits)
  from normalize_scope_Inr [OF n] R assms x r n get_row_Some [OF x]
  have "u_id x' = i \<and> u_username x' = u_username x \<and> (u_role x' = u_role x \<or> u_role x' \<in> set (roles d))
    \<and> (u_is_platform_user x' \<longleftrightarrow> role_of x' = ''MasterAdmin'') \<and> (u_is_platform_user x' \<longrightarrow> is_master_admin u)
    \<and> d' = d\<lparr>users := put_row u_id x' (users d)\<rparr>"
    by (auto simp: update_user_def res_simps Let_def platform_only_role role_of_def split: if_splits)
  with that [OF x] show thesis by blast
qed


section \<open>Unique accounts and permanent core roles\<close>

lemma create_role_accounts:
  assumes "create_role d data u = Inr (r, d')" "accounts_ok d"
  shows "accounts_ok d'"
proof -
  have "r = \<lparr>role_id = next_id role_id (roles d), role_name = rc_name data, role_description = rc_description data\<rparr>"
    "d' = d\<lparr>roles := add_row r (roles d)\<rparr>" "\<forall>x \<in> set (roles d). role_name x \<noteq> rc_name data"
    using assms(1) by (auto simp: create_role_def res_simps Let_def find_None_all split: if_splits)
  with assms(2) show ?thesis
    by (simp add: accounts_ok_def add_row_def keyed_def next_id_fresh subset_insertI2) fastforce
qed

lemma update_role_accounts:
  assumes "update_role d i data u = Inr (r', d')" "accounts_ok d"
  shows "accounts_ok d'"
  using assms(1)
proof (rule update_role_Inr)
  fix r assume r: "get_row role_id (roles d) i = Some r" "role_id r' = i"
    "role_name r \<in> set CORE_ROLE_NAMES \<Longrightarrow> role_name r' = role_name r"
    "\<forall>x \<in> set (roles d). role_id x \<noteq> i \<longrightarrow> role_name x \<noteq> role_name r'"
    "d' = d\<lparr>roles := put_row role_id r' (roles d), users := map (\<lambda>x. if role_id (u_role x) = i then x\<lparr>u_role := r'\<rparr> else x) (users d)\<rparr>"
  have m: "r' \<in> set (put_row role_id r' (roles d))" using r(1,2) by (intro put_row_mem) simp
  have "n \<in> role_name ` set (put_row role_id r' (roles d))" if "n \<in> set CORE_ROLE_NAMES" for n
  proof -
    from assms(2) that obtain x where x: "x \<in> set (roles d)" "role_name x = n" by (auto simp: accounts_ok_def)
    show ?thesis
    proof (cases "role_id x = i")
      case True
      with x assms(2) have "get_row role_id (roles d) i = Some x"
        using table.get_complete [of role_id "roles d" x] by (simp add: accounts_ok_def)
      with r(1,3) x that m show ?thesis by (metis image_eqI option.inject)
    qed (use put_row_unchanged [of x "roles d" role_id r'] x r(2) in force)
  qed
  moreover have "u_role x \<in> set (put_row role_id r' (roles d))" if "x \<in> set (users d')" for x
  proof -
    from that obtain y where "y \<in> set (users d)" "x = (if role_id (u_role y) = i then y\<lparr>u_role := r'\<rparr> else y)"
      by (auto simp: r(5))
    with assms(2) m r(2) put_row_unchanged [of "u_role y" "roles d" role_id r'] show ?thesis
      by (cases "role_id (u_role y) = i") (auto simp: accounts_ok_def)
  qed
  moreover have "map u_id (users d') = map u_id (users d)" "map u_username (users d') = map u_username (users d)"
    by (simp_all add: r(5))
  moreover have "roles d' = put_row role_id r' (roles d)" by (simp add: r(5))
  ultimately show ?thesis
    using assms(2) distinct_put_row [of role_name "roles d" role_id r'] r(2,4)
    unfolding accounts_ok_def keyed_def by (auto simp del: map_eq_conv)
qed

lemma delete_role_accounts:
  assumes "delete_role d i u = Inr d'" "accounts_ok d"
  shows "accounts_ok d'"
proof -
  from assms(1) obtain r where r: "get_row role_id (roles d) i = Some r" "role_name r \<notin> set CORE_ROLE_NAMES"
      "\<forall>x \<in> set (users d). role_id (u_role x) \<noteq> i" "d' = d\<lparr>roles := del_row role_id i (roles d)\<rparr>"
    by (auto simp: delete_role_def res_simps find_None_all split: if_splits)
  have "x = r" if "x \<in> set (roles d)" "role_id x = i" for x
    using that assms(2) r(1) table.get_complete [of role_id "roles d" x] by (simp add: accounts_ok_def)
  with r(2) assms(2) have "set CORE_ROLE_NAMES \<subseteq> role_name ` set (del_row role_id i (roles d))"
    by (fastforce simp: accounts_ok_def del_row_def)
  with assms(2) r(3,4) show ?thesis
    by (auto simp: accounts_ok_def keyed_def del_row_def distinct_map_filter)
qed

lemma create_user_accounts: "create_user c d data u = Inr (x, d') \<Longrightarrow> accounts_ok d \<Longrightarrow> accounts_ok d'"
  using create_user_Inr [of c d data u x d'] by (auto simp: accounts_ok_def add_row_def keyed_def next_id_fresh)

lemma update_user_accounts:
  assumes "update_user d i data u = Inr (x', d')" "accounts_ok d"
  shows "accounts_ok d'"
  using assms(1)
proof (rule update_user_Inr)
  fix x assume x: "get_row u_id (users d) i = Some x" "u_id x' = i" "u_username x' = u_username x"
    "u_role x' = u_role x \<or> u_role x' \<in> set (roles d)" "d' = d\<lparr>users := put_row u_id x' (users d)\<rparr>"
  have "x = y" if "y \<in> set (users d)" "u_username y = u_username x" for y
    using that assms(2) get_row_Some [OF x(1)] by (auto simp: accounts_ok_def distinct_map inj_on_def)
  then have "distinct (map u_username (put_row u_id x' (users d)))"
    using assms(2) x(2,3) get_row_Some [OF x(1)] by (intro distinct_put_row) (auto simp: accounts_ok_def)
  with assms(2) x get_row_Some [OF x(1)] set_put_row [of u_id x' "users d"] show ?thesis
    by (auto simp: accounts_ok_def keyed_def image_subset_iff)
qed

lemma delete_user_Inr: "delete_user d i u = Inr d' \<Longrightarrow> d' = d\<lparr>users := del_row u_id i (users d)\<rparr>"
  by (auto simp: delete_user_def res_simps split: option.splits if_splits)

lemma delete_user_accounts: "delete_user d i u = Inr d' \<Longrightarrow> accounts_ok d \<Longrightarrow> accounts_ok d'"
  by (drule delete_user_Inr) (simp add: accounts_ok_def del_row_def keyed_def distinct_map_filter image_subset_iff)

lemmas accounts_steps = create_role_accounts update_role_accounts delete_role_accounts create_user_accounts
  update_user_accounts delete_user_accounts

text \<open>
  C16. Unique accounts and permanent core roles: every request on roles or users, by whomever, keeps
  names and keys unique, every user on a role of the table, and each of the seven core roles in place
  under its name.
\<close>

theorem account_tables_invariant:
  assumes "accounts_ok d"
  shows "accounts_ok (account_run steps d)"
proof -
  have "accounts_ok d'" if "accounts_ok d" "account_result c u a d = Inr d'" for c u a d d'
    using that by (cases a) (auto simp: account_result_def res_simps dest: accounts_steps)
  then have "accounts_ok (account_step c u a d)" if "accounts_ok d" for c u a d
    using that by (auto simp: account_step_def split: sum.split)
  then show ?thesis
    unfolding account_run_def using assms
    by (intro fold_invariant [where Q = "\<lambda>_. True" and P = accounts_ok]) auto
qed

section \<open>Platform power\<close>

text \<open>Every platform user of the database after a step was one before it, under the same key.\<close>

definition no_new_platform :: "db \<Rightarrow> db \<Rightarrow> bool" where
  "no_new_platform d d' \<longleftrightarrow>
     (\<forall>x' \<in> set (users d'). is_master_admin x' \<longrightarrow> (\<exists>x \<in> set (users d). u_id x = u_id x' \<and> is_master_admin x))"

lemma update_role_platform:
  assumes "update_role d i data u = Inr (r', d')" "accounts_ok d"
  shows "no_new_platform d d'"
  using assms(1)
proof (rule update_role_Inr)
  fix r assume r: "get_row role_id (roles d) i = Some r" "role_id r' = i"
    "role_name r \<in> set CORE_ROLE_NAMES \<Longrightarrow> role_name r' = role_name r"
    "\<forall>x \<in> set (roles d). role_id x \<noteq> i \<longrightarrow> role_name x \<noteq> role_name r'"
    "d' = d\<lparr>roles := put_row role_id r' (roles d), users := map (\<lambda>x. if role_id (u_role x) = i then x\<lparr>u_role := r'\<rparr> else x) (users d)\<rparr>"
  have core: "role_name r = ''MasterAdmin''" if "role_name r' = ''MasterAdmin''"
  proof -
    from assms(2) obtain m where m: "m \<in> set (roles d)" "role_name m = ''MasterAdmin''"
      by (auto simp: accounts_ok_def CORE_ROLE_NAMES_def image_iff)
    with r(4) that have "role_id m = i" by auto
    with m assms(2) r(1) table.get_complete [of role_id "roles d" m] show ?thesis by (auto simp: accounts_ok_def)
  qed
  have "u_role x = r" if "x \<in> set (users d)" "role_id (u_role x) = i" for x
    using that assms(2) r(1) table.get_complete [of role_id "roles d" "u_role x"] by (auto simp: accounts_ok_def)
  with core show ?thesis
    by (auto simp: no_new_platform_def r(5) is_master_admin_def is_platform_user_def role_of_def)
qed

lemma create_user_platform:
  "create_user c d data u = Inr (x, d') \<Longrightarrow> \<not> is_master_admin u \<Longrightarrow> no_new_platform d d'"
  using create_user_Inr [of c d data u x d']
  by (auto simp: no_new_platform_def add_row_def is_master_admin_def is_platform_user_def)

lemma update_user_platform:
  "update_user d i data u = Inr (x', d') \<Longrightarrow> \<not> is_master_admin u \<Longrightarrow> no_new_platform d d'"
  by (erule update_user_Inr)
    (auto simp: no_new_platform_def is_master_admin_def is_platform_user_def dest!: put_rowD)

lemma other_account_platform:
  "create_role d data1 u = Inr (r, d') \<Longrightarrow> no_new_platform d d'"
  "delete_role d i u = Inr d' \<Longrightarrow> no_new_platform d d'"
  "delete_user d i u = Inr d' \<Longrightarrow> no_new_platform d d'"
  by (auto simp: no_new_platform_def create_role_def delete_role_def delete_user_def del_row_def res_simps Let_def
      split: if_splits option.splits)

text \<open>
  C17. No privilege escalation: whatever sequence of role and user requests people who are not platform
  users make, nobody becomes a platform user or a \<open>MasterAdmin\<close>.
\<close>

theorem no_privilege_escalation:
  assumes "accounts_ok d" and "\<forall>(c, u, a) \<in> set steps. \<not> is_master_admin u"
  shows "\<forall>x' \<in> set (users (account_run steps d)). is_master_admin x' \<longrightarrow>
    (\<exists>x \<in> set (users d). u_id x = u_id x' \<and> is_master_admin x)"
proof -
  have S: "no_new_platform d d'" if "accounts_ok d" "\<not> is_master_admin u" "account_result c u a d = Inr d'" for c u a d d'
    using that by (cases a)
      (auto simp: account_result_def res_simps dest: other_account_platform update_role_platform create_user_platform update_user_platform)
  have "accounts_ok (account_run steps d) \<and> no_new_platform d (account_run steps d)"
    unfolding account_run_def
  proof (rule fold_invariant [where Q = "\<lambda>(c, u, a). \<not> is_master_admin u" and P = "\<lambda>d'. accounts_ok d' \<and> no_new_platform d d'"])
    fix x :: "crypto \<times> user \<times> account_action" and d'
    assume *: "(\<lambda>(c, u, a). \<not> is_master_admin u) x" "accounts_ok d' \<and> no_new_platform d d'"
    obtain c u a where x: "x = (c, u, a)" by (cases x)
    show "accounts_ok ((\<lambda>(c, u, a). account_step c u a) x d') \<and> no_new_platform d ((\<lambda>(c, u, a). account_step c u a) x d')"
    proof (cases "account_result c u a d'")
      case (Inr d2)
      then have "accounts_ok d2" "no_new_platform d' d2"
        using * S by (auto simp: x account_result_def res_simps dest: accounts_steps split: account_action.splits)
      with * Inr show ?thesis unfolding x account_step_def no_new_platform_def by (simp, metis)
    qed (use * in \<open>simp add: x account_step_def\<close>)
  qed (use assms in \<open>auto simp: no_new_platform_def\<close>)
  then show ?thesis by (simp add: no_new_platform_def)
qed

section \<open>Concrete checks\<close>

definition account_db :: db where
  "account_db = sample_db\<lparr>roles := map u_role [sample_admin, sample_head_office, sample_manager, sample_operator]
     @ [\<lparr>role_id = 1, role_name = ''MasterAdmin'', role_description = None\<rparr>,
        \<lparr>role_id = 3, role_name = ''StationAdmin'', role_description = None\<rparr>,
        \<lparr>role_id = 7, role_name = ''Accountant'', role_description = None\<rparr>,
        \<lparr>role_id = 8, role_name = ''Guard'', role_description = None\<rparr>]\<rparr>"

definition sample_user_create :: user_create where
  "sample_user_create = \<lparr>uc_full_name = ''Nora'', uc_username = ''nora'', uc_email = None, uc_password = ''password'',
     uc_role_id = 6, uc_organization_id = None, uc_station_id = Some 1, uc_scope_level = ''station'',
     uc_is_platform_user = True, uc_monthly_salary = 100, uc_payroll_enabled = True\<rparr>"

lemma account_db_ok: "accounts_ok account_db"
  by code_simp

definition sample_accounting :: "crypto \<Rightarrow> (crypto \<times> user \<times> account_action) list" where
  "sample_accounting c = [(c, sample_admin, Create_User sample_user_create),
     (c, sample_admin, Update_Role 8 \<lparr>ru_name = Set (Some ''MasterAdmin''), ru_description = Unset\<rparr>),
     (c, sample_manager, Delete_User 4), (c, sample_admin, Delete_User 4)]"

lemma sample_accounts:
  "map u_username (users (account_run (sample_accounting c) account_db)) = [''ada'', ''hana'', ''mira'', ''nora'']"
  by code_simp

theorem account_tables_invariant_witness:
  "accounts_ok (account_run (sample_accounting sample_crypto) account_db)
   \<and> map u_username (users (account_run (sample_accounting sample_crypto) account_db)) = [''ada'', ''hana'', ''mira'', ''nora'']"
  using account_tables_invariant [OF account_db_ok, of "sample_accounting sample_crypto"]
    sample_accounts [of sample_crypto] by blast

theorem no_privilege_escalation_witness:
  "filter is_master_admin (users (account_run (sample_accounting sample_crypto) account_db)) = []"
proof -
  have "\<forall>(c, u, a) \<in> set (sample_accounting sample_crypto). \<not> is_master_admin u"
    by (simp add: sample_accounting_def is_master_admin_def is_platform_user_def role_of_def sample_admin_def sample_manager_def)
  moreover have "\<forall>x \<in> set (users account_db). \<not> is_master_admin x" by code_simp
  ultimately show ?thesis using no_privilege_escalation [OF account_db_ok] unfolding filter_empty_conv by blast
qed

end
