(* ===== verification/Staff.thy ===== *)
theory Staff
  imports Notify FeatureModules
begin

text \<open>
  \<open>app/services/attendance.py\<close> and \<open>payroll.py\<close> with their routes: the attendance sheet of a station
  and the payroll runs computed from it.
\<close>

section \<open>Attendance\<close>

record attendance_create =
  ac_user_id :: int
  ac_station_id :: int
  ac_attendance_date :: date
  ac_status :: string
  ac_check_in_at :: "datetime option"
  ac_check_out_at :: "datetime option"
  ac_notes :: "string option"

record attendance_update =
  au_status :: "string option patch"
  au_check_in_at :: "datetime option patch"
  au_check_out_at :: "datetime option patch"
  au_notes :: "string option patch"

definition VALID_ATTENDANCE_STATUSES :: "string list" where
  "VALID_ATTENDANCE_STATUSES = [''present'', ''absent'', ''leave'', ''half_day'']"

definition ensure_attendance_access :: "db \<Rightarrow> int \<Rightarrow> user \<Rightarrow> station res" where
  "ensure_attendance_access d station_id u =
     (case get_row st_id (stations d) station_id of None \<Rightarrow> http 404 ''Station not found'' | Some s \<Rightarrow>
      if is_admin u then Inr s
      else if is_head_office_user u then
        (if st_organization_id s = get_user_organization_id d u then Inr s else http 403 ''Not authorized for this station'')
      else check (require_station_access u station_id ''Not authorized for this station'') (Inr s))"

definition validate_status :: "string option \<Rightarrow> unit res" where
  "validate_status status =
     (if status \<notin> set (map Some VALID_ATTENDANCE_STATUSES) then http 400 ''Invalid attendance status'' else ok)"

definition attendance_of :: "db \<Rightarrow> int \<Rightarrow> int \<Rightarrow> date \<Rightarrow> attendance_record option" where
  "attendance_of d user_id station_id day =
     find (\<lambda>r. at_user_id r = user_id \<and> at_station_id r = station_id \<and> at_attendance_date r = day) (attendance_records d)"

definition audit_attendance :: "env \<Rightarrow> user \<Rightarrow> string \<Rightarrow> attendance_record \<Rightarrow> jobject \<Rightarrow> db \<Rightarrow> db" where
  "audit_attendance e u action r = audit e u ''attendance'' action ''attendance_record'' (Some (at_id r)) (Some (at_station_id r))"

definition check_in :: "env \<Rightarrow> db \<Rightarrow> user \<Rightarrow> int \<Rightarrow> string option \<Rightarrow> (attendance_record \<times> db) res" where
  "check_in e d u station_id notes =
     (case ensure_attendance_access d station_id u of Inl x \<Rightarrow> Inl x | Inr _ \<Rightarrow>
      if attendance_of d (u_id u) station_id (date_of (now e)) \<noteq> None
      then http 400 ''Attendance already recorded for today''
      else let r = \<lparr>at_id = next_id at_id (attendance_records d), at_station_id = station_id, at_user_id = u_id u,
             at_attendance_date = date_of (now e), at_status = ''present'', at_check_in_at = Some (now e),
             at_check_out_at = None, at_notes = notes, at_approved_by_user_id = None, at_created_at = now e,
             at_updated_at = now e\<rparr>
           in Inr (r, audit_attendance e u ''attendance.check_in'' r []
                (d\<lparr>attendance_records := add_row r (attendance_records d)\<rparr>)))"

definition check_out :: "env \<Rightarrow> db \<Rightarrow> attendance_record \<Rightarrow> user \<Rightarrow> string option \<Rightarrow> (attendance_record \<times> db) res" where
  "check_out e d r u notes =
     check (if \<not> is_admin u \<and> at_user_id r \<noteq> u_id u
            then require_station_access u (at_station_id r) ''Not authorized for this station'' else ok)
     (if at_check_out_at r \<noteq> None then http 400 ''Attendance is already checked out''
      else let r' = r\<lparr>at_check_out_at := Some (now e), at_notes := (if truthy notes then notes else at_notes r),
                      at_updated_at := now e\<rparr>
           in Inr (r', audit_attendance e u ''attendance.check_out'' r []
                (d\<lparr>attendance_records := put_row at_id r' (attendance_records d)\<rparr>)))"

definition create_attendance_record :: "env \<Rightarrow> db \<Rightarrow> attendance_create \<Rightarrow> user \<Rightarrow> (attendance_record \<times> db) res" where
  "create_attendance_record e d data u =
     (case ensure_attendance_access d (ac_station_id data) u of Inl x \<Rightarrow> Inl x | Inr _ \<Rightarrow>
      check (validate_status (Some (ac_status data)))
      (case get_row u_id (users d) (ac_user_id data) of None \<Rightarrow> http 404 ''User not found'' | Some x \<Rightarrow>
       if u_station_id x \<noteq> Some (ac_station_id data) then http 400 ''User does not belong to the selected station''
       else if attendance_of d (ac_user_id data) (ac_station_id data) (ac_attendance_date data) \<noteq> None
       then http 400 ''Attendance already exists for this user and date''
       else let r = \<lparr>at_id = next_id at_id (attendance_records d), at_station_id = ac_station_id data,
              at_user_id = ac_user_id data, at_attendance_date = ac_attendance_date data, at_status = ac_status data,
              at_check_in_at = ac_check_in_at data, at_check_out_at = ac_check_out_at data, at_notes = ac_notes data,
              at_approved_by_user_id = Some (u_id u), at_created_at = now e, at_updated_at = now e\<rparr>
            in Inr (r, audit_attendance e u ''attendance.create'' r []
                 (d\<lparr>attendance_records := add_row r (attendance_records d)\<rparr>))))"

definition has_time :: "datetime option patch \<Rightarrow> bool" where
  \<comment> \<open>\<open>json.dumps\<close> of the audit details raises \<open>TypeError\<close> on a \<open>datetime\<close>\<close>
  "has_time p \<longleftrightarrow> (case p of Set (Some _) \<Rightarrow> True | _ \<Rightarrow> False)"

definition null_time :: "string \<Rightarrow> datetime option patch \<Rightarrow> jobject" where
  "null_time name p = (if p = Unset then [] else [(name, JNull)])"

text \<open>\<open>onupdate=utc_now\<close> fires when the unit of work finds a changed attribute.\<close>

definition update_attendance_record ::
  "env \<Rightarrow> db \<Rightarrow> attendance_record \<Rightarrow> attendance_update \<Rightarrow> user \<Rightarrow> (attendance_record \<times> db) res" where
  "update_attendance_record e d r data u =
     (case ensure_attendance_access d (at_station_id r) u of Inl x \<Rightarrow> Inl x | Inr _ \<Rightarrow>
      check (case au_status data of Unset \<Rightarrow> ok | Set s \<Rightarrow> validate_status s)
      (let r1 = r\<lparr>at_status := assign_value (au_status data) (at_status r),
                  at_check_in_at := assign (au_check_in_at data) (at_check_in_at r),
                  at_check_out_at := assign (au_check_out_at data) (at_check_out_at r),
                  at_notes := assign (au_notes data) (at_notes r), at_approved_by_user_id := Some (u_id u)\<rparr>;
           r' = (if r1 = r then r else r1\<lparr>at_updated_at := now e\<rparr>)
       in if has_time (au_check_in_at data) \<or> has_time (au_check_out_at data) then Inl TypeError
          else Inr (r', audit_attendance e u ''attendance.update'' r
            (patch_details ''status'' JStr (au_status data) @ null_time ''check_in_at'' (au_check_in_at data)
             @ null_time ''check_out_at'' (au_check_out_at data) @ patch_details ''notes'' JStr (au_notes data))
            (d\<lparr>attendance_records := put_row at_id r' (attendance_records d)\<rparr>))))"

section \<open>The attendance routes\<close>

definition with_attendance :: "db \<Rightarrow> int \<Rightarrow> (attendance_record \<Rightarrow> 'a res) \<Rightarrow> 'a res" where
  "with_attendance d i f =
     (case get_row at_id (attendance_records d) i of None \<Rightarrow> http 404 ''Attendance record not found'' | Some r \<Rightarrow> f r)"

definition post_check_in :: "env \<Rightarrow> db \<Rightarrow> int \<Rightarrow> string option \<Rightarrow> user \<Rightarrow> (attendance_record \<times> db) res" where
  "post_check_in e d station_id notes u =
     check (require_permission u ''attendance'' ''check_in'' ''You do not have permission to check in'')
     (check_in e d u station_id notes)"

definition post_check_out :: "env \<Rightarrow> db \<Rightarrow> int \<Rightarrow> string option \<Rightarrow> user \<Rightarrow> (attendance_record \<times> db) res" where
  "post_check_out e d i notes u = with_attendance d i (\<lambda>r.
     check (require_permission u ''attendance'' ''check_out'' ''You do not have permission to check out'')
     (check_out e d r u notes))"

definition post_attendance_record :: "env \<Rightarrow> db \<Rightarrow> attendance_create \<Rightarrow> user \<Rightarrow> (attendance_record \<times> db) res" where
  "post_attendance_record e d data u =
     check (require_permission u ''attendance'' ''create'' ''You do not have permission to create attendance records'')
     (create_attendance_record e d data u)"

definition staff_station :: "user \<Rightarrow> int option \<Rightarrow> int option" where
  \<comment> \<open>the station of a listing: the requested one for an admin or the head office, else the own one\<close>
  "staff_station u station_id =
     (if is_admin u \<or> role_of u = ''HeadOffice'' then station_id else u_station_id u)"

definition list_attendance ::
  "db \<Rightarrow> user \<Rightarrow> int option \<Rightarrow> int option \<Rightarrow> date option \<Rightarrow> string option \<Rightarrow> nat \<Rightarrow> nat \<Rightarrow> attendance_record list res" where
  "list_attendance d u station_id user_id day status skip limit =
     check (require_permission u ''attendance'' ''read'' ''You do not have permission to view attendance'')
     (let station_id = staff_station u station_id in
      Inr (page skip limit (newest_first at_attendance_date at_id (filter (\<lambda>r.
        (\<not> is_admin u \<and> role_of u = ''HeadOffice'' \<longrightarrow>
           (case get_row u_id (users d) (at_user_id r) of None \<Rightarrow> False
            | Some x \<Rightarrow> (case u_station_id x of None \<Rightarrow> False | Some s \<Rightarrow> station_in d s (station_organization d u))))
        \<and> (station_id = None \<or> Some (at_station_id r) = station_id) \<and> (user_id = None \<or> Some (at_user_id r) = user_id)
        \<and> (day = None \<or> Some (at_attendance_date r) = day) \<and> (status = None \<or> Some (at_status r) = status))
        (attendance_records d)))))"

definition get_attendance_record :: "db \<Rightarrow> int \<Rightarrow> user \<Rightarrow> attendance_record res" where
  "get_attendance_record d i u =
     check (require_permission u ''attendance'' ''read'' ''You do not have permission to view attendance'')
     (with_attendance d i (\<lambda>r.
      case ensure_attendance_access d (at_station_id r) u of Inl x \<Rightarrow> Inl x | Inr _ \<Rightarrow> Inr r))"

definition put_attendance_record :: "env \<Rightarrow> db \<Rightarrow> int \<Rightarrow> attendance_update \<Rightarrow> user \<Rightarrow> (attendance_record \<times> db) res" where
  "put_attendance_record e d i data u =
     check (require_permission u ''attendance'' ''update'' ''You do not have permission to update attendance'')
     (with_attendance d i (\<lambda>r. update_attendance_record e d r data u))"

section \<open>Payroll\<close>

record payroll_run_create =
  ry_station_id :: int
  ry_period_start :: date
  ry_period_end :: date
  ry_notes :: "string option"

definition ensure_payroll_access :: "db \<Rightarrow> int \<Rightarrow> user \<Rightarrow> station res" where
  "ensure_payroll_access d station_id u =
     (case get_row st_id (stations d) station_id of None \<Rightarrow> http 404 ''Station not found'' | Some s \<Rightarrow>
      if is_admin u then Inr s
      else if is_head_office_user u then
        (if st_organization_id s = get_user_organization_id d u then Inr s else http 403 ''Not authorized for this station'')
      else check (require_station_access u station_id ''Not authorized for this station'') (Inr s))"

definition date_count :: "date \<Rightarrow> date \<Rightarrow> int" where
  "date_count start_date end_date = end_date - start_date + 1"

definition period_records :: "db \<Rightarrow> payroll_run_create \<Rightarrow> int \<Rightarrow> attendance_record list" where
  "period_records d data user_id = filter (\<lambda>r. at_user_id r = user_id \<and> at_station_id r = ry_station_id data
     \<and> ry_period_start data \<le> at_attendance_date r \<and> at_attendance_date r \<le> ry_period_end data) (attendance_records d)"

definition days_of :: "string \<Rightarrow> attendance_record list \<Rightarrow> int" where
  "days_of status records = int (length (filter (\<lambda>r. at_status r = status) records))"

definition new_payroll_line :: "db \<Rightarrow> payroll_run_create \<Rightarrow> int \<Rightarrow> user \<Rightarrow> int \<Rightarrow> payroll_line" where
  "new_payroll_line d data run_id x line_id =
     (let records = period_records d data (u_id x);
          period_days = date_count (ry_period_start data) (ry_period_end data);
          present_days = days_of ''present'' records; leave_days = days_of ''leave'' records;
          half_days = days_of ''half_day'' records;
          payable_days = present_days + leave_days + half_days;
          absent_days = max (period_days - payable_days) 0;
          monthly_salary = fround2 (u_monthly_salary x);
          gross_amount = fround2 (fmul (fdiv monthly_salary 30)
            (fadd (of_int (present_days + leave_days)) (fmul (of_int half_days) (1 / 2))));
          deduction_amount = (if monthly_salary = 0 then 0
            else fround2 (fmul (fdiv monthly_salary 30) (of_int (max (absent_days - leave_days) 0))));
          net_amount = max (fround2 (fsub gross_amount deduction_amount)) 0
      in \<lparr>pl_id = line_id, pl_payroll_run_id = run_id, pl_user_id = u_id x, pl_present_days = present_days,
          pl_leave_days = leave_days, pl_absent_days = absent_days, pl_payable_days = payable_days,
          pl_monthly_salary = monthly_salary, pl_gross_amount = gross_amount, pl_deductions = deduction_amount,
          pl_net_amount = net_amount\<rparr>)"

definition payroll_staff :: "db \<Rightarrow> int \<Rightarrow> user list" where
  "payroll_staff d station_id =
     filter (\<lambda>x. u_station_id x = Some station_id \<and> u_is_active x \<and> u_payroll_enabled x) (users d)"

definition add_payroll_lines :: "db \<Rightarrow> payroll_run_create \<Rightarrow> int \<Rightarrow> user list \<Rightarrow> payroll_line list \<Rightarrow> payroll_line list" where
  "add_payroll_lines d data run_id = fold (\<lambda>x ls. add_row (new_payroll_line d data run_id x (next_id pl_id ls)) ls)"

definition create_payroll_run :: "env \<Rightarrow> db \<Rightarrow> payroll_run_create \<Rightarrow> user \<Rightarrow> (payroll_run \<times> db) res" where
  "create_payroll_run e d data u =
     (case ensure_payroll_access d (ry_station_id data) u of Inl x \<Rightarrow> Inl x | Inr _ \<Rightarrow>
      if ry_period_end data < ry_period_start data then http 400 ''Payroll period end must be after the start date''
      else if find (\<lambda>r. pr_station_id r = ry_station_id data \<and> pr_period_start r = ry_period_start data
                     \<and> pr_period_end r = ry_period_end data) (payroll_runs d) \<noteq> None
      then http 400 ''Payroll run already exists for this station and period''
      else let staff = payroll_staff d (ry_station_id data); run_id = next_id pr_id (payroll_runs d);
               lines = map (\<lambda>x. new_payroll_line d data run_id x 0) staff;
               run = \<lparr>pr_id = run_id, pr_station_id = ry_station_id data, pr_period_start = ry_period_start data,
                 pr_period_end = ry_period_end data, pr_status = ''draft'', pr_total_staff = int (length staff),
                 pr_total_gross_amount = fround2 (fsum (map pl_gross_amount lines)),
                 pr_total_deductions = fround2 (fsum (map pl_deductions lines)),
                 pr_total_net_amount = fround2 (fsum (map pl_net_amount lines)), pr_notes = ry_notes data,
                 pr_generated_by_user_id = u_id u, pr_finalized_by_user_id = None, pr_finalized_at = None,
                 pr_created_at = now e, pr_updated_at = now e\<rparr>
           in Inr (run, audit e u ''payroll'' ''payroll.create_run'' ''payroll_run'' (Some run_id) (Some (ry_station_id data)) []
                (d\<lparr>payroll_runs := add_row run (payroll_runs d),
                   payroll_lines := add_payroll_lines d data run_id staff (payroll_lines d)\<rparr>)))"

definition finalize_payroll_run :: "env \<Rightarrow> db \<Rightarrow> payroll_run \<Rightarrow> user \<Rightarrow> string option \<Rightarrow> (payroll_run \<times> db) res" where
  "finalize_payroll_run e d run u notes =
     (case ensure_payroll_access d (pr_station_id run) u of Inl x \<Rightarrow> Inl x | Inr _ \<Rightarrow>
      if pr_status run = ''finalized'' then http 400 ''Payroll run is already finalized''
      else let run' = run\<lparr>pr_status := ''finalized'', pr_finalized_by_user_id := Some (u_id u),
             pr_finalized_at := Some (now e), pr_notes := (if truthy notes then notes else pr_notes run),
             pr_updated_at := now e\<rparr>
           in Inr (run', audit e u ''payroll'' ''payroll.finalize_run'' ''payroll_run'' (Some (pr_id run)) (Some (pr_station_id run)) []
                (d\<lparr>payroll_runs := put_row pr_id run' (payroll_runs d)\<rparr>)))"

section \<open>The payroll routes\<close>

definition with_payroll_run :: "db \<Rightarrow> int \<Rightarrow> (payroll_run \<Rightarrow> 'a res) \<Rightarrow> 'a res" where
  "with_payroll_run d i f =
     (case get_row pr_id (payroll_runs d) i of None \<Rightarrow> http 404 ''Payroll run not found'' | Some r \<Rightarrow> f r)"

definition post_payroll_run :: "env \<Rightarrow> db \<Rightarrow> payroll_run_create \<Rightarrow> user \<Rightarrow> (payroll_run \<times> db) res" where
  "post_payroll_run e d data u =
     check (require_permission u ''payroll'' ''create'' ''You do not have permission to create payroll runs'')
     (create_payroll_run e d data u)"

definition list_payroll_runs :: "db \<Rightarrow> user \<Rightarrow> int option \<Rightarrow> string option \<Rightarrow> nat \<Rightarrow> nat \<Rightarrow> payroll_run list res" where
  "list_payroll_runs d u station_id status skip limit =
     check (require_permission u ''payroll'' ''read'' ''You do not have permission to view payroll'')
     (let station_id = staff_station u station_id in
      Inr (page skip limit (newest_first pr_created_at pr_id (filter (\<lambda>r.
        (\<not> is_admin u \<and> role_of u = ''HeadOffice'' \<longrightarrow> station_in d (pr_station_id r) (station_organization d u))
        \<and> (station_id = None \<or> Some (pr_station_id r) = station_id) \<and> (status = None \<or> Some (pr_status r) = status))
        (payroll_runs d)))))"

definition get_payroll_run :: "db \<Rightarrow> int \<Rightarrow> user \<Rightarrow> payroll_run res" where
  "get_payroll_run d i u =
     check (require_permission u ''payroll'' ''read'' ''You do not have permission to view payroll'')
     (with_payroll_run d i (\<lambda>r.
      case ensure_payroll_access d (pr_station_id r) u of Inl x \<Rightarrow> Inl x | Inr _ \<Rightarrow> Inr r))"

definition list_payroll_lines :: "db \<Rightarrow> int \<Rightarrow> user \<Rightarrow> payroll_line list res" where
  "list_payroll_lines d i u =
     check (require_permission u ''payroll'' ''read'' ''You do not have permission to view payroll'')
     (with_payroll_run d i (\<lambda>r.
      case ensure_payroll_access d (pr_station_id r) u of Inl x \<Rightarrow> Inl x
      | Inr _ \<Rightarrow> Inr (filter (\<lambda>l. pl_payroll_run_id l = pr_id r) (payroll_lines d))))"

definition post_finalize_payroll_run :: "env \<Rightarrow> db \<Rightarrow> int \<Rightarrow> string option \<Rightarrow> user \<Rightarrow> (payroll_run \<times> db) res" where
  "post_finalize_payroll_run e d i notes u =
     check (require_permission u ''payroll'' ''finalize'' ''You do not have permission to finalize payroll'')
     (with_payroll_run d i (\<lambda>r. finalize_payroll_run e d r u notes))"

section \<open>One record per person and day\<close>

definition attendance_key :: "attendance_record \<Rightarrow> int \<times> int \<times> date" where
  "attendance_key r = (at_user_id r, at_station_id r, at_attendance_date r)"

definition attendance_ok :: "db \<Rightarrow> bool" where
  "attendance_ok d \<longleftrightarrow> keyed at_id (attendance_records d) \<and> distinct (map attendance_key (attendance_records d))
     \<and> list_all (\<lambda>r. at_status r \<in> set VALID_ATTENDANCE_STATUSES) (attendance_records d)"

datatype attendance_action =
    Check_In int "string option"
  | Check_Out int "string option"
  | Post_Attendance attendance_create
  | Put_Attendance int attendance_update

definition attendance_result :: "env \<Rightarrow> user \<Rightarrow> attendance_action \<Rightarrow> db \<Rightarrow> db res" where
  "attendance_result e u a d = (case a of
     Check_In station_id notes \<Rightarrow> outcome (post_check_in e d station_id notes u)
   | Check_Out i notes \<Rightarrow> outcome (post_check_out e d i notes u)
   | Post_Attendance data \<Rightarrow> outcome (post_attendance_record e d data u)
   | Put_Attendance i data \<Rightarrow> outcome (put_attendance_record e d i data u))"

definition attendance_run :: "(env \<times> user \<times> attendance_action) list \<Rightarrow> db \<Rightarrow> db" where
  "attendance_run steps d =
     fold (\<lambda>(e, u, a) d. case attendance_result e u a d of Inl _ \<Rightarrow> d | Inr d' \<Rightarrow> d') steps d"

lemma audit_attendance_rows [simp]:
  "attendance_records (audit_attendance e u a r x d) = attendance_records d"
  by (simp add: audit_attendance_def audit_def)

lemma attendance_add:
  assumes "attendance_ok d" "attendance_of d (at_user_id r) (at_station_id r) (at_attendance_date r) = None"
    and "at_id r = next_id at_id (attendance_records d)" "at_status r \<in> set VALID_ATTENDANCE_STATUSES"
    and "attendance_records d' = add_row r (attendance_records d)"
  shows "attendance_ok d'"
proof -
  have "attendance_key r \<notin> attendance_key ` set (attendance_records d)"
    using assms(2) by (auto simp: attendance_of_def find_None_iff attendance_key_def)
  with assms show ?thesis
    by (simp add: attendance_ok_def keyed_def add_row_def next_id_fresh)
qed

lemma map_put_row: "keyed key t \<Longrightarrow> r \<in> set t \<Longrightarrow> key r' = key r \<Longrightarrow> f r' = f r \<Longrightarrow> map f (put_row key r' t) = map f t"
  by (auto simp: put_row_def keyed_def distinct_map inj_on_def)

lemma attendance_put:
  assumes "attendance_ok d" "r \<in> set (attendance_records d)" "at_id r' = at_id r" "attendance_key r' = attendance_key r"
    and "at_status r' \<in> set VALID_ATTENDANCE_STATUSES" "attendance_records d' = put_row at_id r' (attendance_records d)"
  shows "attendance_ok d'"
  using assms map_put_row [of at_id "attendance_records d" r r' attendance_key]
  by (simp add: attendance_ok_def keyed_def)

lemma check_in_Inr:
  "check_in e d u s n = Inr (r, d') \<Longrightarrow> attendance_of d (at_user_id r) (at_station_id r) (at_attendance_date r) = None
    \<and> at_status r = ''present'' \<and> at_id r = next_id at_id (attendance_records d)
    \<and> attendance_records d' = add_row r (attendance_records d)"
  by (auto simp: check_in_def Let_def split: sum.splits if_splits)

lemma create_attendance_Inr:
  "create_attendance_record e d data u = Inr (r, d') \<Longrightarrow>
    attendance_of d (at_user_id r) (at_station_id r) (at_attendance_date r) = None
    \<and> at_status r \<in> set VALID_ATTENDANCE_STATUSES \<and> at_id r = next_id at_id (attendance_records d)
    \<and> attendance_records d' = add_row r (attendance_records d)"
  by (auto simp: create_attendance_record_def validate_status_def res_simps Let_def split: sum.splits if_splits option.splits)

lemma check_out_Inr:
  "check_out e d r u n = Inr (r', d') \<Longrightarrow> at_id r' = at_id r \<and> attendance_key r' = attendance_key r
    \<and> at_status r' = at_status r \<and> attendance_records d' = put_row at_id r' (attendance_records d)"
  by (auto simp: check_out_def attendance_key_def res_simps Let_def split: if_splits)

lemma validate_status_ok [res_simps]: "validate_status s = ok \<longleftrightarrow> s \<in> Some ` set VALID_ATTENDANCE_STATUSES"
  by (simp add: validate_status_def)

lemma update_attendance_Inr:
  assumes "update_attendance_record e d r data u = Inr (r', d')" "at_status r \<in> set VALID_ATTENDANCE_STATUSES"
  shows "at_id r' = at_id r \<and> attendance_key r' = attendance_key r \<and> at_status r' \<in> set VALID_ATTENDANCE_STATUSES
    \<and> attendance_records d' = put_row at_id r' (attendance_records d)"
proof -
  define r1 where "r1 = r\<lparr>at_status := assign_value (au_status data) (at_status r),
                  at_check_in_at := assign (au_check_in_at data) (at_check_in_at r),
                  at_check_out_at := assign (au_check_out_at data) (at_check_out_at r),
                  at_notes := assign (au_notes data) (at_notes r), at_approved_by_user_id := Some (u_id u)\<rparr>"
  from assms(1) have v: "(case au_status data of Unset \<Rightarrow> ok | Set s \<Rightarrow> validate_status s) = ok"
    by (auto simp: update_attendance_record_def res_simps split: sum.splits)
  from assms(1) have "r' = (if r1 = r then r else r1\<lparr>at_updated_at := now e\<rparr>) \<and> attendance_records d' = put_row at_id r' (attendance_records d)"
    unfolding update_attendance_record_def Let_def r1_def [symmetric] by (auto simp: res_simps split: sum.splits if_split_asm)
  moreover have "at_id r1 = at_id r" "attendance_key r1 = attendance_key r" by (simp_all add: r1_def attendance_key_def)
  moreover have "at_status r1 \<in> set VALID_ATTENDANCE_STATUSES"
    using v assms(2) by (auto simp: r1_def validate_status_ok split: patch.splits)
  ultimately show ?thesis using assms(2) by (cases "r1 = r") (simp_all add: attendance_key_def)
qed

lemma attendance_row:
  "attendance_ok d \<Longrightarrow> get_row at_id (attendance_records d) i = Some r \<Longrightarrow>
    r \<in> set (attendance_records d) \<and> at_status r \<in> set VALID_ATTENDANCE_STATUSES"
  by (auto simp: attendance_ok_def list_all_iff dest: get_row_Some)

lemma attendance_step:
  assumes ok: "attendance_ok d" and r: "attendance_result e u a d = Inr d'"
  shows "attendance_ok d'"
proof (cases a)
  case (Check_In s n)
  with r obtain r' where "check_in e d u s n = Inr (r', d')"
    by (auto simp: attendance_result_def post_check_in_def res_simps)
  from check_in_Inr [OF this] ok attendance_add [of d r' d'] show ?thesis by (simp add: VALID_ATTENDANCE_STATUSES_def)
next
  case (Check_Out i n)
  with r obtain r1 r' where "get_row at_id (attendance_records d) i = Some r1" and "check_out e d r1 u n = Inr (r', d')"
    by (auto simp: attendance_result_def post_check_out_def with_attendance_def res_simps split: option.splits)
  with check_out_Inr [OF this(2)] attendance_row [OF ok this(1)] ok
    attendance_put [of d r1 r' d'] show ?thesis by simp
next
  case (Post_Attendance data)
  with r obtain r' where "create_attendance_record e d data u = Inr (r', d')"
    by (auto simp: attendance_result_def post_attendance_record_def res_simps)
  from create_attendance_Inr [OF this] ok attendance_add [of d r' d'] show ?thesis by simp
next
  case (Put_Attendance i data)
  with r obtain r1 r' where "get_row at_id (attendance_records d) i = Some r1" and "update_attendance_record e d r1 data u = Inr (r', d')"
    by (auto simp: attendance_result_def put_attendance_record_def with_attendance_def res_simps split: option.splits)
  with update_attendance_Inr [OF this(2)] attendance_row [OF ok this(1)] ok
    attendance_put [of d r1 r' d'] show ?thesis by simp
qed

text \<open>
  C18. The attendance sheet: whatever sequence of check-ins, check-outs, entries and corrections is
  made, a person has at most one record per station and day, under a valid status.
\<close>

theorem attendance_sheet_invariant:
  assumes "attendance_ok d"
  shows "attendance_ok (attendance_run steps d)"
  unfolding attendance_run_def using assms attendance_step
  by (intro fold_invariant [where Q = "\<lambda>_. True" and P = attendance_ok]) (auto split: sum.split)

text \<open>
  Times cannot be corrected: an update of an attendance record that carries a check-in or
  check-out time always fails; where the record exists and the user may update it under a valid
  status, the failure is a \<open>TypeError\<close>, because the audit entry cannot be written as JSON.
\<close>

theorem attendance_time_correction_fails:
  assumes "has_time (au_check_in_at data) \<or> has_time (au_check_out_at data)"
  shows "isl (put_attendance_record e d i data u)
    \<and> (isl (get_attendance_record d i u)
       \<or> require_permission u ''attendance'' ''update'' ''You do not have permission to update attendance'' \<noteq> ok
       \<or> au_status data \<noteq> Unset
       \<or> put_attendance_record e d i data u = Inl TypeError)"
  using assms
  by (auto simp: put_attendance_record_def get_attendance_record_def with_attendance_def update_attendance_record_def
      Let_def check_def split: option.splits sum.splits)

section \<open>The payroll of a period\<close>

lemma days_of_partition:
  "days_of ''present'' rs + days_of ''leave'' rs + days_of ''half_day'' rs \<le> int (length rs)"
  "0 \<le> days_of s rs"
  by (induction rs) (auto simp: days_of_def)

lemma period_records_bound:
  assumes "attendance_ok d"
  shows "int (length (period_records d data i)) \<le> max 0 (date_count (ry_period_start data) (ry_period_end data))"
proof -
  have "distinct (map at_attendance_date (period_records d data i))"
    using assms by (auto simp: attendance_ok_def period_records_def distinct_map inj_on_def attendance_key_def)
  moreover have "set (map at_attendance_date (period_records d data i)) \<subseteq> {ry_period_start data .. ry_period_end data}"
    by (auto simp: period_records_def)
  ultimately have "length (map at_attendance_date (period_records d data i)) \<le> card {ry_period_start data .. ry_period_end data}"
    by (metis card_mono distinct_card finite_atLeastAtMost_int)
  then show ?thesis by (simp add: date_count_def)
qed

lemma add_payroll_lines_rows:
  "set (add_payroll_lines d data run_id xs ls) \<subseteq> set ls \<union> {new_payroll_line d data run_id x i | x i. x \<in> set xs}"
  by (induction xs arbitrary: ls) (fastforce simp: add_payroll_lines_def add_row_def)+

lemma is_float_fround2 [simp]: "is_float (fround2 x)"
  by (simp add: fround2_def is_float_def fl_idem)

lemma payroll_line_bounds:
  assumes "attendance_ok d" and "ry_period_start data \<le> ry_period_end data" and "0 \<le> u_monthly_salary x"
    and "l = new_payroll_line d data run_id x i"
    and p: "p = date_count (ry_period_start data) (ry_period_end data)" "p \<le> 2 ^ 53"
  shows "pl_payable_days l + pl_absent_days l = p"
    and "0 \<le> pl_net_amount l \<and> pl_net_amount l \<le> fround2 (pl_gross_amount l)
      \<and> pl_gross_amount l \<le> fround2 (fmul (fdiv (fround2 (u_monthly_salary x)) 30) (of_int p))"
proof -
  let ?r = "period_records d data (u_id x)"
  let ?s = "fdiv (fround2 (u_monthly_salary x)) 30"
  note c = days_of_partition(1) [of ?r] days_of_partition(2) [where s = "''present''" and rs = ?r]
    days_of_partition(2) [where s = "''leave''" and rs = ?r] days_of_partition(2) [where s = "''half_day''" and rs = ?r]
  have b: "int (length ?r) \<le> p" using period_records_bound [OF assms(1), of data "u_id x"] assms(2) p(1) by (simp add: date_count_def)
  show "pl_payable_days l + pl_absent_days l = p"
    using c b p(1) by (simp add: assms(4) new_payroll_line_def Let_def)
  have s: "0 \<le> ?s" using assms(3) by auto
  have h: "fmul (of_int (days_of ''half_day'' ?r)) (1 / 2) \<le> of_int (days_of ''half_day'' ?r)"
  proof -
    have "fmul (of_int (days_of ''half_day'' ?r)) (1 / 2) \<le> fl (of_int (days_of ''half_day'' ?r))"
      unfolding fmul_def using c(4) by (intro fl_mono) simp
    also have "\<dots> = of_int (days_of ''half_day'' ?r)" using c b p(2) by (intro fl_of_int) linarith
    finally show ?thesis .
  qed
  have "fadd (of_int (days_of ''present'' ?r + days_of ''leave'' ?r)) (fmul (of_int (days_of ''half_day'' ?r)) (1 / 2)) \<le> fl (of_int p)"
  proof -
    have "days_of ''present'' ?r + days_of ''leave'' ?r + days_of ''half_day'' ?r \<le> p" using c b by linarith
    then have "rat_of_int (days_of ''present'' ?r + days_of ''leave'' ?r + days_of ''half_day'' ?r) \<le> of_int p"
      by (rule of_int_le_iff [THEN iffD2])
    with h show ?thesis unfolding fadd_def by (intro fl_mono) simp
  qed
  also have "fl (of_int p) = of_int p" using c b p(2) by (intro fl_of_int) linarith
  finally have g: "pl_gross_amount l \<le> fround2 (fmul ?s (of_int p))"
    using s by (auto simp: assms(4) new_payroll_line_def Let_def fmul_def intro!: fround2_mono fl_mono mult_left_mono)
  have "0 \<le> pl_deductions l" "is_float (pl_gross_amount l)" "0 \<le> pl_gross_amount l"
    using s c by (auto simp: assms(4) new_payroll_line_def Let_def intro!: fround2_nonneg fmul_nonneg fadd_nonneg)
  then have "fsub (pl_gross_amount l) (pl_deductions l) \<le> pl_gross_amount l" "0 \<le> fround2 (pl_gross_amount l)"
    by (auto intro: fsub_le)
  then have "max (fround2 (fsub (pl_gross_amount l) (pl_deductions l))) 0 \<le> fround2 (pl_gross_amount l)"
    by (simp add: fround2_mono)
  moreover have "pl_net_amount l = max (fround2 (fsub (pl_gross_amount l) (pl_deductions l))) 0"
    by (simp add: assms(4) new_payroll_line_def Let_def)
  ultimately show "0 \<le> pl_net_amount l \<and> pl_net_amount l \<le> fround2 (pl_gross_amount l)
      \<and> pl_gross_amount l \<le> fround2 (fmul ?s (of_int p))"
    using g by simp
qed

lemma create_payroll_run_Inr:
  assumes "create_payroll_run e d data u = Inr (run, d')"
  shows "ry_period_start data \<le> ry_period_end data \<and> pr_id run = next_id pr_id (payroll_runs d)
    \<and> pr_total_staff run = int (length (payroll_staff d (ry_station_id data)))
    \<and> payroll_runs d' = add_row run (payroll_runs d)
    \<and> payroll_lines d' = add_payroll_lines d data (pr_id run) (payroll_staff d (ry_station_id data)) (payroll_lines d)"
  using assms by (auto simp: create_payroll_run_def audit_def res_simps Let_def split: sum.splits)

text \<open>
  C19. A payroll run pays for the period and no more: when no salary is negative (the schema does not say so), on every line it
  adds paid and absent days add up to the days of the period, the net amount is not negative and at most the gross one, and the
  gross amount at most the daily rate, a thirtieth of the salary, times the days of the period, rounded to cents as the code does.
\<close>

theorem payroll_run_bounds:
  assumes "create_payroll_run e d data u = Inr (run, d')" and "attendance_ok d"
    and "\<forall>x \<in> set (users d). 0 \<le> u_monthly_salary x"
    and "date_count (ry_period_start data) (ry_period_end data) \<le> 2 ^ 53"
  shows "\<forall>l \<in> set (payroll_lines d'). l \<notin> set (payroll_lines d) \<longrightarrow>
      pl_payable_days l + pl_absent_days l = date_count (ry_period_start data) (ry_period_end data)
      \<and> 0 \<le> pl_net_amount l \<and> pl_net_amount l \<le> fround2 (pl_gross_amount l)
      \<and> pl_gross_amount l \<le> fround2 (fmul (fdiv (pl_monthly_salary l) 30) (of_int (date_count (ry_period_start data) (ry_period_end data))))"
proof (intro ballI impI)
  fix l assume "l \<in> set (payroll_lines d')" "l \<notin> set (payroll_lines d)"
  with create_payroll_run_Inr [OF assms(1)]
    add_payroll_lines_rows [of d data "pr_id run" "payroll_staff d (ry_station_id data)" "payroll_lines d"]
  obtain x i where l: "l = new_payroll_line d data (pr_id run) x i" "x \<in> set (users d)"
    by (auto simp: payroll_staff_def)
  have "pl_monthly_salary l = fround2 (u_monthly_salary x)" by (simp add: l new_payroll_line_def Let_def)
  with payroll_line_bounds [OF assms(2) _ _ l(1) refl assms(4)] create_payroll_run_Inr [OF assms(1)] assms(3) l(2)
  show "pl_payable_days l + pl_absent_days l = date_count (ry_period_start data) (ry_period_end data)
      \<and> 0 \<le> pl_net_amount l \<and> pl_net_amount l \<le> fround2 (pl_gross_amount l)
      \<and> pl_gross_amount l \<le> fround2 (fmul (fdiv (pl_monthly_salary l) 30) (of_int (date_count (ry_period_start data) (ry_period_end data))))"
    by simp
qed

section \<open>Concrete checks\<close>

definition sample_attendance :: "date \<Rightarrow> string \<Rightarrow> attendance_create" where
  "sample_attendance day status = \<lparr>ac_user_id = 4, ac_station_id = 1, ac_attendance_date = day, ac_status = status,
     ac_check_in_at = None, ac_check_out_at = None, ac_notes = None\<rparr>"

definition sample_sheet :: "(env \<times> user \<times> attendance_action) list" where
  "sample_sheet =
     [(sample_env, sample_manager, Post_Attendance (sample_attendance 100 ''leave'')),
      (sample_env, sample_manager, Post_Attendance (sample_attendance 100 ''present'')),
      (sample_env, sample_manager, Post_Attendance (sample_attendance 101 ''half_day'')),
      (sample_env, sample_manager, Put_Attendance 2 \<lparr>au_status = Set (Some ''present''), au_check_in_at = Unset,
         au_check_out_at = Unset, au_notes = Unset\<rparr>)]"

lemma sample_attendance_ok: "attendance_ok sample_db"
  by code_simp

lemma sample_sheet_rows:
  "map (\<lambda>r. (at_attendance_date r, at_status r)) (attendance_records (attendance_run sample_sheet sample_db))
    = [(100, ''leave''), (101, ''present'')]"
  by code_simp

lemma attendance_sheet_ok: "attendance_ok (attendance_run sample_sheet sample_db)"
  by code_simp

theorem attendance_sheet_invariant_witness:
  "attendance_ok (attendance_run sample_sheet sample_db)
   \<and> length (attendance_records (attendance_run sample_sheet sample_db)) = 2"
  using attendance_sheet_invariant [OF sample_attendance_ok, of sample_sheet]
    arg_cong [OF sample_sheet_rows, of length] by simp

theorem attendance_time_correction_fails_witness:
  "put_attendance_record sample_env (attendance_run sample_sheet sample_db) 1
     \<lparr>au_status = Unset, au_check_in_at = Set (Some 5), au_check_out_at = Unset, au_notes = Unset\<rparr> sample_manager = Inl TypeError"
proof -
  let ?data = "\<lparr>au_status = Unset, au_check_in_at = Set (Some 5), au_check_out_at = Unset, au_notes = Unset\<rparr>"
  have "has_time (au_check_in_at ?data) \<or> has_time (au_check_out_at ?data)" by (simp add: has_time_def)
  note attendance_time_correction_fails [OF this, of sample_env "attendance_run sample_sheet sample_db" 1 sample_manager]
  moreover have "\<not> isl (get_attendance_record (attendance_run sample_sheet sample_db) 1 sample_manager)" by code_simp
  moreover have "require_permission sample_manager ''attendance'' ''update'' ''You do not have permission to update attendance'' = ok"
    by code_simp
  ultimately show ?thesis by simp
qed

definition sample_payroll :: payroll_run_create where
  "sample_payroll = \<lparr>ry_station_id = 1, ry_period_start = 100, ry_period_end = 103, ry_notes = None\<rparr>"

lemma length_add_payroll_lines: "length (add_payroll_lines d data run_id xs ls) = length ls + length xs"
  by (induction xs arbitrary: ls) (simp_all add: add_payroll_lines_def add_row_def)

lemma sample_payroll_run:
  "\<exists>run d. create_payroll_run sample_env (attendance_run sample_sheet sample_db) sample_payroll sample_admin = Inr (run, d)"
proof -
  have "get_row st_id (stations (attendance_run sample_sheet sample_db)) 1 = Some sample_station"
    "payroll_runs (attendance_run sample_sheet sample_db) = []" "is_admin sample_admin"
    by code_simp+
  then show ?thesis by (simp add: create_payroll_run_def ensure_payroll_access_def sample_payroll_def Let_def)
qed

theorem payroll_run_bounds_witness:
  "\<exists>run d. create_payroll_run sample_env (attendance_run sample_sheet sample_db) sample_payroll sample_admin = Inr (run, d)
    \<and> length (payroll_lines d) = 3 \<and> list_all (\<lambda>l. pl_payable_days l + pl_absent_days l = 4) (payroll_lines d)"
proof -
  let ?d = "attendance_run sample_sheet sample_db"
  obtain run d where c: "create_payroll_run sample_env ?d sample_payroll sample_admin = Inr (run, d)"
    using sample_payroll_run by blast
  have "length (payroll_staff ?d 1) = 3" "ry_station_id sample_payroll = 1" by code_simp+
  moreover have n: "payroll_lines ?d = []" by code_simp
  ultimately have "length (payroll_lines d) = 3"
    using create_payroll_run_Inr [OF c] by (simp add: length_add_payroll_lines)
  moreover have "\<forall>x \<in> set (users ?d). 0 \<le> u_monthly_salary x" by code_simp
  moreover have "date_count (ry_period_start sample_payroll) (ry_period_end sample_payroll) = 4" by code_simp
  ultimately show ?thesis
    using payroll_run_bounds [OF c attendance_sheet_ok] c n by (simp add: list_all_iff)
qed

end
