(* ===== verification/Hardware.thy ===== *)
theory Hardware
  imports Notify FeatureModules
begin

text \<open>
  \<open>app/services/hardware_adapters.py\<close>, \<open>hardware.py\<close> and \<open>api/hardware.py\<close>: the devices of a station,
  the adapters of their vendors, and the readings taken from them. The answer of a vendor's service is
  the parameter \<open>http_get\<close>.
\<close>

section \<open>Adapters (\<open>hardware_adapters.py\<close>)\<close>

text \<open>The subclasses of \<open>HardwareAdapter\<close>; \<open>Vendor\<close> stands for the four classes that only differ in data.\<close>

datatype adapter = Simulated | Vendor string | Generic

definition RECOGNIZED_VENDORS :: "string list" where
  "RECOGNIZED_VENDORS = [''veederroot'', ''tokheim'', ''gilbarco'', ''opw'']"

definition vendor_of :: "string option \<Rightarrow> string" where
  \<comment> \<open>\<open>(vendor_name or "").strip().lower()\<close>\<close>
  "vendor_of v = (case v of None \<Rightarrow> [] | Some s \<Rightarrow> py_lower (py_strip s))"

definition get_hardware_adapter :: "hardware_device \<Rightarrow> adapter" where
  "get_hardware_adapter h =
     (if hd_integration_mode h \<noteq> ''vendor_api'' then Simulated
      else if vendor_of (hd_vendor_name h) \<in> set RECOGNIZED_VENDORS then Vendor (vendor_of (hd_vendor_name h))
      else Generic)"

definition mock_mode :: "env \<Rightarrow> bool" where
  "mock_mode e \<longleftrightarrow> hardware_vendor_mode e = ''mock'' \<or> app_env e \<in> set [''development'', ''test'']"

definition ensure_vendor_supported :: "env \<Rightarrow> hardware_device \<Rightarrow> unit res \<Rightarrow> unit res" where
  "ensure_vendor_supported e h vendor_check =
     (if hd_integration_mode h \<noteq> ''vendor_api''
      then http 400 ''Selected hardware device is not configured for vendor API integration''
      else check vendor_check
      (if \<not> truthy (hd_device_identifier h) then http 400 ''Device identifier is required for vendor API devices''
       else if \<not> mock_mode e \<and> \<not> truthy (hd_endpoint_url h)
       then http 400 ''Endpoint URL is required for live vendor polling'' else ok))"

fun ensure_supported :: "env \<Rightarrow> adapter \<Rightarrow> hardware_device \<Rightarrow> unit res" where
  "ensure_supported e Simulated h =
     (if hd_integration_mode h \<noteq> ''simulated''
      then http 400 ''Selected hardware device is not configured for simulated ingestion'' else ok)"
| "ensure_supported e (Vendor v) h = ensure_vendor_supported e h
     (if vendor_of (hd_vendor_name h) \<noteq> v
      then Inl (HTTPException 400 [T ''Device is not configured for the '', T v, T '' adapter'']) else ok)"
| "ensure_supported e Generic h = ensure_vendor_supported e h ok"

definition default_protocol :: "string \<Rightarrow> string" where
  "default_protocol v = (if v = ''tokheim'' then ''http'' else ''https'')"

definition or_else :: "string option \<Rightarrow> string \<Rightarrow> string" where
  \<comment> \<open>\<open>value or fallback\<close>\<close>
  "or_else v fallback = (case v of None \<Rightarrow> fallback | Some s \<Rightarrow> if s = [] then fallback else s)"

fun health_check :: "env \<Rightarrow> adapter \<Rightarrow> hardware_device \<Rightarrow> (string \<times> string option) list res" where
  "health_check e Simulated h = check (ensure_supported e Simulated h) (Inr
     [(''status'', Some ''ok''), (''mode'', Some ''simulated''), (''vendor_name'', Some (or_else (hd_vendor_name h) ''simulator'')),
      (''detail'', Some ''Simulated adapter is ready for local testing'')])"
| "health_check e (Vendor v) h = check (ensure_supported e (Vendor v) h) (Inr
     [(''status'', Some ''configured''), (''mode'', Some ''vendor_api''), (''vendor_name'', Some v),
      (''protocol'', Some (or_else (hd_protocol h) (default_protocol v))), (''device_identifier'', hd_device_identifier h),
      (''detail'', Some (v @ '' adapter is ready for vendor polling''))])"
| "health_check e Generic h = check (ensure_supported e Generic h) (Inr
     [(''status'', Some ''unverified''), (''mode'', Some ''vendor_api''),
      (''vendor_name'', Some (py_lower (or_else (hd_vendor_name h) ''generic''))),
      (''protocol'', Some (or_else (hd_protocol h) ''https'')), (''device_identifier'', hd_device_identifier h),
      (''detail'', Some ''Generic vendor adapter is configured but may need custom mapping'')])"

definition tank_snapshot :: "string \<Rightarrow> hardware_device \<Rightarrow> rat \<Rightarrow> rat \<Rightarrow> string \<Rightarrow> jobject" where
  "tank_snapshot v h volume temperature notes =
     [(''vendor'', JStr v), (''device_identifier'', jopt (hd_device_identifier h)), (''tank_volume'', JFloat (fl volume)),
      (''temperature'', JFloat (fl temperature)), (''status'', JStr ''received''), (''notes'', JStr notes)]"

definition dispenser_snapshot :: "string \<Rightarrow> hardware_device \<Rightarrow> rat \<Rightarrow> rat \<Rightarrow> string \<Rightarrow> jobject" where
  "dispenser_snapshot v h meter volume notes =
     [(''vendor'', JStr v), (''device_identifier'', jopt (hd_device_identifier h)), (''meter_reading'', JFloat (fl meter)),
      (''volume'', JFloat (fl volume)), (''status'', JStr ''received''), (''notes'', JStr notes)]"

definition mock_snapshot :: "adapter \<Rightarrow> hardware_device \<Rightarrow> jobject" where
  "mock_snapshot a h =
     (if a = Vendor ''veederroot'' then tank_snapshot ''veederroot'' h (92 + 1 / 2) (24 + 3 / 10) ''Mock Veeder-Root tank probe snapshot''
      else if a = Vendor ''tokheim'' then dispenser_snapshot ''tokheim'' h 1012 12 ''Mock Tokheim dispenser snapshot''
      else if a = Vendor ''gilbarco'' then dispenser_snapshot ''gilbarco'' h (1015 + 1 / 2) (15 + 1 / 2) ''Mock Gilbarco dispenser snapshot''
      else if a = Vendor ''opw'' then tank_snapshot ''opw'' h 88 (23 + 1 / 10) ''Mock OPW tank probe snapshot''
      else let v = py_lower (or_else (hd_vendor_name h) ''generic'') in
        if hd_device_type h = ''tank_probe'' then tank_snapshot v h 90 22 ''Mock generic tank probe snapshot''
        else dispenser_snapshot v h 1008 8 ''Mock generic dispenser snapshot'')"

definition build_live_url :: "hardware_device \<Rightarrow> string res" where
  "build_live_url h =
     (if \<not> truthy (hd_endpoint_url h) then http 400 ''Endpoint URL is required for live vendor polling''
      else Inr (the (hd_endpoint_url h)))"

definition build_headers :: "hardware_device \<Rightarrow> (string \<times> string) list" where
  "build_headers h = (''Accept'', ''application/json'')
     # (if truthy (hd_api_key h) then [(''X-API-Key'', the (hd_api_key h))] else [])"

definition adapter_name :: "adapter \<Rightarrow> string" where
  "adapter_name a = (case a of Vendor v \<Rightarrow> v | _ \<Rightarrow> ''generic'')"

definition live_snapshot :: "env \<Rightarrow> adapter \<Rightarrow> hardware_device \<Rightarrow> jobject res" where
  \<comment> \<open>an exception of \<open>build_live_url\<close> is caught too, as \<open>"400: ..."\<close>\<close>
  "live_snapshot e a h =
     (case build_live_url h of
        Inl _ \<Rightarrow> Inl (HTTPException 502 [T (adapter_name a), T '' polling failed: '',
                    T ''400: Endpoint URL is required for live vendor polling''])
      | Inr url \<Rightarrow>
        (case http_get e \<lparr>gr_url = url, gr_headers = build_headers h\<rparr> of
           Inl x \<Rightarrow> Inl (HTTPException 502 [T (adapter_name a), T '' polling failed: '', T x])
         | Inr (is_ok, status, json) \<Rightarrow>
           if \<not> is_ok then Inl (HTTPException 502 [T (adapter_name a), T '' polling failed with HTTP '', I status])
           else case json of None \<Rightarrow> Inl (HTTPException 502 [T (adapter_name a), T '' polling returned invalid JSON''])
             | Some body \<Rightarrow> Inr body))"

fun fetch_snapshot :: "env \<Rightarrow> adapter \<Rightarrow> hardware_device \<Rightarrow> jobject res" where
  "fetch_snapshot e Simulated h = check (ensure_supported e Simulated h)
     (http 400 ''Simulated devices use the simulation ingestion endpoints instead of vendor polling'')"
| "fetch_snapshot e a h = check (ensure_supported e a h)
     (if mock_mode e then Inr (mock_snapshot a h) else live_snapshot e a h)"

section \<open>Validation (\<open>hardware.py\<close>)\<close>

definition VALID_DEVICE_TYPES :: "string list" where
  "VALID_DEVICE_TYPES = [''dispenser'', ''tank_probe'', ''printer'', ''other'']"
definition VALID_INTEGRATION_MODES :: "string list" where
  "VALID_INTEGRATION_MODES = [''manual'', ''simulated'', ''vendor_api'']"
definition VALID_DEVICE_STATUSES :: "string list" where
  "VALID_DEVICE_STATUSES = [''online'', ''offline'', ''error'', ''maintenance'']"
definition VALID_EVENT_STATUSES :: "string list" where
  "VALID_EVENT_STATUSES = [''received'', ''warning'', ''error'']"
definition VALID_PROTOCOLS :: "string list" where
  "VALID_PROTOCOLS = [''http'', ''https'', ''tcp'', ''udp'']"

definition ensure_hardware_access :: "hardware_device \<Rightarrow> user \<Rightarrow> unit res" where
  "ensure_hardware_access h u = require_station_access u (hd_station_id h) ''Not authorized for this hardware device''"

definition validate_station :: "db \<Rightarrow> int \<Rightarrow> unit res" where
  "validate_station d i = (if get_row st_id (stations d) i = None then http 404 ''Station not found'' else ok)"

definition validate_linked_assets :: "db \<Rightarrow> int \<Rightarrow> string \<Rightarrow> int option \<Rightarrow> int option \<Rightarrow> unit res" where
  "validate_linked_assets d station_id device_type dispenser_id tank_id =
     check (case dispenser_id of None \<Rightarrow> ok | Some i \<Rightarrow>
       (case get_row dp_id (dispensers d) i of None \<Rightarrow> http 404 ''Dispenser not found'' | Some p \<Rightarrow>
        if dp_station_id p \<noteq> station_id then http 400 ''Dispenser does not belong to the selected station'' else ok))
     (check (case tank_id of None \<Rightarrow> ok | Some i \<Rightarrow>
       (case get_row tk_id (tanks d) i of None \<Rightarrow> http 404 ''Tank not found'' | Some k \<Rightarrow>
        if tk_station_id k \<noteq> station_id then http 400 ''Tank does not belong to the selected station'' else ok))
     (if device_type = ''dispenser'' \<and> dispenser_id = None then http 400 ''Dispenser hardware must be linked to a dispenser''
      else if device_type = ''tank_probe'' \<and> tank_id = None then http 400 ''Tank probe hardware must be linked to a tank''
      else if device_type = ''dispenser'' \<and> tank_id \<noteq> None then http 400 ''Dispenser hardware cannot be linked directly to a tank''
      else if device_type = ''tank_probe'' \<and> dispenser_id \<noteq> None
      then http 400 ''Tank probe hardware cannot be linked directly to a dispenser'' else ok))"

definition validate_device_payload ::
  "db \<Rightarrow> int \<Rightarrow> string \<Rightarrow> string option \<Rightarrow> string option \<Rightarrow> int option \<Rightarrow> int option \<Rightarrow> unit res" where
  "validate_device_payload d station_id device_type integration_mode status dispenser_id tank_id =
     (if device_type \<notin> set VALID_DEVICE_TYPES then http 400 ''Invalid hardware device type''
      else if integration_mode \<notin> Some ` set VALID_INTEGRATION_MODES then http 400 ''Invalid hardware integration mode''
      else if status \<notin> Some ` set VALID_DEVICE_STATUSES then http 400 ''Invalid hardware status''
      else check (validate_station d station_id)
        (validate_linked_assets d station_id device_type dispenser_id tank_id))"

definition validate_vendor_configuration ::
  "string option \<Rightarrow> string option \<Rightarrow> string option \<Rightarrow> string option \<Rightarrow> string \<Rightarrow> string option \<Rightarrow> unit res" where
  "validate_vendor_configuration vendor protocol endpoint_url device_identifier device_type integration_mode =
     (let vendor_name = vendor_of vendor in
      if integration_mode \<noteq> Some ''vendor_api'' then ok
      else if vendor_name = [] then http 400 ''Vendor name is required for vendor API hardware''
      else if truthy protocol \<and> protocol \<notin> Some ` set VALID_PROTOCOLS then http 400 ''Invalid hardware protocol''
      else if \<not> truthy device_identifier then http 400 ''Device identifier is required for vendor API hardware''
      else if device_type \<notin> set [''dispenser'', ''tank_probe'']
      then http 400 ''Vendor API integration currently supports dispenser and tank probe devices only''
      else if vendor_name \<in> set [''veederroot'', ''opw''] \<and> device_type \<noteq> ''tank_probe''
      then Inl (HTTPException 400 [T vendor_name, T '' adapter currently supports tank probes only''])
      else if vendor_name \<in> set [''tokheim'', ''gilbarco''] \<and> device_type \<noteq> ''dispenser''
      then Inl (HTTPException 400 [T vendor_name, T '' adapter currently supports dispenser devices only''])
      else if truthy endpoint_url \<and> \<not> (py_startswith (the endpoint_url) ''http://'' \<or> py_startswith (the endpoint_url) ''https://'')
      then http 400 ''Hardware endpoint URL must start with http:// or https://''
      else ok)"

section \<open>Devices\<close>

record device_create =
  hc_name :: string
  hc_code :: string
  hc_device_type :: string
  hc_vendor_name :: "string option"
  hc_integration_mode :: string
  hc_protocol :: "string option"
  hc_endpoint_url :: "string option"
  hc_device_identifier :: "string option"
  hc_api_key :: "string option"
  hc_status :: string
  hc_is_active :: bool
  hc_station_id :: int
  hc_dispenser_id :: "int option"
  hc_tank_id :: "int option"

record device_update =
  hu_name :: "string option patch"
  hu_vendor_name :: "string option patch"
  hu_integration_mode :: "string option patch"
  hu_protocol :: "string option patch"
  hu_endpoint_url :: "string option patch"
  hu_device_identifier :: "string option patch"
  hu_api_key :: "string option patch"
  hu_status :: "string option patch"
  hu_is_active :: "bool option patch"
  hu_dispenser_id :: "int option patch"
  hu_tank_id :: "int option patch"
  hu_last_error :: "string option patch"

definition create_hardware_device :: "env \<Rightarrow> db \<Rightarrow> device_create \<Rightarrow> user \<Rightarrow> (hardware_device \<times> db) res" where
  "create_hardware_device e d data u =
     check (require_station_access u (hc_station_id data) ''Not authorized for this station'')
     (if find (\<lambda>h. hd_code h = hc_code data) (hardware_devices d) \<noteq> None
      then http 400 ''Hardware device code already exists''
      else check (validate_device_payload d (hc_station_id data) (hc_device_type data) (Some (hc_integration_mode data))
             (Some (hc_status data)) (hc_dispenser_id data) (hc_tank_id data))
      (check (validate_vendor_configuration (hc_vendor_name data) (hc_protocol data) (hc_endpoint_url data)
             (hc_device_identifier data) (hc_device_type data) (Some (hc_integration_mode data)))
      (let h = \<lparr>hd_id = next_id hd_id (hardware_devices d), hd_name = hc_name data, hd_code = hc_code data,
             hd_device_type = hc_device_type data, hd_vendor_name = hc_vendor_name data,
             hd_integration_mode = hc_integration_mode data, hd_protocol = hc_protocol data,
             hd_endpoint_url = hc_endpoint_url data, hd_device_identifier = hc_device_identifier data,
             hd_api_key = hc_api_key data, hd_status = hc_status data, hd_is_active = hc_is_active data,
             hd_station_id = hc_station_id data, hd_dispenser_id = hc_dispenser_id data, hd_tank_id = hc_tank_id data,
             hd_last_seen_at = None, hd_last_error = None\<rparr>
       in Inr (h, audit e u ''hardware'' ''hardware.create'' ''hardware_device'' (Some (hd_id h)) (Some (hd_station_id h))
            [(''device_type'', JStr (hd_device_type h)), (''code'', JStr (hd_code h))]
            (d\<lparr>hardware_devices := add_row h (hardware_devices d)\<rparr>)))))"

definition patched_device :: "device_update \<Rightarrow> hardware_device \<Rightarrow> hardware_device" where
  "patched_device data h = h\<lparr>hd_name := assign_value (hu_name data) (hd_name h),
     hd_vendor_name := assign (hu_vendor_name data) (hd_vendor_name h),
     hd_integration_mode := assign_value (hu_integration_mode data) (hd_integration_mode h),
     hd_protocol := assign (hu_protocol data) (hd_protocol h),
     hd_endpoint_url := assign (hu_endpoint_url data) (hd_endpoint_url h),
     hd_device_identifier := assign (hu_device_identifier data) (hd_device_identifier h),
     hd_api_key := assign (hu_api_key data) (hd_api_key h),
     hd_status := assign_value (hu_status data) (hd_status h),
     hd_is_active := assign_value (hu_is_active data) (hd_is_active h),
     hd_dispenser_id := assign (hu_dispenser_id data) (hd_dispenser_id h),
     hd_tank_id := assign (hu_tank_id data) (hd_tank_id h),
     hd_last_error := assign (hu_last_error data) (hd_last_error h)\<rparr>"

definition device_updates :: "device_update \<Rightarrow> jobject" where
  \<comment> \<open>\<open>data.model_dump(exclude_unset=True)\<close>, the API key included\<close>
  "device_updates data =
     patch_details ''name'' JStr (hu_name data) @ patch_details ''vendor_name'' JStr (hu_vendor_name data)
     @ patch_details ''integration_mode'' JStr (hu_integration_mode data) @ patch_details ''protocol'' JStr (hu_protocol data)
     @ patch_details ''endpoint_url'' JStr (hu_endpoint_url data)
     @ patch_details ''device_identifier'' JStr (hu_device_identifier data) @ patch_details ''api_key'' JStr (hu_api_key data)
     @ patch_details ''status'' JStr (hu_status data) @ patch_details ''is_active'' JBool (hu_is_active data)
     @ patch_details ''dispenser_id'' JInt (hu_dispenser_id data) @ patch_details ''tank_id'' JInt (hu_tank_id data)
     @ patch_details ''last_error'' JStr (hu_last_error data)"

definition update_hardware_device :: "env \<Rightarrow> db \<Rightarrow> hardware_device \<Rightarrow> device_update \<Rightarrow> user \<Rightarrow> (hardware_device \<times> db) res" where
  "update_hardware_device e d h data u =
     check (ensure_hardware_access h u)
     (check (validate_device_payload d (hd_station_id h) (hd_device_type h)
            (assign (hu_integration_mode data) (Some (hd_integration_mode h)))
            (assign (hu_status data) (Some (hd_status h)))
            (assign (hu_dispenser_id data) (hd_dispenser_id h)) (assign (hu_tank_id data) (hd_tank_id h)))
     (check (validate_vendor_configuration (assign (hu_vendor_name data) (hd_vendor_name h))
            (assign (hu_protocol data) (hd_protocol h)) (assign (hu_endpoint_url data) (hd_endpoint_url h))
            (assign (hu_device_identifier data) (hd_device_identifier h)) (hd_device_type h)
            (assign (hu_integration_mode data) (Some (hd_integration_mode h))))
     (if is_null (hu_name data) \<or> is_null (hu_is_active data) then Inl IntegrityError
      else let h' = patched_device data h
      in Inr (h', audit e u ''hardware'' ''hardware.update'' ''hardware_device'' (Some (hd_id h)) (Some (hd_station_id h))
           (device_updates data) (d\<lparr>hardware_devices := put_row hd_id h' (hardware_devices d)\<rparr>)))))"

section \<open>Readings\<close>

record reading =
  rd_dispenser_id :: "int option"
  rd_tank_id :: "int option"
  rd_nozzle_id :: "int option"
  rd_meter_reading :: "pyfloat option"
  rd_volume :: "pyfloat option"
  rd_temperature :: "pyfloat option"
  rd_notes :: "string option"

record dispenser_reading_create =
  dr_device_id :: int
  dr_nozzle_id :: int
  dr_meter_reading :: pyfloat
  dr_volume :: "pyfloat option"
  dr_status :: string
  dr_notes :: "string option"

record tank_probe_reading_create =
  tp_device_id :: int
  tp_volume :: pyfloat
  tp_temperature :: "pyfloat option"
  tp_status :: string
  tp_notes :: "string option"

definition validate_event_status :: "jval \<Rightarrow> unit res" where
  "validate_event_status status =
     (if status \<notin> JStr ` set VALID_EVENT_STATUSES then http 400 ''Invalid hardware event status'' else ok)"

definition event_row :: "env \<Rightarrow> db \<Rightarrow> hardware_device \<Rightarrow> string \<Rightarrow> string \<Rightarrow> reading \<Rightarrow> jobject \<Rightarrow> hardware_event" where
  "event_row e d h event_type status r payload =
     \<lparr>he_id = next_id he_id (hardware_events d), he_device_id = hd_id h, he_station_id = hd_station_id h,
      he_event_type = event_type, he_source = ''simulation'', he_status = status, he_dispenser_id = rd_dispenser_id r,
      he_tank_id = rd_tank_id r, he_nozzle_id = rd_nozzle_id r, he_meter_reading = rd_meter_reading r,
      he_volume = rd_volume r, he_temperature = rd_temperature r, he_notes = rd_notes r,
      he_payload_json = json_sorted payload, he_recorded_at = now e\<rparr>"

definition seen_device :: "env \<Rightarrow> string \<Rightarrow> string option \<Rightarrow> hardware_device \<Rightarrow> hardware_device" where
  "seen_device e status notes h =
     h\<lparr>hd_status := ''online'', hd_last_seen_at := Some (now e),
       hd_last_error := (if status \<noteq> ''error'' then None else if truthy notes then notes else hd_last_error h)\<rparr>"

definition record_event :: "env \<Rightarrow> db \<Rightarrow> hardware_device \<Rightarrow> string \<Rightarrow> string \<Rightarrow> reading \<Rightarrow> jobject \<Rightarrow> hardware_event \<times> db" where
  "record_event e d h event_type status r payload =
     (let ev = event_row e d h event_type status r payload;
          d1 = d\<lparr>hardware_devices := put_row hd_id (seen_device e status (rd_notes r) h) (hardware_devices d),
                hardware_events := add_row ev (hardware_events d)\<rparr>
      in (ev, d1\<lparr>comms := log_audit_event e None ''hardware'' (''hardware.'' @ event_type) ''hardware_event'' (Some (he_id ev))
            (Some (hd_station_id h)) (Some payload) (comms d1)\<rparr>))"

definition jfloat :: "pyfloat option \<Rightarrow> jval" where
  "jfloat x = (case x of None \<Rightarrow> JNull | Some v \<Rightarrow> JFloat v)"

definition usable_device :: "env \<Rightarrow> db \<Rightarrow> int \<Rightarrow> user \<Rightarrow> string \<Rightarrow> string \<Rightarrow> (hardware_device \<Rightarrow> 'a res) \<Rightarrow> 'a res" where
  \<comment> \<open>the checks of a simulated reading up to the adapter\<close>
  "usable_device e d i u device_type detail f =
     (case get_row hd_id (hardware_devices d) i of None \<Rightarrow> http 404 ''Hardware device not found'' | Some h \<Rightarrow>
      check (ensure_hardware_access h u)
      (if \<not> hd_is_active h then http 400 ''Inactive hardware device cannot receive readings''
       else if hd_device_type h \<noteq> device_type then http 400 detail
       else check (ensure_supported e (get_hardware_adapter h) h) (f h)))"

definition simulate_dispenser_reading :: "env \<Rightarrow> db \<Rightarrow> dispenser_reading_create \<Rightarrow> user \<Rightarrow> (hardware_event \<times> db) res" where
  "simulate_dispenser_reading e d data u =
     check (validate_event_status (JStr (dr_status data)))
     (if dr_meter_reading data < 0 then http 400 ''Meter reading cannot be negative''
      else if (case dr_volume data of None \<Rightarrow> False | Some v \<Rightarrow> v < 0) then http 400 ''Volume cannot be negative''
      else usable_device e d (dr_device_id data) u ''dispenser'' ''Selected hardware device is not a dispenser device'' (\<lambda>h.
      if hd_dispenser_id h = None then http 400 ''Dispenser hardware is not linked to a dispenser''
      else case get_row nz_id (nozzles d) (dr_nozzle_id data) of None \<Rightarrow> http 404 ''Nozzle not found'' | Some n \<Rightarrow>
      if Some (nz_dispenser_id n) \<noteq> hd_dispenser_id h then http 400 ''Nozzle does not belong to the linked dispenser''
      else if (case get_row dp_id (dispensers d) (nz_dispenser_id n) of None \<Rightarrow> True | Some p \<Rightarrow> dp_station_id p \<noteq> hd_station_id h)
      then http 400 ''Linked dispenser is invalid for this station''
      else Inr (record_event e d h ''dispenser_reading'' (dr_status data)
        \<lparr>rd_dispenser_id = hd_dispenser_id h, rd_tank_id = None, rd_nozzle_id = Some (nz_id n),
         rd_meter_reading = Some (dr_meter_reading data), rd_volume = dr_volume data, rd_temperature = None,
         rd_notes = dr_notes data\<rparr>
        [(''device_id'', JInt (hd_id h)), (''dispenser_id'', jint (hd_dispenser_id h)), (''nozzle_id'', JInt (nz_id n)),
         (''meter_reading'', JFloat (dr_meter_reading data)), (''volume'', jfloat (dr_volume data)),
         (''status'', JStr (dr_status data)), (''notes'', jopt (dr_notes data))])))"

definition simulate_tank_probe_reading :: "env \<Rightarrow> db \<Rightarrow> tank_probe_reading_create \<Rightarrow> user \<Rightarrow> (hardware_event \<times> db) res" where
  "simulate_tank_probe_reading e d data u =
     check (validate_event_status (JStr (tp_status data)))
     (if tp_volume data < 0 then http 400 ''Volume cannot be negative''
      else usable_device e d (tp_device_id data) u ''tank_probe'' ''Selected hardware device is not a tank probe'' (\<lambda>h.
      case hd_tank_id h of None \<Rightarrow> http 400 ''Tank probe hardware is not linked to a tank'' | Some i \<Rightarrow>
      case get_row tk_id (tanks d) i of None \<Rightarrow> http 404 ''Tank not found'' | Some k \<Rightarrow>
      if tk_station_id k \<noteq> hd_station_id h then http 400 ''Linked tank is invalid for this station''
      else Inr (record_event e d h ''tank_probe_reading'' (tp_status data)
        \<lparr>rd_dispenser_id = None, rd_tank_id = Some i, rd_nozzle_id = None, rd_meter_reading = None,
         rd_volume = Some (tp_volume data), rd_temperature = tp_temperature data, rd_notes = tp_notes data\<rparr>
        [(''device_id'', JInt (hd_id h)), (''tank_id'', JInt i), (''volume'', JFloat (tp_volume data)),
         (''temperature'', jfloat (tp_temperature data)), (''status'', JStr (tp_status data)), (''notes'', jopt (tp_notes data))])))"

section \<open>Polling a vendor\<close>

definition digits_part :: "string \<Rightarrow> string \<times> string" where
  "digits_part s = (takeWhile (\<lambda>c. is_digit c \<or> c = CHR ''_'') s, dropWhile (\<lambda>c. is_digit c \<or> c = CHR ''_'') s)"

definition int_or_0 :: "string \<Rightarrow> int option" where
  "int_or_0 s = (if s = [] then Some 0 else int_digits s 0 False)"

definition unsigned_float :: "string \<Rightarrow> pyfloat option" where
  "unsigned_float s =
     (let (whole, r) = digits_part s;
          (frac, r2) = (case r of c # t \<Rightarrow> if c = CHR ''.'' then digits_part t else ([], r) | [] \<Rightarrow> ([], r));
          exponent = (case r2 of [] \<Rightarrow> Some 0
            | c # t \<Rightarrow> if c \<in> set ''eE'' \<and> list_all (\<lambda>c. \<not> is_space c) t then parse_int t else None)
      in if whole = [] \<and> frac = [] then None
         else case (int_or_0 whole, int_or_0 frac, exponent) of
           (Some w, Some f, Some x) \<Rightarrow> Some (fl ((of_int w + of_int f / 10 ^ length (filter is_digit frac)) * 10 powi x))
         | _ \<Rightarrow> None)"

definition parse_float :: "string \<Rightarrow> pyfloat option" where
  \<comment> \<open>\<open>float(s)\<close> on ASCII text, without the infinities and NaN; \<open>None\<close> where it raises\<close>
  "parse_float s =
     (case py_strip s of
        [] \<Rightarrow> None
      | c # t \<Rightarrow> if c = CHR ''-'' then map_option uminus (unsigned_float t)
                 else if c = CHR ''+'' then unsigned_float t else unsigned_float (c # t))"

definition to_float :: "jval \<Rightarrow> pyfloat res" where
  \<comment> \<open>\<open>float(value)\<close> of a JSON value that is not null\<close>
  "to_float v = (case v of
     JFloat x \<Rightarrow> Inr x
   | JInt i \<Rightarrow> Inr (fl (of_int i))
   | JBool b \<Rightarrow> Inr (if b then 1 else 0)
   | JStr s \<Rightarrow> (case parse_float s of None \<Rightarrow> Inl (ValueError [T ''could not convert string to float: '', T s]) | Some x \<Rightarrow> Inr x)
   | _ \<Rightarrow> Inl TypeError)"

definition jget :: "jobject \<Rightarrow> string \<Rightarrow> jval \<Rightarrow> jval" where
  \<comment> \<open>\<open>snapshot.get(key, fallback)\<close>\<close>
  "jget s key fallback = (case map_of s key of None \<Rightarrow> fallback | Some v \<Rightarrow> v)"

definition float_or_none :: "jval \<Rightarrow> pyfloat option res" where
  "float_or_none v = (if v = JNull then Inr None else case to_float v of Inl x \<Rightarrow> Inl x | Inr f \<Rightarrow> Inr (Some f))"

definition json_text :: "jval \<Rightarrow> string option" where
  \<comment> \<open>the notes of a snapshot, a text or null\<close>
  "json_text v = (case v of JStr s \<Rightarrow> Some s | _ \<Rightarrow> None)"

definition status_text :: "jval \<Rightarrow> string" where
  "status_text v = (case v of JStr s \<Rightarrow> s | _ \<Rightarrow> [])"

definition poll_vendor_hardware_device :: "env \<Rightarrow> db \<Rightarrow> hardware_device \<Rightarrow> user \<Rightarrow> (hardware_event \<times> db) res" where
  "poll_vendor_hardware_device e d h u =
     check (ensure_hardware_access h u)
     (if \<not> hd_is_active h then http 400 ''Inactive hardware device cannot be polled''
      else case fetch_snapshot e (get_hardware_adapter h) h of Inl x \<Rightarrow> Inl x | Inr snapshot \<Rightarrow>
      let status = jget snapshot ''status'' (JStr ''received'') in
      check (validate_event_status status)
      (if hd_device_type h = ''dispenser'' then
         (let meter_reading = jget snapshot ''meter_reading'' JNull; volume = jget snapshot ''volume'' JNull in
          if meter_reading = JNull then http 400 ''Vendor dispenser snapshot is missing meter_reading''
          else case (to_float meter_reading, float_or_none volume) of
            (Inl x, _) \<Rightarrow> Inl x | (Inr _, Inl x) \<Rightarrow> Inl x
          | (Inr m, Inr v) \<Rightarrow> Inr (record_event e d h ''vendor_dispenser_poll'' (status_text status)
              \<lparr>rd_dispenser_id = hd_dispenser_id h, rd_tank_id = None, rd_nozzle_id = None, rd_meter_reading = Some m,
               rd_volume = v, rd_temperature = None, rd_notes = json_text (jget snapshot ''notes'' JNull)\<rparr> snapshot))
       else if hd_device_type h = ''tank_probe'' then
         (let volume = jget snapshot ''tank_volume'' (jget snapshot ''volume'' JNull) in
          if volume = JNull then http 400 ''Vendor tank probe snapshot is missing volume''
          else case (to_float volume, float_or_none (jget snapshot ''temperature'' JNull)) of
            (Inl x, _) \<Rightarrow> Inl x | (Inr _, Inl x) \<Rightarrow> Inl x
          | (Inr v, Inr t) \<Rightarrow> Inr (record_event e d h ''vendor_tank_probe_poll'' (status_text status)
              \<lparr>rd_dispenser_id = None, rd_tank_id = hd_tank_id h, rd_nozzle_id = None, rd_meter_reading = None,
               rd_volume = Some v, rd_temperature = t, rd_notes = json_text (jget snapshot ''notes'' JNull)\<rparr> snapshot))
       else http 400 ''Vendor polling is not supported for this hardware device type''))"

definition check_hardware_adapter :: "env \<Rightarrow> hardware_device \<Rightarrow> user \<Rightarrow> (string \<times> string option) list res" where
  "check_hardware_adapter e h u = check (ensure_hardware_access h u) (health_check e (get_hardware_adapter h) h)"

definition get_supported_hardware_vendors :: "string list \<times> (string \<times> string list) list \<times> string list" where
  "get_supported_hardware_vendors =
     (sort RECOGNIZED_VENDORS,
      [(''veederroot'', [''tank_probe'']), (''opw'', [''tank_probe'']), (''tokheim'', [''dispenser'']),
       (''gilbarco'', [''dispenser'']), (''generic'', [''dispenser'', ''tank_probe''])],
      sort VALID_PROTOCOLS)"

section \<open>The routes (\<open>api/hardware.py\<close>)\<close>

definition list_hardware_vendors :: "user \<Rightarrow> (string list \<times> (string \<times> string list) list \<times> string list) res" where
  "list_hardware_vendors u =
     check (require_permission u ''hardware'' ''read'' ''You do not have permission to inspect hardware devices'')
     (Inr get_supported_hardware_vendors)"

definition create_device :: "env \<Rightarrow> db \<Rightarrow> device_create \<Rightarrow> user \<Rightarrow> (hardware_device \<times> db) res" where
  "create_device e d data u =
     check (require_permission u ''hardware'' ''create'' ''You do not have permission to create hardware devices'')
     (create_hardware_device e d data u)"

definition list_devices :: "db \<Rightarrow> user \<Rightarrow> int option \<Rightarrow> string option \<Rightarrow> string option \<Rightarrow> nat \<Rightarrow> nat \<Rightarrow> hardware_device list" where
  "list_devices d u station_id device_type status skip limit =
     (let station_id = (if is_admin u then station_id else u_station_id u) in
      page skip limit (filter (\<lambda>h. (station_id = None \<or> Some (hd_station_id h) = station_id)
        \<and> (truthy device_type \<longrightarrow> Some (hd_device_type h) = device_type)
        \<and> (truthy status \<longrightarrow> Some (hd_status h) = status)) (hardware_devices d)))"

definition with_device :: "db \<Rightarrow> int \<Rightarrow> (hardware_device \<Rightarrow> 'a res) \<Rightarrow> 'a res" where
  "with_device d i f =
     (case get_row hd_id (hardware_devices d) i of None \<Rightarrow> http 404 ''Hardware device not found'' | Some h \<Rightarrow> f h)"

definition get_device :: "db \<Rightarrow> int \<Rightarrow> user \<Rightarrow> hardware_device res" where
  "get_device d i u = with_device d i (\<lambda>h. check (ensure_hardware_access h u) (Inr h))"

definition run_device_adapter_check :: "env \<Rightarrow> db \<Rightarrow> int \<Rightarrow> user \<Rightarrow> (string \<times> string option) list res" where
  "run_device_adapter_check e d i u = with_device d i (\<lambda>h.
     check (require_permission u ''hardware'' ''read'' ''You do not have permission to inspect hardware devices'')
     (check_hardware_adapter e h u))"

definition poll_vendor_device :: "env \<Rightarrow> db \<Rightarrow> int \<Rightarrow> user \<Rightarrow> (hardware_event \<times> db) res" where
  "poll_vendor_device e d i u = with_device d i (\<lambda>h.
     check (require_permission u ''hardware'' ''read'' ''You do not have permission to inspect hardware devices'')
     (poll_vendor_hardware_device e d h u))"

definition update_device :: "env \<Rightarrow> db \<Rightarrow> int \<Rightarrow> device_update \<Rightarrow> user \<Rightarrow> (hardware_device \<times> db) res" where
  "update_device e d i data u = with_device d i (\<lambda>h.
     check (require_permission u ''hardware'' ''update'' ''You do not have permission to update hardware devices'')
     (update_hardware_device e d h data u))"

definition delete_device :: "db \<Rightarrow> int \<Rightarrow> user \<Rightarrow> db res" where
  "delete_device d i u = with_device d i (\<lambda>h.
     check (ensure_hardware_access h u)
     (check (require_permission u ''hardware'' ''delete'' ''You do not have permission to delete hardware devices'')
     (if find (\<lambda>x. he_device_id x = hd_id h) (hardware_events d) \<noteq> None
      then http 400 ''Hardware device cannot be deleted while event history exists''
      else Inr (d\<lparr>hardware_devices := del_row hd_id (hd_id h) (hardware_devices d)\<rparr>))))"

definition list_events :: "db \<Rightarrow> user \<Rightarrow> int option \<Rightarrow> int option \<Rightarrow> string option \<Rightarrow> nat \<Rightarrow> nat \<Rightarrow> hardware_event list res" where
  "list_events d u station_id device_id event_type skip limit =
     (let station_id = (if is_admin u then station_id else u_station_id u) in
      check (case device_id of None \<Rightarrow> ok | Some i \<Rightarrow> with_device d i (\<lambda>h. ensure_hardware_access h u))
      (Inr (page skip limit (sort_key (\<lambda>x. - he_recorded_at x) (filter (\<lambda>x.
         (station_id = None \<or> Some (he_station_id x) = station_id) \<and> (device_id = None \<or> Some (he_device_id x) = device_id)
         \<and> (truthy event_type \<longrightarrow> Some (he_event_type x) = event_type)) (hardware_events d))))))"

definition get_event :: "db \<Rightarrow> int \<Rightarrow> user \<Rightarrow> hardware_event res" where
  "get_event d i u =
     (case get_row he_id (hardware_events d) i of None \<Rightarrow> http 404 ''Hardware event not found'' | Some x \<Rightarrow>
      check (require_station_access u (he_station_id x) ''Not authorized for this hardware event'') (Inr x))"

section \<open>What an adapter promises\<close>

text \<open>
  The interface \<open>HardwareAdapter\<close>: an unsupported device is refused by every operation with the same
  error, a supported one passes the health check.
\<close>

locale hardware_adapter =
  fixes supported :: "'h \<Rightarrow> unit res" and health :: "'h \<Rightarrow> 'r res" and snapshot :: "'h \<Rightarrow> 's res"
  assumes refused: "supported h = Inl x \<Longrightarrow> health h = Inl x \<and> snapshot h = Inl x"
    and healthy: "supported h = ok \<Longrightarrow> \<exists>r. health h = Inr r"
begin

lemma healthy_iff: "(\<exists>r. health h = Inr r) \<longleftrightarrow> supported h = ok"
  using refused [of h] healthy [of h] by (cases "supported h") (auto simp: ok_def)

lemma snapshot_supported: "snapshot h = Inr s \<Longrightarrow> supported h = ok"
  using refused [of h] by (cases "supported h") (auto simp: ok_def)

lemma snapshot_healthy: "snapshot h = Inr s \<Longrightarrow> \<exists>r. health h = Inr r"
  using snapshot_supported healthy by blast

end

interpretation adapters: hardware_adapter "ensure_supported e a" "health_check e a" "fetch_snapshot e a" for e a
  by unfold_locales (cases a, auto simp del: ensure_supported.simps)+

section \<open>Configured devices\<close>

definition device_wf :: "hardware_device \<Rightarrow> bool" where
  "device_wf h \<longleftrightarrow> hd_device_type h \<in> set VALID_DEVICE_TYPES \<and> hd_integration_mode h \<in> set VALID_INTEGRATION_MODES
     \<and> hd_status h \<in> set VALID_DEVICE_STATUSES
     \<and> (hd_device_type h = ''dispenser'' \<longrightarrow> hd_dispenser_id h \<noteq> None \<and> hd_tank_id h = None)
     \<and> (hd_device_type h = ''tank_probe'' \<longrightarrow> hd_tank_id h \<noteq> None \<and> hd_dispenser_id h = None)
     \<and> (hd_integration_mode h = ''vendor_api'' \<longrightarrow>
          vendor_of (hd_vendor_name h) \<noteq> [] \<and> truthy (hd_device_identifier h)
          \<and> hd_device_type h \<in> set [''dispenser'', ''tank_probe'']
          \<and> (vendor_of (hd_vendor_name h) \<in> set [''veederroot'', ''opw''] \<longrightarrow> hd_device_type h = ''tank_probe'')
          \<and> (vendor_of (hd_vendor_name h) \<in> set [''tokheim'', ''gilbarco''] \<longrightarrow> hd_device_type h = ''dispenser''))"

definition devices_ok :: "db \<Rightarrow> bool" where
  "devices_ok d \<longleftrightarrow> keyed hd_id (hardware_devices d) \<and> distinct (map hd_code (hardware_devices d))
     \<and> list_all device_wf (hardware_devices d)"

lemma validated_device:
  assumes "validate_device_payload d s ty (Some m) (Some st) dp tk = ok"
    and "validate_vendor_configuration v pr url ident ty (Some m) = ok"
    and "hd_device_type h = ty" "hd_integration_mode h = m" "hd_status h = st" "hd_dispenser_id h = dp" "hd_tank_id h = tk"
      "hd_vendor_name h = v" "hd_device_identifier h = ident"
  shows "device_wf h"
proof -
  have "ty \<in> set VALID_DEVICE_TYPES \<and> m \<in> set VALID_INTEGRATION_MODES \<and> st \<in> set VALID_DEVICE_STATUSES
      \<and> (ty = ''dispenser'' \<longrightarrow> dp \<noteq> None \<and> tk = None) \<and> (ty = ''tank_probe'' \<longrightarrow> tk \<noteq> None \<and> dp = None)"
    using assms(1) by (auto simp: validate_device_payload_def validate_linked_assets_def res_simps image_iff
        split: if_split_asm)
  moreover have "m = ''vendor_api'' \<longrightarrow> vendor_of v \<noteq> [] \<and> truthy ident \<and> ty \<in> set [''dispenser'', ''tank_probe'']
      \<and> (vendor_of v \<in> set [''veederroot'', ''opw''] \<longrightarrow> ty = ''tank_probe'')
      \<and> (vendor_of v \<in> set [''tokheim'', ''gilbarco''] \<longrightarrow> ty = ''dispenser'')"
    using assms(2) by (auto simp: validate_vendor_configuration_def Let_def split: if_split_asm)
  ultimately show ?thesis unfolding device_wf_def assms(3-9) by blast
qed

lemma seen_device_wf: "device_wf h \<Longrightarrow> device_wf (seen_device e s n h)"
  by (simp add: device_wf_def seen_device_def VALID_DEVICE_STATUSES_def)

datatype device_action =
    Create_Device device_create
  | Update_Device int device_update
  | Delete_Device int
  | Poll_Device int
  | Dispenser_Reading dispenser_reading_create
  | Tank_Reading tank_probe_reading_create

definition device_result :: "env \<Rightarrow> user \<Rightarrow> device_action \<Rightarrow> db \<Rightarrow> db res" where
  "device_result e u a d = (case a of
     Create_Device data \<Rightarrow> outcome (create_device e d data u)
   | Update_Device i data \<Rightarrow> outcome (update_device e d i data u)
   | Delete_Device i \<Rightarrow> delete_device d i u
   | Poll_Device i \<Rightarrow> outcome (poll_vendor_device e d i u)
   | Dispenser_Reading data \<Rightarrow> outcome (simulate_dispenser_reading e d data u)
   | Tank_Reading data \<Rightarrow> outcome (simulate_tank_probe_reading e d data u))"

definition device_run :: "(env \<times> user \<times> device_action) list \<Rightarrow> db \<Rightarrow> db" where
  "device_run steps d = fold (\<lambda>(e, u, a) d. case device_result e u a d of Inl _ \<Rightarrow> d | Inr d' \<Rightarrow> d') steps d"

lemma with_device_Inr [res_simps]:
  "with_device d i f = Inr y \<longleftrightarrow> (\<exists>h. get_row hd_id (hardware_devices d) i = Some h \<and> f h = Inr y)"
  by (simp add: with_device_def split: option.splits)

lemma audit_devices [simp]: "hardware_devices (audit e u m a en i st x d) = hardware_devices d"
  by (simp add: audit_def)

lemma devices_put:
  assumes "devices_ok d" "get_row hd_id (hardware_devices d) i = Some h" "hd_id h' = hd_id h" "hd_code h' = hd_code h" "device_wf h'"
    and "hardware_devices d' = put_row hd_id h' (hardware_devices d)"
  shows "devices_ok d'"
proof -
  note r = get_row_Some [OF assms(2)]
  have "map hd_code (put_row hd_id h' (hardware_devices d)) = map hd_code (hardware_devices d)"
    using assms(1,3,4) r by (auto simp: put_row_def devices_ok_def keyed_def distinct_map inj_on_def)
  with assms show ?thesis by (simp add: devices_ok_def keyed_def)
qed

lemma record_event_devices:
  "record_event e d h ty s r p = (ev, d') \<Longrightarrow> hardware_devices d' = put_row hd_id (seen_device e s (rd_notes r) h) (hardware_devices d)"
  by (auto simp: record_event_def Let_def)

lemma record_event_ok:
  assumes "devices_ok d" "get_row hd_id (hardware_devices d) i = Some h" "record_event e d h ty s r p = (ev, d')"
  shows "devices_ok d'"
  using assms(1,2)
proof (rule devices_put [OF _ _ _ _ _ record_event_devices [OF assms(3)]])
  show "device_wf (seen_device e s (rd_notes r) h)"
    using assms(1,2) by (intro seen_device_wf) (auto simp: devices_ok_def intro: all_get_row)
qed (simp_all add: seen_device_def)

lemma usable_device_Inr [res_simps]:
  "usable_device e d i u ty x f = Inr y \<longleftrightarrow> (\<exists>h. get_row hd_id (hardware_devices d) i = Some h \<and> ensure_hardware_access h u = ok
     \<and> hd_is_active h \<and> hd_device_type h = ty \<and> ensure_supported e (get_hardware_adapter h) h = ok \<and> f h = Inr y)"
  by (auto simp: usable_device_def res_simps split: option.splits)

lemma poll_Inr:
  assumes "poll_vendor_hardware_device e d h u = Inr (ev, d')"
  shows "\<exists>ty s r p. record_event e d h ty s r p = (ev, d')"
  using assms
  by (auto simp: poll_vendor_hardware_device_def res_simps Let_def split: sum.splits if_splits)

lemma dispenser_reading_Inr:
  "simulate_dispenser_reading e d data u = Inr (ev, d') \<Longrightarrow>
    \<exists>i h ty s r p. get_row hd_id (hardware_devices d) i = Some h \<and> record_event e d h ty s r p = (ev, d')"
  by (auto simp: simulate_dispenser_reading_def res_simps split: option.splits) blast+

lemma tank_reading_Inr:
  "simulate_tank_probe_reading e d data u = Inr (ev, d') \<Longrightarrow>
    \<exists>i h ty s r p. get_row hd_id (hardware_devices d) i = Some h \<and> record_event e d h ty s r p = (ev, d')"
  by (auto simp: simulate_tank_probe_reading_def res_simps split: option.splits) blast+

lemma create_device_ok:
  assumes "create_hardware_device e d data u = Inr (h, d')" "devices_ok d"
  shows "devices_ok d'"
proof -
  have v: "validate_device_payload d (hc_station_id data) (hc_device_type data) (Some (hc_integration_mode data))
             (Some (hc_status data)) (hc_dispenser_id data) (hc_tank_id data) = ok"
    "validate_vendor_configuration (hc_vendor_name data) (hc_protocol data) (hc_endpoint_url data)
             (hc_device_identifier data) (hc_device_type data) (Some (hc_integration_mode data)) = ok"
    using assms(1) by (simp_all add: create_hardware_device_def res_simps)
  have h: "hd_id h = next_id hd_id (hardware_devices d) \<and> hd_code h = hc_code data \<and> hd_device_type h = hc_device_type data
      \<and> hd_integration_mode h = hc_integration_mode data \<and> hd_status h = hc_status data
      \<and> hd_dispenser_id h = hc_dispenser_id data \<and> hd_tank_id h = hc_tank_id data \<and> hd_vendor_name h = hc_vendor_name data
      \<and> hd_device_identifier h = hc_device_identifier data \<and> hardware_devices d' = add_row h (hardware_devices d)
      \<and> hc_code data \<notin> hd_code ` set (hardware_devices d)"
    using assms(1) by (auto simp: create_hardware_device_def res_simps Let_def find_None_iff)
  have "device_wf h" by (rule validated_device [OF v]) (simp_all add: h)
  with h assms(2) show ?thesis by (simp add: devices_ok_def keyed_def add_row_def next_id_fresh)
qed

lemma update_device_ok:
  assumes "update_hardware_device e d h data u = Inr (h', d')" "devices_ok d" "get_row hd_id (hardware_devices d) i = Some h"
  shows "devices_ok d'"
proof -
  have v: "validate_device_payload d (hd_station_id h) (hd_device_type h)
            (assign (hu_integration_mode data) (Some (hd_integration_mode h)))
            (assign (hu_status data) (Some (hd_status h)))
            (assign (hu_dispenser_id data) (hd_dispenser_id h)) (assign (hu_tank_id data) (hd_tank_id h)) = ok"
    "validate_vendor_configuration (assign (hu_vendor_name data) (hd_vendor_name h))
            (assign (hu_protocol data) (hd_protocol h)) (assign (hu_endpoint_url data) (hd_endpoint_url h))
            (assign (hu_device_identifier data) (hd_device_identifier h)) (hd_device_type h)
            (assign (hu_integration_mode data) (Some (hd_integration_mode h))) = ok"
    and h': "h' = patched_device data h" "hardware_devices d' = put_row hd_id h' (hardware_devices d)"
    using assms(1) by (auto simp: update_hardware_device_def res_simps Let_def)
  have a: "assign p (Some x) = Some (assign_value p x)" if "assign p (Some x) \<in> Some ` S" for p :: "string option patch" and x S
    using that by (cases p) auto
  have "assign (hu_integration_mode data) (Some (hd_integration_mode h)) = Some (assign_value (hu_integration_mode data) (hd_integration_mode h))"
    "assign (hu_status data) (Some (hd_status h)) = Some (assign_value (hu_status data) (hd_status h))"
    using v(1) by (auto simp: validate_device_payload_def res_simps intro!: a split: if_split_asm)
  note w = validated_device [OF v [unfolded this]]
  have "device_wf h'" by (rule w) (simp_all add: h' patched_device_def)
  with assms(2,3) h' show ?thesis by (intro devices_put [of d i h h' d']) (simp_all add: patched_device_def)
qed

text \<open>
  C20. Every registered device stays usable: along every sequence of hardware requests, device codes are
  unique, and each device has a valid type, mode and status, is linked to what its type measures, and
  is configured for its vendor where it has one.
\<close>

theorem device_invariant:
  assumes "devices_ok d"
  shows "devices_ok (device_run steps d)"
proof -
  have "devices_ok d'" if ok: "devices_ok d" and r: "device_result e u a d = Inr d'" for e u a d d'
  proof (cases a)
    case (Create_Device data)
    with r ok show ?thesis by (auto simp: device_result_def create_device_def res_simps intro: create_device_ok)
  next
    case (Update_Device i data)
    with r ok show ?thesis by (auto simp: device_result_def update_device_def res_simps intro: update_device_ok)
  next
    case (Delete_Device i)
    with r ok show ?thesis
      by (auto simp: device_result_def delete_device_def res_simps devices_ok_def keyed_def del_row_def distinct_map_filter
          list_all_iff)
  next
    case (Poll_Device i)
    with r ok show ?thesis
      by (auto simp: device_result_def poll_vendor_device_def res_simps dest!: poll_Inr intro: record_event_ok)
  next
    case (Dispenser_Reading data)
    with r ok show ?thesis by (auto simp: device_result_def res_simps dest!: dispenser_reading_Inr intro: record_event_ok)
  next
    case (Tank_Reading data)
    with r ok show ?thesis by (auto simp: device_result_def res_simps dest!: tank_reading_Inr intro: record_event_ok)
  qed
  then show ?thesis
    unfolding device_run_def using assms
    by (intro fold_invariant [where Q = "\<lambda>_. True" and P = devices_ok]) (auto split: sum.split)
qed

section \<open>Polling a configured device\<close>

lemma configured_supported:
  assumes "device_wf h" "hd_integration_mode h = ''vendor_api''" "mock_mode e"
  shows "ensure_supported e (get_hardware_adapter h) h = ok"
  using assms by (auto simp: get_hardware_adapter_def ensure_vendor_supported_def device_wf_def)

lemma mock_fetch:
  assumes "device_wf h" "hd_integration_mode h = ''vendor_api''" "mock_mode e"
  shows "fetch_snapshot e (get_hardware_adapter h) h = Inr (mock_snapshot (get_hardware_adapter h) h)"
  using assms configured_supported [OF assms]
  by (cases "get_hardware_adapter h") (auto simp: get_hardware_adapter_def split: if_splits)

text \<open>What a mock snapshot carries for each type of device.\<close>

lemma mock_snapshot_fields:
  assumes "device_wf h" "hd_integration_mode h = ''vendor_api''"
  shows "jget (mock_snapshot (get_hardware_adapter h) h) ''status'' x = JStr ''received''"
    and "hd_device_type h = ''dispenser'' \<Longrightarrow>
      \<exists>m v. jget (mock_snapshot (get_hardware_adapter h) h) ''meter_reading'' x = JFloat m
        \<and> jget (mock_snapshot (get_hardware_adapter h) h) ''volume'' x = JFloat v"
    and "hd_device_type h = ''tank_probe'' \<Longrightarrow>
      \<exists>v t. jget (mock_snapshot (get_hardware_adapter h) h) ''tank_volume'' y = JFloat v
        \<and> jget (mock_snapshot (get_hardware_adapter h) h) ''temperature'' x = JFloat t"
  using assms
  by (auto simp: mock_snapshot_def get_hardware_adapter_def tank_snapshot_def dispenser_snapshot_def jget_def
      device_wf_def RECOGNIZED_VENDORS_def Let_def)

text \<open>
  C21. A configured device can be polled: without a live vendor service, a poll of an active vendor device
  by a user with access always succeeds; it records one event with the figure of the device's type
  and marks the device as online, seen now and without error.
\<close>

theorem configured_device_polls:
  assumes "devices_ok d" and "get_row hd_id (hardware_devices d) i = Some h" and "hd_integration_mode h = ''vendor_api''"
    and "hd_is_active h" and "mock_mode e" and "ensure_hardware_access h u = ok"
    and "require_permission u ''hardware'' ''read'' ''You do not have permission to inspect hardware devices'' = ok"
  shows "\<exists>ev d'. poll_vendor_device e d i u = Inr (ev, d') \<and> hardware_events d' = hardware_events d @ [ev]
    \<and> he_device_id ev = i \<and> he_status ev = ''received''
    \<and> (hd_device_type h = ''dispenser'' \<longrightarrow> he_meter_reading ev \<noteq> None \<and> he_dispenser_id ev = hd_dispenser_id h)
    \<and> (hd_device_type h = ''tank_probe'' \<longrightarrow> he_volume ev \<noteq> None \<and> he_tank_id ev = hd_tank_id h)
    \<and> get_row hd_id (hardware_devices d') i
        = Some (h\<lparr>hd_status := ''online'', hd_last_seen_at := Some (now e), hd_last_error := None\<rparr>)"
proof -
  have wf: "device_wf h" using assms(1,2) by (auto simp: devices_ok_def intro: all_get_row)
  let ?s = "mock_snapshot (get_hardware_adapter h) h"
  have i: "hd_id h = i" using get_row_Some [OF assms(2)] by simp
  have ev: "\<exists>ev d'. record_event e d h ty ''received'' r p = (ev, d') \<and> hardware_events d' = hardware_events d @ [ev]
      \<and> he_device_id ev = i \<and> he_status ev = ''received'' \<and> he_meter_reading ev = rd_meter_reading r
      \<and> he_dispenser_id ev = rd_dispenser_id r \<and> he_volume ev = rd_volume r \<and> he_tank_id ev = rd_tank_id r
      \<and> get_row hd_id (hardware_devices d') i
        = Some (h\<lparr>hd_status := ''online'', hd_last_seen_at := Some (now e), hd_last_error := None\<rparr>)" for ty r p
    using assms(2) i by (simp add: record_event_def Let_def event_row_def add_row_def get_put_row seen_device_def)
  have p: "poll_vendor_device e d i u = poll_vendor_hardware_device e d h u"
    using assms(2,7) by (simp add: poll_vendor_device_def with_device_def)
  from wf assms(3) consider "hd_device_type h = ''dispenser''" | "hd_device_type h = ''tank_probe''"
    by (auto simp: device_wf_def)
  then show ?thesis
  proof cases
    case 1
    with mock_snapshot_fields(2) [OF wf assms(3) 1, of JNull] mock_snapshot_fields(1) [OF wf assms(3)]
    obtain m v where "jget ?s ''meter_reading'' JNull = JFloat m" "jget ?s ''volume'' JNull = JFloat v"
      "jget ?s ''status'' (JStr ''received'') = JStr ''received''" by blast
    with 1 assms(4,6) mock_fetch [OF wf assms(3,5)]
    have "poll_vendor_hardware_device e d h u = Inr (record_event e d h ''vendor_dispenser_poll'' ''received''
        \<lparr>rd_dispenser_id = hd_dispenser_id h, rd_tank_id = None, rd_nozzle_id = None, rd_meter_reading = Some m,
         rd_volume = Some v, rd_temperature = None, rd_notes = json_text (jget ?s ''notes'' JNull)\<rparr> ?s)"
      by (simp add: poll_vendor_hardware_device_def validate_event_status_def VALID_EVENT_STATUSES_def to_float_def
          float_or_none_def status_text_def)
    with ev p 1 show ?thesis by fastforce
  next
    case 2
    with mock_snapshot_fields(3) [OF wf assms(3) 2, of "jget ?s ''volume'' JNull" JNull] mock_snapshot_fields(1) [OF wf assms(3)]
    obtain v t where "jget ?s ''tank_volume'' (jget ?s ''volume'' JNull) = JFloat v" "jget ?s ''temperature'' JNull = JFloat t"
      "jget ?s ''status'' (JStr ''received'') = JStr ''received''" by blast
    with 2 assms(4,6) mock_fetch [OF wf assms(3,5)]
    have "poll_vendor_hardware_device e d h u = Inr (record_event e d h ''vendor_tank_probe_poll'' ''received''
        \<lparr>rd_dispenser_id = None, rd_tank_id = hd_tank_id h, rd_nozzle_id = None, rd_meter_reading = None,
         rd_volume = Some v, rd_temperature = Some t, rd_notes = json_text (jget ?s ''notes'' JNull)\<rparr> ?s)"
      by (simp add: poll_vendor_hardware_device_def validate_event_status_def VALID_EVENT_STATUSES_def to_float_def
          float_or_none_def status_text_def)
    with ev p 2 show ?thesis by fastforce
  qed
qed

section \<open>Concrete checks\<close>

definition sample_probe :: device_create where
  "sample_probe = \<lparr>hc_name = ''Probe'', hc_code = ''PR1'', hc_device_type = ''tank_probe'', hc_vendor_name = Some '' OPW '',
     hc_integration_mode = ''vendor_api'', hc_protocol = None, hc_endpoint_url = None, hc_device_identifier = Some ''7'',
     hc_api_key = None, hc_status = ''offline'', hc_is_active = True, hc_station_id = 1, hc_dispenser_id = None,
     hc_tank_id = Some 1\<rparr>"

definition probe_db :: db where
  "probe_db = device_run [(sample_env, sample_admin, Create_Device sample_probe),
     (sample_env, sample_admin, Create_Device (sample_probe\<lparr>hc_code := ''PR2'', hc_tank_id := None\<rparr>))] sample_db"

theorem device_invariant_witness:
  "devices_ok probe_db \<and> map hd_code (hardware_devices probe_db) = [''PR1'']"
proof -
  have "devices_ok sample_db" by code_simp
  moreover have "map hd_code (hardware_devices probe_db) = [''PR1'']" by code_simp
  ultimately show ?thesis unfolding probe_db_def by (blast intro: device_invariant)
qed

theorem configured_device_polls_witness:
  "\<exists>ev d. poll_vendor_device sample_env probe_db 1 sample_admin = Inr (ev, d)
    \<and> map he_device_id (hardware_events d) = [1] \<and> he_volume ev \<noteq> None \<and> he_tank_id ev = Some 1"
proof -
  have "devices_ok probe_db" by code_simp
  moreover obtain h where "get_row hd_id (hardware_devices probe_db) 1 = Some h"
      "hd_integration_mode h = ''vendor_api''" "hd_is_active h" "hd_device_type h = ''tank_probe''" "hd_tank_id h = Some 1"
      "ensure_hardware_access h sample_admin = ok"
  proof -
    have "case get_row hd_id (hardware_devices probe_db) 1 of None \<Rightarrow> False | Some h \<Rightarrow>
        hd_integration_mode h = ''vendor_api'' \<and> hd_is_active h \<and> hd_device_type h = ''tank_probe'' \<and> hd_tank_id h = Some 1
        \<and> ensure_hardware_access h sample_admin = ok" by code_simp
    then show thesis using that by (auto split: option.splits)
  qed
  moreover have "mock_mode sample_env" by code_simp
  moreover have "require_permission sample_admin ''hardware'' ''read'' ''You do not have permission to inspect hardware devices'' = ok"
    by code_simp
  moreover have "hardware_events probe_db = []" by code_simp
  ultimately show ?thesis using configured_device_polls [of probe_db 1 _ sample_env sample_admin] by fastforce
qed

end
