(* ===== verification/Reports.thy ===== *)
theory Reports
  imports FeatureModules Notify "HOL-Library.Option_ord"
begin

text \<open>
  The management reports: \<open>app/services/reports.py\<close> and \<open>app/api/reports.py\<close>. A report is a pure
  function of the database; the route restricts its scope, then records the access in the audit trail.
  The aggregate \<open>SUM\<close> is computed by the database engine, in an order and with a rounding of its own: it is
  the parameter \<open>sum_of\<close>, applied to the values of the selected rows; over no row it is \<open>NULL\<close>, which the
  code reads as 0. Sums taken in Python are \<open>fsum\<close>.
\<close>

section \<open>Aggregates, scopes and orders\<close>

type_synonym aggregate = "pyfloat list \<Rightarrow> pyfloat"

definition sql_total :: "aggregate \<Rightarrow> pyfloat list \<Rightarrow> pyfloat" where
  \<comment> \<open>\<open>db.query(func.sum(column)).filter(...).scalar() or 0.0\<close>\<close>
  "sql_total sum_of values = (if values = [] then 0 else sum_of values)"

definition day_bounds :: "date \<Rightarrow> datetime \<times> datetime" where
  "day_bounds report_date = (days report_date, days report_date + days 1)"

definition in_scope :: "db \<Rightarrow> int option \<Rightarrow> int option \<Rightarrow> int \<Rightarrow> bool" where
  \<comment> \<open>the filter of every report on the station of a row: by station, else by a join on the organization's stations\<close>
  "in_scope d station_id organization_id row_station =
     (case station_id of Some s \<Rightarrow> row_station = s
      | None \<Rightarrow> (case organization_id of Some i \<Rightarrow> station_in d row_station (Some i) | None \<Rightarrow> True))"

definition tank_in_scope :: "db \<Rightarrow> int option \<Rightarrow> int option \<Rightarrow> int \<Rightarrow> bool" where
  \<comment> \<open>the same filter over a join on the tank, which only happens when there is a scope\<close>
  "tank_in_scope d station_id organization_id tank_id =
     (if station_id = None \<and> organization_id = None then True
      else case get_row tk_id (tanks d) tank_id of None \<Rightarrow> False
           | Some t \<Rightarrow> in_scope d station_id organization_id (tk_station_id t))"

definition in_window_opt :: "date option \<Rightarrow> date option \<Rightarrow> datetime option \<Rightarrow> bool" where
  \<comment> \<open>a comparison with a column that is \<open>NULL\<close> does not hold\<close>
  "in_window_opt from_date to_date t =
     (if from_date = None \<and> to_date = None then True
      else case t of None \<Rightarrow> False | Some x \<Rightarrow> in_window from_date to_date x)"

definition descending :: "('r \<Rightarrow> 'k::linorder) \<Rightarrow> 'r list \<Rightarrow> 'r list" where
  \<comment> \<open>\<open>order_by(key.desc())\<close>, equal keys in their previous order, \<open>NULL\<close> last\<close>
  "descending key t = rev (sort_key key (rev t))"

section \<open>The reports (\<open>services/reports.py\<close>)\<close>

record daily_closing =
  dc_report_date :: date
  dc_station_id :: "int option"
  dc_organization_id :: "int option"
  dc_fuel_cash_sales :: pyfloat
  dc_fuel_credit_sales :: pyfloat
  dc_pos_cash_sales :: pyfloat
  dc_customer_payments :: pyfloat
  dc_supplier_payments :: pyfloat
  dc_expenses :: pyfloat
  dc_cash_inflows :: pyfloat
  dc_cash_outflows :: pyfloat
  dc_net_cash_movement :: pyfloat

definition build_daily_closing_report ::
  "aggregate \<Rightarrow> db \<Rightarrow> int option \<Rightarrow> date \<Rightarrow> int option \<Rightarrow> daily_closing" where
  "build_daily_closing_report sum_of d station_id report_date organization_id =
     (let (start, finish) = day_bounds report_date;
          today = (\<lambda>t. start \<le> t \<and> t < finish);
          scope = in_scope d station_id organization_id;
          fuel = (\<lambda>kind. sql_total sum_of (map fs_total_amount (filter (\<lambda>s. fs_sale_type s = kind
                     \<and> \<not> is_reversed (fs_reversal s) \<and> today (fs_created_at s) \<and> scope (fs_station_id s)) (fuel_sales d))));
          fuel_cash_sales = fuel ''cash'';
          fuel_credit_sales = fuel ''credit'';
          pos_cash_sales = sql_total sum_of (map ps_total_amount (filter (\<lambda>s. ps_payment_method s = ''cash''
                     \<and> \<not> ps_is_reversed s \<and> today (ps_created_at s) \<and> scope (ps_station_id s)) (pos_sales d)));
          customer_paid = sql_total sum_of (map cp_amount (filter (\<lambda>p. \<not> is_reversed (cp_reversal p)
                     \<and> today (cp_created_at p) \<and> scope (cp_station_id p)) (customer_payments d)));
          supplier_paid = sql_total sum_of (map sp_amount (filter (\<lambda>p. \<not> is_reversed (sp_reversal p)
                     \<and> today (sp_created_at p) \<and> scope (sp_station_id p)) (supplier_payments d)));
          spent = sql_total sum_of (map ex_amount (filter (\<lambda>x. ex_status x = ''approved''
                     \<and> today (ex_created_at x) \<and> scope (ex_station_id x)) (expenses d)));
          cash_inflows = fadd (fadd fuel_cash_sales pos_cash_sales) customer_paid;
          cash_outflows = fadd supplier_paid spent
      in \<lparr>dc_report_date = report_date, dc_station_id = station_id, dc_organization_id = organization_id,
          dc_fuel_cash_sales = fround2 fuel_cash_sales, dc_fuel_credit_sales = fround2 fuel_credit_sales,
          dc_pos_cash_sales = fround2 pos_cash_sales, dc_customer_payments = fround2 customer_paid,
          dc_supplier_payments = fround2 supplier_paid, dc_expenses = fround2 spent,
          dc_cash_inflows = fround2 cash_inflows, dc_cash_outflows = fround2 cash_outflows,
          dc_net_cash_movement = fround2 (fsub cash_inflows cash_outflows)\<rparr>)"

record shift_item =
  si_shift_id :: int
  si_station_id :: int
  si_user_id :: int
  si_start_time :: datetime
  si_end_time :: "datetime option"
  si_initial_cash :: pyfloat
  si_expected_cash :: pyfloat
  si_actual_cash_collected :: pyfloat
  si_difference :: pyfloat

record shift_variance =
  sv_station_id :: "int option"
  sv_organization_id :: "int option"
  sv_count :: nat
  sv_total_variance :: pyfloat
  sv_items :: "shift_item list"

definition or_zero :: "pyfloat option \<Rightarrow> pyfloat" where
  \<comment> \<open>\<open>x or 0.0\<close>\<close>
  "or_zero x = (case x of None \<Rightarrow> 0 | Some v \<Rightarrow> v)"

definition shift_row :: "shift \<Rightarrow> shift_item" where
  "shift_row s = \<lparr>si_shift_id = sh_id s, si_station_id = sh_station_id s, si_user_id = sh_user_id s,
     si_start_time = sh_start_time s, si_end_time = sh_end_time s, si_initial_cash = fround2 (sh_initial_cash s),
     si_expected_cash = fround2 (sh_expected_cash s),
     si_actual_cash_collected = fround2 (or_zero (sh_actual_cash_collected s)),
     si_difference = fround2 (or_zero (sh_difference s))\<rparr>"

definition build_shift_variance_report ::
  "db \<Rightarrow> int option \<Rightarrow> date option \<Rightarrow> date option \<Rightarrow> int option \<Rightarrow> shift_variance" where
  "build_shift_variance_report d station_id from_date to_date organization_id =
     (let rows = descending sh_end_time (filter (\<lambda>s. sh_status s = ''closed''
                   \<and> in_scope d station_id organization_id (sh_station_id s)
                   \<and> in_window_opt from_date to_date (sh_end_time s)) (shifts d));
          items = map shift_row rows
      in \<lparr>sv_station_id = station_id, sv_organization_id = organization_id, sv_count = length items,
          sv_total_variance = fround2 (fsum (map si_difference items)), sv_items = items\<rparr>)"

record stock_item =
  ki_tank_id :: int
  ki_tank_name :: string
  ki_station_id :: int
  ki_fuel_type_id :: int
  ki_purchased_liters :: pyfloat
  ki_sold_liters :: pyfloat
  ki_net_movement_liters :: pyfloat
  ki_current_volume_liters :: pyfloat

record 'i listing =
  li_station_id :: "int option"
  li_organization_id :: "int option"
  li_count :: nat
  li_items :: "'i list"

definition listing_of :: "int option \<Rightarrow> int option \<Rightarrow> 'i list \<Rightarrow> 'i listing" where
  "listing_of station_id organization_id items =
     \<lparr>li_station_id = station_id, li_organization_id = organization_id, li_count = length items, li_items = items\<rparr>"

definition sale_tank :: "db \<Rightarrow> fuel_sale \<Rightarrow> int option" where
  \<comment> \<open>the join on \<open>Nozzle.id == FuelSale.nozzle_id\<close>\<close>
  "sale_tank d s = map_option nz_tank_id (get_row nz_id (nozzles d) (fs_nozzle_id s))"

definition stock_row :: "aggregate \<Rightarrow> db \<Rightarrow> date option \<Rightarrow> date option \<Rightarrow> tank \<Rightarrow> stock_item" where
  "stock_row sum_of d from_date to_date t =
     (let purchased = sql_total sum_of (map pu_quantity (filter (\<lambda>p. pu_tank_id p = tk_id t \<and> pu_status p = ''approved''
                        \<and> \<not> is_reversed (pu_reversal p) \<and> in_window from_date to_date (pu_created_at p)) (purchases d)));
          sold = sql_total sum_of (map fs_quantity (filter (\<lambda>s. sale_tank d s = Some (tk_id t)
                        \<and> \<not> is_reversed (fs_reversal s) \<and> in_window from_date to_date (fs_created_at s)) (fuel_sales d)))
      in \<lparr>ki_tank_id = tk_id t, ki_tank_name = tk_name t, ki_station_id = tk_station_id t,
          ki_fuel_type_id = tk_fuel_type_id t, ki_purchased_liters = fround2 purchased, ki_sold_liters = fround2 sold,
          ki_net_movement_liters = fround2 (fsub purchased sold), ki_current_volume_liters = fround2 (tk_current_volume t)\<rparr>)"

definition build_stock_movement_report ::
  "aggregate \<Rightarrow> db \<Rightarrow> int option \<Rightarrow> date option \<Rightarrow> date option \<Rightarrow> int option \<Rightarrow> stock_item listing" where
  "build_stock_movement_report sum_of d station_id from_date to_date organization_id =
     listing_of station_id organization_id
       (map (stock_row sum_of d from_date to_date)
          (sort_key tk_id (filter (\<lambda>t. in_scope d station_id organization_id (tk_station_id t)) (tanks d))))"

record customer_item =
  ci_customer_id :: int
  ci_customer_name :: string
  ci_station_id :: int
  ci_credit_limit :: pyfloat
  ci_outstanding_balance :: pyfloat

definition customer_row :: "customer \<Rightarrow> customer_item" where
  "customer_row c = \<lparr>ci_customer_id = cu_id c, ci_customer_name = cu_name c, ci_station_id = cu_station_id c,
     ci_credit_limit = fround2 (cu_credit_limit c), ci_outstanding_balance = fround2 (cu_outstanding_balance c)\<rparr>"

definition build_customer_balance_report :: "db \<Rightarrow> int option \<Rightarrow> int option \<Rightarrow> customer_item listing" where
  "build_customer_balance_report d station_id organization_id =
     listing_of station_id organization_id
       (map customer_row (filter (\<lambda>c. 0 < cu_outstanding_balance c)
          (sort_key cu_name (filter (\<lambda>c. in_scope d station_id organization_id (cu_station_id c)) (customers d)))))"

record supplier_item =
  ui_supplier_id :: int
  ui_supplier_name :: string
  ui_station_id :: "int option"
  ui_payable_balance :: pyfloat

definition supplier_purchases :: "db \<Rightarrow> int option \<Rightarrow> int option \<Rightarrow> purchase list" where
  "supplier_purchases d station_id organization_id =
     filter (\<lambda>p. \<not> is_reversed (pu_reversal p) \<and> pu_status p = ''approved''
               \<and> tank_in_scope d station_id organization_id (pu_tank_id p)) (purchases d)"

definition supplier_payments_in :: "db \<Rightarrow> int option \<Rightarrow> int option \<Rightarrow> supplier_payment list" where
  "supplier_payments_in d station_id organization_id =
     filter (\<lambda>p. \<not> is_reversed (sp_reversal p) \<and> in_scope d station_id organization_id (sp_station_id p)) (supplier_payments d)"

definition supplier_payable :: "aggregate \<Rightarrow> db \<Rightarrow> int option \<Rightarrow> int option \<Rightarrow> int \<Rightarrow> pyfloat" where
  \<comment> \<open>\<open>purchase_rows.get(supplier_id, 0.0) - payment_rows.get(supplier_id, 0.0)\<close>, the sums of the groups\<close>
  "supplier_payable sum_of d station_id organization_id i =
     fsub (sql_total sum_of (map pu_total_amount (filter (\<lambda>p. pu_supplier_id p = i) (supplier_purchases d station_id organization_id))))
          (sql_total sum_of (map sp_amount (filter (\<lambda>p. sp_supplier_id p = i) (supplier_payments_in d station_id organization_id))))"

definition build_supplier_balance_report :: "aggregate \<Rightarrow> db \<Rightarrow> int option \<Rightarrow> int option \<Rightarrow> supplier_item listing" where
  "build_supplier_balance_report sum_of d station_id organization_id =
     (let supplier_ids = sort (remdups (map pu_supplier_id (supplier_purchases d station_id organization_id)
                                        @ map sp_supplier_id (supplier_payments_in d station_id organization_id)));
          row = (\<lambda>i. case get_row su_id (suppliers d) i of None \<Rightarrow> []
                    | Some s \<Rightarrow> (let payable = supplier_payable sum_of d station_id organization_id i in
                        if 0 < payable then [\<lparr>ui_supplier_id = i, ui_supplier_name = su_name s, ui_station_id = station_id,
                           ui_payable_balance = fround2 payable\<rparr>] else []))
      in listing_of station_id organization_id (sort_key ui_supplier_name (concat (map row supplier_ids))))"

record trip_item =
  ti_trip_id :: int
  ti_station_id :: int
  ti_tanker_id :: int
  ti_trip_type :: string
  ti_status :: string
  ti_destination_name :: "string option"
  ti_completed_at :: "datetime option"
  ti_total_quantity :: pyfloat
  ti_fuel_revenue :: pyfloat
  ti_delivery_revenue :: pyfloat
  ti_expense_total :: pyfloat
  ti_net_profit :: pyfloat

record tanker_profit =
  tp_listing :: "trip_item listing"
  tp_total_fuel_revenue :: pyfloat
  tp_total_delivery_revenue :: pyfloat
  tp_total_expenses :: pyfloat
  tp_total_net_profit :: pyfloat

definition trip_row :: "tanker_trip \<Rightarrow> trip_item" where
  "trip_row t = \<lparr>ti_trip_id = tt_id t, ti_station_id = tt_station_id t, ti_tanker_id = tt_tanker_id t,
     ti_trip_type = tt_trip_type t, ti_status = tt_status t, ti_destination_name = tt_destination_name t,
     ti_completed_at = tt_completed_at t, ti_total_quantity = fround2 (tt_total_quantity t),
     ti_fuel_revenue = fround2 (tt_fuel_revenue t), ti_delivery_revenue = fround2 (tt_delivery_revenue t),
     ti_expense_total = fround2 (tt_expense_total t), ti_net_profit = fround2 (tt_net_profit t)\<rparr>"

definition sum_items :: "('i \<Rightarrow> pyfloat) \<Rightarrow> 'i list \<Rightarrow> pyfloat" where
  \<comment> \<open>\<open>round(sum(item[key] for item in items), 2)\<close>\<close>
  "sum_items key items = fround2 (fsum (map key items))"

definition build_tanker_profit_report ::
  "db \<Rightarrow> int option \<Rightarrow> date option \<Rightarrow> date option \<Rightarrow> int option \<Rightarrow> tanker_profit" where
  "build_tanker_profit_report d station_id from_date to_date organization_id =
     (let rows = descending tt_completed_at (descending tt_id (filter (\<lambda>t. tt_status t = ''completed''
                   \<and> in_scope d station_id organization_id (tt_station_id t)
                   \<and> in_window_opt from_date to_date (tt_completed_at t)) (tanker_trips d)));
          items = map trip_row rows
      in \<lparr>tp_listing = listing_of station_id organization_id items,
          tp_total_fuel_revenue = sum_items ti_fuel_revenue items,
          tp_total_delivery_revenue = sum_items ti_delivery_revenue items,
          tp_total_expenses = sum_items ti_expense_total items,
          tp_total_net_profit = sum_items ti_net_profit items\<rparr>)"

record delivery_item =
  di_delivery_id :: int
  di_trip_id :: int
  di_station_id :: int
  di_customer_id :: "int option"
  di_destination_name :: "string option"
  di_sale_type :: string
  di_quantity :: pyfloat
  di_fuel_amount :: pyfloat
  di_delivery_charge :: pyfloat
  di_paid_amount :: pyfloat
  di_outstanding_amount :: pyfloat
  di_created_at :: datetime

record tanker_delivery_report =
  dr_listing :: "delivery_item listing"
  dr_total_quantity :: pyfloat
  dr_fuel_revenue :: pyfloat
  dr_delivery_revenue :: pyfloat
  dr_cash_collected :: pyfloat
  dr_credit_outstanding :: pyfloat

definition joined_trip :: "db \<Rightarrow> ('r \<Rightarrow> int) \<Rightarrow> 'r list \<Rightarrow> ('r \<times> tanker_trip) list" where
  \<comment> \<open>the join on \<open>TankerTrip.id\<close>: a row whose trip is gone is left out\<close>
  "joined_trip d trip_id rows =
     List.map_filter (\<lambda>r. map_option (\<lambda>t. (r, t)) (get_row tt_id (tanker_trips d) (trip_id r))) rows"

definition delivery_row :: "tanker_delivery \<times> tanker_trip \<Rightarrow> delivery_item" where
  "delivery_row = (\<lambda>(x, t). \<lparr>di_delivery_id = de_id x, di_trip_id = de_trip_id x, di_station_id = tt_station_id t,
     di_customer_id = de_customer_id x, di_destination_name = de_destination_name x, di_sale_type = de_sale_type x,
     di_quantity = fround2 (de_quantity x), di_fuel_amount = fround2 (de_fuel_amount x),
     di_delivery_charge = fround2 (de_delivery_charge x), di_paid_amount = fround2 (de_paid_amount x),
     di_outstanding_amount = fround2 (de_outstanding_amount x), di_created_at = de_created_at x\<rparr>)"

definition build_tanker_delivery_report ::
  "db \<Rightarrow> int option \<Rightarrow> date option \<Rightarrow> date option \<Rightarrow> int option \<Rightarrow> tanker_delivery_report" where
  "build_tanker_delivery_report d station_id from_date to_date organization_id =
     (let rows = descending (de_created_at \<circ> fst) (descending (de_id \<circ> fst)
                   (filter (\<lambda>(x, t). in_scope d station_id organization_id (tt_station_id t)
                                   \<and> in_window from_date to_date (de_created_at x))
                     (joined_trip d de_trip_id (tanker_deliveries d))));
          items = map delivery_row rows
      in \<lparr>dr_listing = listing_of station_id organization_id items,
          dr_total_quantity = sum_items di_quantity items,
          dr_fuel_revenue = sum_items di_fuel_amount items,
          dr_delivery_revenue = sum_items di_delivery_charge items,
          dr_cash_collected = sum_items di_paid_amount items,
          dr_credit_outstanding = sum_items di_outstanding_amount items\<rparr>)"

record trip_expense_item =
  xi_expense_id :: int
  xi_trip_id :: int
  xi_station_id :: int
  xi_tanker_id :: int
  xi_expense_type :: string
  xi_amount :: pyfloat
  xi_notes :: "string option"
  xi_created_at :: datetime

record tanker_expense_report =
  xr_listing :: "trip_expense_item listing"
  xr_total_expenses :: pyfloat

definition trip_expense_row :: "tanker_trip_expense \<times> tanker_trip \<Rightarrow> trip_expense_item" where
  "trip_expense_row = (\<lambda>(x, t). \<lparr>xi_expense_id = te_id x, xi_trip_id = te_trip_id x, xi_station_id = tt_station_id t,
     xi_tanker_id = tt_tanker_id t, xi_expense_type = te_expense_type x, xi_amount = fround2 (te_amount x),
     xi_notes = te_notes x, xi_created_at = te_created_at x\<rparr>)"

definition build_tanker_expense_report ::
  "db \<Rightarrow> int option \<Rightarrow> date option \<Rightarrow> date option \<Rightarrow> int option \<Rightarrow> tanker_expense_report" where
  "build_tanker_expense_report d station_id from_date to_date organization_id =
     (let rows = descending (te_created_at \<circ> fst) (descending (te_id \<circ> fst)
                   (filter (\<lambda>(x, t). in_scope d station_id organization_id (tt_station_id t)
                                   \<and> in_window from_date to_date (te_created_at x))
                     (joined_trip d te_trip_id (trip_expenses d))));
          items = map trip_expense_row rows
      in \<lparr>xr_listing = listing_of station_id organization_id items, xr_total_expenses = sum_items xi_amount items\<rparr>)"

section \<open>The routes (\<open>api/reports.py\<close>)\<close>

definition resolve_report_scope ::
  "db \<Rightarrow> user \<Rightarrow> int option \<Rightarrow> int option \<Rightarrow> (int option \<times> int option) res" where
  "resolve_report_scope d u station_id organization_id =
     (if is_admin u then
        (case (station_id, organization_id) of
           (Some s, Some i) \<Rightarrow>
             if \<not> station_in d s (Some i) then http 403 ''Station does not belong to the requested organization''
             else Inr (station_id, organization_id)
         | _ \<Rightarrow> Inr (station_id, organization_id))
      else if is_head_office_user u then
        (case get_user_organization_id d u of
           None \<Rightarrow> http 403 ''Head office user must belong to an organization''
         | Some i \<Rightarrow>
             (case station_id of
                Some s \<Rightarrow> if \<not> station_in d s (Some i) then http 403 ''Station does not belong to your organization''
                           else Inr (station_id, Some i)
              | None \<Rightarrow> Inr (None, Some i)))
      else Inr (u_station_id u, get_user_organization_id d u))"

definition report_route ::
  "env \<Rightarrow> db \<Rightarrow> user \<Rightarrow> int option \<Rightarrow> int option \<Rightarrow> string \<Rightarrow> jobject
     \<Rightarrow> (int option \<Rightarrow> int option \<Rightarrow> 'r) \<Rightarrow> ('r \<times> db) res" where
  \<comment> \<open>the steps that the eight routes share\<close>
  "report_route e d u station_id organization_id action details build =
     check (require_permission u ''reports'' ''read'' ''You do not have permission to view reports'')
     (case resolve_report_scope d u station_id organization_id of
        Inl x \<Rightarrow> Inl x
      | Inr (s, i) \<Rightarrow> Inr (build s i, audit e u ''reports'' action ''report'' None s (details @ [(''organization_id'', jint i)]) d))"

definition jday :: "date option \<Rightarrow> jval" where
  "jday x = (case x of None \<Rightarrow> JNull | Some t \<Rightarrow> JText [Day t])"

definition window_details :: "date option \<Rightarrow> date option \<Rightarrow> jobject" where
  "window_details from_date to_date = [(''from_date'', jday from_date), (''to_date'', jday to_date)]"

definition daily_closing_report ::
  "aggregate \<Rightarrow> env \<Rightarrow> db \<Rightarrow> user \<Rightarrow> date \<Rightarrow> int option \<Rightarrow> int option \<Rightarrow> (daily_closing \<times> db) res" where
  "daily_closing_report sum_of e d u report_date station_id organization_id =
     report_route e d u station_id organization_id ''reports.daily_closing'' [(''report_date'', JText [Day report_date])]
       (\<lambda>s i. build_daily_closing_report sum_of d s report_date i)"

definition shift_variance_report ::
  "env \<Rightarrow> db \<Rightarrow> user \<Rightarrow> int option \<Rightarrow> int option \<Rightarrow> date option \<Rightarrow> date option \<Rightarrow> (shift_variance \<times> db) res" where
  "shift_variance_report e d u station_id organization_id from_date to_date =
     report_route e d u station_id organization_id ''reports.shift_variance'' (window_details from_date to_date)
       (\<lambda>s i. build_shift_variance_report d s from_date to_date i)"

definition stock_movement_report ::
  "aggregate \<Rightarrow> env \<Rightarrow> db \<Rightarrow> user \<Rightarrow> int option \<Rightarrow> int option \<Rightarrow> date option \<Rightarrow> date option
     \<Rightarrow> (stock_item listing \<times> db) res" where
  "stock_movement_report sum_of e d u station_id organization_id from_date to_date =
     report_route e d u station_id organization_id ''reports.stock_movement'' (window_details from_date to_date)
       (\<lambda>s i. build_stock_movement_report sum_of d s from_date to_date i)"

definition customer_balance_report ::
  "env \<Rightarrow> db \<Rightarrow> user \<Rightarrow> int option \<Rightarrow> int option \<Rightarrow> (customer_item listing \<times> db) res" where
  "customer_balance_report e d u station_id organization_id =
     report_route e d u station_id organization_id ''reports.customer_balances'' []
       (\<lambda>s i. build_customer_balance_report d s i)"

definition supplier_balance_report ::
  "aggregate \<Rightarrow> env \<Rightarrow> db \<Rightarrow> user \<Rightarrow> int option \<Rightarrow> int option \<Rightarrow> (supplier_item listing \<times> db) res" where
  "supplier_balance_report sum_of e d u station_id organization_id =
     report_route e d u station_id organization_id ''reports.supplier_balances'' []
       (\<lambda>s i. build_supplier_balance_report sum_of d s i)"

definition tanker_profit_report ::
  "env \<Rightarrow> db \<Rightarrow> user \<Rightarrow> int option \<Rightarrow> int option \<Rightarrow> date option \<Rightarrow> date option \<Rightarrow> (tanker_profit \<times> db) res" where
  "tanker_profit_report e d u station_id organization_id from_date to_date =
     report_route e d u station_id organization_id ''reports.tanker_profit'' (window_details from_date to_date)
       (\<lambda>s i. build_tanker_profit_report d s from_date to_date i)"

definition route_tanker_delivery_report ::
  "env \<Rightarrow> db \<Rightarrow> user \<Rightarrow> int option \<Rightarrow> int option \<Rightarrow> date option \<Rightarrow> date option \<Rightarrow> (tanker_delivery_report \<times> db) res" where
  "route_tanker_delivery_report e d u station_id organization_id from_date to_date =
     report_route e d u station_id organization_id ''reports.tanker_deliveries'' (window_details from_date to_date)
       (\<lambda>s i. build_tanker_delivery_report d s from_date to_date i)"

definition route_tanker_expense_report ::
  "env \<Rightarrow> db \<Rightarrow> user \<Rightarrow> int option \<Rightarrow> int option \<Rightarrow> date option \<Rightarrow> date option \<Rightarrow> (tanker_expense_report \<times> db) res" where
  "route_tanker_expense_report e d u station_id organization_id from_date to_date =
     report_route e d u station_id organization_id ''reports.tanker_expenses'' (window_details from_date to_date)
       (\<lambda>s i. build_tanker_expense_report d s from_date to_date i)"
section \<open>What a head office user can see\<close>

lemma get_row_filter:
  assumes "keyed key t"
  shows "get_row key (filter Q t) i = (case get_row key t i of None \<Rightarrow> None | Some r \<Rightarrow> if Q r then Some r else None)"
  using assms
proof (induction t)
  case (Cons x t)
  then have "get_row key t (key x) = None" "get_row key (filter Q t) (key x) = None"
    by (auto simp: keyed_def get_row_None)
  with Cons show ?case by (auto simp: get_row_Cons keyed_def split: option.splits)
qed simp

definition own_trip :: "db \<Rightarrow> int \<Rightarrow> int \<Rightarrow> bool" where
  "own_trip d i k = (case get_row tt_id (tanker_trips d) k of None \<Rightarrow> False | Some t \<Rightarrow> station_in d (tt_station_id t) (Some i))"

definition own_sale :: "db \<Rightarrow> int \<Rightarrow> fuel_sale \<Rightarrow> bool" where
  \<comment> \<open>a sale at a station of the organization, or out of one of its tanks: nothing makes the station of a nozzle the station of
      its tank\<close>
  "own_sale d i s \<longleftrightarrow> station_in d (fs_station_id s) (Some i)
     \<or> (case sale_tank d s of None \<Rightarrow> False | Some k \<Rightarrow> tank_in_scope d None (Some i) k)"

definition only_organization :: "int \<Rightarrow> db \<Rightarrow> db" where
  \<comment> \<open>the database without the business of the other organizations\<close>
  "only_organization i d =
     (let own = (\<lambda>k. station_in d k (Some i)) in
      d\<lparr>fuel_sales := filter (own_sale d i) (fuel_sales d), pos_sales := filter (own \<circ> ps_station_id) (pos_sales d),
        customer_payments := filter (own \<circ> cp_station_id) (customer_payments d),
        supplier_payments := filter (own \<circ> sp_station_id) (supplier_payments d),
        expenses := filter (own \<circ> ex_station_id) (expenses d), shifts := filter (own \<circ> sh_station_id) (shifts d),
        customers := filter (own \<circ> cu_station_id) (customers d), tanks := filter (own \<circ> tk_station_id) (tanks d),
        tanker_trips := filter (own \<circ> tt_station_id) (tanker_trips d),
        tanker_deliveries := filter (own_trip d i \<circ> de_trip_id) (tanker_deliveries d),
        trip_expenses := filter (own_trip d i \<circ> te_trip_id) (trip_expenses d),
        purchases := filter (\<lambda>p. tank_in_scope d None (Some i) (pu_tank_id p)) (purchases d)\<rparr>)"

lemma only_organization_tables [simp]:
  "stations (only_organization i d) = stations d" "suppliers (only_organization i d) = suppliers d"
  "nozzles (only_organization i d) = nozzles d"
  by (simp_all add: only_organization_def Let_def)

definition scope_allowed :: "db \<Rightarrow> int option \<Rightarrow> int \<Rightarrow> bool" where
  "scope_allowed d station_id i \<longleftrightarrow> (case station_id of None \<Rightarrow> True | Some s \<Rightarrow> station_in d s (Some i))"

lemma in_scope_only [simp]: "in_scope (only_organization i d) = in_scope d"
  by (intro ext) (simp add: in_scope_def station_in_def split: option.splits)

lemma in_scope_own: "scope_allowed d s i \<Longrightarrow> in_scope d s (Some i) k \<Longrightarrow> station_in d k (Some i)"
  by (auto simp: scope_allowed_def in_scope_def split: option.splits)

lemma filter_own:
  assumes "scope_allowed d s i" "\<And>x. P x \<Longrightarrow> in_scope d s (Some i) (k x)"
  shows "filter P (filter (\<lambda>x. station_in d (k x) (Some i)) t) = filter P t"
proof -
  have "P x \<Longrightarrow> station_in d (k x) (Some i)" for x using in_scope_own [OF assms(1)] assms(2) by blast
  then show ?thesis by (simp add: filter_filter conj_commute) (metis (mono_tags, lifting) filter_cong)
qed

lemma filter_own_rows:
  assumes "scope_allowed d s i"
  shows "filter (\<lambda>x. in_scope d s (Some i) (k x)) (filter (\<lambda>x. station_in d (k x) (Some i)) t)
      = filter (\<lambda>x. in_scope d s (Some i) (k x)) t"
    and "filter (\<lambda>x. A x \<and> in_scope d s (Some i) (k x)) (filter (\<lambda>x. station_in d (k x) (Some i)) t)
      = filter (\<lambda>x. A x \<and> in_scope d s (Some i) (k x)) t"
    and "filter (\<lambda>x. A x \<and> B x \<and> in_scope d s (Some i) (k x)) (filter (\<lambda>x. station_in d (k x) (Some i)) t)
      = filter (\<lambda>x. A x \<and> B x \<and> in_scope d s (Some i) (k x)) t"
    and "filter (\<lambda>x. A x \<and> B x \<and> C x \<and> in_scope d s (Some i) (k x)) (filter (\<lambda>x. station_in d (k x) (Some i)) t)
      = filter (\<lambda>x. A x \<and> B x \<and> C x \<and> in_scope d s (Some i) (k x)) t"
    and "filter (\<lambda>x. A x \<and> in_scope d s (Some i) (k x) \<and> B x) (filter (\<lambda>x. station_in d (k x) (Some i)) t)
      = filter (\<lambda>x. A x \<and> in_scope d s (Some i) (k x) \<and> B x) t"
  by (rule filter_own [OF assms], blast)+

lemma filter_own_sales:
  assumes "scope_allowed d s i"
  shows "filter (\<lambda>x. A x \<and> B x \<and> C x \<and> in_scope d s (Some i) (fs_station_id x)) (filter (own_sale d i) t)
      = filter (\<lambda>x. A x \<and> B x \<and> C x \<and> in_scope d s (Some i) (fs_station_id x)) t"
  unfolding filter_filter using in_scope_own [OF assms] by (intro filter_cong) (auto simp: own_sale_def)

locale scoped_report =
  fixes build :: "db \<Rightarrow> int option \<Rightarrow> int option \<Rightarrow> 'r" and wf :: "db \<Rightarrow> bool"
  assumes own_rows: "wf d \<Longrightarrow> scope_allowed d s i \<Longrightarrow> build d s (Some i) = build (only_organization i d) s (Some i)"
begin

lemma confined:
  assumes "report_route e d u station_id organization_id action details (build d) = Inr (r, d')"
    and "\<not> is_admin u" "is_head_office_user u" "get_user_organization_id d u = Some i" "wf d"
  shows "r = build (only_organization i d) station_id (Some i)"
proof -
  from assms(1-4) have "r = build d station_id (Some i)" "scope_allowed d station_id i"
    by (auto simp: report_route_def resolve_report_scope_def res_simps scope_allowed_def split: option.splits if_splits)
  with own_rows [OF assms(5)] show ?thesis by metis
qed

end

lemma only_organization_rows:
  "fuel_sales (only_organization i d) = filter (own_sale d i) (fuel_sales d)"
  "tanker_deliveries (only_organization i d) = filter (\<lambda>x. own_trip d i (de_trip_id x)) (tanker_deliveries d)"
  "trip_expenses (only_organization i d) = filter (\<lambda>x. own_trip d i (te_trip_id x)) (trip_expenses d)"
  "pos_sales (only_organization i d) = filter (\<lambda>x. station_in d (ps_station_id x) (Some i)) (pos_sales d)"
  "customer_payments (only_organization i d) = filter (\<lambda>x. station_in d (cp_station_id x) (Some i)) (customer_payments d)"
  "supplier_payments (only_organization i d) = filter (\<lambda>x. station_in d (sp_station_id x) (Some i)) (supplier_payments d)"
  "expenses (only_organization i d) = filter (\<lambda>x. station_in d (ex_station_id x) (Some i)) (expenses d)"
  "shifts (only_organization i d) = filter (\<lambda>x. station_in d (sh_station_id x) (Some i)) (shifts d)"
  "customers (only_organization i d) = filter (\<lambda>x. station_in d (cu_station_id x) (Some i)) (customers d)"
  "tanks (only_organization i d) = filter (\<lambda>x. station_in d (tk_station_id x) (Some i)) (tanks d)"
  "tanker_trips (only_organization i d) = filter (\<lambda>x. station_in d (tt_station_id x) (Some i)) (tanker_trips d)"
  "purchases (only_organization i d) = filter (\<lambda>p. tank_in_scope d None (Some i) (pu_tank_id p)) (purchases d)"
  by (simp_all add: only_organization_def Let_def comp_def)

interpretation daily_closing: scoped_report "\<lambda>d s i. build_daily_closing_report sum_of d s day i" "\<lambda>d. True" for sum_of day
proof
  fix d s i
  assume ok: "scope_allowed d s i"
  show "build_daily_closing_report sum_of d s day (Some i) = build_daily_closing_report sum_of (only_organization i d) s day (Some i)"
    unfolding build_daily_closing_report_def only_organization_rows in_scope_only
    by (simp add: filter_own_rows [OF ok] filter_own_sales [OF ok] Let_def split_def del: filter_filter)
qed

interpretation shift_variance: scoped_report "\<lambda>d s i. build_shift_variance_report d s t1 t2 i" "\<lambda>d. True" for t1 t2
proof
  fix d s i
  assume ok: "scope_allowed d s i"
  show "build_shift_variance_report d s t1 t2 (Some i) = build_shift_variance_report (only_organization i d) s t1 t2 (Some i)"
    unfolding build_shift_variance_report_def only_organization_rows in_scope_only
    by (simp add: filter_own_rows [OF ok] Let_def split_def del: filter_filter)
qed

interpretation customer_balances: scoped_report build_customer_balance_report "\<lambda>d. True"
proof
  fix d s i
  assume ok: "scope_allowed d s i"
  show "build_customer_balance_report d s (Some i) = build_customer_balance_report (only_organization i d) s (Some i)"
    unfolding build_customer_balance_report_def only_organization_rows in_scope_only
    by (simp add: filter_own_rows [OF ok] Let_def split_def del: filter_filter)
qed

interpretation tanker_profit: scoped_report "\<lambda>d s i. build_tanker_profit_report d s t1 t2 i" "\<lambda>d. True" for t1 t2
proof
  fix d s i
  assume ok: "scope_allowed d s i"
  show "build_tanker_profit_report d s t1 t2 (Some i) = build_tanker_profit_report (only_organization i d) s t1 t2 (Some i)"
    unfolding build_tanker_profit_report_def only_organization_rows in_scope_only
    by (simp add: filter_own_rows [OF ok] Let_def split_def del: filter_filter)
qed

lemma tank_in_scope_only:
  assumes "keyed tk_id (tanks d)" "scope_allowed d s i"
  shows "tank_in_scope (only_organization i d) s (Some i) k = tank_in_scope d s (Some i) k"
    and "tank_in_scope d s (Some i) k \<Longrightarrow> tank_in_scope d None (Some i) k"
proof -
  have G: "get_row tk_id (tanks (only_organization i d)) k
      = (case get_row tk_id (tanks d) k of None \<Rightarrow> None | Some t \<Rightarrow> if station_in d (tk_station_id t) (Some i) then Some t else None)"
    unfolding only_organization_rows by (rule get_row_filter [OF assms(1)])
  show "tank_in_scope (only_organization i d) s (Some i) k = tank_in_scope d s (Some i) k"
    using in_scope_own [OF assms(2)] by (auto simp: tank_in_scope_def G split: option.splits)
  show "tank_in_scope d s (Some i) k \<Longrightarrow> tank_in_scope d None (Some i) k"
    using in_scope_own [OF assms(2)] by (auto simp: tank_in_scope_def in_scope_def split: option.splits)
qed

interpretation supplier_balances: scoped_report "build_supplier_balance_report sum_of" "\<lambda>d. keyed tk_id (tanks d)" for sum_of
proof
  fix d s i
  assume wf: "keyed tk_id (tanks d)" and ok: "scope_allowed d s i"
  note T = tank_in_scope_only [OF wf ok]
  have P: "supplier_purchases (only_organization i d) s (Some i) = supplier_purchases d s (Some i)"
    unfolding supplier_purchases_def only_organization_rows T(1) filter_filter using T(2) by (intro filter_cong) auto
  have Q: "supplier_payments_in (only_organization i d) s (Some i) = supplier_payments_in d s (Some i)"
    unfolding supplier_payments_in_def only_organization_rows in_scope_only filter_own_rows [OF ok] ..
  show "build_supplier_balance_report sum_of d s (Some i) = build_supplier_balance_report sum_of (only_organization i d) s (Some i)"
    unfolding build_supplier_balance_report_def supplier_payable_def P Q by simp
qed

interpretation stock_movement: scoped_report "\<lambda>d s i. build_stock_movement_report sum_of d s t1 t2 i" "\<lambda>d. keyed tk_id (tanks d)"
  for sum_of t1 t2
proof
  fix d s i
  assume wf: "keyed tk_id (tanks d)" and ok: "scope_allowed d s i"
  let ?ts = "sort_key tk_id (filter (\<lambda>t. in_scope d s (Some i) (tk_station_id t)) (tanks d))"
  have "stock_row sum_of (only_organization i d) t1 t2 t = stock_row sum_of d t1 t2 t" if "t \<in> set ?ts" for t
  proof -
    from that have t: "t \<in> set (tanks d)" "in_scope d s (Some i) (tk_station_id t)" by auto
    then have "get_row tk_id (tanks d) (tk_id t) = Some t" using wf by (intro table.get_complete)
    moreover have "station_in d (tk_station_id t) (Some i)" using in_scope_own [OF ok t(2)] .
    ultimately have own: "tank_in_scope d None (Some i) (tk_id t)" by (simp add: tank_in_scope_def in_scope_def)
    have tank: "sale_tank (only_organization i d) = sale_tank d" by (simp add: fun_eq_iff sale_tank_def)
    have "filter (\<lambda>p. pu_tank_id p = tk_id t \<and> A p) (purchases (only_organization i d)) = filter (\<lambda>p. pu_tank_id p = tk_id t \<and> A p) (purchases d)" for A
      unfolding only_organization_rows filter_filter using own by (intro filter_cong) auto
    moreover have "filter (\<lambda>x. sale_tank d x = Some (tk_id t) \<and> A x) (fuel_sales (only_organization i d))
        = filter (\<lambda>x. sale_tank d x = Some (tk_id t) \<and> A x) (fuel_sales d)" for A
      unfolding only_organization_rows filter_filter using own by (intro filter_cong) (auto simp: own_sale_def)
    ultimately show ?thesis unfolding stock_row_def tank by simp
  qed
  then have rows: "map (stock_row sum_of d t1 t2) ?ts = map (stock_row sum_of (only_organization i d) t1 t2) ?ts" by simp
  show "build_stock_movement_report sum_of d s t1 t2 (Some i) = build_stock_movement_report sum_of (only_organization i d) s t1 t2 (Some i)"
    unfolding build_stock_movement_report_def only_organization_rows(10) in_scope_only filter_own_rows(1) [OF ok] rows ..
qed

lemma joined_own_trips:
  assumes "keyed tt_id (tanker_trips d)" "scope_allowed d s i"
  shows "filter (\<lambda>(x, t). in_scope d s (Some i) (tt_station_id t) \<and> A x)
           (joined_trip (only_organization i d) k (filter (\<lambda>x. own_trip d i (k x)) rows))
    = filter (\<lambda>(x, t). in_scope d s (Some i) (tt_station_id t) \<and> A x) (joined_trip d k rows)"
proof (induction rows)
  case Nil
  then show ?case by (simp add: joined_trip_def)
next
  case (Cons x rows)
  have G: "get_row tt_id (tanker_trips (only_organization i d)) j
      = (case get_row tt_id (tanker_trips d) j of None \<Rightarrow> None | Some t \<Rightarrow> if station_in d (tt_station_id t) (Some i) then Some t else None)" for j
    unfolding only_organization_rows by (rule get_row_filter [OF assms(1)])
  show ?case
  proof (cases "get_row tt_id (tanker_trips d) (k x)")
    case None
    with Cons show ?thesis by (simp add: joined_trip_def own_trip_def List.map_filter_simps)
  next
    case (Some t)
    with Cons G [of "k x"] in_scope_own [OF assms(2), of "tt_station_id t"] show ?thesis
      by (cases "station_in d (tt_station_id t) (Some i)") (auto simp: joined_trip_def own_trip_def List.map_filter_simps)
  qed
qed

interpretation tanker_delivery: scoped_report "\<lambda>d s i. build_tanker_delivery_report d s t1 t2 i" "\<lambda>d. keyed tt_id (tanker_trips d)"
  for t1 t2
proof
  fix d s i
  assume wf: "keyed tt_id (tanker_trips d)" and ok: "scope_allowed d s i"
  show "build_tanker_delivery_report d s t1 t2 (Some i) = build_tanker_delivery_report (only_organization i d) s t1 t2 (Some i)"
    unfolding build_tanker_delivery_report_def in_scope_only only_organization_rows(2) joined_own_trips [OF wf ok] ..
qed

interpretation tanker_expense: scoped_report "\<lambda>d s i. build_tanker_expense_report d s t1 t2 i" "\<lambda>d. keyed tt_id (tanker_trips d)"
  for t1 t2
proof
  fix d s i
  assume wf: "keyed tt_id (tanker_trips d)" and ok: "scope_allowed d s i"
  show "build_tanker_expense_report d s t1 t2 (Some i) = build_tanker_expense_report (only_organization i d) s t1 t2 (Some i)"
    unfolding build_tanker_expense_report_def in_scope_only only_organization_rows(3) joined_own_trips [OF wf ok] ..
qed

text \<open>C22. Each of the eight reports that a head office user gets, whatever station and organization the request names, is
  the report of the database without the business of the other organizations: without their payments, expenses, shifts, customers, tanks
  and purchases, their trips with deliveries and expenses, and the sales that are neither at a station of the user's organization nor out of
  one of its tanks. So a report tells nothing about another organization.\<close>

theorem head_office_reports_confined:
  assumes "\<not> is_admin u" "is_head_office_user u" "get_user_organization_id d u = Some i"
    and "keyed tk_id (tanks d)" "keyed tt_id (tanker_trips d)"
  shows "(daily_closing_report sum_of e d u day station_id organization_id = Inr (r1, d1)
            \<longrightarrow> r1 = build_daily_closing_report sum_of (only_organization i d) station_id day (Some i))
    \<and> (shift_variance_report e d u station_id organization_id t1 t2 = Inr (r2, d2)
            \<longrightarrow> r2 = build_shift_variance_report (only_organization i d) station_id t1 t2 (Some i))
    \<and> (customer_balance_report e d u station_id organization_id = Inr (r3, d3)
            \<longrightarrow> r3 = build_customer_balance_report (only_organization i d) station_id (Some i))
    \<and> (supplier_balance_report sum_of e d u station_id organization_id = Inr (r4, d4)
            \<longrightarrow> r4 = build_supplier_balance_report sum_of (only_organization i d) station_id (Some i))
    \<and> (tanker_profit_report e d u station_id organization_id t1 t2 = Inr (r5, d5)
            \<longrightarrow> r5 = build_tanker_profit_report (only_organization i d) station_id t1 t2 (Some i))
    \<and> (stock_movement_report sum_of e d u station_id organization_id t1 t2 = Inr (r6, d6)
            \<longrightarrow> r6 = build_stock_movement_report sum_of (only_organization i d) station_id t1 t2 (Some i))
    \<and> (route_tanker_delivery_report e d u station_id organization_id t1 t2 = Inr (r7, d7)
            \<longrightarrow> r7 = build_tanker_delivery_report (only_organization i d) station_id t1 t2 (Some i))
    \<and> (route_tanker_expense_report e d u station_id organization_id t1 t2 = Inr (r8, d8)
            \<longrightarrow> r8 = build_tanker_expense_report (only_organization i d) station_id t1 t2 (Some i))"
  using daily_closing.confined [OF _ assms(1-3) TrueI, of e station_id organization_id]
    shift_variance.confined [OF _ assms(1-3) TrueI, of e station_id organization_id]
    customer_balances.confined [OF _ assms(1-3) TrueI, of e station_id organization_id]
    supplier_balances.confined [OF _ assms(1-4), of e station_id organization_id]
    tanker_profit.confined [OF _ assms(1-3) TrueI, of e station_id organization_id]
    stock_movement.confined [OF _ assms(1-4), of e station_id organization_id]
    tanker_delivery.confined [OF _ assms(1-3,5), of e station_id organization_id]
    tanker_expense.confined [OF _ assms(1-3,5), of e station_id organization_id]
  unfolding daily_closing_report_def shift_variance_report_def customer_balance_report_def supplier_balance_report_def
    tanker_profit_report_def stock_movement_report_def route_tanker_delivery_report_def route_tanker_expense_report_def
  by (intro conjI impI) blast+

definition sample_report_db :: db where
  \<comment> \<open>a second organization with a station and an approved expense of its own\<close>
  "sample_report_db = (let x = \<lparr>ex_id = 1, ex_title = ''Rent'', ex_category = ''rent'', ex_amount = 300, ex_notes = None, ex_station_id = 1,
       ex_status = ''approved'', ex_submitted_by_user_id = None, ex_approved_by_user_id = None, ex_approved_at = None,
       ex_rejected_at = None, ex_rejection_reason = None, ex_created_at = 5\<rparr> in
     sample_db\<lparr>stations := [sample_station, sample_station\<lparr>st_id := 2, st_organization_id := Some 2\<rparr>],
       expenses := [x, x\<lparr>ex_id := 2, ex_station_id := 2, ex_amount := 700\<rparr>]\<rparr>)"

theorem head_office_reports_confined_witness:
  "\<exists>d1. daily_closing_report fsum sample_env sample_report_db sample_head_office 0 None (Some 2)
     = Inr (build_daily_closing_report fsum (only_organization 1 sample_report_db) None 0 (Some 1), d1)"
proof -
  let ?r = "daily_closing_report fsum sample_env sample_report_db sample_head_office 0 None (Some 2)"
  have u: "\<not> is_admin sample_head_office" "is_head_office_user sample_head_office"
     "get_user_organization_id sample_report_db sample_head_office = Some 1" "keyed tk_id (tanks sample_report_db)"
     "keyed tt_id (tanker_trips sample_report_db)"
    by code_simp+
  have "require_permission sample_head_office ''reports'' ''read'' x = ok" for x by (simp add: res_simps) code_simp
  with u obtain r1 d1 where R: "?r = Inr (r1, d1)"
    by (simp add: daily_closing_report_def report_route_def resolve_report_scope_def)
  with head_office_reports_confined [OF u, of fsum sample_env 0 None "Some 2" r1 d1] show ?thesis by blast
qed

end
