(* ===== verification/Dashboard.thy ===== *)
theory Dashboard
  imports Reports
begin

text \<open>
  \<open>app/api/dashboard.py\<close> and \<open>app/api/accounting.py\<close>: the figures of the dashboard and the profit summary.
  A station or organization id of 0 is not a filter here (\<open>if station_id:\<close>), unlike in the reports.
\<close>

section \<open>Dashboard\<close>

definition truthy_id :: "int option \<Rightarrow> int option" where
  "truthy_id x = (if x = Some 0 then None else x)"

definition dashboard_scope :: "db \<Rightarrow> user \<Rightarrow> int option \<Rightarrow> int option \<Rightarrow> (int option \<times> int option) res" where
  "dashboard_scope d u station_id organization_id =
     (if is_admin u then
        (case (station_id, organization_id) of
           (Some s, Some i) \<Rightarrow>
             if \<not> station_in d s (Some i) then http 403 ''Station does not belong to the requested organization''
             else Inr (station_id, organization_id)
         | _ \<Rightarrow> Inr (station_id, organization_id))
      else if is_head_office_user u then
        (case get_user_organization_id d u of
           None \<Rightarrow> http 403 ''Head office user must belong to an organization''
         | Some i \<Rightarrow>
             (case station_id of
                Some s \<Rightarrow> if \<not> station_in d s (Some i) then http 403 ''Not authorized for this station''
                           else Inr (station_id, Some i)
              | None \<Rightarrow> Inr (None, Some i)))
      else Inr (u_station_id u, get_user_organization_id d u))"

record low_stock_alert =
  la_tank_id :: int
  la_tank_name :: string
  la_current_volume :: pyfloat
  la_threshold :: pyfloat
  la_fuel_type :: string

record credit_alert =
  ca_customer_id :: int
  ca_customer_name :: string
  ca_outstanding_balance :: pyfloat
  ca_credit_limit :: pyfloat
  ca_usage_percentage :: pyfloat

record dashboard_sales =
  sl_total :: pyfloat
  sl_cash :: pyfloat
  sl_credit :: pyfloat
  sl_count :: nat

record dashboard_tanker =
  kt_completed_trips :: nat
  kt_fuel_revenue :: pyfloat
  kt_delivery_revenue :: pyfloat
  kt_total_expenses :: pyfloat
  kt_net_profit :: pyfloat
  kt_credit_outstanding :: pyfloat
  kt_expense_breakdown :: "(string \<times> pyfloat) list"

record dashboard =
  da_station_id :: "int option"
  da_organization_id :: "int option"
  da_from_date :: "date option"
  da_to_date :: "date option"
  da_sales :: dashboard_sales
  da_expenses :: pyfloat
  da_net_profit :: pyfloat
  da_fuel_stock_liters :: pyfloat
  da_receivables :: pyfloat
  da_payables :: pyfloat
  da_tanker :: dashboard_tanker
  da_low_stock_alerts :: "low_stock_alert list"
  da_credit_limit_alerts :: "credit_alert list"

definition low_stock_alerts :: "db \<Rightarrow> int option \<Rightarrow> int option \<Rightarrow> low_stock_alert list" where
  "low_stock_alerts d station_id organization_id =
     map (\<lambda>t. \<lparr>la_tank_id = tk_id t, la_tank_name = tk_name t, la_current_volume = fround2 (tk_current_volume t),
               la_threshold = tk_low_stock_threshold t,
               la_fuel_type = (case get_row ft_id (fuel_types d) (tk_fuel_type_id t) of None \<Rightarrow> ''Unknown'' | Some f \<Rightarrow> ft_name f)\<rparr>)
       (filter (\<lambda>t. tk_current_volume t \<le> tk_low_stock_threshold t
                  \<and> in_scope d station_id organization_id (tk_station_id t)) (tanks d))"

definition credit_limit_alerts :: "db \<Rightarrow> int option \<Rightarrow> int option \<Rightarrow> credit_alert list" where
  "credit_limit_alerts d station_id organization_id =
     map (\<lambda>c. \<lparr>ca_customer_id = cu_id c, ca_customer_name = cu_name c,
               ca_outstanding_balance = fround2 (cu_outstanding_balance c), ca_credit_limit = cu_credit_limit c,
               ca_usage_percentage = fround2 (fmul (fdiv (cu_outstanding_balance c) (cu_credit_limit c)) 100)\<rparr>)
       (filter (\<lambda>c. 0 < cu_credit_limit c \<and> fmul (cu_credit_limit c) (fl (9 / 10)) \<le> cu_outstanding_balance c
                  \<and> in_scope d station_id organization_id (cu_station_id c)) (customers d))"

definition dashboard_sales_of :: "db \<Rightarrow> int option \<Rightarrow> int option \<Rightarrow> date option \<Rightarrow> date option \<Rightarrow> (fuel_sale \<Rightarrow> bool) \<Rightarrow> fuel_sale list" where
  "dashboard_sales_of d station_id organization_id from_date to_date kind =
     filter (\<lambda>s. kind s \<and> \<not> is_reversed (fs_reversal s) \<and> in_scope d station_id organization_id (fs_station_id s)
               \<and> in_window from_date to_date (fs_created_at s)) (fuel_sales d)"

definition total_payables :: "aggregate \<Rightarrow> db \<Rightarrow> int option \<Rightarrow> int option \<Rightarrow> date option \<Rightarrow> date option \<Rightarrow> pyfloat" where
  "total_payables sum_of d station_id organization_id from_date to_date =
     (let purchased = sql_total sum_of (map pu_total_amount (filter (\<lambda>p. pu_status p = ''approved''
            \<and> \<not> is_reversed (pu_reversal p)
            \<and> (case get_row tk_id (tanks d) (pu_tank_id p) of None \<Rightarrow> False
               | Some t \<Rightarrow> in_scope d station_id organization_id (tk_station_id t))
            \<and> in_window from_date to_date (pu_created_at p)) (purchases d)));
          paid = sql_total sum_of (map sp_amount (filter (\<lambda>p. \<not> is_reversed (sp_reversal p)
            \<and> in_scope d station_id organization_id (sp_station_id p)
            \<and> in_window from_date to_date (sp_created_at p)) (supplier_payments d)))
      in max (fsub purchased paid) 0)"

definition dashboard_tanker_of ::
  "aggregate \<Rightarrow> db \<Rightarrow> int option \<Rightarrow> int option \<Rightarrow> date option \<Rightarrow> date option \<Rightarrow> dashboard_tanker" where
  \<comment> \<open>the groups of \<open>group_by(expense_type)\<close> in the order of their key\<close>
  "dashboard_tanker_of sum_of d station_id organization_id from_date to_date =
     (let trips = filter (\<lambda>t. tt_status t = ''completed'' \<and> in_scope d station_id organization_id (tt_station_id t)
            \<and> in_window_opt from_date to_date (tt_completed_at t)) (tanker_trips d);
          deliveries = filter (\<lambda>(x, t). in_scope d station_id organization_id (tt_station_id t)
            \<and> in_window from_date to_date (de_created_at x)) (joined_trip d de_trip_id (tanker_deliveries d));
          costs = map fst (filter (\<lambda>(x, t). in_scope d station_id organization_id (tt_station_id t)
            \<and> in_window from_date to_date (te_created_at x)) (joined_trip d te_trip_id (trip_expenses d)));
          column = (\<lambda>f. fround2 (sql_total sum_of (map f trips)))
      in \<lparr>kt_completed_trips = length trips, kt_fuel_revenue = column tt_fuel_revenue,
          kt_delivery_revenue = column tt_delivery_revenue, kt_total_expenses = column tt_expense_total,
          kt_net_profit = column tt_net_profit,
          kt_credit_outstanding = fround2 (sql_total sum_of (map (de_outstanding_amount \<circ> fst) deliveries)),
          kt_expense_breakdown = map (\<lambda>k. (k, fround2 (sql_total sum_of
              (map te_amount (filter (\<lambda>x. te_expense_type x = k) costs)))))
            (sort (remdups (map te_expense_type costs)))\<rparr>)"

definition get_dashboard ::
  "aggregate \<Rightarrow> db \<Rightarrow> user \<Rightarrow> int option \<Rightarrow> int option \<Rightarrow> date option \<Rightarrow> date option \<Rightarrow> dashboard res" where
  "get_dashboard sum_of d u station_id organization_id from_date to_date =
     (case dashboard_scope d u station_id organization_id of
        Inl x \<Rightarrow> Inl x
      | Inr (s, i) \<Rightarrow>
          (let st = truthy_id s; og = truthy_id i;
               sales = dashboard_sales_of d st og from_date to_date;
               amount = (\<lambda>xs. sql_total sum_of (map fs_total_amount xs));
               total_sales = amount (sales (\<lambda>x. True));
               spent = sql_total sum_of (map ex_amount (filter (\<lambda>x. ex_status x = ''approved''
                   \<and> in_scope d st og (ex_station_id x) \<and> in_window from_date to_date (ex_created_at x)) (expenses d)))
           in Inr \<lparr>da_station_id = s, da_organization_id = i, da_from_date = from_date, da_to_date = to_date,
                da_sales = \<lparr>sl_total = fround2 total_sales,
                            sl_cash = fround2 (amount (sales (\<lambda>x. fs_sale_type x = ''cash''))),
                            sl_credit = fround2 (amount (sales (\<lambda>x. fs_sale_type x = ''credit''))),
                            sl_count = length (sales (\<lambda>x. True))\<rparr>,
                da_expenses = fround2 spent, da_net_profit = fround2 (fsub total_sales spent),
                da_fuel_stock_liters = fround2 (sql_total sum_of (map tk_current_volume
                  (filter (\<lambda>t. in_scope d st og (tk_station_id t)) (tanks d)))),
                da_receivables = fround2 (sql_total sum_of (map cu_outstanding_balance
                  (filter (\<lambda>c. in_scope d st og (cu_station_id c)) (customers d)))),
                da_payables = fround2 (total_payables sum_of d st og from_date to_date),
                da_tanker = dashboard_tanker_of sum_of d st og from_date to_date,
                da_low_stock_alerts = low_stock_alerts d st og, da_credit_limit_alerts = credit_limit_alerts d st og\<rparr>))"

section \<open>Profit summary (\<open>api/accounting.py\<close>)\<close>

record profit_summary_response =
  pf_total_cash_sales :: pyfloat
  pf_total_credit_sales :: pyfloat
  pf_total_sales :: pyfloat
  pf_total_expenses :: pyfloat
  pf_net_profit :: pyfloat

definition profit_summary :: "aggregate \<Rightarrow> db \<Rightarrow> profit_summary_response" where
  \<comment> \<open>over all stations, for every caller, with expenses of any status\<close>
  "profit_summary sum_of d =
     (let kind = (\<lambda>k. sql_total sum_of (map fs_total_amount
            (filter (\<lambda>s. fs_sale_type s = k \<and> \<not> is_reversed (fs_reversal s)) (fuel_sales d))));
          total_cash_sales = kind ''cash'';
          total_credit_sales = kind ''credit'';
          total_expenses = sql_total sum_of (map ex_amount (expenses d));
          total_sales = fadd total_cash_sales total_credit_sales
      in \<lparr>pf_total_cash_sales = total_cash_sales, pf_total_credit_sales = total_credit_sales,
          pf_total_sales = total_sales, pf_total_expenses = total_expenses,
          pf_net_profit = fsub total_sales total_expenses\<rparr>)"

section \<open>Figures that are never negative\<close>

lemma total_payables_nonneg: "0 \<le> total_payables sum_of d st og t1 t2"
  by (simp add: total_payables_def Let_def)

lemma dashboard_payables_nonneg:
  "get_dashboard sum_of d u st og t1 t2 = Inr r \<Longrightarrow> 0 \<le> da_payables r"
  by (auto simp: get_dashboard_def Let_def res_simps intro!: fround2_nonneg total_payables_nonneg)

text \<open>An expense still waiting for approval, or rejected, lowers the profit of the summary but not that of the dashboard.\<close>

lemma profit_summary_counts_every_expense:
  "pf_total_expenses (profit_summary sum_of d) = sql_total sum_of (map ex_amount (expenses d))"
  by (simp add: profit_summary_def Let_def)

end
