(* ===== verification/Ledger.thy ===== *)
theory Ledger
  imports FuelSales Payments Purchases "HOL-Library.Multiset"
begin

text \<open>
  \<open>app/api/ledger.py\<close>: the ledger of a customer and of a supplier, recomputed from the documents, and its
  relation to the balance stored with the party: along every history of sales, purchases, payments and their
  reviews the stored balance is the final balance of the ledger.
\<close>

section \<open>The ledgers (\<open>api/ledger.py\<close>)\<close>

record ledger_entry =
  le_date :: datetime
  le_type :: string
  le_amount :: pyfloat
  le_description :: fstring

record ledger =
  lg_party_id :: int
  lg_party_name :: string
  lg_ledger :: "(ledger_entry \<times> pyfloat) list"
  lg_final_balance :: pyfloat

fun running :: "pyfloat \<Rightarrow> ledger_entry list \<Rightarrow> (ledger_entry \<times> pyfloat) list" where
  \<comment> \<open>each transaction with its balance\<close>
  "running balance [] = []"
| "running balance (t # ts) = (let balance = fadd balance (le_amount t) in (t, balance) # running balance ts)"

definition final_balance :: "ledger_entry list \<Rightarrow> pyfloat" where
  \<comment> \<open>the variable \<open>balance\<close> after the loop\<close>
  "final_balance ts = foldl (\<lambda>balance t. fadd balance (le_amount t)) 0 ts"

definition ledger_of :: "int \<Rightarrow> string \<Rightarrow> ledger_entry list \<Rightarrow> ledger" where
  "ledger_of party_id name transactions =
     (let ts = sort_key le_date transactions in
      \<lparr>lg_party_id = party_id, lg_party_name = name, lg_ledger = running 0 ts, lg_final_balance = final_balance ts\<rparr>)"

definition credit_sale_entry :: "fuel_sale \<Rightarrow> ledger_entry" where
  "credit_sale_entry s = \<lparr>le_date = fs_created_at s, le_type = ''credit_sale'', le_amount = fs_total_amount s,
     le_description = [T ''Fuel Sale ID '', I (fs_id s)]\<rparr>"

definition customer_payment_entry :: "customer_payment \<Rightarrow> ledger_entry" where
  "customer_payment_entry p = \<lparr>le_date = cp_created_at p, le_type = ''payment'', le_amount = - cp_amount p,
     le_description = [T ''Payment ID '', I (cp_id p)]\<rparr>"

definition customer_ledger :: "db \<Rightarrow> int \<Rightarrow> ledger res" where
  "customer_ledger d customer_id =
     (case get_row cu_id (customers d) customer_id of None \<Rightarrow> http 404 ''Customer not found''
      | Some customer \<Rightarrow>
          Inr (ledger_of customer_id (cu_name customer)
            (map credit_sale_entry (filter (\<lambda>s. fs_customer_id s = Some customer_id \<and> fs_sale_type s = ''credit''
                                              \<and> \<not> is_reversed (fs_reversal s)) (fuel_sales d))
             @ map customer_payment_entry (filter (\<lambda>p. cp_customer_id p = customer_id
                                              \<and> \<not> is_reversed (cp_reversal p)) (customer_payments d)))))"

definition purchase_entry :: "purchase \<Rightarrow> ledger_entry" where
  "purchase_entry p = \<lparr>le_date = pu_created_at p, le_type = ''purchase'', le_amount = pu_total_amount p,
     le_description = [T ''Purchase ID '', I (pu_id p)]\<rparr>"

definition supplier_payment_entry :: "supplier_payment \<Rightarrow> ledger_entry" where
  "supplier_payment_entry p = \<lparr>le_date = sp_created_at p, le_type = ''payment'', le_amount = - sp_amount p,
     le_description = [T ''Payment ID '', I (sp_id p)]\<rparr>"

definition supplier_ledger :: "db \<Rightarrow> int \<Rightarrow> ledger res" where
  "supplier_ledger d supplier_id =
     (case get_row su_id (suppliers d) supplier_id of None \<Rightarrow> http 404 ''Supplier not found''
      | Some supplier \<Rightarrow>
          Inr (ledger_of supplier_id (su_name supplier)
            (map purchase_entry (filter (\<lambda>p. pu_supplier_id p = supplier_id \<and> pu_status p = ''approved''
                                              \<and> \<not> is_reversed (pu_reversal p)) (purchases d))
             @ map supplier_payment_entry (filter (\<lambda>p. sp_supplier_id p = supplier_id
                                              \<and> \<not> is_reversed (sp_reversal p)) (supplier_payments d)))))"

section \<open>Exact running balances\<close>

lemma fl_Ints: "x \<in> \<int> \<Longrightarrow> \<bar>x\<bar> \<le> 2 ^ 53 \<Longrightarrow> fl x = x"
proof (elim Ints_cases)
  fix n assume "\<bar>x\<bar> \<le> 2 ^ 53" and n: "x = of_int n"
  then have "rat_of_int \<bar>n\<bar> \<le> rat_of_int (2 ^ 53)" by simp
  then have "\<bar>n\<bar> \<le> 2 ^ 53" by (simp only: of_int_le_iff)
  then show "fl x = x" by (simp add: n fl_of_int)
qed

lemma foldl_fadd_exact:
  assumes "set xs \<subseteq> \<int>" "b \<in> \<int>" "\<bar>b\<bar> + sum_list (map abs xs) \<le> 2 ^ 53"
  shows "foldl fadd b xs = b + sum_list xs"
  using assms
proof (induction xs arbitrary: b)
  case (Cons x xs)
  have nonneg: "0 \<le> sum_list (map abs xs)" by (rule sum_list_nonneg) auto
  have tri: "\<bar>b + x\<bar> \<le> \<bar>b\<bar> + \<bar>x\<bar>" by (rule abs_triangle_ineq)
  from Cons.prems nonneg tri have "fadd b x = b + x" by (auto simp: fadd_def intro!: fl_Ints)
  moreover have "foldl fadd (b + x) xs = b + x + sum_list xs"
    using Cons.prems tri by (intro Cons.IH) auto
  ultimately show ?case by simp
qed simp

lemma final_balance_exact:
  assumes "le_amount ` set ts \<subseteq> \<int>" "(\<Sum>t\<leftarrow>ts. \<bar>le_amount t\<bar>) \<le> 2 ^ 53"
  shows "lg_final_balance (ledger_of i name ts) = (\<Sum>t\<leftarrow>ts. le_amount t)"
proof -
  let ?ts = "sort_key le_date ts"
  have sums: "(\<Sum>t\<leftarrow>?ts. f t) = (\<Sum>t\<leftarrow>ts. f t)" for f :: "ledger_entry \<Rightarrow> pyfloat"
    by (metis mset_map mset_sort sum_mset_sum_list)
  have "final_balance ?ts = foldl fadd 0 (map le_amount ?ts)"
    by (simp add: final_balance_def foldl_map)
  also have "\<dots> = 0 + sum_list (map le_amount ?ts)"
    using assms sums [of "\<lambda>t. \<bar>le_amount t\<bar>"] by (intro foldl_fadd_exact) (auto simp: comp_def)
  finally show ?thesis by (simp add: ledger_of_def Let_def sums)
qed

lemma sum_list_put_row:
  fixes f :: "'r \<Rightarrow> 'a::ab_group_add"
  assumes "keyed key t" "get_row key t (key r) = Some x"
  shows "(\<Sum>y\<leftarrow>put_row key r t. f y) = (\<Sum>y\<leftarrow>t. f y) - f x + f r"
  using assms
proof (induction t)
  case (Cons z t)
  show ?case
  proof (cases "key z = key r")
    case True
    with Cons.prems have "z = x" "key r \<notin> key ` set t" by (auto simp: get_row_Cons keyed_def)
    moreover from this(2) have "put_row key r t = t" unfolding put_row_def by (intro map_idI) (metis image_eqI)
    ultimately show ?thesis using True by (simp add: put_row_def algebra_simps)
  next
    case False
    with Cons show ?thesis by (simp add: get_row_Cons keyed_def put_row_def algebra_simps)
  qed
qed simp
section \<open>Stored balances refine the ledger\<close>

inductive history :: "('a \<Rightarrow> db \<Rightarrow> db res) \<Rightarrow> (db \<Rightarrow> bool) \<Rightarrow> db \<Rightarrow> db \<Rightarrow> bool" for act ok d0 where
  \<comment> \<open>the states that operations which return normally lead to; one that raises is rolled back\<close>
  start: "history act ok d0 d0"
| act: "history act ok d0 d \<Longrightarrow> act a d = Inr d' \<Longrightarrow> ok d' \<Longrightarrow> history act ok d0 d'"

text \<open>
  The contract between a balance kept with a party and the documents it summarises: an operation changes
  the account of at most one party, by an exact amount, and rounds the same change into the stored balance.
  On whole amounts up to \<open>2 ^ 52\<close> the stored balance then equals the account.
\<close>

locale account_book =
  fixes charges settlements :: "db \<Rightarrow> int \<Rightarrow> pyfloat list"
    and stored :: "db \<Rightarrow> int \<Rightarrow> pyfloat option"
    and act :: "'a \<Rightarrow> db \<Rightarrow> db res" and wf ok :: "db \<Rightarrow> bool"
  assumes whole_amounts: "wf d \<Longrightarrow> ok d \<Longrightarrow> set (charges d i) \<union> set (settlements d i) \<subseteq> {x. x \<in> \<int> \<and> 0 \<le> x}"
    and bounded: "wf d \<Longrightarrow> ok d \<Longrightarrow> sum_list (charges d i) \<le> 2 ^ 52"
    and stored_nonneg: "wf d \<Longrightarrow> stored d i = Some b \<Longrightarrow> 0 \<le> b"
    and posting: "act a d = Inr d' \<Longrightarrow> wf d \<Longrightarrow> ok d \<Longrightarrow> ok d' \<Longrightarrow> wf d' \<and> (\<exists>i x. \<forall>j.
          sum_list (charges d' j) - sum_list (settlements d' j)
            = sum_list (charges d j) - sum_list (settlements d j) + (if j = i then x else 0)
          \<and> (\<forall>b'. stored d' j = Some b' \<longrightarrow> (\<exists>b. stored d j = Some b
               \<and> (b' = b \<and> (j \<noteq> i \<or> x = 0) \<or> j = i \<and> b' = fl (b + x)))))"
begin

lemma amounts_Ints: "wf d \<Longrightarrow> ok d \<Longrightarrow> set (charges d i) \<subseteq> \<int> \<and> set (settlements d i) \<subseteq> \<int>"
  using whole_amounts [of d i] by blast

lemma settlements_nonneg: "wf d \<Longrightarrow> ok d \<Longrightarrow> 0 \<le> sum_list (settlements d i)"
  using whole_amounts [of d i] by (intro sum_list_nonneg) blast

lemma account_Ints:
  assumes "wf d" "ok d" shows "sum_list (charges d i) - sum_list (settlements d i) \<in> \<int>"
proof -
  have "set xs \<subseteq> \<int> \<Longrightarrow> sum_list xs \<in> \<int>" for xs :: "pyfloat list" by (induction xs) auto
  then show ?thesis using amounts_Ints [OF assms] by simp
qed

lemma fl_nonneg_exact:
  assumes "0 \<le> fl y" "y \<in> \<int>" "y \<le> 2 ^ 52" shows "fl y = y"
proof (rule fl_Ints [OF assms(2)])
  have "0 \<le> y"
  proof (rule ccontr)
    assume "\<not> 0 \<le> y"
    with assms(2) have "y \<le> - 1" by (elim Ints_cases) simp
    from fl_mono [OF this] assms(1) show False by (simp add: fl_minus)
  qed
  with assms(3) show "\<bar>y\<bar> \<le> 2 ^ 53" by simp
qed

lemma refines:
  assumes "history act ok d0 d" "wf d0" "ok d0"
    and "\<And>i b. stored d0 i = Some b \<Longrightarrow> b = sum_list (charges d0 i) - sum_list (settlements d0 i)"
  shows "wf d \<and> ok d \<and> (\<forall>i b. stored d i = Some b \<longrightarrow> b = sum_list (charges d i) - sum_list (settlements d i))"
  using assms
proof (induction rule: history.induct)
  case start
  then show ?case by blast
next
  case (act d a d')
  then have IH: "wf d" "ok d" "stored d i = Some b \<Longrightarrow> b = sum_list (charges d i) - sum_list (settlements d i)" for i b
    by blast+
  from posting [OF act.hyps(2) IH(1,2) act.hyps(3)] obtain i x where wf': "wf d'" and P: "\<forall>j.
      sum_list (charges d' j) - sum_list (settlements d' j)
        = sum_list (charges d j) - sum_list (settlements d j) + (if j = i then x else 0)
      \<and> (\<forall>b'. stored d' j = Some b' \<longrightarrow> (\<exists>b. stored d j = Some b
           \<and> (b' = b \<and> (j \<noteq> i \<or> x = 0) \<or> j = i \<and> b' = fl (b + x))))" by blast
  have "b' = sum_list (charges d' j) - sum_list (settlements d' j)" if s: "stored d' j = Some b'" for j b'
  proof -
    let ?y = "sum_list (charges d' j) - sum_list (settlements d' j)"
    from P s obtain b where b: "stored d j = Some b" "b' = b \<and> (j \<noteq> i \<or> x = 0) \<or> j = i \<and> b' = fl (b + x)"
      "?y = sum_list (charges d j) - sum_list (settlements d j) + (if j = i then x else 0)" by blast
    with IH(3) [OF b(1)] have "b' = ?y \<or> b' = fl ?y" by auto
    moreover have "?y \<le> 2 ^ 52"
      using bounded [OF wf' act.hyps(3), of j] settlements_nonneg [OF wf' act.hyps(3), of j] by simp
    ultimately show ?thesis
      using fl_nonneg_exact [OF _ account_Ints [OF wf' act.hyps(3)]] stored_nonneg [OF wf' s] by metis
  qed
  with wf' act.hyps(3) show ?case by blast
qed

lemma ledger_agrees:
  assumes "wf d" "ok d" "stored d i = Some b" "b = sum_list (charges d i) - sum_list (settlements d i)"
    and "map le_amount ts = charges d i @ map uminus (settlements d i)"
  shows "lg_final_balance (ledger_of j name ts) = b"
proof -
  have abs: "map abs xs = xs" if "set xs \<subseteq> {x. x \<in> \<int> \<and> 0 \<le> x}" for xs :: "pyfloat list"
    using that by (intro map_idI) auto
  have "(\<Sum>t\<leftarrow>ts. \<bar>le_amount t\<bar>) = sum_list (map abs (map le_amount ts))" by (simp add: comp_def)
  also have "\<dots> = sum_list (charges d i) + sum_list (settlements d i)"
    using whole_amounts [OF assms(1,2), of i] by (simp add: assms(5) comp_def abs)
  also have "\<dots> \<le> 2 ^ 52 + 2 ^ 52"
    using bounded [OF assms(1,2), of i] stored_nonneg [OF assms(1,3)] assms(4) by (intro add_mono) auto
  finally have "(\<Sum>t\<leftarrow>ts. \<bar>le_amount t\<bar>) \<le> 2 ^ 53" by simp
  moreover have "le_amount ` set ts = set (map le_amount ts)" by simp
  then have "le_amount ` set ts \<subseteq> \<int>"
    unfolding assms(5) using amounts_Ints [OF assms(1,2), of i] by auto
  ultimately have "lg_final_balance (ledger_of j name ts) = sum_list (map le_amount ts)"
    by (intro final_balance_exact)
  moreover have "sum_list (map uminus xs) = - sum_list xs" for xs :: "pyfloat list" by (induction xs) simp_all
  ultimately show ?thesis by (simp add: assms(4,5))
qed

end

section \<open>Customers\<close>

datatype credit_action =
    Sell env fuel_sale_create user
  | ReviewSale env int reversal_action
  | Receive env customer_payment_create user
  | ReviewReceipt env int reversal_action

fun credit_act :: "credit_action \<Rightarrow> db \<Rightarrow> db res" where
  "credit_act (Sell e data u) d = outcome (route_create_fuel_sale e d data u)"
| "credit_act (ReviewSale e i x) d = outcome (fuel_sale_route i e d x)"
| "credit_act (Receive e data u) d = outcome (route_create_customer_payment e d data u)"
| "credit_act (ReviewReceipt e i x) d = outcome (customer_payment_route i e d x)"

definition credit_charges :: "db \<Rightarrow> int \<Rightarrow> pyfloat list" where
  "credit_charges d i = map fs_total_amount (filter (\<lambda>s. fs_customer_id s = Some i \<and> fs_sale_type s = ''credit''
                                              \<and> \<not> is_reversed (fs_reversal s)) (fuel_sales d))"

definition credit_settlements :: "db \<Rightarrow> int \<Rightarrow> pyfloat list" where
  "credit_settlements d i = map cp_amount (filter (\<lambda>p. cp_customer_id p = i
                                              \<and> \<not> is_reversed (cp_reversal p)) (customer_payments d))"

definition credit_stored :: "db \<Rightarrow> int \<Rightarrow> pyfloat option" where
  "credit_stored d i = map_option cu_outstanding_balance (get_row cu_id (customers d) i)"

definition credit_wf :: "db \<Rightarrow> bool" where
  "credit_wf d \<longleftrightarrow> books_ok d \<and> keyed fs_id (fuel_sales d) \<and> keyed cp_id (customer_payments d) \<and> keyed cu_id (customers d)"

definition credit_ok :: "db \<Rightarrow> bool" where
  \<comment> \<open>the side conditions on the documents: a sale to a customer is on credit (reversing a cash sale lowers a
     balance it never raised), amounts are whole, and their volume is small enough to be added exactly\<close>
  "credit_ok d \<longleftrightarrow> list_all (\<lambda>s. fs_customer_id s = None \<or> fs_sale_type s = ''credit'') (fuel_sales d)
     \<and> list_all (\<lambda>s. fs_total_amount s = of_int \<lfloor>fs_total_amount s\<rfloor>) (fuel_sales d)
     \<and> list_all (\<lambda>p. cp_amount p = of_int \<lfloor>cp_amount p\<rfloor>) (customer_payments d)
     \<and> (\<Sum>s\<leftarrow>fuel_sales d. fs_total_amount s) \<le> 2 ^ 52"

definition credit_account :: "db \<Rightarrow> int \<Rightarrow> rat" where
  "credit_account d j = sum_list (credit_charges d j) - sum_list (credit_settlements d j)"

definition sale_part :: "int \<Rightarrow> fuel_sale \<Rightarrow> rat" where
  "sale_part j s = (if fs_customer_id s = Some j \<and> fs_sale_type s = ''credit'' \<and> \<not> is_reversed (fs_reversal s)
                    then fs_total_amount s else 0)"

definition receipt_part :: "int \<Rightarrow> customer_payment \<Rightarrow> rat" where
  "receipt_part j p = (if cp_customer_id p = j \<and> \<not> is_reversed (cp_reversal p) then cp_amount p else 0)"

lemma credit_account_sums:
  "credit_account d j = (\<Sum>s\<leftarrow>fuel_sales d. sale_part j s) - (\<Sum>p\<leftarrow>customer_payments d. receipt_part j p)"
  unfolding credit_account_def credit_charges_def credit_settlements_def sale_part_def receipt_part_def
  by (simp only: sum_list_map_filter')

definition credit_posting :: "db \<Rightarrow> db \<Rightarrow> bool" where
  \<comment> \<open>what one operation may do to the accounts and the stored balances\<close>
  "credit_posting d d' \<longleftrightarrow> (\<exists>i x. \<forall>j. credit_account d' j = credit_account d j + (if j = i then x else 0)
     \<and> (\<forall>b'. credit_stored d' j = Some b' \<longrightarrow> (\<exists>b. credit_stored d j = Some b
          \<and> (b' = b \<and> (j \<noteq> i \<or> x = 0) \<or> j = i \<and> b' = fl (b + x)))))"

lemma credit_postingI:
  assumes "\<And>j. credit_account d' j = credit_account d j + (if j = i then x else 0)"
    and "get_row cu_id (customers d) i = Some c" "cu_id c' = i" "customers d' = put_row cu_id c' (customers d)"
    and "cu_outstanding_balance c' = fl (cu_outstanding_balance c + x)"
  shows "credit_posting d d'"
  unfolding credit_posting_def
proof (rule exI [of _ i], rule exI [of _ x], intro allI conjI impI)
  fix j b' assume "credit_stored d' j = Some b'"
  with assms(2-5) show "\<exists>b. credit_stored d j = Some b \<and> (b' = b \<and> (j \<noteq> i \<or> x = 0) \<or> j = i \<and> b' = fl (b + x))"
    by (cases "j = i") (auto simp: credit_stored_def get_put_row)
qed (rule assms(1))

lemma credit_posting_quiet:
  "customers d' = customers d \<Longrightarrow> (\<And>j. credit_account d' j = credit_account d j) \<Longrightarrow> credit_posting d d'"
  unfolding credit_posting_def by (rule exI, rule exI [of _ 0]) (auto simp: credit_stored_def)

lemma sale_mark_account:
  assumes "keyed fs_id (fuel_sales d)" "get_row fs_id (fuel_sales d) (fs_id sale') = Some sale"
    and "fuel_sales d' = put_row fs_id sale' (fuel_sales d)" "customer_payments d' = customer_payments d"
  shows "credit_account d' j = credit_account d j - sale_part j sale + sale_part j sale'"
  using sum_list_put_row [OF assms(1,2), of "sale_part j"] assms(3,4) by (simp add: credit_account_sums)

lemma receipt_mark_account:
  assumes "keyed cp_id (customer_payments d)" "get_row cp_id (customer_payments d) (cp_id p') = Some p"
    and "customer_payments d' = put_row cp_id p' (customer_payments d)" "fuel_sales d' = fuel_sales d"
  shows "credit_account d' j = credit_account d j + receipt_part j p - receipt_part j p'"
  using sum_list_put_row [OF assms(1,2), of "receipt_part j"] assms(3,4) by (simp add: credit_account_sums)

lemma create_fuel_sale_posting:
  assumes "create_fuel_sale e d data u = Inr (sale, d')"
  shows "credit_posting d d' \<and> fuel_sales d' = fuel_sales d @ [sale] \<and> fs_id sale = next_id fs_id (fuel_sales d)
    \<and> customer_payments d' = customer_payments d \<and> map cu_id (customers d') = map cu_id (customers d)"
  using assms
proof (rule create_fuel_sale_Inr, goal_cases)
  case (1 nozzle dispenser customer shift_id d1)
  then have R: "fuel_sales d' = fuel_sales d @ [sale]" "customer_payments d' = customer_payments d"
    "fs_id sale = next_id fs_id (fuel_sales d)" "fs_reversal sale = no_reversal" "fs_customer_id sale = sd_customer_id data"
    "fs_sale_type sale = sd_sale_type data"
    by auto
  have A: "credit_account d' j = credit_account d j + sale_part j sale" for j
    by (simp add: credit_account_sums R(1,2))
  show ?case
  proof (cases "sd_sale_type data = ''credit''")
    case False
    with 1(14) 1(13) have "customers d' = customers d" by auto
    moreover have "sale_part j sale = 0" for j using False R(6) by (simp add: sale_part_def)
    ultimately show ?thesis using R A by (simp add: credit_posting_quiet)
  next
    case True
    with 1(8) 1(7) obtain c where c: "customer = Some c" "sd_customer_id data = Some (cu_id c)"
      "get_row cu_id (customers d) (cu_id c) = Some c"
      by (auto simp: sale_customer_def res_simps) (metis get_row_Some)
    with 1(14) True obtain c' where c': "charge_credit c (fs_total_amount sale) = Inr c'"
      "customers d' = put_row cu_id c' (customers d1)" by auto
    from charge_credit_Inr [OF c'(1)] have "cu_id c' = cu_id c"
      "cu_outstanding_balance c' = fl (cu_outstanding_balance c + fs_total_amount sale)" by (simp_all add: fadd_def)
    moreover have "sale_part j sale = (if j = cu_id c then fs_total_amount sale else 0)" for j
      using True R(4-6) c(2) by (auto simp: sale_part_def no_reversal_def)
    ultimately show ?thesis
      using credit_postingI [OF _ c(3), of d' "fs_total_amount sale" c'] A c'(2) 1(13) R(1-3) by simp
  qed
qed
lemma whole_sale_part:
  assumes "\<not> is_reversed (fs_reversal sale)" "fs_customer_id sale = None \<or> fs_sale_type sale = ''credit''"
  shows "sale_part j sale = (if fs_customer_id sale = Some j then fs_total_amount sale else 0)"
  using assms by (auto simp: sale_part_def)

lemma reverse_fuel_sale_posting:
  assumes "reverse_fuel_sale e d sale u = Inr (sale', d')" "credit_wf d" "credit_ok d"
    and "get_row fs_id (fuel_sales d) (fs_id sale) = Some sale"
  shows "credit_posting d d' \<and> fuel_sales d' = put_row fs_id sale' (fuel_sales d) \<and> customer_payments d' = customer_payments d
    \<and> map cu_id (customers d') = map cu_id (customers d)"
  using assms(1)
proof (rule reverse_fuel_sale_Inr, goal_cases)
  case (1 nozzle cs)
  from 1(9) have T: "fuel_sales d' = put_row fs_id sale' (fuel_sales d)" "customer_payments d' = customer_payments d"
    "customers d' = cs" by auto
  from 1(8) have s': "fs_id sale' = fs_id sale" "sale_part j sale' = 0" for j
    by (simp_all add: sale_part_def reversal_marks)
  have credit: "fs_customer_id sale = None \<or> fs_sale_type sale = ''credit''"
    using assms(3,4) by (auto simp: credit_ok_def list_all_iff dest: get_row_Some)
  have A: "credit_account d' j = credit_account d j + (if Some j = fs_customer_id sale then - fs_total_amount sale else 0)" for j
    using sale_mark_account [of d sale' sale d' j] assms(2,4) T s' whole_sale_part [OF 1(3) credit, of j]
    by (auto simp: credit_wf_def)
  show ?case
  proof (cases "fs_customer_id sale")
    case None
    with 1(7) have "cs = customers d" by (simp add: refund_customer_def)
    with None A T show ?thesis by (simp add: credit_posting_quiet)
  next
    case (Some i)
    with 1(7) obtain c where c: "get_row cu_id (customers d) i = Some c"
      "cs = put_row cu_id (c\<lparr>cu_outstanding_balance := fsub (cu_outstanding_balance c) (fs_total_amount sale)\<rparr>) (customers d)"
      by (auto simp: refund_customer_def res_simps Let_def)
    with Some A T show ?thesis
      using credit_postingI [where d'=d' and d=d and x="- fs_total_amount sale" and i=i and c=c
        and c'="c\<lparr>cu_outstanding_balance := fsub (cu_outstanding_balance c) (fs_total_amount sale)\<rparr>"] get_row_Some [OF c(1)] by (simp add: fsub_def)
  qed
qed

lemma create_customer_payment_posting:
  assumes "create_customer_payment e d data u = Inr (p, d')"
  shows "credit_posting d d' \<and> fuel_sales d' = fuel_sales d \<and> cp_id p = next_id cp_id (customer_payments d)
    \<and> customer_payments d' = customer_payments d @ [p] \<and> map cu_id (customers d') = map cu_id (customers d)"
  using assms
proof (rule create_customer_payment_Inr, goal_cases)
  case (1 customer c)
  then have "credit_account d' j = credit_account d j + (if j = cd_customer_id data then - cd_amount data else 0)" for j
    by (auto simp: credit_account_sums receipt_part_def new_customer_payment_def no_reversal_def)
  with 1 show ?case
    using credit_postingI [where d'=d' and d=d and x="- cd_amount data" and i="cd_customer_id data" and c=customer
        and c'="customer\<lparr>cu_outstanding_balance := fsub (cu_outstanding_balance customer) (cd_amount data)\<rparr>"] get_row_Some [OF 1(2)]
    by (simp add: fsub_def new_customer_payment_def)
qed

lemma reverse_customer_payment_posting:
  assumes "reverse_customer_payment e d p u = Inr (p', d')" "credit_wf d"
    and "get_row cp_id (customer_payments d) (cp_id p) = Some p"
  shows "credit_posting d d' \<and> fuel_sales d' = fuel_sales d \<and> customer_payments d' = put_row cp_id p' (customer_payments d)
    \<and> map cu_id (customers d') = map cu_id (customers d)"
  using assms(1)
proof (rule reverse_customer_payment_Inr, goal_cases)
  case (1 customer c)
  have "credit_account d' j = credit_account d j + (if j = cp_customer_id p then cp_amount p else 0)" for j
    using receipt_mark_account [of d p' p d' j] assms(2,3) 1(2,4,5)
    by (auto simp: credit_wf_def receipt_part_def reversal_marks)
  with 1 show ?case
    using credit_postingI [where d'=d' and d=d and x="cp_amount p" and i="cp_customer_id p" and c=customer
        and c'="customer\<lparr>cu_outstanding_balance := fadd (cu_outstanding_balance customer) (cp_amount p)\<rparr>"] get_row_Some [OF 1(3)]
    by (simp add: fadd_def)
qed

text \<open>Asking for a reversal, or marking it approved or rejected, changes the columns of the review only.\<close>

lemma fuel_sale_review_frame:
  assumes "request_fuel_sale_reversal e d sale u reason = Inr (sale', d') \<or> reject_fuel_sale_reversal e d sale u reason = Inr (sale', d')"
  shows "\<exists>r c. is_reversed r = is_reversed (fs_reversal sale) \<and> sale' = sale\<lparr>fs_reversal := r\<rparr>
    \<and> d' = d\<lparr>fuel_sales := put_row fs_id sale' (fuel_sales d), comms := c\<rparr>"
  by (rule exI [of _ "fs_reversal sale'"], rule exI [of _ "comms d'"], use assms in
      \<open>auto simp: request_fuel_sale_reversal_def reject_fuel_sale_reversal_def res_simps Let_def comms_updates reversal_marks\<close>)

lemma approve_fuel_sale_reversal_frame:
  assumes "approve_fuel_sale_reversal e d sale u reason = Inr (sale', d')"
  shows "\<exists>r c. is_reversed r = is_reversed (fs_reversal sale)
    \<and> reverse_fuel_sale e (d\<lparr>fuel_sales := put_row fs_id (sale\<lparr>fs_reversal := r\<rparr>) (fuel_sales d), comms := c\<rparr>) (sale\<lparr>fs_reversal := r\<rparr>) u
        = Inr (sale', d')"
proof -
  have "is_reversed (mark_approved e u (fs_reversal sale)) = is_reversed (fs_reversal sale)" by (simp add: reversal_marks)
  with assms show ?thesis
    unfolding approve_fuel_sale_reversal_def Let_def comms_updates
    by (simp add: res_simps) blast
qed

lemma customer_payment_review_frame:
  assumes "request_customer_payment_reversal e d p u reason = Inr (p', d') \<or> reject_customer_payment_reversal e d p u reason = Inr (p', d')"
  shows "\<exists>r c. is_reversed r = is_reversed (cp_reversal p) \<and> p' = p\<lparr>cp_reversal := r\<rparr>
    \<and> d' = d\<lparr>customer_payments := put_row cp_id p' (customer_payments d), comms := c\<rparr>"
  by (rule exI [of _ "cp_reversal p'"], rule exI [of _ "comms d'"], use assms in
      \<open>auto simp: request_customer_payment_reversal_def reject_customer_payment_reversal_def res_simps Let_def
      audit_customer_payment_def comms_updates reversal_marks\<close>)
lemma keyed_put_row [simp]: "keyed key (put_row key r t) = keyed key t"
  by (simp add: keyed_def)

lemma keyed_ids: "map key t' = map key t \<Longrightarrow> keyed key t' = keyed key t"
  by (simp add: keyed_def)

lemma sale_reversal_step:
  assumes "reverse_fuel_sale e d sale u = Inr (sale', d')" "credit_wf d" "credit_ok d"
    and "get_row fs_id (fuel_sales d) (fs_id sale) = Some sale"
  shows "credit_wf d' \<and> credit_posting d d'"
proof -
  from assms(2,4) have "books_ok d" "sale_ok sale" by (auto simp: credit_wf_def dest: books_ok_rows(4))
  from reverse_fuel_sale_books [OF assms(1) this] have "books_ok d'" .
  moreover from assms(1) have "fs_id sale' = fs_id sale" by (auto elim: reverse_fuel_sale_Inr)
  moreover note reverse_fuel_sale_posting [OF assms]
  ultimately show ?thesis using assms(2) by (simp add: credit_wf_def keyed_ids [of cu_id "customers d'"])
qed

lemma sale_review_wf:
  assumes "credit_wf d" "credit_ok d" "get_row fs_id (fuel_sales d) (fs_id sale) = Some sale"
    and "is_reversed r = is_reversed (fs_reversal sale)"
  defines "d1 \<equiv> \<lambda>c. d\<lparr>fuel_sales := put_row fs_id (sale\<lparr>fs_reversal := r\<rparr>) (fuel_sales d), comms := c\<rparr>"
  shows "credit_wf (d1 c) \<and> credit_ok (d1 c) \<and> customers (d1 c) = customers d \<and> (\<forall>j. credit_account (d1 c) j = credit_account d j)"
proof -
  let ?s = "sale\<lparr>fs_reversal := r\<rparr>"
  from assms(1) have K: "keyed fs_id (fuel_sales d)" by (simp add: credit_wf_def)
  from assms(1,3) have "sale_ok ?s" by (auto simp: credit_wf_def sale_ok_def dest: books_ok_rows(4))
  with assms(1) have "credit_wf (d1 c)" by (simp add: d1_def credit_wf_def books_ok_def)
  moreover have "(\<Sum>s\<leftarrow>fuel_sales (d1 c). fs_total_amount s) = (\<Sum>s\<leftarrow>fuel_sales d. fs_total_amount s)"
    using sum_list_put_row [OF K, of ?s sale fs_total_amount] assms(3) by (simp add: d1_def)
  with assms(2,3) have "credit_ok (d1 c)"
    by (auto simp: credit_ok_def d1_def list_all_iff dest!: put_rowD get_row_Some)
  moreover have "credit_account (d1 c) j = credit_account d j" for j
    using sale_mark_account [OF K, of ?s sale "d1 c" j] assms(3,4) by (simp add: d1_def sale_part_def)
  ultimately show ?thesis by (simp add: d1_def)
qed

lemma credit_posting_trans:
  "customers d1 = customers d \<Longrightarrow> (\<And>j. credit_account d1 j = credit_account d j) \<Longrightarrow> credit_posting d1 d' \<Longrightarrow> credit_posting d d'"
  by (simp add: credit_posting_def credit_stored_def)

lemma sale_review_step:
  assumes "fuel_sale_route i e d x = Inr (sale', d')" "credit_wf d" "credit_ok d"
  shows "credit_wf d' \<and> credit_posting d d'"
proof -
  from assms(1) obtain sale where s: "get_row fs_id (fuel_sales d) i = Some sale" "fs_id sale = i"
    by (cases x) (auto simp: route_reverse_fuel_sale_def route_approve_fuel_sale_reversal_def
        route_reject_fuel_sale_reversal_def res_simps dest: get_row_Some)
  from assms(1) s(1) consider u reason where "request_fuel_sale_reversal e d sale u reason = Inr (sale', d')
        \<or> reject_fuel_sale_reversal e d sale u reason = Inr (sale', d')"
    | u where "reverse_fuel_sale e d sale u = Inr (sale', d')"
    | u reason where "approve_fuel_sale_reversal e d sale u reason = Inr (sale', d')"
    by (cases x) (auto simp: route_reverse_fuel_sale_def route_approve_fuel_sale_reversal_def
        route_reject_fuel_sale_reversal_def res_simps split: if_splits)
  then show ?thesis
  proof cases
    case 1
    from fuel_sale_review_frame [OF 1] obtain r c where "is_reversed r = is_reversed (fs_reversal sale)"
      "d' = d\<lparr>fuel_sales := put_row fs_id (sale\<lparr>fs_reversal := r\<rparr>) (fuel_sales d), comms := c\<rparr>" by blast
    with sale_review_wf [OF assms(2,3), of sale r c] s show ?thesis by (simp add: credit_posting_quiet)
  next
    case 2
    with sale_reversal_step assms(2,3) s show ?thesis by simp
  next
    case 3
    from approve_fuel_sale_reversal_frame [OF 3] obtain r c where r: "is_reversed r = is_reversed (fs_reversal sale)"
      and R: "reverse_fuel_sale e (d\<lparr>fuel_sales := put_row fs_id (sale\<lparr>fs_reversal := r\<rparr>) (fuel_sales d), comms := c\<rparr>)
        (sale\<lparr>fs_reversal := r\<rparr>) u = Inr (sale', d')" by blast
    from sale_review_wf [OF assms(2,3), of sale r c] r s sale_reversal_step [OF R]
    show ?thesis by (auto simp: get_put_row intro: credit_posting_trans [rotated 2])
  qed
qed

lemma receipt_reversal_step:
  assumes "reverse_customer_payment e d p u = Inr (p', d')" "credit_wf d"
    and "get_row cp_id (customer_payments d) (cp_id p) = Some p"
  shows "credit_wf d' \<and> credit_posting d d'"
proof -
  from assms(2,3) have "books_ok d" "customer_payment_ok p" by (auto simp: credit_wf_def dest: books_ok_rows(6))
  from reverse_customer_payment_books [OF assms(1) this] have "books_ok d'" .
  moreover from assms(1) have "cp_id p' = cp_id p" by (auto elim: reverse_customer_payment_Inr)
  moreover note reverse_customer_payment_posting [OF assms]
  ultimately show ?thesis using assms(2) by (simp add: credit_wf_def keyed_ids [of cu_id "customers d'"])
qed

lemma receipt_review_wf:
  assumes "credit_wf d" "get_row cp_id (customer_payments d) (cp_id p) = Some p" "is_reversed r = is_reversed (cp_reversal p)"
  defines "d1 \<equiv> \<lambda>c. d\<lparr>customer_payments := put_row cp_id (p\<lparr>cp_reversal := r\<rparr>) (customer_payments d), comms := c\<rparr>"
  shows "credit_wf (d1 c) \<and> customers (d1 c) = customers d \<and> (\<forall>j. credit_account (d1 c) j = credit_account d j)"
proof -
  let ?p = "p\<lparr>cp_reversal := r\<rparr>"
  from assms(1,2) have "customer_payment_ok ?p" by (auto simp: credit_wf_def customer_payment_ok_def dest: books_ok_rows(6))
  with assms(1) have "credit_wf (d1 c)" by (simp add: d1_def credit_wf_def books_ok_def)
  moreover have "credit_account (d1 c) j = credit_account d j" for j
    using receipt_mark_account [of d ?p p "d1 c" j] assms(1-3) by (simp add: d1_def receipt_part_def credit_wf_def)
  ultimately show ?thesis by (simp add: d1_def)
qed

lemma receipt_review_step:
  assumes "customer_payment_route i e d x = Inr (p', d')" "credit_wf d"
  shows "credit_wf d' \<and> credit_posting d d'"
proof -
  from assms(1) obtain p where s: "get_row cp_id (customer_payments d) i = Some p" "cp_id p = i"
    by (cases x) (auto simp: route_reverse_customer_payment_def route_approve_customer_payment_reversal_def
        route_reject_customer_payment_reversal_def res_simps dest: get_row_Some)
  from assms(1) s(1) consider u reason where "request_customer_payment_reversal e d p u reason = Inr (p', d')
        \<or> reject_customer_payment_reversal e d p u reason = Inr (p', d')"
    | u where "reverse_customer_payment e d p u = Inr (p', d')"
    | u reason where "approve_customer_payment_reversal e d p u reason = Inr (p', d')"
    by (cases x) (auto simp: route_reverse_customer_payment_def route_approve_customer_payment_reversal_def
        route_reject_customer_payment_reversal_def res_simps split: if_splits)
  then show ?thesis
  proof cases
    case 1
    from customer_payment_review_frame [OF 1] obtain r c where "is_reversed r = is_reversed (cp_reversal p)"
      "d' = d\<lparr>customer_payments := put_row cp_id (p\<lparr>cp_reversal := r\<rparr>) (customer_payments d), comms := c\<rparr>" by blast
    with receipt_review_wf [OF assms(2), of p r c] s show ?thesis by (simp add: credit_posting_quiet)
  next
    case 2
    with receipt_reversal_step assms(2) s show ?thesis by simp
  next
    case 3
    then show ?thesis
    proof (rule approve_customer_payment_reversal_Inr)
      fix p1 c
      assume p1: "p1 = p\<lparr>cp_reversal := mark_approved e u (cp_reversal p)\<rparr>"
        and R: "reverse_customer_payment e (d\<lparr>customer_payments := put_row cp_id p1 (customer_payments d), comms := c\<rparr>) p1 u = Inr (p', d')"
      have "is_reversed (mark_approved e u (cp_reversal p)) = is_reversed (cp_reversal p)" by (simp add: reversal_marks)
      from receipt_review_wf [OF assms(2) _ this, of c] p1 s receipt_reversal_step [OF R]
      show ?thesis by (auto simp: get_put_row intro: credit_posting_trans [rotated 2])
    qed
  qed
qed
lemma fuel_sale_create_step:
  assumes "create_fuel_sale e d data u = Inr (sale, d')" "credit_wf d"
  shows "credit_wf d' \<and> credit_posting d d'"
proof -
  from create_fuel_sale_books [OF assms(1)] assms(2) have "books_ok d'" by (simp add: credit_wf_def)
  with create_fuel_sale_posting [OF assms(1)] assms(2) table.wf_add [of fs_id "fuel_sales d" sale]
  show ?thesis by (simp add: credit_wf_def add_row_def keyed_ids [of cu_id "customers d'"])
qed

lemma receipt_create_step:
  assumes "create_customer_payment e d data u = Inr (p, d')" "credit_wf d"
  shows "credit_wf d' \<and> credit_posting d d'"
proof -
  from create_customer_payment_books [OF assms(1)] assms(2) have "books_ok d'" by (simp add: credit_wf_def)
  with create_customer_payment_posting [OF assms(1)] assms(2) table.wf_add [of cp_id "customer_payments d" p]
  show ?thesis by (simp add: credit_wf_def add_row_def keyed_ids [of cu_id "customers d'"])
qed

lemma credit_step:
  assumes "credit_act a d = Inr d'" "credit_wf d" "credit_ok d"
  shows "credit_wf d' \<and> credit_posting d d'"
  using assms fuel_sale_create_step receipt_create_step sale_review_step receipt_review_step
  by (cases a) (fastforce simp: res_simps route_create_fuel_sale_def route_create_customer_payment_def)+

lemma sum_list_filter_le:
  fixes f :: "'r \<Rightarrow> rat"
  assumes "\<forall>x \<in> set xs. 0 \<le> f x" shows "(\<Sum>x\<leftarrow>filter P xs. f x) \<le> (\<Sum>x\<leftarrow>xs. f x)"
  using assms by (induction xs) (auto simp: add_increasing)

lemma integral_Ints: "x = of_int \<lfloor>x\<rfloor> \<Longrightarrow> x \<in> \<int>"
  by (metis Ints_of_int)

interpretation customer_book: account_book credit_charges credit_settlements credit_stored credit_act credit_wf credit_ok
proof
  fix d i b a d'
  assume wf: "credit_wf d" and ok: "credit_ok d"
  then show "set (credit_charges d i) \<union> set (credit_settlements d i) \<subseteq> {x. x \<in> \<int> \<and> 0 \<le> x}"
    by (auto simp: credit_charges_def credit_settlements_def credit_wf_def credit_ok_def books_ok_def list_all_iff
        sale_ok_def customer_payment_ok_def intro: integral_Ints)
  have "sum_list (credit_charges d i) \<le> (\<Sum>s\<leftarrow>fuel_sales d. fs_total_amount s)"
    unfolding credit_charges_def using wf
    by (intro sum_list_filter_le) (auto simp: credit_wf_def books_ok_def sale_ok_def list_all_iff)
  with ok show "sum_list (credit_charges d i) \<le> 2 ^ 52" by (simp add: credit_ok_def)
  assume "credit_act a d = Inr d'"
  from credit_step [OF this wf ok] show "credit_wf d' \<and> (\<exists>i x. \<forall>j.
          sum_list (credit_charges d' j) - sum_list (credit_settlements d' j)
            = sum_list (credit_charges d j) - sum_list (credit_settlements d j) + (if j = i then x else 0)
          \<and> (\<forall>b'. credit_stored d' j = Some b' \<longrightarrow> (\<exists>b. credit_stored d j = Some b
               \<and> (b' = b \<and> (j \<noteq> i \<or> x = 0) \<or> j = i \<and> b' = fl (b + x)))))"
    by (simp add: credit_posting_def credit_account_def)
next
  fix d i b
  assume "credit_wf d" "credit_stored d i = Some b"
  then show "0 \<le> b" by (auto simp: credit_wf_def credit_stored_def customer_ok_def dest: books_ok_rows(2))
qed

text \<open>C23. The stored balance of a customer refines the customer ledger. Start from books in which every stored
  balance is the account that the documents give (for instance: no documents and zero balances), and run any sequence of fuel
  sales, customer payments, reversal requests, approvals and rejections that return normally. As long as
  sales to a customer are on credit and amounts are whole numbers of a total volume up to \<open>2 ^ 52\<close>, the ledger that
  \<open>GET /ledger/customer/{id}\<close> recomputes from the documents ends, float arithmetic included, on exactly the stored outstanding balance.\<close>

theorem customer_balance_refines_ledger:
  assumes "history credit_act credit_ok d0 d" "credit_wf d0" "credit_ok d0"
    and "list_all (\<lambda>c. cu_outstanding_balance c = credit_account d0 (cu_id c)) (customers d0)"
    and "get_row cu_id (customers d) i = Some c"
  shows "\<exists>l. customer_ledger d i = Inr l \<and> lg_final_balance l = cu_outstanding_balance c"
proof -
  have "b = sum_list (credit_charges d0 i) - sum_list (credit_settlements d0 i)" if "credit_stored d0 i = Some b" for i b
    using that assms(4) get_row_Some [of cu_id "customers d0" i]
    by (auto simp: credit_stored_def credit_account_def list_all_iff)
  from customer_book.refines [OF assms(1-3) this] assms(5)
  have R: "credit_wf d" "credit_ok d" "credit_stored d i = Some (cu_outstanding_balance c)"
    "cu_outstanding_balance c = sum_list (credit_charges d i) - sum_list (credit_settlements d i)"
    by (auto simp: credit_stored_def)
  show ?thesis unfolding customer_ledger_def using assms(5)
    by (simp add: customer_book.ledger_agrees [OF R] credit_charges_def credit_settlements_def
        credit_sale_entry_def customer_payment_entry_def comp_def)
qed

definition sample_clear_db :: db where
  "sample_clear_db = sample_db\<lparr>customers := [sample_customer\<lparr>cu_outstanding_balance := 0\<rparr>],
     suppliers := [sample_supplier\<lparr>su_payable_balance := 0\<rparr>]\<rparr>"

definition sample_credit_db :: db where
  "sample_credit_db = projr (credit_act (Sell sample_env sample_sale_data sample_operator) sample_clear_db)"

definition sample_received_db :: db where
  "sample_received_db = projr (credit_act (Receive sample_env sample_customer_payment_data sample_operator) sample_credit_db)"

theorem customer_balance_refines_ledger_witness:
  "\<exists>l. customer_ledger sample_received_db 1 = Inr l \<and> lg_final_balance l = 50"
proof -
  have r: "\<not> isl x \<Longrightarrow> x = Inr (projr x)" for x :: "db res" by (cases x) simp_all
  have 1: "\<not> isl (credit_act (Sell sample_env sample_sale_data sample_operator) sample_clear_db)" by code_simp
  have 2: "\<not> isl (credit_act (Receive sample_env sample_customer_payment_data sample_operator) sample_credit_db)" by code_simp
  have ok: "credit_ok sample_clear_db" "credit_ok sample_credit_db" "credit_ok sample_received_db" by code_simp+
  have "history credit_act credit_ok sample_clear_db sample_credit_db"
    by (rule history.act, rule history.start) (rule r [OF 1, folded sample_credit_db_def], rule ok)
  then have H: "history credit_act credit_ok sample_clear_db sample_received_db"
    by (rule history.act) (rule r [OF 2, folded sample_received_db_def], rule ok)
  have "case get_row cu_id (customers sample_received_db) 1 of None \<Rightarrow> False | Some c \<Rightarrow> cu_outstanding_balance c = 50" by code_simp
  then obtain c where c: "get_row cu_id (customers sample_received_db) 1 = Some c" "cu_outstanding_balance c = 50"
    by (auto split: option.splits)
  have "credit_wf sample_clear_db" by code_simp
  moreover have "list_all (\<lambda>c. cu_outstanding_balance c = credit_account sample_clear_db (cu_id c)) (customers sample_clear_db)"
    by code_simp
  ultimately show ?thesis using customer_balance_refines_ledger [OF H _ ok(1) _ c(1)] c(2) by metis
qed

end
