(* ===== verification/Payables.thy ===== *)
theory Payables
  imports Ledger
begin

text \<open>
  The second account book: the payable balance of a supplier against the supplier ledger of
  \<open>app/api/ledger.py\<close>, along every history of purchases, their approvals and reversals, and supplier payments.
\<close>

section \<open>Operations and accounts\<close>

datatype payable_action =
    Buy env purchase_create user
  | ApprovePurchase env int user "string option"
  | RejectPurchase env int user "string option"
  | ReviewPurchase env int reversal_action
  | Pay env supplier_payment_create user
  | ReviewPayment env int reversal_action

fun payable_act :: "payable_action \<Rightarrow> db \<Rightarrow> db res" where
  "payable_act (Buy e data u) d = outcome (route_create_purchase e d data u)"
| "payable_act (ApprovePurchase e i u reason) d = outcome (route_approve_purchase e d i u reason)"
| "payable_act (RejectPurchase e i u reason) d = outcome (route_reject_purchase e d i u reason)"
| "payable_act (ReviewPurchase e i x) d = outcome (purchase_route i e d x)"
| "payable_act (Pay e data u) d = outcome (route_create_supplier_payment e d data u)"
| "payable_act (ReviewPayment e i x) d = outcome (supplier_payment_route i e d x)"

definition payable_charges :: "db \<Rightarrow> int \<Rightarrow> pyfloat list" where
  "payable_charges d i = map pu_total_amount (filter (\<lambda>p. pu_supplier_id p = i \<and> pu_status p = ''approved''
                                              \<and> \<not> is_reversed (pu_reversal p)) (purchases d))"

definition payable_settlements :: "db \<Rightarrow> int \<Rightarrow> pyfloat list" where
  "payable_settlements d i = map sp_amount (filter (\<lambda>p. sp_supplier_id p = i
                                              \<and> \<not> is_reversed (sp_reversal p)) (supplier_payments d))"

definition payable_stored :: "db \<Rightarrow> int \<Rightarrow> pyfloat option" where
  "payable_stored d i = map_option su_payable_balance (get_row su_id (suppliers d) i)"

definition payable_wf :: "db \<Rightarrow> bool" where
  "payable_wf d \<longleftrightarrow> books_ok d \<and> keyed pu_id (purchases d) \<and> keyed sp_id (supplier_payments d) \<and> keyed su_id (suppliers d)
     \<and> list_all (\<lambda>p. is_reversed (pu_reversal p) \<longrightarrow> pu_status p = ''approved'') (purchases d)"

definition payable_ok :: "db \<Rightarrow> bool" where
  \<comment> \<open>the amounts are whole and their volume is small enough to be added exactly\<close>
  "payable_ok d \<longleftrightarrow> list_all (\<lambda>p. pu_total_amount p = of_int \<lfloor>pu_total_amount p\<rfloor>) (purchases d)
     \<and> list_all (\<lambda>p. sp_amount p = of_int \<lfloor>sp_amount p\<rfloor>) (supplier_payments d)
     \<and> (\<Sum>p\<leftarrow>purchases d. pu_total_amount p) \<le> 2 ^ 52"

definition payable_account :: "db \<Rightarrow> int \<Rightarrow> rat" where
  "payable_account d j = sum_list (payable_charges d j) - sum_list (payable_settlements d j)"

definition purchase_part :: "int \<Rightarrow> purchase \<Rightarrow> rat" where
  "purchase_part j p = (if pu_supplier_id p = j \<and> pu_status p = ''approved'' \<and> \<not> is_reversed (pu_reversal p)
                        then pu_total_amount p else 0)"

definition paid_part :: "int \<Rightarrow> supplier_payment \<Rightarrow> rat" where
  "paid_part j p = (if sp_supplier_id p = j \<and> \<not> is_reversed (sp_reversal p) then sp_amount p else 0)"

lemma payable_account_sums:
  "payable_account d j = (\<Sum>p\<leftarrow>purchases d. purchase_part j p) - (\<Sum>p\<leftarrow>supplier_payments d. paid_part j p)"
  unfolding payable_account_def payable_charges_def payable_settlements_def purchase_part_def paid_part_def
  by (simp only: sum_list_map_filter')

definition payable_posting :: "db \<Rightarrow> db \<Rightarrow> bool" where
  "payable_posting d d' \<longleftrightarrow> (\<exists>i x. \<forall>j. payable_account d' j = payable_account d j + (if j = i then x else 0)
     \<and> (\<forall>b'. payable_stored d' j = Some b' \<longrightarrow> (\<exists>b. payable_stored d j = Some b
          \<and> (b' = b \<and> (j \<noteq> i \<or> x = 0) \<or> j = i \<and> b' = fl (b + x)))))"

lemma payable_postingI:
  assumes "\<And>j. payable_account d' j = payable_account d j + (if j = i then x else 0)"
    and "get_row su_id (suppliers d) i = Some s" "su_id s' = i" "suppliers d' = put_row su_id s' (suppliers d)"
    and "su_payable_balance s' = fl (su_payable_balance s + x)"
  shows "payable_posting d d'"
  unfolding payable_posting_def
proof (rule exI [of _ i], rule exI [of _ x], intro allI conjI impI)
  fix j b' assume "payable_stored d' j = Some b'"
  with assms(2-5) show "\<exists>b. payable_stored d j = Some b \<and> (b' = b \<and> (j \<noteq> i \<or> x = 0) \<or> j = i \<and> b' = fl (b + x))"
    by (cases "j = i") (auto simp: payable_stored_def get_put_row)
qed (rule assms(1))

lemma payable_posting_quiet:
  "suppliers d' = suppliers d \<Longrightarrow> (\<And>j. payable_account d' j = payable_account d j) \<Longrightarrow> payable_posting d d'"
  unfolding payable_posting_def by (rule exI, rule exI [of _ 0]) (auto simp: payable_stored_def)

lemma payable_posting_trans:
  "suppliers d1 = suppliers d \<Longrightarrow> (\<And>j. payable_account d1 j = payable_account d j) \<Longrightarrow> payable_posting d1 d' \<Longrightarrow> payable_posting d d'"
  by (simp add: payable_posting_def payable_stored_def)

lemma purchase_mark_account:
  assumes "keyed pu_id (purchases d)" "get_row pu_id (purchases d) (pu_id p') = Some p"
    and "purchases d' = put_row pu_id p' (purchases d)" "supplier_payments d' = supplier_payments d"
  shows "payable_account d' j = payable_account d j - purchase_part j p + purchase_part j p'"
  using sum_list_put_row [OF assms(1,2), of "purchase_part j"] assms(3,4) by (simp add: payable_account_sums)

lemma paid_mark_account:
  assumes "keyed sp_id (supplier_payments d)" "get_row sp_id (supplier_payments d) (sp_id p') = Some p"
    and "supplier_payments d' = put_row sp_id p' (supplier_payments d)" "purchases d' = purchases d"
  shows "payable_account d' j = payable_account d j + paid_part j p - paid_part j p'"
  using sum_list_put_row [OF assms(1,2), of "paid_part j"] assms(3,4) by (simp add: payable_account_sums)

section \<open>Every operation posts exactly\<close>

lemma apply_purchase_effects_suppliers [simp]:
  "suppliers (apply_purchase_effects p t s k d)
    = put_row su_id (s\<lparr>su_payable_balance := fadd (su_payable_balance s) (pu_total_amount p)\<rparr>) (suppliers d)"
  by (simp add: apply_purchase_effects_def)

lemma purchase_create_step:
  assumes "create_purchase e d data u = Inr (p, d')" "payable_wf d"
  shows "payable_wf d' \<and> payable_posting d d'"
proof -
  from create_purchase_books [OF assms(1)] assms(2) have B: "books_ok d'" by (simp add: payable_wf_def)
  show ?thesis using assms(1)
  proof (rule create_purchase_Inr, goal_cases)
    case (1 tank supplier tanker c)
    have p: "pu_id p = next_id pu_id (purchases d)" "pu_reversal p = no_reversal" "pu_supplier_id p = pd_supplier_id data"
      "pu_status p = (if is_admin u then ''approved'' else ''pending'')" "\<not> is_reversed (pu_reversal p)"
      by (simp_all add: 1(6) new_purchase_def no_reversal_def)
    have T: "purchases d' = purchases d @ [p]" "supplier_payments d' = supplier_payments d" using 1(7) by auto
    have A: "payable_account d' j = payable_account d j + purchase_part j p" for j
      by (simp add: payable_account_sums T)
    have "payable_wf d'"
      using B assms(2) 1(7) p table.wf_add [of pu_id "purchases d" p]
      by (auto simp: payable_wf_def T add_row_def)
    moreover have "payable_posting d d'"
    proof (cases "is_admin u")
      case True
      let ?s = "supplier\<lparr>su_payable_balance := fadd (su_payable_balance supplier) (pu_total_amount p)\<rparr>"
      from get_row_Some [OF 1(2)] have "su_id supplier = pd_supplier_id data" by simp
      then show ?thesis
        using True 1(2,7) A p
        by (intro payable_postingI [where s'="?s" and s=supplier and x="pu_total_amount p" and i="pd_supplier_id data"])
          (auto simp: purchase_part_def fadd_def)
    next
      case False
      with 1(7) A p show ?thesis by (auto intro!: payable_posting_quiet simp: purchase_part_def)
    qed
    ultimately show ?case ..
  qed
qed

lemma purchase_approve_step:
  assumes "approve_purchase e d p u reason = Inr (p', d')" "payable_wf d" "get_row pu_id (purchases d) (pu_id p) = Some p"
  shows "payable_wf d' \<and> payable_posting d d'"
proof -
  from assms(2,3) have "books_ok d" "purchase_ok p" and R: "is_reversed (pu_reversal p) \<longrightarrow> pu_status p = ''approved''"
    by (auto simp: payable_wf_def list_all_iff dest: books_ok_rows(5) get_row_Some)
  from approve_purchase_books [OF assms(1) this(1,2)] have B: "books_ok d'" .
  show ?thesis using assms(1)
  proof (rule approve_purchase_Inr, goal_cases)
    case (1 tank supplier tanker c)
    let ?s = "supplier\<lparr>su_payable_balance := fadd (su_payable_balance supplier) (pu_total_amount p')\<rparr>"
    from 1(5) have p': "pu_id p' = pu_id p" "pu_supplier_id p' = pu_supplier_id p" "pu_total_amount p' = pu_total_amount p"
      "pu_status p' = ''approved''" "pu_reversal p' = pu_reversal p" by simp_all
    from 1(1) R have nr: "\<not> is_reversed (pu_reversal p)" by auto
    have "payable_account d' j = payable_account d j + (if j = pu_supplier_id p then pu_total_amount p else 0)" for j
      using purchase_mark_account [of d p' p d' j] assms(2,3) 1(1,6) p' nr
      by (auto simp: payable_wf_def purchase_part_def)
    then have "payable_posting d d'"
      using 1(3,6) p' get_row_Some [OF 1(3)]
      by (intro payable_postingI [where s'="?s" and s=supplier and x="pu_total_amount p" and i="pu_supplier_id p"])
        (auto simp: fadd_def)
    moreover have "payable_wf d'"
      using B assms(2) 1(6) p' by (simp add: payable_wf_def)
    ultimately show ?case by simp
  qed
qed

lemma purchase_reverse_step:
  assumes "reverse_purchase e d p u = Inr (p', d')" "payable_wf d" "get_row pu_id (purchases d) (pu_id p) = Some p"
  shows "payable_wf d' \<and> payable_posting d d'"
proof -
  from assms(2,3) have "books_ok d" "purchase_ok p" by (auto simp: payable_wf_def dest: books_ok_rows(5))
  from reverse_purchase_books [OF assms(1) this] have B: "books_ok d'" .
  show ?thesis using assms(1)
  proof (rule reverse_purchase_Inr, goal_cases)
    case (1 tank supplier c)
    let ?s = "supplier\<lparr>su_payable_balance := fsub (su_payable_balance supplier) (pu_total_amount p)\<rparr>"
    have "payable_account d' j = payable_account d j + (if j = pu_supplier_id p then - pu_total_amount p else 0)" for j
      using purchase_mark_account [of d p' p d' j] assms(2,3) 1(1,3,8,9)
      by (auto simp: payable_wf_def purchase_part_def reversal_marks)
    then have "payable_posting d d'"
      using 1(5,9) get_row_Some [OF 1(5)]
      by (intro payable_postingI [where s'="?s" and s=supplier and x="- pu_total_amount p" and i="pu_supplier_id p"])
        (auto simp: fsub_def)
    moreover have "payable_wf d'"
      using B assms(2) 1(1,8,9) by (simp add: payable_wf_def)
    ultimately show ?case by simp
  qed
qed
lemma purchase_review_frame:
  assumes "request_purchase_reversal e d p u reason = Inr (p', d') \<or> reject_purchase_reversal e d p u reason = Inr (p', d')"
  shows "\<exists>r c. is_reversed r = is_reversed (pu_reversal p) \<and> p' = p\<lparr>pu_reversal := r\<rparr>
    \<and> d' = d\<lparr>purchases := put_row pu_id p' (purchases d), comms := c\<rparr>"
  by (rule exI [of _ "pu_reversal p'"], rule exI [of _ "comms d'"], use assms in
      \<open>auto simp: request_purchase_reversal_def reject_purchase_reversal_def res_simps Let_def
        audit_purchase_def comms_updates reversal_marks\<close>)

lemma purchase_review_wf:
  assumes "payable_wf d" "get_row pu_id (purchases d) (pu_id p) = Some p" "is_reversed r = is_reversed (pu_reversal p)"
  defines "d1 \<equiv> \<lambda>c. d\<lparr>purchases := put_row pu_id (p\<lparr>pu_reversal := r\<rparr>) (purchases d), comms := c\<rparr>"
  shows "payable_wf (d1 c) \<and> suppliers (d1 c) = suppliers d \<and> (\<forall>j. payable_account (d1 c) j = payable_account d j)"
proof -
  let ?p = "p\<lparr>pu_reversal := r\<rparr>"
  from assms(1,2) have "purchase_ok ?p" "is_reversed (pu_reversal p) \<longrightarrow> pu_status p = ''approved''"
    by (auto simp: payable_wf_def purchase_ok_def list_all_iff dest: books_ok_rows(5) get_row_Some)
  with assms(1,3) have "payable_wf (d1 c)" by (simp add: d1_def payable_wf_def books_ok_def)
  moreover have "payable_account (d1 c) j = payable_account d j" for j
    using purchase_mark_account [of d ?p p "d1 c" j] assms(1-3) by (simp add: d1_def purchase_part_def payable_wf_def)
  ultimately show ?thesis by (simp add: d1_def)
qed

lemma purchase_reject_step:
  assumes "reject_purchase e d p u reason = Inr (p', d')" "payable_wf d" "get_row pu_id (purchases d) (pu_id p) = Some p"
  shows "payable_wf d' \<and> payable_posting d d'"
proof -
  from assms(2,3) have "books_ok d" "purchase_ok p" and R: "is_reversed (pu_reversal p) \<longrightarrow> pu_status p = ''approved''"
    by (auto simp: payable_wf_def list_all_iff dest: books_ok_rows(5) get_row_Some)
  from purchase_review_books(1) [OF assms(1) this(1,2)] have B: "books_ok d'" .
  from assms(1) have S: "pu_status p \<noteq> ''approved''" "pu_id p' = pu_id p" "pu_status p' = ''rejected''" "pu_reversal p' = pu_reversal p"
    "purchases d' = put_row pu_id p' (purchases d)" "supplier_payments d' = supplier_payments d" "suppliers d' = suppliers d"
    by (auto simp: reject_purchase_def res_simps Let_def audit_purchase_def comms_updates)
  with R B assms(2) have "payable_wf d'" by (simp add: payable_wf_def)
  moreover have "payable_account d' j = payable_account d j" for j
    using purchase_mark_account [of d p' p d' j] assms(2,3) S by (simp add: purchase_part_def payable_wf_def)
  ultimately show ?thesis using S(7) by (simp add: payable_posting_quiet)
qed

lemma purchase_review_step:
  assumes "purchase_route i e d x = Inr (p', d')" "payable_wf d"
  shows "payable_wf d' \<and> payable_posting d d'"
proof -
  from assms(1) obtain p where s: "get_row pu_id (purchases d) i = Some p" "pu_id p = i"
    by (cases x) (auto simp: route_reverse_purchase_def route_approve_purchase_reversal_def
        route_reject_purchase_reversal_def with_purchase_def res_simps dest: get_row_Some)
  from assms(1) s(1) consider u reason where "request_purchase_reversal e d p u reason = Inr (p', d')
        \<or> reject_purchase_reversal e d p u reason = Inr (p', d')"
    | u where "reverse_purchase e d p u = Inr (p', d')"
    | u reason where "approve_purchase_reversal e d p u reason = Inr (p', d')"
    by (cases x) (auto simp: route_reverse_purchase_def route_approve_purchase_reversal_def
        route_reject_purchase_reversal_def with_purchase_def res_simps split: if_splits)
  then show ?thesis
  proof cases
    case 1
    from purchase_review_frame [OF 1] obtain r c where "is_reversed r = is_reversed (pu_reversal p)"
      "d' = d\<lparr>purchases := put_row pu_id (p\<lparr>pu_reversal := r\<rparr>) (purchases d), comms := c\<rparr>" by blast
    with purchase_review_wf [OF assms(2), of p r c] s show ?thesis by (simp add: payable_posting_quiet)
  next
    case 2
    with purchase_reverse_step assms(2) s show ?thesis by simp
  next
    case 3
    then show ?thesis
    proof (rule approve_purchase_reversal_Inr)
      fix p1 c
      assume p1: "p1 = p\<lparr>pu_reversal := mark_approved e u (pu_reversal p)\<rparr>"
        and R: "reverse_purchase e (d\<lparr>purchases := put_row pu_id p1 (purchases d), comms := c\<rparr>) p1 u = Inr (p', d')"
      have "is_reversed (mark_approved e u (pu_reversal p)) = is_reversed (pu_reversal p)" by (simp add: reversal_marks)
      from purchase_review_wf [OF assms(2) _ this, of c] p1 s purchase_reverse_step [OF R]
      show ?thesis by (auto simp: get_put_row intro: payable_posting_trans [rotated 2])
    qed
  qed
qed

lemma supplier_payment_create_step:
  assumes "create_supplier_payment e d data u = Inr (p, d')" "payable_wf d"
  shows "payable_wf d' \<and> payable_posting d d'"
proof -
  from create_supplier_payment_books [OF assms(1)] assms(2) have B: "books_ok d'" by (simp add: payable_wf_def)
  show ?thesis using assms(1)
  proof (rule create_supplier_payment_Inr, goal_cases)
    case (1 supplier c)
    have "payable_account d' j = payable_account d j + (if j = zd_supplier_id data then - zd_amount data else 0)" for j
      using 1 by (auto simp: payable_account_sums paid_part_def new_supplier_payment_def no_reversal_def)
    with 1 have "payable_posting d d'"
      using payable_postingI [where d'=d' and d=d and x="- zd_amount data" and i="zd_supplier_id data" and s=supplier
          and s'="supplier\<lparr>su_payable_balance := fsub (su_payable_balance supplier) (zd_amount data)\<rparr>"] get_row_Some [OF 1(2)]
      by (simp add: fsub_def)
    moreover have "payable_wf d'"
      using B assms(2) 1(5,6) table.wf_add [of sp_id "supplier_payments d" p]
      by (simp add: payable_wf_def add_row_def new_supplier_payment_def)
    ultimately show ?case by simp
  qed
qed

lemma supplier_payment_reverse_step:
  assumes "reverse_supplier_payment e d p u = Inr (p', d')" "payable_wf d"
    and "get_row sp_id (supplier_payments d) (sp_id p) = Some p"
  shows "payable_wf d' \<and> payable_posting d d'"
proof -
  from assms(2,3) have "books_ok d" "supplier_payment_ok p" by (auto simp: payable_wf_def dest: books_ok_rows(7))
  from reverse_supplier_payment_books [OF assms(1) this] have B: "books_ok d'" .
  show ?thesis using assms(1)
  proof (rule reverse_supplier_payment_Inr, goal_cases)
    case (1 supplier c)
    have "payable_account d' j = payable_account d j + (if j = sp_supplier_id p then sp_amount p else 0)" for j
      using paid_mark_account [of d p' p d' j] assms(2,3) 1(2,4,5)
      by (auto simp: payable_wf_def paid_part_def reversal_marks)
    with 1 have "payable_posting d d'"
      using payable_postingI [where d'=d' and d=d and x="sp_amount p" and i="sp_supplier_id p" and s=supplier
          and s'="supplier\<lparr>su_payable_balance := fadd (su_payable_balance supplier) (sp_amount p)\<rparr>"] get_row_Some [OF 1(3)]
      by (simp add: fadd_def)
    moreover have "payable_wf d'" using B assms(2) 1(4,5) by (simp add: payable_wf_def)
    ultimately show ?case by simp
  qed
qed

lemma supplier_payment_review_frame:
  assumes "request_supplier_payment_reversal e d p u reason = Inr (p', d') \<or> reject_supplier_payment_reversal e d p u reason = Inr (p', d')"
  shows "\<exists>r c. is_reversed r = is_reversed (sp_reversal p) \<and> p' = p\<lparr>sp_reversal := r\<rparr>
    \<and> d' = d\<lparr>supplier_payments := put_row sp_id p' (supplier_payments d), comms := c\<rparr>"
  by (rule exI [of _ "sp_reversal p'"], rule exI [of _ "comms d'"], use assms in
      \<open>auto simp: request_supplier_payment_reversal_def reject_supplier_payment_reversal_def res_simps Let_def
        audit_supplier_payment_def comms_updates reversal_marks\<close>)

lemma supplier_payment_review_wf:
  assumes "payable_wf d" "get_row sp_id (supplier_payments d) (sp_id p) = Some p" "is_reversed r = is_reversed (sp_reversal p)"
  defines "d1 \<equiv> \<lambda>c. d\<lparr>supplier_payments := put_row sp_id (p\<lparr>sp_reversal := r\<rparr>) (supplier_payments d), comms := c\<rparr>"
  shows "payable_wf (d1 c) \<and> suppliers (d1 c) = suppliers d \<and> (\<forall>j. payable_account (d1 c) j = payable_account d j)"
proof -
  let ?p = "p\<lparr>sp_reversal := r\<rparr>"
  from assms(1,2) have "supplier_payment_ok ?p" by (auto simp: payable_wf_def supplier_payment_ok_def dest: books_ok_rows(7))
  with assms(1) have "payable_wf (d1 c)" by (simp add: d1_def payable_wf_def books_ok_def)
  moreover have "payable_account (d1 c) j = payable_account d j" for j
    using paid_mark_account [of d ?p p "d1 c" j] assms(1-3) by (simp add: d1_def paid_part_def payable_wf_def)
  ultimately show ?thesis by (simp add: d1_def)
qed

lemma supplier_payment_review_step:
  assumes "supplier_payment_route i e d x = Inr (p', d')" "payable_wf d"
  shows "payable_wf d' \<and> payable_posting d d'"
proof -
  from assms(1) obtain p where s: "get_row sp_id (supplier_payments d) i = Some p" "sp_id p = i"
    by (cases x) (auto simp: route_reverse_supplier_payment_def route_approve_supplier_payment_reversal_def
        route_reject_supplier_payment_reversal_def res_simps dest: get_row_Some)
  from assms(1) s(1) consider u reason where "request_supplier_payment_reversal e d p u reason = Inr (p', d')
        \<or> reject_supplier_payment_reversal e d p u reason = Inr (p', d')"
    | u where "reverse_supplier_payment e d p u = Inr (p', d')"
    | u reason where "approve_supplier_payment_reversal e d p u reason = Inr (p', d')"
    by (cases x) (auto simp: route_reverse_supplier_payment_def route_approve_supplier_payment_reversal_def
        route_reject_supplier_payment_reversal_def res_simps split: if_splits)
  then show ?thesis
  proof cases
    case 1
    from supplier_payment_review_frame [OF 1] obtain r c where "is_reversed r = is_reversed (sp_reversal p)"
      "d' = d\<lparr>supplier_payments := put_row sp_id (p\<lparr>sp_reversal := r\<rparr>) (supplier_payments d), comms := c\<rparr>" by blast
    with supplier_payment_review_wf [OF assms(2), of p r c] s show ?thesis by (simp add: payable_posting_quiet)
  next
    case 2
    with supplier_payment_reverse_step assms(2) s show ?thesis by simp
  next
    case 3
    then show ?thesis
    proof (rule approve_supplier_payment_reversal_Inr)
      fix p1 c
      assume p1: "p1 = p\<lparr>sp_reversal := mark_approved e u (sp_reversal p)\<rparr>"
        and R: "reverse_supplier_payment e (d\<lparr>supplier_payments := put_row sp_id p1 (supplier_payments d), comms := c\<rparr>) p1 u = Inr (p', d')"
      have "is_reversed (mark_approved e u (sp_reversal p)) = is_reversed (sp_reversal p)" by (simp add: reversal_marks)
      from supplier_payment_review_wf [OF assms(2) _ this, of c] p1 s supplier_payment_reverse_step [OF R]
      show ?thesis by (auto simp: get_put_row intro: payable_posting_trans [rotated 2])
    qed
  qed
qed

lemma payable_step:
  assumes "payable_act a d = Inr d'" "payable_wf d"
  shows "payable_wf d' \<and> payable_posting d d'"
proof (cases a)
  case (ApprovePurchase e i u reason)
  with assms obtain p p' where A: "get_row pu_id (purchases d) i = Some p" "approve_purchase e d p u reason = Inr (p', d')"
    by (auto simp: route_approve_purchase_def with_purchase_def res_simps)
  with get_row_Some [OF A(1)] purchase_approve_step [OF A(2) assms(2)] show ?thesis by simp
next
  case (RejectPurchase e i u reason)
  with assms obtain p p' where A: "get_row pu_id (purchases d) i = Some p" "reject_purchase e d p u reason = Inr (p', d')"
    by (auto simp: route_reject_purchase_def with_purchase_def res_simps)
  with get_row_Some [OF A(1)] purchase_reject_step [OF A(2) assms(2)] show ?thesis by simp
qed (use assms purchase_create_step purchase_review_step supplier_payment_create_step supplier_payment_review_step in
     \<open>fastforce simp: res_simps route_create_purchase_def route_create_supplier_payment_def\<close>)+

section \<open>The refinement\<close>

interpretation supplier_book: account_book payable_charges payable_settlements payable_stored payable_act payable_wf payable_ok
proof
  fix d i b a d'
  assume wf: "payable_wf d" and ok: "payable_ok d"
  then show "set (payable_charges d i) \<union> set (payable_settlements d i) \<subseteq> {x. x \<in> \<int> \<and> 0 \<le> x}"
    by (auto simp: payable_charges_def payable_settlements_def payable_wf_def payable_ok_def books_ok_def list_all_iff
        purchase_ok_def supplier_payment_ok_def intro: integral_Ints)
  have "sum_list (payable_charges d i) \<le> (\<Sum>p\<leftarrow>purchases d. pu_total_amount p)"
    unfolding payable_charges_def using wf
    by (intro sum_list_filter_le) (auto simp: payable_wf_def books_ok_def purchase_ok_def list_all_iff)
  with ok show "sum_list (payable_charges d i) \<le> 2 ^ 52" by (simp add: payable_ok_def)
  assume "payable_act a d = Inr d'"
  from payable_step [OF this wf] show "payable_wf d' \<and> (\<exists>i x. \<forall>j.
          sum_list (payable_charges d' j) - sum_list (payable_settlements d' j)
            = sum_list (payable_charges d j) - sum_list (payable_settlements d j) + (if j = i then x else 0)
          \<and> (\<forall>b'. payable_stored d' j = Some b' \<longrightarrow> (\<exists>b. payable_stored d j = Some b
               \<and> (b' = b \<and> (j \<noteq> i \<or> x = 0) \<or> j = i \<and> b' = fl (b + x)))))"
    by (simp add: payable_posting_def payable_account_def)
next
  fix d i b
  assume "payable_wf d" "payable_stored d i = Some b"
  then show "0 \<le> b" by (auto simp: payable_wf_def payable_stored_def supplier_ok_def dest: books_ok_rows(3))
qed

text \<open>C24. The stored payable balance of a supplier refines the supplier ledger: after any sequence of purchases, purchase
  approvals and rejections, supplier payments, and reversal requests, approvals and rejections that return
  normally, with whole amounts of a total volume up to \<open>2 ^ 52\<close>, the ledger that \<open>GET /ledger/supplier/{id}\<close> recomputes from the
  documents ends on exactly the stored payable balance, if that was so at the start.\<close>

theorem supplier_balance_refines_ledger:
  assumes "history payable_act payable_ok d0 d" "payable_wf d0" "payable_ok d0"
    and "list_all (\<lambda>s. su_payable_balance s = payable_account d0 (su_id s)) (suppliers d0)"
    and "get_row su_id (suppliers d) i = Some s"
  shows "\<exists>l. supplier_ledger d i = Inr l \<and> lg_final_balance l = su_payable_balance s"
proof -
  have "b = sum_list (payable_charges d0 i) - sum_list (payable_settlements d0 i)" if "payable_stored d0 i = Some b" for i b
    using that assms(4) get_row_Some [of su_id "suppliers d0" i]
    by (auto simp: payable_stored_def payable_account_def list_all_iff)
  from supplier_book.refines [OF assms(1-3) this] assms(5)
  have R: "payable_wf d" "payable_ok d" "payable_stored d i = Some (su_payable_balance s)"
    "su_payable_balance s = sum_list (payable_charges d i) - sum_list (payable_settlements d i)"
    by (auto simp: payable_stored_def)
  show ?thesis unfolding supplier_ledger_def using assms(5)
    by (simp add: supplier_book.ledger_agrees [OF R] payable_charges_def payable_settlements_def
        purchase_entry_def supplier_payment_entry_def comp_def)
qed

definition sample_bought_db :: db where
  "sample_bought_db = projr (payable_act (Buy sample_env sample_purchase_data sample_admin) sample_clear_db)"

definition sample_paid_db :: db where
  "sample_paid_db = projr (payable_act (Pay sample_env sample_supplier_payment_data sample_operator) sample_bought_db)"

theorem supplier_balance_refines_ledger_witness:
  "\<exists>l s. supplier_ledger sample_paid_db 1 = Inr l \<and> get_row su_id (suppliers sample_paid_db) 1 = Some s
     \<and> lg_final_balance l = su_payable_balance s"
proof -
  have r: "\<not> isl x \<Longrightarrow> x = Inr (projr x)" for x :: "db res" by (cases x) simp_all
  have 1: "\<not> isl (payable_act (Buy sample_env sample_purchase_data sample_admin) sample_clear_db)" by code_simp
  have 2: "\<not> isl (payable_act (Pay sample_env sample_supplier_payment_data sample_operator) sample_bought_db)" by code_simp
  have ok: "payable_ok sample_clear_db" "payable_ok sample_bought_db" "payable_ok sample_paid_db" by code_simp+
  have "history payable_act payable_ok sample_clear_db sample_bought_db"
    by (rule history.act, rule history.start) (rule r [OF 1, folded sample_bought_db_def], rule ok)
  then have H: "history payable_act payable_ok sample_clear_db sample_paid_db"
    by (rule history.act) (rule r [OF 2, folded sample_paid_db_def], rule ok)
  have "get_row su_id (suppliers sample_paid_db) 1 \<noteq> None" by code_simp
  then obtain s where s: "get_row su_id (suppliers sample_paid_db) 1 = Some s" by blast
  have "payable_wf sample_clear_db" by code_simp
  moreover have "list_all (\<lambda>s. su_payable_balance s = payable_account sample_clear_db (su_id s)) (suppliers sample_clear_db)"
    by code_simp
  ultimately show ?thesis using supplier_balance_refines_ledger [OF H _ ok(1) _ s] s by blast
qed

end
