(* ===== verification/Compliance.thy ===== *)
theory Compliance
  imports Notify
begin

text \<open>
  \<open>app/services/compliance.py\<close>, \<open>app/services/invoice_profiles.py\<close> and \<open>app/api/invoice_profile.py\<close>: the invoice
  profile of a station, its policy and presets, document numbers, the tax of an invoice and the electronic
  invoice in its JSON and XML form. \<open>ValueError\<close> is caught by the services that validate a profile.
\<close>

section \<open>Presets and policy\<close>

definition VALID_COMPLIANCE_MODES :: "string list" where
  "VALID_COMPLIANCE_MODES = [''standard'', ''regional_strict'', ''tax_exempt'']"

definition DEFAULT_REGION_CODE :: string where "DEFAULT_REGION_CODE = ''DEFAULT''"
definition DEFAULT_CURRENCY_CODE :: string where "DEFAULT_CURRENCY_CODE = ''PKR''"

record compliance_preset =
  cs_region_code :: string
  cs_currency_code :: string
  cs_compliance_mode :: string
  cs_enforce_tax_registration :: bool
  cs_default_tax_rate :: pyfloat
  cs_tax_inclusive :: bool
  cs_tax_label_1 :: string

definition COMPLIANCE_PRESETS :: "(string \<times> compliance_preset) list" where
  "COMPLIANCE_PRESETS =
   [(''DEFAULT'', \<lparr>cs_region_code = ''DEFAULT'', cs_currency_code = ''PKR'', cs_compliance_mode = ''standard'',
       cs_enforce_tax_registration = False, cs_default_tax_rate = 0, cs_tax_inclusive = False, cs_tax_label_1 = ''Tax''\<rparr>),
    (''PK-DEFAULT'', \<lparr>cs_region_code = ''PK'', cs_currency_code = ''PKR'', cs_compliance_mode = ''regional_strict'',
       cs_enforce_tax_registration = True, cs_default_tax_rate = 18, cs_tax_inclusive = False, cs_tax_label_1 = ''GST''\<rparr>),
    (''PK-SINDH'', \<lparr>cs_region_code = ''PK-SINDH'', cs_currency_code = ''PKR'', cs_compliance_mode = ''regional_strict'',
       cs_enforce_tax_registration = True, cs_default_tax_rate = 18, cs_tax_inclusive = False, cs_tax_label_1 = ''SRB GST''\<rparr>),
    (''PK-PUNJAB'', \<lparr>cs_region_code = ''PK-PUNJAB'', cs_currency_code = ''PKR'', cs_compliance_mode = ''regional_strict'',
       cs_enforce_tax_registration = True, cs_default_tax_rate = 18, cs_tax_inclusive = False, cs_tax_label_1 = ''PRA GST''\<rparr>),
    (''TAX-EXEMPT'', \<lparr>cs_region_code = ''DEFAULT'', cs_currency_code = ''PKR'', cs_compliance_mode = ''tax_exempt'',
       cs_enforce_tax_registration = False, cs_default_tax_rate = 0, cs_tax_inclusive = False, cs_tax_label_1 = ''Tax Exempt''\<rparr>)]"

fun sub_runs :: "bool \<Rightarrow> string \<Rightarrow> string" where
  \<comment> \<open>\<open>re.sub("[^A-Z0-9]+", "-", s)\<close>; the flag: inside a run that has been replaced\<close>
  "sub_runs inside [] = []"
| "sub_runs inside (c # s) =
     (if CHR ''A'' \<le> c \<and> c \<le> CHR ''Z'' \<or> is_digit c then c # sub_runs False s
      else if inside then sub_runs True s else CHR ''-'' # sub_runs True s)"

definition strip_dashes :: "string \<Rightarrow> string" where
  "strip_dashes s = rev (dropWhile (\<lambda>c. c = CHR ''-'') (rev (dropWhile (\<lambda>c. c = CHR ''-'') s)))"

definition normalize_document_segment :: "string option \<Rightarrow> string \<Rightarrow> string" where
  "normalize_document_segment v fallback =
     (let cleaned = strip_dashes (sub_runs False (py_upper (py_strip (if truthy v then the v else fallback)))) in
      if cleaned = [] then fallback else cleaned)"

definition list_compliance_presets :: "(string \<times> compliance_preset) list" where
  "list_compliance_presets = COMPLIANCE_PRESETS"

definition get_compliance_preset :: "string \<Rightarrow> compliance_preset res" where
  "get_compliance_preset code =
     (case map_of COMPLIANCE_PRESETS (py_upper code) of None \<Rightarrow> Inl (ValueError [T ''Unknown compliance preset''])
      | Some p \<Rightarrow> Inr p)"

definition apply_compliance_preset :: "invoice_profile \<Rightarrow> string \<Rightarrow> invoice_profile res" where
  "apply_compliance_preset profile preset_code =
     (case get_compliance_preset preset_code of Inl x \<Rightarrow> Inl x | Inr preset \<Rightarrow>
      Inr (profile\<lparr>ip_region_code := Some (cs_region_code preset), ip_currency_code := Some (cs_currency_code preset),
        ip_compliance_mode := cs_compliance_mode preset, ip_enforce_tax_registration := cs_enforce_tax_registration preset,
        ip_default_tax_rate := cs_default_tax_rate preset, ip_tax_inclusive := cs_tax_inclusive preset,
        ip_tax_label_1 := (if truthy (ip_tax_label_1 profile) then ip_tax_label_1 profile else Some (cs_tax_label_1 preset))\<rparr>))"

definition strict_fields :: "invoice_profile \<Rightarrow> (string \<times> string option) list" where
  "strict_fields profile =
     [(''legal_name'', ip_legal_name profile), (''registration_no'', ip_registration_no profile),
      (''region_code'', ip_region_code profile), (''currency_code'', ip_currency_code profile),
      (''invoice_prefix'', ip_invoice_prefix profile), (''invoice_series'', ip_invoice_series profile)]"

definition join :: "string \<Rightarrow> string list \<Rightarrow> string" where
  \<comment> \<open>\<open>sep.join(xs)\<close>\<close>
  "join sep xs = (case xs of [] \<Rightarrow> [] | x # r \<Rightarrow> x @ concat (map (\<lambda>y. sep @ y) r))"

definition validate_invoice_profile_policy :: "invoice_profile \<Rightarrow> unit res" where
  "validate_invoice_profile_policy profile =
     (let raise = (\<lambda>s. Inl (ValueError [T s]) :: unit res); width = ip_invoice_number_width profile;
          missing = map fst (filter (\<lambda>(_, v). \<not> truthy v) (strict_fields profile)) in
      if ip_compliance_mode profile \<notin> set VALID_COMPLIANCE_MODES then raise ''Invalid compliance mode''
      else if width \<noteq> 0 \<and> width < 3 then raise ''Invoice number width must be at least 3''
      else if width \<noteq> 0 \<and> width > 12 then raise ''Invoice number width must not exceed 12''
      else if ip_default_tax_rate profile < 0 then raise ''Default tax rate cannot be negative''
      else if ip_default_tax_rate profile > 100 then raise ''Default tax rate cannot exceed 100''
      else if truthy (ip_invoice_prefix profile)
              \<and> length (normalize_document_segment (ip_invoice_prefix profile) ''DOC'') < 2
      then raise ''Invoice prefix must contain at least 2 valid characters''
      else if ip_enforce_tax_registration profile \<and> \<not> truthy (ip_tax_registration_no profile)
      then raise ''Tax registration number is required when tax registration enforcement is enabled''
      else if ip_compliance_mode profile = ''regional_strict'' then
        (if missing \<noteq> [] then raise (''Regional strict mode requires: '' @ join '', '' missing)
         else if \<not> truthy (ip_tax_label_1 profile) then raise ''Regional strict mode requires a primary tax label''
         else ok)
      else ok)"

section \<open>Names, numbers and tax of a document\<close>

definition get_business_display_name :: "invoice_profile option \<Rightarrow> station \<Rightarrow> string" where
  "get_business_display_name profile station =
     (case profile of None \<Rightarrow> st_name station
      | Some p \<Rightarrow> if truthy (ip_legal_name p) then the (ip_legal_name p)
                  else if ip_business_name p \<noteq> [] then ip_business_name p else st_name station)"

definition build_document_number :: "invoice_profile option \<Rightarrow> string \<Rightarrow> string" where
  "build_document_number profile suffix =
     (let prefix = normalize_document_segment (case profile of None \<Rightarrow> None | Some p \<Rightarrow> ip_invoice_prefix p) ''DOC'';
          series = (case profile of None \<Rightarrow> []
                    | Some p \<Rightarrow> if truthy (ip_invoice_series p) then normalize_document_segment (ip_invoice_series p) [] else [])
      in join ''-'' ([prefix] @ (if series = [] then [] else [series]) @ [normalize_document_segment (Some suffix) ''DOC'']))"

definition build_numbered_suffix :: "invoice_profile option \<Rightarrow> string \<Rightarrow> int \<Rightarrow> string" where
  "build_numbered_suffix profile code entity_id =
     (let width = (case profile of None \<Rightarrow> 6 | Some p \<Rightarrow> if ip_invoice_number_width p \<noteq> 0 then ip_invoice_number_width p else 6) in
      normalize_document_segment (Some code) ''DOC'' @ ''-'' @ zfill (nat width) (str_int entity_id))"

definition calculate_tax_breakdown :: "invoice_profile option \<Rightarrow> pyfloat \<Rightarrow> pyfloat \<times> pyfloat \<times> pyfloat" where
  "calculate_tax_breakdown profile amount =
     (let rate = (case profile of None \<Rightarrow> 0
                  | Some p \<Rightarrow> if ip_compliance_mode p = ''tax_exempt'' then 0 else ip_default_tax_rate p) in
      if rate = 0 then (fround2 amount, 0, fround2 amount)
      else let (subtotal, tax_amount, total) =
            (if (case profile of None \<Rightarrow> False | Some p \<Rightarrow> ip_tax_inclusive p)
             then (let subtotal = fdiv amount (fadd 1 (fdiv rate 100)) in (subtotal, fsub amount subtotal, amount))
             else (let tax_amount = fmul amount (fdiv rate 100) in (amount, tax_amount, fadd amount tax_amount)))
      in (fround2 subtotal, fround2 tax_amount, fround2 total))"

definition get_tax_label :: "invoice_profile option \<Rightarrow> string" where
  "get_tax_label profile =
     (case profile of None \<Rightarrow> ''Tax'' | Some p \<Rightarrow> if truthy (ip_tax_label_1 p) then the (ip_tax_label_1 p) else ''Tax'')"

record policy_context =
  pc_currency_code :: string
  pc_region_code :: string
  pc_compliance_mode :: string
  pc_enforce_tax_registration :: bool
  pc_tax_label :: string

definition text_or :: "invoice_profile option \<Rightarrow> (invoice_profile \<Rightarrow> string option) \<Rightarrow> string \<Rightarrow> string" where
  \<comment> \<open>\<open>profile.x if profile and profile.x else fallback\<close>\<close>
  "text_or profile f fallback =
     (case profile of None \<Rightarrow> fallback | Some p \<Rightarrow> if truthy (f p) then the (f p) else fallback)"

definition get_document_policy_context :: "invoice_profile option \<Rightarrow> policy_context" where
  "get_document_policy_context profile =
     \<lparr>pc_currency_code = text_or profile ip_currency_code DEFAULT_CURRENCY_CODE,
      pc_region_code = text_or profile ip_region_code DEFAULT_REGION_CODE,
      pc_compliance_mode = (case profile of None \<Rightarrow> ''standard'' | Some p \<Rightarrow> ip_compliance_mode p),
      pc_enforce_tax_registration = (case profile of None \<Rightarrow> False | Some p \<Rightarrow> ip_enforce_tax_registration p),
      pc_tax_label = get_tax_label profile\<rparr>"
section \<open>The electronic invoice\<close>

record einvoice =
  ei_schema_version :: string
  ei_document_type :: string
  ei_document_number :: string
  ei_issued_at :: datetime
  ei_seller_business_name :: string
  ei_seller_legal_name :: string
  ei_seller_registration_no :: "string option"
  ei_seller_tax_registration_no :: "string option"
  ei_seller_region_code :: string
  ei_seller_currency_code :: string
  ei_buyer_name :: string
  ei_buyer_contact :: "string option"
  ei_buyer_account_type :: string
  ei_line_description :: string
  ei_line_quantity :: pyfloat
  ei_line_unit :: string
  ei_line_unit_price :: pyfloat
  ei_line_subtotal :: pyfloat
  ei_tax_mode :: string
  ei_tax_label :: string
  ei_tax_amount :: pyfloat
  ei_total_subtotal :: pyfloat
  ei_total_tax :: pyfloat
  ei_grand_total :: pyfloat
  ei_payment_terms :: "string option"
  ei_notes :: "string option"

definition sale_customer_of :: "db \<Rightarrow> fuel_sale \<Rightarrow> customer option" where
  \<comment> \<open>the relationship \<open>sale.customer\<close>\<close>
  "sale_customer_of d sale = (case fs_customer_id sale of None \<Rightarrow> None | Some i \<Rightarrow> get_row cu_id (customers d) i)"

definition text_if :: "invoice_profile option \<Rightarrow> (invoice_profile \<Rightarrow> string option) \<Rightarrow> string option" where
  \<comment> \<open>\<open>profile.x if profile and profile.x else None\<close>\<close>
  "text_if profile f = (case profile of None \<Rightarrow> None | Some p \<Rightarrow> if truthy (f p) then f p else None)"

definition build_fuel_sale_einvoice_payload ::
  "db \<Rightarrow> invoice_profile option \<Rightarrow> station \<Rightarrow> fuel_sale \<Rightarrow> pyfloat \<Rightarrow> pyfloat \<Rightarrow> pyfloat \<Rightarrow> string \<Rightarrow> einvoice res" where
  "build_fuel_sale_einvoice_payload d profile station sale subtotal tax_amount total_amount document_number =
     (let policy = get_document_policy_context profile; customer = sale_customer_of d sale in
      case get_row ft_id (fuel_types d) (fs_fuel_type_id sale) of None \<Rightarrow> Inl AttributeError | Some fuel \<Rightarrow>
      Inr \<lparr>ei_schema_version = ''ppms.einvoice.v1'', ei_document_type = ''fuel_sale_invoice'',
        ei_document_number = document_number, ei_issued_at = fs_created_at sale,
        ei_seller_business_name = (case profile of None \<Rightarrow> st_name station
           | Some p \<Rightarrow> if ip_business_name p \<noteq> [] then ip_business_name p else st_name station),
        ei_seller_legal_name = get_business_display_name profile station,
        ei_seller_registration_no = Option.bind profile ip_registration_no,
        ei_seller_tax_registration_no = Option.bind profile ip_tax_registration_no,
        ei_seller_region_code = pc_region_code policy, ei_seller_currency_code = pc_currency_code policy,
        ei_buyer_name = (case customer of None \<Rightarrow> ''Walk-in Customer'' | Some c \<Rightarrow> cu_name c),
        ei_buyer_contact = Option.bind customer cu_phone, ei_buyer_account_type = fs_sale_type sale,
        ei_line_description = ft_name fuel, ei_line_quantity = fround2 (fs_quantity sale), ei_line_unit = ''liter'',
        ei_line_unit_price = fround2 (fs_rate_per_liter sale), ei_line_subtotal = fround2 subtotal,
        ei_tax_mode = pc_compliance_mode policy, ei_tax_label = pc_tax_label policy, ei_tax_amount = fround2 tax_amount,
        ei_total_subtotal = fround2 subtotal, ei_total_tax = fround2 tax_amount, ei_grand_total = fround2 total_amount,
        ei_payment_terms = text_if profile ip_payment_terms, ei_notes = text_if profile ip_sale_invoice_notes\<rparr>)"

definition xml_escape :: "string \<Rightarrow> string" where
  \<comment> \<open>\<open>xml.sax.saxutils.escape\<close>: quotation marks are left alone\<close>
  "xml_escape s = concat (map (\<lambda>c. if c = CHR ''&'' then ''&amp;'' else if c = CHR ''>'' then ''&gt;''
                                  else if c = CHR ''<'' then ''&lt;'' else [c]) s)"

definition or_empty :: "string option \<Rightarrow> string" where
  \<comment> \<open>\<open>x or ""\<close>\<close>
  "or_empty x = (case x of None \<Rightarrow> [] | Some s \<Rightarrow> s)"

definition attr :: "string \<Rightarrow> string \<Rightarrow> fstring" where
  \<comment> \<open>\<open>name="{escape(value)}"\<close> after a space\<close>
  "attr name s = [T ('' '' @ name @ ''='' @ [CHR 0x22]), T (xml_escape s), T [CHR 0x22]]"

definition num_attr :: "string \<Rightarrow> pyfloat \<Rightarrow> fstring" where
  "num_attr name x = [T ('' '' @ name @ ''='' @ [CHR 0x22]), D x, T [CHR 0x22]]"

definition build_fuel_sale_einvoice_xml :: "einvoice \<Rightarrow> fstring" where
  "build_fuel_sale_einvoice_xml p =
     [T ''<?xml''] @ attr ''version'' ''1.0'' @ attr ''encoding'' ''UTF-8'' @ [T ''?>'']
     @ [T ''<PPMSEInvoice''] @ attr ''schemaVersion'' (ei_schema_version p) @ [T ''>'']
     @ [T ''<Document''] @ attr ''type'' (ei_document_type p) @ attr ''number'' (ei_document_number p)
       @ [T ('' issuedAt='' @ [CHR 0x22]), At (ei_issued_at p), T [CHR 0x22]] @ [T '' />'']
     @ [T ''<Seller''] @ attr ''businessName'' (ei_seller_business_name p) @ attr ''legalName'' (ei_seller_legal_name p)
       @ attr ''registrationNo'' (or_empty (ei_seller_registration_no p))
       @ attr ''taxRegistrationNo'' (or_empty (ei_seller_tax_registration_no p))
       @ attr ''regionCode'' (ei_seller_region_code p) @ attr ''currencyCode'' (ei_seller_currency_code p) @ [T '' />'']
     @ [T ''<Buyer''] @ attr ''name'' (ei_buyer_name p) @ attr ''contact'' (or_empty (ei_buyer_contact p))
       @ attr ''accountType'' (ei_buyer_account_type p) @ [T '' />'']
     @ [T ''<Line''] @ attr ''description'' (ei_line_description p) @ num_attr ''quantity'' (ei_line_quantity p)
       @ attr ''unit'' (ei_line_unit p) @ num_attr ''unitPrice'' (ei_line_unit_price p)
       @ num_attr ''subtotal'' (ei_line_subtotal p) @ [T '' />'']
     @ [T ''<Tax''] @ attr ''mode'' (ei_tax_mode p) @ attr ''label'' (ei_tax_label p) @ num_attr ''amount'' (ei_tax_amount p) @ [T '' />'']
     @ [T ''<Totals''] @ num_attr ''subtotal'' (ei_total_subtotal p) @ num_attr ''tax'' (ei_total_tax p)
       @ num_attr ''grandTotal'' (ei_grand_total p) @ [T '' />'']
     @ [T ''<Notes>'', T (xml_escape (or_empty (ei_notes p))), T ''</Notes>'', T ''</PPMSEInvoice>'']"

section \<open>Invoice profiles (\<open>services/invoice_profiles.py\<close>)\<close>

record invoice_profile_update =
  iu_business_name :: string
  iu_legal_name :: "string option"
  iu_logo_url :: "string option"
  iu_registration_no :: "string option"
  iu_tax_registration_no :: "string option"
  iu_tax_label_1 :: "string option"
  iu_tax_value_1 :: "string option"
  iu_tax_label_2 :: "string option"
  iu_tax_value_2 :: "string option"
  iu_default_tax_rate :: pyfloat
  iu_tax_inclusive :: bool
  iu_region_code :: "string option"
  iu_currency_code :: "string option"
  iu_compliance_mode :: string
  iu_enforce_tax_registration :: bool
  iu_contact_email :: "string option"
  iu_contact_phone :: "string option"
  iu_footer_text :: "string option"
  iu_invoice_prefix :: "string option"
  iu_invoice_series :: "string option"
  iu_invoice_number_width :: int
  iu_payment_terms :: "string option"
  iu_sale_invoice_notes :: "string option"

definition ensure_invoice_profile_access :: "db \<Rightarrow> int \<Rightarrow> user \<Rightarrow> station res" where
  "ensure_invoice_profile_access d station_id u =
     (case get_row st_id (stations d) station_id of None \<Rightarrow> http 404 ''Station not found'' | Some station \<Rightarrow>
      if is_admin u then Inr station
      else if is_head_office_user u then
        (if st_organization_id station = get_user_organization_id d u then Inr station
         else http 403 ''Not authorized for this station'')
      else if u_station_id u \<noteq> Some station_id \<or> role_of u \<noteq> ''Manager'' then http 403 ''Not authorized for this station''
      else Inr station)"

definition put_profile :: "invoice_profile \<Rightarrow> db \<Rightarrow> db" where
  "put_profile p d = d\<lparr>document_tables := (document_tables d)\<lparr>invoice_profiles := put_row ip_id p (invoice_profiles (document_tables d))\<rparr>\<rparr>"

definition profile_of :: "db \<Rightarrow> station \<Rightarrow> invoice_profile option" where
  "profile_of d station = find (\<lambda>p. ip_station_id p = st_id station) (invoice_profiles (document_tables d))"

definition new_invoice_profile :: "db \<Rightarrow> station \<Rightarrow> invoice_profile" where
  "new_invoice_profile d station =
     \<lparr>ip_id = next_id ip_id (invoice_profiles (document_tables d)), ip_station_id = st_id station, ip_business_name = st_name station,
      ip_legal_name = None, ip_logo_url = None, ip_registration_no = None, ip_tax_registration_no = None, ip_tax_label_1 = None,
      ip_tax_value_1 = None, ip_tax_label_2 = None, ip_tax_value_2 = None, ip_default_tax_rate = 0, ip_tax_inclusive = False,
      ip_region_code = None, ip_currency_code = None, ip_compliance_mode = ''standard'', ip_enforce_tax_registration = False,
      ip_contact_email = None, ip_contact_phone = None, ip_footer_text = None, ip_invoice_prefix = Some (st_code station),
      ip_invoice_series = None, ip_invoice_number_width = 6, ip_payment_terms = None, ip_sale_invoice_notes = None\<rparr>"

definition get_or_create_invoice_profile :: "db \<Rightarrow> station \<Rightarrow> invoice_profile \<times> db" where
  "get_or_create_invoice_profile d station =
     (case profile_of d station of
        Some p \<Rightarrow> (p, d)
      | None \<Rightarrow> (let p = new_invoice_profile d station in
          (p, d\<lparr>document_tables := (document_tables d)\<lparr>invoice_profiles := add_row p (invoice_profiles (document_tables d))\<rparr>\<rparr>)))"

definition set_profile :: "invoice_profile \<Rightarrow> invoice_profile_update \<Rightarrow> invoice_profile" where
  \<comment> \<open>\<open>setattr\<close> of every field of the request\<close>
  "set_profile p data =
     \<lparr>ip_id = ip_id p, ip_station_id = ip_station_id p, ip_business_name = iu_business_name data,
      ip_legal_name = iu_legal_name data, ip_logo_url = iu_logo_url data, ip_registration_no = iu_registration_no data,
      ip_tax_registration_no = iu_tax_registration_no data, ip_tax_label_1 = iu_tax_label_1 data,
      ip_tax_value_1 = iu_tax_value_1 data, ip_tax_label_2 = iu_tax_label_2 data, ip_tax_value_2 = iu_tax_value_2 data,
      ip_default_tax_rate = iu_default_tax_rate data, ip_tax_inclusive = iu_tax_inclusive data,
      ip_region_code = iu_region_code data, ip_currency_code = iu_currency_code data,
      ip_compliance_mode = iu_compliance_mode data, ip_enforce_tax_registration = iu_enforce_tax_registration data,
      ip_contact_email = iu_contact_email data, ip_contact_phone = iu_contact_phone data,
      ip_footer_text = iu_footer_text data, ip_invoice_prefix = iu_invoice_prefix data,
      ip_invoice_series = iu_invoice_series data, ip_invoice_number_width = iu_invoice_number_width data,
      ip_payment_terms = iu_payment_terms data, ip_sale_invoice_notes = iu_sale_invoice_notes data\<rparr>"

definition bad_request :: "'a res \<Rightarrow> 'a res" where
  \<comment> \<open>\<open>except ValueError as exc: raise HTTPException(400, str(exc))\<close>\<close>
  "bad_request r = (case r of Inl (ValueError s) \<Rightarrow> Inl (HTTPException 400 s) | _ \<Rightarrow> r)"

definition save_profile :: "invoice_profile res \<Rightarrow> db \<Rightarrow> invoice_profile res \<times> db" where
  \<comment> \<open>validation and commit; the row of \<open>get_or_create_invoice_profile\<close> is committed before, so it stays\<close>
  "save_profile r d =
     (case bad_request (case r of Inl x \<Rightarrow> Inl x | Inr p \<Rightarrow> check (validate_invoice_profile_policy p) (Inr p)) of
        Inl x \<Rightarrow> (Inl x, d)
      | Inr p \<Rightarrow> (Inr p, put_profile p d))"

definition update_invoice_profile :: "db \<Rightarrow> station \<Rightarrow> invoice_profile_update \<Rightarrow> invoice_profile res \<times> db" where
  "update_invoice_profile d station data =
     (let (p, d') = get_or_create_invoice_profile d station in save_profile (Inr (set_profile p data)) d')"

definition apply_invoice_profile_preset :: "db \<Rightarrow> station \<Rightarrow> string \<Rightarrow> invoice_profile res \<times> db" where
  "apply_invoice_profile_preset d station preset_code =
     (let (p, d') = get_or_create_invoice_profile d station in save_profile (apply_compliance_preset p preset_code) d')"

section \<open>Routes (\<open>api/invoice_profile.py\<close>)\<close>

definition get_compliance_presets :: "user \<Rightarrow> (string \<times> compliance_preset) list res" where
  "get_compliance_presets u =
     check (require_permission u ''invoice_profiles'' ''read'' ''You do not have permission to view invoice profiles'')
       (Inr list_compliance_presets)"

definition with_profile_station :: "user \<Rightarrow> string \<Rightarrow> string \<Rightarrow> db \<Rightarrow> int \<Rightarrow> (station \<Rightarrow> 'a res \<times> db) \<Rightarrow> 'a res \<times> db" where
  "with_profile_station u action detail d station_id k =
     (case check (require_permission u ''invoice_profiles'' action detail) (ensure_invoice_profile_access d station_id u) of
        Inl x \<Rightarrow> (Inl x, d)
      | Inr station \<Rightarrow> k station)"

definition get_invoice_profile :: "db \<Rightarrow> int \<Rightarrow> user \<Rightarrow> invoice_profile res \<times> db" where
  "get_invoice_profile d station_id u =
     with_profile_station u ''read'' ''You do not have permission to view invoice profiles'' d station_id
       (\<lambda>station. let (p, d') = get_or_create_invoice_profile d station in (Inr p, d'))"

definition put_invoice_profile :: "db \<Rightarrow> int \<Rightarrow> invoice_profile_update \<Rightarrow> user \<Rightarrow> invoice_profile res \<times> db" where
  "put_invoice_profile d station_id data u =
     with_profile_station u ''update'' ''You do not have permission to update invoice profiles'' d station_id
       (\<lambda>station. update_invoice_profile d station data)"

definition post_invoice_profile_preset :: "db \<Rightarrow> int \<Rightarrow> string \<Rightarrow> user \<Rightarrow> invoice_profile res \<times> db" where
  "post_invoice_profile_preset d station_id preset_code u =
     with_profile_station u ''update'' ''You do not have permission to update invoice profiles'' d station_id
       (\<lambda>station. apply_invoice_profile_preset d station preset_code)"

section \<open>Document numbers\<close>

lemma digit_char: "is_digit c \<Longrightarrow> upper_char c = c"
  by (auto simp: is_digit_def upper_char_def less_eq_char_def)

lemma dropWhile_digits: "list_all is_digit s \<Longrightarrow> s \<noteq> [] \<Longrightarrow> dropWhile is_space (x @ s) = dropWhile is_space x @ s"
  by (cases s) (auto simp: dropWhile_append digit_not_space)

lemma dropWhile_last: "s \<noteq> [] \<Longrightarrow> \<not> P (last s) \<Longrightarrow> rev (dropWhile P (rev s)) = s"
  by (cases s rule: rev_cases) simp_all

lemma py_strip_end: "list_all is_digit s \<Longrightarrow> s \<noteq> [] \<Longrightarrow> py_strip (x @ s) = dropWhile is_space x @ s"
  unfolding py_strip_def
proof (subst dropWhile_digits)
  assume s: "list_all is_digit s" "s \<noteq> []"
  show "list_all is_digit s" "s \<noteq> []" by (rule s)+
  from s have "\<not> is_space (last s)" by (simp add: list_all_iff digit_not_space)
  with s(2) show "rev (dropWhile is_space (rev (dropWhile is_space x @ s))) = dropWhile is_space x @ s"
    by (intro dropWhile_last) simp_all
qed

lemma sub_runs_append: "list_all is_digit s \<Longrightarrow> sub_runs b (x @ s) = sub_runs b x @ s"
proof (induction x arbitrary: b)
  case Nil
  then show ?case by (induction s arbitrary: b) simp_all
qed (simp_all)

lemma strip_dashes_end:
  "list_all is_digit s \<Longrightarrow> s \<noteq> [] \<Longrightarrow> strip_dashes (x @ s) = dropWhile (\<lambda>c. c = CHR ''-'') x @ s"
proof -
  assume s: "list_all is_digit s" "s \<noteq> []"
  then have "dropWhile (\<lambda>c. c = CHR ''-'') (x @ s) = dropWhile (\<lambda>c. c = CHR ''-'') x @ s"
    by (cases s) (auto simp: dropWhile_append digit_not_space)
  moreover have "last s \<noteq> CHR ''-''" using s by (auto simp: list_all_iff digit_not_space)
  ultimately show ?thesis
    unfolding strip_dashes_def using s dropWhile_last [of "dropWhile (\<lambda>c. c = CHR ''-'') x @ s"] by simp
qed

text \<open>Cleaning a segment keeps the digits at its end, whatever comes before them.\<close>

lemma normalize_digits:
  "\<exists>h. \<forall>s. list_all is_digit s \<longrightarrow> s \<noteq> [] \<longrightarrow> normalize_document_segment (Some (x @ s)) f = h @ s"
proof -
  have "normalize_document_segment (Some (x @ s)) f
      = dropWhile (\<lambda>c. c = CHR ''-'') (sub_runs False (map upper_char (dropWhile is_space x))) @ s"
    if s: "list_all is_digit s" "s \<noteq> []" for s
  proof -
    have "map upper_char s = s" using s by (intro map_idI) (simp add: list_all_iff digit_char)
    with s show ?thesis
      by (simp add: normalize_document_segment_def truthy_def Let_def py_strip_end py_upper_def sub_runs_append strip_dashes_end)
  qed
  then show ?thesis by blast
qed

lemma zfill_digits:
  assumes "0 \<le> i"
  shows "list_all is_digit (zfill w (str_int i)) \<and> zfill w (str_int i) \<noteq> []
    \<and> foldl (\<lambda>a c. 10 * a + (of_char c - 48)) 0 (zfill w (str_int i)) = i"
proof -
  obtain c t where s: "str_nat (nat i) = c # t" using str_nat_digits [of "nat i"] by (cases "str_nat (nat i)") auto
  with str_nat_digits [of "nat i"] have "is_digit c" by simp
  then have z: "zfill w (str_int i) = replicate (w - length (str_nat (nat i))) CHR ''0'' @ str_nat (nat i)"
    using assms s digit_not_space [of c] by (simp add: zfill_def str_int_def Let_def)
  have "foldl (\<lambda>a c. 10 * a + (of_char c - 48)) 0 (replicate n CHR ''0'') = (0 :: int)" for n
    by (induction n) simp_all
  moreover have "list_all is_digit (replicate n CHR ''0'')" for n
    by (simp add: list_all_iff is_digit_def less_eq_char_def)
  ultimately show ?thesis using assms str_nat_digits [of "nat i"] by (simp add: z)
qed

text \<open>
  C25. Document numbers identify the document: under one invoice profile, two documents of the same kind (the same
  code: receipts, vouchers, invoices, statements) get the same number only if they are made for the same row, whatever
  prefix, series and number width the profile has.
\<close>

theorem document_numbers_distinct:
  assumes "0 \<le> i" "0 \<le> j"
  shows "build_document_number profile (build_numbered_suffix profile code i)
      = build_document_number profile (build_numbered_suffix profile code j) \<longleftrightarrow> i = j"
proof -
  define w where "w = nat (case profile of None \<Rightarrow> 6 | Some p \<Rightarrow> if ip_invoice_number_width p \<noteq> 0 then ip_invoice_number_width p else 6)"
  define x where "x = normalize_document_segment (Some code) ''DOC'' @ ''-''"
  have suffix: "build_numbered_suffix profile code k = x @ zfill w (str_int k)" for k
    by (simp add: build_numbered_suffix_def x_def w_def Let_def)
  obtain h where h: "\<And>s. list_all is_digit s \<Longrightarrow> s \<noteq> [] \<Longrightarrow> normalize_document_segment (Some (x @ s)) ''DOC'' = h @ s"
    using normalize_digits [of x "''DOC''"] by blast
  have num: "\<exists>front. \<forall>s. build_document_number profile s = front @ normalize_document_segment (Some s) ''DOC''"
    by (auto simp: build_document_number_def join_def Let_def)
  then obtain front where front: "\<And>s. build_document_number profile s = front @ normalize_document_segment (Some s) ''DOC''" by blast
  note d = zfill_digits [OF assms(1), of w] zfill_digits [OF assms(2), of w]
  have "build_document_number profile (build_numbered_suffix profile code i) = front @ h @ zfill w (str_int i)"
    "build_document_number profile (build_numbered_suffix profile code j) = front @ h @ zfill w (str_int j)"
    using d by (simp_all add: suffix front h)
  moreover have "zfill w (str_int i) = zfill w (str_int j) \<Longrightarrow> i = j" using d by metis
  ultimately show ?thesis by auto
qed

theorem document_numbers_distinct_witness:
  "build_document_number None (build_numbered_suffix None ''CP'' 7) \<noteq> build_document_number None (build_numbered_suffix None ''CP'' 70)"
  using document_numbers_distinct [of 7 70 None "''CP''"] by simp

section \<open>The table of profiles\<close>

datatype profile_action =
    ReadProfile int user
  | PutProfile int invoice_profile_update user
  | ApplyPreset int string user

fun profile_act :: "profile_action \<Rightarrow> db \<Rightarrow> db" where
  \<comment> \<open>the state a request leaves; the row created on the way stays when the request fails\<close>
  "profile_act (ReadProfile i u) d = snd (get_invoice_profile d i u)"
| "profile_act (PutProfile i data u) d = snd (put_invoice_profile d i data u)"
| "profile_act (ApplyPreset i preset_code u) d = snd (post_invoice_profile_preset d i preset_code u)"

definition default_profile :: "invoice_profile \<Rightarrow> bool" where
  \<comment> \<open>as created for a station, not touched since\<close>
  "default_profile p \<longleftrightarrow> p =
     \<lparr>ip_id = ip_id p, ip_station_id = ip_station_id p, ip_business_name = ip_business_name p,
      ip_legal_name = None, ip_logo_url = None, ip_registration_no = None, ip_tax_registration_no = None, ip_tax_label_1 = None,
      ip_tax_value_1 = None, ip_tax_label_2 = None, ip_tax_value_2 = None, ip_default_tax_rate = 0, ip_tax_inclusive = False,
      ip_region_code = None, ip_currency_code = None, ip_compliance_mode = ''standard'', ip_enforce_tax_registration = False,
      ip_contact_email = None, ip_contact_phone = None, ip_footer_text = None, ip_invoice_prefix = ip_invoice_prefix p,
      ip_invoice_series = None, ip_invoice_number_width = 6, ip_payment_terms = None, ip_sale_invoice_notes = None\<rparr>"

definition profiles_ok :: "db \<Rightarrow> bool" where
  "profiles_ok d \<longleftrightarrow> keyed ip_id (invoice_profiles (document_tables d))
     \<and> distinct (map ip_station_id (invoice_profiles (document_tables d)))
     \<and> (\<forall>p \<in> set (invoice_profiles (document_tables d)). validate_invoice_profile_policy p = ok \<or> default_profile p)"

lemma get_or_create_ok:
  assumes "profiles_ok d" "get_or_create_invoice_profile d station = (p, d')"
  shows "profiles_ok d'" "p \<in> set (invoice_profiles (document_tables d'))" "ip_station_id p = st_id station"
proof -
  have "profiles_ok d' \<and> p \<in> set (invoice_profiles (document_tables d')) \<and> ip_station_id p = st_id station"
  proof (cases "profile_of d station")
    case None
    then have "st_id station \<notin> ip_station_id ` set (invoice_profiles (document_tables d))"
      by (auto simp: profile_of_def find_None_iff)
    moreover have "default_profile (new_invoice_profile d station)" by (simp add: default_profile_def new_invoice_profile_def)
    ultimately show ?thesis
      using assms None next_id_fresh [of ip_id "invoice_profiles (document_tables d)"]
      by (auto simp: get_or_create_invoice_profile_def profiles_ok_def keyed_def add_row_def new_invoice_profile_def Let_def)
  next
    case (Some q)
    then have "q \<in> set (invoice_profiles (document_tables d))" "ip_station_id q = st_id station"
      by (auto simp: profile_of_def find_Some_iff)
    with assms Some show ?thesis by (auto simp: get_or_create_invoice_profile_def)
  qed
  then show "profiles_ok d'" "p \<in> set (invoice_profiles (document_tables d'))" "ip_station_id p = st_id station" by auto
qed

lemma save_profile_ok:
  assumes "profiles_ok d" "p \<in> set (invoice_profiles (document_tables d))"
    and "\<And>q. r = Inr q \<Longrightarrow> ip_id q = ip_id p \<and> ip_station_id q = ip_station_id p"
  shows "profiles_ok (snd (save_profile r d))"
proof (cases "fst (save_profile r d)")
  case (Inl x)
  then have "snd (save_profile r d) = d" by (auto simp: save_profile_def split: sum.splits)
  with assms(1) show ?thesis by simp
next
  case (Inr q)
  then have r: "r = Inr q" and v: "validate_invoice_profile_policy q = ok" and s: "snd (save_profile r d) = put_profile q d"
    by (auto simp: save_profile_def bad_request_def res_simps check_def ok_def split: sum.splits pyexc.splits)
  let ?t = "invoice_profiles (document_tables d)"
  from assms(1) have K: "keyed ip_id ?t" by (simp add: profiles_ok_def)
  have "map ip_station_id (put_row ip_id q ?t) = map ip_station_id ?t"
  proof -
    have "ip_station_id (if ip_id x = ip_id q then q else x) = ip_station_id x" if "x \<in> set ?t" for x
      using that assms(2) assms(3) [OF r] K unfolding keyed_def distinct_map by (auto dest: inj_onD)
    then show ?thesis by (simp add: put_row_def)
  qed
  moreover have "validate_invoice_profile_policy x = ok \<or> default_profile x" if "x \<in> set (put_row ip_id q ?t)" for x
    using put_rowD [OF that] v assms(1) by (auto simp: profiles_ok_def)
  ultimately show ?thesis
    using assms(1) by (simp add: s put_profile_def profiles_ok_def keyed_def)
qed

lemma with_profile_station_cases:
  "snd (with_profile_station u action detail d i k) = d \<or> (\<exists>station. snd (with_profile_station u action detail d i k) = snd (k station))"
  by (auto simp: with_profile_station_def split: sum.splits)

lemma profile_act_ok: "profiles_ok d \<Longrightarrow> profiles_ok (profile_act a d)"
proof (cases a)
  case (ReadProfile i u)
  assume "profiles_ok d"
  then have "profiles_ok (snd (get_or_create_invoice_profile d station))" for station
    using get_or_create_ok(1) [of d station] by (metis prod.collapse)
  then have "profiles_ok (snd (let (p, d') = get_or_create_invoice_profile d station in (Inr p, d')))" for station
    by (simp add: Let_def split: prod.splits) (metis snd_conv)
  with \<open>profiles_ok d\<close> ReadProfile show ?thesis
    using with_profile_station_cases [of u "''read''" "''You do not have permission to view invoice profiles''" d i
        "\<lambda>station. let (p, d') = get_or_create_invoice_profile d station in (Inr p, d')"]
    by (auto simp only: get_invoice_profile_def profile_act.simps)
next
  case (PutProfile i data u)
  assume P: "profiles_ok d"
  have "profiles_ok (snd (update_invoice_profile d station data))" for station
  proof -
    obtain p d' where R: "get_or_create_invoice_profile d station = (p, d')" by fastforce
    from get_or_create_ok [OF P R] show ?thesis
      by (auto simp: update_invoice_profile_def R set_profile_def intro: save_profile_ok)
  qed
  with P PutProfile show ?thesis
    using with_profile_station_cases [of u "''update''" "''You do not have permission to update invoice profiles''" d i
        "\<lambda>station. update_invoice_profile d station data"]
    by (auto simp: put_invoice_profile_def)
next
  case (ApplyPreset i preset_code u)
  assume P: "profiles_ok d"
  have "profiles_ok (snd (apply_invoice_profile_preset d station preset_code))" for station
  proof -
    obtain p d' where R: "get_or_create_invoice_profile d station = (p, d')" by fastforce
    from get_or_create_ok [OF P R] show ?thesis
      by (auto simp: apply_invoice_profile_preset_def R apply_compliance_preset_def split: sum.splits intro!: save_profile_ok)
  qed
  with P ApplyPreset show ?thesis
    using with_profile_station_cases [of u "''update''" "''You do not have permission to update invoice profiles''" d i
        "\<lambda>station. apply_invoice_profile_preset d station preset_code"]
    by (auto simp: post_invoice_profile_preset_def)
qed

text \<open>
  C26. Whatever sequence of invoice profile requests is made, failed ones included, every station has at most one
  profile, and every stored profile either satisfies the compliance policy or is the untouched default of its station.
\<close>

theorem invoice_profiles_invariant:
  assumes "profiles_ok d"
  shows "profiles_ok (fold profile_act as d)"
  using assms by (induction as arbitrary: d) (simp_all add: profile_act_ok)

theorem invoice_profiles_invariant_witness:
  "profiles_ok (fold profile_act [ReadProfile 1 sample_manager, ApplyPreset 1 ''TAX-EXEMPT'' sample_admin,
     ApplyPreset 1 ''PK-SINDH'' sample_admin] sample_db)"
  by (rule invoice_profiles_invariant)
    (simp add: profiles_ok_def keyed_def sample_db_def empty_db_def empty_documents_def)

end
