(* ===== verification/Documents.thy ===== *)
theory Documents
  imports Compliance Ledger
begin

text \<open>
  \<open>app/services/document_rendering.py\<close>, \<open>document_templates.py\<close>, \<open>document_template_catalog.py\<close>,
  \<open>document_template_seed.py\<close>, \<open>app/api/document_template.py\<close> and the rendering half of
  \<open>app/services/financial_documents.py\<close>: the templates of a station, their rendering with
  \<open>str.format_map\<close>, and the five financial documents.
\<close>

section \<open>Rendering (\<open>document_rendering.py\<close>)\<close>

definition prefixed :: "fstring \<Rightarrow> fstring res option \<Rightarrow> fstring res option" where
  "prefixed v r = map_option (\<lambda>x. case x of Inl exc \<Rightarrow> Inl exc | Inr t \<Rightarrow> Inr (v @ t)) r"

definition field_value :: "(string \<times> fstring) list \<Rightarrow> string \<Rightarrow> fstring res" where
  \<comment> \<open>a lookup in \<open>_SafeFormatDict\<close>; an empty or numeric name asks for a positional argument\<close>
  "field_value context name =
     (if list_all is_digit name then Inl (ValueError [T ''Format string contains positional fields''])
      else Inr (case map_of context name of None \<Rightarrow> [T (''{'' @ name @ ''}'')] | Some v \<Rightarrow> v))"

fun format_text :: "(string \<times> fstring) list \<Rightarrow> string option \<Rightarrow> string \<Rightarrow> fstring res option" where
  \<comment> \<open>\<open>str.format_map\<close>, reading the text or (\<open>Some\<close>) the reversed name of a field; \<open>None\<close>: a field that
      is more than a name\<close>
  "format_text context None [] = Some (Inr [])"
| "format_text context (Some name) [] =
     Some (Inl (ValueError [if name = [] then T (''Single '' @ [CHR 0x27] @ ''{'' @ [CHR 0x27] @ '' encountered in format string'')
                            else T (''expected '' @ [CHR 0x27] @ ''}'' @ [CHR 0x27] @ '' before end of string'')]))"
| "format_text context None (c # s) =
     (if c = CHR ''{'' then
        (case s of [] \<Rightarrow> format_text context (Some []) s
         | c' # s' \<Rightarrow> if c' = CHR ''{'' then prefixed [T ''{''] (format_text context None s') else format_text context (Some []) s)
      else if c = CHR ''}'' then
        (case s of c' # s' \<Rightarrow> if c' = CHR ''}'' then prefixed [T ''}''] (format_text context None s')
             else Some (Inl (ValueError [T (''Single '' @ [CHR 0x27] @ ''}'' @ [CHR 0x27] @ '' encountered in format string'')]))
         | [] \<Rightarrow> Some (Inl (ValueError [T (''Single '' @ [CHR 0x27] @ ''}'' @ [CHR 0x27] @ '' encountered in format string'')])))
      else prefixed [T [c]] (format_text context None s))"
| "format_text context (Some name) (c # s) =
     (if c = CHR ''}'' then
        (case field_value context (rev name) of
           Inl exc \<Rightarrow> Some (Inl exc)
         | Inr v \<Rightarrow> prefixed v (format_text context None s))
      else if c \<in> set ''{[.!:'' then None
      else format_text context (Some (c # name)) s)"

fun joined_parts :: "fstring \<Rightarrow> fstring" where
  \<comment> \<open>the same text with neighbouring literals joined\<close>
  "joined_parts (T a # T b # r) = joined_parts (T (a @ b) # r)"
| "joined_parts (x # r) = x # joined_parts r"
| "joined_parts [] = []"

definition render_template_fragment :: "env \<Rightarrow> string option \<Rightarrow> (string \<times> fstring) list \<Rightarrow> fstring res" where
  "render_template_fragment e fragment context =
     (if \<not> truthy fragment then Inr []
      else case format_text context None (the fragment) of
             None \<Rightarrow> format_special e (the fragment) context
           | Some (Inl exc) \<Rightarrow> Inl exc
           | Some (Inr t) \<Rightarrow> Inr (joined_parts t))"

definition active_template :: "db \<Rightarrow> station \<Rightarrow> string \<Rightarrow> document_template option" where
  "active_template d station document_type =
     find (\<lambda>t. dt_station_id t = st_id station \<and> dt_document_type t = document_type \<and> dt_is_active t)
       (document_templates (document_tables d))"

definition html_block :: "fstring list \<Rightarrow> fstring" where
  \<comment> \<open>a triple quoted text: each line after a line break and four spaces\<close>
  "html_block lines = concat (map (\<lambda>l. T ([CHR 0x0A] @ ''    '') # l) lines) @ [T ([CHR 0x0A] @ ''    '')]"

definition labelled :: "string option \<Rightarrow> string \<Rightarrow> fstring" where
  "labelled x label = (if truthy x then [T (''<div>'' @ label @ '': ''), T (the x), T ''</div>''] else [])"

definition build_profile_header :: "invoice_profile option \<Rightarrow> station \<Rightarrow> fstring" where
  "build_profile_header profile station =
     (let business_name = get_business_display_name profile station;
          opt = (\<lambda>f. case profile of None \<Rightarrow> None | Some p \<Rightarrow> f p);
          logo_html = (if truthy (opt ip_logo_url)
            then [T (''<img src='' @ [CHR 0x27]), T (the (opt ip_logo_url)),
                  T ([CHR 0x27] @ '' alt='' @ [CHR 0x27] @ ''logo'' @ [CHR 0x27] @ '' style='' @ [CHR 0x27]
                     @ ''max-height:64px;'' @ [CHR 0x27] @ '' />'')] else []);
          tax = (\<lambda>l v. if truthy (opt l) \<and> truthy (opt v)
                       then [T ''<div>'', T (the (opt l)), T '': '', T (the (opt v)), T ''</div>''] else []);
          taxes = labelled (opt ip_registration_no) ''Registration No''
            @ labelled (opt ip_tax_registration_no) ''Tax Registration No''
            @ tax ip_tax_label_1 ip_tax_value_1 @ tax ip_tax_label_2 ip_tax_value_2;
          contact_lines = labelled (opt ip_contact_email) ''Email'' @ labelled (opt ip_contact_phone) ''Phone''
      in html_block
           [[T ''<div>''],
            T ''  '' # logo_html,
            [T ''  <h2>'', T business_name, T ''</h2>''],
            [T ''  <div>'', T (or_empty (st_address station)), T '' '', T (or_empty (st_city station)), T ''</div>''],
            T ''  '' # contact_lines,
            T ''  '' # taxes,
            [T ''</div>'']])"

definition compose_document_html ::
  "env \<Rightarrow> document_template option \<Rightarrow> fstring \<Rightarrow> fstring \<Rightarrow> fstring \<Rightarrow> (string \<times> fstring) list \<Rightarrow> fstring res" where
  "compose_document_html e template default_header_html default_body_html default_footer_html context =
     (let part = (\<lambda>f default. case template of None \<Rightarrow> Inr default
                  | Some t \<Rightarrow> if truthy (f t) then render_template_fragment e (f t) context else Inr default) in
      case part dt_header_html default_header_html of Inl exc \<Rightarrow> Inl exc | Inr header_html \<Rightarrow>
      case part dt_body_html default_body_html of Inl exc \<Rightarrow> Inl exc | Inr body_html \<Rightarrow>
      case part dt_footer_html default_footer_html of Inl exc \<Rightarrow> Inl exc | Inr footer_html \<Rightarrow>
      Inr ([T ''<html><body>''] @ header_html @ body_html @ footer_html @ [T ''</body></html>'']))"

section \<open>The catalog (\<open>document_template_catalog.py\<close>)\<close>

definition text_lines :: "string list \<Rightarrow> string" where
  "text_lines = join [CHR 0x0A]"

definition table_tag :: string where
  "table_tag = ''<table border='' @ [CHR 0x27] @ ''1'' @ [CHR 0x27] @ '' cellpadding='' @ [CHR 0x27] @ ''4'' @ [CHR 0x27]
     @ '' cellspacing='' @ [CHR 0x27] @ ''0'' @ [CHR 0x27] @ ''>''"

definition DEFAULT_TEMPLATES :: "(string \<times> string \<times> string) list" where
  \<comment> \<open>document type, name, body\<close>
  "DEFAULT_TEMPLATES =
   [(''customer_payment_receipt'', ''Default Customer Payment Receipt'', text_lines
      [''<h3>{document_title}</h3>'', ''<div>Receipt No: {document_number}</div>'', ''<div>Date: {created_at}</div>'',
       ''<div>Customer: {customer_name}</div>'', ''<div>Amount Received: {amount_received}</div>'',
       ''<div>Method: {payment_method}</div>'', ''<div>Reference: {reference_no}</div>'', ''<div>Notes: {notes}</div>'',
       ''<div>Current Outstanding Balance: {outstanding_balance}</div>'']),
    (''supplier_payment_voucher'', ''Default Supplier Payment Voucher'', text_lines
      [''<h3>{document_title}</h3>'', ''<div>Voucher No: {document_number}</div>'', ''<div>Date: {created_at}</div>'',
       ''<div>Supplier: {supplier_name}</div>'', ''<div>Amount Paid: {amount_paid}</div>'',
       ''<div>Method: {payment_method}</div>'', ''<div>Reference: {reference_no}</div>'', ''<div>Notes: {notes}</div>'',
       ''<div>Current Payable Balance: {payable_balance}</div>'']),
    (''customer_ledger_statement'', ''Default Customer Ledger Statement'', text_lines
      [''<h3>{document_title}</h3>'', ''<div>Statement No: {document_number}</div>'', ''<div>Customer: {customer_name}</div>'',
       table_tag, ''  <tr><th>Date</th><th>Entry</th><th>Amount</th><th>Balance</th></tr>'', ''  {rows_html}'', ''</table>'',
       ''<div>Final Balance: {final_balance}</div>'']),
    (''supplier_ledger_statement'', ''Default Supplier Ledger Statement'', text_lines
      [''<h3>{document_title}</h3>'', ''<div>Statement No: {document_number}</div>'', ''<div>Supplier: {supplier_name}</div>'',
       table_tag, ''  <tr><th>Date</th><th>Entry</th><th>Amount</th><th>Balance</th></tr>'', ''  {rows_html}'', ''</table>'',
       ''<div>Final Balance: {final_balance}</div>'']),
    (''fuel_sale_invoice'', ''Default Fuel Sale Invoice'', text_lines
      [''<h3>{document_title}</h3>'', ''<div>Invoice No: {document_number}</div>'', ''<div>Date: {created_at}</div>'',
       ''<div>Customer: {customer_name}</div>'', ''<div>Sale Type: {sale_type}</div>'',
       table_tag, ''  <tr><th>Fuel Type</th><th>Quantity (L)</th><th>Rate / Liter</th><th>Subtotal</th></tr>'',
       ''  <tr><td>{fuel_type_name}</td><td>{quantity}</td><td>{rate_per_liter}</td><td>{subtotal}</td></tr>'', ''</table>'',
       ''<div>Subtotal: {subtotal}</div>'', ''<div>{tax_label}: {tax_amount}</div>'', ''<div>Total: {total}</div>'',
       ''<div>Payment Terms: {payment_terms}</div>'', ''<div>Notes: {notes}</div>''])]"

definition PLACEHOLDER_CATALOG :: "(string \<times> string list) list" where
  "PLACEHOLDER_CATALOG =
   [(''customer_payment_receipt'',
      [''document_title'', ''document_number'', ''created_at'', ''customer_name'',
       ''recipient_name'', ''recipient_contact'', ''amount_received'', ''payment_method'',
       ''reference_no'', ''notes'', ''outstanding_balance'', ''footer_text'']),
    (''supplier_payment_voucher'',
      [''document_title'', ''document_number'', ''created_at'', ''supplier_name'',
       ''recipient_name'', ''recipient_contact'', ''amount_paid'', ''payment_method'',
       ''reference_no'', ''notes'', ''payable_balance'', ''footer_text'']),
    (''customer_ledger_statement'',
      [''document_title'', ''document_number'', ''customer_name'', ''recipient_name'',
       ''recipient_contact'', ''rows_html'', ''final_balance'', ''footer_text'']),
    (''supplier_ledger_statement'',
      [''document_title'', ''document_number'', ''supplier_name'', ''recipient_name'',
       ''recipient_contact'', ''rows_html'', ''final_balance'', ''footer_text'']),
    (''fuel_sale_invoice'',
      [''document_title'', ''document_number'', ''created_at'', ''customer_name'',
       ''recipient_name'', ''recipient_contact'', ''sale_type'', ''fuel_type_name'',
       ''quantity'', ''rate_per_liter'', ''subtotal'', ''tax_label'', ''tax_amount'',
       ''total'', ''payment_terms'', ''notes'', ''footer_text'', ''customer_balance''])]"

section \<open>Templates of a station (\<open>document_templates.py\<close>, \<open>document_template_seed.py\<close>)\<close>

record document_template_upsert =
  du_name :: string
  du_header_html :: "string option"
  du_body_html :: "string option"
  du_footer_html :: "string option"
  du_is_active :: bool

record template_preview_request =
  tq_header_html :: "string option"
  tq_body_html :: "string option"
  tq_footer_html :: "string option"

definition ensure_document_template_access :: "db \<Rightarrow> int \<Rightarrow> user \<Rightarrow> station res" where
  "ensure_document_template_access d station_id u = ensure_invoice_profile_access d station_id u"

definition list_document_templates :: "db \<Rightarrow> station \<Rightarrow> document_template list" where
  "list_document_templates d station =
     sort_key dt_document_type (sort_key dt_id
       (filter (\<lambda>t. dt_station_id t = st_id station) (document_templates (document_tables d))))"

definition get_document_template :: "db \<Rightarrow> station \<Rightarrow> string \<Rightarrow> document_template option" where
  "get_document_template d station document_type =
     find (\<lambda>t. dt_station_id t = st_id station \<and> dt_document_type t = document_type) (document_templates (document_tables d))"

definition set_templates :: "document_template list \<Rightarrow> db \<Rightarrow> db" where
  "set_templates ts d = d\<lparr>document_tables := (document_tables d)\<lparr>document_templates := ts\<rparr>\<rparr>"

definition template_row :: "int \<Rightarrow> int \<Rightarrow> string \<Rightarrow> document_template_upsert \<Rightarrow> document_template" where
  "template_row i station_id document_type data =
     \<lparr>dt_id = i, dt_station_id = station_id, dt_document_type = document_type, dt_name = du_name data,
      dt_header_html = du_header_html data, dt_body_html = du_body_html data, dt_footer_html = du_footer_html data,
      dt_is_active = du_is_active data\<rparr>"

definition upsert_document_template ::
  "station \<Rightarrow> string \<Rightarrow> document_template_upsert \<Rightarrow> db \<Rightarrow> document_template \<times> db" where
  "upsert_document_template station document_type data d =
     (let ts = document_templates (document_tables d) in
      case get_document_template d station document_type of
        None \<Rightarrow> (let t = template_row (next_id dt_id ts) (st_id station) document_type data in (t, set_templates (add_row t ts) d))
      | Some t \<Rightarrow> (let t' = template_row (dt_id t) (dt_station_id t) (dt_document_type t) data in
                  (t', set_templates (put_row dt_id t' ts) d)))"

definition get_placeholder_catalog :: "string \<Rightarrow> string list" where
  "get_placeholder_catalog document_type =
     (case map_of PLACEHOLDER_CATALOG document_type of None \<Rightarrow> [] | Some ps \<Rightarrow> ps)"

definition preview_document_template :: "env \<Rightarrow> string \<Rightarrow> template_preview_request \<Rightarrow> (fstring \<times> string list) res" where
  "preview_document_template e document_type data =
     (let placeholders = get_placeholder_catalog document_type;
          context = map (\<lambda>p. (p, [T (''<'' @ p @ ''>'')])) placeholders in
      case render_template_fragment e (tq_header_html data) context of Inl exc \<Rightarrow> Inl exc | Inr header_html \<Rightarrow>
      case render_template_fragment e (tq_body_html data) context of Inl exc \<Rightarrow> Inl exc | Inr body_html \<Rightarrow>
      case render_template_fragment e (tq_footer_html data) context of Inl exc \<Rightarrow> Inl exc | Inr footer_html \<Rightarrow>
      map_sum id (\<lambda>rendered_html. (rendered_html, placeholders))
        (compose_document_html e None header_html body_html footer_html context))"

definition default_template :: "string \<times> string \<times> string \<Rightarrow> string \<times> document_template_upsert" where
  \<comment> \<open>the \<open>DocumentTemplateUpsert\<close> of one entry of the catalog\<close>
  "default_template x =
     (case x of (document_type, name, body_html) \<Rightarrow>
        (document_type, \<lparr>du_name = name, du_header_html = None, du_body_html = Some body_html,
          du_footer_html = Some ''<div>{footer_text}</div>'', du_is_active = True\<rparr>))"

fun upsert_all :: "station \<Rightarrow> (string \<times> document_template_upsert) list \<Rightarrow> db \<Rightarrow> document_template list \<times> db" where
  "upsert_all station [] d = ([], d)"
| "upsert_all station ((document_type, data) # rest) d =
     (let (t, d1) = upsert_document_template station document_type data d;
          (created, d2) = upsert_all station rest d1
      in (t # created, d2))"

definition seed_default_document_templates :: "station \<Rightarrow> db \<Rightarrow> document_template list \<times> db" where
  "seed_default_document_templates station d = upsert_all station (map default_template DEFAULT_TEMPLATES) d"

section \<open>Routes (\<open>api/document_template.py\<close>)\<close>

definition get_document_template_placeholders :: "string \<Rightarrow> user \<Rightarrow> (string \<times> string list) res" where
  "get_document_template_placeholders document_type u =
     check (require_permission u ''document_templates'' ''read'' ''You do not have permission to view document template placeholders'')
       (Inr (document_type, get_placeholder_catalog document_type))"

definition preview_station_document_template ::
  "env \<Rightarrow> string \<Rightarrow> template_preview_request \<Rightarrow> user \<Rightarrow> (fstring \<times> string list) res" where
  "preview_station_document_template e document_type data u =
     check (require_permission u ''document_templates'' ''read'' ''You do not have permission to preview document templates'')
       (preview_document_template e document_type data)"

definition get_station_document_templates :: "db \<Rightarrow> int \<Rightarrow> user \<Rightarrow> document_template list res" where
  "get_station_document_templates d station_id u =
     check (require_permission u ''document_templates'' ''read'' ''You do not have permission to view document templates'')
       (map_sum id (list_document_templates d) (ensure_document_template_access d station_id u))"

definition get_station_document_template :: "db \<Rightarrow> int \<Rightarrow> string \<Rightarrow> user \<Rightarrow> document_template option res" where
  "get_station_document_template d station_id document_type u =
     check (require_permission u ''document_templates'' ''read'' ''You do not have permission to view document templates'')
       (map_sum id (\<lambda>station. get_document_template d station document_type) (ensure_document_template_access d station_id u))"

definition put_station_document_template ::
  "db \<Rightarrow> int \<Rightarrow> string \<Rightarrow> document_template_upsert \<Rightarrow> user \<Rightarrow> (document_template \<times> db) res" where
  "put_station_document_template d station_id document_type data u =
     check (require_permission u ''document_templates'' ''update'' ''You do not have permission to update document templates'')
       (map_sum id (\<lambda>station. upsert_document_template station document_type data d)
         (ensure_document_template_access d station_id u))"

definition seed_station_document_templates :: "db \<Rightarrow> int \<Rightarrow> user \<Rightarrow> (document_template list \<times> db) res" where
  "seed_station_document_templates d station_id u =
     check (require_permission u ''document_templates'' ''update'' ''You do not have permission to seed document templates'')
       (map_sum id (\<lambda>station. seed_default_document_templates station d) (ensure_document_template_access d station_id u))"

section \<open>The financial documents (\<open>financial_documents.py\<close>)\<close>

record financial_document =
  fo_document_type :: string
  fo_station_id :: int
  fo_title :: string
  fo_document_number :: string
  fo_recipient_name :: string
  fo_recipient_contact :: "string option"
  fo_total_amount :: "pyfloat option"
  fo_balance :: "pyfloat option"
  fo_generated_at :: datetime
  fo_rendered_html :: fstring
  fo_compliance_context :: "policy_context option"
  fo_machine_payload :: "einvoice option"

definition ensure_document_station_access :: "db \<Rightarrow> user \<Rightarrow> station \<Rightarrow> unit res" where
  "ensure_document_station_access d u station =
     (if is_admin u then ok
      else if is_head_office_user u then
        (if st_organization_id station = get_user_organization_id d u then ok else http 403 ''Not authorized for this station'')
      else if u_station_id u \<noteq> Some (st_id station) then http 403 ''Not authorized for this station''
      else ok)"

definition document_access :: "db \<Rightarrow> user option \<Rightarrow> station \<Rightarrow> unit res" where
  \<comment> \<open>\<open>if current_user is not None: _ensure_station_access(current_user, station)\<close>\<close>
  "document_access d current_user station =
     (case current_user of None \<Rightarrow> ok | Some u \<Rightarrow> ensure_document_station_access d u station)"

definition or_dash :: "string option \<Rightarrow> string" where
  "or_dash x = (if truthy x then the x else ''-'')"

definition business_name_of :: "invoice_profile option \<Rightarrow> station \<Rightarrow> string" where
  "business_name_of profile station = (case profile of None \<Rightarrow> st_name station | Some p \<Rightarrow> ip_business_name p)"

definition context_value :: "(string \<times> fstring) list \<Rightarrow> string \<Rightarrow> fstring" where
  \<comment> \<open>\<open>context['name']\<close> of a key that is there\<close>
  "context_value context name = (case map_of context name of None \<Rightarrow> [] | Some v \<Rightarrow> v)"

definition line_of :: "(string \<times> fstring) list \<Rightarrow> string \<Rightarrow> string \<Rightarrow> fstring" where
  "line_of context label name = T (''<div>'' @ label @ '': '') # context_value context name @ [T ''</div>'']"

definition composed_html ::
  "env \<Rightarrow> db \<Rightarrow> station \<Rightarrow> string \<Rightarrow> fstring \<Rightarrow> (string \<times> fstring) list \<Rightarrow> fstring res" where
  \<comment> \<open>the call of \<open>compose_document_html\<close> that ends every document\<close>
  "composed_html e d station document_type default_body_html context =
     compose_document_html e (active_template d station document_type) (build_profile_header (profile_of d station) station)
       default_body_html (T ''<div>'' # context_value context ''footer_text'' @ [T ''</div>'']) context"

definition payment_lines :: "(string \<times> fstring) list \<Rightarrow> fstring list" where
  \<comment> \<open>the lines that receipts and vouchers share\<close>
  "payment_lines context = [line_of context ''Method'' ''payment_method'', line_of context ''Reference'' ''reference_no'',
     line_of context ''Notes'' ''notes'']"

definition render_customer_payment_receipt ::
  "env \<Rightarrow> db \<Rightarrow> customer_payment \<Rightarrow> user option \<Rightarrow> financial_document res" where
  "render_customer_payment_receipt e d payment current_user =
     (case get_row st_id (stations d) (cp_station_id payment) of None \<Rightarrow> Inl AttributeError | Some station \<Rightarrow>
      check (document_access d current_user station)
     (case get_row cu_id (customers d) (cp_customer_id payment) of None \<Rightarrow> Inl AttributeError | Some customer \<Rightarrow>
      let profile = profile_of d station;
          document_number = build_document_number profile (build_numbered_suffix profile ''CP'' (cp_id payment));
          context =
            [(''business_name'', [T (business_name_of profile station)]),
             (''legal_name'', [T (get_business_display_name profile station)]),
             (''document_title'', [T ''Customer Payment Receipt'']), (''document_number'', [T document_number]),
             (''created_at'', [At (cp_created_at payment)]), (''customer_name'', [T (cu_name customer)]),
             (''recipient_name'', [T (cu_name customer)]), (''recipient_contact'', [T (or_dash (cu_phone customer))]),
             (''amount_received'', [F2 (cp_amount payment)]), (''payment_method'', [T (cp_payment_method payment)]),
             (''reference_no'', [T (or_dash (cp_reference_no payment))]), (''notes'', [T (or_dash (cp_notes payment))]),
             (''outstanding_balance'', [F2 (cu_outstanding_balance customer)]),
             (''footer_text'', [T (text_or profile ip_footer_text [])])];
          default_body_html = html_block
            ([[T ''<h3>Customer Payment Receipt</h3>''], [T ''<div>Receipt No: '', T document_number, T ''</div>''],
              line_of context ''Date'' ''created_at'', line_of context ''Customer'' ''customer_name'',
              line_of context ''Amount Received'' ''amount_received'']
             @ payment_lines context @ [line_of context ''Current Outstanding Balance'' ''outstanding_balance''])
      in case composed_html e d station ''customer_payment_receipt'' default_body_html context of Inl exc \<Rightarrow> Inl exc
       | Inr rendered_html \<Rightarrow>
         Inr \<lparr>fo_document_type = ''customer_payment_receipt'', fo_station_id = st_id station,
           fo_title = ''Customer Payment Receipt'', fo_document_number = document_number,
           fo_recipient_name = cu_name customer, fo_recipient_contact = cu_phone customer,
           fo_total_amount = Some (fround2 (cp_amount payment)), fo_balance = Some (fround2 (cu_outstanding_balance customer)),
           fo_generated_at = now e, fo_rendered_html = rendered_html, fo_compliance_context = None,
           fo_machine_payload = None\<rparr>))"

definition render_supplier_payment_voucher ::
  "env \<Rightarrow> db \<Rightarrow> supplier_payment \<Rightarrow> user option \<Rightarrow> financial_document res" where
  "render_supplier_payment_voucher e d payment current_user =
     (case get_row st_id (stations d) (sp_station_id payment) of None \<Rightarrow> Inl AttributeError | Some station \<Rightarrow>
      check (document_access d current_user station)
     (let profile = profile_of d station;
          supplier = get_row su_id (suppliers d) (sp_supplier_id payment);
          supplier_name = (case supplier of None \<Rightarrow> ''Supplier '' @ str_int (sp_supplier_id payment) | Some s \<Rightarrow> su_name s);
          contact = Option.bind supplier su_phone;
          payable_balance = (case supplier of None \<Rightarrow> 0 | Some s \<Rightarrow> su_payable_balance s);
          document_number = build_document_number profile (build_numbered_suffix profile ''SP'' (sp_id payment));
          context =
            [(''business_name'', [T (business_name_of profile station)]),
             (''legal_name'', [T (get_business_display_name profile station)]),
             (''document_title'', [T ''Supplier Payment Voucher'']), (''document_number'', [T document_number]),
             (''created_at'', [At (sp_created_at payment)]), (''supplier_name'', [T supplier_name]),
             (''recipient_name'', [T supplier_name]), (''recipient_contact'', [T (or_dash contact)]),
             (''amount_paid'', [F2 (sp_amount payment)]), (''payment_method'', [T (sp_payment_method payment)]),
             (''reference_no'', [T (or_dash (sp_reference_no payment))]), (''notes'', [T (or_dash (sp_notes payment))]),
             (''payable_balance'', [F2 payable_balance]),
             (''footer_text'', [T (text_or profile ip_footer_text [])])];
          default_body_html = html_block
            ([[T ''<h3>Supplier Payment Voucher</h3>''], [T ''<div>Voucher No: '', T document_number, T ''</div>''],
              line_of context ''Date'' ''created_at'', line_of context ''Supplier'' ''supplier_name'',
              line_of context ''Amount Paid'' ''amount_paid'']
             @ payment_lines context @ [line_of context ''Current Payable Balance'' ''payable_balance''])
      in case composed_html e d station ''supplier_payment_voucher'' default_body_html context of Inl exc \<Rightarrow> Inl exc
       | Inr rendered_html \<Rightarrow>
         Inr \<lparr>fo_document_type = ''supplier_payment_voucher'', fo_station_id = st_id station,
           fo_title = ''Supplier Payment Voucher'', fo_document_number = document_number,
           fo_recipient_name = supplier_name, fo_recipient_contact = contact,
           fo_total_amount = Some (fround2 (sp_amount payment)), fo_balance = Some (fround2 payable_balance),
           fo_generated_at = now e, fo_rendered_html = rendered_html, fo_compliance_context = None,
           fo_machine_payload = None\<rparr>))"

type_synonym statement_item = "datetime \<times> string \<times> pyfloat"

fun statement_rows :: "pyfloat \<Rightarrow> statement_item list \<Rightarrow> fstring" where
  \<comment> \<open>the loop over \<open>items\<close>: the joined \<open>rows\<close>\<close>
  "statement_rows balance [] = []"
| "statement_rows balance ((created_at, label, amount) # items) =
     (let balance = fadd balance amount in
      [T ''<tr><td>'', At created_at, T ''</td><td>'', T label, T ''</td><td>'', F2 amount, T ''</td><td>'', F2 balance, T ''</td></tr>'']
      @ statement_rows balance items)"

definition statement_balance :: "statement_item list \<Rightarrow> pyfloat" where
  \<comment> \<open>the variable \<open>running\<close> after the loop\<close>
  "statement_balance items = foldl (\<lambda>balance (_, _, amount). fadd balance amount) 0 items"

definition statement_body :: "string \<Rightarrow> string \<Rightarrow> string \<Rightarrow> (string \<times> fstring) list \<Rightarrow> string \<Rightarrow> fstring" where
  "statement_body title party_label party document_context document_number = html_block
     [[T (''<h3>'' @ title @ ''</h3>'')], [T ''<div>Statement No: '', T document_number, T ''</div>''],
      line_of document_context party_label party, [T table_tag],
      [T ''  <tr><th>Date</th><th>Entry</th><th>Amount</th><th>Balance</th></tr>''],
      T ''  '' # context_value document_context ''rows_html'', [T ''</table>''],
      line_of document_context ''Final Balance'' ''final_balance'']"

definition customer_statement_items :: "db \<Rightarrow> int \<Rightarrow> statement_item list" where
  "customer_statement_items d customer_id =
     sort_key fst
       (map (\<lambda>s. (fs_created_at s, ''Credit Sale'', fs_total_amount s))
          (filter (\<lambda>s. fs_customer_id s = Some customer_id \<and> fs_sale_type s = ''credit'' \<and> \<not> is_reversed (fs_reversal s)) (fuel_sales d))
        @ map (\<lambda>p. (cp_created_at p, ''Payment'', - cp_amount p))
          (filter (\<lambda>p. cp_customer_id p = customer_id \<and> \<not> is_reversed (cp_reversal p)) (customer_payments d)))"

definition render_customer_ledger_statement :: "env \<Rightarrow> db \<Rightarrow> customer \<Rightarrow> user option \<Rightarrow> financial_document res" where
  "render_customer_ledger_statement e d customer current_user =
     (case get_row st_id (stations d) (cu_station_id customer) of None \<Rightarrow> Inl AttributeError | Some station \<Rightarrow>
      check (document_access d current_user station)
     (let profile = profile_of d station;
          items = customer_statement_items d (cu_id customer);
          balance = statement_balance items;
          document_number = build_document_number profile (build_numbered_suffix profile ''CL'' (cu_id customer));
          context =
            [(''business_name'', [T (business_name_of profile station)]),
             (''legal_name'', [T (get_business_display_name profile station)]),
             (''document_title'', [T ''Customer Ledger Statement'']), (''document_number'', [T document_number]),
             (''customer_name'', [T (cu_name customer)]), (''recipient_name'', [T (cu_name customer)]),
             (''recipient_contact'', [T (or_dash (cu_phone customer))]),
             (''rows_html'', statement_rows 0 items), (''final_balance'', [F2 balance]),
             (''footer_text'', [T (text_or profile ip_footer_text [])])]
      in case composed_html e d station ''customer_ledger_statement''
                (statement_body ''Customer Ledger Statement'' ''Customer'' ''customer_name'' context document_number) context of
         Inl exc \<Rightarrow> Inl exc
       | Inr rendered_html \<Rightarrow>
         Inr \<lparr>fo_document_type = ''customer_ledger_statement'', fo_station_id = st_id station,
           fo_title = ''Customer Ledger Statement'', fo_document_number = document_number,
           fo_recipient_name = cu_name customer, fo_recipient_contact = cu_phone customer,
           fo_total_amount = None, fo_balance = Some (fround2 balance),
           fo_generated_at = now e, fo_rendered_html = rendered_html, fo_compliance_context = None,
           fo_machine_payload = None\<rparr>))"

definition supplier_statement_items :: "db \<Rightarrow> int \<Rightarrow> int \<Rightarrow> statement_item list" where
  "supplier_statement_items d supplier_id station_id =
     sort_key fst
       (map (\<lambda>p. (pu_created_at p, ''Purchase'', pu_total_amount p))
          (filter (\<lambda>p. pu_supplier_id p = supplier_id \<and> pu_status p = ''approved'' \<and> \<not> is_reversed (pu_reversal p)
                     \<and> (case get_row tk_id (tanks d) (pu_tank_id p) of None \<Rightarrow> False | Some t \<Rightarrow> tk_station_id t = station_id))
             (purchases d))
        @ map (\<lambda>p. (sp_created_at p, ''Payment'', - sp_amount p))
          (filter (\<lambda>p. sp_supplier_id p = supplier_id \<and> sp_station_id p = station_id \<and> \<not> is_reversed (sp_reversal p))
             (supplier_payments d)))"

definition render_supplier_ledger_statement ::
  "env \<Rightarrow> db \<Rightarrow> supplier \<Rightarrow> station \<Rightarrow> user option \<Rightarrow> financial_document res" where
  "render_supplier_ledger_statement e d supplier station current_user =
     check (document_access d current_user station)
     (let profile = profile_of d station;
          items = supplier_statement_items d (su_id supplier) (st_id station);
          balance = statement_balance items;
          document_number = build_document_number profile (build_numbered_suffix profile ''SL'' (su_id supplier));
          context =
            [(''business_name'', [T (business_name_of profile station)]),
             (''legal_name'', [T (get_business_display_name profile station)]),
             (''document_title'', [T ''Supplier Ledger Statement'']), (''document_number'', [T document_number]),
             (''supplier_name'', [T (su_name supplier)]), (''recipient_name'', [T (su_name supplier)]),
             (''recipient_contact'', [T (or_dash (su_phone supplier))]),
             (''rows_html'', statement_rows 0 items), (''final_balance'', [F2 balance]),
             (''footer_text'', [T (text_or profile ip_footer_text [])])]
      in case composed_html e d station ''supplier_ledger_statement''
                (statement_body ''Supplier Ledger Statement'' ''Supplier'' ''supplier_name'' context document_number) context of
         Inl exc \<Rightarrow> Inl exc
       | Inr rendered_html \<Rightarrow>
         Inr \<lparr>fo_document_type = ''supplier_ledger_statement'', fo_station_id = st_id station,
           fo_title = ''Supplier Ledger Statement'', fo_document_number = document_number,
           fo_recipient_name = su_name supplier, fo_recipient_contact = su_phone supplier,
           fo_total_amount = None, fo_balance = Some (fround2 balance),
           fo_generated_at = now e, fo_rendered_html = rendered_html, fo_compliance_context = None,
           fo_machine_payload = None\<rparr>)"

definition is_letter :: "char \<Rightarrow> bool" where
  "is_letter c \<longleftrightarrow> CHR ''A'' \<le> c \<and> c \<le> CHR ''Z'' \<or> CHR ''a'' \<le> c \<and> c \<le> CHR ''z''"

fun title_from :: "bool \<Rightarrow> string \<Rightarrow> string" where
  \<comment> \<open>\<open>str.title\<close>; the flag: the character before was a letter\<close>
  "title_from after_letter [] = []"
| "title_from after_letter (c # s) =
     (if is_letter c then (if after_letter then lower_char c else upper_char c) # title_from True s
      else c # title_from False s)"

definition py_title :: "string \<Rightarrow> string" where "py_title s = title_from False s"

definition render_fuel_sale_invoice :: "env \<Rightarrow> db \<Rightarrow> fuel_sale \<Rightarrow> user option \<Rightarrow> financial_document res" where
  "render_fuel_sale_invoice e d sale current_user =
     (case get_row st_id (stations d) (fs_station_id sale) of None \<Rightarrow> Inl AttributeError | Some station \<Rightarrow>
      check (document_access d current_user station)
     (let profile = profile_of d station;
          (subtotal, tax_amount, grand_total) = calculate_tax_breakdown profile (fs_total_amount sale);
          customer = sale_customer_of d sale;
          customer_name = (case customer of None \<Rightarrow> ''Walk-in Customer'' | Some c \<Rightarrow> cu_name c);
          customer_contact = Option.bind customer cu_phone;
          customer_balance = (case customer of None \<Rightarrow> 0 | Some c \<Rightarrow> cu_outstanding_balance c);
          payment_terms = text_or profile ip_payment_terms ''Payment due as per station policy.'';
          notes = text_or profile ip_sale_invoice_notes [];
          document_number = build_document_number profile (build_numbered_suffix profile ''FS'' (fs_id sale));
          compliance_context = get_document_policy_context profile in
      case build_fuel_sale_einvoice_payload d profile station sale subtotal tax_amount grand_total document_number of
        Inl exc \<Rightarrow> Inl exc
      | Inr machine_payload \<Rightarrow>
      let context =
            [(''business_name'', [T (business_name_of profile station)]),
             (''legal_name'', [T (get_business_display_name profile station)]),
             (''document_title'', [T ''Fuel Sale Invoice'']), (''document_number'', [T document_number]),
             (''created_at'', [At (fs_created_at sale)]), (''customer_name'', [T customer_name]),
             (''recipient_name'', [T customer_name]),
             (''recipient_contact'', [T (or_dash customer_contact)]),
             (''sale_type'', [T (py_title (fs_sale_type sale))]),
             (''fuel_type_name'', [T (ei_line_description machine_payload)]),
             (''quantity'', [F2 (fs_quantity sale)]), (''rate_per_liter'', [F2 (fs_rate_per_liter sale)]),
             (''subtotal'', [F2 subtotal]), (''tax_label'', [T (get_tax_label profile)]), (''tax_amount'', [F2 tax_amount]),
             (''total'', [F2 grand_total]), (''payment_terms'', [T payment_terms]),
             (''notes'', [T (if notes = [] then ''-'' else notes)]),
             (''footer_text'', [T (text_or profile ip_footer_text [])]), (''customer_balance'', [F2 customer_balance])];
          cell = (\<lambda>name. T ''<td>'' # context_value context name @ [T ''</td>'']);
          default_body_html = html_block
            [[T ''<h3>Fuel Sale Invoice</h3>''], [T ''<div>Invoice No: '', T document_number, T ''</div>''],
             line_of context ''Date'' ''created_at'', line_of context ''Customer'' ''customer_name'',
             line_of context ''Sale Type'' ''sale_type'', [T table_tag],
             [T ''  <tr><th>Fuel Type</th><th>Quantity (L)</th><th>Rate / Liter</th><th>Subtotal</th></tr>''],
             T ''  <tr>'' # cell ''fuel_type_name'' @ cell ''quantity'' @ cell ''rate_per_liter'' @ cell ''subtotal'' @ [T ''</tr>''],
             [T ''</table>''], line_of context ''Subtotal'' ''subtotal'',
             T ''<div>'' # context_value context ''tax_label'' @ T '': '' # context_value context ''tax_amount'' @ [T ''</div>''],
             line_of context ''Total'' ''total'', line_of context ''Payment Terms'' ''payment_terms'', line_of context ''Notes'' ''notes'']
      in case composed_html e d station ''fuel_sale_invoice'' default_body_html context of Inl exc \<Rightarrow> Inl exc
       | Inr rendered_html \<Rightarrow>
         Inr \<lparr>fo_document_type = ''fuel_sale_invoice'', fo_station_id = st_id station,
           fo_title = ''Fuel Sale Invoice'', fo_document_number = document_number,
           fo_recipient_name = customer_name, fo_recipient_contact = customer_contact,
           fo_total_amount = Some grand_total, fo_balance = map_option (\<lambda>c. fround2 (cu_outstanding_balance c)) customer,
           fo_generated_at = now e, fo_rendered_html = rendered_html, fo_compliance_context = Some compliance_context,
           fo_machine_payload = Some machine_payload\<rparr>))"

definition render_fuel_sale_einvoice_xml :: "env \<Rightarrow> db \<Rightarrow> fuel_sale \<Rightarrow> user option \<Rightarrow> fstring res" where
  \<comment> \<open>an invoice always has its payload\<close>
  "render_fuel_sale_einvoice_xml e d sale current_user =
     (case render_fuel_sale_invoice e d sale current_user of Inl exc \<Rightarrow> Inl exc
      | Inr document \<Rightarrow> (case fo_machine_payload document of None \<Rightarrow> Inl AttributeError | Some p \<Rightarrow> Inr (build_fuel_sale_einvoice_xml p)))"

section \<open>Statements and ledgers\<close>

definition statement_item_of :: "ledger_entry \<Rightarrow> statement_item" where
  "statement_item_of t = (le_date t, if le_type t = ''payment'' then ''Payment'' else ''Credit Sale'', le_amount t)"

definition printed_row :: "ledger_entry \<times> pyfloat \<Rightarrow> fstring" where
  "printed_row r = (case statement_item_of (fst r) of (created_at, label, amount) \<Rightarrow>
     [T ''<tr><td>'', At created_at, T ''</td><td>'', T label, T ''</td><td>'', F2 amount, T ''</td><td>'', F2 (snd r), T ''</td></tr>''])"

lemma statement_rows_running:
  "statement_rows b (map statement_item_of ts) = concat (map printed_row (running b ts))"
  by (induction ts arbitrary: b) (simp_all add: statement_item_of_def printed_row_def Let_def)

lemma statement_balance_final: "statement_balance (map statement_item_of ts) = final_balance ts"
  by (simp add: statement_balance_def final_balance_def foldl_map statement_item_of_def)

lemma customer_statement_items_ledger:
  assumes "customer_ledger d i = Inr l"
  shows "customer_statement_items d i = map statement_item_of (map fst (lg_ledger l))"
    "lg_final_balance l = final_balance (map fst (lg_ledger l))"
    "lg_ledger l = running 0 (map fst (lg_ledger l))"
proof -
  let ?ts = "map credit_sale_entry (filter (\<lambda>s. fs_customer_id s = Some i \<and> fs_sale_type s = ''credit''
      \<and> \<not> is_reversed (fs_reversal s)) (fuel_sales d))
    @ map customer_payment_entry (filter (\<lambda>p. cp_customer_id p = i \<and> \<not> is_reversed (cp_reversal p)) (customer_payments d))"
  have fst_running: "map fst (running b ts) = ts" for b ts
    by (induction ts arbitrary: b) (simp_all add: Let_def)
  from assms have l: "lg_ledger l = running 0 (sort_key le_date ?ts)" "lg_final_balance l = final_balance (sort_key le_date ?ts)"
    by (auto simp: customer_ledger_def ledger_of_def Let_def split: option.splits)
  have "fst \<circ> statement_item_of = le_date" by (auto simp: statement_item_of_def)
  moreover have "customer_statement_items d i = sort_key fst (map statement_item_of ?ts)"
    by (simp add: customer_statement_items_def statement_item_of_def credit_sale_entry_def customer_payment_entry_def comp_def)
  ultimately have "customer_statement_items d i = map statement_item_of (sort_key le_date ?ts)"
    by (simp only: sort_key_map)
  with l show "customer_statement_items d i = map statement_item_of (map fst (lg_ledger l))"
    "lg_final_balance l = final_balance (map fst (lg_ledger l))"
    "lg_ledger l = running 0 (map fst (lg_ledger l))"
    by (simp_all only: fst_running)
qed

text \<open>
  The characters and figures of a text one by one, however its parts are split; a body prints the rows when it has the
  field \<open>{rows_html}\<close> between texts whose fields are plain names.
\<close>

definition spelled :: "fstring \<Rightarrow> fstring" where
  "spelled x = concat (map (\<lambda>p. case p of T s \<Rightarrow> map (\<lambda>c. T [c]) s | _ \<Rightarrow> [p]) x)"

definition prints_rows :: "string \<Rightarrow> bool" where
  "prints_rows body \<longleftrightarrow> (\<exists>a b x y. body = a @ ''{rows_html}'' @ b
     \<and> format_text [] None a = Some (Inr x) \<and> format_text [] None b = Some (Inr y))"

lemma spelled_append [simp]: "spelled (x @ y) = spelled x @ spelled y"
  by (simp add: spelled_def)

lemma spelled_joined [simp]: "spelled (joined_parts x) = spelled x"
  by (induction x rule: joined_parts.induct) (simp_all add: spelled_def)

lemma prefixed_Inr: "prefixed v r = Some (Inr x) \<longleftrightarrow> (\<exists>t. r = Some (Inr t) \<and> x = v @ t)"
proof (cases r)
  case (Some z)
  then show ?thesis by (cases z) (auto simp: prefixed_def)
qed (simp add: prefixed_def)

lemma prefixed_prefixed: "prefixed v (prefixed w r) = prefixed (v @ w) r"
  by (cases r) (auto simp: prefixed_def split: sum.splits)

lemma prefixed_nothing: "prefixed [] r = r"
  by (cases r) (auto simp: prefixed_def split: sum.splits)

lemma format_text_append:
  "format_text k m a = Some (Inr x) \<Longrightarrow> format_text k m (a @ b) = prefixed x (format_text k None b)"
proof (induction k m a arbitrary: x rule: format_text.induct)
  case (3 k c s)
  note IH = "3.IH" and prem = "3.prems"
  show ?case
  proof (cases "c = CHR ''{''")
    case open_brace: True
    show ?thesis
    proof (cases s)
      case Nil
      with prem open_brace show ?thesis by simp
    next
      case (Cons c' s')
      then show ?thesis
        using prem open_brace IH(2,3) [of c' s'] by (auto simp: prefixed_Inr prefixed_prefixed)
    qed
  next
    case not_open: False
    show ?thesis
    proof (cases "c = CHR ''}''")
      case True
      show ?thesis
      proof (cases s)
        case Nil
        with prem True show ?thesis by simp
      next
        case (Cons c' s')
        show ?thesis
        proof (cases "c' = CHR ''}''")
          case close_brace: True
          show ?thesis
            using prem IH(4) [OF not_open True Cons close_brace] Cons True close_brace by (auto simp: prefixed_Inr prefixed_prefixed)
        next
          case False
          with prem True Cons show ?thesis by simp
        qed
      qed
    next
      case False
      then show ?thesis
        using prem not_open IH(5) by (auto simp: prefixed_Inr prefixed_prefixed)
    qed
  qed
next
  case (4 k name c s)
  then show ?case
    by (auto simp: prefixed_Inr prefixed_prefixed split: if_splits sum.splits)
qed (simp_all add: prefixed_nothing)

lemma format_text_any_context:
  "format_text k m s = Some (Inr x) \<Longrightarrow> \<exists>y. format_text k' m s = Some (Inr y)"
proof (induction k m s arbitrary: x rule: format_text.induct)
  case (3 k c s)
  note IH = "3.IH" and prem = "3.prems"
  show ?case
  proof (cases "c = CHR ''{''")
    case open_brace: True
    show ?thesis
    proof (cases s)
      case Nil
      with prem open_brace show ?thesis by simp
    next
      case (Cons c' s')
      then show ?thesis
        using prem open_brace IH(2,3) [of c' s'] by (auto simp: prefixed_Inr split: if_splits)
    qed
  next
    case not_open: False
    show ?thesis
    proof (cases "c = CHR ''}''")
      case True
      show ?thesis
      proof (cases s)
        case Nil
        with prem True show ?thesis by simp
      next
        case (Cons c' s')
        show ?thesis
        proof (cases "c' = CHR ''}''")
          case close_brace: True
          show ?thesis
            using prem IH(4) [OF not_open True Cons close_brace] Cons True close_brace by (auto simp: prefixed_Inr)
        next
          case False
          with prem True Cons show ?thesis by simp
        qed
      qed
    next
      case False
      then show ?thesis
        using prem not_open IH(5) by (auto simp: prefixed_Inr)
    qed
  qed
next
  case (4 k name c s)
  then show ?case
    by (auto simp: prefixed_Inr field_value_def split: if_splits sum.splits)
qed simp_all

lemma format_text_rows:
  assumes "prints_rows body" "map_of context ''rows_html'' = Some rows"
  shows "\<exists>x y. format_text context None body = Some (Inr (x @ rows @ y))"
proof -
  from assms(1) obtain a b where body: "body = a @ ''{rows_html}'' @ b"
    and "\<exists>x. format_text [] None a = Some (Inr x)" "\<exists>y. format_text [] None b = Some (Inr y)"
    by (auto simp: prints_rows_def)
  then obtain x y where xy: "format_text context None a = Some (Inr x)" "format_text context None b = Some (Inr y)"
    using format_text_any_context by blast
  have "format_text context None (''{rows_html}'' @ b) = prefixed rows (format_text context None b)"
    using assms(2) by (simp add: field_value_def is_digit_def prefixed_def)
  with xy format_text_append [OF xy(1), of "''{rows_html}'' @ b"] body show ?thesis
    by (auto simp: prefixed_def)
qed

definition default_statement_body :: string where
  "default_statement_body = (case map_of (map default_template DEFAULT_TEMPLATES) ''customer_ledger_statement'' of
     None \<Rightarrow> [] | Some data \<Rightarrow> the (du_body_html data))"

lemma default_statement_prints_rows: "prints_rows default_statement_body"
proof -
  let ?a = "take 229 default_statement_body" and ?b = "drop 240 default_statement_body"
  have "default_statement_body = ?a @ ''{rows_html}'' @ ?b"
    "\<exists>x. format_text [] None ?a = Some (Inr x)" "\<exists>x. format_text [] None ?b = Some (Inr x)"
  proof -
    show "default_statement_body = ?a @ ''{rows_html}'' @ ?b" by code_simp
    have "case format_text [] None ?a of Some (Inr x) \<Rightarrow> True | _ \<Rightarrow> False" by code_simp
    then show "\<exists>x. format_text [] None ?a = Some (Inr x)" by (auto split: option.splits sum.splits)
    have "case format_text [] None ?b of Some (Inr x) \<Rightarrow> True | _ \<Rightarrow> False" by code_simp
    then show "\<exists>x. format_text [] None ?b = Some (Inr x)" by (auto split: option.splits sum.splits)
  qed
  then show ?thesis unfolding prints_rows_def by blast
qed

lemma statement_body_rows:
  assumes "map_of ctx ''rows_html'' = Some rows"
  shows "\<exists>x y. statement_body title party_label party ctx document_number = x @ rows @ y"
proof -
  have "\<exists>x y. html_block (us @ [T ''  '' # rows] @ vs) = x @ rows @ y" for us vs
  proof -
    let ?f = "\<lambda>l. T ([CHR 0x0A] @ ''    '') # l"
    have "html_block (us @ [T ''  '' # rows] @ vs)
        = (concat (map ?f us) @ [T ([CHR 0x0A] @ ''    ''), T ''  '']) @ rows @ (concat (map ?f vs) @ [T ([CHR 0x0A] @ ''    '')])"
      by (simp add: html_block_def)
    then show ?thesis by blast
  qed
  moreover have "statement_body title party_label party ctx document_number
      = html_block ([[T (''<h3>'' @ title @ ''</h3>'')], [T ''<div>Statement No: '', T document_number, T ''</div>''],
      line_of ctx party_label party, [T table_tag], [T ''  <tr><th>Date</th><th>Entry</th><th>Amount</th><th>Balance</th></tr>'']]
      @ [T ''  '' # rows] @ [[T ''</table>''], line_of ctx ''Final Balance'' ''final_balance''])"
    using assms by (simp add: statement_body_def context_value_def)
  ultimately show ?thesis by metis
qed

lemma composed_html_prints_rows:
  assumes "composed_html e d station document_type default_body context = Inr html"
    and "map_of context ''rows_html'' = Some rows" "default_body = x @ rows @ y"
    and "\<And>t body. active_template d station document_type = Some t \<Longrightarrow> dt_body_html t = Some body \<Longrightarrow> body \<noteq> [] \<Longrightarrow> prints_rows body"
  shows "\<exists>before after. spelled html = before @ spelled rows @ after"
proof -
  let ?t = "active_template d station document_type"
  define body where "body = (case ?t of None \<Rightarrow> Inr default_body
    | Some t \<Rightarrow> if truthy (dt_body_html t) then render_template_fragment e (dt_body_html t) context else Inr default_body)"
  have "\<exists>u v. spelled b = u @ spelled rows @ v" if "body = Inr b" for b
  proof (cases "\<exists>t s. ?t = Some t \<and> dt_body_html t = Some s \<and> s \<noteq> []")
    case True
    then obtain t s where ts: "?t = Some t" "dt_body_html t = Some s" "s \<noteq> []" by blast
    from format_text_rows [OF assms(4) [OF ts] assms(2)] that ts show ?thesis
      by (auto simp: body_def render_template_fragment_def truthy_def) blast
  next
    case False
    then have "body = Inr default_body" by (auto simp: body_def truthy_def split: option.splits)
    with that assms(3) have "b = x @ rows @ y" by simp
    then have "spelled b = spelled x @ spelled rows @ spelled y" by (simp only: spelled_append)
    then show ?thesis by blast
  qed
  moreover obtain h b f where b: "body = Inr b" "html = [T ''<html><body>''] @ h @ b @ f @ [T ''</body></html>'']"
    using assms(1) unfolding composed_html_def compose_document_html_def Let_def body_def [symmetric]
    by (simp split: sum.splits) blast
  ultimately obtain u v where "spelled b = u @ spelled rows @ v" by blast
  with b(2) have "spelled html = (spelled [T ''<html><body>''] @ spelled h @ u) @ spelled rows @ (v @ spelled f @ spelled [T ''</body></html>''])"
    by (simp only: spelled_append append.assoc)
  then show ?thesis by blast
qed

text \<open>
  C27. The statement a customer is sent agrees with the ledger of the API: the rows it prints are the entries of
  \<open>GET /ledger/customer/{id}\<close> in their order, each with the running balance of that ledger, and its balance is the final
  balance of the ledger, rounded to cents. The rows are in the text of the document, one after the other, unless the station
  has replaced the body by one that does not have the field of the rows.
\<close>

theorem statement_agrees_with_ledger:
  assumes "render_customer_ledger_statement e d customer current_user = Inr document"
    and "customer_ledger d (cu_id customer) = Inr l" "get_row st_id (stations d) (cu_station_id customer) = Some station"
    and "\<And>t body. active_template d station ''customer_ledger_statement'' = Some t \<Longrightarrow> dt_body_html t = Some body
      \<Longrightarrow> body \<noteq> [] \<Longrightarrow> prints_rows body"
  shows "(\<exists>before after. spelled (fo_rendered_html document)
        = before @ spelled (concat (map printed_row (lg_ledger l))) @ after)
    \<and> fo_balance document = Some (fround2 (lg_final_balance l))
    \<and> fo_document_number document
        = build_document_number (profile_of d station) (build_numbered_suffix (profile_of d station) ''CL'' (cu_id customer))"
proof -
  let ?rows = "concat (map printed_row (lg_ledger l))"
  have rows: "statement_rows 0 (customer_statement_items d (cu_id customer)) = ?rows"
    "statement_balance (customer_statement_items d (cu_id customer)) = lg_final_balance l"
    using customer_statement_items_ledger [OF assms(2)] statement_rows_running [of 0 "map fst (lg_ledger l)"]
      statement_balance_final [of "map fst (lg_ledger l)"] by simp_all
  obtain ctx document_number where html: "composed_html e d station ''customer_ledger_statement''
        (statement_body ''Customer Ledger Statement'' ''Customer'' ''customer_name'' ctx document_number) ctx = Inr (fo_rendered_html document)"
      "map_of ctx ''rows_html'' = Some ?rows"
  proof -
    from assms(1,3) show thesis
      unfolding render_customer_ledger_statement_def rows Let_def
      by (intro that) (auto simp: res_simps split: sum.splits)
  qed
  obtain x y where "statement_body ''Customer Ledger Statement'' ''Customer'' ''customer_name'' ctx document_number = x @ ?rows @ y"
    using statement_body_rows [OF html(2)] by blast
  from composed_html_prints_rows [OF html this assms(4)]
  have "\<exists>before after. spelled (fo_rendered_html document) = before @ spelled ?rows @ after" by simp
  then show ?thesis
    using assms(1,3) rows by (auto simp: render_customer_ledger_statement_def res_simps Let_def split: sum.splits)
qed

lemma customer_statement_default:
  assumes "get_row st_id (stations d) (cu_station_id customer) = Some station"
    and "active_template d station ''customer_ledger_statement'' = None" "document_access d current_user station = ok"
  shows "\<exists>document. render_customer_ledger_statement e d customer current_user = Inr document"
  using assms by (simp add: render_customer_ledger_statement_def composed_html_def compose_document_html_def Let_def)

definition sample_statement_db :: db where
  \<comment> \<open>a credit sale of 100 and a payment of 50\<close>
  "sample_statement_db = sample_db\<lparr>
     fuel_sales := [\<lparr>fs_id = 1, fs_nozzle_id = 1, fs_station_id = 1, fs_fuel_type_id = 1, fs_customer_id = Some 1,
       fs_opening_meter = 100, fs_closing_meter = 110, fs_quantity = 10, fs_rate_per_liter = 10, fs_total_amount = 100,
       fs_sale_type = ''credit'', fs_shift_name = None, fs_shift_id = None, fs_reversal = no_reversal, fs_created_at = 1\<rparr>],
     customer_payments := [\<lparr>cp_id = 1, cp_customer_id = 1, cp_station_id = 1, cp_amount = 50, cp_payment_method = ''cash'',
       cp_reference_no = None, cp_notes = None, cp_reversal = no_reversal, cp_created_at = 2\<rparr>]\<rparr>"

theorem statement_agrees_with_ledger_witness:
  "\<exists>document before after. render_customer_ledger_statement sample_env sample_statement_db sample_customer None = Inr document
     \<and> fo_balance document = Some 50
     \<and> spelled (fo_rendered_html document) = before @ spelled
         [T ''<tr><td>'', At 1, T ''</td><td>'', T ''Credit Sale'', T ''</td><td>'', F2 100, T ''</td><td>'', F2 100, T ''</td></tr>'',
          T ''<tr><td>'', At 2, T ''</td><td>'', T ''Payment'', T ''</td><td>'', F2 (- 50), T ''</td><td>'', F2 50, T ''</td></tr>'']
       @ after"
proof -
  let ?rows = "[T ''<tr><td>'', At 1, T ''</td><td>'', T ''Credit Sale'', T ''</td><td>'', F2 100, T ''</td><td>'', F2 100, T ''</td></tr>'',
    T ''<tr><td>'', At 2, T ''</td><td>'', T ''Payment'', T ''</td><td>'', F2 (- 50), T ''</td><td>'', F2 50, T ''</td></tr>'']"
  have station: "get_row st_id (stations sample_statement_db) (cu_station_id sample_customer) = Some sample_station"
    "active_template sample_statement_db sample_station ''customer_ledger_statement'' = None"
    "document_access sample_statement_db None sample_station = ok" by code_simp+
  from customer_statement_default [OF this] obtain document
    where doc: "render_customer_ledger_statement sample_env sample_statement_db sample_customer None = Inr document" by blast
  have "case customer_ledger sample_statement_db 1 of Inl _ \<Rightarrow> False
      | Inr l \<Rightarrow> fround2 (lg_final_balance l) = 50 \<and> concat (map printed_row (lg_ledger l)) = ?rows" by code_simp
  then obtain l where l: "customer_ledger sample_statement_db 1 = Inr l" "fround2 (lg_final_balance l) = 50"
    "concat (map printed_row (lg_ledger l)) = ?rows"
    by (auto split: sum.splits)
  have "cu_id sample_customer = 1" by (simp add: sample_customer_def)
  with doc l(1) station have "(\<exists>before after. spelled (fo_rendered_html document)
        = before @ spelled (concat (map printed_row (lg_ledger l))) @ after)
    \<and> fo_balance document = Some (fround2 (lg_final_balance l))"
    using statement_agrees_with_ledger [OF doc, of l sample_station] by simp
  then show ?thesis using doc unfolding l(2,3) by blast
qed

section \<open>Templates and their placeholders\<close>

lemma template_upsert_keyed:
  "keyed dt_id (document_templates (document_tables d))
    \<Longrightarrow> keyed dt_id (document_templates (document_tables (snd (upsert_document_template station document_type data d))))"
  by (auto simp: upsert_document_template_def set_templates_def template_row_def Let_def
      intro: table.wf_put table.wf_add split: option.split)

text \<open>A template reads back as it was stored, and the templates of other stations and documents are not touched.\<close>

lemma template_upsert_reads_back:
  assumes "keyed dt_id (document_templates (document_tables d))"
  shows "get_document_template (snd (upsert_document_template station document_type data d)) station' document_type'
    = (if st_id station' = st_id station \<and> document_type' = document_type
       then Some (fst (upsert_document_template station document_type data d))
       else get_document_template d station' document_type')"
proof (cases "get_document_template d station document_type")
  case None
  then show ?thesis
    by (auto simp: upsert_document_template_def get_document_template_def set_templates_def template_row_def
        find_add_row Let_def split: option.split)
next
  case (Some t)
  let ?t' = "template_row (dt_id t) (dt_station_id t) (dt_document_type t) data"
  let ?P = "\<lambda>station document_type t. dt_station_id t = st_id station \<and> dt_document_type t = document_type"
  from Some have F: "find (?P station document_type) (document_templates (document_tables d)) = Some t"
    by (simp add: get_document_template_def)
  then have t: "dt_station_id t = st_id station" "dt_document_type t = document_type" by (auto simp: find_Some_iff)
  have "find (?P station' document_type') (put_row dt_id ?t' (document_templates (document_tables d)))
      = (if st_id station' = st_id station \<and> document_type' = document_type then Some ?t'
         else find (?P station' document_type') (document_templates (document_tables d)))"
    using find_put_same_key(1) [OF assms F, of ?t' "\<lambda>x. False"]
      find_put_same_key(2) [OF assms F, of ?t' "?P station' document_type'"] t by (auto simp: template_row_def)
  then show ?thesis
    using Some by (simp add: upsert_document_template_def get_document_template_def set_templates_def Let_def)
qed

end
