(* ===== verification/Dispatch.thy ===== *)
theory Dispatch
  imports Documents
begin

text \<open>
  The delivery half of \<open>app/services/financial_documents.py\<close>, \<open>app/services/pdf_renderer.py\<close> up to the layout,
  \<open>app/services/delivery_worker.py\<close> and \<open>app/api/financial_document.py\<close>: a rendered document is queued for a
  channel, attempted at once, and retried by the worker.
\<close>

section \<open>PDF (\<open>pdf_renderer.py\<close>)\<close>

definition render_financial_document_pdf :: "env \<Rightarrow> financial_document \<Rightarrow> fstring" where
  \<comment> \<open>the title and the header lines; their layout and that of the HTML below them is \<open>pdf_bytes\<close>\<close>
  "render_financial_document_pdf e document =
     (let header_lines =
        [[T ''Document No: '', T (fo_document_number document)],
         [T ''Generated At: '', At (fo_generated_at document)],
         [T ''Recipient: '', T (fo_recipient_name document)]]
        @ (if truthy (fo_recipient_contact document) then [[T ''Contact: '', T (the (fo_recipient_contact document))]] else [])
        @ (case fo_total_amount document of None \<Rightarrow> [] | Some x \<Rightarrow> [[T ''Total Amount: '', F2 x]])
        @ (case fo_balance document of None \<Rightarrow> [] | Some x \<Rightarrow> [[T ''Balance: '', F2 x]])
      in pdf_bytes e ([T (fo_title document)] # header_lines) (fo_rendered_html document))"

definition render_document_pdf_bytes :: "env \<Rightarrow> financial_document \<Rightarrow> fstring" where
  "render_document_pdf_bytes e document = render_financial_document_pdf e document"

section \<open>One attempt\<close>

definition document_caption :: "string \<Rightarrow> string" where
  \<comment> \<open>\<open>document_type.replace('_', ' ').title()\<close>\<close>
  "document_caption document_type = py_title (map (\<lambda>c. if c = CHR ''_'' then CHR '' '' else c) document_type)"

definition dispatch_via_channel :: "env \<Rightarrow> financial_document_dispatch \<Rightarrow> financial_document option \<Rightarrow> outcome" where
  "dispatch_via_channel e x document =
     (let caption = document_caption (fd_document_type x); channel = fd_channel x;
          message_text = [T caption, T '' is ready.'', T '' Reference: '', T (fd_entity_type x), T '' #'', I (fd_entity_id x),
            T ''.'', T '' Recipient: '', T (or_dash (fd_recipient_name x)), T ''.''];
          message_html = [T ''<h3>'', T caption, T ''</h3><p>''] @ message_text @ [T ''</p>''] in
      if channel = ''print'' then (''sent'', Some [T ''Print-ready document generated''])
      else if channel = ''email'' then
        deliver_email e (fd_recipient_contact x) caption message_text (Some message_html)
          (case document of
             Some doc \<Rightarrow> if fd_output_format x = ''pdf''
               then Some (fo_document_number doc @ ''.pdf'', render_financial_document_pdf e doc) else None
           | None \<Rightarrow> None)
      else if channel = ''sms'' then deliver_sms e (fd_recipient_contact x) message_text
      else if channel = ''whatsapp'' then deliver_whatsapp e (fd_recipient_contact x) message_text
      else (''skipped'', Some [T ''Unsupported channel '', T channel]))"

definition resolve_document_for_dispatch :: "env \<Rightarrow> db \<Rightarrow> financial_document_dispatch \<Rightarrow> financial_document res" where
  "resolve_document_for_dispatch e d x =
     (let entity_type = fd_entity_type x; i = fd_entity_id x in
      if entity_type = ''customer_payment'' then
        (case get_row cp_id (customer_payments d) i of None \<Rightarrow> http 404 ''Customer payment not found''
         | Some payment \<Rightarrow> render_customer_payment_receipt e d payment None)
      else if entity_type = ''supplier_payment'' then
        (case get_row sp_id (supplier_payments d) i of None \<Rightarrow> http 404 ''Supplier payment not found''
         | Some payment \<Rightarrow> render_supplier_payment_voucher e d payment None)
      else if entity_type = ''customer'' then
        (case get_row cu_id (customers d) i of None \<Rightarrow> http 404 ''Customer not found''
         | Some customer \<Rightarrow> render_customer_ledger_statement e d customer None)
      else if entity_type = ''supplier'' then
        (case get_row su_id (suppliers d) i of None \<Rightarrow> http 404 ''Supplier not found''
         | Some supplier \<Rightarrow>
           (case get_row st_id (stations d) (fd_station_id x) of None \<Rightarrow> http 404 ''Station not found''
            | Some station \<Rightarrow> render_supplier_ledger_statement e d supplier station None))
      else if entity_type = ''fuel_sale'' then
        (case get_row fs_id (fuel_sales d) i of None \<Rightarrow> http 404 ''Fuel sale not found''
         | Some sale \<Rightarrow> render_fuel_sale_invoice e d sale None)
      else http 400 ''Unsupported financial document entity type'')"

definition record_dispatch :: "env \<Rightarrow> financial_document \<Rightarrow> financial_document_dispatch \<Rightarrow> financial_document_dispatch" where
  \<comment> \<open>\<open>process_financial_document_dispatch\<close> on the row, given its document\<close>
  "record_dispatch e document x =
     (let x = x\<lparr>fd_attempts_count := fd_attempts_count x + 1, fd_last_attempt_at := Some (now e)\<rparr>;
          (status, detail) = dispatch_via_channel e x (Some document) in
      if status \<in> set [''sent'', ''skipped''] then
        x\<lparr>fd_status := status, fd_detail := detail, fd_next_retry_at := None, fd_processed_at := Some (now e)\<rparr>
      else if should_retry status (fd_attempts_count x) then
        x\<lparr>fd_status := ''retrying'', fd_detail := detail,
          fd_next_retry_at := Some (next_retry_time e (fd_attempts_count x)), fd_processed_at := None\<rparr>
      else
        x\<lparr>fd_status := ''failed'', fd_detail := detail, fd_next_retry_at := None, fd_processed_at := Some (now e)\<rparr>)"

definition set_dispatches :: "financial_document_dispatch list \<Rightarrow> db \<Rightarrow> db" where
  "set_dispatches t d = d\<lparr>document_tables := (document_tables d)\<lparr>document_dispatches := t\<rparr>\<rparr>"

abbreviation dispatches :: "db \<Rightarrow> financial_document_dispatch list" where
  "dispatches d \<equiv> document_dispatches (document_tables d)"

definition process_financial_document_dispatch ::
  "env \<Rightarrow> financial_document_dispatch \<Rightarrow> db \<Rightarrow> (financial_document_dispatch \<times> db) res" where
  "process_financial_document_dispatch e x d =
     (case resolve_document_for_dispatch e d x of Inl exc \<Rightarrow> Inl exc
      | Inr document \<Rightarrow>
          (let x' = record_dispatch e document x in Inr (x', set_dispatches (put_row fd_id x' (dispatches d)) d)))"

section \<open>Sending, retrying, the worker\<close>

definition dispatch_document ::
  "env \<Rightarrow> user \<Rightarrow> financial_document \<Rightarrow> string \<Rightarrow> int \<Rightarrow> string \<Rightarrow> string \<Rightarrow> string option \<Rightarrow> string option
     \<Rightarrow> db \<Rightarrow> (financial_document_dispatch \<times> db) res" where
  "dispatch_document e u document entity_type entity_id channel output_format recipient_name recipient_contact d =
     (let station_id = fo_station_id document; document_type = fo_document_type document in
      case get_row st_id (stations d) station_id of None \<Rightarrow> http 404 ''Station not found'' | Some station \<Rightarrow>
      check (ensure_document_station_access d u station)
     (let x = \<lparr>fd_id = next_id fd_id (dispatches d), fd_station_id = station_id, fd_requested_by_user_id = u_id u,
                fd_document_type = document_type, fd_entity_type = entity_type, fd_entity_id = entity_id,
                fd_channel = channel, fd_output_format = output_format, fd_recipient_name = recipient_name,
                fd_recipient_contact = recipient_contact, fd_status = ''queued'', fd_detail = Some [T ''Queued for delivery''],
                fd_attempts_count = 0, fd_last_attempt_at = None, fd_next_retry_at = None, fd_processed_at = None,
                fd_created_at = now e\<rparr> in
      case process_financial_document_dispatch e x (set_dispatches (add_row x (dispatches d)) d) of
        Inl exc \<Rightarrow> Inl exc
      | Inr (x', d1) \<Rightarrow>
          Inr (x', notify_actor e u
            \<lparr>nt_station_id = Some station_id, nt_organization_id = None, nt_event_type = ''financial_document.dispatched'',
             nt_title = ''Financial document dispatched'',
             nt_message = [T document_type, T '' was processed for '', T channel, T '' delivery with status '', T (fd_status x'), T ''.''],
             nt_entity_type = Some entity_type, nt_entity_id = Some entity_id\<rparr>
            (audit e u ''financial_documents'' ''financial_documents.dispatch'' entity_type (Some entity_id) (Some station_id)
              [(''document_type'', JStr document_type), (''channel'', JStr channel),
               (''recipient_contact'', jopt recipient_contact), (''status'', JStr (fd_status x'))] d1))))"

definition retry_document_dispatch ::
  "env \<Rightarrow> financial_document_dispatch \<Rightarrow> user \<Rightarrow> db \<Rightarrow> (financial_document_dispatch \<times> db) res" where
  "retry_document_dispatch e x u d =
     (case get_row st_id (stations d) (fd_station_id x) of None \<Rightarrow> http 404 ''Station not found'' | Some station \<Rightarrow>
      check (ensure_document_station_access d u station)
     (if fd_status x \<notin> set [''failed'', ''retrying''] then http 400 ''Dispatch is not eligible for retry''
      else process_financial_document_dispatch e (x\<lparr>fd_next_retry_at := None\<rparr>) d))"

definition dispatch_due :: "datetime \<Rightarrow> financial_document_dispatch \<Rightarrow> bool" where
  "dispatch_due t x \<longleftrightarrow> fd_status x \<in> set [''queued'', ''retrying'']
     \<and> (case fd_next_retry_at x of None \<Rightarrow> True | Some r \<Rightarrow> r \<le> t)"

fun process_dispatches :: "env \<Rightarrow> financial_document_dispatch list \<Rightarrow> db \<Rightarrow> db res" where
  \<comment> \<open>the loop over the due rows; an exception leaves it\<close>
  "process_dispatches e [] d = Inr d"
| "process_dispatches e (x # xs) d =
     (case process_financial_document_dispatch e x d of Inl exc \<Rightarrow> Inl exc | Inr (_, d') \<Rightarrow> process_dispatches e xs d')"

definition process_due_financial_document_dispatches :: "env \<Rightarrow> nat \<Rightarrow> db \<Rightarrow> (nat \<times> db) res" where
  "process_due_financial_document_dispatches e limit d =
     (let due = take limit (sort_key fd_id (filter (dispatch_due (now e)) (dispatches d))) in
      map_sum id (Pair (length due)) (process_dispatches e due d))"

definition process_delivery_queue_once :: "env \<Rightarrow> db \<Rightarrow> (nat \<times> nat) res \<times> db" where
  \<comment> \<open>the notifications are committed before the documents are tried\<close>
  "process_delivery_queue_once e d =
     (let (n, c) = process_due_notification_deliveries e 100 (comms d); d1 = d\<lparr>comms := c\<rparr> in
      case process_due_financial_document_dispatches e 100 d1 of
        Inl exc \<Rightarrow> (Inl exc, d1)
      | Inr (m, d2) \<Rightarrow> (Inr (n, m), d2))"

definition run_delivery_loop :: "env list \<Rightarrow> db \<Rightarrow> db" where
  \<comment> \<open>\<open>run_delivery_worker\<close>: iterations at the given instants; an exception of one is logged\<close>
  "run_delivery_loop es d = fold (\<lambda>e d. snd (process_delivery_queue_once e d)) es d"

definition list_document_dispatches_filtered ::
  "db \<Rightarrow> user \<Rightarrow> nat \<Rightarrow> nat \<Rightarrow> string option \<Rightarrow> string option \<Rightarrow> financial_document_dispatch list res" where
  "list_document_dispatches_filtered d u skip limit status channel =
     (let select = (\<lambda>P. Inr (page skip limit (newest_first fd_created_at fd_id
            (filter (\<lambda>x. P x \<and> (truthy status \<longrightarrow> Some (fd_status x) = status)
                       \<and> (truthy channel \<longrightarrow> Some (fd_channel x) = channel)) (dispatches d))))) in
      if is_admin u then select (\<lambda>x. True)
      else if role_of u = ''HeadOffice'' then
        (case user_station d u of None \<Rightarrow> Inl AttributeError
         | Some s \<Rightarrow> select (\<lambda>x. station_in d (fd_station_id x) (st_organization_id s)))
      else select (\<lambda>x. Some (fd_station_id x) = u_station_id u))"

record dispatch_diagnostics =
  dg_total :: nat
  dg_dead_letter :: nat
  dg_by_status :: "(string \<times> nat) list"
  dg_by_channel :: "(string \<times> nat) list"

definition document_dispatch_diagnostics :: "db \<Rightarrow> user \<Rightarrow> dispatch_diagnostics res" where
  "document_dispatch_diagnostics d u =
     map_sum id (\<lambda>xs. \<lparr>dg_total = length xs, dg_dead_letter = length (filter (\<lambda>x. fd_status x = ''failed'') xs),
         dg_by_status = count_by fd_status xs [], dg_by_channel = count_by fd_channel xs []\<rparr>)
       (list_document_dispatches_filtered d u 0 5000 None None)"

section \<open>Routes (\<open>api/financial_document.py\<close>)\<close>

record dispatch_create =
  dc_channel :: string
  dc_format :: string
  dc_recipient_name :: "string option"
  dc_recipient_contact :: "string option"

definition pdf_response :: "env \<Rightarrow> financial_document \<Rightarrow> string \<times> fstring" where
  \<comment> \<open>the file name and the content\<close>
  "pdf_response e document = (fo_document_number document @ ''.pdf'', render_document_pdf_bytes e document)"

definition may_view_documents :: "user \<Rightarrow> unit res" where
  "may_view_documents u = require_permission u ''reports'' ''read'' ''You do not have permission to view financial documents''"

definition may_send_documents :: "user \<Rightarrow> unit res" where
  "may_send_documents u = require_permission u ''reports'' ''read'' ''You do not have permission to send financial documents''"

definition send_rendered ::
  "env \<Rightarrow> user \<Rightarrow> dispatch_create \<Rightarrow> string \<Rightarrow> int \<Rightarrow> db \<Rightarrow> financial_document \<Rightarrow> (financial_document_dispatch \<times> db) res" where
  \<comment> \<open>the call of \<open>dispatch_document\<close> that ends every \<open>send\<close> route\<close>
  "send_rendered e u data entity_type entity_id d document =
     dispatch_document e u document entity_type entity_id (dc_channel data) (dc_format data)
       (if truthy (dc_recipient_name data) then dc_recipient_name data else Some (fo_recipient_name document))
       (if truthy (dc_recipient_contact data) then dc_recipient_contact data else fo_recipient_contact document) d"

definition on_document :: "financial_document res \<Rightarrow> (financial_document \<Rightarrow> 'a res) \<Rightarrow> 'a res" where
  \<comment> \<open>the document, or the exception of its rendering\<close>
  "on_document r k = (case r of Inl exc \<Rightarrow> Inl exc | Inr document \<Rightarrow> k document)"

definition get_fuel_sale_invoice :: "env \<Rightarrow> db \<Rightarrow> int \<Rightarrow> user \<Rightarrow> financial_document res" where
  "get_fuel_sale_invoice e d sale_id u =
     check (may_view_documents u)
     (case get_row fs_id (fuel_sales d) sale_id of None \<Rightarrow> http 404 ''Fuel sale not found''
      | Some sale \<Rightarrow> render_fuel_sale_invoice e d sale (Some u))"

definition download_fuel_sale_invoice_pdf :: "env \<Rightarrow> db \<Rightarrow> int \<Rightarrow> user \<Rightarrow> (string \<times> fstring) res" where
  "download_fuel_sale_invoice_pdf e d sale_id u =
     check (may_view_documents u)
     (case get_row fs_id (fuel_sales d) sale_id of None \<Rightarrow> http 404 ''Fuel sale not found''
      | Some sale \<Rightarrow> on_document (render_fuel_sale_invoice e d sale (Some u)) (\<lambda>document. Inr (pdf_response e document)))"

definition send_fuel_sale_invoice ::
  "env \<Rightarrow> db \<Rightarrow> int \<Rightarrow> dispatch_create \<Rightarrow> user \<Rightarrow> (financial_document_dispatch \<times> db) res" where
  "send_fuel_sale_invoice e d sale_id data u =
     check (may_send_documents u)
     (case get_row fs_id (fuel_sales d) sale_id of None \<Rightarrow> http 404 ''Fuel sale not found''
      | Some sale \<Rightarrow> on_document (render_fuel_sale_invoice e d sale (Some u)) (send_rendered e u data ''fuel_sale'' (fs_id sale) d))"

definition get_customer_payment_receipt :: "env \<Rightarrow> db \<Rightarrow> int \<Rightarrow> user \<Rightarrow> financial_document res" where
  "get_customer_payment_receipt e d payment_id u =
     check (may_view_documents u)
     (case get_row cp_id (customer_payments d) payment_id of None \<Rightarrow> http 404 ''Customer payment not found''
      | Some payment \<Rightarrow> render_customer_payment_receipt e d payment (Some u))"

definition download_customer_payment_receipt_pdf :: "env \<Rightarrow> db \<Rightarrow> int \<Rightarrow> user \<Rightarrow> (string \<times> fstring) res" where
  "download_customer_payment_receipt_pdf e d payment_id u =
     check (may_view_documents u)
     (case get_row cp_id (customer_payments d) payment_id of None \<Rightarrow> http 404 ''Customer payment not found''
      | Some payment \<Rightarrow> on_document (render_customer_payment_receipt e d payment (Some u)) (\<lambda>document. Inr (pdf_response e document)))"

definition send_customer_payment_receipt ::
  "env \<Rightarrow> db \<Rightarrow> int \<Rightarrow> dispatch_create \<Rightarrow> user \<Rightarrow> (financial_document_dispatch \<times> db) res" where
  "send_customer_payment_receipt e d payment_id data u =
     check (may_send_documents u)
     (case get_row cp_id (customer_payments d) payment_id of None \<Rightarrow> http 404 ''Customer payment not found''
      | Some payment \<Rightarrow> on_document (render_customer_payment_receipt e d payment (Some u)) (send_rendered e u data ''customer_payment'' (cp_id payment) d))"

definition get_supplier_payment_voucher :: "env \<Rightarrow> db \<Rightarrow> int \<Rightarrow> user \<Rightarrow> financial_document res" where
  "get_supplier_payment_voucher e d payment_id u =
     check (may_view_documents u)
     (case get_row sp_id (supplier_payments d) payment_id of None \<Rightarrow> http 404 ''Supplier payment not found''
      | Some payment \<Rightarrow> render_supplier_payment_voucher e d payment (Some u))"

definition download_supplier_payment_voucher_pdf :: "env \<Rightarrow> db \<Rightarrow> int \<Rightarrow> user \<Rightarrow> (string \<times> fstring) res" where
  "download_supplier_payment_voucher_pdf e d payment_id u =
     check (may_view_documents u)
     (case get_row sp_id (supplier_payments d) payment_id of None \<Rightarrow> http 404 ''Supplier payment not found''
      | Some payment \<Rightarrow> on_document (render_supplier_payment_voucher e d payment (Some u)) (\<lambda>document. Inr (pdf_response e document)))"

definition send_supplier_payment_voucher ::
  "env \<Rightarrow> db \<Rightarrow> int \<Rightarrow> dispatch_create \<Rightarrow> user \<Rightarrow> (financial_document_dispatch \<times> db) res" where
  "send_supplier_payment_voucher e d payment_id data u =
     check (may_send_documents u)
     (case get_row sp_id (supplier_payments d) payment_id of None \<Rightarrow> http 404 ''Supplier payment not found''
      | Some payment \<Rightarrow> on_document (render_supplier_payment_voucher e d payment (Some u)) (send_rendered e u data ''supplier_payment'' (sp_id payment) d))"

definition get_customer_ledger_document :: "env \<Rightarrow> db \<Rightarrow> int \<Rightarrow> user \<Rightarrow> financial_document res" where
  "get_customer_ledger_document e d customer_id u =
     check (may_view_documents u)
     (case get_row cu_id (customers d) customer_id of None \<Rightarrow> http 404 ''Customer not found''
      | Some customer \<Rightarrow> render_customer_ledger_statement e d customer (Some u))"

definition download_customer_ledger_document_pdf :: "env \<Rightarrow> db \<Rightarrow> int \<Rightarrow> user \<Rightarrow> (string \<times> fstring) res" where
  "download_customer_ledger_document_pdf e d customer_id u =
     check (may_view_documents u)
     (case get_row cu_id (customers d) customer_id of None \<Rightarrow> http 404 ''Customer not found''
      | Some customer \<Rightarrow> on_document (render_customer_ledger_statement e d customer (Some u)) (\<lambda>document. Inr (pdf_response e document)))"

definition send_customer_ledger_document ::
  "env \<Rightarrow> db \<Rightarrow> int \<Rightarrow> dispatch_create \<Rightarrow> user \<Rightarrow> (financial_document_dispatch \<times> db) res" where
  "send_customer_ledger_document e d customer_id data u =
     check (may_send_documents u)
     (case get_row cu_id (customers d) customer_id of None \<Rightarrow> http 404 ''Customer not found''
      | Some customer \<Rightarrow> on_document (render_customer_ledger_statement e d customer (Some u)) (send_rendered e u data ''customer'' (cu_id customer) d))"

definition get_fuel_sale_einvoice_payload ::
  "env \<Rightarrow> db \<Rightarrow> int \<Rightarrow> user \<Rightarrow> (string \<times> policy_context option \<times> einvoice option) res" where
  "get_fuel_sale_einvoice_payload e d sale_id u =
     check (may_view_documents u)
     (case get_row fs_id (fuel_sales d) sale_id of None \<Rightarrow> http 404 ''Fuel sale not found''
      | Some sale \<Rightarrow> on_document (render_fuel_sale_invoice e d sale (Some u))
          (\<lambda>document. Inr (fo_document_number document, fo_compliance_context document, fo_machine_payload document)))"

definition download_fuel_sale_einvoice_xml :: "env \<Rightarrow> db \<Rightarrow> int \<Rightarrow> user \<Rightarrow> fstring res" where
  "download_fuel_sale_einvoice_xml e d sale_id u =
     check (may_view_documents u)
     (case get_row fs_id (fuel_sales d) sale_id of None \<Rightarrow> http 404 ''Fuel sale not found''
      | Some sale \<Rightarrow> render_fuel_sale_einvoice_xml e d sale (Some u))"

definition with_supplier_station :: "db \<Rightarrow> int \<Rightarrow> int \<Rightarrow> (supplier \<Rightarrow> station \<Rightarrow> 'a res) \<Rightarrow> 'a res" where
  "with_supplier_station d supplier_id station_id k =
     (case get_row su_id (suppliers d) supplier_id of None \<Rightarrow> http 404 ''Supplier not found'' | Some supplier \<Rightarrow>
      case get_row st_id (stations d) station_id of None \<Rightarrow> http 404 ''Station not found''
      | Some station \<Rightarrow> k supplier station)"

definition get_supplier_ledger_document :: "env \<Rightarrow> db \<Rightarrow> int \<Rightarrow> int \<Rightarrow> user \<Rightarrow> financial_document res" where
  "get_supplier_ledger_document e d supplier_id station_id u =
     check (may_view_documents u)
     (with_supplier_station d supplier_id station_id
        (\<lambda>supplier station. render_supplier_ledger_statement e d supplier station (Some u)))"

definition download_supplier_ledger_document_pdf :: "env \<Rightarrow> db \<Rightarrow> int \<Rightarrow> int \<Rightarrow> user \<Rightarrow> (string \<times> fstring) res" where
  "download_supplier_ledger_document_pdf e d supplier_id station_id u =
     check (may_view_documents u)
     (with_supplier_station d supplier_id station_id
        (\<lambda>supplier station. on_document (render_supplier_ledger_statement e d supplier station (Some u))
           (\<lambda>document. Inr (pdf_response e document))))"

definition send_supplier_ledger_document ::
  "env \<Rightarrow> db \<Rightarrow> int \<Rightarrow> int \<Rightarrow> dispatch_create \<Rightarrow> user \<Rightarrow> (financial_document_dispatch \<times> db) res" where
  "send_supplier_ledger_document e d supplier_id station_id data u =
     check (may_send_documents u)
     (with_supplier_station d supplier_id station_id
        (\<lambda>supplier station. on_document (render_supplier_ledger_statement e d supplier station (Some u))
           (send_rendered e u data ''supplier'' (su_id supplier) d)))"

definition may_view_dispatches :: "user \<Rightarrow> unit res" where
  "may_view_dispatches u =
     require_permission u ''reports'' ''read'' ''You do not have permission to view financial document dispatches''"

definition list_document_dispatches ::
  "db \<Rightarrow> user \<Rightarrow> nat \<Rightarrow> nat \<Rightarrow> string option \<Rightarrow> string option \<Rightarrow> financial_document_dispatch list res" where
  "list_document_dispatches d u skip limit status channel =
     check (may_view_dispatches u) (list_document_dispatches_filtered d u skip limit status channel)"

definition list_dead_letter_document_dispatches ::
  "db \<Rightarrow> user \<Rightarrow> nat \<Rightarrow> nat \<Rightarrow> financial_document_dispatch list res" where
  "list_dead_letter_document_dispatches d u skip limit =
     check (may_view_dispatches u) (list_document_dispatches_filtered d u skip limit (Some ''failed'') None)"

definition get_document_dispatch_diagnostics :: "db \<Rightarrow> user \<Rightarrow> dispatch_diagnostics res" where
  "get_document_dispatch_diagnostics d u =
     check (require_permission u ''reports'' ''read'' ''You do not have permission to view financial document dispatch diagnostics'')
       (document_dispatch_diagnostics d u)"

definition process_due_dispatches_endpoint :: "env \<Rightarrow> nat \<Rightarrow> user \<Rightarrow> db \<Rightarrow> (nat \<times> db) res" where
  "process_due_dispatches_endpoint e limit u d =
     check (require_permission u ''delivery_jobs'' ''process'' ''You do not have permission to process delivery jobs'')
       (process_due_financial_document_dispatches e limit d)"

definition retry_financial_document_dispatch ::
  "env \<Rightarrow> db \<Rightarrow> int \<Rightarrow> user \<Rightarrow> (financial_document_dispatch \<times> db) res" where
  "retry_financial_document_dispatch e d dispatch_id u =
     check (require_permission u ''reports'' ''read'' ''You do not have permission to retry financial document dispatches'')
     (case get_row fd_id (dispatches d) dispatch_id of None \<Rightarrow> http 404 ''Financial document dispatch not found''
      | Some x \<Rightarrow> retry_document_dispatch e x u d)"

section \<open>The dispatch queue\<close>

definition dispatch_pending :: "financial_document_dispatch \<Rightarrow> bool" where
  "dispatch_pending x \<longleftrightarrow> fd_status x \<in> set [''queued'', ''retrying'']"

lemma deliver_status:
  "fst (deliver_email e to' subject body html attachment) \<in> set [''sent'', ''skipped'', ''failed'']"
  "fst (deliver_sms e to' body) \<in> set [''sent'', ''skipped'', ''failed'']"
  "fst (deliver_whatsapp e to' body) \<in> set [''sent'', ''skipped'', ''failed'']"
  by (simp_all add: deliver_email_def deliver_sms_def deliver_whatsapp_def twilio_outcome_def split: option.split sum.split prod.split)

lemma channel_status: "fst (dispatch_via_channel e x document) \<in> set [''sent'', ''skipped'', ''failed'']"
  unfolding dispatch_via_channel_def Let_def using deliver_status by (simp del: list.set; simp)

lemma record_dispatch_cases:
  obtains (settled) "fd_status (record_dispatch e doc x) \<in> set [''sent'', ''skipped'', ''failed'']"
      "fd_attempts_count (record_dispatch e doc x) = fd_attempts_count x + 1"
  | (again) "fd_status (record_dispatch e doc x) = ''retrying''"
      "fd_attempts_count (record_dispatch e doc x) = fd_attempts_count x + 1"
      "fd_attempts_count x + 1 < MAX_DELIVERY_ATTEMPTS"
      "fd_next_retry_at (record_dispatch e doc x) = Some (next_retry_time e (fd_attempts_count x + 1))"
proof -
  let ?x = "x\<lparr>fd_attempts_count := fd_attempts_count x + 1, fd_last_attempt_at := Some (now e)\<rparr>"
  obtain st dt where O: "dispatch_via_channel e ?x (Some doc) = (st, dt)" by fastforce
  with channel_status [of e ?x "Some doc"] have "st \<in> set [''sent'', ''skipped'', ''failed'']" by simp
  show ?thesis
  proof (cases "st = ''failed'' \<and> fd_attempts_count x + 1 < MAX_DELIVERY_ATTEMPTS")
    case True
    then show ?thesis by (intro again) (simp_all add: record_dispatch_def O should_retry_def Let_def)
  next
    case False
    with \<open>st \<in> _\<close> show ?thesis
      by (intro settled) (auto simp: record_dispatch_def O should_retry_def Let_def)
  qed
qed

lemma record_dispatch_keeps [simp]:
  "fd_id (record_dispatch e doc x) = fd_id x" "fd_station_id (record_dispatch e doc x) = fd_station_id x"
  "fd_entity_type (record_dispatch e doc x) = fd_entity_type x" "fd_entity_id (record_dispatch e doc x) = fd_entity_id x"
  by (simp_all add: record_dispatch_def Let_def split: prod.split)

definition same_sources :: "db \<Rightarrow> db \<Rightarrow> bool" where
  \<comment> \<open>the tables that documents are made from\<close>
  "same_sources d d' \<longleftrightarrow> stations d = stations d' \<and> customers d = customers d' \<and> suppliers d = suppliers d'
     \<and> fuel_types d = fuel_types d' \<and> tanks d = tanks d' \<and> purchases d = purchases d' \<and> fuel_sales d = fuel_sales d'
     \<and> customer_payments d = customer_payments d' \<and> supplier_payments d = supplier_payments d'
     \<and> invoice_profiles (document_tables d) = invoice_profiles (document_tables d')
     \<and> document_templates (document_tables d) = document_templates (document_tables d')"

lemma same_sources_simps [simp]:
  "same_sources d d" "same_sources (set_dispatches t d) d' \<longleftrightarrow> same_sources d d'" "same_sources (d\<lparr>comms := c\<rparr>) d' \<longleftrightarrow> same_sources d d'"
  by (auto simp: same_sources_def set_dispatches_def)

lemma same_sources_trans: "same_sources d d1 \<Longrightarrow> same_sources d1 d2 \<Longrightarrow> same_sources d d2"
  by (auto simp: same_sources_def)

lemma set_dispatches_simps [simp]:
  "dispatches (set_dispatches t d) = t" "set_dispatches t (set_dispatches t' d) = set_dispatches t d"
  "set_dispatches (dispatches d) d = d" "comms (set_dispatches t d) = comms d"
  by (simp_all add: set_dispatches_def)

text \<open>Documents do not depend on the queue, on the notifications or on the progress of their own dispatch.\<close>

lemma render_frame:
  assumes "same_sources d' d"
  shows "render_customer_payment_receipt e d' p None = render_customer_payment_receipt e d p None"
    "render_supplier_payment_voucher e d' q None = render_supplier_payment_voucher e d q None"
    "render_customer_ledger_statement e d' c None = render_customer_ledger_statement e d c None"
    "render_supplier_ledger_statement e d' s k None = render_supplier_ledger_statement e d s k None"
    "render_fuel_sale_invoice e d' f None = render_fuel_sale_invoice e d f None"
proof -
  have t: "stations d' = stations d" "customers d' = customers d" "suppliers d' = suppliers d" "fuel_types d' = fuel_types d"
    "tanks d' = tanks d" "purchases d' = purchases d" "fuel_sales d' = fuel_sales d"
    "customer_payments d' = customer_payments d" "supplier_payments d' = supplier_payments d"
    "invoice_profiles (document_tables d') = invoice_profiles (document_tables d)"
    "document_templates (document_tables d') = document_templates (document_tables d)"
    using assms by (simp_all add: same_sources_def)
  have 1: "profile_of d' = profile_of d" "active_template d' = active_template d"
    by (simp_all only: fun_eq_iff refl simp_thms profile_of_def active_template_def t)
  have 2: "document_access d' None = document_access d None"
    by (simp add: fun_eq_iff document_access_def)
  have 3: "composed_html e d' k ty b c = composed_html e d k ty b c" for k ty b c
    by (simp only: composed_html_def 1)
  have 4: "customer_statement_items d' = customer_statement_items d"
    "supplier_statement_items d' = supplier_statement_items d"
    "sale_customer_of d' = sale_customer_of d"
    by (simp_all only: fun_eq_iff refl simp_thms customer_statement_items_def supplier_statement_items_def sale_customer_of_def t)
  have 5: "build_fuel_sale_einvoice_payload d' = build_fuel_sale_einvoice_payload d"
    by (intro ext) (simp only: build_fuel_sale_einvoice_payload_def t 4)
  show "render_customer_payment_receipt e d' p None = render_customer_payment_receipt e d p None"
    by (simp only: render_customer_payment_receipt_def 1 2 3 4 t)
  show "render_supplier_payment_voucher e d' q None = render_supplier_payment_voucher e d q None"
    by (simp only: render_supplier_payment_voucher_def 1 2 3 4 t)
  show "render_customer_ledger_statement e d' c None = render_customer_ledger_statement e d c None"
    by (simp only: render_customer_ledger_statement_def 1 2 3 4 t)
  show "render_supplier_ledger_statement e d' s k None = render_supplier_ledger_statement e d s k None"
    by (simp only: render_supplier_ledger_statement_def 1 2 3 4 t)
  show "render_fuel_sale_invoice e d' f None = render_fuel_sale_invoice e d f None"
    by (simp only: render_fuel_sale_invoice_def 1 2 3 4 5 t)
qed

lemma resolve_frame:
  assumes "same_sources d' d"
  shows "resolve_document_for_dispatch e d' x = resolve_document_for_dispatch e d x"
proof -
  have "stations d' = stations d" "customers d' = customers d" "suppliers d' = suppliers d" "fuel_sales d' = fuel_sales d"
    "customer_payments d' = customer_payments d" "supplier_payments d' = supplier_payments d"
    using assms by (simp_all add: same_sources_def)
  then show ?thesis unfolding resolve_document_for_dispatch_def Let_def render_frame [OF assms] by (simp only: refl)
qed

lemma resolve_record [simp]:
  "resolve_document_for_dispatch e d (record_dispatch e' doc x) = resolve_document_for_dispatch e d x"
  unfolding resolve_document_for_dispatch_def record_dispatch_keeps by (rule refl)

interpretation dispatch_queue:
  retry_queue "\<lambda>e x. record_dispatch e (projr (resolve_document_for_dispatch e d x)) x" fd_attempts_count dispatch_pending
    dispatch_due now MAX_DELIVERY_ATTEMPTS "minutes 10" fd_id
  for d :: db
proof
  fix e s t and x :: financial_document_dispatch
  let ?doc = "projr (resolve_document_for_dispatch e d x)" let ?y = "record_dispatch e ?doc x"
  show "fd_attempts_count x \<le> fd_attempts_count ?y"
    by (rule record_dispatch_cases [of e ?doc x]) simp_all
  show "fd_attempts_count ?y \<le> fd_attempts_count x + 1"
    by (rule record_dispatch_cases [of e ?doc x]) simp_all
  show "dispatch_pending ?y \<Longrightarrow> fd_attempts_count ?y = fd_attempts_count x + 1 \<and> fd_attempts_count ?y < MAX_DELIVERY_ATTEMPTS"
    by (rule record_dispatch_cases [of e ?doc x]) (auto simp: dispatch_pending_def)
  show "0 \<le> fd_attempts_count x \<Longrightarrow> dispatch_pending ?y \<Longrightarrow> now e + minutes 10 \<le> t \<Longrightarrow> dispatch_due t ?y"
    by (rule record_dispatch_cases [of e ?doc x])
      (use retry_delay_bound [of "fd_attempts_count x" e] in \<open>auto simp: dispatch_pending_def dispatch_due_def\<close>)
  show "dispatch_due t x \<Longrightarrow> dispatch_pending x"
    by (simp add: dispatch_due_def dispatch_pending_def)
  show "dispatch_due s x \<Longrightarrow> s \<le> t \<Longrightarrow> dispatch_due t x"
    by (auto simp: dispatch_due_def split: option.splits)
  show "fd_id ?y = fd_id x" by simp
  show "0 \<le> minutes 10" by (simp add: minutes_def)
qed


lemma process_dispatches_fold:
  assumes "same_sources d d0" "\<And>x. x \<in> set xs \<Longrightarrow> \<not> isl (resolve_document_for_dispatch e d0 x)"
  shows "process_dispatches e xs d = Inr (set_dispatches
    (fold (\<lambda>x. put_row fd_id (record_dispatch e (projr (resolve_document_for_dispatch e d0 x)) x)) xs (dispatches d)) d)"
  using assms
proof (induction xs arbitrary: d)
  case (Cons x xs)
  then obtain doc where "resolve_document_for_dispatch e d0 x = Inr doc" by (metis list.set_intros(1) sum.collapse(2))
  with Cons resolve_frame [OF Cons.prems(1)] show ?case
    by (simp add: process_financial_document_dispatch_def Let_def)
qed simp

lemma process_dispatches_blocked:
  assumes "same_sources d d0" "x \<in> set xs" "isl (resolve_document_for_dispatch e d0 x)"
  shows "isl (process_dispatches e xs d)"
  using assms
proof (induction xs arbitrary: d)
  case (Cons y xs)
  show ?case
  proof (cases "resolve_document_for_dispatch e d y")
    case (Inr doc)
    with Cons.prems resolve_frame [OF Cons.prems(1), of e x] have "x \<noteq> y" by (metis isl_def sum.disc(2))
    with Cons.prems(2) have "x \<in> set xs" by simp
    with Cons Inr show ?thesis by (simp add: process_financial_document_dispatch_def Let_def)
  qed (simp add: process_financial_document_dispatch_def)
qed simp

lemma process_dispatches_frame: "process_dispatches e xs d = Inr d' \<Longrightarrow> same_sources d d0 \<Longrightarrow> same_sources d' d0"
  by (induction xs arbitrary: d)
    (auto simp: process_financial_document_dispatch_def Let_def split: sum.splits prod.splits)

lemma serve_dispatch_keeps [simp]:
  "resolve_document_for_dispatch e' d' (dispatch_queue.serve d n e t x) = resolve_document_for_dispatch e' d' x"
  by (simp add: dispatch_queue.serve_def)

lemma dispatch_pass:
  assumes "same_sources d d0" "keyed fd_id (dispatches d)"
    and "\<And>x. x \<in> set (dispatches d) \<Longrightarrow> dispatch_pending x \<Longrightarrow> \<not> isl (resolve_document_for_dispatch e d0 x)"
  shows "same_sources (snd (process_delivery_queue_once e d)) d0
    \<and> dispatches (snd (process_delivery_queue_once e d)) = dispatch_queue.pass d0 100 e (dispatches d)"
proof -
  let ?t = "dispatches d" let ?first = "dispatch_queue.first_due 100 e ?t"
  obtain n c where N: "process_due_notification_deliveries e 100 (comms d) = (n, c)" by fastforce
  have first: "?first = take 100 (sort_key fd_id (filter (dispatch_due (now e)) ?t))"
    by (simp add: dispatch_queue.first_due_def)
  have "distinct ?t" using assms(2) by (simp add: keyed_def distinct_map)
  then have D: "distinct ?first" "set ?first \<subseteq> set ?t" unfolding first by (auto dest: in_set_takeD)
  have "\<not> isl (resolve_document_for_dispatch e d0 x)" if "x \<in> set ?first" for x
    using that D(2) assms(3) dispatch_queue.first_due_pending [OF that] by blast
  then have "process_dispatches e ?first (d\<lparr>comms := c\<rparr>) = Inr (set_dispatches
      (fold (\<lambda>x. put_row fd_id (record_dispatch e (projr (resolve_document_for_dispatch e d0 x)) x)) ?first ?t)
      (d\<lparr>comms := c\<rparr>))"
    by (subst process_dispatches_fold [where ?d0.0 = d0]) (auto simp: assms(1))
  also have "fold (\<lambda>x. put_row fd_id (record_dispatch e (projr (resolve_document_for_dispatch e d0 x)) x)) ?first ?t
      = map (\<lambda>x. if x \<in> set ?first then record_dispatch e (projr (resolve_document_for_dispatch e d0 x)) x else x) ?t"
    using D by (intro fold_put_rows assms(2)) auto
  also have "\<dots> = dispatch_queue.pass d0 100 e ?t"
    unfolding dispatch_queue.pass_def dispatch_queue.serve_def by simp
  finally show ?thesis
    by (simp add: process_delivery_queue_once_def N process_due_financial_document_dispatches_def first assms(1) Let_def)
qed

lemma delivery_loop_passes:
  assumes "same_sources d d0" "keyed fd_id (dispatches d)"
    and "\<And>x e. x \<in> set (dispatches d) \<Longrightarrow> dispatch_pending x \<Longrightarrow> e \<in> set es \<Longrightarrow> \<not> isl (resolve_document_for_dispatch e d0 x)"
  shows "dispatches (run_delivery_loop es d) = fold (dispatch_queue.pass d0 100) es (dispatches d)"
  using assms
proof (induction es arbitrary: d)
  case (Cons e es)
  let ?d = "snd (process_delivery_queue_once e d)"
  have P: "same_sources ?d d0" "dispatches ?d = dispatch_queue.pass d0 100 e (dispatches d)"
    using dispatch_pass [OF Cons.prems(1,2), of e] Cons.prems(3) by auto
  have "dispatches (run_delivery_loop es ?d) = fold (dispatch_queue.pass d0 100) es (dispatches ?d)"
  proof (rule Cons.IH [OF P(1)])
    show "keyed fd_id (dispatches ?d)" using Cons.prems(2) by (simp add: keyed_def P(2))
    fix y e' assume y: "y \<in> set (dispatches ?d)" "dispatch_pending y" "e' \<in> set es"
    then obtain x where x: "x \<in> set (dispatches d)" "y = dispatch_queue.serve d0 100 e (dispatches d) x"
      by (auto simp: P(2) dispatch_queue.pass_def)
    with y(2) have "dispatch_pending x" using dispatch_queue.serve_pending by blast
    with Cons.prems(3) x y(3) show "\<not> isl (resolve_document_for_dispatch e' d0 y)" by simp
  qed
  then show ?case by (simp add: run_delivery_loop_def P(2))
qed (simp add: run_delivery_loop_def)


text \<open>
  C29. The retries of the document queue end, however many documents wait: when every pending dispatch can be rendered, has
  attempts left and is due at the first iteration, \<open>3 k\<close> iterations of the delivery worker at least ten minutes apart leave none
  of at most \<open>100 k\<close> pending dispatches queued or retrying, and none is attempted more often than \<open>MAX_DELIVERY_ATTEMPTS\<close> by
  the worker.
\<close>

theorem dispatch_retries_end:
  assumes "keyed fd_id (dispatches d)"
    and "\<forall>x \<in> set (dispatches d). 0 \<le> fd_attempts_count x
           \<and> (dispatch_pending x \<longrightarrow> fd_attempts_count x < MAX_DELIVERY_ATTEMPTS \<and> dispatch_due (now (hd es)) x)"
    and "\<forall>x \<in> set (dispatches d). dispatch_pending x \<longrightarrow> (\<forall>e \<in> set es. \<not> isl (resolve_document_for_dispatch e d x))"
    and "es \<noteq> []" "successively (\<lambda>e e'. now e + minutes 10 \<le> now e') es"
    and "length (filter dispatch_pending (dispatches d)) \<le> 100 * k" "3 * k \<le> length es"
  shows "list_all2 (\<lambda>x y. fd_id y = fd_id x \<and> \<not> dispatch_pending y
            \<and> fd_attempts_count y \<le> max (fd_attempts_count x) MAX_DELIVERY_ATTEMPTS)
          (dispatches d) (dispatches (run_delivery_loop es d))"
proof -
  have "dispatch_queue.queue_wf (dispatches d)"
    using assms(1,2) by (auto simp: dispatch_queue.queue_wf_def keyed_def)
  moreover have "dispatch_queue.ready (now (hd es)) (dispatches d)"
    using assms(2) by (simp add: dispatch_queue.ready_def)
  moreover have "nat MAX_DELIVERY_ATTEMPTS * k \<le> length es" using assms(7) by (simp add: MAX_DELIVERY_ATTEMPTS_def)
  moreover have "dispatches (run_delivery_loop es d) = fold (dispatch_queue.pass d 100) es (dispatches d)"
    using assms(3) by (intro delivery_loop_passes assms(1)) auto
  ultimately show ?thesis
    using dispatch_queue.settles [of "dispatches d" es k 100 d] assms(4-6) by (simp add: mult.commute)
qed

text \<open>
  One dispatch that cannot be rendered stops the whole document queue. While it stays due and its document cannot
  be resolved (its payment, customer, supplier or sale is gone, or its template does not parse), and fewer than 100
  pending dispatches are older, no iteration of the worker changes any dispatch: each attempt is rolled back with it.
\<close>

theorem unresolvable_dispatch_blocks_queue:
  assumes "keyed fd_id (dispatches d)" "x \<in> set (dispatches d)"
    and "\<forall>e \<in> set es. dispatch_due (now e) x \<and> isl (resolve_document_for_dispatch e d x)"
    and "length (filter (\<lambda>y. dispatch_pending y \<and> fd_id y < fd_id x) (dispatches d)) < 100"
  shows "document_tables (run_delivery_loop es d) = document_tables d"
proof -
  have "document_tables (snd (process_delivery_queue_once e d')) = document_tables d \<and> same_sources (snd (process_delivery_queue_once e d')) d"
    if e: "e \<in> set es" and d': "document_tables d' = document_tables d" "same_sources d' d" for e d'
  proof -
    let ?due = "filter (dispatch_due (now e)) (dispatches d)"
    obtain n c where N: "process_due_notification_deliveries e 100 (comms d') = (n, c)" by fastforce
    have "length (filter (\<lambda>y. fd_id y < fd_id x) ?due) \<le> length (filter (\<lambda>y. dispatch_pending y \<and> fd_id y < fd_id x) (dispatches d))"
    proof -
      have "filter (\<lambda>y. fd_id y < fd_id x) ?due = filter (dispatch_due (now e)) (filter (\<lambda>y. dispatch_pending y \<and> fd_id y < fd_id x) (dispatches d))"
        by (auto simp: dispatch_due_def dispatch_pending_def intro!: filter_cong)
      then show ?thesis using length_filter_le by metis
    qed
    moreover have "distinct (map fd_id ?due)" using assms(1) by (simp add: keyed_def distinct_map_filter)
    ultimately have "x \<in> set (take 100 (sort_key fd_id ?due))"
      using assms e by (subst in_take_sort_key) auto
    then have "isl (process_dispatches e (take 100 (sort_key fd_id ?due)) (d'\<lparr>comms := c\<rparr>))"
      using assms(3) e d'(2) by (intro process_dispatches_blocked [where ?d0.0 = d]) auto
    then show ?thesis
      using d' by (auto simp: process_delivery_queue_once_def N process_due_financial_document_dispatches_def Let_def isl_def)
  qed
  note step = this
  have "document_tables (run_delivery_loop es' d') = document_tables d"
    if "set es' \<subseteq> set es" "document_tables d' = document_tables d" "same_sources d' d" for es' d'
    using that
  proof (induction es' arbitrary: d')
    case (Cons e es')
    with step [of e d'] show ?case by (simp add: run_delivery_loop_def)
  qed (simp add: run_delivery_loop_def)
  then show ?thesis by simp
qed


definition sample_dispatch :: financial_document_dispatch where
  \<comment> \<open>a customer statement by sms whose first attempt has failed\<close>
  "sample_dispatch = \<lparr>fd_id = 1, fd_station_id = 1, fd_requested_by_user_id = 3, fd_document_type = ''customer_ledger_statement'',
     fd_entity_type = ''customer'', fd_entity_id = 1, fd_channel = ''sms'', fd_output_format = ''pdf'',
     fd_recipient_name = Some ''Carla'', fd_recipient_contact = Some ''555'', fd_status = ''retrying'', fd_detail = None,
     fd_attempts_count = 1, fd_last_attempt_at = Some 0, fd_next_retry_at = Some 300000000, fd_processed_at = None,
     fd_created_at = 0\<rparr>"

definition sample_dispatch_db :: "int \<Rightarrow> db" where
  \<comment> \<open>the dispatch is for the customer with this key\<close>
  "sample_dispatch_db i = set_dispatches [sample_dispatch\<lparr>fd_entity_id := i\<rparr>] sample_db"

lemma sample_dispatch_rows:
  "dispatches (sample_dispatch_db i) = [sample_dispatch\<lparr>fd_entity_id := i\<rparr>]"
  "customers (sample_dispatch_db i) = [sample_customer]" "stations (sample_dispatch_db i) = [sample_station]"
  "active_template (sample_dispatch_db i) station ty = None"
  by (simp_all add: sample_dispatch_db_def set_dispatches_def sample_db_def empty_db_def empty_documents_def active_template_def)

lemma sample_dispatch_resolves: "\<not> isl (resolve_document_for_dispatch e (sample_dispatch_db 1) (sample_dispatch\<lparr>fd_entity_id := 1\<rparr>))"
proof -
  have "get_row st_id (stations (sample_dispatch_db 1)) (cu_station_id sample_customer) = Some sample_station"
    by (simp add: sample_dispatch_rows get_row_Cons sample_station_def sample_customer_def)
  from customer_statement_default [OF this, of None e] obtain document
    where "render_customer_ledger_statement e (sample_dispatch_db 1) sample_customer None = Inr document"
    by (auto simp: sample_dispatch_rows document_access_def)
  then show ?thesis
    by (simp add: resolve_document_for_dispatch_def sample_dispatch_rows get_row_Cons sample_dispatch_def)
      (simp add: sample_customer_def)
qed

theorem dispatch_retries_end_witness:
  "list_all2 (\<lambda>x y. fd_id y = fd_id x \<and> \<not> dispatch_pending y
            \<and> fd_attempts_count y \<le> max (fd_attempts_count x) MAX_DELIVERY_ATTEMPTS)
     (dispatches (sample_dispatch_db 1))
     (dispatches (run_delivery_loop
        [sample_env, sample_env\<lparr>now := 1700001000000000\<rparr>, sample_env\<lparr>now := 1700002000000000\<rparr>] (sample_dispatch_db 1)))"
proof (rule dispatch_retries_end [where k = 1])
  let ?es = "[sample_env, sample_env\<lparr>now := 1700001000000000\<rparr>, sample_env\<lparr>now := 1700002000000000\<rparr>]"
  show "\<forall>x \<in> set (dispatches (sample_dispatch_db 1)). dispatch_pending x
      \<longrightarrow> (\<forall>e \<in> set ?es. \<not> isl (resolve_document_for_dispatch e (sample_dispatch_db 1) x))"
    by (simp add: sample_dispatch_rows sample_dispatch_resolves)
  show "\<forall>x \<in> set (dispatches (sample_dispatch_db 1)). 0 \<le> fd_attempts_count x
           \<and> (dispatch_pending x \<longrightarrow> fd_attempts_count x < MAX_DELIVERY_ATTEMPTS \<and> dispatch_due (now (hd ?es)) x)"
    by (simp add: sample_dispatch_rows sample_dispatch_def MAX_DELIVERY_ATTEMPTS_def dispatch_due_def sample_env_def)
qed (simp_all add: sample_dispatch_rows keyed_def sample_env_def minutes_def)

theorem unresolvable_dispatch_blocks_queue_witness:
  "document_tables (run_delivery_loop [sample_env, sample_env\<lparr>now := 1700001000000000\<rparr>] (sample_dispatch_db 9))
    = document_tables (sample_dispatch_db 9)"
proof (rule unresolvable_dispatch_blocks_queue [where x = "sample_dispatch\<lparr>fd_entity_id := 9\<rparr>"])
  have "resolve_document_for_dispatch e (sample_dispatch_db 9) (sample_dispatch\<lparr>fd_entity_id := 9\<rparr>) = http 404 ''Customer not found''" for e
    by (simp add: resolve_document_for_dispatch_def sample_dispatch_rows get_row_Cons get_row_Nil sample_dispatch_def sample_customer_def)
  then show "\<forall>e \<in> set [sample_env, sample_env\<lparr>now := 1700001000000000\<rparr>].
      dispatch_due (now e) (sample_dispatch\<lparr>fd_entity_id := 9\<rparr>)
      \<and> isl (resolve_document_for_dispatch e (sample_dispatch_db 9) (sample_dispatch\<lparr>fd_entity_id := 9\<rparr>))"
    by (simp add: sample_dispatch_def dispatch_due_def sample_env_def)
qed (simp_all add: sample_dispatch_rows keyed_def)

section \<open>Whose documents\<close>

definition in_document_scope :: "db \<Rightarrow> user \<Rightarrow> int \<Rightarrow> bool" where
  \<comment> \<open>an administrator, a head office user of the station's organization, a user of the station\<close>
  "in_document_scope d u i \<longleftrightarrow> is_admin u
     \<or> (is_head_office_user u \<and> station_in d i (get_user_organization_id d u)) \<or> u_station_id u = Some i"

datatype document_request =
    FuelSaleInvoice int
  | CustomerReceipt int
  | SupplierVoucher int
  | CustomerStatement int
  | SupplierStatement int int

fun get_document :: "env \<Rightarrow> db \<Rightarrow> user \<Rightarrow> document_request \<Rightarrow> financial_document res" where
  "get_document e d u (FuelSaleInvoice i) = get_fuel_sale_invoice e d i u"
| "get_document e d u (CustomerReceipt i) = get_customer_payment_receipt e d i u"
| "get_document e d u (SupplierVoucher i) = get_supplier_payment_voucher e d i u"
| "get_document e d u (CustomerStatement i) = get_customer_ledger_document e d i u"
| "get_document e d u (SupplierStatement i j) = get_supplier_ledger_document e d i j u"

fun send_document ::
  "env \<Rightarrow> db \<Rightarrow> user \<Rightarrow> dispatch_create \<Rightarrow> document_request \<Rightarrow> (financial_document_dispatch \<times> db) res" where
  "send_document e d u data (FuelSaleInvoice i) = send_fuel_sale_invoice e d i data u"
| "send_document e d u data (CustomerReceipt i) = send_customer_payment_receipt e d i data u"
| "send_document e d u data (SupplierVoucher i) = send_supplier_payment_voucher e d i data u"
| "send_document e d u data (CustomerStatement i) = send_customer_ledger_document e d i data u"
| "send_document e d u data (SupplierStatement i j) = send_supplier_ledger_document e d i j data u"

lemma document_station_access:
  assumes "ensure_document_station_access d u station = ok" "get_row st_id (stations d) i = Some station"
  shows "in_document_scope d u i"
  using assms get_row_Some [OF assms(2)]
  by (auto simp: ensure_document_station_access_def in_document_scope_def station_in_def split: if_splits)

lemma document_scope:
  "get_row st_id (stations d) j = Some station \<Longrightarrow> ensure_document_station_access d u station = ok
    \<Longrightarrow> in_document_scope d u (st_id station)"
  using document_station_access [of d u station j] get_row_Some [of st_id "stations d" j station] by simp

lemma rendered_in_scope:
  "render_customer_payment_receipt e d p (Some u) = Inr document \<Longrightarrow> in_document_scope d u (fo_station_id document)"
  "render_supplier_payment_voucher e d q (Some u) = Inr document \<Longrightarrow> in_document_scope d u (fo_station_id document)"
  "render_customer_ledger_statement e d c (Some u) = Inr document \<Longrightarrow> in_document_scope d u (fo_station_id document)"
  "render_fuel_sale_invoice e d s (Some u) = Inr document \<Longrightarrow> in_document_scope d u (fo_station_id document)"
  "get_row st_id (stations d) i = Some station \<Longrightarrow> render_supplier_ledger_statement e d r station (Some u) = Inr document
    \<Longrightarrow> in_document_scope d u (fo_station_id document)"
  unfolding render_customer_payment_receipt_def render_supplier_payment_voucher_def render_customer_ledger_statement_def
    render_fuel_sale_invoice_def render_supplier_ledger_statement_def document_access_def option.case
  by (auto simp: res_simps Let_def intro: document_scope)


lemma send_is_get:
  "send_document e d u data r = Inr (x, d') \<Longrightarrow> \<exists>document entity_type entity_id. get_document e d u r = Inr document
     \<and> send_rendered e u data entity_type entity_id d document = Inr (x, d')"
  by (cases r)
    (auto simp: send_fuel_sale_invoice_def get_fuel_sale_invoice_def send_customer_payment_receipt_def get_customer_payment_receipt_def
      send_supplier_payment_voucher_def get_supplier_payment_voucher_def send_customer_ledger_document_def get_customer_ledger_document_def
      send_supplier_ledger_document_def get_supplier_ledger_document_def may_send_documents_def may_view_documents_def
      require_permission_ok with_supplier_station_def on_document_def res_simps)

text \<open>
  C28. Financial documents stay within their station: whoever is given a document, on the screen or through a delivery
  channel, is an administrator, a head office user of the organization of the document's station, or a user of that station, and
  sending a document queues exactly one dispatch, for that station, with one attempt made.
\<close>

theorem documents_confined:
  "(\<forall>document. get_document e d u r = Inr document \<longrightarrow> in_document_scope d u (fo_station_id document))
   \<and> (\<forall>x d'. send_document e d u data r = Inr (x, d') \<longrightarrow>
        in_document_scope d u (fd_station_id x) \<and> fd_attempts_count x = 1
        \<and> dispatches d' = dispatches d @ [x])"
proof (intro conjI allI impI)
  fix document assume "get_document e d u r = Inr document"
  then show S: "in_document_scope d u (fo_station_id document)" 
    by (cases r)
      (auto simp: get_fuel_sale_invoice_def get_customer_payment_receipt_def get_supplier_payment_voucher_def
        get_customer_ledger_document_def get_supplier_ledger_document_def with_supplier_station_def res_simps
        intro: rendered_in_scope)
next
  fix x d' assume "send_document e d u data r = Inr (x, d')"
  from send_is_get [OF this] obtain document ty i
    where "send_rendered e u data ty i d document = Inr (x, d')" by blast
  then obtain station x0 doc where s: "get_row st_id (stations d) (fo_station_id document) = Some station"
      "ensure_document_station_access d u station = ok"
    and x: "x = record_dispatch e doc x0" "fd_id x0 = next_id fd_id (dispatches d)" "fd_station_id x0 = fo_station_id document"
      "fd_attempts_count x0 = 0" "dispatches d' = put_row fd_id x (add_row x0 (dispatches d))"
    by (auto simp: send_rendered_def dispatch_document_def process_financial_document_dispatch_def res_simps Let_def comms_updates)
  from document_station_access [OF s(2,1)] x show "in_document_scope d u (fd_station_id x)" by simp
  show "fd_attempts_count x = 1" unfolding x(1) by (rule record_dispatch_cases [of e doc x0]) (simp_all add: x)
  show "dispatches d' = dispatches d @ [x]"
    using x put_row_add_fresh [of fd_id x0 "dispatches d" x] by (simp add: add_row_def)
qed

theorem documents_confined_witness:
  "\<exists>document. get_document sample_env sample_statement_db sample_manager (CustomerStatement 1) = Inr document
     \<and> in_document_scope sample_statement_db sample_manager (fo_station_id document)"
proof -
  have "get_row st_id (stations sample_statement_db) (cu_station_id sample_customer) = Some sample_station"
    "active_template sample_statement_db sample_station ''customer_ledger_statement'' = None"
    "document_access sample_statement_db (Some sample_manager) sample_station = ok" by code_simp+
  from customer_statement_default [OF this, of sample_env] obtain document
    where doc: "render_customer_ledger_statement sample_env sample_statement_db sample_customer (Some sample_manager) = Inr document"
    by blast
  have "require_permission sample_manager ''reports'' ''read'' ''You do not have permission to view financial documents'' = ok"
    "get_row cu_id (customers sample_statement_db) 1 = Some sample_customer" by code_simp+
  with doc have "get_document sample_env sample_statement_db sample_manager (CustomerStatement 1) = Inr document"
    by (simp add: get_customer_ledger_document_def may_view_documents_def)
  with documents_confined [of sample_env sample_statement_db sample_manager "CustomerStatement 1"] show ?thesis by blast
qed

end
