(* ===== verification/Organizations.thy ===== *)
theory Organizations
  imports Notify FeatureModules
begin

text \<open>
  \<open>app/api/organization.py\<close>, \<open>station.py\<close>, \<open>brand_catalog.py\<close>, \<open>organization_module.py\<close> and
  \<open>station_module.py\<close>: the tenants of the platform, their stations with the branding they inherit, and
  the routes to the feature switches.
\<close>

section \<open>Organizations (\<open>api/organization.py\<close>)\<close>

record organization_create =
  gc_name :: string
  gc_code :: string
  gc_description :: "string option"
  gc_legal_name :: "string option"
  gc_brand_catalog_id :: "int option"
  gc_brand_name :: "string option"
  gc_brand_code :: "string option"
  gc_logo_url :: "string option"
  gc_contact_email :: "string option"
  gc_contact_phone :: "string option"
  gc_registration_number :: "string option"
  gc_tax_registration_number :: "string option"
  gc_onboarding_status :: string
  gc_billing_status :: string
  gc_station_target_count :: "int option"
  gc_inherit_branding_to_stations :: bool
  gc_is_active :: bool

record organization_update =
  gu_name :: "string option patch"
  gu_code :: "string option patch"
  gu_description :: "string option patch"
  gu_legal_name :: "string option patch"
  gu_brand_catalog_id :: "int option patch"
  gu_brand_name :: "string option patch"
  gu_brand_code :: "string option patch"
  gu_logo_url :: "string option patch"
  gu_contact_email :: "string option patch"
  gu_contact_phone :: "string option patch"
  gu_registration_number :: "string option patch"
  gu_tax_registration_number :: "string option patch"
  gu_onboarding_status :: "string option patch"
  gu_billing_status :: "string option patch"
  gu_station_target_count :: "int option patch"
  gu_inherit_branding_to_stations :: "bool option patch"
  gu_is_active :: "bool option patch"

record branding =
  br_brand_catalog_id :: "int option"
  br_brand_name :: "string option"
  br_brand_code :: "string option"
  br_logo_url :: "string option"

definition brand_or :: "string option \<Rightarrow> string option \<Rightarrow> string option" where
  \<comment> \<open>\<open>x or y\<close>\<close>
  "brand_or x y = (if truthy x then x else y)"

definition resolve_branding :: "db \<Rightarrow> branding \<Rightarrow> branding res" where
  "resolve_branding d b =
     (case br_brand_catalog_id b of None \<Rightarrow> Inr b
      | Some i \<Rightarrow>
        (case get_row bc_id (brands (platform_tables d)) i of None \<Rightarrow> http 404 ''Brand not found''
         | Some brand \<Rightarrow> Inr (b\<lparr>br_brand_name := brand_or (br_brand_name b) (Some (bc_name brand)),
             br_brand_code := brand_or (br_brand_code b) (Some (bc_code brand)),
             br_logo_url := brand_or (br_logo_url b) (bc_logo_url brand)\<rparr>)))"

definition create_organization :: "db \<Rightarrow> organization_create \<Rightarrow> user \<Rightarrow> (organization \<times> db) res" where
  "create_organization d data u =
     check (require_admin u)
     (if find (\<lambda>x. or_code x = gc_code data) (organizations d) \<noteq> None then http 400 ''Organization code already exists''
      else case resolve_branding d \<lparr>br_brand_catalog_id = gc_brand_catalog_id data, br_brand_name = gc_brand_name data,
                  br_brand_code = gc_brand_code data, br_logo_url = gc_logo_url data\<rparr> of
        Inl exc \<Rightarrow> Inl exc
      | Inr b \<Rightarrow>
        (let x = \<lparr>or_id = next_id or_id (organizations d), or_name = gc_name data, or_code = gc_code data,
            or_description = gc_description data, or_legal_name = gc_legal_name data,
            or_brand_catalog_id = br_brand_catalog_id b, or_brand_name = br_brand_name b, or_brand_code = br_brand_code b,
            or_logo_url = br_logo_url b, or_contact_email = gc_contact_email data, or_contact_phone = gc_contact_phone data,
            or_registration_number = gc_registration_number data,
            or_tax_registration_number = gc_tax_registration_number data, or_onboarding_status = gc_onboarding_status data,
            or_billing_status = gc_billing_status data, or_station_target_count = gc_station_target_count data,
            or_inherit_branding_to_stations = gc_inherit_branding_to_stations data, or_is_active = gc_is_active data\<rparr>
         in Inr (x, d\<lparr>organizations := add_row x (organizations d)\<rparr>)))"

definition flag_selects :: "bool option \<Rightarrow> bool \<Rightarrow> bool" where
  \<comment> \<open>\<open>if flag is not None: q = q.filter(column == flag)\<close>\<close>
  "flag_selects flag column \<longleftrightarrow> flag = None \<or> flag = Some column"

definition list_organizations :: "db \<Rightarrow> user \<Rightarrow> nat \<Rightarrow> nat \<Rightarrow> bool option \<Rightarrow> organization list res" where
  "list_organizations d u skip limit active =
     (if is_admin u then Inr (page skip limit (filter (\<lambda>x. flag_selects active (or_is_active x)) (organizations d)))
      else if is_head_office_user u then
        check (require_permission u ''organizations'' ''read'' ''You do not have permission to view organizations'')
          (Inr (page skip limit (filter (\<lambda>x. Some (or_id x) = get_user_organization_id d u \<and> flag_selects active (or_is_active x))
             (organizations d))))
      else http 403 ''Admin access required'')"

definition get_organization :: "db \<Rightarrow> int \<Rightarrow> user \<Rightarrow> organization res" where
  "get_organization d i u =
     (case get_row or_id (organizations d) i of None \<Rightarrow> http 404 ''Organization not found'' | Some x \<Rightarrow>
      if is_admin u then Inr x
      else if is_head_office_user u then
        check (require_permission u ''organizations'' ''read'' ''You do not have permission to view organizations'')
          (if Some (or_id x) \<noteq> get_user_organization_id d u then http 403 ''Not authorized for this organization'' else Inr x)
      else http 403 ''Admin access required'')"

definition set_organization :: "organization_update \<Rightarrow> branding \<Rightarrow> organization \<Rightarrow> organization" where
  \<comment> \<open>\<open>setattr\<close> of the fields of the request and of the resolved branding\<close>
  "set_organization data b x = x\<lparr>or_name := assign_value (gu_name data) (or_name x), or_code := assign_value (gu_code data) (or_code x),
     or_description := assign (gu_description data) (or_description x),
     or_legal_name := assign (gu_legal_name data) (or_legal_name x),
     or_brand_catalog_id := br_brand_catalog_id b, or_brand_name := br_brand_name b, or_brand_code := br_brand_code b,
     or_logo_url := br_logo_url b, or_contact_email := assign (gu_contact_email data) (or_contact_email x),
     or_contact_phone := assign (gu_contact_phone data) (or_contact_phone x),
     or_registration_number := assign (gu_registration_number data) (or_registration_number x),
     or_tax_registration_number := assign (gu_tax_registration_number data) (or_tax_registration_number x),
     or_onboarding_status := assign_value (gu_onboarding_status data) (or_onboarding_status x),
     or_billing_status := assign_value (gu_billing_status data) (or_billing_status x),
     or_station_target_count := assign (gu_station_target_count data) (or_station_target_count x),
     or_inherit_branding_to_stations := assign_value (gu_inherit_branding_to_stations data) (or_inherit_branding_to_stations x),
     or_is_active := assign_value (gu_is_active data) (or_is_active x)\<rparr>"

definition null_organization_column :: "organization_update \<Rightarrow> bool" where
  "null_organization_column data \<longleftrightarrow> is_null (gu_name data) \<or> is_null (gu_code data) \<or> is_null (gu_onboarding_status data)
     \<or> is_null (gu_billing_status data) \<or> is_null (gu_inherit_branding_to_stations data) \<or> is_null (gu_is_active data)"

definition update_organization :: "db \<Rightarrow> int \<Rightarrow> organization_update \<Rightarrow> user \<Rightarrow> (organization \<times> db) res" where
  "update_organization d i data u =
     check (require_admin u)
     (case get_row or_id (organizations d) i of None \<Rightarrow> http 404 ''Organization not found'' | Some x \<Rightarrow>
      case resolve_branding d \<lparr>br_brand_catalog_id = assign (gu_brand_catalog_id data) (or_brand_catalog_id x),
                br_brand_name = assign (gu_brand_name data) (or_brand_name x),
                br_brand_code = assign (gu_brand_code data) (or_brand_code x),
                br_logo_url = assign (gu_logo_url data) (or_logo_url x)\<rparr> of
        Inl exc \<Rightarrow> Inl exc
      | Inr b \<Rightarrow>
        (let x' = set_organization data b x in
         if null_organization_column data \<or> find (\<lambda>y. or_id y \<noteq> i \<and> or_code y = or_code x') (organizations d) \<noteq> None
         then Inl IntegrityError
         else Inr (x', d\<lparr>organizations := put_row or_id x' (organizations d)\<rparr>)))"

definition delete_organization :: "db \<Rightarrow> int \<Rightarrow> user \<Rightarrow> db res" where
  "delete_organization d i u =
     check (require_admin u)
     (case get_row or_id (organizations d) i of None \<Rightarrow> http 404 ''Organization not found'' | Some x \<Rightarrow>
      if find (\<lambda>s. st_organization_id s = Some (or_id x)) (stations d) \<noteq> None
      then http 400 ''Organization cannot be deleted while stations are assigned to it''
      else Inr (d\<lparr>organizations := del_row or_id (or_id x) (organizations d)\<rparr>))"

section \<open>Stations (\<open>api/station.py\<close>)\<close>

record station_create =
  bs_name :: string
  bs_code :: string
  bs_address :: "string option"
  bs_city :: "string option"
  bs_organization_id :: int
  bs_is_head_office :: bool
  bs_display_name :: "string option"
  bs_legal_name_override :: "string option"
  bs_brand_name :: "string option"
  bs_brand_code :: "string option"
  bs_logo_url :: "string option"
  bs_use_organization_branding :: bool
  bs_is_active :: bool
  bs_setup_status :: string
  bs_has_shops :: bool
  bs_has_pos :: bool
  bs_has_tankers :: bool
  bs_has_hardware :: bool
  bs_allow_meter_adjustments :: bool

record station_update =
  bu_name :: "string option patch"
  bu_code :: "string option patch"
  bu_address :: "string option patch"
  bu_city :: "string option patch"
  bu_organization_id :: "int option patch"
  bu_is_head_office :: "bool option patch"
  bu_display_name :: "string option patch"
  bu_legal_name_override :: "string option patch"
  bu_brand_name :: "string option patch"
  bu_brand_code :: "string option patch"
  bu_logo_url :: "string option patch"
  bu_use_organization_branding :: "bool option patch"
  bu_is_active :: "bool option patch"
  bu_setup_status :: "string option patch"
  bu_setup_completed_at :: "datetime option patch"
  bu_has_shops :: "bool option patch"
  bu_has_pos :: "bool option patch"
  bu_has_tankers :: "bool option patch"
  bu_has_hardware :: "bool option patch"
  bu_allow_meter_adjustments :: "bool option patch"

definition apply_station_branding :: "organization \<Rightarrow> station \<Rightarrow> station" where
  \<comment> \<open>\<open>use_organization_branding\<close> is the value the station has after the update\<close>
  "apply_station_branding x s =
     (if st_use_organization_branding s
      then s\<lparr>st_brand_name := or_brand_name x, st_brand_code := or_brand_code x, st_logo_url := or_logo_url x\<rparr> else s)"

definition serialize_station :: "db \<Rightarrow> station \<Rightarrow> station" where
  "serialize_station d s =
     (case st_organization_id s of None \<Rightarrow> s | Some i \<Rightarrow>
      case get_row or_id (organizations d) i of None \<Rightarrow> s
      | Some x \<Rightarrow> if st_use_organization_branding s
          then s\<lparr>st_brand_name := brand_or (or_brand_name x) (st_brand_name s),
                 st_brand_code := brand_or (or_brand_code x) (st_brand_code s),
                 st_logo_url := brand_or (or_logo_url x) (st_logo_url s)\<rparr>
          else s)"

definition new_station :: "env \<Rightarrow> db \<Rightarrow> station_create \<Rightarrow> organization \<Rightarrow> station" where
  "new_station e d data x = apply_station_branding x
     \<lparr>st_id = next_id st_id (stations d), st_name = bs_name data, st_code = bs_code data, st_address = bs_address data,
      st_city = bs_city data, st_organization_id = Some (bs_organization_id data), st_is_head_office = bs_is_head_office data,
      st_display_name = bs_display_name data, st_legal_name_override = bs_legal_name_override data,
      st_brand_name = bs_brand_name data, st_brand_code = bs_brand_code data, st_logo_url = bs_logo_url data,
      st_use_organization_branding = bs_use_organization_branding data, st_is_active = bs_is_active data,
      st_setup_status = bs_setup_status data, st_setup_completed_at = None, st_has_shops = bs_has_shops data,
      st_has_pos = bs_has_pos data, st_has_tankers = bs_has_tankers data, st_has_hardware = bs_has_hardware data,
      st_allow_meter_adjustments = bs_allow_meter_adjustments data, st_created_at = now e\<rparr>"

definition create_station :: "env \<Rightarrow> db \<Rightarrow> station_create \<Rightarrow> user \<Rightarrow> (station \<times> db) res" where
  "create_station e d data u =
     check (require_admin u)
     (if find (\<lambda>s. st_code s = bs_code data) (stations d) \<noteq> None then http 400 ''Station code already exists''
      else case get_row or_id (organizations d) (bs_organization_id data) of None \<Rightarrow> http 404 ''Organization not found''
      | Some x \<Rightarrow>
        if bs_is_head_office data
           \<and> find (\<lambda>s. st_organization_id s = Some (bs_organization_id data) \<and> st_is_head_office s) (stations d) \<noteq> None
        then http 400 ''Organization already has a head office station''
        else
          (let s = new_station e d data x
           in Inr (serialize_station d s, d\<lparr>stations := add_row s (stations d)\<rparr>)))"

definition list_stations :: "db \<Rightarrow> user \<Rightarrow> nat \<Rightarrow> nat \<Rightarrow> int option \<Rightarrow> station list res" where
  "list_stations d u skip limit organization_id =
     (let answer = (\<lambda>P. map (serialize_station d) (page skip limit (filter P (stations d)))) in
      if is_admin u then Inr (answer (\<lambda>s. organization_id = None \<or> st_organization_id s = organization_id))
      else if is_head_office_user u then
        check (require_permission u ''stations'' ''read'' ''You do not have permission to view stations'')
          (let user_organization_id = get_user_organization_id d u in
           if organization_id \<noteq> None \<and> organization_id \<noteq> user_organization_id then http 403 ''Not authorized for this organization''
           else Inr (answer (\<lambda>s. st_organization_id s = user_organization_id)))
      else Inr (answer (\<lambda>s. Some (st_id s) = u_station_id u)))"

definition get_station :: "db \<Rightarrow> int \<Rightarrow> user \<Rightarrow> station res" where
  "get_station d i u =
     (case get_row st_id (stations d) i of None \<Rightarrow> http 404 ''Station not found'' | Some s \<Rightarrow>
      if is_admin u then Inr (serialize_station d s)
      else if is_head_office_user u then
        check (require_permission u ''stations'' ''read'' ''You do not have permission to view stations'')
          (if st_organization_id s \<noteq> get_user_organization_id d u then http 403 ''Not authorized for this station''
           else Inr (serialize_station d s))
      else if u_station_id u \<noteq> Some i then http 403 ''Not authorized for this station''
      else Inr (serialize_station d s))"

definition set_station :: "station_update \<Rightarrow> station \<Rightarrow> station" where
  \<comment> \<open>\<open>setattr\<close> of the fields of the request\<close>
  "set_station data s = s\<lparr>
     st_name := assign_value (bu_name data) (st_name s), st_code := assign_value (bu_code data) (st_code s),
     st_address := assign (bu_address data) (st_address s), st_city := assign (bu_city data) (st_city s),
     st_organization_id := assign (bu_organization_id data) (st_organization_id s),
     st_is_head_office := assign_value (bu_is_head_office data) (st_is_head_office s),
     st_display_name := assign (bu_display_name data) (st_display_name s),
     st_legal_name_override := assign (bu_legal_name_override data) (st_legal_name_override s),
     st_brand_name := assign (bu_brand_name data) (st_brand_name s), st_brand_code := assign (bu_brand_code data) (st_brand_code s),
     st_logo_url := assign (bu_logo_url data) (st_logo_url s),
     st_use_organization_branding := assign_value (bu_use_organization_branding data) (st_use_organization_branding s),
     st_is_active := assign_value (bu_is_active data) (st_is_active s),
     st_setup_status := assign_value (bu_setup_status data) (st_setup_status s),
     st_setup_completed_at := assign (bu_setup_completed_at data) (st_setup_completed_at s),
     st_has_shops := assign_value (bu_has_shops data) (st_has_shops s), st_has_pos := assign_value (bu_has_pos data) (st_has_pos s),
     st_has_tankers := assign_value (bu_has_tankers data) (st_has_tankers s),
     st_has_hardware := assign_value (bu_has_hardware data) (st_has_hardware s),
     st_allow_meter_adjustments := assign_value (bu_allow_meter_adjustments data) (st_allow_meter_adjustments s)\<rparr>"

definition null_station_column :: "station_update \<Rightarrow> bool" where
  "null_station_column data \<longleftrightarrow> is_null (bu_name data) \<or> is_null (bu_code data) \<or> is_null (bu_is_head_office data)
     \<or> is_null (bu_use_organization_branding data) \<or> is_null (bu_is_active data) \<or> is_null (bu_setup_status data)
     \<or> is_null (bu_has_shops data) \<or> is_null (bu_has_pos data) \<or> is_null (bu_has_tankers data) \<or> is_null (bu_has_hardware data)
     \<or> is_null (bu_allow_meter_adjustments data)"

definition updated_station :: "organization option \<Rightarrow> station_update \<Rightarrow> station \<Rightarrow> station" where
  "updated_station organization data s =
     (case organization of None \<Rightarrow> set_station data s | Some x \<Rightarrow> apply_station_branding x (set_station data s))"

definition update_station :: "db \<Rightarrow> int \<Rightarrow> station_update \<Rightarrow> user \<Rightarrow> (station \<times> db) res" where
  "update_station d i data u =
     check (require_admin u)
     (case get_row st_id (stations d) i of None \<Rightarrow> http 404 ''Station not found'' | Some s \<Rightarrow>
      (let new_organization_id = assign (bu_organization_id data) (st_organization_id s);
           organization = Option.bind new_organization_id (get_row or_id (organizations d));
           new_is_head_office = \<not> is_null (bu_is_head_office data) \<and> assign_value (bu_is_head_office data) (st_is_head_office s) in
       if new_organization_id \<noteq> None \<and> organization = None then http 404 ''Organization not found''
       else if new_is_head_office \<and> new_organization_id \<noteq> None
               \<and> find (\<lambda>x. st_organization_id x = new_organization_id \<and> st_is_head_office x \<and> st_id x \<noteq> st_id s) (stations d) \<noteq> None
       then http 400 ''Organization already has a head office station''
       else
         (let s2 = updated_station organization data s in
          if null_station_column data \<or> find (\<lambda>x. st_id x \<noteq> i \<and> st_code x = st_code s2) (stations d) \<noteq> None
          then Inl IntegrityError
          else Inr (serialize_station d s2, d\<lparr>stations := put_row st_id s2 (stations d)\<rparr>))))"

definition delete_station :: "db \<Rightarrow> int \<Rightarrow> user \<Rightarrow> db res" where
  "delete_station d i u =
     check (require_admin u)
     (case get_row st_id (stations d) i of None \<Rightarrow> http 404 ''Station not found'' | Some s \<Rightarrow>
      if find (\<lambda>v. u_station_id v = Some (st_id s)) (users d) \<noteq> None
      then http 400 ''Station cannot be deleted while users are assigned to it''
      else if find (\<lambda>k. tk_station_id k = st_id s) (tanks d) \<noteq> None \<or> find (\<lambda>p. dp_station_id p = st_id s) (dispensers d) \<noteq> None
              \<or> find (\<lambda>c. cu_station_id c = st_id s) (customers d) \<noteq> None \<or> find (\<lambda>x. ex_station_id x = st_id s) (expenses d) \<noteq> None
              \<or> find (\<lambda>t. tn_station_id t = st_id s) (tankers d) \<noteq> None
      then http 400 ''Station cannot be deleted while dependent records exist''
      else Inr (d\<lparr>stations := del_row st_id (st_id s) (stations d)\<rparr>))"

section \<open>Brands and feature switches (\<open>api/brand_catalog.py\<close>, \<open>organization_module.py\<close>, \<open>station_module.py\<close>)\<close>

definition list_brands :: "db \<Rightarrow> brand_catalog list" where
  "list_brands d = sort_key bc_sort_order (sort_key bc_name (filter bc_is_active (brands (platform_tables d))))"

definition list_organization_modules :: "db \<Rightarrow> int \<Rightarrow> user \<Rightarrow> organization_module_setting list res" where
  "list_organization_modules d organization_id u =
     check (require_permission u ''organization_modules'' ''read'' ''You do not have permission to view organization modules'')
       (map_sum id (\<lambda>_. filter (\<lambda>s. om_organization_id s = organization_id) (organization_modules d))
         (ensure_organization_module_access d organization_id u))"

definition update_organization_module ::
  "env \<Rightarrow> db \<Rightarrow> int \<Rightarrow> string \<Rightarrow> bool \<Rightarrow> user \<Rightarrow> (organization_module_setting \<times> db) res" where
  "update_organization_module e d organization_id module_name is_enabled u =
     check (require_permission u ''organization_modules'' ''update'' ''You do not have permission to update organization modules'')
       (map_sum id (\<lambda>_. let (s, d') = set_organization_module organization_id module_name is_enabled d in
          (s, audit e u ''organization_modules'' ''organization_modules.update'' ''organization_module_setting'' (Some (om_id s)) None
            [(''organization_id'', JInt organization_id), (''module_name'', JStr module_name), (''is_enabled'', JBool is_enabled)] d'))
         (ensure_organization_module_access d organization_id u))"

definition list_station_modules :: "db \<Rightarrow> int \<Rightarrow> user \<Rightarrow> station_module_setting list res" where
  "list_station_modules d station_id u =
     check (require_permission u ''station_modules'' ''read'' ''You do not have permission to view station modules'')
       (map_sum id (\<lambda>_. filter (\<lambda>s. sm_station_id s = station_id) (station_modules d)) (ensure_station_module_access d station_id u))"

definition update_station_module ::
  "env \<Rightarrow> db \<Rightarrow> int \<Rightarrow> string \<Rightarrow> bool \<Rightarrow> user \<Rightarrow> (station_module_setting \<times> db) res" where
  "update_station_module e d station_id module_name is_enabled u =
     check (require_permission u ''station_modules'' ''update'' ''You do not have permission to update station modules'')
       (map_sum id (\<lambda>_. let (s, d') = set_station_module station_id module_name is_enabled d in
          (s, audit e u ''station_modules'' ''station_modules.update'' ''station_module_setting'' (Some (sm_id s)) (Some station_id)
            [(''module_name'', JStr module_name), (''is_enabled'', JBool is_enabled)] d'))
         (ensure_station_module_access d station_id u))"

section \<open>The tables of tenants\<close>

datatype tenant_action =
    CreateOrganization organization_create
  | UpdateOrganization int organization_update
  | DeleteOrganization int
  | CreateStation env station_create
  | UpdateStation int station_update
  | DeleteStation int

fun tenant_act :: "user \<Rightarrow> tenant_action \<Rightarrow> db \<Rightarrow> db res" where
  "tenant_act u (CreateOrganization data) d = outcome (create_organization d data u)"
| "tenant_act u (UpdateOrganization i data) d = outcome (update_organization d i data u)"
| "tenant_act u (DeleteOrganization i) d = delete_organization d i u"
| "tenant_act u (CreateStation e data) d = outcome (create_station e d data u)"
| "tenant_act u (UpdateStation i data) d = outcome (update_station d i data u)"
| "tenant_act u (DeleteStation i) d = delete_station d i u"

definition tenant_step :: "user \<times> tenant_action \<Rightarrow> db \<Rightarrow> db" where
  \<comment> \<open>the state a request leaves: one that raises is rolled back\<close>
  "tenant_step x d = (case tenant_act (fst x) (snd x) d of Inl _ \<Rightarrow> d | Inr d' \<Rightarrow> d')"

definition heads_one :: "station list \<Rightarrow> bool" where
  \<comment> \<open>an organization has at most one head office station\<close>
  "heads_one t \<longleftrightarrow> (\<forall>s \<in> set t. \<forall>s' \<in> set t. st_is_head_office s \<and> st_is_head_office s'
     \<and> st_organization_id s = st_organization_id s' \<and> st_organization_id s \<noteq> None \<longrightarrow> s = s')"

definition tenants_ok :: "db \<Rightarrow> bool" where
  "tenants_ok d \<longleftrightarrow> keyed or_id (organizations d) \<and> distinct (map or_code (organizations d))
     \<and> keyed st_id (stations d) \<and> distinct (map st_code (stations d)) \<and> heads_one (stations d)
     \<and> (\<forall>s \<in> set (stations d). \<forall>i. st_organization_id s = Some i \<longrightarrow> i \<in> or_id ` set (organizations d))"

lemma branding_keeps [simp]:
  "st_id (apply_station_branding x s) = st_id s" "st_code (apply_station_branding x s) = st_code s"
  "st_organization_id (apply_station_branding x s) = st_organization_id s"
  "st_is_head_office (apply_station_branding x s) = st_is_head_office s"
  by (simp_all add: apply_station_branding_def)

lemma updated_station_keeps [simp]:
  "st_id (updated_station x data s) = st_id s"
  "st_organization_id (updated_station x data s) = assign (bu_organization_id data) (st_organization_id s)"
  "st_is_head_office (updated_station x data s) = assign_value (bu_is_head_office data) (st_is_head_office s)"
  by (simp_all add: updated_station_def set_station_def split: option.split)

lemma set_organization_id [simp]: "or_id (set_organization data b x) = or_id x"
  by (simp add: set_organization_def)

lemma key_of_get_row: "get_row key t i = Some x \<Longrightarrow> i \<in> key ` set t"
  using get_row_Some [of key t i x] by auto

lemma heads_one_mono: "heads_one t \<Longrightarrow> set t' \<subseteq> set t \<Longrightarrow> heads_one t'"
  unfolding heads_one_def by blast

lemma heads_one_change:
  assumes "heads_one t" "\<And>x. x \<in> set t' \<Longrightarrow> x = s \<or> (x \<in> set t \<and> P x)"
    and "\<And>y. y \<in> set t \<Longrightarrow> P y \<Longrightarrow> st_is_head_office s \<Longrightarrow> st_organization_id s \<noteq> None
      \<Longrightarrow> st_organization_id y = st_organization_id s \<Longrightarrow> \<not> st_is_head_office y"
  shows "heads_one t'"
  unfolding heads_one_def
proof (intro ballI impI)
  fix a b assume m: "a \<in> set t'" "b \<in> set t'" and
    h: "st_is_head_office a \<and> st_is_head_office b \<and> st_organization_id a = st_organization_id b \<and> st_organization_id a \<noteq> None"
  from assms(2) [OF m(1)] assms(2) [OF m(2)] show "a = b"
  proof (elim disjE conjE)
    assume "a \<in> set t" "b \<in> set t"
    with h assms(1) show ?thesis unfolding heads_one_def by blast
  qed (use h assms(3) in metis)+
qed

lemma create_organization_ok:
  assumes "create_organization d data u = Inr (x, d')" "tenants_ok d"
  shows "tenants_ok d'"
proof -
  from assms(1) have "or_id x = next_id or_id (organizations d)" "or_code x = gc_code data"
    "\<forall>y \<in> set (organizations d). or_code y \<noteq> gc_code data" "d' = d\<lparr>organizations := add_row x (organizations d)\<rparr>"
    by (auto simp: create_organization_def res_simps Let_def find_None_all split: sum.splits)
  with assms(2) next_id_fresh [of or_id "organizations d"] show ?thesis
    by (auto simp: tenants_ok_def keyed_def add_row_def)
qed

lemma update_organization_ok:
  assumes "update_organization d i data u = Inr (x, d')" "tenants_ok d"
  shows "tenants_ok d'"
proof -
  from assms(1) obtain x0 where x: "get_row or_id (organizations d) i = Some x0" "or_id x = or_id x0"
    "\<forall>y \<in> set (organizations d). or_id y = i \<or> or_code y \<noteq> or_code x" "d' = d\<lparr>organizations := put_row or_id x (organizations d)\<rparr>"
    by (auto simp: update_organization_def res_simps Let_def find_None_all split: sum.splits)
  with get_row_Some [OF x(1)] have "or_id x = i" by simp
  with x assms(2) have "distinct (map or_code (put_row or_id x (organizations d)))"
    by (intro distinct_put_row) (auto simp: tenants_ok_def)
  moreover have "or_id ` set (put_row or_id x (organizations d)) = or_id ` set (organizations d)"
    by (metis map_key_put_row set_map)
  ultimately show ?thesis using assms(2) by (simp add: tenants_ok_def x(4) keyed_def)
qed

lemma delete_organization_ok:
  assumes "delete_organization d i u = Inr d'" "tenants_ok d"
  shows "tenants_ok d'"
  using assms
  by (auto simp: delete_organization_def res_simps tenants_ok_def find_None_all keyed_def del_row_def distinct_map_filter
      dest!: get_row_Some) fastforce

lemma new_station_fields [simp]:
  "st_id (new_station e d data x) = next_id st_id (stations d)" "st_code (new_station e d data x) = bs_code data"
  "st_organization_id (new_station e d data x) = Some (bs_organization_id data)"
  "st_is_head_office (new_station e d data x) = bs_is_head_office data"
  by (simp_all add: new_station_def)

lemma create_station_ok:
  assumes "create_station e d data u = Inr (x, d')" "tenants_ok d"
  shows "tenants_ok d'"
proof -
  from assms(1) obtain g where g: "find (\<lambda>s. st_code s = bs_code data) (stations d) = None"
    "get_row or_id (organizations d) (bs_organization_id data) = Some g"
    "bs_is_head_office data \<Longrightarrow> find (\<lambda>s. st_organization_id s = Some (bs_organization_id data) \<and> st_is_head_office s) (stations d) = None"
    and d': "d' = d\<lparr>stations := add_row (new_station e d data g) (stations d)\<rparr>"
    by (auto simp: create_station_def Let_def res_simps)
  have "heads_one (stations d @ [new_station e d data g])"
    by (rule heads_one_change [where t = "stations d" and s = "new_station e d data g" and P = "\<lambda>_. True"])
      (use g(3) assms(2) in \<open>auto simp: tenants_ok_def find_None_all\<close>)
  then show ?thesis using assms(2) g next_id_fresh [of st_id "stations d"]
    by (auto simp: tenants_ok_def d' keyed_def add_row_def find_None_all dest: key_of_get_row)
qed

lemma update_station_Inr:
  assumes "update_station d i data u = Inr (x, d')"
  obtains s0 s where "get_row st_id (stations d) i = Some s0" "st_id s = i" "d' = d\<lparr>stations := put_row st_id s (stations d)\<rparr>"
    "\<forall>y \<in> set (stations d). st_id y \<noteq> i \<longrightarrow> st_code y \<noteq> st_code s"
    "\<forall>j. st_organization_id s = Some j \<longrightarrow> j \<in> or_id ` set (organizations d)"
    "st_is_head_office s \<and> st_organization_id s \<noteq> None \<longrightarrow> (\<forall>y \<in> set (stations d). st_id y \<noteq> i
       \<longrightarrow> st_organization_id y = st_organization_id s \<longrightarrow> \<not> st_is_head_office y)"
proof -
  from assms obtain s0 where s0: "get_row st_id (stations d) i = Some s0"
    by (auto simp: update_station_def res_simps)
  let ?o = "Option.bind (assign (bu_organization_id data) (st_organization_id s0)) (get_row or_id (organizations d))"
  define s where "s = updated_station ?o data s0"
  have fields: "st_id s = i" "st_organization_id s = assign (bu_organization_id data) (st_organization_id s0)"
    "st_is_head_office s = assign_value (bu_is_head_office data) (st_is_head_office s0)"
    using get_row_Some [OF s0] by (simp_all add: s_def)
  have id0: "st_id s0 = i" using get_row_Some [OF s0] by simp
  let ?clash = "find (\<lambda>x. st_organization_id x = st_organization_id s \<and> st_is_head_office x \<and> st_id x \<noteq> i) (stations d)"
  have U: "update_station d i data u = check (require_admin u)
     (if st_organization_id s \<noteq> None \<and> ?o = None then http 404 ''Organization not found''
      else if (\<not> is_null (bu_is_head_office data) \<and> st_is_head_office s) \<and> st_organization_id s \<noteq> None \<and> ?clash \<noteq> None
      then http 400 ''Organization already has a head office station''
      else if null_station_column data \<or> find (\<lambda>x. st_id x \<noteq> i \<and> st_code x = st_code s) (stations d) \<noteq> None
      then Inl IntegrityError
      else Inr (serialize_station d s, d\<lparr>stations := put_row st_id s (stations d)\<rparr>))"
    by (simp only: update_station_def s0 option.case Let_def fields id0 s_def [symmetric])
  from assms have g: "\<not> null_station_column data" "d' = d\<lparr>stations := put_row st_id s (stations d)\<rparr>"
    "find (\<lambda>x. st_id x \<noteq> i \<and> st_code x = st_code s) (stations d) = None"
    "st_organization_id s = None \<or> ?o \<noteq> None"
    and h: "\<not> is_null (bu_is_head_office data) \<and> st_is_head_office s \<and> st_organization_id s \<noteq> None \<Longrightarrow> ?clash = None"
    unfolding U res_simps by (simp_all only: if_raise_Inr, auto)
  from g(3) have g3: "\<forall>y \<in> set (stations d). st_id y \<noteq> i \<longrightarrow> st_code y \<noteq> st_code s" by (auto simp: find_None_all)
  have g5: "st_is_head_office s \<and> st_organization_id s \<noteq> None \<longrightarrow> (\<forall>y \<in> set (stations d). st_id y \<noteq> i
       \<longrightarrow> st_organization_id y = st_organization_id s \<longrightarrow> \<not> st_is_head_office y)"
    using h g(1) by (auto simp: find_None_all null_station_column_def)
  have "\<forall>j. st_organization_id s = Some j \<longrightarrow> j \<in> or_id ` set (organizations d)"
    using g(4) by (auto simp: fields dest: key_of_get_row)
  with that [OF s0 fields(1) g(2) g3 _ g5] show ?thesis by blast
qed

lemma update_station_ok:
  assumes "update_station d i data u = Inr (x, d')" "tenants_ok d"
  shows "tenants_ok d'"
proof (rule update_station_Inr [OF assms(1)])
  fix s0 s
  let ?t = "put_row st_id s (stations d)"
  assume s0: "get_row st_id (stations d) i = Some s0" and s: "st_id s = i" "d' = d\<lparr>stations := ?t\<rparr>"
    "\<forall>y \<in> set (stations d). st_id y \<noteq> i \<longrightarrow> st_code y \<noteq> st_code s"
    and org: "\<forall>j. st_organization_id s = Some j \<longrightarrow> j \<in> or_id ` set (organizations d)"
    and head: "st_is_head_office s \<and> st_organization_id s \<noteq> None \<longrightarrow> (\<forall>y \<in> set (stations d). st_id y \<noteq> i
       \<longrightarrow> st_organization_id y = st_organization_id s \<longrightarrow> \<not> st_is_head_office y)"
  have "distinct (map st_code ?t)" using assms(2) s(1,3) by (intro distinct_put_row) (auto simp: tenants_ok_def)
  moreover have "heads_one ?t"
    by (rule heads_one_change [where t = "stations d" and s = s and P = "\<lambda>y. st_id y \<noteq> i"])
      (use assms(2) head s(1) put_row_split [of _ st_id s "stations d"] in \<open>auto simp: tenants_ok_def\<close>)
  moreover have "\<forall>t \<in> set ?t. \<forall>j. st_organization_id t = Some j \<longrightarrow> j \<in> or_id ` set (organizations d)"
    using assms(2) org by (auto simp: tenants_ok_def dest!: put_rowD)
  ultimately show ?thesis using assms(2) by (simp add: tenants_ok_def s(2) keyed_def)
qed

lemma delete_station_ok:
  assumes "delete_station d i u = Inr d'" "tenants_ok d"
  shows "tenants_ok d'"
proof -
  from assms(1) obtain j where d': "d' = d\<lparr>stations := del_row st_id j (stations d)\<rparr>"
    by (auto simp: delete_station_def res_simps)
  have "heads_one (del_row st_id j (stations d))"
    by (rule heads_one_mono [of "stations d"]) (use assms(2) in \<open>auto simp: tenants_ok_def del_row_def\<close>)
  with assms(2) show ?thesis by (auto simp: d' tenants_ok_def keyed_def del_row_def distinct_map_filter)
qed

lemmas tenant_steps = create_organization_ok update_organization_ok delete_organization_ok create_station_ok
  update_station_ok delete_station_ok

text \<open>
  C30. Whatever sequence of organization and station requests is made, failed ones included: codes and keys stay
  unique, every station belongs to an organization that exists (or to none), and no organization has two head office stations.
\<close>

theorem tenant_tables_invariant:
  assumes "tenants_ok d"
  shows "tenants_ok (fold tenant_step xs d)"
proof -
  have step: "tenants_ok (tenant_step x d)" if "tenants_ok d" for x d
  proof (cases "tenant_act (fst x) (snd x) d")
    case (Inr d')
    with that have "tenants_ok d'"
      by (cases "snd x") (auto simp: res_simps dest: tenant_steps)
    with Inr show ?thesis by (simp add: tenant_step_def)
  qed (simp add: tenant_step_def that)
  show ?thesis using assms by (induction xs arbitrary: d) (simp_all add: step)
qed

definition sample_station_create :: station_create where
  "sample_station_create = \<lparr>bs_name = ''Second'', bs_code = ''ST2'', bs_address = None, bs_city = None, bs_organization_id = 1,
     bs_is_head_office = True, bs_display_name = None, bs_legal_name_override = None, bs_brand_name = None, bs_brand_code = None,
     bs_logo_url = None, bs_use_organization_branding = True, bs_is_active = True, bs_setup_status = ''draft'',
     bs_has_shops = False, bs_has_pos = False, bs_has_tankers = False, bs_has_hardware = False, bs_allow_meter_adjustments = True\<rparr>"

theorem tenant_tables_invariant_witness:
  "tenants_ok (fold tenant_step [(sample_admin, CreateStation sample_env sample_station_create),
     (sample_admin, CreateStation sample_env (sample_station_create\<lparr>bs_code := ''ST3''\<rparr>)),
     (sample_admin, DeleteOrganization 1)] sample_db)"
  by (rule tenant_tables_invariant)
    (simp add: tenants_ok_def heads_one_def keyed_def sample_db_def empty_db_def sample_station_def sample_organization_def)

text \<open>A station that uses the branding of its organization shows every part of it that the organization has.\<close>

lemma serialized_branding:
  assumes "st_organization_id s = Some i" "get_row or_id (organizations d) i = Some x" "st_use_organization_branding s"
    and "truthy (or_brand_name x)"
  shows "st_brand_name (serialize_station d s) = or_brand_name x"
  using assms by (simp add: serialize_station_def brand_or_def)

end
