(* ===== verification/Saas.thy ===== *)
theory Saas
  imports Notify
begin

text \<open>
  \<open>app/services/saas.py\<close> and \<open>app/api/saas.py\<close>: the subscription plans of the platform and the subscription of
  each organization.
\<close>

section \<open>Requests (\<open>schemas/saas.py\<close>)\<close>

record plan_create =
  wc_name :: string
  wc_code :: string
  wc_description :: "string option"
  wc_monthly_price :: pyfloat
  wc_yearly_price :: "pyfloat option"
  wc_max_stations :: "int option"
  wc_max_users :: "int option"
  wc_feature_summary :: "string option"
  wc_is_active :: bool
  wc_is_default :: bool

record plan_update =
  wu_name :: "string option patch"
  wu_code :: "string option patch"
  wu_description :: "string option patch"
  wu_monthly_price :: "pyfloat option patch"
  wu_yearly_price :: "pyfloat option patch"
  wu_max_stations :: "int option patch"
  wu_max_users :: "int option patch"
  wu_feature_summary :: "string option patch"
  wu_is_active :: "bool option patch"
  wu_is_default :: "bool option patch"

record subscription_upsert =
  ws_plan_id :: "int option"
  ws_status :: string
  ws_billing_cycle :: string
  ws_start_date :: "datetime option"
  ws_end_date :: "datetime option"
  ws_trial_ends_at :: "datetime option"
  ws_auto_renew :: bool
  ws_price_override :: "pyfloat option"
  ws_notes :: "string option"

section \<open>Plans\<close>

definition set_plans :: "subscription_plan list \<Rightarrow> db \<Rightarrow> db" where
  "set_plans t d = d\<lparr>platform_tables := (platform_tables d)\<lparr>subscription_plans := t\<rparr>\<rparr>"

definition set_subscriptions :: "organization_subscription list \<Rightarrow> db \<Rightarrow> db" where
  "set_subscriptions t d = d\<lparr>platform_tables := (platform_tables d)\<lparr>organization_subscriptions := t\<rparr>\<rparr>"

definition clear_defaults :: "subscription_plan list \<Rightarrow> subscription_plan list" where
  \<comment> \<open>\<open>UPDATE subscription_plans SET is_default = 0\<close>, executed at once\<close>
  "clear_defaults t = map (\<lambda>p. p\<lparr>pn_is_default := False\<rparr>) t"

definition new_plan :: "plan_create \<Rightarrow> subscription_plan list \<Rightarrow> subscription_plan" where
  "new_plan data t = \<lparr>pn_id = next_id pn_id t, pn_name = wc_name data, pn_code = wc_code data,
     pn_description = wc_description data, pn_monthly_price = wc_monthly_price data, pn_yearly_price = wc_yearly_price data,
     pn_max_stations = wc_max_stations data, pn_max_users = wc_max_users data, pn_feature_summary = wc_feature_summary data,
     pn_is_active = wc_is_active data, pn_is_default = wc_is_default data\<rparr>"

definition create_subscription_plan :: "db \<Rightarrow> plan_create \<Rightarrow> (subscription_plan \<times> db) res" where
  "create_subscription_plan d data =
     (let t = subscription_plans (platform_tables d) in
      if find (\<lambda>p. pn_code p = wc_code data) t \<noteq> None then http 400 ''Subscription plan code already exists''
      else let plan = new_plan data t;
               t' = (if wc_is_default data then clear_defaults t else t)
           in Inr (plan, set_plans (add_row plan t') d))"

definition set_plan :: "plan_update \<Rightarrow> subscription_plan \<Rightarrow> subscription_plan" where
  "set_plan data p = p\<lparr>pn_name := assign_value (wu_name data) (pn_name p), pn_code := assign_value (wu_code data) (pn_code p),
     pn_description := assign (wu_description data) (pn_description p),
     pn_monthly_price := assign_value (wu_monthly_price data) (pn_monthly_price p),
     pn_yearly_price := assign (wu_yearly_price data) (pn_yearly_price p),
     pn_max_stations := assign (wu_max_stations data) (pn_max_stations p),
     pn_max_users := assign (wu_max_users data) (pn_max_users p),
     pn_feature_summary := assign (wu_feature_summary data) (pn_feature_summary p),
     pn_is_active := assign_value (wu_is_active data) (pn_is_active p),
     pn_is_default := assign_value (wu_is_default data) (pn_is_default p)\<rparr>"

definition null_plan_column :: "plan_update \<Rightarrow> bool" where
  "null_plan_column data \<longleftrightarrow> is_null (wu_name data) \<or> is_null (wu_code data) \<or> is_null (wu_monthly_price data)
     \<or> is_null (wu_is_active data) \<or> is_null (wu_is_default data)"

definition flushed_plan :: "bool \<Rightarrow> subscription_plan \<Rightarrow> subscription_plan \<Rightarrow> subscription_plan" where
  \<comment> \<open>the row after the flush: the session writes the attributes that differ from what it loaded, so a default mark
     that was set before is not written again after the bulk update has cleared it\<close>
  "flushed_plan cleared loaded assigned =
     assigned\<lparr>pn_is_default := (if pn_is_default assigned = pn_is_default loaded then \<not> cleared \<and> pn_is_default loaded
                                else pn_is_default assigned)\<rparr>"

definition update_subscription_plan :: "db \<Rightarrow> subscription_plan \<Rightarrow> plan_update \<Rightarrow> (subscription_plan \<times> db) res" where
  "update_subscription_plan d plan data =
     (let t = subscription_plans (platform_tables d) in
      if (case wu_code data of Set (Some c) \<Rightarrow> find (\<lambda>p. pn_code p = c \<and> pn_id p \<noteq> pn_id plan) t \<noteq> None | _ \<Rightarrow> False)
      then http 400 ''Subscription plan code already exists''
      else if null_plan_column data then Inl IntegrityError
      else let cleared = (wu_is_default data = Set (Some True));
               t' = (if cleared then clear_defaults t else t);
               plan' = flushed_plan cleared plan (set_plan data plan)
           in Inr (plan', set_plans (put_row pn_id plan' t') d))"

section \<open>Subscriptions\<close>

definition ensure_organization_access :: "db \<Rightarrow> int \<Rightarrow> user \<Rightarrow> organization res" where
  "ensure_organization_access d i u =
     (case get_row or_id (organizations d) i of None \<Rightarrow> http 404 ''Organization not found'' | Some x \<Rightarrow>
      if role_of u = ''Admin'' \<or> is_master_admin u then Inr x
      else if is_head_office_user u \<and> get_user_organization_id d u = Some i then Inr x
      else http 403 ''Not authorized for this organization'')"

definition subscription_of :: "db \<Rightarrow> int \<Rightarrow> organization_subscription option" where
  "subscription_of d i = find (\<lambda>s. os_organization_id s = i) (organization_subscriptions (platform_tables d))"

definition default_plan :: "db \<Rightarrow> subscription_plan option" where
  "default_plan d = find (\<lambda>p. pn_is_default p \<and> pn_is_active p) (subscription_plans (platform_tables d))"

definition new_subscription :: "env \<Rightarrow> db \<Rightarrow> int \<Rightarrow> organization_subscription" where
  "new_subscription e d i = \<lparr>os_id = next_id os_id (organization_subscriptions (platform_tables d)), os_organization_id = i,
     os_plan_id = map_option pn_id (default_plan d), os_status = ''inactive'', os_billing_cycle = ''monthly'',
     os_start_date = None, os_end_date = None, os_trial_ends_at = None, os_auto_renew = False, os_price_override = None,
     os_notes = None, os_created_at = now e, os_updated_at = now e\<rparr>"

definition get_or_create_subscription :: "env \<Rightarrow> int \<Rightarrow> db \<Rightarrow> organization_subscription \<times> db" where
  \<comment> \<open>the new subscription is committed\<close>
  "get_or_create_subscription e i d =
     (case subscription_of d i of Some s \<Rightarrow> (s, d)
      | None \<Rightarrow> (let s = new_subscription e d i
          in (s, set_subscriptions (add_row s (organization_subscriptions (platform_tables d))) d)))"

definition assigned_subscription :: "env \<Rightarrow> subscription_upsert \<Rightarrow> organization_subscription \<Rightarrow> organization_subscription" where
  \<comment> \<open>\<open>setattr\<close> of every field; \<open>onupdate\<close> stamps the row when one of them changed\<close>
  "assigned_subscription e data s =
     (let s' = s\<lparr>os_plan_id := ws_plan_id data, os_status := ws_status data, os_billing_cycle := ws_billing_cycle data,
            os_start_date := ws_start_date data, os_end_date := ws_end_date data, os_trial_ends_at := ws_trial_ends_at data,
            os_auto_renew := ws_auto_renew data, os_price_override := ws_price_override data, os_notes := ws_notes data\<rparr>
      in if s' = s then s else s'\<lparr>os_updated_at := now e\<rparr>)"

definition upsert_organization_subscription ::
  "env \<Rightarrow> int \<Rightarrow> subscription_upsert \<Rightarrow> db \<Rightarrow> organization_subscription res \<times> db" where
  "upsert_organization_subscription e i data d =
     (let (s, d') = get_or_create_subscription e i d in
      case ws_plan_id data of
        Some j \<Rightarrow> if get_row pn_id (subscription_plans (platform_tables d')) j = None
          then (http 404 ''Subscription plan not found'', d')
          else (let s' = assigned_subscription e data s
            in (Inr s', set_subscriptions (put_row os_id s' (organization_subscriptions (platform_tables d'))) d'))
      | None \<Rightarrow> (let s' = assigned_subscription e data s
            in (Inr s', set_subscriptions (put_row os_id s' (organization_subscriptions (platform_tables d'))) d')))"

section \<open>Routes (\<open>api/saas.py\<close>)\<close>

definition audit_plan :: "env \<Rightarrow> user \<Rightarrow> string \<Rightarrow> subscription_plan \<Rightarrow> db \<Rightarrow> db" where
  "audit_plan e u action p d =
     audit e u ''saas'' action ''subscription_plan'' (Some (pn_id p)) None
       [(''code'', JStr (pn_code p)), (''name'', JStr (pn_name p))] d"

definition create_plan :: "env \<Rightarrow> db \<Rightarrow> plan_create \<Rightarrow> user \<Rightarrow> (subscription_plan \<times> db) res" where
  "create_plan e d data u =
     check (require_permission u ''saas'' ''manage'' ''You do not have permission to manage SaaS plans'')
     (case create_subscription_plan d data of Inl exc \<Rightarrow> Inl exc
      | Inr (p, d') \<Rightarrow> Inr (p, audit_plan e u ''saas.plan_create'' p d'))"

definition list_plans :: "db \<Rightarrow> bool option \<Rightarrow> user \<Rightarrow> subscription_plan list res" where
  "list_plans d active u =
     check (require_permission u ''saas'' ''read'' ''You do not have permission to view SaaS plans'')
     (if role_of u = ''HeadOffice'' \<and> \<not> is_master_admin u
      then http 403 ''Only platform or administrative users can view subscription plans''
      else Inr (sort_key pn_name (filter (\<lambda>p. active = None \<or> active = Some (pn_is_active p))
             (subscription_plans (platform_tables d)))))"

definition update_plan :: "env \<Rightarrow> db \<Rightarrow> int \<Rightarrow> plan_update \<Rightarrow> user \<Rightarrow> (subscription_plan \<times> db) res" where
  "update_plan e d i data u =
     check (require_permission u ''saas'' ''manage'' ''You do not have permission to manage SaaS plans'')
     (case get_row pn_id (subscription_plans (platform_tables d)) i of None \<Rightarrow> http 404 ''Subscription plan not found''
      | Some plan \<Rightarrow>
        (case update_subscription_plan d plan data of Inl exc \<Rightarrow> Inl exc
         | Inr (p, d') \<Rightarrow> Inr (p, audit_plan e u ''saas.plan_update'' p d')))"

definition get_subscription :: "env \<Rightarrow> db \<Rightarrow> int \<Rightarrow> user \<Rightarrow> (organization_subscription \<times> db) res" where
  "get_subscription e d i u =
     check (require_permission u ''saas'' ''read'' ''You do not have permission to view SaaS subscriptions'')
     (case ensure_organization_access d i u of Inl exc \<Rightarrow> Inl exc | Inr _ \<Rightarrow> Inr (get_or_create_subscription e i d))"

definition put_subscription :: "env \<Rightarrow> db \<Rightarrow> int \<Rightarrow> subscription_upsert \<Rightarrow> user \<Rightarrow> organization_subscription res \<times> db" where
  "put_subscription e d i data u =
     (case check (require_permission u ''saas'' ''manage'' ''You do not have permission to manage SaaS subscriptions'')
             (ensure_organization_access d i u) of
        Inl exc \<Rightarrow> (Inl exc, d)
      | Inr _ \<Rightarrow>
        (case upsert_organization_subscription e i data d of
           (Inl exc, d') \<Rightarrow> (Inl exc, d')
         | (Inr s, d') \<Rightarrow> (Inr s, audit e u ''saas'' ''saas.subscription_update'' ''organization_subscription'' (Some (os_id s)) None
             [(''organization_id'', JInt i), (''status'', JStr (os_status s)), (''plan_id'', jint (os_plan_id s))] d')))"

section \<open>Plans and subscriptions stay consistent\<close>

datatype saas_action =
    CreatePlan env plan_create
  | UpdatePlan env int plan_update
  | GetSubscription env int
  | PutSubscription env int subscription_upsert

fun saas_step :: "user \<times> saas_action \<Rightarrow> db \<Rightarrow> db" where
  \<comment> \<open>the state a request leaves, whether it succeeds or not\<close>
  "saas_step (u, CreatePlan e data) d = (case create_plan e d data u of Inl _ \<Rightarrow> d | Inr (_, d') \<Rightarrow> d')"
| "saas_step (u, UpdatePlan e i data) d = (case update_plan e d i data u of Inl _ \<Rightarrow> d | Inr (_, d') \<Rightarrow> d')"
| "saas_step (u, GetSubscription e i) d = (case get_subscription e d i u of Inl _ \<Rightarrow> d | Inr (_, d') \<Rightarrow> d')"
| "saas_step (u, PutSubscription e i data) d = snd (put_subscription e d i data u)"

definition one_default :: "subscription_plan list \<Rightarrow> bool" where
  "one_default t \<longleftrightarrow> length (filter pn_is_default t) \<le> 1"

definition plans_ok :: "subscription_plan list \<Rightarrow> bool" where
  "plans_ok t \<longleftrightarrow> keyed pn_id t \<and> distinct (map pn_code t) \<and> one_default t"

definition subscriptions_ok :: "int set \<Rightarrow> int set \<Rightarrow> organization_subscription list \<Rightarrow> bool" where
  "subscriptions_ok orgs plans t \<longleftrightarrow> keyed os_id t \<and> distinct (map os_organization_id t)
     \<and> list_all (\<lambda>s. os_organization_id s \<in> orgs \<and> (case os_plan_id s of None \<Rightarrow> True | Some j \<Rightarrow> j \<in> plans)) t"

definition saas_ok :: "db \<Rightarrow> bool" where
  \<comment> \<open>plan codes are unique and at most one plan is the default; an organization has at most one subscription, to a plan
     that exists\<close>
  "saas_ok d \<longleftrightarrow> plans_ok (subscription_plans (platform_tables d))
     \<and> subscriptions_ok (or_id ` set (organizations d)) (pn_id ` set (subscription_plans (platform_tables d)))
          (organization_subscriptions (platform_tables d))"

lemma clear_defaults_keys [simp]:
  "map pn_id (clear_defaults t) = map pn_id t" "map pn_code (clear_defaults t) = map pn_code t"
  "filter pn_is_default (clear_defaults t) = []"
  by (simp_all add: clear_defaults_def filter_map comp_def)

lemma one_default_simps:
  "one_default t \<Longrightarrow> \<not> pn_is_default p \<Longrightarrow> one_default (add_row p t)"
  "filter pn_is_default t = [] \<Longrightarrow> one_default (add_row p t)"
  by (simp_all add: one_default_def add_row_def)

lemma defaults_put_row:
  "keyed pn_id t \<Longrightarrow> length (filter pn_is_default (put_row pn_id p t))
     \<le> length (filter pn_is_default (del_row pn_id (pn_id p) t)) + (if pn_is_default p then 1 else 0)"
proof (induction t)
  case (Cons x t)
  then have IH: "length (filter pn_is_default (put_row pn_id p t))
      \<le> length (filter pn_is_default (del_row pn_id (pn_id p) t)) + (if pn_is_default p then 1 else 0)"
    by (simp add: keyed_def)
  show ?case
  proof (cases "pn_id x = pn_id p")
    case True
    with Cons.prems have k: "pn_id p \<notin> pn_id ` set t" by (simp add: keyed_def)
    then have "put_row pn_id p t = t" "del_row pn_id (pn_id p) t = t"
      by (auto simp: put_row_def del_row_def image_iff intro!: map_idI filter_True)
    with True show ?thesis by (simp add: put_row_def del_row_def)
  qed (use IH in \<open>auto simp: put_row_def del_row_def split: if_splits\<close>)
qed (simp add: put_row_def)

lemma one_default_put:
  assumes "keyed pn_id t" "one_default t" "pn_is_default p \<Longrightarrow> filter pn_is_default (del_row pn_id (pn_id p) t) = []"
  shows "one_default (put_row pn_id p t)"
proof -
  have "length (filter pn_is_default (del_row pn_id (pn_id p) t)) \<le> length (filter pn_is_default t)"
    by (induction t) (auto simp: del_row_def)
  with assms defaults_put_row [OF assms(1), of p] show ?thesis by (cases "pn_is_default p") (auto simp: one_default_def)
qed

lemma default_others:
  assumes "keyed pn_id t" "one_default t" "get_row pn_id t i = Some p" "pn_is_default p"
  shows "filter pn_is_default (del_row pn_id i t) = []"
proof -
  from get_row_Some [OF assms(3)] obtain a b where t: "t = a @ p # b" and i: "pn_id p = i"
    by (auto dest: split_list)
  with assms(2,4) have "filter pn_is_default a = []" "filter pn_is_default b = []" by (simp_all add: one_default_def)
  with t i show ?thesis by (auto simp: del_row_def filter_empty_conv)
qed

lemma create_plan_plans:
  assumes "create_plan e d data u = Inr (p, d')" "plans_ok (subscription_plans (platform_tables d))"
  shows "plans_ok (subscription_plans (platform_tables d'))"
    "pn_id ` set (subscription_plans (platform_tables d)) \<subseteq> pn_id ` set (subscription_plans (platform_tables d'))"
    "organization_subscriptions (platform_tables d') = organization_subscriptions (platform_tables d)"
    "organizations d' = organizations d"
proof -
  let ?t = "subscription_plans (platform_tables d)"
  let ?t' = "if wc_is_default data then clear_defaults ?t else ?t"
  let ?p = "new_plan data ?t"
  from assms(1) have g: "find (\<lambda>p. pn_code p = wc_code data) ?t = None"
    and d': "d' = audit_plan e u ''saas.plan_create'' ?p (set_plans (add_row ?p ?t') d)"
    by (auto simp: create_plan_def create_subscription_plan_def Let_def res_simps)
  have keys: "map pn_id ?t' = map pn_id ?t" "map pn_code ?t' = map pn_code ?t" by simp_all
  have one: "one_default (add_row ?p ?t')"
    using assms(2) by (auto simp: plans_ok_def new_plan_def intro: one_default_simps)
  have "keyed pn_id (add_row ?p ?t') \<and> distinct (map pn_code (add_row ?p ?t'))"
    using assms(2) g next_id_fresh [of pn_id ?t] keys
    by (auto simp: plans_ok_def keyed_def add_row_def new_plan_def find_None_all clear_defaults_def simp del: clear_defaults_keys)
  with one show "plans_ok (subscription_plans (platform_tables d'))"
    by (simp add: d' plans_ok_def audit_plan_def audit_def set_plans_def)
  have "pn_id ` set ?t' = pn_id ` set ?t" by (metis keys(1) set_map)
  then show "pn_id ` set ?t \<subseteq> pn_id ` set (subscription_plans (platform_tables d'))"
    by (auto simp: d' audit_plan_def audit_def set_plans_def add_row_def)
  show "organization_subscriptions (platform_tables d') = organization_subscriptions (platform_tables d)"
    "organizations d' = organizations d"
    by (simp_all add: d' audit_plan_def audit_def set_plans_def)
qed

lemma flushed_plan_fields [simp]:
  "pn_id (flushed_plan cleared p q) = pn_id q" "pn_code (flushed_plan cleared p q) = pn_code q"
  by (simp_all add: flushed_plan_def)

lemma set_plan_fields [simp]: "pn_id (set_plan data p) = pn_id p" "pn_code (set_plan data p) = assign_value (wu_code data) (pn_code p)"
  by (simp_all add: set_plan_def)

lemma update_plan_Inr:
  assumes "update_plan e d i data u = Inr (p, d')"
  obtains plan where "get_row pn_id (subscription_plans (platform_tables d)) i = Some plan"
    "\<forall>c. wu_code data = Set (Some c) \<longrightarrow> (\<forall>q \<in> set (subscription_plans (platform_tables d)). pn_code q = c \<longrightarrow> pn_id q = pn_id plan)"
    "p = flushed_plan (wu_is_default data = Set (Some True)) plan (set_plan data plan)"
    "d' = audit_plan e u ''saas.plan_update'' p (set_plans (put_row pn_id p
       (if wu_is_default data = Set (Some True) then clear_defaults (subscription_plans (platform_tables d))
        else subscription_plans (platform_tables d))) d)" "\<not> null_plan_column data"
proof -
  from assms obtain plan where p: "get_row pn_id (subscription_plans (platform_tables d)) i = Some plan"
    and r: "(case update_subscription_plan d plan data of Inl exc \<Rightarrow> Inl exc
         | Inr (p, d') \<Rightarrow> Inr (p, audit_plan e u ''saas.plan_update'' p d')) = Inr (p, d')"
    unfolding update_plan_def res_simps by blast
  from r have "\<forall>c. wu_code data = Set (Some c) \<longrightarrow> (\<forall>q \<in> set (subscription_plans (platform_tables d)). pn_code q = c \<longrightarrow> pn_id q = pn_id plan)"
    by (auto simp: update_subscription_plan_def Let_def find_None_all split: if_splits sum.splits)
  with r p show thesis
    by (intro that [of plan]) (auto simp: update_subscription_plan_def Let_def split: if_splits sum.splits)
qed

lemma update_plan_plans:
  assumes "update_plan e d i data u = Inr (p, d')" "plans_ok (subscription_plans (platform_tables d))"
  shows "plans_ok (subscription_plans (platform_tables d'))"
    "pn_id ` set (subscription_plans (platform_tables d)) \<subseteq> pn_id ` set (subscription_plans (platform_tables d'))"
    "organization_subscriptions (platform_tables d') = organization_subscriptions (platform_tables d)"
    "organizations d' = organizations d"
proof -
  let ?t = "subscription_plans (platform_tables d)"
  obtain plan where plan: "get_row pn_id ?t i = Some plan"
    and code: "\<forall>c. wu_code data = Set (Some c) \<longrightarrow> (\<forall>q \<in> set ?t. pn_code q = c \<longrightarrow> pn_id q = pn_id plan)"
    and p: "p = flushed_plan (wu_is_default data = Set (Some True)) plan (set_plan data plan)"
    and d': "d' = audit_plan e u ''saas.plan_update'' p (set_plans (put_row pn_id p
       (if wu_is_default data = Set (Some True) then clear_defaults ?t else ?t)) d)"
    and nn: "\<not> null_plan_column data"
    by (rule update_plan_Inr [OF assms(1)])
  let ?t' = "if wu_is_default data = Set (Some True) then clear_defaults ?t else ?t"
  have keys: "map pn_id ?t' = map pn_id ?t" "map pn_code ?t' = map pn_code ?t" by simp_all
  have k: "keyed pn_id ?t'" "distinct (map pn_code ?t')" "keyed pn_id ?t"
    using assms(2) unfolding plans_ok_def keyed_def keys by simp_all
  have id: "pn_id p = i" "pn_id plan = i" using get_row_Some [OF plan] by (simp_all add: p)
  have others: "pn_code q \<noteq> pn_code p" if "q \<in> set ?t" "pn_id q \<noteq> pn_id p" for q
  proof (cases "wu_code data")
    case Unset
    then have "pn_code p = pn_code plan" by (simp add: p)
    with assms(2) that id get_row_Some [OF plan] show ?thesis
      unfolding plans_ok_def by (metis distinct_map inj_onD)
  next
    case (Set c)
    with nn obtain c' where "wu_code data = Set (Some c')" by (cases c) (auto simp: null_plan_column_def)
    with code that id show ?thesis by (auto simp: p)
  qed
  have "distinct (map pn_code (put_row pn_id p ?t'))"
    using others by (intro distinct_put_row k) (auto simp: clear_defaults_def)
  moreover have "one_default (put_row pn_id p ?t')"
  proof (rule one_default_put [OF k(1)])
    show "one_default ?t'" using assms(2) by (auto simp: plans_ok_def one_default_def)
    assume "pn_is_default p"
    show "filter pn_is_default (del_row pn_id (pn_id p) ?t') = []"
    proof (cases "wu_is_default data = Set (Some True)")
      case True
      then show ?thesis by (simp add: del_row_def clear_defaults_def filter_empty_conv)
    next
      case False
      with \<open>pn_is_default p\<close> have "pn_is_default plan"
        by (cases "wu_is_default data")
          (auto simp: p flushed_plan_def set_plan_def assign_value_def split: if_splits option.splits)
      with False default_others [OF k(3) _ plan] assms(2) id show ?thesis by (simp add: plans_ok_def)
    qed
  qed
  ultimately show "plans_ok (subscription_plans (platform_tables d'))"
    using k(1) by (simp add: d' plans_ok_def audit_plan_def audit_def set_plans_def keyed_def)
  have "pn_id ` set (put_row pn_id p ?t') = pn_id ` set ?t"
    by (metis keys(1) map_key_put_row set_map)
  then show "pn_id ` set ?t \<subseteq> pn_id ` set (subscription_plans (platform_tables d'))"
    by (simp add: d' audit_plan_def audit_def set_plans_def)
  show "organization_subscriptions (platform_tables d') = organization_subscriptions (platform_tables d)"
    "organizations d' = organizations d"
    by (simp_all add: d' audit_plan_def audit_def set_plans_def)
qed

lemma subscriptions_add:
  assumes "subscriptions_ok orgs plans t" "find (\<lambda>s. os_organization_id s = i) t = None" "i \<in> orgs"
    and "os_id s = next_id os_id t" "os_organization_id s = i" "case os_plan_id s of None \<Rightarrow> True | Some j \<Rightarrow> j \<in> plans"
  shows "subscriptions_ok orgs plans (add_row s t)"
  using assms next_id_fresh [of os_id t]
  by (auto simp: subscriptions_ok_def keyed_def add_row_def find_None_all)

lemma subscriptions_put:
  assumes "subscriptions_ok orgs plans t" "s \<in> set t" "os_id s' = os_id s" "os_organization_id s' = os_organization_id s"
    and "case os_plan_id s' of None \<Rightarrow> True | Some j \<Rightarrow> j \<in> plans"
  shows "subscriptions_ok orgs plans (put_row os_id s' t)"
proof -
  have "os_organization_id q \<noteq> os_organization_id s'" if "q \<in> set t" "os_id q \<noteq> os_id s'" for q
  proof
    assume "os_organization_id q = os_organization_id s'"
    moreover have "inj_on os_organization_id (set t)" using assms(1) by (simp add: subscriptions_ok_def distinct_map)
    ultimately have "q = s" using that(1) assms(2,4) by (simp add: inj_onD)
    with that(2) assms(3) show False by simp
  qed
  then have "distinct (map os_organization_id (put_row os_id s' t))"
    using assms(1) by (intro distinct_put_row) (auto simp: subscriptions_ok_def)
  moreover have "os_organization_id s \<in> orgs" using assms(1,2) by (simp add: subscriptions_ok_def list_all_iff)
  ultimately show ?thesis using assms(1,4,5) by (simp add: subscriptions_ok_def keyed_def)
qed

definition saas_at :: "db \<Rightarrow> organization_subscription list \<Rightarrow> bool" where
  "saas_at d = subscriptions_ok (or_id ` set (organizations d)) (pn_id ` set (subscription_plans (platform_tables d)))"

lemma get_or_create_subscription_ok:
  assumes "get_or_create_subscription e i d = (s, d')" "i \<in> or_id ` set (organizations d)"
    and "saas_at d (organization_subscriptions (platform_tables d))"
  shows "saas_at d (organization_subscriptions (platform_tables d'))" "s \<in> set (organization_subscriptions (platform_tables d'))"
    "subscription_plans (platform_tables d') = subscription_plans (platform_tables d)" "organizations d' = organizations d"
proof -
  show "subscription_plans (platform_tables d') = subscription_plans (platform_tables d)" "organizations d' = organizations d"
    using assms(1) by (auto simp: get_or_create_subscription_def set_subscriptions_def Let_def split: option.splits)
  have "case os_plan_id (new_subscription e d i) of None \<Rightarrow> True | Some j \<Rightarrow> j \<in> pn_id ` set (subscription_plans (platform_tables d))"
    by (auto simp: new_subscription_def default_plan_def find_Some_iff split: option.split)
  then have new: "saas_at d (add_row (new_subscription e d i) (organization_subscriptions (platform_tables d)))"
    if "subscription_of d i = None"
    using assms(2,3) that unfolding saas_at_def subscription_of_def
    by (intro subscriptions_add) (simp_all add: new_subscription_def)
  show "saas_at d (organization_subscriptions (platform_tables d'))"
    using assms(1,3) new by (auto simp: get_or_create_subscription_def set_subscriptions_def Let_def split: option.splits)
  show "s \<in> set (organization_subscriptions (platform_tables d'))"
    using assms(1) by (auto simp: get_or_create_subscription_def set_subscriptions_def subscription_of_def Let_def add_row_def
        find_Some_iff split: option.splits)
qed

lemma assigned_subscription_fields [simp]:
  "os_id (assigned_subscription e data s) = os_id s"
  "os_organization_id (assigned_subscription e data s) = os_organization_id s"
  "os_plan_id (assigned_subscription e data s) = ws_plan_id data"
proof -
  let ?s = "s\<lparr>os_plan_id := ws_plan_id data, os_status := ws_status data, os_billing_cycle := ws_billing_cycle data,
            os_start_date := ws_start_date data, os_end_date := ws_end_date data, os_trial_ends_at := ws_trial_ends_at data,
            os_auto_renew := ws_auto_renew data, os_price_override := ws_price_override data, os_notes := ws_notes data\<rparr>"
  have "os_plan_id s = ws_plan_id data" if "?s = s" using arg_cong [OF that, of os_plan_id] by simp
  then show "os_plan_id (assigned_subscription e data s) = ws_plan_id data"
    by (simp add: assigned_subscription_def Let_def)
qed (simp_all add: assigned_subscription_def Let_def)

lemma ensure_organization_accessD: "ensure_organization_access d i u = Inr x \<Longrightarrow> i \<in> or_id ` set (organizations d)"
  by (auto simp: ensure_organization_access_def res_simps dest: get_row_Some)

lemma get_subscription_ok:
  assumes "get_subscription e d i u = Inr (s, d')" "saas_ok d"
  shows "saas_ok d'"
proof -
  from assms(1) have "i \<in> or_id ` set (organizations d)" "get_or_create_subscription e i d = (s, d')"
    by (auto simp: get_subscription_def res_simps dest: ensure_organization_accessD)
  from get_or_create_subscription_ok [OF this(2,1)] assms(2) show ?thesis by (simp add: saas_ok_def saas_at_def)
qed

lemma put_subscription_ok:
  assumes "saas_ok d"
  shows "saas_ok (snd (put_subscription e d i data u))"
proof (cases "check (require_permission u ''saas'' ''manage'' ''You do not have permission to manage SaaS subscriptions'')
             (ensure_organization_access d i u)")
  case (Inr x)
  then have i: "i \<in> or_id ` set (organizations d)" by (auto simp: res_simps dest: ensure_organization_accessD)
  obtain s d' where g: "get_or_create_subscription e i d = (s, d')" by fastforce
  note created = get_or_create_subscription_ok [OF g i]
  with assms have ok: "saas_ok d'" "s \<in> set (organization_subscriptions (platform_tables d'))"
    by (simp_all add: saas_ok_def saas_at_def)
  let ?s = "assigned_subscription e data s"
  have "saas_ok (set_subscriptions (put_row os_id ?s (organization_subscriptions (platform_tables d'))) d')"
    if "case ws_plan_id data of None \<Rightarrow> True | Some j \<Rightarrow> get_row pn_id (subscription_plans (platform_tables d')) j \<noteq> None"
    using ok that by (auto simp: saas_ok_def set_subscriptions_def get_row_None intro!: subscriptions_put split: option.splits)
  with ok(1) Inr g show ?thesis
    by (auto simp: put_subscription_def upsert_organization_subscription_def Let_def audit_def saas_ok_def split: option.splits if_splits)
qed (simp add: put_subscription_def assms)

lemma saas_step_ok: "saas_ok d \<Longrightarrow> saas_ok (saas_step x d)"
proof (induction x d rule: saas_step.induct)
  case (1 u e data d)
  then show ?case using create_plan_plans [of e d data u]
    by (auto simp: saas_ok_def subscriptions_ok_def list_all_iff split: sum.splits prod.splits option.splits) blast
next
  case (2 u e i data d)
  then show ?case using update_plan_plans [of e d i data u]
    by (auto simp: saas_ok_def subscriptions_ok_def list_all_iff split: sum.splits prod.splits option.splits) blast
next
  case (3 u e i d)
  then show ?case by (auto split: sum.splits intro: get_subscription_ok)
qed (simp add: put_subscription_ok)

text \<open>
  Whatever sequence of plan and subscription requests is made, failed ones included: plan codes are unique and at most one
  plan is the default; an organization has at most one subscription, and it is to a plan that exists (or to none).
\<close>

theorem saas_tables_invariant:
  assumes "saas_ok d"
  shows "saas_ok (fold saas_step xs d)"
  using assms by (induction xs arbitrary: d) (simp_all add: saas_step_ok)

definition sample_plan_create :: plan_create where
  "sample_plan_create = \<lparr>wc_name = ''Basic'', wc_code = ''BASIC'', wc_description = None, wc_monthly_price = 10,
     wc_yearly_price = None, wc_max_stations = None, wc_max_users = None, wc_feature_summary = None, wc_is_active = True,
     wc_is_default = True\<rparr>"

theorem saas_tables_invariant_witness:
  "saas_ok (fold saas_step [(sample_admin, CreatePlan sample_env sample_plan_create),
     (sample_admin, CreatePlan sample_env (sample_plan_create\<lparr>wc_code := ''PRO''\<rparr>)),
     (sample_head_office, GetSubscription sample_env 1)] sample_db)"
  by (rule saas_tables_invariant)
    (simp add: saas_ok_def plans_ok_def subscriptions_ok_def one_default_def keyed_def sample_db_def empty_db_def empty_platform_def)

text \<open>
  Marking the default plan as the default once more leaves no default plan: the bulk update clears the mark, and the
  session sees no change to write.
\<close>

lemma default_plan_lost:
  assumes "update_plan e d i data u = Inr (p, d')" "wu_is_default data = Set (Some True)" "keyed pn_id (subscription_plans (platform_tables d))"
    and "get_row pn_id (subscription_plans (platform_tables d)) i = Some plan" "pn_is_default plan"
  shows "default_plan d' = None"
proof (rule update_plan_Inr [OF assms(1)])
  fix q assume q: "get_row pn_id (subscription_plans (platform_tables d)) i = Some q"
    "p = flushed_plan (wu_is_default data = Set (Some True)) q (set_plan data q)"
    and d': "d' = audit_plan e u ''saas.plan_update'' p (set_plans (put_row pn_id p
       (if wu_is_default data = Set (Some True) then clear_defaults (subscription_plans (platform_tables d))
        else subscription_plans (platform_tables d))) d)"
  with assms have "\<not> pn_is_default p" by (simp add: flushed_plan_def set_plan_def)
  then show ?thesis using assms(2)
    by (auto simp: d' default_plan_def audit_plan_def audit_def set_plans_def clear_defaults_def find_None_all dest!: put_rowD)
qed

end
