(* ===== verification/Employees.thy ===== *)
theory Employees
  imports Notify
begin

text \<open>
  \<open>app/services/employee_profiles.py\<close> and \<open>app/api/employee_profile.py\<close>: the staff of a station, with or without
  an account of the program.
\<close>

section \<open>Requests (\<open>schemas/employee_profile.py\<close>)\<close>

record employee_create =
  fc_station_id :: int
  fc_linked_user_id :: "int option"
  fc_full_name :: string
  fc_staff_type :: string
  fc_employee_code :: "string option"
  fc_phone :: "string option"
  fc_national_id :: "string option"
  fc_address :: "string option"
  fc_is_active :: bool
  fc_payroll_enabled :: bool
  fc_monthly_salary :: pyfloat
  fc_can_login :: bool
  fc_notes :: "string option"

record employee_update =
  fx_station_id :: "int option patch"
  fx_linked_user_id :: "int option patch"
  fx_full_name :: "string option patch"
  fx_staff_type :: "string option patch"
  fx_employee_code :: "string option patch"
  fx_phone :: "string option patch"
  fx_national_id :: "string option patch"
  fx_address :: "string option patch"
  fx_is_active :: "bool option patch"
  fx_payroll_enabled :: "bool option patch"
  fx_monthly_salary :: "pyfloat option patch"
  fx_can_login :: "bool option patch"
  fx_notes :: "string option patch"

section \<open>Operations (\<open>services/employee_profiles.py\<close>)\<close>

definition ensure_employee_profile_access :: "db \<Rightarrow> int option \<Rightarrow> user \<Rightarrow> station res" where
  "ensure_employee_profile_access d station_id u =
     (case Option.bind station_id (get_row st_id (stations d)) of None \<Rightarrow> http 404 ''Station not found'' | Some s \<Rightarrow>
      if role_of u \<in> set [''MasterAdmin'', ''Admin''] \<or> u_is_platform_user u then Inr s
      else if is_head_office_user u then
        (if st_organization_id s = get_user_organization_id d u then Inr s else http 403 ''Not authorized for this station'')
      else check (require_station_access u (st_id s) ''Not authorized for this station'') (Inr s))"

definition validate_linked_user :: "db \<Rightarrow> int option \<Rightarrow> int \<Rightarrow> int option \<Rightarrow> unit res" where
  "validate_linked_user d linked_user_id station_id organization_id =
     (case linked_user_id of None \<Rightarrow> ok | Some i \<Rightarrow>
      case get_row u_id (users d) i of None \<Rightarrow> http 404 ''Linked user not found'' | Some x \<Rightarrow>
      if u_station_id x \<noteq> Some station_id \<or> u_organization_id x \<noteq> organization_id
      then http 400 ''Linked user must belong to the same station and organization'' else ok)"

definition set_profiles :: "employee_profile list \<Rightarrow> db \<Rightarrow> db" where
  "set_profiles t d = d\<lparr>platform_tables := (platform_tables d)\<lparr>employee_profiles := t\<rparr>\<rparr>"

definition linked_elsewhere :: "employee_profile list \<Rightarrow> employee_profile \<Rightarrow> bool" where
  \<comment> \<open>the unique index on \<open>linked_user_id\<close>, checked when the row is written\<close>
  "linked_elsewhere t p \<longleftrightarrow> ep_linked_user_id p \<noteq> None
     \<and> find (\<lambda>q. ep_id q \<noteq> ep_id p \<and> ep_linked_user_id q = ep_linked_user_id p) t \<noteq> None"

definition new_profile :: "env \<Rightarrow> employee_create \<Rightarrow> int \<Rightarrow> employee_profile list \<Rightarrow> employee_profile" where
  "new_profile e data organization_id t = \<lparr>ep_id = next_id ep_id t, ep_organization_id = organization_id,
     ep_station_id = fc_station_id data, ep_linked_user_id = fc_linked_user_id data, ep_full_name = fc_full_name data,
     ep_staff_type = fc_staff_type data, ep_employee_code = fc_employee_code data, ep_phone = fc_phone data,
     ep_national_id = fc_national_id data, ep_address = fc_address data, ep_is_active = fc_is_active data,
     ep_payroll_enabled = fc_payroll_enabled data, ep_monthly_salary = fc_monthly_salary data, ep_can_login = fc_can_login data,
     ep_notes = fc_notes data, ep_created_at = now e, ep_updated_at = now e\<rparr>"

definition create_employee_profile :: "env \<Rightarrow> db \<Rightarrow> employee_create \<Rightarrow> user \<Rightarrow> (employee_profile \<times> db) res" where
  "create_employee_profile e d data u =
     (case ensure_employee_profile_access d (Some (fc_station_id data)) u of Inl exc \<Rightarrow> Inl exc | Inr s \<Rightarrow>
      check (validate_linked_user d (fc_linked_user_id data) (st_id s) (st_organization_id s))
      (if fc_can_login data \<and> fc_linked_user_id data = None
       then http 400 ''Linked user is required when login access is enabled''
       else case st_organization_id s of None \<Rightarrow> Inl IntegrityError
       | Some i \<Rightarrow>
         (let t = employee_profiles (platform_tables d); p = new_profile e data i t in
          if linked_elsewhere t p then Inl IntegrityError else Inr (p, set_profiles (add_row p t) d))))"

definition set_profile_fields :: "employee_update \<Rightarrow> int \<Rightarrow> int \<Rightarrow> employee_profile \<Rightarrow> employee_profile" where
  "set_profile_fields data station_id organization_id p = p\<lparr>ep_organization_id := organization_id, ep_station_id := station_id,
     ep_linked_user_id := assign (fx_linked_user_id data) (ep_linked_user_id p),
     ep_full_name := assign_value (fx_full_name data) (ep_full_name p),
     ep_staff_type := assign_value (fx_staff_type data) (ep_staff_type p),
     ep_employee_code := assign (fx_employee_code data) (ep_employee_code p), ep_phone := assign (fx_phone data) (ep_phone p),
     ep_national_id := assign (fx_national_id data) (ep_national_id p), ep_address := assign (fx_address data) (ep_address p),
     ep_is_active := assign_value (fx_is_active data) (ep_is_active p),
     ep_payroll_enabled := assign_value (fx_payroll_enabled data) (ep_payroll_enabled p),
     ep_monthly_salary := assign_value (fx_monthly_salary data) (ep_monthly_salary p),
     ep_can_login := assign_value (fx_can_login data) (ep_can_login p), ep_notes := assign (fx_notes data) (ep_notes p)\<rparr>"

definition null_profile_column :: "employee_update \<Rightarrow> bool" where
  "null_profile_column data \<longleftrightarrow> is_null (fx_full_name data) \<or> is_null (fx_staff_type data) \<or> is_null (fx_is_active data)
     \<or> is_null (fx_payroll_enabled data) \<or> is_null (fx_monthly_salary data) \<or> is_null (fx_can_login data)"

definition stamped_profile :: "env \<Rightarrow> employee_profile \<Rightarrow> employee_profile \<Rightarrow> employee_profile" where
  \<comment> \<open>\<open>onupdate\<close>: a row that is written gets the time\<close>
  "stamped_profile e old p = (if p = old then old else p\<lparr>ep_updated_at := now e\<rparr>)"

definition update_employee_profile ::
  "env \<Rightarrow> db \<Rightarrow> employee_profile \<Rightarrow> employee_update \<Rightarrow> user \<Rightarrow> (employee_profile \<times> db) res" where
  "update_employee_profile e d p data u =
     (case ensure_employee_profile_access d (assign (fx_station_id data) (Some (ep_station_id p))) u of Inl exc \<Rightarrow> Inl exc | Inr s \<Rightarrow>
      let linked_user_id = assign (fx_linked_user_id data) (ep_linked_user_id p) in
      check (validate_linked_user d linked_user_id (st_id s) (st_organization_id s))
      (if \<not> is_null (fx_can_login data) \<and> assign_value (fx_can_login data) (ep_can_login p) \<and> linked_user_id = None
       then http 400 ''Linked user is required when login access is enabled''
       else case st_organization_id s of None \<Rightarrow> Inl IntegrityError
       | Some i \<Rightarrow>
         (let t = employee_profiles (platform_tables d);
              p' = stamped_profile e p (set_profile_fields data (st_id s) i p) in
          if null_profile_column data \<or> linked_elsewhere t p' then Inl IntegrityError
          else Inr (p', set_profiles (put_row ep_id p' t) d))))"

section \<open>Routes (\<open>api/employee_profile.py\<close>)\<close>

definition post_employee_profile :: "env \<Rightarrow> db \<Rightarrow> employee_create \<Rightarrow> user \<Rightarrow> (employee_profile \<times> db) res" where
  "post_employee_profile e d data u =
     check (require_permission u ''employee_profiles'' ''create'' ''You do not have permission to create employee profiles'')
       (create_employee_profile e d data u)"

definition profile_page ::
  "(employee_profile \<Rightarrow> bool) \<Rightarrow> int option \<Rightarrow> string option \<Rightarrow> bool option \<Rightarrow> nat \<Rightarrow> nat \<Rightarrow> db \<Rightarrow> employee_profile list" where
  "profile_page scope station_id staff_type active skip limit d =
     page skip limit (sort_key ep_full_name (sort_key ep_id
       (filter (\<lambda>p. scope p \<and> (station_id = None \<or> station_id = Some (ep_station_id p))
            \<and> (staff_type = None \<or> staff_type = Some (ep_staff_type p)) \<and> (active = None \<or> active = Some (ep_is_active p)))
          (employee_profiles (platform_tables d)))))"

definition list_employee_profiles ::
  "db \<Rightarrow> int option \<Rightarrow> int option \<Rightarrow> string option \<Rightarrow> bool option \<Rightarrow> nat \<Rightarrow> nat \<Rightarrow> user \<Rightarrow> employee_profile list res" where
  "list_employee_profiles d station_id organization_id staff_type active skip limit u =
     check (require_permission u ''employee_profiles'' ''read'' ''You do not have permission to view employee profiles'')
     (if role_of u \<in> set [''MasterAdmin'', ''Admin''] \<or> u_is_platform_user u
      then Inr (profile_page (\<lambda>p. organization_id = None \<or> organization_id = Some (ep_organization_id p))
             station_id staff_type active skip limit d)
      else if is_head_office_user u then
        (let own = get_user_organization_id d u in
         if organization_id \<noteq> None \<and> organization_id \<noteq> own then http 403 ''Not authorized for this organization''
         else if (case station_id of None \<Rightarrow> False | Some i \<Rightarrow>
                   (case get_row st_id (stations d) i of None \<Rightarrow> True | Some s \<Rightarrow> st_organization_id s \<noteq> own))
         then http 403 ''Not authorized for this station''
         else Inr (profile_page (\<lambda>p. Some (ep_organization_id p) = own) station_id staff_type active skip limit d))
      else Inr (profile_page (\<lambda>p. True) (u_station_id u) staff_type active skip limit d))"

definition get_employee_profile :: "db \<Rightarrow> int \<Rightarrow> user \<Rightarrow> employee_profile res" where
  "get_employee_profile d i u =
     check (require_permission u ''employee_profiles'' ''read'' ''You do not have permission to view employee profiles'')
     (case get_row ep_id (employee_profiles (platform_tables d)) i of None \<Rightarrow> http 404 ''Employee profile not found'' | Some p \<Rightarrow>
      case ensure_employee_profile_access d (Some (ep_station_id p)) u of Inl exc \<Rightarrow> Inl exc | Inr _ \<Rightarrow> Inr p)"

definition put_employee_profile :: "env \<Rightarrow> db \<Rightarrow> int \<Rightarrow> employee_update \<Rightarrow> user \<Rightarrow> (employee_profile \<times> db) res" where
  "put_employee_profile e d i data u =
     check (require_permission u ''employee_profiles'' ''update'' ''You do not have permission to update employee profiles'')
     (case get_row ep_id (employee_profiles (platform_tables d)) i of None \<Rightarrow> http 404 ''Employee profile not found''
      | Some p \<Rightarrow> update_employee_profile e d p data u)"

definition delete_employee_profile :: "db \<Rightarrow> int \<Rightarrow> user \<Rightarrow> db res" where
  "delete_employee_profile d i u =
     check (require_permission u ''employee_profiles'' ''delete'' ''You do not have permission to delete employee profiles'')
     (case get_row ep_id (employee_profiles (platform_tables d)) i of None \<Rightarrow> http 404 ''Employee profile not found'' | Some p \<Rightarrow>
      case ensure_employee_profile_access d (Some (ep_station_id p)) u of Inl exc \<Rightarrow> Inl exc
      | Inr _ \<Rightarrow> Inr (set_profiles (del_row ep_id (ep_id p) (employee_profiles (platform_tables d))) d))"

section \<open>Profiles stay consistent with the accounts and stations\<close>

datatype employee_action =
    CreateProfile env employee_create
  | UpdateProfile env int employee_update
  | DeleteProfile int

fun employee_act :: "user \<Rightarrow> employee_action \<Rightarrow> db \<Rightarrow> db res" where
  "employee_act u (CreateProfile e data) d = outcome (post_employee_profile e d data u)"
| "employee_act u (UpdateProfile e i data) d = outcome (put_employee_profile e d i data u)"
| "employee_act u (DeleteProfile i) d = delete_employee_profile d i u"

definition employee_step :: "user \<times> employee_action \<Rightarrow> db \<Rightarrow> db" where
  "employee_step x d = (case employee_act (fst x) (snd x) d of Inl _ \<Rightarrow> d | Inr d' \<Rightarrow> d')"

definition profile_wf :: "db \<Rightarrow> employee_profile \<Rightarrow> bool" where
  \<comment> \<open>the profile is of an organization and a station of it; an account it is linked to belongs to both; who may log in has one\<close>
  "profile_wf d p \<longleftrightarrow>
     (\<exists>s. get_row st_id (stations d) (ep_station_id p) = Some s \<and> st_organization_id s = Some (ep_organization_id p))
     \<and> (case ep_linked_user_id p of None \<Rightarrow> \<not> ep_can_login p
        | Some i \<Rightarrow> \<exists>x. get_row u_id (users d) i = Some x \<and> u_station_id x = Some (ep_station_id p)
            \<and> u_organization_id x = Some (ep_organization_id p))"

definition staff_ok :: "db \<Rightarrow> bool" where
  "staff_ok d \<longleftrightarrow> keyed ep_id (employee_profiles (platform_tables d))
     \<and> (\<forall>p \<in> set (employee_profiles (platform_tables d)). \<not> linked_elsewhere (employee_profiles (platform_tables d)) p)
     \<and> list_all (profile_wf d) (employee_profiles (platform_tables d))"

lemma set_profiles_simps [simp]:
  "users (set_profiles t d) = users d" "stations (set_profiles t d) = stations d"
  "employee_profiles (platform_tables (set_profiles t d)) = t"
  by (simp_all add: set_profiles_def)

lemma profile_wf_cong [simp]: "profile_wf (set_profiles t d) = profile_wf d"
  unfolding profile_wf_def set_profiles_simps ..

lemma linked_elsewhere_iff: "linked_elsewhere t p \<longleftrightarrow>
    (\<exists>q \<in> set t. ep_linked_user_id p \<noteq> None \<and> ep_id q \<noteq> ep_id p \<and> ep_linked_user_id q = ep_linked_user_id p)"
  by (auto simp: linked_elsewhere_def find_None_iff)

lemma links_write:
  assumes "\<forall>q \<in> set t. \<not> linked_elsewhere t q" "\<not> linked_elsewhere t p" "set t' \<subseteq> insert p (set t)"
  shows "\<forall>q \<in> set t'. \<not> linked_elsewhere t' q"
proof (intro ballI notI)
  fix q assume q: "q \<in> set t'" "linked_elsewhere t' q"
  then obtain r where r: "r \<in> set t'" "ep_linked_user_id q \<noteq> None" "ep_id r \<noteq> ep_id q" "ep_linked_user_id r = ep_linked_user_id q"
    by (auto simp: linked_elsewhere_iff)
  with q(1) assms(3) consider "q \<in> set t" "r \<in> set t" | "q = p" "r \<in> set t" | "r = p" "q \<in> set t" | "q = p" "r = p" by blast
  then show False
  proof cases
    case 1
    with assms(1) r show ?thesis unfolding linked_elsewhere_iff by blast
  next
    case 2
    with assms(2) r show ?thesis unfolding linked_elsewhere_iff by blast
  next
    case 3
    with assms(2) r show ?thesis unfolding linked_elsewhere_iff by metis
  qed (use r in simp)
qed

lemma staff_ok_write:
  assumes "staff_ok d" "set t \<subseteq> insert p (set (employee_profiles (platform_tables d)))" "keyed ep_id t" "profile_wf d p"
    and "\<not> linked_elsewhere (employee_profiles (platform_tables d)) p"
  shows "staff_ok (set_profiles t d)"
proof -
  have "\<forall>q \<in> set t. \<not> linked_elsewhere t q"
    using assms(1) unfolding staff_ok_def by (intro links_write [OF _ assms(5,2)]) blast
  moreover have "list_all (profile_wf d) t"
    using assms(1,2,4) unfolding staff_ok_def list_all_iff by blast
  ultimately show ?thesis using assms(3) by (simp add: staff_ok_def)
qed

lemma ensure_accessD: "ensure_employee_profile_access d i u = Inr s \<Longrightarrow> i = Some (st_id s) \<and> get_row st_id (stations d) (st_id s) = Some s"
  unfolding ensure_employee_profile_access_def
  by (cases i) (auto simp: res_simps split: option.splits if_splits dest: get_row_Some)

lemma validate_linked_ok: "validate_linked_user d l i g = ok \<longleftrightarrow> (case l of None \<Rightarrow> True
    | Some j \<Rightarrow> \<exists>x. get_row u_id (users d) j = Some x \<and> u_station_id x = Some i \<and> u_organization_id x = g)"
  by (auto simp: validate_linked_user_def split: option.split)

lemma create_profile_ok:
  assumes "create_employee_profile e d data u = Inr (p, d')" "staff_ok d"
  shows "staff_ok d'"
proof -
  let ?t = "employee_profiles (platform_tables d)"
  from assms(1) obtain s i where s: "ensure_employee_profile_access d (Some (fc_station_id data)) u = Inr s"
    and v: "validate_linked_user d (fc_linked_user_id data) (st_id s) (st_organization_id s) = ok"
    and c: "\<not> (fc_can_login data \<and> fc_linked_user_id data = None)" and i: "st_organization_id s = Some i"
    and p: "p = new_profile e data i ?t" "\<not> linked_elsewhere ?t p" "d' = set_profiles (add_row p ?t) d"
    by (auto simp: create_employee_profile_def res_simps Let_def)
  have "profile_wf d p"
    using ensure_accessD [OF s] v c i
    by (auto simp: p(1) new_profile_def profile_wf_def validate_linked_ok split: option.split)
  then show ?thesis unfolding p(3)
    using assms(2) p(1,2) by (intro staff_ok_write [where p = p]) (auto simp: staff_ok_def add_row_def new_profile_def keyed_def next_id_fresh)
qed

lemma stamped_profile_fields [simp]:
  "ep_id (stamped_profile e p q) = (if q = p then ep_id p else ep_id q)"
  "ep_station_id (stamped_profile e p q) = ep_station_id q" "ep_organization_id (stamped_profile e p q) = ep_organization_id q"
  "ep_linked_user_id (stamped_profile e p q) = ep_linked_user_id q" "ep_can_login (stamped_profile e p q) = ep_can_login q"
  by (simp_all add: stamped_profile_def)

lemma update_profile_ok:
  assumes "update_employee_profile e d p0 data u = Inr (p, d')" "staff_ok d" "p0 \<in> set (employee_profiles (platform_tables d))"
  shows "staff_ok d'"
proof -
  let ?t = "employee_profiles (platform_tables d)"
  from assms(1) obtain s i where s: "ensure_employee_profile_access d (assign (fx_station_id data) (Some (ep_station_id p0))) u = Inr s"
    and v: "validate_linked_user d (assign (fx_linked_user_id data) (ep_linked_user_id p0)) (st_id s) (st_organization_id s) = ok"
    and c: "\<not> (\<not> is_null (fx_can_login data) \<and> assign_value (fx_can_login data) (ep_can_login p0)
        \<and> assign (fx_linked_user_id data) (ep_linked_user_id p0) = None)" and i: "st_organization_id s = Some i"
    and p: "p = stamped_profile e p0 (set_profile_fields data (st_id s) i p0)" "\<not> linked_elsewhere ?t p"
      "d' = set_profiles (put_row ep_id p ?t) d" and n: "\<not> null_profile_column data"
    by (auto simp: update_employee_profile_def res_simps Let_def)
  have "profile_wf d p"
    using ensure_accessD [OF s] v c i n
    by (auto simp: p(1) set_profile_fields_def profile_wf_def validate_linked_ok null_profile_column_def split: option.splits)
  then show ?thesis unfolding p(3)
    using assms(2) p(2) by (intro staff_ok_write [where p = p]) (auto simp: staff_ok_def keyed_def dest: put_rowD)
qed

lemma delete_profile_ok:
  assumes "delete_employee_profile d i u = Inr d'" "staff_ok d"
  shows "staff_ok d'"
proof -
  let ?t = "employee_profiles (platform_tables d)"
  from assms(1) obtain p where p: "p \<in> set ?t" "d' = set_profiles (del_row ep_id (ep_id p) ?t) d"
    by (auto simp: delete_employee_profile_def res_simps dest: get_row_Some)
  then show ?thesis using assms(2) unfolding p(2)
    by (intro staff_ok_write [where p = p])
      (auto simp: staff_ok_def del_row_def keyed_def distinct_map_filter list_all_iff)
qed

text \<open>
  Whatever sequence of requests is made for the staff, failed ones included: every profile is of a station and its
  organization, an account is linked to at most one profile and belongs to the same station and organization, and nobody
  may log in without an account.
\<close>

theorem staff_profiles_invariant:
  assumes "staff_ok d"
  shows "staff_ok (fold employee_step xs d)"
proof -
  have step: "staff_ok (employee_step x d)" if "staff_ok d" for x d
  proof (cases "employee_act (fst x) (snd x) d")
    case (Inr d')
    with that have "staff_ok d'"
      by (cases "snd x") (auto simp: res_simps post_employee_profile_def put_employee_profile_def
          dest: create_profile_ok update_profile_ok delete_profile_ok get_row_Some)
    with Inr show ?thesis by (simp add: employee_step_def)
  qed (simp add: employee_step_def that)
  show ?thesis using assms by (induction xs arbitrary: d) (simp_all add: step)
qed

definition sample_employee_create :: employee_create where
  "sample_employee_create = \<lparr>fc_station_id = 1, fc_linked_user_id = Some 4, fc_full_name = ''Omar'', fc_staff_type = ''operator'',
     fc_employee_code = None, fc_phone = None, fc_national_id = None, fc_address = None, fc_is_active = True,
     fc_payroll_enabled = True, fc_monthly_salary = 900, fc_can_login = True, fc_notes = None\<rparr>"

theorem staff_profiles_invariant_witness:
  "staff_ok (fold employee_step [(sample_admin, CreateProfile sample_env sample_employee_create),
     (sample_admin, CreateProfile sample_env sample_employee_create), (sample_manager, DeleteProfile 1)] sample_db)"
  by (rule staff_profiles_invariant)
    (simp add: staff_ok_def keyed_def sample_db_def empty_db_def empty_platform_def)

text \<open>
  An update checks the scope of the station the profile moves to only: a user of that station takes over the profile of
  any other station.
\<close>

lemma profile_taken_over:
  assumes "require_permission u ''employee_profiles'' ''update'' ''You do not have permission to update employee profiles'' = ok"
    and "get_row ep_id (employee_profiles (platform_tables d)) i = Some p" "get_row st_id (stations d) j = Some s"
    and "u_station_id u = Some j" "\<not> is_head_office_user u" "st_organization_id s = Some g" "\<not> null_profile_column data"
    and "fx_station_id data = Set (Some j)" "fx_linked_user_id data = Set None" "fx_can_login data = Set (Some False)"
  shows "\<exists>p' d'. put_employee_profile e d i data u = Inr (p', d') \<and> ep_station_id p' = j"
proof -
  have j: "st_id s = j" using get_row_Some [OF assms(3)] by simp
  have "ensure_employee_profile_access d (Some j) u = Inr s"
    using assms(3-5) j by (simp add: ensure_employee_profile_access_def require_station_access_def)
  with assms j show ?thesis
    by (simp add: put_employee_profile_def update_employee_profile_def validate_linked_user_def Let_def linked_elsewhere_def
        set_profile_fields_def)
qed

end
