(* ===== verification/Hooks.thy ===== *)
theory Hooks
  imports Saas
begin

text \<open>
  \<open>app/services/online_api_hooks.py\<close> and \<open>app/api/online_api_hook.py\<close>: the outbound hooks of an organization, the
  signature of their requests, and the inbound webhooks that are checked against it. The HMAC of a secret and a body,
  as a hex digest, and base64 are the parameters \<open>hmac\<close> and \<open>b64\<close>; a body is kept as the JSON value it is the text of.
\<close>

section \<open>Dictionaries and canonical JSON\<close>

definition dict_put :: "string \<Rightarrow> 'v \<Rightarrow> (string \<times> 'v) list \<Rightarrow> (string \<times> 'v) list" where
  \<comment> \<open>\<open>d[k] = v\<close>\<close>
  "dict_put k v d = (if k \<in> fst ` set d then map (\<lambda>(k', v'). (k', if k' = k then v else v')) d else d @ [(k, v)])"

fun canonical :: "jval \<Rightarrow> jval" where
  \<comment> \<open>\<open>json.dumps(payload, sort_keys=True)\<close>\<close>
  "canonical (JList xs) = JList (map canonical xs)"
| "canonical (JObj d) = JObj (sort_key fst (map (\<lambda>(k, v). (k, canonical v)) d))"
| "canonical v = v"

section \<open>Requests (\<open>schemas/online_api_hook.py\<close>)\<close>

record hook_create =
  kc_name :: string
  kc_event_type :: string
  kc_target_url :: string
  kc_auth_type :: string
  kc_auth_token :: "string option"
  kc_secret_key :: "string option"
  kc_signature_header :: "string option"
  kc_is_active :: bool

record hook_update =
  kx_name :: "string option patch"
  kx_event_type :: "string option patch"
  kx_target_url :: "string option patch"
  kx_auth_type :: "string option patch"
  kx_auth_token :: "string option patch"
  kx_secret_key :: "string option patch"
  kx_signature_header :: "string option patch"
  kx_is_active :: "bool option patch"

section \<open>Hooks\<close>

definition VALID_AUTH_TYPES :: "string list" where
  "VALID_AUTH_TYPES = [''none'', ''bearer'', ''basic'', ''hmac_sha256'']"

definition DEFAULT_SIGNATURE_HEADER :: string where
  "DEFAULT_SIGNATURE_HEADER = ''X-PPMS-Signature''"

definition SUPPORTED_EVENT_TYPES :: "string list" where
  "SUPPORTED_EVENT_TYPES = [''expense.approval_requested'', ''expense.approved'', ''expense.rejected'',
     ''purchase.approval_requested'', ''purchase.approved'', ''purchase.rejected'', ''fuel_sale.reversal_requested'',
     ''fuel_sale.reversal_approved'', ''customer_payment.reversal_requested'', ''supplier_payment.reversal_requested'',
     ''financial_document.dispatched'', ''report_export.completed'', ''nozzle.meter_adjusted'']"

definition set_hooks :: "online_api_hook list \<Rightarrow> db \<Rightarrow> db" where
  "set_hooks t d = d\<lparr>platform_tables := (platform_tables d)\<lparr>online_api_hooks := t\<rparr>\<rparr>"

definition hooks_of :: "db \<Rightarrow> online_api_hook list" where
  "hooks_of d = online_api_hooks (platform_tables d)"

definition list_online_api_hooks :: "db \<Rightarrow> int \<Rightarrow> string option \<Rightarrow> bool \<Rightarrow> online_api_hook list" where
  "list_online_api_hooks d i event_type active_only =
     newest_first ho_created_at ho_id (filter (\<lambda>h. ho_organization_id h = i
       \<and> (truthy event_type \<longrightarrow> event_type = Some (ho_event_type h)) \<and> (active_only \<longrightarrow> ho_is_active h)) (hooks_of d))"

definition credentials_missing :: "online_api_hook \<Rightarrow> unit res" where
  "credentials_missing h =
     (if ho_auth_type h = ''hmac_sha256'' \<and> \<not> truthy (ho_secret_key h)
      then http 400 ''Secret key is required for hmac_sha256 hooks''
      else if ho_auth_type h = ''basic'' \<and> \<not> truthy (ho_auth_token h)
      then http 400 ''Auth token is required for basic hooks'' else ok)"

definition default_signature :: "online_api_hook \<Rightarrow> online_api_hook" where
  "default_signature h =
     (if ho_auth_type h = ''hmac_sha256'' \<and> \<not> truthy (ho_signature_header h)
      then h\<lparr>ho_signature_header := Some DEFAULT_SIGNATURE_HEADER\<rparr> else h)"

definition new_hook :: "env \<Rightarrow> int \<Rightarrow> hook_create \<Rightarrow> online_api_hook list \<Rightarrow> online_api_hook" where
  "new_hook e i data t = \<lparr>ho_id = next_id ho_id t, ho_organization_id = i, ho_name = kc_name data,
     ho_event_type = kc_event_type data, ho_target_url = kc_target_url data, ho_auth_type = kc_auth_type data,
     ho_auth_token = kc_auth_token data, ho_secret_key = kc_secret_key data, ho_signature_header = kc_signature_header data,
     ho_is_active = kc_is_active data, ho_last_status = None, ho_last_detail = None, ho_last_triggered_at = None,
     ho_created_at = now e, ho_updated_at = now e\<rparr>"

definition create_online_api_hook :: "env \<Rightarrow> db \<Rightarrow> int \<Rightarrow> hook_create \<Rightarrow> (online_api_hook \<times> db) res" where
  "create_online_api_hook e d i data =
     (if kc_auth_type data \<notin> set VALID_AUTH_TYPES then http 400 ''Invalid online hook auth type''
      else if kc_event_type data \<notin> set SUPPORTED_EVENT_TYPES \<and> kc_event_type data \<noteq> ''custom''
      then http 400 ''Unsupported online hook event type''
      else let h = new_hook e i data (hooks_of d) in
        check (credentials_missing h)
        (let h' = default_signature h in Inr (h', set_hooks (add_row h' (hooks_of d)) d)))"

definition set_hook :: "hook_update \<Rightarrow> online_api_hook \<Rightarrow> online_api_hook" where
  "set_hook data h = h\<lparr>ho_name := assign_value (kx_name data) (ho_name h),
     ho_event_type := assign_value (kx_event_type data) (ho_event_type h),
     ho_target_url := assign_value (kx_target_url data) (ho_target_url h),
     ho_auth_type := assign_value (kx_auth_type data) (ho_auth_type h),
     ho_auth_token := assign (kx_auth_token data) (ho_auth_token h),
     ho_secret_key := assign (kx_secret_key data) (ho_secret_key h),
     ho_signature_header := assign (kx_signature_header data) (ho_signature_header h),
     ho_is_active := assign_value (kx_is_active data) (ho_is_active h)\<rparr>"

definition null_hook_column :: "hook_update \<Rightarrow> bool" where
  "null_hook_column data \<longleftrightarrow> is_null (kx_name data) \<or> is_null (kx_target_url data) \<or> is_null (kx_is_active data)"

definition stamped_hook :: "env \<Rightarrow> online_api_hook \<Rightarrow> online_api_hook \<Rightarrow> online_api_hook" where
  \<comment> \<open>\<open>onupdate\<close>: a row that is written gets the time\<close>
  "stamped_hook e old h = (if h = old then old else h\<lparr>ho_updated_at := now e\<rparr>)"

definition outside :: "string option patch \<Rightarrow> string list \<Rightarrow> bool" where
  \<comment> \<open>\<open>field in payload and payload[field] not in allowed\<close>\<close>
  "outside p allowed \<longleftrightarrow> (case p of Unset \<Rightarrow> False | Set None \<Rightarrow> True | Set (Some v) \<Rightarrow> v \<notin> set allowed)"

definition update_online_api_hook :: "env \<Rightarrow> db \<Rightarrow> online_api_hook \<Rightarrow> hook_update \<Rightarrow> (online_api_hook \<times> db) res" where
  "update_online_api_hook e d h data =
     (if outside (kx_auth_type data) VALID_AUTH_TYPES then http 400 ''Invalid online hook auth type''
      else if outside (kx_event_type data) (''custom'' # SUPPORTED_EVENT_TYPES)
      then http 400 ''Unsupported online hook event type''
      else let h1 = set_hook data h in
        check (credentials_missing h1)
        (if null_hook_column data then Inl IntegrityError
         else let h2 = stamped_hook e h (default_signature h1) in Inr (h2, set_hooks (put_row ho_id h2 (hooks_of d)) d)))"

section \<open>Outbound requests\<close>

definition signature_header_of :: "online_api_hook \<Rightarrow> string" where
  "signature_header_of h =
     (case ho_signature_header h of Some s \<Rightarrow> if s = [] then DEFAULT_SIGNATURE_HEADER else s | None \<Rightarrow> DEFAULT_SIGNATURE_HEADER)"

definition signature_value :: "(string \<Rightarrow> jval \<Rightarrow> string) \<Rightarrow> string \<Rightarrow> jval \<Rightarrow> string" where
  "signature_value hmac secret body = ''sha256='' @ hmac secret body"

definition build_hook_headers ::
  "(string \<Rightarrow> jval \<Rightarrow> string) \<Rightarrow> (string \<Rightarrow> string) \<Rightarrow> online_api_hook \<Rightarrow> jval \<Rightarrow> (string \<times> string) list" where
  "build_hook_headers hmac b64 h body =
     (let headers = [(''Content-Type'', ''application/json'')];
          headers = (if ho_auth_type h = ''bearer'' \<and> truthy (ho_auth_token h)
             then dict_put ''Authorization'' (''Bearer '' @ the (ho_auth_token h)) headers
             else if ho_auth_type h = ''basic'' \<and> truthy (ho_auth_token h)
             then dict_put ''Authorization'' (''Basic '' @ b64 (the (ho_auth_token h))) headers
             else headers)
      in if truthy (ho_secret_key h)
         then dict_put (signature_header_of h) (signature_value hmac (the (ho_secret_key h)) body) headers
         else headers)"

definition hook_request ::
  "(string \<Rightarrow> jval \<Rightarrow> string) \<Rightarrow> (string \<Rightarrow> string) \<Rightarrow> online_api_hook \<Rightarrow> jobject \<Rightarrow> raw_request" where
  "hook_request hmac b64 h payload =
     (case canonical (JObj payload) of JObj members \<Rightarrow>
        \<lparr>rr_url = ho_target_url h, rr_headers = build_hook_headers hmac b64 h (JObj members), rr_body = members\<rparr>)"

definition hook_outcome ::
  "env \<Rightarrow> (string \<Rightarrow> jval \<Rightarrow> string) \<Rightarrow> (string \<Rightarrow> string) \<Rightarrow> online_api_hook \<Rightarrow> jobject \<Rightarrow> string \<times> fstring option" where
  \<comment> \<open>\<open>last_status\<close> and \<open>last_detail\<close>\<close>
  "hook_outcome e hmac b64 h payload =
     (if online_hooks_mode e = ''mock'' \<or> app_env e \<in> set [''development'', ''test'']
      then (''sent'', Some [T (''Mock hook delivery to '' @ ho_target_url h)])
      else case http_post_json e (hook_request hmac b64 h payload) of
        Inl exc \<Rightarrow> (''failed'', Some [T ''Hook delivery failed: '', T exc])
      | Inr (accepted, status_code) \<Rightarrow> if accepted then (''sent'', None) else (''failed'', Some [T ''HTTP '', I status_code]))"

definition dispatch_online_api_hook ::
  "env \<Rightarrow> (string \<Rightarrow> jval \<Rightarrow> string) \<Rightarrow> (string \<Rightarrow> string) \<Rightarrow> db \<Rightarrow> online_api_hook \<Rightarrow> jobject
     \<Rightarrow> (string \<times> fstring option) \<times> db" where
  "dispatch_online_api_hook e hmac b64 d h payload =
     (let (status, detail) = hook_outcome e hmac b64 h payload;
          h' = stamped_hook e h (h\<lparr>ho_last_triggered_at := Some (now e), ho_last_status := Some status, ho_last_detail := detail\<rparr>)
      in ((status, detail), set_hooks (put_row ho_id h' (hooks_of d)) d))"

section \<open>Inbound webhooks\<close>

definition inbound_events :: "db \<Rightarrow> inbound_webhook_event list" where
  "inbound_events d = inbound_webhook_events (platform_tables d)"

definition add_event :: "inbound_webhook_event \<Rightarrow> db \<Rightarrow> db" where
  "add_event x d = d\<lparr>platform_tables := (platform_tables d)\<lparr>inbound_webhook_events := add_row x (inbound_events d)\<rparr>\<rparr>"

definition inbound_hook :: "db \<Rightarrow> int \<Rightarrow> string \<Rightarrow> online_api_hook option" where
  "inbound_hook d i hook_name = find (\<lambda>h. ho_organization_id h = i \<and> ho_name h = hook_name \<and> ho_is_active h) (hooks_of d)"

definition authenticated :: "(string \<Rightarrow> jval \<Rightarrow> string) \<Rightarrow> online_api_hook \<Rightarrow> (string \<times> string) list \<Rightarrow> jval \<Rightarrow> bool" where
  "authenticated hmac h headers body \<longleftrightarrow>
     (truthy (ho_secret_key h) \<longrightarrow>
        map_of headers ''x-ppms-integration-key'' = ho_secret_key h
        \<or> map_of headers (py_lower (signature_header_of h)) = Some (signature_value hmac (the (ho_secret_key h)) body))"

definition webhook_event ::
  "env \<Rightarrow> db \<Rightarrow> int \<Rightarrow> string \<Rightarrow> string \<Rightarrow> (string \<times> string) list \<Rightarrow> jval \<Rightarrow> bool \<Rightarrow> inbound_webhook_event" where
  "webhook_event e d i hook_name event_type headers body accepted =
     \<lparr>ie_id = next_id ie_id (inbound_events d), ie_organization_id = i, ie_hook_name = hook_name, ie_event_type = event_type,
      ie_source = ''external'', ie_headers_json = Some (json_sorted (map (\<lambda>(k, v). (k, JStr v)) headers)),
      ie_payload_json = Some body, ie_status = (if accepted then ''received'' else ''rejected''),
      ie_detail = (if accepted then None else Some ''Invalid webhook signature''), ie_received_at = now e\<rparr>"

definition falsy :: "jval \<Rightarrow> bool" where
  "falsy v \<longleftrightarrow> v = JNull \<or> v = JBool False \<or> v = JInt 0 \<or> v = JFloat 0 \<or> v = JStr [] \<or> v = JList [] \<or> v = JObj []"

definition stored_text :: "(jval \<Rightarrow> string res) \<Rightarrow> jval \<Rightarrow> string res" where
  \<comment> \<open>a value bound to a text column; \<open>column_text\<close> is what the database driver makes of one that is not text\<close>
  "stored_text column_text v = (case v of JStr s \<Rightarrow> Inr s | _ \<Rightarrow> column_text v)"

definition receive_inbound_webhook ::
  "env \<Rightarrow> (string \<Rightarrow> jval \<Rightarrow> string) \<Rightarrow> (jval \<Rightarrow> string res) \<Rightarrow> db \<Rightarrow> int \<Rightarrow> string \<Rightarrow> jval \<Rightarrow> (string \<times> string) list \<Rightarrow> jval
     \<Rightarrow> inbound_webhook_event res \<times> db" where
  \<comment> \<open>the event is committed before a rejected one is answered with an error\<close>
  "receive_inbound_webhook e hmac column_text d i hook_name event_type headers payload =
     (case inbound_hook d i hook_name of None \<Rightarrow> (http 404 ''Inbound hook target not found'', d) | Some h \<Rightarrow>
      (let body = canonical payload; accepted = authenticated hmac h headers body in
       case stored_text column_text (if falsy event_type then JStr (ho_event_type h) else event_type) of
         Inl exc \<Rightarrow> (Inl exc, d)
       | Inr text \<Rightarrow>
         (let event = webhook_event e d i hook_name text headers body accepted
          in (if accepted then Inr event else http 401 ''Invalid inbound webhook signature'', add_event event d))))"

definition list_inbound_webhook_events :: "db \<Rightarrow> int \<Rightarrow> string option \<Rightarrow> string option \<Rightarrow> inbound_webhook_event list" where
  "list_inbound_webhook_events d i event_type status =
     newest_first ie_received_at ie_id (filter (\<lambda>x. ie_organization_id x = i
       \<and> (truthy event_type \<longrightarrow> event_type = Some (ie_event_type x)) \<and> (truthy status \<longrightarrow> status = Some (ie_status x)))
       (inbound_events d))"

record hook_diagnostics =
  kd_hook_count :: nat
  kd_active_hook_count :: nat
  kd_failed_hook_count :: nat
  kd_inbound_event_count :: nat
  kd_rejected_inbound_event_count :: nat

definition online_hook_diagnostics :: "db \<Rightarrow> int \<Rightarrow> hook_diagnostics" where
  "online_hook_diagnostics d i =
     (let hs = filter (\<lambda>h. ho_organization_id h = i) (hooks_of d); xs = filter (\<lambda>x. ie_organization_id x = i) (inbound_events d)
      in \<lparr>kd_hook_count = length hs, kd_active_hook_count = length (filter ho_is_active hs),
          kd_failed_hook_count = length (filter (\<lambda>h. ho_last_status h = Some ''failed'') hs), kd_inbound_event_count = length xs,
          kd_rejected_inbound_event_count = length (filter (\<lambda>x. ie_status x = ''rejected'') xs)\<rparr>)"

section \<open>Routes (\<open>api/online_api_hook.py\<close>)\<close>

definition may_use_hooks :: "db \<Rightarrow> user \<Rightarrow> string \<Rightarrow> string \<Rightarrow> int \<Rightarrow> unit res" where
  \<comment> \<open>\<open>require_permission\<close> and \<open>ensure_online_hook_access\<close>\<close>
  "may_use_hooks d u action detail i =
     check (require_permission u ''online_api_hooks'' action detail)
       (case ensure_organization_access d i u of Inl exc \<Rightarrow> Inl exc | Inr _ \<Rightarrow> ok)"

definition get_supported_online_hook_event_types :: "user \<Rightarrow> string list res" where
  "get_supported_online_hook_event_types u =
     check (require_permission u ''online_api_hooks'' ''read'' ''You do not have permission to view online API hooks'')
       (Inr SUPPORTED_EVENT_TYPES)"

definition get_online_api_hooks :: "db \<Rightarrow> int \<Rightarrow> string option \<Rightarrow> bool \<Rightarrow> user \<Rightarrow> online_api_hook list res" where
  "get_online_api_hooks d i event_type active_only u =
     check (may_use_hooks d u ''read'' ''You do not have permission to view online API hooks'' i)
       (Inr (list_online_api_hooks d i event_type active_only))"

definition get_online_hook_diagnostics :: "db \<Rightarrow> int \<Rightarrow> user \<Rightarrow> hook_diagnostics res" where
  "get_online_hook_diagnostics d i u =
     check (may_use_hooks d u ''read'' ''You do not have permission to view online API hooks'' i)
       (Inr (online_hook_diagnostics d i))"

definition get_inbound_webhook_events ::
  "db \<Rightarrow> int \<Rightarrow> string option \<Rightarrow> string option \<Rightarrow> user \<Rightarrow> inbound_webhook_event list res" where
  "get_inbound_webhook_events d i event_type status u =
     check (may_use_hooks d u ''read'' ''You do not have permission to view online API hooks'' i)
       (Inr (list_inbound_webhook_events d i event_type status))"

definition audit_hook :: "env \<Rightarrow> user \<Rightarrow> string \<Rightarrow> online_api_hook \<Rightarrow> db \<Rightarrow> db" where
  "audit_hook e u action h d =
     audit e u ''online_api_hooks'' action ''online_api_hook'' (Some (ho_id h)) None
       [(''organization_id'', JInt (ho_organization_id h)), (''event_type'', JStr (ho_event_type h)),
        (''target_url'', JStr (ho_target_url h))] d"

definition post_online_api_hook :: "env \<Rightarrow> db \<Rightarrow> int \<Rightarrow> hook_create \<Rightarrow> user \<Rightarrow> (online_api_hook \<times> db) res" where
  "post_online_api_hook e d i data u =
     check (may_use_hooks d u ''update'' ''You do not have permission to manage online API hooks'' i)
     (case create_online_api_hook e d i data of Inl exc \<Rightarrow> Inl exc
      | Inr (h, d') \<Rightarrow> Inr (h, audit_hook e u ''online_api_hooks.create'' h d'))"

definition put_online_api_hook :: "env \<Rightarrow> db \<Rightarrow> int \<Rightarrow> hook_update \<Rightarrow> user \<Rightarrow> (online_api_hook \<times> db) res" where
  "put_online_api_hook e d hook_id data u =
     check (require_permission u ''online_api_hooks'' ''update'' ''You do not have permission to manage online API hooks'')
     (case get_row ho_id (hooks_of d) hook_id of None \<Rightarrow> http 404 ''Online API hook not found'' | Some h \<Rightarrow>
      (case ensure_organization_access d (ho_organization_id h) u of Inl exc \<Rightarrow> Inl exc | Inr _ \<Rightarrow>
       (case update_online_api_hook e d h data of Inl exc \<Rightarrow> Inl exc
        | Inr (h', d') \<Rightarrow> Inr (h', audit_hook e u ''online_api_hooks.update'' h' d'))))"

definition ping_online_api_hook ::
  "env \<Rightarrow> (string \<Rightarrow> jval \<Rightarrow> string) \<Rightarrow> (string \<Rightarrow> string) \<Rightarrow> db \<Rightarrow> int \<Rightarrow> jobject option \<Rightarrow> user
     \<Rightarrow> ((string \<times> fstring option) \<times> db) res" where
  "ping_online_api_hook e hmac b64 d hook_id data u =
     check (require_permission u ''online_api_hooks'' ''trigger'' ''You do not have permission to trigger online API hooks'')
     (case get_row ho_id (hooks_of d) hook_id of None \<Rightarrow> http 404 ''Online API hook not found'' | Some h \<Rightarrow>
      (case ensure_organization_access d (ho_organization_id h) u of Inl exc \<Rightarrow> Inl exc | Inr _ \<Rightarrow>
       (let payload = (case data of Some p \<Rightarrow> p | None \<Rightarrow> [(''event'', JStr ''ping''), (''hook_id'', JInt (ho_id h))]);
            (result, d') = dispatch_online_api_hook e hmac b64 d h payload
        in Inr (result, audit e u ''online_api_hooks'' ''online_api_hooks.ping'' ''online_api_hook'' (Some (ho_id h)) None
             [(''organization_id'', JInt (ho_organization_id h)), (''status'', JStr (fst result)),
              (''target_url'', JStr (ho_target_url h))] d'))))"

definition lowered_headers :: "(string \<times> string) list \<Rightarrow> (string \<times> string) list" where
  "lowered_headers items = fold (\<lambda>(k, v). dict_put (py_lower k) v) items []"

definition inbound_event_type :: "(string \<times> string) list \<Rightarrow> jval \<Rightarrow> jval res" where
  "inbound_event_type headers payload =
     (if truthy (map_of headers ''x-ppms-event-type'') then Inr (JStr (the (map_of headers ''x-ppms-event-type'')))
      else case payload of
        JObj members \<Rightarrow>
          (case map_of members ''event_type'' of None \<Rightarrow> Inr (JStr ''custom'')
           | Some v \<Rightarrow> Inr (if falsy v then JStr ''custom'' else v))
      | _ \<Rightarrow> Inl AttributeError)"

definition receive_online_inbound_webhook ::
  "env \<Rightarrow> (string \<Rightarrow> jval \<Rightarrow> string) \<Rightarrow> (jval \<Rightarrow> string res) \<Rightarrow> db \<Rightarrow> int \<Rightarrow> string \<Rightarrow> (string \<times> string) list \<Rightarrow> jval
     \<Rightarrow> inbound_webhook_event res \<times> db" where
  "receive_online_inbound_webhook e hmac column_text d i hook_name items payload =
     (let headers = lowered_headers items in
      case inbound_event_type headers payload of Inl exc \<Rightarrow> (Inl exc, d)
      | Inr event_type \<Rightarrow> receive_inbound_webhook e hmac column_text d i hook_name event_type headers payload)"

section \<open>What an inbound webhook has to prove\<close>

definition carries_credentials :: "(string \<Rightarrow> jval \<Rightarrow> string) \<Rightarrow> online_api_hook \<Rightarrow> (string \<times> string) list \<Rightarrow> jval \<Rightarrow> bool" where
  \<comment> \<open>the request carries the secret of the hook itself, or the signature of its payload\<close>
  "carries_credentials hmac h items payload \<longleftrightarrow>
     map_of (lowered_headers items) ''x-ppms-integration-key'' = ho_secret_key h
     \<or> map_of (lowered_headers items) (py_lower (signature_header_of h))
        = Some (''sha256='' @ hmac (the (ho_secret_key h)) (canonical payload))"

lemma authenticated_iff: "authenticated hmac h (lowered_headers items) (canonical payload)
    \<longleftrightarrow> \<not> truthy (ho_secret_key h) \<or> carries_credentials hmac h items payload"
  by (auto simp: authenticated_def carries_credentials_def signature_value_def)


lemma sort_key_map_same: "k \<circ> h = k \<Longrightarrow> sort_key k (map h xs) = map h (sort_key k xs)"
  by (simp add: sort_key_map)

lemma canonical_idem [simp]: "canonical (canonical v) = canonical v"
proof (induction v rule: canonical.induct)
  case (2 d)
  let ?f = "\<lambda>(k, v). (k, canonical v)"
  have k: "fst \<circ> ?f = fst" by (auto simp: fun_eq_iff)
  from 2 have "map ?f (map ?f d) = map ?f d" by (auto simp: comp_def split: prod.split)
  then have "map ?f (sort_key fst (map ?f d)) = sort_key fst (map ?f d)"
    by (simp only: sort_key_map_same [OF k, symmetric])
  then show ?case by (simp add: sort_key_id_if_sorted)
qed (simp_all add: comp_def)

lemma map_of_replace: "map_of (map (\<lambda>(k', v'). (k', if k' = k then v else v')) d) x
    = (if x = k then map_option (\<lambda>_. v) (map_of d x) else map_of d x)"
  by (induction d) auto

lemma map_of_dict_put: "map_of (dict_put k v d) x = (if x = k then Some v else map_of d x)"
proof (cases "k \<in> fst ` set d")
  case True
  then obtain v' where "map_of d k = Some v'" by (metis map_of_eq_None_iff option.exhaust)
  with True show ?thesis by (simp add: dict_put_def map_of_replace)
next
  case False
  then have "map_of d k = None" by (simp add: map_of_eq_None_iff)
  with False show ?thesis by (auto simp: dict_put_def map_add_def split: option.split)
qed

lemma lowered_headers_append:
  "lowered_headers (items @ [(k, v)]) = dict_put (py_lower k) v (lowered_headers items)" "lowered_headers [] = []"
  by (simp_all add: lowered_headers_def)

lemma header_names_lower: "py_lower ''Content-Type'' = ''content-type''" "py_lower ''Authorization'' = ''authorization''"
  by code_simp+

lemma signature_reads_back:
  assumes "truthy (ho_secret_key h)"
  shows "map_of (lowered_headers (build_hook_headers hmac b64 h body)) (py_lower (signature_header_of h))
      = Some (signature_value hmac (the (ho_secret_key h)) body)"
proof -
  have put: "map_of (lowered_headers (dict_put k v b)) (py_lower k) = Some v"
    if "b = [(''Content-Type'', c)] \<or> b = [(''Content-Type'', c), (''Authorization'', a)]" for k v b a c
  proof (cases "k \<in> fst ` set b")
    case True
    with that show ?thesis
      by (auto simp: dict_put_def lowered_headers_def header_names_lower)
  next
    case False
    then have "dict_put k v b = b @ [(k, v)]" by (simp add: dict_put_def)
    then show ?thesis by (simp add: lowered_headers_append map_of_dict_put)
  qed
  show ?thesis using assms unfolding build_hook_headers_def Let_def
    by (auto simp: dict_put_def [of "''Authorization''"] intro!: put)
qed

lemma map_of_sorted:
  fixes xs :: "('a::linorder \<times> 'b) list" shows "map_of (sort_key fst xs) k = map_of xs k"
proof -
  have "map_of ys k = (case filter (\<lambda>x. fst x = k) ys of [] \<Rightarrow> None | x # _ \<Rightarrow> Some (snd x))" for ys :: "('a \<times> 'b) list"
    by (induction ys) auto
  then show ?thesis by (simp add: sort_key_stable)
qed

lemma canonical_event_type:
  assumes "canonical (JObj payload) = JObj members"
    and "\<And>v. map_of payload ''event_type'' = Some v \<Longrightarrow> falsy v \<or> (\<exists>s. v = JStr s)"
  shows "\<exists>s. inbound_event_type headers (JObj members) = Inr (JStr s)"
proof -
  have "falsy (canonical v)" if "falsy v" for v
    using that by (auto simp: falsy_def)
  moreover have "map_of members ''event_type'' = map_option canonical (map_of payload ''event_type'')"
    using assms(1) by (auto simp: map_of_sorted map_of_map)
  ultimately show ?thesis
    using assms(2) by (fastforce simp: inbound_event_type_def split: option.split)
qed

text \<open>
  C32. A request that a hook with a secret sends is accepted by the inbound webhook of every hook that has the same secret and
  signature header, whatever the payload, provided its \<open>event_type\<close> is a text, empty or absent (SQLite has no place in a text
  column for an object): both sides compute the signature from the same canonical text.
\<close>

theorem dispatched_request_accepted:
  assumes "truthy (ho_secret_key h)" "inbound_hook d i hook_name = Some h'" "ho_secret_key h' = ho_secret_key h"
    and "py_lower (signature_header_of h') = py_lower (signature_header_of h)" "\<And>v. map_of payload ''event_type'' = Some v \<Longrightarrow> falsy v \<or> (\<exists>s. v = JStr s)"
  shows "\<exists>event. fst (receive_online_inbound_webhook e hmac column_text d i hook_name
            (rr_headers (hook_request hmac b64 h payload)) (JObj (rr_body (hook_request hmac b64 h payload)))) = Inr event
          \<and> ie_payload_json event = Some (canonical (JObj payload))"
proof -
  let ?r = "hook_request hmac b64 h payload"
  obtain members where m: "canonical (JObj payload) = JObj members" by simp
  then have body: "rr_body ?r = members" "rr_headers ?r = build_hook_headers hmac b64 h (JObj members)"
    by (simp_all add: hook_request_def)
  have c: "canonical (JObj members) = JObj members" using m canonical_idem [of "JObj payload"] by simp
  have "carries_credentials hmac h' (rr_headers ?r) (JObj members)"
    using signature_reads_back [OF assms(1), of hmac b64 "JObj members"] assms(3,4)
    by (simp add: carries_credentials_def body(2) c signature_value_def del: canonical.simps)
  then have "authenticated hmac h' (lowered_headers (rr_headers ?r)) (JObj members)"
    using authenticated_iff [of hmac h' "rr_headers ?r" "JObj members"] by (simp add: c del: canonical.simps)
  moreover obtain t where "inbound_event_type (lowered_headers (rr_headers ?r)) (JObj members) = Inr (JStr t)"
    using canonical_event_type [OF m assms(5)] by blast
  moreover obtain s where "stored_text column_text (if falsy (JStr t) then JStr (ho_event_type h') else JStr t) = Inr s"
    by (cases "falsy (JStr t)") (simp_all add: stored_text_def)
  ultimately show ?thesis using assms(2)
    by (simp add: receive_online_inbound_webhook_def receive_inbound_webhook_def Let_def body(1) c
        webhook_event_def m del: canonical.simps)
qed


definition sample_hook :: online_api_hook where
  "sample_hook = \<lparr>ho_id = 1, ho_organization_id = 1, ho_name = ''erp'', ho_event_type = ''custom'', ho_target_url = ''https://erp'',
     ho_auth_type = ''hmac_sha256'', ho_auth_token = None, ho_secret_key = Some ''s3cret'', ho_signature_header = None,
     ho_is_active = True, ho_last_status = None, ho_last_detail = None, ho_last_triggered_at = None, ho_created_at = 0,
     ho_updated_at = 0\<rparr>"

definition sample_hooks :: db where
  "sample_hooks = set_hooks [sample_hook] sample_db"

lemma sample_inbound_hook: "inbound_hook sample_hooks 1 ''erp'' = Some sample_hook"
  by (simp add: inbound_hook_def hooks_of_def sample_hooks_def set_hooks_def sample_hook_def)


theorem dispatched_request_accepted_witness:
  "\<exists>event. fst (receive_online_inbound_webhook sample_env (\<lambda>secret body. ''00'') (\<lambda>v. Inr []) sample_hooks 1 ''erp''
      (rr_headers (hook_request (\<lambda>secret body. ''00'') (\<lambda>s. s) sample_hook [(''b'', JInt 2), (''a'', JInt 1)]))
      (JObj (rr_body (hook_request (\<lambda>secret body. ''00'') (\<lambda>s. s) sample_hook [(''b'', JInt 2), (''a'', JInt 1)])))) = Inr event
    \<and> ie_payload_json event = Some (canonical (JObj [(''b'', JInt 2), (''a'', JInt 1)]))"
  by (rule dispatched_request_accepted [OF _ sample_inbound_hook]) (simp_all add: sample_hook_def truthy_def)

end
