(* ===== verification/Exports.thy ===== *)
theory Exports
  imports Reports
begin

text \<open>
  \<open>app/services/report_exports.py\<close> and \<open>app/api/report_export.py\<close>: exports of the management reports. The text of an
  export is kept as the rows of cells that \<open>csv.writer\<close> prints; an instant in a cell is printed by \<open>str\<close>.
\<close>

section \<open>The scope of an export\<close>



section \<open>The data and its rows\<close>



definition jinstant :: "datetime option \<Rightarrow> jval" where
  "jinstant t = (case t of None \<Rightarrow> JNull | Some x \<Rightarrow> JText [At x])"


definition shift_members :: "shift_item \<Rightarrow> jobject" where
  "shift_members x = [(''shift_id'', JInt (si_shift_id x)), (''station_id'', JInt (si_station_id x)),
     (''user_id'', JInt (si_user_id x)), (''start_time'', JText [At (si_start_time x)]), (''end_time'', jinstant (si_end_time x)),
     (''initial_cash'', JFloat (si_initial_cash x)), (''expected_cash'', JFloat (si_expected_cash x)),
     (''actual_cash_collected'', JFloat (si_actual_cash_collected x)), (''difference'', JFloat (si_difference x))]"







definition item_rows :: "jobject list \<Rightarrow> jval list list" where
  "item_rows items =
     (case items of [] \<Rightarrow> [[JStr ''message''], [JStr ''No rows'']]
      | item # _ \<Rightarrow> map (JStr \<circ> fst) item # map (\<lambda>x. map (\<lambda>h. case map_of x h of None \<Rightarrow> JNull | Some v \<Rightarrow> v) (map fst item)) items)"


section \<open>Jobs\<close>


definition export_jobs :: "db \<Rightarrow> report_export_job list" where
  "export_jobs d = report_export_jobs (document_tables d)"







definition ensure_export_access :: "db \<Rightarrow> report_export_job \<Rightarrow> user \<Rightarrow> unit res" where
  "ensure_export_access d job u =
     (if role_of u = ''Admin'' then ok
      else if role_of u = ''HeadOffice'' then
        (if rj_organization_id job = station_organization d u then ok else http 403 ''Not authorized for this report export'')
      else if rj_station_id job \<noteq> u_station_id u then http 403 ''Not authorized for this report export'' else ok)"

section \<open>Routes (\<open>api/report_export.py\<close>)\<close>


definition list_exports :: "db \<Rightarrow> nat \<Rightarrow> nat \<Rightarrow> string option \<Rightarrow> user \<Rightarrow> report_export_job list res" where
  "list_exports d skip limit report_type u =
     check (require_permission u ''reports'' ''read'' ''You do not have permission to view report exports'')
     (Inr (page skip limit (descending rj_created_at (filter (\<lambda>j.
        (if is_admin u then True
         else if role_of u = ''HeadOffice'' then rj_organization_id j = station_organization d u
         else rj_station_id j = u_station_id u)
        \<and> (truthy report_type \<longrightarrow> report_type = Some (rj_report_type j))) (export_jobs d)))))"

definition get_export :: "db \<Rightarrow> int \<Rightarrow> user \<Rightarrow> report_export_job res" where
  "get_export d job_id u =
     check (require_permission u ''reports'' ''read'' ''You do not have permission to view report exports'')
     (case get_row rj_id (export_jobs d) job_id of None \<Rightarrow> http 404 ''Report export job not found''
      | Some job \<Rightarrow> check (ensure_export_access d job u) (Inr job))"

record export_response =
  es_content :: "jval list list"
  es_media_type :: string
  es_disposition :: fstring

definition download_export :: "env \<Rightarrow> db \<Rightarrow> int \<Rightarrow> user \<Rightarrow> (export_response \<times> db) res" where
  "download_export e d job_id u =
     check (require_permission u ''reports'' ''read'' ''You do not have permission to download report exports'')
     (case get_row rj_id (export_jobs d) job_id of None \<Rightarrow> http 404 ''Report export job not found''
      | Some job \<Rightarrow> check (ensure_export_access d job u)
        (Inr (\<lparr>es_content = rj_content_text job, es_media_type = rj_content_type job,
               es_disposition = [T ''attachment; filename=\"''] @ rj_file_name job @ [T ''\"'']\<rparr>,
            audit e u ''report_exports'' ''report_exports.download'' ''report_export_job'' (Some (rj_id job)) (rj_station_id job)
              [(''report_type'', JStr (rj_report_type job)), (''file_name'', JText (rj_file_name job))] d)))"

section \<open>What an export contains and who can read it\<close>

text \<open>A listing is printed as its header and one row of the values of every item.\<close>

lemma item_rows_rectangular:
  assumes "\<forall>x \<in> set items. map fst x = header" "items \<noteq> []" "distinct header"
  shows "item_rows items = map JStr header # map (map snd) items"
proof -
  have "map (\<lambda>h. case map_of x h of None \<Rightarrow> JNull | Some v \<Rightarrow> v) header = map snd x" if "x \<in> set items" for x
  proof -
    from assms(1) that have h: "map fst x = header" by blast
    with assms(3) have "distinct (map fst x)" by simp
    then have "map (\<lambda>h. case map_of x h of None \<Rightarrow> JNull | Some v \<Rightarrow> v) (map fst x) = map snd x"
      by (auto simp: map_of_is_SomeI)
    with h show ?thesis by simp
  qed
  with assms show ?thesis by (cases items) (auto simp: item_rows_def)
qed

lemma shift_export_rows:
  assumes "items \<noteq> []"
  shows "item_rows (map shift_members items) = map JStr (map fst (shift_members (hd items))) # map (map snd \<circ> shift_members) items"
  using item_rows_rectangular [of "map shift_members items" "map fst (shift_members (hd items))"] assms
  by (simp add: shift_members_def)






text \<open>An export of everything, made by an administrator, can be read by every user without a station who may read reports.\<close>

lemma global_export_readable:
  assumes "role_of v \<noteq> ''Admin''" "role_of v \<noteq> ''HeadOffice''" "u_station_id v = None" "rj_station_id job = None"
  shows "ensure_export_access d job v = ok"
  using assms by (simp add: ensure_export_access_def)



end
