(* ===== verification/Monitoring.thy ===== *)
theory Monitoring
  imports Reports
begin

text \<open>
  What users see of the audit trail and of their notifications: \<open>app/api/audit.py\<close> and \<open>app/api/notification.py\<close>, with
  the diagnostics of \<open>services/notifications.py\<close>.
\<close>

section \<open>The audit trail (\<open>api/audit.py\<close>)\<close>

definition log_in_organization :: "db \<Rightarrow> int option \<Rightarrow> audit_log \<Rightarrow> bool" where
  \<comment> \<open>the join on the station of the entry\<close>
  "log_in_organization d organization_id x =
     (case al_station_id x of None \<Rightarrow> False | Some s \<Rightarrow> station_in d s organization_id)"

definition log_matches :: "string option \<Rightarrow> string option \<Rightarrow> date option \<Rightarrow> date option \<Rightarrow> audit_log \<Rightarrow> bool" where
  "log_matches m action from_date to_date x \<longleftrightarrow> (truthy m \<longrightarrow> m = Some (al_module x))
     \<and> (truthy action \<longrightarrow> action = Some (al_action x)) \<and> in_window from_date to_date (al_created_at x)"

definition log_page :: "db \<Rightarrow> nat \<Rightarrow> nat \<Rightarrow> (audit_log \<Rightarrow> bool) \<Rightarrow> audit_log list" where
  "log_page d skip limit P = page skip limit (descending al_created_at (filter P (audit_logs (comms d))))"

definition list_audit_logs ::
  "db \<Rightarrow> nat \<Rightarrow> nat \<Rightarrow> int option \<Rightarrow> int option \<Rightarrow> string option \<Rightarrow> string option \<Rightarrow> date option \<Rightarrow> date option \<Rightarrow> user
     \<Rightarrow> audit_log list res" where
  "list_audit_logs d skip limit station_id organization_id m action from_date to_date u =
     check (require_permission u ''audit_logs'' ''read'' ''You do not have permission to view audit logs'')
     (let matches = log_matches m action from_date to_date;
          at_station = (\<lambda>s x. s = None \<or> al_station_id x = s) in
      if is_admin u then
        (case (station_id, organization_id) of
           (Some s, Some i) \<Rightarrow>
             if \<not> station_in d s (Some i) then http 403 ''Station does not belong to the requested organization''
             else Inr (log_page d skip limit (\<lambda>x. al_station_id x = Some s \<and> matches x))
         | (None, Some i) \<Rightarrow> Inr (log_page d skip limit (\<lambda>x. log_in_organization d (Some i) x \<and> matches x))
         | (s, None) \<Rightarrow> Inr (log_page d skip limit (\<lambda>x. at_station s x \<and> matches x)))
      else if is_head_office_user u then
        (case get_user_organization_id d u of None \<Rightarrow> http 403 ''Head office user must belong to an organization''
         | Some i \<Rightarrow>
           if (case station_id of None \<Rightarrow> False | Some s \<Rightarrow> \<not> station_in d s (Some i)) then http 403 ''Not authorized for this station''
           else Inr (log_page d skip limit (\<lambda>x. log_in_organization d (Some i) x \<and> at_station station_id x \<and> matches x)))
      else Inr (log_page d skip limit (\<lambda>x. at_station (u_station_id u) x \<and> matches x)))"

definition get_audit_log :: "db \<Rightarrow> int \<Rightarrow> user \<Rightarrow> audit_log res" where
  "get_audit_log d i u =
     check (require_permission u ''audit_logs'' ''read'' ''You do not have permission to view audit logs'')
     (case get_row al_id (audit_logs (comms d)) i of None \<Rightarrow> http 404 ''Audit log not found'' | Some x \<Rightarrow>
      if is_admin u then Inr x
      else if is_head_office_user u then
        (if log_in_organization d (get_user_organization_id d u) x then Inr x else http 403 ''Not authorized for this audit log'')
      else if al_station_id x \<noteq> u_station_id u then http 403 ''Not authorized for this audit log''
      else Inr x)"

section \<open>Notifications (\<open>api/notification.py\<close>)\<close>

definition may_read :: "user \<Rightarrow> string \<Rightarrow> 'a res \<Rightarrow> 'a res" where
  "may_read u detail = check (require_permission u ''notifications'' ''read'' detail)"

definition get_notifications :: "db \<Rightarrow> bool \<Rightarrow> string option \<Rightarrow> nat \<Rightarrow> nat \<Rightarrow> user \<Rightarrow> notification list res" where
  "get_notifications d unread_only event_type skip limit u =
     may_read u ''You do not have permission to view notifications''
       (Inr (list_notifications (comms d) u unread_only event_type limit skip))"

definition with_comms :: "db \<Rightarrow> 'a \<times> comms_db \<Rightarrow> 'a \<times> db" where
  "with_comms d r = (fst r, d\<lparr>comms := snd r\<rparr>)"

definition read_notification :: "env \<Rightarrow> db \<Rightarrow> int \<Rightarrow> user \<Rightarrow> (notification \<times> db) res" where
  "read_notification e d i u =
     may_read u ''You do not have permission to update notifications''
     (case get_row no_id (notifications (comms d)) i of None \<Rightarrow> http 404 ''Notification not found'' | Some n \<Rightarrow>
      (case mark_notification_read e n u (comms d) of Inl exc \<Rightarrow> Inl exc | Inr r \<Rightarrow> Inr (with_comms d r)))"

definition read_all_notifications :: "env \<Rightarrow> db \<Rightarrow> user \<Rightarrow> (nat \<times> db) res" where
  "read_all_notifications e d u =
     may_read u ''You do not have permission to update notifications'' (Inr (with_comms d (mark_all_notifications_read e u (comms d))))"

definition get_notification_summary :: "db \<Rightarrow> user \<Rightarrow> (nat \<times> nat) res" where
  "get_notification_summary d u =
     may_read u ''You do not have permission to view notifications'' (Inr (notification_summary (comms d) u))"

definition get_preferences :: "db \<Rightarrow> user \<Rightarrow> notification_preference list res" where
  "get_preferences d u =
     may_read u ''You do not have permission to view notification preferences'' (Inr (list_preferences (comms d) u))"

record preference_update =
  pf_event_type :: string
  pf_in_app_enabled :: bool
  pf_email_enabled :: bool
  pf_sms_enabled :: bool
  pf_whatsapp_enabled :: bool

definition put_preference :: "db \<Rightarrow> string \<Rightarrow> preference_update \<Rightarrow> user \<Rightarrow> (notification_preference \<times> db) res" where
  \<comment> \<open>the event type of the path counts, that of the body is not looked at\<close>
  "put_preference d event_type data u =
     may_read u ''You do not have permission to update notification preferences''
       (Inr (with_comms d (update_preference u event_type (pf_in_app_enabled data) (pf_email_enabled data)
          (pf_sms_enabled data) (pf_whatsapp_enabled data) (comms d))))"

definition get_notification_deliveries ::
  "db \<Rightarrow> string option \<Rightarrow> string option \<Rightarrow> nat \<Rightarrow> nat \<Rightarrow> user \<Rightarrow> notification_delivery list res" where
  "get_notification_deliveries d status channel skip limit u =
     may_read u ''You do not have permission to view notification deliveries''
       (Inr (list_deliveries_filtered (comms d) u limit skip status channel))"

definition get_notification_dead_letter_deliveries :: "db \<Rightarrow> nat \<Rightarrow> nat \<Rightarrow> user \<Rightarrow> notification_delivery list res" where
  "get_notification_dead_letter_deliveries d skip limit u =
     may_read u ''You do not have permission to view notification deliveries''
       (Inr (list_deliveries_filtered (comms d) u limit skip (Some ''failed'') None))"

record delivery_report =
  dd_total :: nat
  dd_dead_letter :: nat
  dd_by_status :: "(string \<times> nat) list"
  dd_by_channel :: "(string \<times> nat) list"

definition delivery_diagnostics :: "comms_db \<Rightarrow> user \<Rightarrow> delivery_report" where
  "delivery_diagnostics c u =
     (let xs = my_deliveries c u
      in \<lparr>dd_total = length xs, dd_dead_letter = length (filter (\<lambda>x. nd_status x = ''failed'') xs),
          dd_by_status = count_by nd_status xs [], dd_by_channel = count_by nd_channel xs []\<rparr>)"

definition get_notification_delivery_diagnostics :: "db \<Rightarrow> user \<Rightarrow> delivery_report res" where
  "get_notification_delivery_diagnostics d u =
     may_read u ''You do not have permission to view notification deliveries'' (Inr (delivery_diagnostics (comms d) u))"

definition process_due_notifications_endpoint :: "env \<Rightarrow> db \<Rightarrow> nat \<Rightarrow> user \<Rightarrow> (nat \<times> db) res" where
  "process_due_notifications_endpoint e d limit u =
     check (require_permission u ''delivery_jobs'' ''process'' ''You do not have permission to process delivery jobs'')
       (Inr (with_comms d (process_due_notification_deliveries e limit (comms d))))"

definition retry_notification_delivery :: "env \<Rightarrow> db \<Rightarrow> int \<Rightarrow> user \<Rightarrow> (notification_delivery \<times> db) res" where
  "retry_notification_delivery e d i u =
     may_read u ''You do not have permission to retry notification deliveries''
     (case get_row nd_id (notification_deliveries (comms d)) i of None \<Rightarrow> http 404 ''Notification delivery not found''
      | Some x \<Rightarrow> retry_delivery e x u d)"

section \<open>Listing and reading agree\<close>

lemma set_log_page:
  assumes "length (audit_logs (comms d)) \<le> limit"
  shows "set (log_page d 0 limit P) = {x \<in> set (audit_logs (comms d)). P x}"
proof -
  have "length (filter P (audit_logs (comms d))) \<le> limit" using assms by (meson length_filter_le le_trans)
  then show ?thesis by (simp add: log_page_def page_def descending_def)
qed

text \<open>
  For an administrator, a head office and everybody who has a station, the audit entries that can be read one by one are exactly
  those of the unfiltered list. A user without a station is listed every entry (of every organization), but may read
  only the entries without a station.
\<close>

lemma audit_list_get_agree:
  assumes "keyed al_id (audit_logs (comms d))" "length (audit_logs (comms d)) \<le> limit"
    and "is_admin u \<or> is_head_office_user u \<or> u_station_id u \<noteq> None"
    and "list_audit_logs d 0 limit None None None None None None u = Inr xs"
  shows "x \<in> set xs \<longleftrightarrow> get_audit_log d (al_id x) u = Inr x \<and> x \<in> set (audit_logs (comms d))"
proof -
  have m: "log_matches None None None None y" for y by (simp add: log_matches_def truthy_def in_window_def)
  have g: "get_row al_id (audit_logs (comms d)) (al_id x) = Some x" if "x \<in> set (audit_logs (comms d))"
    using table.get_complete [OF assms(1) that] .
  note page = set_log_page [OF assms(2)]
  consider "is_admin u" | "\<not> is_admin u" "is_head_office_user u" | "\<not> is_admin u" "\<not> is_head_office_user u" by blast
  then show ?thesis
  proof cases
    case 1
    with assms(4) m page g show ?thesis by (auto simp: list_audit_logs_def get_audit_log_def res_simps Let_def)
  next
    case 2
    with assms(4) obtain i where "get_user_organization_id d u = Some i" "xs = log_page d 0 limit (log_in_organization d (Some i))"
      by (auto simp: list_audit_logs_def res_simps Let_def m)
    with 2 assms(4) page g show ?thesis by (auto simp: list_audit_logs_def get_audit_log_def res_simps)
  next
    case 3
    with assms(3) obtain s where "u_station_id u = Some s" by blast
    with 3 assms(4) m page g show ?thesis by (auto simp: list_audit_logs_def get_audit_log_def res_simps Let_def)
  qed
qed

lemma stationless_audit_list:
  assumes "\<not> is_admin u" "\<not> is_head_office_user u" "u_station_id u = None" "length (audit_logs (comms d)) \<le> limit"
    and "list_audit_logs d 0 limit s i None None None None u = Inr xs"
  shows "set xs = set (audit_logs (comms d))"
proof -
  have "xs = log_page d 0 limit (\<lambda>x. True)"
    using assms(1-3,5) by (auto simp: list_audit_logs_def res_simps log_matches_def [abs_def] truthy_def in_window_def)
  then show ?thesis by (simp add: set_log_page [OF assms(4)])
qed

end
