(* ===== verification/Maintenance.thy ===== *)
theory Maintenance
  imports Samples
begin

text \<open>
  \<open>app/services/maintenance.py\<close> and \<open>app/api/maintenance.py\<close>: backups of the SQLite database file, their retention, and
  the restore with its safety copy. The state is the file system: a path is the list of its components, a file has its
  bytes and its modification time. There are no symbolic links. \<open>PRAGMA integrity_check\<close> is the parameter
  \<open>integrity\<close> on the bytes of a file: the first line it answers, nothing when it answers no row, and no value at all when
  SQLite refuses the file.
\<close>

section \<open>Paths and files\<close>

type_synonym path = "string list"

record stored_file =
  sf_content :: string
  sf_mtime :: datetime

datatype node = File stored_file | Directory

type_synonym disk = "(path \<times> node) list"

fun split_path :: "string \<Rightarrow> string list" where
  "split_path [] = [[]]"
| "split_path (c # s) =
     (if c = CHR ''/'' then [] # split_path s
      else case split_path s of [] \<Rightarrow> [[c]] | w # ws \<Rightarrow> (c # w) # ws)"

fun walk :: "path \<Rightarrow> string list \<Rightarrow> path" where
  "walk p [] = p"
| "walk p (w # ws) =
     (if w = [] \<or> w = ''.'' then walk p ws else if w = ''..'' then walk (butlast p) ws else walk (p @ [w]) ws)"

definition resolve_path :: "path \<Rightarrow> string \<Rightarrow> path" where
  \<comment> \<open>\<open>(base / text).resolve()\<close>: an absolute text replaces the base\<close>
  "resolve_path base s = walk (if py_startswith s ''/'' then [] else base) (split_path s)"

definition path_text :: "path \<Rightarrow> string" where
  "path_text p = (if p = [] then ''/'' else concat (map (\<lambda>w. CHR ''/'' # w) p))"

definition file_at :: "disk \<Rightarrow> path \<Rightarrow> stored_file option" where
  "file_at disk p = (case map_of disk p of Some (File f) \<Rightarrow> Some f | _ \<Rightarrow> None)"

definition exists_at :: "disk \<Rightarrow> path \<Rightarrow> bool" where
  "exists_at disk p \<longleftrightarrow> p = [] \<or> map_of disk p \<noteq> None"

definition is_directory :: "disk \<Rightarrow> path \<Rightarrow> bool" where
  "is_directory disk p \<longleftrightarrow> p = [] \<or> map_of disk p = Some Directory"

definition write_node :: "path \<Rightarrow> node \<Rightarrow> disk \<Rightarrow> disk" where
  "write_node p n disk = (p, n) # filter (\<lambda>x. fst x \<noteq> p) disk"

definition unlink :: "path \<Rightarrow> disk \<Rightarrow> disk" where
  "unlink p disk = filter (\<lambda>x. fst x \<noteq> p) disk"

fun make_directories :: "path list \<Rightarrow> disk \<Rightarrow> disk" where
  "make_directories [] disk = disk"
| "make_directories (p # ps) disk =
     make_directories ps (if exists_at disk p then disk else write_node p Directory disk)"

definition path_prefixes :: "path \<Rightarrow> path list" where
  \<comment> \<open>the path and its parents, below the root\<close>
  "path_prefixes p = map (\<lambda>n. take (n + 1) p) [0..<length p]"

definition mkdir :: "path \<Rightarrow> disk \<Rightarrow> disk res" where
  \<comment> \<open>\<open>path.mkdir(parents=True, exist_ok=True)\<close>\<close>
  "mkdir p disk =
     (if find (\<lambda>q. file_at disk q \<noteq> None) (path_prefixes p) \<noteq> None then Inl OSError
      else Inr (make_directories (path_prefixes p) disk))"

definition copy2 :: "path \<Rightarrow> path \<Rightarrow> disk \<Rightarrow> disk res" where
  \<comment> \<open>\<open>shutil.copy2\<close>: bytes and modification time, into the target when that is a directory\<close>
  "copy2 source target disk =
     (let target' = (if is_directory disk target then target @ [last source] else target) in
      case file_at disk source of None \<Rightarrow> Inl OSError
      | Some f \<Rightarrow> if target' = source \<or> is_directory disk target' then Inl OSError
                  else Inr (write_node target' (File f) disk))"

definition file_names :: "path \<Rightarrow> disk \<Rightarrow> string list" where
  \<comment> \<open>\<open>[path for path in sorted(directory.glob("*"), reverse=True) if path.is_file()]\<close>, by name\<close>
  "file_names directory disk = rev (sort (map (\<lambda>x. last (fst x))
     (filter (\<lambda>x. fst x \<noteq> [] \<and> butlast (fst x) = directory \<and> snd x \<noteq> Directory) disk)))"

definition name_of :: "path \<Rightarrow> string" where
  "name_of p = (if p = [] then [] else last p)"

definition suffix_of :: "string \<Rightarrow> string" where
  \<comment> \<open>\<open>path.suffix\<close>: from the last dot, unless it is the first or the last character\<close>
  "suffix_of name =
     (let extension = takeWhile (\<lambda>c. c \<noteq> CHR ''.'') (rev name) in
      if extension = [] \<or> length name \<le> length extension + 1 then [] else CHR ''.'' # rev extension)"

definition stem_of :: "string \<Rightarrow> string" where
  "stem_of name = take (length name - length (suffix_of name)) name"

section \<open>Calendar\<close>

definition civil_date :: "date \<Rightarrow> int \<times> int \<times> int" where
  \<comment> \<open>year, month and day of a day counted from 1970-01-01 in the Gregorian calendar\<close>
  "civil_date day =
     (let z = day + 719468; era = z div 146097; doe = z mod 146097;
          yoe = (doe - doe div 1460 + doe div 36524 - doe div 146096) div 365;
          doy = doe - (365 * yoe + yoe div 4 - yoe div 100);
          mp = (5 * doy + 2) div 153;
          m = (if mp < 10 then mp + 3 else mp - 9)
      in (yoe + era * 400 + (if m \<le> 2 then 1 else 0), m, doy - (153 * mp + 2) div 5 + 1))"

definition timestamp :: "datetime \<Rightarrow> string" where
  \<comment> \<open>\<open>strftime("%Y%m%d%H%M%S")\<close>\<close>
  "timestamp t =
     (let (y, m, day) = civil_date (date_of t); s = (t div 1000000) mod 86400
      in str_int y @ concat (map (zfill 2 \<circ> str_int) [m, day, s div 3600, s div 60 mod 60, s mod 60]))"

section \<open>The service (\<open>services/maintenance.py\<close>)\<close>

record maintenance_config =
  mc_cwd :: path
  mc_database_url :: string
  mc_backup_directory :: string
  mc_backup_retention_count :: int
  mc_delivery_worker_enabled :: bool

definition database_path :: "maintenance_config \<Rightarrow> path" where
  "database_path cfg = resolve_path (mc_cwd cfg) (drop 10 (mc_database_url cfg))"

definition ensure_sqlite_database :: "maintenance_config \<Rightarrow> disk \<Rightarrow> path res" where
  "ensure_sqlite_database cfg disk =
     (if \<not> py_startswith (mc_database_url cfg) ''sqlite:///''
      then http 400 ''Maintenance helpers currently support SQLite deployments only''
      else if \<not> exists_at disk (database_path cfg) then http 404 ''Database file not found''
      else Inr (database_path cfg))"

definition backup_path_of :: "maintenance_config \<Rightarrow> path" where
  "backup_path_of cfg = resolve_path (mc_cwd cfg) (mc_backup_directory cfg)"

definition resolve_backup_dir :: "maintenance_config \<Rightarrow> disk \<Rightarrow> disk res" where
  "resolve_backup_dir cfg disk = mkdir (backup_path_of cfg) disk"

record backup_item =
  bi_name :: string
  bi_path :: string
  bi_size_bytes :: nat
  bi_modified_at :: datetime

definition build_backup_item :: "path \<Rightarrow> stored_file \<Rightarrow> backup_item" where
  "build_backup_item p f = \<lparr>bi_name = name_of p, bi_path = path_text p, bi_size_bytes = length (sf_content f),
     bi_modified_at = sf_mtime f\<rparr>"

definition backup_items :: "path \<Rightarrow> disk \<Rightarrow> backup_item list" where
  "backup_items directory disk =
     List.map_filter (\<lambda>n. map_option (build_backup_item (directory @ [n])) (file_at disk (directory @ [n]))) (file_names directory disk)"

definition prune_old_backups :: "int \<Rightarrow> path \<Rightarrow> disk \<Rightarrow> nat \<times> disk" where
  "prune_old_backups retention directory disk =
     (if retention \<le> 0 then (0, disk)
      else let old = drop (nat retention) (file_names directory disk)
           in (length old, fold (\<lambda>n. unlink (directory @ [n])) old disk))"

type_synonym integrity_check = "string \<Rightarrow> string option option"

record integrity_report =
  ir_status :: string
  ir_database_path :: string
  ir_detail :: string
  ir_checked_at :: datetime

definition run_database_integrity_check ::
  "integrity_check \<Rightarrow> maintenance_config \<Rightarrow> env \<Rightarrow> disk \<Rightarrow> integrity_report res" where
  "run_database_integrity_check integrity cfg e disk =
     (case ensure_sqlite_database cfg disk of Inl exc \<Rightarrow> Inl exc | Inr p \<Rightarrow>
      case Option.bind (file_at disk p) (integrity \<circ> sf_content) of None \<Rightarrow> Inl DatabaseError
      | Some answer \<Rightarrow>
        Inr \<lparr>ir_status = (if answer = Some ''ok'' then ''ok'' else ''failed''), ir_database_path = path_text p,
             ir_detail = (case answer of None \<Rightarrow> ''No integrity result returned'' | Some s \<Rightarrow> s), ir_checked_at = now e\<rparr>)"

record system_snapshot =
  sy_environment :: string
  sy_database_url :: string
  sy_database_path :: string
  sy_database_exists :: bool
  sy_database_size_bytes :: nat
  sy_delivery_worker_enabled :: bool
  sy_backup_directory :: string
  sy_backup_retention_count :: int
  sy_backup_count :: nat
  sy_latest_backup :: "backup_item option"
  sy_database_integrity :: integrity_report
  sy_captured_at :: datetime

definition get_system_snapshot ::
  "integrity_check \<Rightarrow> maintenance_config \<Rightarrow> env \<Rightarrow> disk \<Rightarrow> system_snapshot res \<times> disk" where
  "get_system_snapshot integrity cfg e disk =
     (case ensure_sqlite_database cfg disk of Inl exc \<Rightarrow> (Inl exc, disk) | Inr p \<Rightarrow>
      case resolve_backup_dir cfg disk of Inl exc \<Rightarrow> (Inl exc, disk) | Inr disk1 \<Rightarrow>
      (let directory = backup_path_of cfg; items = backup_items directory disk1 in
       (case run_database_integrity_check integrity cfg e disk1 of Inl exc \<Rightarrow> Inl exc
        | Inr report \<Rightarrow> Inr \<lparr>sy_environment = app_env e, sy_database_url = mc_database_url cfg, sy_database_path = path_text p,
            sy_database_exists = exists_at disk1 p,
            sy_database_size_bytes = (case file_at disk1 p of None \<Rightarrow> 0 | Some f \<Rightarrow> length (sf_content f)),
            sy_delivery_worker_enabled = mc_delivery_worker_enabled cfg, sy_backup_directory = path_text directory,
            sy_backup_retention_count = mc_backup_retention_count cfg, sy_backup_count = length (file_names directory disk1),
            sy_latest_backup = (case items of [] \<Rightarrow> None | x # _ \<Rightarrow> Some x), sy_database_integrity = report,
            sy_captured_at = now e\<rparr>,
        disk1)))"

record backup_report =
  bk_backup_path :: string
  bk_created_at :: datetime
  bk_retention_pruned :: nat

definition backup_name :: "maintenance_config \<Rightarrow> env \<Rightarrow> string" where
  "backup_name cfg e =
     (let name = name_of (database_path cfg) in stem_of name @ ''_'' @ timestamp (now e) @ suffix_of name)"

definition create_local_backup :: "maintenance_config \<Rightarrow> env \<Rightarrow> disk \<Rightarrow> backup_report res \<times> disk" where
  "create_local_backup cfg e disk =
     (case ensure_sqlite_database cfg disk of Inl exc \<Rightarrow> (Inl exc, disk) | Inr source \<Rightarrow>
      case resolve_backup_dir cfg disk of Inl exc \<Rightarrow> (Inl exc, disk) | Inr disk1 \<Rightarrow>
      (let directory = backup_path_of cfg; target = directory @ [backup_name cfg e] in
       case copy2 source target disk1 of Inl exc \<Rightarrow> (Inl exc, disk1)
       | Inr disk2 \<Rightarrow>
         (let (removed, disk3) = prune_old_backups (mc_backup_retention_count cfg) directory disk2
          in (Inr \<lparr>bk_backup_path = path_text target, bk_created_at = now e, bk_retention_pruned = removed\<rparr>, disk3))))"

definition list_local_backups :: "maintenance_config \<Rightarrow> disk \<Rightarrow> backup_item list res \<times> disk" where
  "list_local_backups cfg disk =
     (case resolve_backup_dir cfg disk of Inl exc \<Rightarrow> (Inl exc, disk)
      | Inr disk1 \<Rightarrow> (Inr (backup_items (backup_path_of cfg) disk1), disk1))"

record restore_report =
  rr_restored_from :: string
  rr_database_path :: string
  rr_safety_backup_path :: string
  rr_restored_at :: datetime

definition safety_path :: "path \<Rightarrow> path" where
  \<comment> \<open>\<open>source_path.with_suffix(f"{source_path.suffix}.pre_restore")\<close>\<close>
  "safety_path source = butlast source @ [name_of source @ ''.pre_restore'']"

definition restore_local_backup ::
  "integrity_check \<Rightarrow> maintenance_config \<Rightarrow> env \<Rightarrow> string \<Rightarrow> disk \<Rightarrow> restore_report res \<times> disk" where
  "restore_local_backup integrity cfg e name disk =
     (case ensure_sqlite_database cfg disk of Inl exc \<Rightarrow> (Inl exc, disk) | Inr source \<Rightarrow>
      case resolve_backup_dir cfg disk of Inl exc \<Rightarrow> (Inl exc, disk) | Inr disk1 \<Rightarrow>
      (let backup = resolve_path (backup_path_of cfg) name in
       if butlast backup \<noteq> backup_path_of cfg \<or> file_at disk1 backup = None then (http 404 ''Backup file not found'', disk1)
       else case copy2 source (safety_path source) disk1 of Inl exc \<Rightarrow> (Inl exc, disk1)
       | Inr disk2 \<Rightarrow>
         (case copy2 backup source disk2 of Inl exc \<Rightarrow> (Inl exc, disk2)
          | Inr disk3 \<Rightarrow>
            (case run_database_integrity_check integrity cfg e disk3 of Inl exc \<Rightarrow> (Inl exc, disk3)
             | Inr report \<Rightarrow>
               if ir_status report \<noteq> ''ok'' then
                 (case copy2 (safety_path source) source disk3 of Inl exc \<Rightarrow> (Inl exc, disk3)
                  | Inr disk4 \<Rightarrow> (http 500 ''Restore failed integrity check and was rolled back'', disk4))
               else (Inr \<lparr>rr_restored_from = name, rr_database_path = path_text source,
                       rr_safety_backup_path = path_text (safety_path source), rr_restored_at = now e\<rparr>, disk3)))))"

section \<open>Routes (\<open>api/maintenance.py\<close>)\<close>

definition maintenance_route :: "user \<Rightarrow> string \<Rightarrow> string \<Rightarrow> (disk \<Rightarrow> 'a res \<times> disk) \<Rightarrow> disk \<Rightarrow> 'a res \<times> disk" where
  "maintenance_route u action detail run disk =
     (case require_permission u ''maintenance'' action detail of Inl exc \<Rightarrow> (Inl exc, disk) | Inr _ \<Rightarrow> run disk)"

definition get_maintenance_snapshot ::
  "integrity_check \<Rightarrow> maintenance_config \<Rightarrow> env \<Rightarrow> user \<Rightarrow> disk \<Rightarrow> system_snapshot res \<times> disk" where
  "get_maintenance_snapshot integrity cfg e u =
     maintenance_route u ''read'' ''You do not have permission to view maintenance data'' (get_system_snapshot integrity cfg e)"

definition trigger_local_backup :: "maintenance_config \<Rightarrow> env \<Rightarrow> user \<Rightarrow> disk \<Rightarrow> backup_report res \<times> disk" where
  "trigger_local_backup cfg e u =
     maintenance_route u ''execute'' ''You do not have permission to run maintenance actions'' (create_local_backup cfg e)"

definition get_local_backups :: "maintenance_config \<Rightarrow> user \<Rightarrow> disk \<Rightarrow> backup_item list res \<times> disk" where
  "get_local_backups cfg u =
     maintenance_route u ''read'' ''You do not have permission to view maintenance data'' (list_local_backups cfg)"

definition get_database_integrity ::
  "integrity_check \<Rightarrow> maintenance_config \<Rightarrow> env \<Rightarrow> user \<Rightarrow> disk \<Rightarrow> integrity_report res \<times> disk" where
  "get_database_integrity integrity cfg e u =
     maintenance_route u ''read'' ''You do not have permission to view maintenance data''
       (\<lambda>disk. (run_database_integrity_check integrity cfg e disk, disk))"

definition restore_backup ::
  "integrity_check \<Rightarrow> maintenance_config \<Rightarrow> env \<Rightarrow> string \<Rightarrow> user \<Rightarrow> disk \<Rightarrow> restore_report res \<times> disk" where
  "restore_backup integrity cfg e name u =
     maintenance_route u ''execute'' ''You do not have permission to run maintenance actions'' (restore_local_backup integrity cfg e name)"

section \<open>Files that are written and left alone\<close>

lemma file_at_write [simp]:
  "file_at (write_node p (File f) disk) q = (if q = p then Some f else file_at disk q)"
  "file_at (write_node p Directory disk) q = (if q = p then None else file_at disk q)"
  "file_at (unlink p disk) q = (if q = p then None else file_at disk q)"
proof -
  have m: "map_of (filter (\<lambda>x. fst x \<noteq> p) disk) q = (if q = p then None else map_of disk q)"
    by (induction disk) auto
  show "file_at (write_node p (File f) disk) q = (if q = p then Some f else file_at disk q)"
    "file_at (write_node p Directory disk) q = (if q = p then None else file_at disk q)"
    "file_at (unlink p disk) q = (if q = p then None else file_at disk q)"
    by (simp_all add: file_at_def write_node_def unlink_def m)
qed

lemma make_directories_files: "file_at (make_directories ps disk) = file_at disk"
proof (induction ps disk rule: make_directories.induct)
  case (2 p ps disk)
  have "file_at disk p = None" if "\<not> exists_at disk p" using that by (simp add: exists_at_def file_at_def)
  then have "file_at (write_node p Directory disk) = file_at disk" if "\<not> exists_at disk p" using that by (intro ext) simp
  with 2 show ?case by simp
qed simp

lemma mkdir_files: "mkdir p disk = Inr disk' \<Longrightarrow> file_at disk' = file_at disk"
  by (auto simp: mkdir_def Let_def make_directories_files split: if_splits)

lemma copy2_Inr:
  assumes "copy2 source target disk = Inr disk'"
  obtains f t where "file_at disk source = Some f" "t = (if is_directory disk target then target @ [last source] else target)"
    "t \<noteq> source" "disk' = write_node t (File f) disk"
  using assms by (auto simp: copy2_def Let_def split: option.splits if_splits)

lemma file_not_directory: "file_at disk p = Some f \<Longrightarrow> p \<noteq> [] \<Longrightarrow> \<not> is_directory disk p"
  by (auto simp: file_at_def is_directory_def)

lemma safety_path_neq: "safety_path p \<noteq> p" "butlast (safety_path p) = butlast p" "safety_path p \<noteq> []"
proof -
  show "butlast (safety_path p) = butlast p" "safety_path p \<noteq> []" by (simp_all add: safety_path_def)
  show "safety_path p \<noteq> p"
  proof
    assume e: "safety_path p = p"
    then have "p \<noteq> []" by (auto simp: safety_path_def)
    have "last (safety_path p) = name_of p @ ''.pre_restore''" by (simp add: safety_path_def)
    with e \<open>p \<noteq> []\<close> show False by (simp add: name_of_def)
  qed
qed

section \<open>A restore is complete or undone\<close>

lemma restore_steps:
  assumes "mkdir (backup_path_of cfg) disk = Inr disk1" "ensure_sqlite_database cfg disk = Inr source" "source = database_path cfg"
    and "file_at disk source = Some f" "butlast source \<noteq> backup_path_of cfg" "source \<noteq> []" "\<not> is_directory disk1 (safety_path source)"
    and "backup = resolve_path (backup_path_of cfg) name" "file_at disk backup = Some b" "butlast backup = backup_path_of cfg"
  defines "disk3 \<equiv> write_node source (File b) (write_node (safety_path source) (File f) disk1)"
  shows "restore_local_backup integrity cfg e name disk
      = (case run_database_integrity_check integrity cfg e disk3 of Inl exc \<Rightarrow> (Inl exc, disk3)
         | Inr report \<Rightarrow>
           if ir_status report \<noteq> ''ok''
           then (http 500 ''Restore failed integrity check and was rolled back'', write_node source (File f) disk3)
           else (Inr \<lparr>rr_restored_from = name, rr_database_path = path_text source,
                   rr_safety_backup_path = path_text (safety_path source), rr_restored_at = now e\<rparr>, disk3))"
    and "ensure_sqlite_database cfg disk3 = Inr source"
proof -
  have F: "file_at disk1 = file_at disk" using assms(1) by (rule mkdir_files)
  have ne: "safety_path source \<noteq> source" "backup \<noteq> source" "backup \<noteq> safety_path source"
    using safety_path_neq(1,2) [of source] assms(5,10) by auto
  let ?disk2 = "write_node (safety_path source) (File f) disk1"
  have "copy2 source (safety_path source) disk1 = Inr ?disk2"
    using assms(4,7) F ne(1) by (simp add: copy2_def)
  moreover have "copy2 backup source ?disk2 = Inr disk3"
    using assms(4,6,9) F ne by (simp add: copy2_def Let_def file_not_directory [where f = f] disk3_def)
  moreover have "copy2 (safety_path source) source disk3 = Inr (write_node source (File f) disk3)"
    using assms(6) ne(1) by (simp add: copy2_def Let_def file_not_directory [where f = b] disk3_def)
  ultimately show "restore_local_backup integrity cfg e name disk
      = (case run_database_integrity_check integrity cfg e disk3 of Inl exc \<Rightarrow> (Inl exc, disk3)
         | Inr report \<Rightarrow>
           if ir_status report \<noteq> ''ok''
           then (http 500 ''Restore failed integrity check and was rolled back'', write_node source (File f) disk3)
           else (Inr \<lparr>rr_restored_from = name, rr_database_path = path_text source,
                   rr_safety_backup_path = path_text (safety_path source), rr_restored_at = now e\<rparr>, disk3))"
    using assms(1,2,8-10) F by (simp add: restore_local_backup_def resolve_backup_dir_def split: sum.splits)
  show "ensure_sqlite_database cfg disk3 = Inr source"
    using assms(2,3) by (auto simp: ensure_sqlite_database_def exists_at_def write_node_def disk3_def split: if_splits)
qed

text \<open>
  C34. When the database and the backups are in different directories, and nothing but a file is at the place of the safety
  copy, a restore either installs a file that is directly in the backup directory and passes the integrity check, keeping
  the replaced database as the safety copy, or fails and leaves the database as it was; the only failure that leaves the
  new file in place is one of SQLite refusing the file, which the code does not catch, and then the safety copy has the
  old database. In every case each other file, the backups included, keeps its content.
\<close>

theorem restore_complete_or_undone:
  assumes "restore_local_backup integrity cfg e name disk = (r, disk')" "file_at disk (database_path cfg) = Some f"
    and "butlast (database_path cfg) \<noteq> backup_path_of cfg" "database_path cfg \<noteq> []"
    and "\<And>disk1. mkdir (backup_path_of cfg) disk = Inr disk1 \<Longrightarrow> \<not> is_directory disk1 (safety_path (database_path cfg))"
  shows "(case r of
      Inr _ \<Rightarrow> (\<exists>b. file_at disk (resolve_path (backup_path_of cfg) name) = Some b
          \<and> butlast (resolve_path (backup_path_of cfg) name) = backup_path_of cfg \<and> integrity (sf_content b) = Some (Some ''ok'')
          \<and> file_at disk' (database_path cfg) = Some b \<and> file_at disk' (safety_path (database_path cfg)) = Some f)
    | Inl exc \<Rightarrow> file_at disk' (database_path cfg) = Some f
        \<or> exc = DatabaseError \<and> (\<exists>b. file_at disk (resolve_path (backup_path_of cfg) name) = Some b \<and> integrity (sf_content b) = None
          \<and> file_at disk' (database_path cfg) = Some b \<and> file_at disk' (safety_path (database_path cfg)) = Some f))
    \<and> (\<forall>p. p \<noteq> database_path cfg \<longrightarrow> p \<noteq> safety_path (database_path cfg) \<longrightarrow> file_at disk' p = file_at disk p)"
proof -
  let ?source = "database_path cfg" and ?dir = "backup_path_of cfg" and ?safe = "safety_path (database_path cfg)"
  let ?backup = "resolve_path ?dir name"
  consider exc where "r = Inl exc" "disk' = disk" | disk1 where "mkdir ?dir disk = Inr disk1" "ensure_sqlite_database cfg disk = Inr ?source"
    using assms(1) by (auto simp: restore_local_backup_def ensure_sqlite_database_def resolve_backup_dir_def split: if_splits sum.splits)
  then show ?thesis
  proof cases
    case 1
    with assms(2) show ?thesis by simp
  next
    case (2 disk1)
    have F1: "file_at disk1 = file_at disk" using 2(1) by (rule mkdir_files)
    show ?thesis
    proof (cases "butlast ?backup \<noteq> ?dir \<or> file_at disk1 ?backup = None")
      case True
      with assms(1,2) 2 F1 show ?thesis by (auto simp: restore_local_backup_def resolve_backup_dir_def Let_def)
    next
      case False
      then obtain b where b: "file_at disk ?backup = Some b" "butlast ?backup = ?dir" using F1 by auto
      note R = restore_steps [OF 2 refl assms(2-4) assms(5) [OF 2(1)] refl b]
      let ?disk3 = "write_node ?source (File b) (write_node ?safe (File f) disk1)"
      have "disk' = ?disk3 \<or> disk' = write_node ?source (File f) ?disk3"
        using R(1) assms(1) by (auto split: sum.splits if_splits)
      then have others: "\<forall>p. p \<noteq> ?source \<longrightarrow> p \<noteq> ?safe \<longrightarrow> file_at disk' p = file_at disk p"
        using F1 by auto
      show ?thesis
      proof (cases "integrity (sf_content b)")
        case None
        with R assms(1) b safety_path_neq(1) [of ?source] show ?thesis
          by (intro conjI others) (auto simp: run_database_integrity_check_def)
      next
        case (Some answer)
        with R assms(1) b safety_path_neq(1) [of ?source] show ?thesis
          by (intro conjI others, cases "answer = Some ''ok''") (auto simp: run_database_integrity_check_def)
      qed
    qed
  qed
qed

section \<open>Retention\<close>

lemma fold_unlink: "fold (\<lambda>n. unlink (directory @ [n])) old disk = filter (\<lambda>x. \<forall>n \<in> set old. fst x \<noteq> directory @ [n]) disk"
  by (induction old arbitrary: disk) (auto simp: unlink_def intro!: filter_cong)

lemma file_names_unlink:
  "file_names directory (fold (\<lambda>n. unlink (directory @ [n])) old disk) = filter (\<lambda>n. n \<notin> set old) (file_names directory disk)"
proof -
  let ?P = "\<lambda>x. fst x \<noteq> [] \<and> butlast (fst x) = directory \<and> snd x \<noteq> Directory"
  have "p = directory @ [n] \<longleftrightarrow> n = last p" if "p \<noteq> []" "butlast p = directory" for p n
    using that by (metis append_butlast_last_id last_snoc)
  then have "(\<forall>n \<in> set old. p \<noteq> directory @ [n]) \<longleftrightarrow> last p \<notin> set old" if "p \<noteq> []" "butlast p = directory" for p
    using that by auto
  then have "filter ?P (fold (\<lambda>n. unlink (directory @ [n])) old disk) = filter (\<lambda>x. last (fst x) \<notin> set old) (filter ?P disk)"
    by (auto simp: fold_unlink intro!: filter_cong)
  then show ?thesis by (simp add: file_names_def rev_filter [symmetric] filter_sort filter_map comp_def)
qed

lemma distinct_file_names:
  assumes "distinct (map fst disk)" shows "distinct (file_names directory disk)"
proof -
  let ?P = "\<lambda>x. fst x \<noteq> [] \<and> butlast (fst x) = directory \<and> snd x \<noteq> Directory"
  have "distinct (map fst (filter ?P disk))" using assms by (simp add: distinct_map_filter)
  moreover have "inj_on last (set (map fst (filter ?P disk)))"
    by (intro inj_onI) (auto, metis append_butlast_last_id fst_conv)
  ultimately have "distinct (map last (map fst (filter ?P disk)))" by (simp only: distinct_map)
  then show ?thesis by (simp add: file_names_def comp_def)
qed

lemma filter_not_dropped:
  assumes "distinct ys" shows "filter (\<lambda>n. n \<notin> set (drop k ys)) ys = take k ys"
proof -
  have "filter (\<lambda>n. n \<notin> set (drop k ys)) (take k ys) = take k ys"
    using set_take_disj_set_drop_if_distinct [OF assms, of k k] by (auto simp: filter_id_conv)
  moreover have "filter (\<lambda>n. n \<notin> set (drop k ys)) (drop k ys) = []" by (simp add: filter_empty_conv)
  ultimately have "filter (\<lambda>n. n \<notin> set (drop k ys)) (take k ys @ drop k ys) = take k ys" by (simp only: filter_append append_Nil2)
  then show ?thesis by simp
qed

lemma pruned_names:
  assumes "distinct (map fst disk)" "0 < retention"
  shows "file_names directory (snd (prune_old_backups retention directory disk)) = take (nat retention) (file_names directory disk)"
  using assms by (simp add: prune_old_backups_def Let_def file_names_unlink filter_not_dropped distinct_file_names)

text \<open>
  After a backup no more than the configured number of files is in the backup directory, and every file that was pruned has a smaller
  name than those that are kept, that is, an earlier time stamp for backups of the same database.
\<close>

lemma backup_retention:
  assumes "distinct (map fst disk)" "0 < retention" "n \<in> set (file_names directory disk)" "prune_old_backups retention directory disk = (k, disk')"
  shows "length (file_names directory disk') \<le> nat retention"
    and "n \<notin> set (file_names directory disk') \<Longrightarrow> m \<in> set (file_names directory disk') \<Longrightarrow> n \<le> m"
proof -
  have F: "file_names directory disk' = take (nat retention) (file_names directory disk)"
    using pruned_names [OF assms(1,2), of directory] assms(4) by simp
  show "length (file_names directory disk') \<le> nat retention" by (simp add: F)
  assume n: "n \<notin> set (file_names directory disk')" and m: "m \<in> set (file_names directory disk')"
  have "sorted_wrt (\<lambda>x y. y \<le> x) (file_names directory disk)" by (simp add: file_names_def sorted_wrt_rev)
  then have "sorted_wrt (\<lambda>x y. y \<le> x) (take (nat retention) (file_names directory disk) @ drop (nat retention) (file_names directory disk))"
    by simp
  moreover have "n \<in> set (drop (nat retention) (file_names directory disk))"
    using assms(3) n by (metis F Un_iff append_take_drop_id set_append)
  ultimately show "n \<le> m" using m F by (auto simp only: sorted_wrt_append)
qed

section \<open>A backup can be restored\<close>

lemma path_prefixes_iff: "q \<in> set (path_prefixes p) \<Longrightarrow> q \<noteq> [] \<and> length q \<le> length p"
  by (auto simp: path_prefixes_def)

lemma map_of_write: "map_of (write_node p n disk) q = (if q = p then Some n else map_of disk q)"
  by (induction disk) (auto simp: write_node_def)

lemma map_of_unlinked:
  "map_of (fold (\<lambda>n. unlink (directory @ [n])) old disk) q = (if \<exists>n \<in> set old. q = directory @ [n] then None else map_of disk q)"
  unfolding fold_unlink by (induction disk) auto

lemma make_directories_map:
  "map_of (make_directories ps disk) q = (if q \<in> set ps \<and> q \<noteq> [] \<and> map_of disk q = None then Some Directory else map_of disk q)"
  by (induction ps disk rule: make_directories.induct) (auto simp: exists_at_def map_of_write)

lemma mkdir_map:
  assumes "mkdir p disk = Inr disk'"
  shows "q \<in> set (path_prefixes p) \<Longrightarrow> map_of disk' q = Some Directory"
    and "q \<notin> set (path_prefixes p) \<Longrightarrow> map_of disk' q = map_of disk q"
proof -
  have m: "disk' = make_directories (path_prefixes p) disk" and f: "\<forall>q \<in> set (path_prefixes p). file_at disk q = None"
    using assms by (auto simp: mkdir_def find_None_iff split: if_splits)
  show "map_of disk' q = Some Directory" if "q \<in> set (path_prefixes p)"
  proof -
    have "file_at disk q = None" using f that by blast
    with that path_prefixes_iff [OF that] show ?thesis
      by (cases "map_of disk q") (auto simp: m make_directories_map file_at_def split: node.splits)
  qed
  show "q \<notin> set (path_prefixes p) \<Longrightarrow> map_of disk' q = map_of disk q" by (simp add: m make_directories_map)
qed

lemma mkdir_done:
  assumes "\<And>q. q \<in> set (path_prefixes p) \<Longrightarrow> map_of disk q = Some Directory"
  shows "mkdir p disk = Inr disk"
proof -
  have "make_directories ps disk = disk" if "\<And>q. q \<in> set ps \<Longrightarrow> map_of disk q = Some Directory" for ps
    using that by (induction ps disk rule: make_directories.induct) (simp_all add: exists_at_def)
  with assms show ?thesis
    by (simp add: mkdir_def find_None_iff file_at_def)
qed

lemma file_names_iff:
  assumes "distinct (map fst d)"
  shows "n \<in> set (file_names directory d) \<longleftrightarrow> file_at d (directory @ [n]) \<noteq> None"
proof
  assume "n \<in> set (file_names directory d)"
  then obtain p x where x: "(p, x) \<in> set d" "p \<noteq> []" "butlast p = directory" "x \<noteq> Directory" "last p = n"
    by (auto simp: file_names_def)
  then have "p = directory @ [n]" by (metis append_butlast_last_id)
  with x assms show "file_at d (directory @ [n]) \<noteq> None" by (cases x) (simp_all add: file_at_def)
next
  assume "file_at d (directory @ [n]) \<noteq> None"
  then obtain f where "(directory @ [n], File f) \<in> set d"
    by (auto simp: file_at_def dest: map_of_SomeD split: option.splits node.splits)
  then show "n \<in> set (file_names directory d)" by (force simp: file_names_def)
qed

lemma distinct_write: "distinct (map fst disk) \<Longrightarrow> distinct (map fst (write_node p n disk))"
  by (auto simp: write_node_def distinct_map_filter)

lemma distinct_mkdir: "mkdir p disk = Inr disk' \<Longrightarrow> distinct (map fst disk) \<Longrightarrow> distinct (map fst disk')"
proof -
  have "distinct (map fst disk) \<Longrightarrow> distinct (map fst (make_directories ps disk))" for ps
    by (induction ps disk rule: make_directories.induct) (simp_all add: distinct_write)
  then show "mkdir p disk = Inr disk' \<Longrightarrow> distinct (map fst disk) \<Longrightarrow> distinct (map fst disk')"
    by (auto simp: mkdir_def Let_def split: if_splits)
qed

lemma newest_not_pruned:
  assumes "distinct (map fst disk)" "n \<in> set (file_names directory disk)" "\<And>m. m \<in> set (file_names directory disk) \<Longrightarrow> m \<le> n"
    and "prune_old_backups retention directory disk = (k, disk')"
  shows "file_at disk' (directory @ [n]) = file_at disk (directory @ [n])"
    and "length p \<le> length directory \<Longrightarrow> map_of disk' p = map_of disk p"
proof -
  let ?old = "if retention \<le> 0 then [] else drop (nat retention) (file_names directory disk)"
  have d': "disk' = fold (\<lambda>n. unlink (directory @ [n])) ?old disk"
    using assms(4) by (auto simp: prune_old_backups_def Let_def split: if_splits)
  obtain x xs where names: "file_names directory disk = x # xs" using assms(2) by (cases "file_names directory disk") auto
  have "sorted_wrt (\<lambda>x y. y \<le> x) (x # xs)" unfolding names [symmetric] by (simp add: file_names_def sorted_wrt_rev)
  then have "n \<le> x" using assms(2) names by auto
  with assms(3) names have "x = n" by force
  moreover have "x \<notin> set xs" using distinct_file_names [OF assms(1), of directory] names by simp
  ultimately have "n \<notin> set ?old" using names by (cases "nat retention") (auto dest: in_set_dropD)
  then show "file_at disk' (directory @ [n]) = file_at disk (directory @ [n])"
    by (simp add: d' file_at_def map_of_unlinked)
  show "length p \<le> length directory \<Longrightarrow> map_of disk' p = map_of disk p" by (auto simp: d' map_of_unlinked)
qed

lemma create_backup_Inr:
  assumes "create_local_backup cfg e disk = (Inr report, disk')"
  obtains d1 d2 where "mkdir (backup_path_of cfg) disk = Inr d1" "ensure_sqlite_database cfg disk = Inr (database_path cfg)"
    "copy2 (database_path cfg) (backup_path_of cfg @ [backup_name cfg e]) d1 = Inr d2"
    "prune_old_backups (mc_backup_retention_count cfg) (backup_path_of cfg) d2
       = (fst (prune_old_backups (mc_backup_retention_count cfg) (backup_path_of cfg) d2), disk')"
  using assms
  by (auto simp: create_local_backup_def resolve_backup_dir_def ensure_sqlite_database_def Let_def split: if_splits sum.splits prod.splits)

lemma backup_written:
  assumes "create_local_backup cfg e disk = (Inr report, disk')" "distinct (map fst disk)"
    and "file_at disk (database_path cfg) = Some f" "map_of disk (backup_path_of cfg @ [backup_name cfg e]) \<noteq> Some Directory"
    and "list_all (\<lambda>n. n \<le> backup_name cfg e) (file_names (backup_path_of cfg) disk)"
  shows "file_at disk' (backup_path_of cfg @ [backup_name cfg e]) = Some f"
    and "q \<in> set (path_prefixes (backup_path_of cfg)) \<Longrightarrow> map_of disk' q = Some Directory"
    and "database_path cfg \<notin> set (path_prefixes (backup_path_of cfg))"
proof -
  let ?dir = "backup_path_of cfg" and ?name = "backup_name cfg e"
  obtain d1 d2 where d1: "mkdir ?dir disk = Inr d1" and d2: "copy2 (database_path cfg) (?dir @ [?name]) d1 = Inr d2"
    and p: "prune_old_backups (mc_backup_retention_count cfg) ?dir d2
       = (fst (prune_old_backups (mc_backup_retention_count cfg) ?dir d2), disk')"
    by (rule create_backup_Inr [OF assms(1)])
  have long: "?dir @ [?name] \<notin> set (path_prefixes ?dir)" using path_prefixes_iff by fastforce
  have F: "file_at d1 = file_at disk" using d1 by (rule mkdir_files)
  have "\<not> is_directory d1 (?dir @ [?name])"
    using assms(4) mkdir_map(2) [OF d1 long] by (simp add: is_directory_def)
  with d2 assms(3) F have w: "d2 = write_node (?dir @ [?name]) (File f) d1"
    by (auto elim!: copy2_Inr)
  have D: "distinct (map fst d1)" "distinct (map fst d2)" using distinct_mkdir [OF d1 assms(2)] by (simp_all add: w distinct_write)
  have mem: "?name \<in> set (file_names ?dir d2)" unfolding file_names_iff [OF D(2)] by (simp add: w)
  have max: "m \<le> ?name" if "m \<in> set (file_names ?dir d2)" for m
  proof -
    have "m = ?name \<or> m \<in> set (file_names ?dir disk)"
      using that unfolding file_names_iff [OF D(2)] file_names_iff [OF assms(2)] by (simp add: w F split: if_splits)
    with assms(5) show ?thesis by (auto simp: list_all_iff)
  qed
  note kept = newest_not_pruned [OF D(2) mem max p]
  show "file_at disk' (?dir @ [?name]) = Some f" using kept(1) by (simp add: w)
  show "q \<in> set (path_prefixes ?dir) \<Longrightarrow> map_of disk' q = Some Directory"
  proof -
    assume that: "q \<in> set (path_prefixes ?dir)"
    then show "map_of disk' q = Some Directory"
      using kept(2) [of q] mkdir_map(1) [OF d1 that] path_prefixes_iff [OF that] long by (auto simp: w map_of_write)
  qed
  show "database_path cfg \<notin> set (path_prefixes ?dir)"
    using mkdir_map(1) [OF d1, of "database_path cfg"] assms(3) F by (auto simp: file_at_def fun_eq_iff split: option.splits node.splits)
qed

text \<open>
  C35. A backup can be restored: when the newest file of the backup directory is the backup of a database, then whatever is written to
  the database afterwards, restoring the backup by its name succeeds and brings back the database, byte for byte
  and with its modification time, whatever the retention.
\<close>

theorem backup_restores:
  assumes "create_local_backup cfg e disk = (Inr report, disk')" "distinct (map fst disk)"
    and "file_at disk (database_path cfg) = Some f" "map_of disk (backup_path_of cfg @ [backup_name cfg e]) \<noteq> Some Directory"
    and "list_all (\<lambda>n. n \<le> backup_name cfg e) (file_names (backup_path_of cfg) disk)"
    and "butlast (database_path cfg) \<noteq> backup_path_of cfg" "database_path cfg \<noteq> []"
    and "\<not> is_directory disk' (safety_path (database_path cfg))" "integrity (sf_content f) = Some (Some ''ok'')"
    and "resolve_path (backup_path_of cfg) (backup_name cfg e) = backup_path_of cfg @ [backup_name cfg e]"
  shows "\<exists>report' disk''. restore_local_backup integrity cfg e' (backup_name cfg e)
       (write_node (database_path cfg) (File g) disk') = (Inr report', disk'') \<and> file_at disk'' (database_path cfg) = Some f"
proof -
  let ?dir = "backup_path_of cfg" and ?source = "database_path cfg"
  let ?disk = "write_node ?source (File g) disk'"
  note written = backup_written [OF assms(1-5)]
  have "mkdir ?dir ?disk = Inr ?disk"
    using written(2,3) by (intro mkdir_done) (auto simp: map_of_write)
  moreover have "ensure_sqlite_database cfg ?disk = Inr ?source"
    by (rule create_backup_Inr [OF assms(1)])
      (auto simp: ensure_sqlite_database_def exists_at_def map_of_write split: if_splits)
  moreover have "\<not> is_directory ?disk (safety_path ?source)"
    using assms(8) safety_path_neq(1) [of ?source] by (simp add: is_directory_def map_of_write)
  moreover have "?dir @ [backup_name cfg e] \<noteq> ?source" using assms(6) by (metis butlast_snoc)
  ultimately have R: "restore_local_backup integrity cfg e' (backup_name cfg e) ?disk
        = (case run_database_integrity_check integrity cfg e' (write_node ?source (File f) (write_node (safety_path ?source) (File g) ?disk)) of
           Inl exc \<Rightarrow> (Inl exc, write_node ?source (File f) (write_node (safety_path ?source) (File g) ?disk))
         | Inr report \<Rightarrow>
           if ir_status report \<noteq> ''ok''
           then (http 500 ''Restore failed integrity check and was rolled back'',
             write_node ?source (File g) (write_node ?source (File f) (write_node (safety_path ?source) (File g) ?disk)))
           else (Inr \<lparr>rr_restored_from = backup_name cfg e, rr_database_path = path_text ?source,
                   rr_safety_backup_path = path_text (safety_path ?source), rr_restored_at = now e'\<rparr>,
             write_node ?source (File f) (write_node (safety_path ?source) (File g) ?disk)))"
    "ensure_sqlite_database cfg (write_node ?source (File f) (write_node (safety_path ?source) (File g) ?disk)) = Inr ?source"
    using restore_steps [where f = g and b = f, OF _ _ refl _ assms(6,7) _ assms(10) [symmetric]] written(1) by simp_all
  with assms(9) show ?thesis by (simp add: run_database_integrity_check_def)
qed

section \<open>Samples\<close>

definition sample_config :: maintenance_config where
  "sample_config = \<lparr>mc_cwd = [''app''], mc_database_url = ''sqlite:///./ppms.db'', mc_backup_directory = ''./backups'',
     mc_backup_retention_count = 2, mc_delivery_worker_enabled = False\<rparr>"

definition sample_file :: "string \<Rightarrow> stored_file" where
  "sample_file s = \<lparr>sf_content = s, sf_mtime = 5\<rparr>"

definition sample_disk :: disk where
  "sample_disk = [([''app''], Directory), ([''app'', ''ppms.db''], File (sample_file ''data'')),
     ([''app'', ''backups''], Directory), ([''app'', ''backups'', ''old.db''], File (sample_file ''old'')),
     ([''app'', ''backups'', ''junk.db''], File (sample_file ''junk''))]"

definition sample_integrity :: integrity_check where
  "sample_integrity s = (if s = ''junk'' then None else Some (Some ''ok''))"

lemma sample_timestamp: "timestamp 1700000000000000 = ''20231114221320''"
  by code_simp

lemma sample_paths:
  "database_path sample_config = [''app'', ''ppms.db'']" "backup_path_of sample_config = [''app'', ''backups'']"
  "backup_name sample_config sample_env = ''ppms_20231114221320.db''"
proof -
  show p: "database_path sample_config = [''app'', ''ppms.db'']" "backup_path_of sample_config = [''app'', ''backups'']"
    by code_simp+
  have "stem_of ''ppms.db'' = ''ppms''" "suffix_of ''ppms.db'' = ''.db''" by code_simp+
  then show "backup_name sample_config sample_env = ''ppms_20231114221320.db''"
    by (simp add: backup_name_def p name_of_def sample_env_def sample_timestamp Let_def)
qed

lemma sample_safety: "safety_path [''app'', ''ppms.db''] = [''app'', ''ppms.db.pre_restore'']"
  by code_simp

text \<open>A path that leaves the backup directory is not found.\<close>

lemma sample_traversal: "fst (restore_local_backup sample_integrity sample_config sample_env ''../ppms.db'' sample_disk) = http 404 ''Backup file not found''"
  by code_simp

text \<open>A file that SQLite refuses is left in the place of the database.\<close>

lemma sample_junk_restored:
  "fst (restore_local_backup sample_integrity sample_config sample_env ''junk.db'' sample_disk) = Inl DatabaseError"
  "file_at (snd (restore_local_backup sample_integrity sample_config sample_env ''junk.db'' sample_disk)) [''app'', ''ppms.db'']
     = Some (sample_file ''junk'')"
  by code_simp+

theorem restore_complete_or_undone_witness:
  "file_at (snd (restore_local_backup sample_integrity sample_config sample_env ''old.db'' sample_disk)) [''app'', ''ppms.db'']
     = Some (sample_file ''old'')
   \<and> file_at (snd (restore_local_backup sample_integrity sample_config sample_env ''old.db'' sample_disk)) [''app'', ''ppms.db.pre_restore'']
     = Some (sample_file ''data'')"
proof -
  let ?r = "restore_local_backup sample_integrity sample_config sample_env ''old.db'' sample_disk"
  have f: "file_at sample_disk (database_path sample_config) = Some (sample_file ''data'')" by code_simp
  have "butlast (database_path sample_config) \<noteq> backup_path_of sample_config" "database_path sample_config \<noteq> []" by code_simp+
  moreover have "\<not> is_directory d (safety_path (database_path sample_config))"
    if "mkdir (backup_path_of sample_config) sample_disk = Inr d" for d
  proof -
    have "mkdir (backup_path_of sample_config) sample_disk = Inr sample_disk" by code_simp
    moreover have "\<not> is_directory sample_disk (safety_path (database_path sample_config))" by code_simp
    ultimately show ?thesis using that by simp
  qed
  moreover have "\<not> isl (fst ?r)" by code_simp
  then obtain rep where "?r = (Inr rep, snd ?r)" by (metis prod.collapse sum.collapse(2))
  moreover have "file_at sample_disk (resolve_path (backup_path_of sample_config) ''old.db'') = Some (sample_file ''old'')" by code_simp
  ultimately show ?thesis
    using restore_complete_or_undone [of sample_integrity sample_config sample_env "''old.db''" sample_disk "Inr rep" "snd ?r", OF _ f]
    by (simp add: sample_paths sample_safety)
qed

definition sample_backup_disk :: disk where
  "sample_backup_disk = snd (prune_old_backups 2 [''app'', ''backups'']
     (write_node [''app'', ''backups'', ''ppms_20231114221320.db''] (File (sample_file ''data'')) sample_disk))"

lemma sample_backup:
  "create_local_backup sample_config sample_env sample_disk
     = (Inr \<lparr>bk_backup_path = path_text [''app'', ''backups'', ''ppms_20231114221320.db''], bk_created_at = now sample_env,
          bk_retention_pruned = 1\<rparr>, sample_backup_disk)"
proof -
  have "ensure_sqlite_database sample_config sample_disk = Inr [''app'', ''ppms.db'']"
    "mkdir [''app'', ''backups''] sample_disk = Inr sample_disk" "mc_backup_retention_count sample_config = 2"
    "copy2 [''app'', ''ppms.db''] [''app'', ''backups'', ''ppms_20231114221320.db''] sample_disk
      = Inr (write_node [''app'', ''backups'', ''ppms_20231114221320.db''] (File (sample_file ''data'')) sample_disk)"
    "prune_old_backups 2 [''app'', ''backups''] (write_node [''app'', ''backups'', ''ppms_20231114221320.db''] (File (sample_file ''data'')) sample_disk)
      = (1, sample_backup_disk)"
    by code_simp+
  then show ?thesis by (simp add: create_local_backup_def resolve_backup_dir_def sample_paths Let_def)
qed

theorem backup_restores_witness:
  "\<exists>report' disk''. restore_local_backup sample_integrity sample_config sample_env ''ppms_20231114221320.db''
       (write_node [''app'', ''ppms.db''] (File (sample_file ''lost'')) (snd (create_local_backup sample_config sample_env sample_disk)))
     = (Inr report', disk'') \<and> file_at disk'' [''app'', ''ppms.db''] = Some (sample_file ''data'')"
proof -
  have "file_at sample_disk (database_path sample_config) = Some (sample_file ''data'')"
    "distinct (map fst sample_disk)" "map_of sample_disk (backup_path_of sample_config @ [backup_name sample_config sample_env]) \<noteq> Some Directory"
    "list_all (\<lambda>n. n \<le> backup_name sample_config sample_env) (file_names (backup_path_of sample_config) sample_disk)"
    "butlast (database_path sample_config) \<noteq> backup_path_of sample_config" "database_path sample_config \<noteq> []"
    "\<not> is_directory sample_backup_disk (safety_path (database_path sample_config))"
    "sample_integrity (sf_content (sample_file ''data'')) = Some (Some ''ok'')"
    "resolve_path (backup_path_of sample_config) (backup_name sample_config sample_env)
       = backup_path_of sample_config @ [backup_name sample_config sample_env]"
    unfolding sample_paths by code_simp+
  from backup_restores [where integrity = sample_integrity and e' = sample_env and g = "sample_file ''lost''", OF sample_backup this(2,1,3-)]
  show ?thesis by (simp add: sample_paths sample_backup)
qed

end
