(* ===== verification/Operations.thy ===== *)
theory Operations
  imports Payments Tankers Shifts Customers Expenses Pos
begin

text \<open>
  The work of a station as one system: every request of the routes of sales, payments, purchases, tankers, shifts,
  customers, expenses, the shop and the fuel assets that changes the database, the histories of such requests, and
  two invariants across these components: the books stay in order, and the audit trail accounts for what was done.
\<close>

section \<open>Requests\<close>

datatype review = Reversal | Approval | Rejection
  \<comment> \<open>the routes \<open>/reverse\<close>, \<open>/approve-reversal\<close> and \<open>/reject-reversal\<close>\<close>

datatype request =
    Record_Sale fuel_sale_create
  | Review_Sale int review "string option"
  | Record_Customer_Payment customer_payment_create
  | Review_Customer_Payment int review "string option"
  | Record_Supplier_Payment supplier_payment_create
  | Review_Supplier_Payment int review "string option"
  | Record_Purchase purchase_create
  | Approve_Purchase int "string option"
  | Reject_Purchase int "string option"
  | Review_Purchase int review "string option"
  | Start_Trip tanker_trip_create
  | Deliver int tanker_delivery_create
  | Trip_Expense int tanker_trip_expense_create
  | Complete_Trip int
  | Add_Tanker tanker_create
  | Change_Tanker int tanker_update
  | Delete_Tanker int
  | Open_Shift shift_create
  | Close_Shift int shift_update
  | Request_Override int credit_override_request
  | Approve_Override int credit_override_request
  | Reject_Override int credit_override_request
  | Add_Customer customer_create
  | Change_Customer int customer_update
  | Delete_Customer int
  | Add_Expense expense_create
  | Change_Expense int expense_update
  | Delete_Expense int
  | Approve_Expense int "string option"
  | Reject_Expense int "string option"
  | Add_Product pos_product_create
  | Change_Product int pos_product_update
  | Delete_Product int
  | Shop_Sale pos_sale_create
  | Reverse_Shop_Sale int
  | Add_Supplier supplier_create
  | Change_Supplier int supplier_update
  | Delete_Supplier int
  | Add_Tank tank_create
  | Change_Tank int tank_update
  | Delete_Tank int
  | Measure_Tank tank_dip_create
  | Add_Nozzle nozzle_create
  | Change_Nozzle int nozzle_update
  | Delete_Nozzle int
  | Adjust_Meter int meter_adjustment_request

fun act :: "review \<Rightarrow> user \<Rightarrow> string option \<Rightarrow> reversal_action" where
  "act Reversal = Reverse"
| "act Approval = Approve"
| "act Rejection = Reject"

definition commit :: "('a \<times> db) res \<Rightarrow> db res" where
  "commit = map_sum id snd"

fun respond :: "env \<Rightarrow> user \<Rightarrow> request \<Rightarrow> db \<Rightarrow> db res" where
  \<comment> \<open>the database after a request; after an error the session is rolled back\<close>
  "respond e u (Record_Sale data) d = commit (route_create_fuel_sale e d data u)"
| "respond e u (Review_Sale i r reason) d = commit (fuel_sale_route i e d (act r u reason))"
| "respond e u (Record_Customer_Payment data) d = commit (route_create_customer_payment e d data u)"
| "respond e u (Review_Customer_Payment i r reason) d = commit (customer_payment_route i e d (act r u reason))"
| "respond e u (Record_Supplier_Payment data) d = commit (route_create_supplier_payment e d data u)"
| "respond e u (Review_Supplier_Payment i r reason) d = commit (supplier_payment_route i e d (act r u reason))"
| "respond e u (Record_Purchase data) d = commit (route_create_purchase e d data u)"
| "respond e u (Approve_Purchase i reason) d = commit (route_approve_purchase e d i u reason)"
| "respond e u (Reject_Purchase i reason) d = commit (route_reject_purchase e d i u reason)"
| "respond e u (Review_Purchase i r reason) d = commit (purchase_route i e d (act r u reason))"
| "respond e u (Start_Trip data) d = commit (create_trip_route e d data u)"
| "respond e u (Deliver i data) d = commit (add_delivery e d i data u)"
| "respond e u (Trip_Expense i data) d = commit (add_expense e d i data u)"
| "respond e u (Complete_Trip i) d = commit (complete_trip_route e d i u)"
| "respond e u (Add_Tanker data) d = commit (create_tanker_route d data u)"
| "respond e u (Change_Tanker i data) d = commit (update_tanker_route d i data u)"
| "respond e u (Delete_Tanker i) d = delete_tanker d i u"
| "respond e u (Open_Shift data) d = commit (open_shift e d data u)"
| "respond e u (Close_Shift i data) d = commit (route_close_shift e d i data u)"
| "respond e u (Request_Override i data) d = commit (route_request_credit_override e d i data u)"
| "respond e u (Approve_Override i data) d = commit (route_approve_credit_override e d i data u)"
| "respond e u (Reject_Override i data) d = commit (route_reject_credit_override e d i data u)"
| "respond e u (Add_Customer data) d = commit (route_create_customer d data u)"
| "respond e u (Change_Customer i data) d = commit (route_update_customer d i data u)"
| "respond e u (Delete_Customer i) d = delete_customer d i u"
| "respond e u (Add_Expense data) d = commit (route_create_expense e d data u)"
| "respond e u (Change_Expense i data) d = commit (route_update_expense e d i data u)"
| "respond e u (Delete_Expense i) d = delete_expense e d i u"
| "respond e u (Approve_Expense i reason) d = commit (route_approve_expense e d i u reason)"
| "respond e u (Reject_Expense i reason) d = commit (route_reject_expense e d i u reason)"
| "respond e u (Add_Product data) d = commit (route_create_pos_product d data u)"
| "respond e u (Change_Product i data) d = commit (route_update_pos_product d i data u)"
| "respond e u (Delete_Product i) d = delete_pos_product d i u"
| "respond e u (Shop_Sale data) d = commit (route_create_pos_sale e d data u)"
| "respond e u (Reverse_Shop_Sale i) d = commit (route_reverse_pos_sale e d i u)"
| "respond e u (Add_Supplier data) d = commit (create_supplier d data u)"
| "respond e u (Change_Supplier i data) d = commit (update_supplier d i data u)"
| "respond e u (Delete_Supplier i) d = delete_supplier d i u"
| "respond e u (Add_Tank data) d = commit (create_tank d data u)"
| "respond e u (Change_Tank i data) d = commit (update_tank d i data u)"
| "respond e u (Delete_Tank i) d = delete_tank d i u"
| "respond e u (Measure_Tank data) d = commit (route_create_tank_dip e d data u)"
| "respond e u (Add_Nozzle data) d = commit (create_nozzle e d data u)"
| "respond e u (Change_Nozzle i data) d = commit (update_nozzle d i data u)"
| "respond e u (Delete_Nozzle i) d = delete_nozzle d i u"
| "respond e u (Adjust_Meter i data) d = commit (adjust_meter_reading e d i data u)"

lemma commit_Inr: "commit r = Inr d' \<longleftrightarrow> (\<exists>x. r = Inr (x, d'))"
  by (cases r) (auto simp: commit_def)

text \<open>The histories of a station: accepted requests change the database, refused ones do not.\<close>

type_synonym entry = "env \<times> user \<times> request"

inductive operations :: "(db \<Rightarrow> request \<Rightarrow> bool) \<Rightarrow> db \<Rightarrow> entry list \<Rightarrow> db \<Rightarrow> bool"
  for P :: "db \<Rightarrow> request \<Rightarrow> bool" and d :: db
where
  start: "operations P d [] d"
| accepted: "operations P d h d1 \<Longrightarrow> P d1 r \<Longrightarrow> respond e u r d1 = Inr d2 \<Longrightarrow> operations P d (h @ [(e, u, r)]) d2"
| refused: "operations P d h d1 \<Longrightarrow> respond e u r d1 = Inl exc \<Longrightarrow> operations P d h d1"

section \<open>The audit trail\<close>

abbreviation trail :: "db \<Rightarrow> audit_log list" where
  "trail d \<equiv> audit_logs (comms d)"

definition made_by :: "env \<Rightarrow> user \<Rightarrow> audit_log \<Rightarrow> bool" where
  "made_by e u x \<longleftrightarrow> al_user_id x = Some (u_id u) \<and> al_username x = Some (u_username u) \<and> al_created_at x = now e"

definition audited :: "env \<Rightarrow> user \<Rightarrow> db \<Rightarrow> db \<Rightarrow> bool" where
  \<comment> \<open>the step adds entries, all of them the user's\<close>
  "audited e u d d' \<longleftrightarrow> (\<exists>x xs. trail d' = trail d @ x # xs \<and> list_all (made_by e u) (x # xs))"

lemma audited_trans: "audited e u d d1 \<Longrightarrow> audited e u d1 d2 \<Longrightarrow> audited e u d d2"
  by (force simp: audited_def)

lemma notify_recipient_trail [simp]: "audit_logs (snd (notify_recipient e actor nt r acc)) = audit_logs (snd acc)"
  by (simp add: notify_recipient_def create_delivery_logs_def Let_def)

lemma notify_users_trail [simp]: "audit_logs (snd (notify_users e rs actor nt c)) = audit_logs c"
proof -
  have "audit_logs (snd (fold (notify_recipient e actor nt) xs acc)) = audit_logs (snd acc)" for xs acc
    by (induction xs arbitrary: acc) simp_all
  then show ?thesis by (simp add: notify_users_def)
qed

lemma notices_trail [simp]:
  "trail (notify_watchers e rs actor nt d) = trail d" "trail (notify_approval_requested e a nt d) = trail d"
  "trail (notify_decision e i a nt d) = trail d" "trail (notify_actor e a nt d) = trail d"
  by (simp_all add: notify_watchers_def notify_approval_requested_def notify_decision_def notify_actor_def split: option.split)

definition audit_entry :: "env \<Rightarrow> user \<Rightarrow> string \<Rightarrow> string \<Rightarrow> string \<Rightarrow> int option \<Rightarrow> int option \<Rightarrow> jobject \<Rightarrow> db \<Rightarrow> audit_log" where
  "audit_entry e u m action entity_type entity_id station_id details d =
     last (trail (audit e u m action entity_type entity_id station_id details d))"

lemma audit_trail [simp]: "trail (audit e u m a t i s det d) = trail d @ [audit_entry e u m a t i s det d]"
  by (simp add: audit_entry_def audit_def log_audit_event_def add_row_def)

lemma made_by_audit_entry [simp]: "made_by e u (audit_entry e u m a t i s det d)"
  by (simp add: audit_entry_def audit_def log_audit_event_def add_row_def made_by_def)

section \<open>What is audited\<close>

lemmas audited_simps = audited_def res_simps Let_def

lemmas sale_defs = create_fuel_sale_def record_fuel_sale_def reverse_fuel_sale_def request_fuel_sale_reversal_def
  reject_fuel_sale_reversal_def

lemmas customer_payment_defs = create_customer_payment_def reverse_customer_payment_def request_customer_payment_reversal_def
  reject_customer_payment_reversal_def audit_customer_payment_def

lemmas supplier_payment_defs = create_supplier_payment_def reverse_supplier_payment_def request_supplier_payment_reversal_def
  reject_supplier_payment_reversal_def audit_supplier_payment_def

lemmas purchase_defs = create_purchase_def approve_purchase_def reject_purchase_def reverse_purchase_def
  request_purchase_reversal_def reject_purchase_reversal_def audit_purchase_def apply_purchase_effects_def

lemmas trip_defs = create_trip_def add_trip_delivery_def add_trip_expense_def complete_trip_def settle_trip_def

lemmas override_defs = request_credit_override_def approve_credit_override_def reject_credit_override_def audit_override_def

lemmas expense_defs = create_expense_def update_expense_def approve_expense_def reject_expense_def audit_expense_def

lemma sales_audited:
  "create_fuel_sale e d data u = Inr (x, d') \<Longrightarrow> audited e u d d'"
  "reverse_fuel_sale e d sale u = Inr (x, d') \<Longrightarrow> audited e u d d'"
  "request_fuel_sale_reversal e d sale u reason = Inr (x, d') \<Longrightarrow> audited e u d d'"
  "reject_fuel_sale_reversal e d sale u reason = Inr (x, d') \<Longrightarrow> audited e u d d'"
  by (auto simp: sale_defs audited_simps split: option.splits)

lemma customer_payments_audited:
  "create_customer_payment e d pdata u = Inr (y, d') \<Longrightarrow> audited e u d d'"
  "reverse_customer_payment e d p u = Inr (y, d') \<Longrightarrow> audited e u d d'"
  "request_customer_payment_reversal e d p u reason = Inr (y, d') \<Longrightarrow> audited e u d d'"
  "reject_customer_payment_reversal e d p u reason = Inr (y, d') \<Longrightarrow> audited e u d d'"
  by (auto simp: customer_payment_defs audited_simps)

lemma supplier_payments_audited:
  "create_supplier_payment e d data u = Inr (x, d') \<Longrightarrow> audited e u d d'"
  "reverse_supplier_payment e d p u = Inr (x, d') \<Longrightarrow> audited e u d d'"
  "request_supplier_payment_reversal e d p u reason = Inr (x, d') \<Longrightarrow> audited e u d d'"
  "reject_supplier_payment_reversal e d p u reason = Inr (x, d') \<Longrightarrow> audited e u d d'"
  by (auto simp: supplier_payment_defs audited_simps)

lemma purchases_audited:
  "create_purchase e d data u = Inr (x, d') \<Longrightarrow> audited e u d d'"
  "approve_purchase e d p u reason = Inr (x, d') \<Longrightarrow> audited e u d d'"
  "reject_purchase e d p u reason = Inr (x, d') \<Longrightarrow> audited e u d d'"
  "reverse_purchase e d p u = Inr (x, d') \<Longrightarrow> audited e u d d'"
  "request_purchase_reversal e d p u reason = Inr (x, d') \<Longrightarrow> audited e u d d'"
  "reject_purchase_reversal e d p u reason = Inr (x, d') \<Longrightarrow> audited e u d d'"
  by (auto simp: purchase_defs audited_simps split: option.splits)

lemma approvals_audited:
  "approve_fuel_sale_reversal e d sale u reason = Inr (x1, d') \<Longrightarrow> audited e u d d'"
  "approve_customer_payment_reversal e d cp u reason = Inr (x2, d') \<Longrightarrow> audited e u d d'"
  "approve_supplier_payment_reversal e d sp u reason = Inr (x3, d') \<Longrightarrow> audited e u d d'"
  "approve_purchase_reversal e d p u reason = Inr (x4, d') \<Longrightarrow> audited e u d d'"
     apply (fastforce simp: approve_fuel_sale_reversal_def audited_simps dest: sales_audited(2))
    apply (fastforce simp: approve_customer_payment_reversal_def audit_customer_payment_def audited_simps
      dest: customer_payments_audited(2))
   apply (fastforce simp: approve_supplier_payment_reversal_def audit_supplier_payment_def audited_simps
      dest: supplier_payments_audited(2))
  by (fastforce simp: approve_purchase_reversal_def audit_purchase_def audited_simps dest: purchases_audited(4))

lemma trips_audited:
  "create_trip e d td u = Inr (x, d') \<Longrightarrow> audited e u d d'"
  "add_trip_delivery e d trip dd u = Inr (x, d') \<Longrightarrow> audited e u d d'"
  "add_trip_expense e d trip xd u = Inr (x, d') \<Longrightarrow> audited e u d d'"
  "complete_trip e d trip u = Inr (x, d') \<Longrightarrow> audited e u d d'"
  by (auto simp: trip_defs audited_simps split: option.splits if_splits)

lemma shifts_audited:
  "create_shift e d data u = Inr (x, d') \<Longrightarrow> audited e u d d'"
  "close_shift e d shift cdata u = Inr (x, d') \<Longrightarrow> audited e u d d'"
  by (auto simp: create_shift_def close_shift_def audited_simps split: option.splits if_splits)

lemma overrides_audited:
  "request_credit_override e d c data u = Inr (x, d') \<Longrightarrow> audited e u d d'"
  "approve_credit_override e d c data u = Inr (x, d') \<Longrightarrow> audited e u d d'"
  "reject_credit_override e d c data u = Inr (x, d') \<Longrightarrow> audited e u d d'"
  by (auto simp: override_defs audited_simps)

lemma expenses_audited:
  "create_expense e d data u = Inr (x, d') \<Longrightarrow> audited e u d d'"
  "update_expense e d y udata u = Inr (x, d') \<Longrightarrow> audited e u d d'"
  "approve_expense e d y u reason = Inr (x, d') \<Longrightarrow> audited e u d d'"
  "reject_expense e d y u reason = Inr (x, d') \<Longrightarrow> audited e u d d'"
  "delete_expense e d i u = Inr d' \<Longrightarrow> audited e u d d'"
  by (auto simp: expense_defs delete_expense_def with_expense_def audited_simps split: option.splits)

lemma meters_audited: "adjust_nozzle_meter e d n v reason u = Inr (x, d') \<Longrightarrow> audited e u d d'"
  by (auto simp: adjust_nozzle_meter_def audited_simps)

text \<open>Master data, tank measurements and the shop leave no trace in the trail.\<close>

fun leaves_trace :: "request \<Rightarrow> bool" where
  "leaves_trace (Add_Tanker data) = False"
| "leaves_trace (Change_Tanker i tu) = False"
| "leaves_trace (Delete_Tanker i) = False"
| "leaves_trace (Add_Customer cd) = False"
| "leaves_trace (Change_Customer i cu) = False"
| "leaves_trace (Delete_Customer i) = False"
| "leaves_trace (Add_Product pd) = False"
| "leaves_trace (Change_Product i pu) = False"
| "leaves_trace (Delete_Product i) = False"
| "leaves_trace (Shop_Sale sd) = False"
| "leaves_trace (Reverse_Shop_Sale i) = False"
| "leaves_trace (Add_Supplier yd) = False"
| "leaves_trace (Change_Supplier i yu) = False"
| "leaves_trace (Delete_Supplier i) = False"
| "leaves_trace (Add_Tank kd) = False"
| "leaves_trace (Change_Tank i ku) = False"
| "leaves_trace (Delete_Tank i) = False"
| "leaves_trace (Measure_Tank ed) = False"
| "leaves_trace (Add_Nozzle zd) = False"
| "leaves_trace (Change_Nozzle i zu) = False"
| "leaves_trace (Delete_Nozzle i) = False"
| "leaves_trace _ = True"

lemmas lookups = with_customer_def with_purchase_def with_trip_def with_tanker_def with_expense_def with_nozzle_def
  with_tank_def with_pos_product_def

lemmas audited_route_defs = route_create_fuel_sale_def route_create_customer_payment_def route_create_supplier_payment_def
  route_create_purchase_def route_approve_purchase_def route_reject_purchase_def create_trip_route_def add_delivery_def
  add_expense_def complete_trip_route_def open_shift_def route_close_shift_def route_request_credit_override_def
  route_approve_credit_override_def route_reject_credit_override_def route_create_expense_def route_update_expense_def
  route_approve_expense_def route_reject_expense_def adjust_meter_reading_def

lemma reviews_audited:
  "fuel_sale_route i e d (act r u reason) = Inr (x1, d') \<Longrightarrow> audited e u d d'"
  "customer_payment_route i e d (act r u reason) = Inr (x2, d') \<Longrightarrow> audited e u d d'"
  "supplier_payment_route i e d (act r u reason) = Inr (x3, d') \<Longrightarrow> audited e u d d'"
  "purchase_route i e d (act r u reason) = Inr (x4, d') \<Longrightarrow> audited e u d d'"
     apply (cases r; auto simp: route_reverse_fuel_sale_def route_approve_fuel_sale_reversal_def route_reject_fuel_sale_reversal_def
      res_simps dest: sales_audited approvals_audited split: if_splits)
    apply (cases r; auto simp: route_reverse_customer_payment_def route_approve_customer_payment_reversal_def
      route_reject_customer_payment_reversal_def res_simps dest: customer_payments_audited approvals_audited split: if_splits)
   apply (cases r; auto simp: route_reverse_supplier_payment_def route_approve_supplier_payment_reversal_def
      route_reject_supplier_payment_reversal_def res_simps dest: supplier_payments_audited approvals_audited split: if_splits)
  by (cases r; auto simp: route_reverse_purchase_def route_approve_purchase_reversal_def route_reject_purchase_reversal_def
      lookups res_simps dest: purchases_audited approvals_audited split: if_splits)

lemmas all_audited = sales_audited(1) customer_payments_audited(1) supplier_payments_audited(1) purchases_audited(1-3)
  reviews_audited trips_audited shifts_audited overrides_audited expenses_audited meters_audited

lemma respond_audited:
  assumes "respond e u r d = Inr d'" "leaves_trace r"
  shows "audited e u d d'"
  using assms by (cases r) (auto simp: commit_Inr audited_route_defs lookups res_simps dest: all_audited)
lemma sold_lines_frame [simp]:
  "comms (fold (sell_line i) ls d) = comms d" "tanks (fold (sell_line i) ls d) = tanks d"
  "customers (fold (sell_line i) ls d) = customers d" "suppliers (fold (sell_line i) ls d) = suppliers d"
  "fuel_sales (fold (sell_line i) ls d) = fuel_sales d" "purchases (fold (sell_line i) ls d) = purchases d"
  "customer_payments (fold (sell_line i) ls d) = customer_payments d"
  "supplier_payments (fold (sell_line i) ls d) = supplier_payments d"
  "tanker_deliveries (fold (sell_line i) ls d) = tanker_deliveries d"
  by (induction ls arbitrary: d) (auto simp: sell_line_def split: prod.split)

lemmas master_data_defs = create_tanker_route_def create_tanker_def update_tanker_route_def update_tanker_def delete_tanker_def
  route_create_customer_def create_customer_def route_update_customer_def update_customer_def delete_customer_def
  create_supplier_def update_supplier_def get_supplier_def delete_supplier_def
  create_nozzle_def update_nozzle_def delete_nozzle_def

lemmas shop_defs = route_create_pos_product_def create_pos_product_def route_update_pos_product_def update_pos_product_def
  delete_pos_product_def route_create_pos_sale_def create_pos_sale_def route_reverse_pos_sale_def reverse_pos_sale_def

lemmas tank_defs = create_tank_def update_tank_def delete_tank_def route_create_tank_dip_def create_tank_dip_def

lemma respond_silent:
  assumes "respond e u r d = Inr d'" "\<not> leaves_trace r"
  shows "trail d' = trail d"
  using assms by (cases r) (auto simp: commit_Inr master_data_defs shop_defs tank_defs lookups res_simps Let_def split: option.splits if_splits)
section \<open>The books\<close>

definition volume_fits :: "pyfloat \<Rightarrow> pyfloat \<Rightarrow> bool" where
  "volume_fits v capacity \<longleftrightarrow> is_float v \<and> is_float capacity \<and> 0 \<le> v \<and> v \<le> capacity"

fun plausible :: "db \<Rightarrow> request \<Rightarrow> bool" where
  \<comment> \<open>a volume that is entered by hand, which the code does not check, fits in its tank\<close>
  "plausible d (Add_Tank data) = volume_fits (kd_current_volume data) (kd_capacity data)"
| "plausible d (Change_Tank i data) =
     (case get_row tk_id (tanks d) i of None \<Rightarrow> True
      | Some k \<Rightarrow> volume_fits (assign (ku_current_volume data) (tk_current_volume k)) (assign_value (ku_capacity data) (tk_capacity k)))"
| "plausible d (Measure_Tank data) =
     (case get_row tk_id (tanks d) (ed_tank_id data) of None \<Rightarrow> True
      | Some k \<Rightarrow> volume_fits (ed_calculated_volume data) (tk_capacity k))"
| "plausible d (Request_Override i data) = is_float (co_amount data)"
| "plausible d _ = True"

text \<open>Requests that leave the books alone.\<close>

lemma books_frame [simp]:
  "books_ok (audit e u m a t i s det d) = books_ok d" "books_ok (notify_watchers e rs actor nt d) = books_ok d"
  "books_ok (notify_approval_requested e v nt d) = books_ok d" "books_ok (notify_decision e j v nt d) = books_ok d"
  "books_ok (d\<lparr>shifts := x1\<rparr>) = books_ok d" "books_ok (d\<lparr>expenses := x2\<rparr>) = books_ok d"
  "books_ok (d\<lparr>nozzles := x3, meter_adjustments := x4\<rparr>) = books_ok d"
  by (simp_all add: books_ok_def comms_updates)

lemma shifts_books:
  "create_shift e d data u = Inr (x, d') \<Longrightarrow> books_ok d' = books_ok d"
  "close_shift e d shift cdata u = Inr (x, d') \<Longrightarrow> books_ok d' = books_ok d"
  by (auto simp: create_shift_def close_shift_def res_simps Let_def split: option.splits if_splits)

lemma expenses_books:
  "create_expense e d data u = Inr (x, d') \<Longrightarrow> books_ok d' = books_ok d"
  "update_expense e d y udata u = Inr (x, d') \<Longrightarrow> books_ok d' = books_ok d"
  "approve_expense e d y u reason = Inr (x, d') \<Longrightarrow> books_ok d' = books_ok d"
  "reject_expense e d y u reason = Inr (x, d') \<Longrightarrow> books_ok d' = books_ok d"
  "delete_expense e d i u = Inr d' \<Longrightarrow> books_ok d' = books_ok d"
  by (auto simp: expense_defs delete_expense_def with_expense_def res_simps Let_def split: option.splits if_splits)

lemma meters_books: "adjust_nozzle_meter e d n v reason u = Inr (x, d') \<Longrightarrow> books_ok d' = books_ok d"
  by (auto simp: adjust_nozzle_meter_def res_simps Let_def)

lemmas sale_movements = create_fuel_sale_books reverse_fuel_sale_books [OF _ _ books_ok_rows(4)]
  reversal_steps_books [OF _ _ books_ok_rows(4)] approve_fuel_sale_reversal_books [OF _ _ books_ok_rows(4)]

lemmas customer_payment_movements = create_customer_payment_books reverse_customer_payment_books [OF _ _ books_ok_rows(6)]
  customer_payment_reversal_steps_books [OF _ _ books_ok_rows(6)]
  approve_customer_payment_reversal_books [OF _ _ books_ok_rows(6)]

lemmas supplier_payment_movements = create_supplier_payment_books reverse_supplier_payment_books [OF _ _ books_ok_rows(7)]
  supplier_payment_reversal_steps_books [OF _ _ books_ok_rows(7)]
  approve_supplier_payment_reversal_books [OF _ _ books_ok_rows(7)]

lemmas purchase_movements = create_purchase_books approve_purchase_books [OF _ _ books_ok_rows(5)]
  reverse_purchase_books [OF _ _ books_ok_rows(5)] purchase_review_books [OF _ _ books_ok_rows(5)]
  approve_purchase_reversal_books [OF _ _ books_ok_rows(5)]

lemma reviews_books:
  "fuel_sale_route i e d (act r u reason) = Inr (x1, d') \<Longrightarrow> books_ok d \<Longrightarrow> books_ok d'"
  "customer_payment_route i e d (act r u reason) = Inr (x2, d') \<Longrightarrow> books_ok d \<Longrightarrow> books_ok d'"
  "supplier_payment_route i e d (act r u reason) = Inr (x3, d') \<Longrightarrow> books_ok d \<Longrightarrow> books_ok d'"
  "purchase_route i e d (act r u reason) = Inr (x4, d') \<Longrightarrow> books_ok d \<Longrightarrow> books_ok d'"
     apply (cases r; auto simp: route_reverse_fuel_sale_def route_approve_fuel_sale_reversal_def route_reject_fuel_sale_reversal_def
      res_simps dest: sale_movements split: if_splits)
    apply (cases r; auto simp: route_reverse_customer_payment_def route_approve_customer_payment_reversal_def
      route_reject_customer_payment_reversal_def res_simps dest: customer_payment_movements split: if_splits)
   apply (cases r; auto simp: route_reverse_supplier_payment_def route_approve_supplier_payment_reversal_def
      route_reject_supplier_payment_reversal_def res_simps dest: supplier_payment_movements split: if_splits)
  by (cases r; auto simp: route_reverse_purchase_def route_approve_purchase_reversal_def route_reject_purchase_reversal_def
      lookups res_simps dest: purchase_movements split: if_splits)

lemma tanks_books:
  "create_tank d kd u = Inr (x, d') \<Longrightarrow> plausible d (Add_Tank kd) \<Longrightarrow> books_ok d \<Longrightarrow> books_ok d'"
  "update_tank d i ku u = Inr (x, d') \<Longrightarrow> plausible d (Change_Tank i ku) \<Longrightarrow> books_ok d \<Longrightarrow> books_ok d'"
  "delete_tank d i u = Inr d' \<Longrightarrow> books_ok d \<Longrightarrow> books_ok d'"
  "route_create_tank_dip e d ed u = Inr (y, d') \<Longrightarrow> plausible d (Measure_Tank ed) \<Longrightarrow> books_ok d \<Longrightarrow> books_ok d'"
  by (auto simp: tank_defs lookups res_simps Let_def volume_fits_def books_ok_def tank_ok_def)

lemma suppliers_books:
  "create_supplier d yd u = Inr (x, d') \<Longrightarrow> books_ok d \<Longrightarrow> books_ok d'"
  "update_supplier d i yu u = Inr (x, d') \<Longrightarrow> books_ok d \<Longrightarrow> books_ok d'"
  "delete_supplier d i u = Inr d' \<Longrightarrow> books_ok d \<Longrightarrow> books_ok d'"
  using books_ok_rows(3) [of d i]
  by (auto simp: master_data_defs res_simps Let_def books_ok_def supplier_ok_def split: option.splits if_splits)

lemma customers_books:
  "route_create_customer d data u = Inr (x, d') \<Longrightarrow> books_ok d \<Longrightarrow> books_ok d'"
  "route_update_customer d i cu u = Inr (x, d') \<Longrightarrow> books_ok d \<Longrightarrow> books_ok d'"
  "delete_customer d i u = Inr d' \<Longrightarrow> books_ok d \<Longrightarrow> books_ok d'"
    apply (auto simp: route_create_customer_def res_simps intro: create_customer_books)[1]
   apply (auto simp: route_update_customer_def lookups res_simps intro: update_customer_books books_ok_rows)[1]
  by (auto simp: delete_customer_def lookups res_simps books_ok_def)

lemma other_master_data_books:
  "create_tanker_route d td u = Inr (x1, d') \<Longrightarrow> books_ok d' = books_ok d"
  "update_tanker_route d i tu u = Inr (x1, d') \<Longrightarrow> books_ok d' = books_ok d"
  "delete_tanker d i u = Inr d' \<Longrightarrow> books_ok d' = books_ok d"
  "create_nozzle e d zd u = Inr (x2, d') \<Longrightarrow> books_ok d' = books_ok d"
  "update_nozzle d i zu u = Inr (x2, d') \<Longrightarrow> books_ok d' = books_ok d"
  "delete_nozzle d i u = Inr d' \<Longrightarrow> books_ok d' = books_ok d"
  by (auto simp: master_data_defs lookups res_simps Let_def books_ok_def split: option.splits if_splits)

lemma shop_books:
  "route_create_pos_product d pd u = Inr (x1, d') \<Longrightarrow> books_ok d' = books_ok d"
  "route_update_pos_product d i pu u = Inr (x1, d') \<Longrightarrow> books_ok d' = books_ok d"
  "delete_pos_product d i u = Inr d' \<Longrightarrow> books_ok d' = books_ok d"
  "route_create_pos_sale e d sd u = Inr (x2, d') \<Longrightarrow> books_ok d' = books_ok d"
  "route_reverse_pos_sale e d i u = Inr (x2, d') \<Longrightarrow> books_ok d' = books_ok d"
  by (auto simp: shop_defs lookups res_simps Let_def books_ok_def split: option.splits if_splits)

lemmas trip_movements = add_trip_delivery_books other_trip_steps_books complete_trip_books

lemmas override_movements = request_credit_override_books [OF _ _ books_ok_rows(2)]
  approve_credit_override_books [OF _ _ books_ok_rows(2)] reject_credit_override_books [OF _ _ books_ok_rows(2)]

lemma respond_books:
  assumes "respond e u r d = Inr d'" "plausible d r" "books_ok d"
  shows "books_ok d'"
proof (cases "leaves_trace r")
  case True
  with assms show ?thesis
    by (cases r) (auto simp: commit_Inr audited_route_defs lookups res_simps shifts_books expenses_books meters_books reviews_books
      intro: sale_movements(1) customer_payment_movements(1) supplier_payment_movements(1) purchase_movements trip_movements
        override_movements)
next
  case False
  with assms show ?thesis
    by (cases r) (auto simp: commit_Inr other_master_data_books shop_books simp del: plausible.simps
      intro: tanks_books suppliers_books customers_books)
qed
section \<open>Histories\<close>

text \<open>A history is the requests the code accepts when they are made one after the other.\<close>

fun replay :: "(db \<Rightarrow> request \<Rightarrow> bool) \<Rightarrow> db \<Rightarrow> entry list \<Rightarrow> db option" where
  "replay P d [] = Some d"
| "replay P d ((e, u, r) # h) =
     (if P d r then (case respond e u r d of Inl exc \<Rightarrow> None | Inr d' \<Rightarrow> replay P d' h) else None)"

lemma replay_append: "replay P d (h @ h') = (case replay P d h of None \<Rightarrow> None | Some d1 \<Rightarrow> replay P d1 h')"
  by (induction P d h rule: replay.induct) (auto split: sum.split)

lemma operations_iff_replay: "operations P d h d' \<longleftrightarrow> replay P d h = Some d'"
proof
  show "replay P d h = Some d'" if "operations P d h d'"
    using that by induction (simp_all add: replay_append)
  show "operations P d h d'" if "replay P d h = Some d'"
    using that
  proof (induction h arbitrary: d' rule: rev_induct)
    case Nil
    then show ?case by (simp add: operations.start)
  next
    case (snoc a h)
    obtain e u r where a: "a = (e, u, r)" by (cases a) auto
    from snoc show ?case
      by (auto simp: a replay_append split: option.splits if_splits sum.splits intro: operations.accepted)
  qed
qed

text \<open>
  C36. Along every history of requests, whoever makes them and however they interleave, the books of a station stay in order: no
  tank is below empty or above its capacity, no customer or supplier balance is negative, and no recorded amount is, as long as
  the volumes that are entered by hand fit in their tanks.
\<close>

theorem books_invariant:
  assumes "operations plausible d h d'" "books_ok d"
  shows "books_ok d'"
  using assms by induction (auto dest: respond_books)

text \<open>
  C37. The audit trail accounts for a history: it is only ever appended to, every entry that is added was made by the user of a
  request of the history at its time, and every accepted request other than master data, tank measurements and the shop has
  at least one entry, in the order of the requests.
\<close>

theorem audit_trail_accounts:
  assumes "operations P d h d'"
  shows "\<exists>entries. trail d' = trail d @ concat entries
    \<and> list_all2 (\<lambda>(e, u, r) xs. list_all (made_by e u) xs \<and> (xs \<noteq> [] \<longleftrightarrow> leaves_trace r)) h entries"
  using assms
proof induction
  case start
  show ?case by (intro exI [of _ "[]"]) simp
next
  case (accepted h d1 r e u d2)
  then obtain entries where E: "trail d1 = trail d @ concat entries"
    "list_all2 (\<lambda>(e, u, r) xs. list_all (made_by e u) xs \<and> (xs \<noteq> [] \<longleftrightarrow> leaves_trace r)) h entries" by blast
  obtain xs where X: "trail d2 = trail d1 @ xs" "list_all (made_by e u) xs" "xs \<noteq> [] \<longleftrightarrow> leaves_trace r"
    using respond_audited [OF accepted.hyps(3)] respond_silent [OF accepted.hyps(3)]
    by (cases "leaves_trace r") (auto simp: audited_def)
  show ?case
    by (intro exI [of _ "entries @ [xs]"]) (use E X in \<open>simp add: list_all2_appendI\<close>)
next
  case refused
  then show ?case by blast
qed

definition sample_history :: "entry list" where
  "sample_history =
     [(sample_env, sample_operator, Record_Sale sample_sale_data),
      (sample_env, sample_manager, Review_Sale 1 Reversal None),
      (sample_env, sample_operator, Record_Customer_Payment sample_customer_payment_data),
      (sample_env, sample_head_office, Review_Sale 1 Approval None),
      (sample_env, sample_manager, Measure_Tank \<lparr>ed_tank_id = 1, ed_dip_reading_mm = 900, ed_calculated_volume = 3990, ed_notes = None\<rparr>)]"

lemma sample_history_accepted: "\<exists>d'. replay plausible sample_db sample_history = Some d'"
proof -
  have "replay plausible sample_db sample_history \<noteq> None" by code_simp
  then show ?thesis by blast
qed

theorem books_invariant_witness:
  "\<exists>d'. replay plausible sample_db sample_history = Some d' \<and> books_ok d'"
proof -
  obtain d' where "replay plausible sample_db sample_history = Some d'" using sample_history_accepted by blast
  moreover have "books_ok sample_db" by code_simp
  ultimately show ?thesis using books_invariant [of sample_db sample_history d'] by (simp add: operations_iff_replay)
qed

theorem audit_trail_accounts_witness:
  "\<exists>d' entries. replay plausible sample_db sample_history = Some d' \<and> trail d' = concat entries \<and> length entries = 5
    \<and> list_all (made_by sample_env sample_operator) (entries ! 0) \<and> entries ! 0 \<noteq> [] \<and> entries ! 4 = []"
proof -
  obtain d' where R: "replay plausible sample_db sample_history = Some d'" using sample_history_accepted by blast
  then obtain entries where E: "trail d' = trail sample_db @ concat entries"
    "list_all2 (\<lambda>(e, u, r) xs. list_all (made_by e u) xs \<and> (xs \<noteq> [] \<longleftrightarrow> leaves_trace r)) sample_history entries"
    using audit_trail_accounts [of plausible sample_db sample_history d'] by (auto simp: operations_iff_replay)
  have "trail sample_db = []" by code_simp
  with R E show ?thesis
    by (intro exI [of _ d'] exI [of _ entries]) (auto simp: sample_history_def list_all2_Cons1)
qed

end
