(* ===== verification/Application.thy ===== *)
theory Application
  imports Sessions
begin

text \<open>
  \<open>app/main.py\<close> and \<open>app/api/__init__.py\<close>: which routers the application has, which of them ask for a login, and how answers and
  exceptions become HTTP responses; with it the routes of \<open>api/auth.py\<close> as an HTTP client sees them. FastAPI's own part is the
  record \<open>framework\<close>: how the bearer token is read from the header, the errors of a body that does not fit its schema, the request id
  it draws, and the peer of the connection.
\<close>

section \<open>The routers (\<open>api/__init__.py\<close>)\<close>

record router_entry =
  rt_name :: string
  rt_protected :: bool

definition ROUTER_REGISTRY :: "router_entry list" where
  "ROUTER_REGISTRY = map (\<lambda>(n, p). \<lparr>rt_name = n, rt_protected = p\<rparr>)
     [(''auth'', False), (''brands'', True), (''audit_logs'', True), (''attendance'', True), (''roles'', True),
      (''organizations'', True), (''organization_modules'', True), (''stations'', True),
      (''station_modules'', True), (''users'', True), (''fuel_types'', True), (''tanks'', True),
      (''dispensers'', True), (''nozzles'', True), (''notifications'', True), (''online_api_hooks'', True),
      (''online_api_hooks_public'', False), (''fuel_sales'', True), (''financial_documents'', True),
      (''saas'', True), (''hardware'', True), (''invoice_profiles'', True), (''document_templates'', True),
      (''employee_profiles'', True), (''customers'', True), (''suppliers'', True), (''purchases'', True),
      (''pos_products'', True), (''pos_sales'', True), (''payroll'', True), (''tankers'', True),
      (''expenses'', True), (''accounting'', True), (''reports'', True), (''report_exports'', True),
      (''customer_payments'', True), (''supplier_payments'', True), (''ledger'', True), (''maintenance'', True),
      (''shifts'', True), (''tank_dips'', True), (''dashboard'', True)]"

fun split_commas :: "string \<Rightarrow> string list" where
  "split_commas [] = [[]]"
| "split_commas (c # s) =
     (if c = CHR '','' then [] # split_commas s
      else case split_commas s of [] \<Rightarrow> [[c]] | w # ws \<Rightarrow> (c # w) # ws)"

definition resolve_enabled_modules :: "string \<Rightarrow> string option \<Rightarrow> string list" where
  \<comment> \<open>the first argument is the setting \<open>ENABLED_MODULES\<close>; the set is kept as a list\<close>
  "resolve_enabled_modules setting enabled_modules =
     (let configured = py_strip (if truthy enabled_modules then the enabled_modules else setting) in
      if configured = ''*'' \<or> configured = [] then map rt_name ROUTER_REGISTRY
      else filter (\<lambda>w. w \<noteq> []) (map py_strip (split_commas configured)))"

definition included_routers :: "string list \<Rightarrow> router_entry list" where
  "included_routers active_modules = filter (\<lambda>r. rt_name r \<in> set active_modules) ROUTER_REGISTRY"

definition worker_started :: "bool \<Rightarrow> string list \<Rightarrow> bool" where
  "worker_started delivery_worker_enabled active_modules \<longleftrightarrow>
     delivery_worker_enabled \<and> (''notifications'' \<in> set active_modules \<or> ''financial_documents'' \<in> set active_modules)"

section \<open>Requests and responses\<close>

record web_request =
  wq_method :: string
  wq_path :: string
  wq_headers :: "(string \<times> string) list"
  wq_params :: jobject
  wq_json :: "jval option"

datatype body = No_Body | Json jval | Other string

record web_response =
  wr_status :: nat
  wr_headers :: "(string \<times> string) list"
  wr_body :: body

record framework =
  fw_bearer :: "string option \<Rightarrow> string option"
  fw_body_errors :: "web_request \<Rightarrow> jval list"
  fw_uuid :: string
  fw_client_host :: "string option"

definition header :: "string \<Rightarrow> web_request \<Rightarrow> string option" where
  \<comment> \<open>the names of headers are compared without case\<close>
  "header name q = map_of (map (\<lambda>(k, v). (py_lower k, v)) (wq_headers q)) (py_lower name)"

definition request_id :: "framework \<Rightarrow> web_request \<Rightarrow> string" where
  "request_id fw q = (if truthy (header ''X-Request-ID'' q) then the (header ''X-Request-ID'' q) else fw_uuid fw)"

definition add_request_context :: "framework \<Rightarrow> web_request \<Rightarrow> web_response \<Rightarrow> web_response" where
  "add_request_context fw q r = r\<lparr>wr_headers := wr_headers r @ [(''X-Request-ID'', request_id fw q)]\<rparr>"

definition error_content :: "framework \<Rightarrow> web_request \<Rightarrow> nat \<Rightarrow> jval \<Rightarrow> web_response" where
  "error_content fw q status detail =
     \<lparr>wr_status = status, wr_headers = [], wr_body = Json (JObj [(''detail'', detail), (''request_id'', JStr (request_id fw q))])\<rparr>"

definition validation_exception_handler :: "framework \<Rightarrow> web_request \<Rightarrow> web_response" where
  "validation_exception_handler fw q = error_content fw q 422 (JList (fw_body_errors fw q))"

definition exception_response :: "framework \<Rightarrow> web_request \<Rightarrow> pyexc \<Rightarrow> web_response" where
  \<comment> \<open>\<open>http_exception_handler\<close> and \<open>unhandled_exception_handler\<close>\<close>
  "exception_response fw q exc =
     (case exc of
        HTTPException status detail \<Rightarrow> error_content fw q status (JText detail)
      | _ \<Rightarrow> error_content fw q 500 (JStr ''Internal server error''))"

definition unauthenticated :: "framework \<Rightarrow> web_request \<Rightarrow> pyexc \<Rightarrow> web_response" where
  \<comment> \<open>the exceptions of \<open>oauth2_scheme\<close> and \<open>get_current_user\<close> carry a header, which the handler passes on\<close>
  "unauthenticated fw q exc = (exception_response fw q exc)\<lparr>wr_headers := [(''WWW-Authenticate'', ''Bearer'')]\<rparr>"

definition not_found :: web_response where
  \<comment> \<open>no route: Starlette's exception, which is none of the handlers of \<open>main.py\<close>\<close>
  "not_found = \<lparr>wr_status = 404, wr_headers = [], wr_body = Json (JObj [(''detail'', JStr ''Not Found'')])\<rparr>"

definition json_response :: "jval \<Rightarrow> web_response" where
  "json_response j = \<lparr>wr_status = 200, wr_headers = [], wr_body = Json j\<rparr>"

section \<open>Protected routers\<close>

definition authenticate :: "framework \<Rightarrow> crypto \<Rightarrow> env \<Rightarrow> db \<Rightarrow> web_request \<Rightarrow> user res" where
  \<comment> \<open>\<open>Depends(get_current_user)\<close> behind \<open>oauth2_scheme\<close>\<close>
  "authenticate fw c e d q =
     (case fw_bearer fw (header ''Authorization'' q) of None \<Rightarrow> http 401 ''Not authenticated''
      | Some token \<Rightarrow> get_current_user c e d token)"

definition serve_router ::
  "framework \<Rightarrow> crypto \<Rightarrow> env \<Rightarrow> db \<Rightarrow> string list \<Rightarrow> string \<Rightarrow> web_request \<Rightarrow> (user option \<Rightarrow> (jval \<times> db) res) \<Rightarrow> web_response \<times> db" where
  \<comment> \<open>a request to an endpoint of the router called \<open>name\<close>, whose handler is the last argument\<close>
  "serve_router fw c e d active_modules name q handler =
     (let failed = (\<lambda>exc. (add_request_context fw q (exception_response fw q exc), d));
          answer = (\<lambda>u. case handler u of Inl exc \<Rightarrow> failed exc
                     | Inr (j, d') \<Rightarrow> (add_request_context fw q (json_response j), d')) in
      case find (\<lambda>r. rt_name r = name) (included_routers active_modules) of
        None \<Rightarrow> (add_request_context fw q not_found, d)
      | Some r \<Rightarrow>
        if \<not> rt_protected r then answer None
        else (case authenticate fw c e d q of Inl exc \<Rightarrow> (add_request_context fw q (unauthenticated fw q exc), d)
              | Inr u \<Rightarrow> answer (Some u)))"
lemma current_user_session:
  assumes "get_current_user c e d token = Inr u"
  shows "\<exists>claims s. jwt_decode c token = Some claims \<and> cl_type claims = Some ''access'' \<and> cl_sid claims = Some (as_id s)
    \<and> s \<in> set (auth_sessions d) \<and> as_user_id s = u_id u \<and> live s \<and> now e < as_expires_at s
    \<and> u \<in> set (users d) \<and> u_is_active u"
proof -
  from assms obtain claims i j where C: "jwt_decode c token = Some claims" "cl_type claims = Some ''access''"
    "cl_sid claims = Some j" "get_row u_id (users d) i = Some u" "u_is_active u"
    "find (\<lambda>s. as_id s = j \<and> as_user_id s = u_id u \<and> live s \<and> now e < as_expires_at s) (auth_sessions d) \<noteq> None"
    by (auto simp: get_current_user_def credentials_exception_def split: option.splits if_splits)
  then obtain s where "find (\<lambda>s. as_id s = j \<and> as_user_id s = u_id u \<and> live s \<and> now e < as_expires_at s) (auth_sessions d) = Some s"
    by blast
  from find_SomeD [OF this] C get_row_Some [OF C(4)] show ?thesis by auto
qed

text \<open>
  C38. Every router but those of authentication and of inbound webhooks is closed without a login: whatever modules are enabled, a
  request to it either changes nothing and is answered with 401 or 404, or carries an access token of a session that is live, has not
  expired and belongs to an active user, as whom the handler runs.
\<close>

theorem protected_routers_need_login:
  assumes "serve_router fw c e d active_modules name q handler = (r, d')" "name \<notin> set [''auth'', ''online_api_hooks_public'']"
  shows "(d' = d \<and> wr_status r \<in> set [401, 404])
    \<or> (\<exists>token claims s u. fw_bearer fw (header ''Authorization'' q) = Some token \<and> jwt_decode c token = Some claims
        \<and> cl_type claims = Some ''access'' \<and> cl_sid claims = Some (as_id s) \<and> s \<in> set (auth_sessions d)
        \<and> live s \<and> now e < as_expires_at s \<and> as_user_id s = u_id u \<and> u \<in> set (users d) \<and> u_is_active u
        \<and> (case handler (Some u) of
             Inl exc \<Rightarrow> d' = d \<and> r = add_request_context fw q (exception_response fw q exc)
           | Inr (j, d1) \<Rightarrow> d' = d1 \<and> r = add_request_context fw q (json_response j)))"
proof (cases "find (\<lambda>r. rt_name r = name) (included_routers active_modules)")
  case None
  with assms(1) show ?thesis by (auto simp: serve_router_def not_found_def add_request_context_def)
next
  case (Some entry)
  then have "entry \<in> set ROUTER_REGISTRY" "rt_name entry = name"
    by (auto simp: included_routers_def dest!: find_SomeD)
  then have p: "rt_protected entry" using assms(2) by (auto simp: ROUTER_REGISTRY_def)
  show ?thesis
  proof (cases "authenticate fw c e d q")
    case (Inl exc)
    then have "\<exists>detail. exc = HTTPException 401 detail"
      by (auto simp: authenticate_def get_current_user_def credentials_exception_def split: option.splits if_splits)
    with assms(1) Some p Inl show ?thesis
      by (auto simp: serve_router_def unauthenticated_def exception_response_def error_content_def add_request_context_def)
  next
    case (Inr u)
    then obtain token where T: "fw_bearer fw (header ''Authorization'' q) = Some token" "get_current_user c e d token = Inr u"
      by (auto simp: authenticate_def split: option.splits)
    have "case handler (Some u) of Inl exc \<Rightarrow> d' = d \<and> r = add_request_context fw q (exception_response fw q exc)
        | Inr (j, d1) \<Rightarrow> d' = d1 \<and> r = add_request_context fw q (json_response j)"
      using assms(1) Some p Inr by (auto simp: serve_router_def Let_def split: sum.split prod.split)
    with T(1) current_user_session [OF T(2)] show ?thesis by blast
  qed
qed

section \<open>The routes of \<open>api/auth.py\<close> over HTTP\<close>

text \<open>The members of a JSON object have distinct names.\<close>

definition member :: "string \<Rightarrow> jval \<Rightarrow> jval option" where
  "member k j = (case j of JObj m \<Rightarrow> map_of m k | _ \<Rightarrow> None)"

definition string_member :: "string \<Rightarrow> jval \<Rightarrow> string option" where
  \<comment> \<open>a field of type \<open>str\<close> of a request body\<close>
  "string_member k j = (case member k j of Some (JStr s) \<Rightarrow> Some s | _ \<Rightarrow> None)"

definition token_json :: "token_response \<Rightarrow> jval" where
  "token_json r = JObj
     [(''access_token'', JStr (tr_access_token r)), (''refresh_token'', JStr (tr_refresh_token r)), (''token_type'', JStr ''bearer''),
      (''user_id'', JInt (tr_user_id r)), (''username'', JStr (tr_username r)), (''full_name'', JStr (tr_full_name r)),
      (''role_id'', JInt (tr_role_id r)), (''role_name'', JStr (tr_role_name r)), (''station_id'', jint (tr_station_id r)),
      (''organization_id'', jint (tr_organization_id r)), (''scope_level'', JStr (tr_scope_level r)),
      (''is_platform_user'', JBool (tr_is_platform_user r))]"

definition ROLE_CAPABILITY_SUMMARY :: "(string \<times> (string \<times> string) list) list" where
  "ROLE_CAPABILITY_SUMMARY =
    [(''MasterAdmin'', [(''scope'', ''Platform-wide''),
        (''governance'', ''Razex Solutions platform control, tenant onboarding, subscription control, and full support authority''),
        (''operations'', ''Can inspect and override any tenant configuration or operational module when needed'')]),
     (''Admin'', [(''scope'', ''System-wide''),
        (''governance'', ''Full system control, configuration, security, and maintenance''),
        (''operations'', ''All operational modules'')]),
     (''StationAdmin'', [(''scope'', ''Station-wide''),
        (''governance'', ''Station administration, user management, setup, and delegated control from the organization''),
        (''operations'', ''Most station modules with limited cross-organization authority'')]),
     (''HeadOffice'', [(''scope'', ''Organization-wide''),
        (''governance'', ''Approvals, oversight, reporting, and organization controls''),
        (''operations'', ''Read-heavy with approval authority across the organization'')]),
     (''Manager'', [(''scope'', ''Station-wide''),
        (''governance'', ''Station configuration and supervised operational management''),
        (''operations'', ''Most station workflows except sensitive governance actions'')]),
     (''Operator'', [(''scope'', ''Station-wide''),
        (''governance'', ''Day-to-day execution without governance authority''),
        (''operations'', ''Sales, shifts, purchases, and frontline workflows'')]),
     (''Accountant'', [(''scope'', ''Station-wide''),
        (''governance'', ''Financial review with limited operational mutation''),
        (''operations'', ''Payments, ledgers, documents, and reporting'')])]"

text \<open>
  The summary promises a station administrator most station modules; the permission matrix grants nothing but the
  management of employee profiles.
\<close>

lemma station_admin_permissions: "map fst (get_role_permissions ''StationAdmin'') = [''employee_profiles'']"
  by code_simp

definition names_json :: "string list \<Rightarrow> jval" where
  "names_json names = JList (map JStr names)"

definition permissions_json :: "(string \<times> string list) list \<Rightarrow> jval" where
  "permissions_json ps = JObj (map (\<lambda>(m, actions). (m, names_json actions)) ps)"

definition me_json :: "me_response \<Rightarrow> jval" where
  "me_json me =
     (let u = me_user me; rule = me_scope_rule me in JObj
      [(''id'', JInt (u_id u)), (''username'', JStr (u_username u)), (''full_name'', JStr (u_full_name u)), (''email'', jopt (u_email u)),
       (''is_active'', JBool (u_is_active u)), (''role_id'', JInt (role_id (u_role u))), (''role_name'', JStr (role_of u)),
       (''station_id'', jint (u_station_id u)), (''organization_id'', jint (me_organization_id me)), (''scope_level'', JStr (u_scope_level u)),
       (''is_platform_user'', JBool (u_is_platform_user u)),
       (''role_summary'', case map_of ROLE_CAPABILITY_SUMMARY (role_of u) of None \<Rightarrow> JNull
                          | Some m \<Rightarrow> JObj (map (\<lambda>(k, v). (k, JStr v)) m)),
       (''role_scope_rule'', JObj [(''scope_level'', JStr (scope_level rule)), (''requires_organization'', JBool (requires_organization rule)),
          (''requires_station'', JBool (requires_station rule)), (''platform_only'', JBool (platform_only rule))]),
       (''creatable_roles'', names_json (me_creatable_roles me)), (''permissions'', permissions_json (me_permissions me))])"

definition session_json :: "auth_session \<Rightarrow> jval" where
  "session_json s =
     (let instant = (\<lambda>t. case t of None \<Rightarrow> JNull | Some t \<Rightarrow> JText [At t]) in JObj
      [(''id'', JInt (as_id s)), (''is_active'', JBool (as_is_active s)), (''created_at'', JText [At (as_created_at s)]),
       (''expires_at'', JText [At (as_expires_at s)]), (''revoked_at'', instant (as_revoked_at s)), (''last_seen_at'', instant (as_last_seen_at s)),
       (''ip_address'', jopt (as_ip_address s)), (''user_agent'', jopt (as_user_agent s))])"

definition message_json :: "string \<Rightarrow> jval" where
  "message_json s = JObj [(''message'', JStr s)]"

definition answer :: "framework \<Rightarrow> web_request \<Rightarrow> jval res \<Rightarrow> web_response" where
  "answer fw q r = add_request_context fw q (case r of Inl exc \<Rightarrow> exception_response fw q exc | Inr j \<Rightarrow> json_response j)"

definition with_user ::
  "framework \<Rightarrow> crypto \<Rightarrow> env \<Rightarrow> web_request \<Rightarrow> (user \<Rightarrow> jval \<times> db) \<Rightarrow> db \<Rightarrow> web_response \<times> db" where
  "with_user fw c e q handler d =
     (case authenticate fw c e d q of Inl exc \<Rightarrow> (add_request_context fw q (unauthenticated fw q exc), d)
      | Inr u \<Rightarrow> (case handler u of (j, d') \<Rightarrow> (answer fw q (Inr j), d')))"

definition post_login :: "framework \<Rightarrow> crypto \<Rightarrow> env \<Rightarrow> web_request \<Rightarrow> db \<Rightarrow> web_response \<times> db" where
  "post_login fw c e q d =
     (case (Option.bind (wq_json q) (string_member ''username''), Option.bind (wq_json q) (string_member ''password'')) of
        (Some username, Some password) \<Rightarrow>
          (case login c e d username password (fw_client_host fw) (header ''user-agent'' q) of
             (r, d') \<Rightarrow> (answer fw q (map_sum id token_json r), d'))
      | _ \<Rightarrow> (add_request_context fw q (validation_exception_handler fw q), d))"

definition post_refresh :: "framework \<Rightarrow> crypto \<Rightarrow> env \<Rightarrow> web_request \<Rightarrow> db \<Rightarrow> web_response \<times> db" where
  "post_refresh fw c e q d =
     (case Option.bind (wq_json q) (string_member ''refresh_token'') of
        None \<Rightarrow> (add_request_context fw q (validation_exception_handler fw q), d)
      | Some token \<Rightarrow>
        (case refresh_auth_token c e d token (fw_client_host fw) (header ''user-agent'' q) of
           Inl exc \<Rightarrow> (answer fw q (Inl exc), d)
         | Inr (r, d') \<Rightarrow> (answer fw q (Inr (token_json r)), d')))"

definition get_my_sessions :: "db \<Rightarrow> user \<Rightarrow> jval" where
  "get_my_sessions d u = JList (map session_json (list_user_sessions d u))"

definition serve_auth :: "framework \<Rightarrow> crypto \<Rightarrow> env \<Rightarrow> web_request \<Rightarrow> db \<Rightarrow> web_response \<times> db" where
  "serve_auth fw c e q d =
     (if (wq_method q, wq_path q) = (''POST'', ''/auth/login'') then post_login fw c e q d
      else if (wq_method q, wq_path q) = (''POST'', ''/auth/refresh'') then post_refresh fw c e q d
      else if (wq_method q, wq_path q) = (''GET'', ''/auth/me'') then with_user fw c e q (\<lambda>u. (me_json (get_me d u), d)) d
      else if (wq_method q, wq_path q) = (''GET'', ''/auth/sessions'') then with_user fw c e q (\<lambda>u. (get_my_sessions d u, d)) d
      else if (wq_method q, wq_path q) = (''POST'', ''/auth/logout'')
      then with_user fw c e q (\<lambda>u. (message_json ''Logged out successfully'',
             logout c e d u (case header ''Authorization'' q of None \<Rightarrow> [] | Some h \<Rightarrow> h))) d
      else (add_request_context fw q not_found, d))"
section \<open>The routes of the application itself\<close>

definition read_root :: "env \<Rightarrow> string list \<Rightarrow> jval" where
  "read_root e active_modules = JObj
     [(''message'', JStr ''PPMS backend is running''), (''environment'', JStr (app_env e)),
      (''enabled_modules'', names_json (sort (remdups active_modules)))]"

definition application_health :: "env \<Rightarrow> bool \<Rightarrow> string \<Rightarrow> string \<Rightarrow> string list \<Rightarrow> jval" where
  "application_health e delivery_worker_enabled database_url backup_directory active_modules = JObj
     [(''status'', JStr ''ok''), (''environment'', JStr (app_env e)), (''enabled_modules'', names_json (sort (remdups active_modules))),
      (''delivery_worker_enabled'', JBool delivery_worker_enabled), (''database_configured'', JBool (database_url \<noteq> [])),
      (''backup_directory'', JStr backup_directory)]"

section \<open>Samples\<close>

definition sample_framework :: framework where
  "sample_framework = \<lparr>fw_bearer = (\<lambda>h. case h of None \<Rightarrow> None | Some s \<Rightarrow> if take 7 s = ''Bearer '' then Some (drop 7 s) else None),
     fw_body_errors = (\<lambda>_. []), fw_uuid = ''id'', fw_client_host = None\<rparr>"

definition sample_request :: web_request where
  "sample_request = \<lparr>wq_method = ''GET'', wq_path = ''/ledger/customer/1'', wq_headers = [], wq_params = [], wq_json = None\<rparr>"

theorem protected_routers_need_login_witness:
  "\<exists>r. serve_router sample_framework sample_crypto sample_env sample_db [''ledger''] ''ledger'' sample_request (\<lambda>_. Inr (JNull, empty_db)) = (r, sample_db)
     \<and> wr_status r \<in> set [401, 404]"
proof -
  let ?handler = "\<lambda>_. Inr (JNull, empty_db)"
  obtain r d' where S: "serve_router sample_framework sample_crypto sample_env sample_db [''ledger''] ''ledger'' sample_request ?handler = (r, d')"
    by fastforce
  have "fw_bearer sample_framework (header ''Authorization'' sample_request) = None"
    by (simp add: sample_framework_def sample_request_def header_def)
  with protected_routers_need_login [OF S] show ?thesis using S by auto
qed

end
