(* ===== verification/Desktop.thy ===== *)
theory Desktop
  imports Application
begin

text \<open>
  The desktop client: \<open>desktop_app/api_client.py\<close>, which keeps the tokens of a login and renews them when the server refuses one,
  \<open>navigation.py\<close>, and the state behind the windows of \<open>app.py\<close> and \<open>views/sales_view.py\<close> (the widgets themselves are Tk). The
  network is the parameter \<open>net\<close>: what a request does to the other side, and its response or the text of a \<open>RequestException\<close>.
\<close>

section \<open>The client (\<open>api_client.py\<close>)\<close>

type_synonym 's network = "web_request \<Rightarrow> 's \<Rightarrow> (string + web_response) \<times> 's"

datatype client_exc =
    ApiError jval "nat option"
  | RequestException string
  | JSONDecodeError
  | KeyError string
  | ClientTypeError
  | ClientAttributeError

type_synonym 'a client_res = "client_exc + 'a"

record auth_tokens =
  ot_access_token :: string
  ot_refresh_token :: string

record api_client =
  ak_base_url :: string
  ak_tokens :: "auth_tokens option"

definition rstrip_slashes :: "string \<Rightarrow> string" where
  "rstrip_slashes s = rev (dropWhile (\<lambda>c. c = CHR ''/'') (rev s))"

definition new_api_client :: "string \<Rightarrow> api_client" where
  "new_api_client base_url = \<lparr>ak_base_url = rstrip_slashes base_url, ak_tokens = None\<rparr>"

definition set_base_url :: "string \<Rightarrow> api_client \<Rightarrow> api_client" where
  "set_base_url base_url k = k\<lparr>ak_base_url := rstrip_slashes base_url\<rparr>"

definition is_authenticated :: "api_client \<Rightarrow> bool" where
  "is_authenticated k \<longleftrightarrow> ak_tokens k \<noteq> None"

definition client_url :: "api_client \<Rightarrow> string \<Rightarrow> string" where
  "client_url k path = ak_base_url k @ path"

fun json_true :: "jval \<Rightarrow> bool" where
  \<comment> \<open>truth value\<close>
  "json_true JNull = False"
| "json_true (JInt i) = (i \<noteq> 0)"
| "json_true (JFloat x) = (x \<noteq> 0)"
| "json_true (JStr s) = (s \<noteq> [])"
| "json_true (JBool b) = b"
| "json_true (JText t) = (t \<noteq> [])"
| "json_true (JList xs) = (xs \<noteq> [])"
| "json_true (JObj m) = (m \<noteq> [])"

definition response_text :: "body \<Rightarrow> jval" where
  \<comment> \<open>the text of a JSON body is kept as its value\<close>
  "response_text b = (case b of No_Body \<Rightarrow> JStr [] | Json j \<Rightarrow> j | Other s \<Rightarrow> JStr s)"

fun joined_messages :: "jval list \<Rightarrow> jval list client_res" where
  \<comment> \<open>the parts of \<open>"; ".join(item.get("msg", "Validation error") for item in detail)\<close>\<close>
  "joined_messages [] = Inr []"
| "joined_messages (item # items) =
     (case item of
        JObj m \<Rightarrow>
          (case (case map_of m ''msg'' of None \<Rightarrow> JStr ''Validation error'' | Some v \<Rightarrow> v) of
             JStr s \<Rightarrow> map_sum id ((#) (JStr s)) (joined_messages items)
           | JText s \<Rightarrow> map_sum id ((#) (JText s)) (joined_messages items)
           | _ \<Rightarrow> Inl ClientTypeError)
      | _ \<Rightarrow> Inl ClientAttributeError)"

definition build_api_error :: "web_response \<Rightarrow> client_exc" where
  "build_api_error r =
     (let message_of = (\<lambda>detail. case detail of
            JList items \<Rightarrow> map_sum id JList (joined_messages items)
          | _ \<Rightarrow> Inr (if json_true detail then detail
                     else if wr_body r \<noteq> No_Body \<and> wr_body r \<noteq> Other [] then response_text (wr_body r)
                     else JStr ''Request failed''));
          message = (case wr_body r of
            Json (JObj m) \<Rightarrow> message_of (case map_of m ''detail'' of None \<Rightarrow> JNull | Some v \<Rightarrow> v)
          | Json _ \<Rightarrow> Inl ClientAttributeError
          | _ \<Rightarrow> message_of JNull)
      in case message of Inl exc \<Rightarrow> exc | Inr m \<Rightarrow> ApiError m (Some (wr_status r)))"

definition index :: "jval option \<Rightarrow> string \<Rightarrow> jval client_res" where
  \<comment> \<open>\<open>payload[key]\<close>; \<open>None\<close> is the \<open>None\<close> of an empty response\<close>
  "index payload key =
     (case payload of
        Some (JObj m) \<Rightarrow> (case map_of m key of None \<Rightarrow> Inl (KeyError key) | Some v \<Rightarrow> Inr v)
      | _ \<Rightarrow> Inl ClientTypeError)"

definition tokens_of :: "jval option \<Rightarrow> auth_tokens client_res" where
  \<comment> \<open>\<open>AuthTokens(access_token=payload["access_token"], refresh_token=payload["refresh_token"])\<close>, only strings are considered\<close>
  "tokens_of payload =
     (case index payload ''access_token'' of Inl exc \<Rightarrow> Inl exc | Inr a \<Rightarrow>
      case index payload ''refresh_token'' of Inl exc \<Rightarrow> Inl exc | Inr r \<Rightarrow>
      case (a, r) of (JStr a, JStr r) \<Rightarrow> Inr \<lparr>ot_access_token = a, ot_refresh_token = r\<rparr> | _ \<Rightarrow> Inl ClientTypeError)"

definition refresh_tokens :: "'s network \<Rightarrow> api_client \<Rightarrow> 's \<Rightarrow> unit client_res \<times> api_client \<times> 's" where
  \<comment> \<open>the network error of this request is not caught\<close>
  "refresh_tokens net k s =
     (case ak_tokens k of
        None \<Rightarrow> (Inl (ApiError (JStr ''Session expired. Please sign in again.'') (Some 401)), k, s)
      | Some t \<Rightarrow>
        (case net \<lparr>wq_method = ''POST'', wq_path = client_url k ''/auth/refresh'', wq_headers = [], wq_params = [],
                   wq_json = Some (JObj [(''refresh_token'', JStr (ot_refresh_token t))])\<rparr> s of
           (Inl exc, s') \<Rightarrow> (Inl (RequestException exc), k, s')
         | (Inr r, s') \<Rightarrow>
           if wr_status r \<ge> 400 then (Inl (build_api_error r), k\<lparr>ak_tokens := None\<rparr>, s')
           else (case wr_body r of
               Json payload \<Rightarrow>
                 (case tokens_of (Some payload) of Inl exc \<Rightarrow> (Inl exc, k, s')
                  | Inr t' \<Rightarrow> (Inr (), k\<lparr>ak_tokens := Some t'\<rparr>, s'))
             | _ \<Rightarrow> (Inl JSONDecodeError, k, s'))))"

record api_call =
  ax_method :: string
  ax_path :: string
  ax_params :: jobject
  ax_json :: "jval option"

definition bearer_header :: "string \<Rightarrow> string" where
  "bearer_header token = ''Bearer '' @ token"

definition call_request :: "api_client \<Rightarrow> bool \<Rightarrow> api_call \<Rightarrow> web_request" where
  "call_request k auth_required x =
     \<lparr>wq_method = ax_method x, wq_path = client_url k (ax_path x),
      wq_headers = (case ak_tokens k of
          Some t \<Rightarrow> if auth_required then [(''Authorization'', bearer_header (ot_access_token t))] else []
        | None \<Rightarrow> []),
      wq_params = ax_params x, wq_json = ax_json x\<rparr>"

function client_request :: "'s network \<Rightarrow> bool \<Rightarrow> bool \<Rightarrow> api_call \<Rightarrow> api_client \<Rightarrow> 's \<Rightarrow> jval option client_res \<times> api_client \<times> 's" where
  "client_request net auth_required allow_refresh x k s =
     (case net (call_request k auth_required x) s of
        (Inl exc, s1) \<Rightarrow> (Inl (ApiError (JText [T ''Unable to reach PPMS backend: '', T exc]) None), k, s1)
      | (Inr r, s1) \<Rightarrow>
        if wr_status r = 401 \<and> auth_required \<and> allow_refresh \<and> ak_tokens k \<noteq> None then
          (case refresh_tokens net k s1 of
             (Inl exc, k1, s2) \<Rightarrow> (Inl exc, k1, s2)
           | (Inr _, k1, s2) \<Rightarrow> client_request net auth_required False x k1 s2)
        else if wr_status r \<ge> 400 then (Inl (build_api_error r), k, s1)
        else (case wr_body r of
            No_Body \<Rightarrow> (Inr None, k, s1)
          | Other t \<Rightarrow> (if t = [] then Inr None else Inl JSONDecodeError, k, s1)
          | Json j \<Rightarrow> (Inr (Some j), k, s1)))"
  by pat_completeness auto
termination
  by (relation "measure (\<lambda>(net, auth_required, allow_refresh, x, k, s). if allow_refresh then 1 else 0)") auto

declare client_request.simps [simp del]
text \<open>The methods of the client, each one request.\<close>

definition client_login :: "'s network \<Rightarrow> string \<Rightarrow> string \<Rightarrow> api_client \<Rightarrow> 's \<Rightarrow> jval option client_res \<times> api_client \<times> 's" where
  "client_login net username password k s =
     (case client_request net False True
         \<lparr>ax_method = ''POST'', ax_path = ''/auth/login'', ax_params = [],
          ax_json = Some (JObj [(''username'', JStr username), (''password'', JStr password)])\<rparr> k s of
        (Inl exc, k1, s1) \<Rightarrow> (Inl exc, k1, s1)
      | (Inr payload, k1, s1) \<Rightarrow>
        (case tokens_of payload of Inl exc \<Rightarrow> (Inl exc, k1, s1)
         | Inr t \<Rightarrow> (Inr payload, k1\<lparr>ak_tokens := Some t\<rparr>, s1)))"

definition client_logout :: "'s network \<Rightarrow> api_client \<Rightarrow> 's \<Rightarrow> unit client_res \<times> api_client \<times> 's" where
  "client_logout net k s =
     (if \<not> is_authenticated k then (Inr (), k, s)
      else case client_request net True False \<lparr>ax_method = ''POST'', ax_path = ''/auth/logout'', ax_params = [], ax_json = None\<rparr> k s of
        (r, k1, s1) \<Rightarrow> (map_sum id (\<lambda>_. ()) r, k1\<lparr>ak_tokens := None\<rparr>, s1))"

definition get_call :: "string \<Rightarrow> jobject \<Rightarrow> api_call" where
  "get_call path params = \<lparr>ax_method = ''GET'', ax_path = path, ax_params = params, ax_json = None\<rparr>"

definition station_param :: "int option \<Rightarrow> jobject" where
  "station_param station_id = (case station_id of None \<Rightarrow> [] | Some i \<Rightarrow> [(''station_id'', JInt i)])"

definition get_root_info :: "'s network \<Rightarrow> api_client \<Rightarrow> 's \<Rightarrow> jval option client_res \<times> api_client \<times> 's" where
  "get_root_info net = client_request net False False (get_call ''/'' [])"

definition get_health :: "'s network \<Rightarrow> api_client \<Rightarrow> 's \<Rightarrow> jval option client_res \<times> api_client \<times> 's" where
  "get_health net = client_request net False False (get_call ''/health'' [])"

definition client_current_user :: "'s network \<Rightarrow> api_client \<Rightarrow> 's \<Rightarrow> jval option client_res \<times> api_client \<times> 's" where
  "client_current_user net = client_request net True True (get_call ''/auth/me'' [])"

definition client_sessions :: "'s network \<Rightarrow> api_client \<Rightarrow> 's \<Rightarrow> jval option client_res \<times> api_client \<times> 's" where
  "client_sessions net = client_request net True True (get_call ''/auth/sessions'' [])"

definition client_dashboard :: "'s network \<Rightarrow> int option \<Rightarrow> int option \<Rightarrow> api_client \<Rightarrow> 's \<Rightarrow> jval option client_res \<times> api_client \<times> 's" where
  "client_dashboard net station_id organization_id = client_request net True True (get_call ''/dashboard/''
     (station_param station_id @ (case organization_id of None \<Rightarrow> [] | Some i \<Rightarrow> [(''organization_id'', JInt i)])))"

definition client_stations :: "'s network \<Rightarrow> api_client \<Rightarrow> 's \<Rightarrow> jval option client_res \<times> api_client \<times> 's" where
  "client_stations net = client_request net True True (get_call ''/stations/'' [])"

definition client_nozzles :: "'s network \<Rightarrow> int option \<Rightarrow> api_client \<Rightarrow> 's \<Rightarrow> jval option client_res \<times> api_client \<times> 's" where
  "client_nozzles net station_id = client_request net True True (get_call ''/nozzles/'' (station_param station_id))"

definition client_fuel_types :: "'s network \<Rightarrow> api_client \<Rightarrow> 's \<Rightarrow> jval option client_res \<times> api_client \<times> 's" where
  "client_fuel_types net = client_request net True True (get_call ''/fuel-types/'' [])"

definition client_customers :: "'s network \<Rightarrow> int option \<Rightarrow> api_client \<Rightarrow> 's \<Rightarrow> jval option client_res \<times> api_client \<times> 's" where
  "client_customers net station_id = client_request net True True (get_call ''/customers/'' (station_param station_id))"

definition client_fuel_sales :: "'s network \<Rightarrow> int option \<Rightarrow> int \<Rightarrow> api_client \<Rightarrow> 's \<Rightarrow> jval option client_res \<times> api_client \<times> 's" where
  "client_fuel_sales net station_id limit =
     client_request net True True (get_call ''/fuel-sales/'' ((''limit'', JInt limit) # station_param station_id))"

definition client_create_fuel_sale :: "'s network \<Rightarrow> jval \<Rightarrow> api_client \<Rightarrow> 's \<Rightarrow> jval option client_res \<times> api_client \<times> 's" where
  "client_create_fuel_sale net payload =
     client_request net True True \<lparr>ax_method = ''POST'', ax_path = ''/fuel-sales/'', ax_params = [], ax_json = Some payload\<rparr>"

section \<open>One renewal, and none after a refusal\<close>

definition counted :: "'s network \<Rightarrow> ('s \<times> nat) network" where
  \<comment> \<open>the same network, counting its requests\<close>
  "counted net q sn = (case net q (fst sn) of (r, s') \<Rightarrow> (r, (s', Suc (snd sn))))"

lemma refresh_tokens_counted:
  assumes "refresh_tokens (counted net) k (s, n) = (r, k', (s', n'))" "ak_tokens k \<noteq> None"
  shows "n' = Suc n" "ak_tokens k' = None \<Longrightarrow> \<exists>response. wr_status response \<ge> 400 \<and> r = Inl (build_api_error response)"
    "r = Inr () \<Longrightarrow> ak_tokens k' \<noteq> None"
  using assms by (auto simp: refresh_tokens_def counted_def split: option.splits prod.splits sum.splits if_splits body.splits)

lemma request_unrenewed:
  assumes "client_request (counted net) auth False x k (s, n) = (r, k', (s', n'))"
  shows "n' = Suc n \<and> k' = k"
  using assms by (auto simp: client_request.simps counted_def split: prod.splits sum.splits if_splits body.splits)

text \<open>
  C40. A request of the client ends whatever the server answers: it takes one exchange with the server, or three when the server refuses the
  access token (the request, one renewal of the tokens, the request again), or two when the renewal fails too. The client gives up its
  tokens only when the server refuses the renewal, and reports that refusal.
\<close>

theorem request_renews_at_most_once:
  assumes "client_request (counted net) auth allow_refresh x k (s, n) = (r, k', (s', n'))"
  shows "n < n' \<and> n' \<le> n + 3 \<and> (n' = Suc n \<or> auth \<and> allow_refresh \<and> ak_tokens k \<noteq> None)
    \<and> (n' = Suc n \<longrightarrow> k' = k)
    \<and> (ak_tokens k \<noteq> None \<and> ak_tokens k' = None \<longrightarrow>
         n' = n + 2 \<and> (\<exists>response. wr_status response \<ge> 400 \<and> r = Inl (build_api_error response)))"
proof -
  obtain a s1 where N: "counted net (call_request k auth x) (s, n) = (a, (s1, Suc n))"
    by (cases "net (call_request k auth x) s") (auto simp: counted_def)
  show ?thesis
  proof (cases "\<exists>response. a = Inr response \<and> wr_status response = 401 \<and> auth \<and> allow_refresh \<and> ak_tokens k \<noteq> None")
    case False
    with assms N have "k' = k" "n' = Suc n"
      by (auto simp: client_request.simps split: sum.splits if_splits body.splits)
    then show ?thesis by auto
  next
    case True
    then obtain response where A: "a = Inr response" "wr_status response = 401" "auth" "allow_refresh" "ak_tokens k \<noteq> None" by blast
    obtain q k1 s2 n2 where R: "refresh_tokens (counted net) k (s1, Suc n) = (q, k1, (s2, n2))" by (metis prod_cases3 surj_pair)
    note refreshed = refresh_tokens_counted [OF R A(5)]
    show ?thesis
    proof (cases q)
      case (Inl exc)
      with assms N A R have "r = Inl exc" "k' = k1" "n' = n2" by (auto simp: client_request.simps)
      with refreshed Inl A show ?thesis by auto
    next
      case (Inr u)
      with assms N A R have "client_request (counted net) auth False x k1 (s2, n2) = (r, k', (s', n'))" by (auto simp: client_request.simps)
      from request_unrenewed [OF this] refreshed Inr A show ?thesis by auto
    qed
  qed
qed

text \<open>Signing out forgets the tokens whatever the server says.\<close>

lemma logout_forgets_tokens: "ak_tokens (fst (snd (client_logout net k s))) = None"
  by (auto simp: client_logout_def is_authenticated_def split: prod.split)

section \<open>The client and the server\<close>

text \<open>
  The network of a client that talks to the application at \<open>base\<close>: each exchange has its own moment (the clock and the tokens
  the server draws). The routes under \<open>/auth\<close> are those of \<open>Application\<close>; of the others \<open>router\<close> gives the router a path belongs to, and
  \<open>handler\<close> what its endpoint does for a user.
\<close>

type_synonym endpoint = "web_request \<Rightarrow> env \<Rightarrow> user option \<Rightarrow> db \<Rightarrow> (jval \<times> db) res"

definition serve :: "framework \<Rightarrow> string list \<Rightarrow> (string \<Rightarrow> string) \<Rightarrow> endpoint \<Rightarrow> crypto \<Rightarrow> env \<Rightarrow> web_request \<Rightarrow> db \<Rightarrow> web_response \<times> db" where
  "serve fw active router handler c e q d =
     (if py_startswith (wq_path q) ''/auth/'' then serve_auth fw c e q d
      else serve_router fw c e d active (router (wq_path q)) q (\<lambda>u. handler q e u d))"

definition app_network ::
  "framework \<Rightarrow> string list \<Rightarrow> (string \<Rightarrow> string) \<Rightarrow> endpoint \<Rightarrow> string \<Rightarrow> (db \<times> (crypto \<times> env) list) network" where
  "app_network fw active router handler base q w =
     (case w of
        (d, []) \<Rightarrow> (Inl ''timed out'', w)
      | (d, (c, e) # moments) \<Rightarrow>
        if \<not> py_startswith (wq_path q) base then (Inl ''connection refused'', (d, moments))
        else (case serve fw active router handler c e (q\<lparr>wq_path := drop (length base) (wq_path q)\<rparr>) d of
                (r, d') \<Rightarrow> (Inr r, (d', moments))))"

lemma network_exchange:
  assumes "wq_path q = base @ path"
  shows "app_network fw active router handler base q (d, (c, e) # ms)
    = (case serve fw active router handler c e (q\<lparr>wq_path := path\<rparr>) d of (r, d') \<Rightarrow> (Inr r, (d', ms)))"
  using assms by (simp add: app_network_def py_startswith_def)

lemma header_simps:
  "wq_headers q = [] \<Longrightarrow> header n q = None"
  "wq_headers q = [(''Authorization'', v)] \<Longrightarrow> header ''Authorization'' q = Some v"
  "wq_headers q = [(''Authorization'', v)] \<Longrightarrow> header ''user-agent'' q = None"
  by (simp_all add: header_def) code_simp+





section \<open>Navigation (\<open>navigation.py\<close>)\<close>

record navigation_item =
  ni_key :: string
  ni_title :: string
  ni_view_name :: string
  ni_required_module :: "string option"
  ni_required_permission :: "(string \<times> string) option"

definition NAVIGATION_ITEMS :: "navigation_item list" where
  "NAVIGATION_ITEMS =
     [\<lparr>ni_key = ''dashboard'', ni_title = ''Dashboard'', ni_view_name = ''dashboard'', ni_required_module = None, ni_required_permission = None\<rparr>,
      \<lparr>ni_key = ''sales'', ni_title = ''Sales'', ni_view_name = ''sales'', ni_required_module = Some ''fuel_sales'',
       ni_required_permission = Some (''fuel_sales'', ''create'')\<rparr>,
      \<lparr>ni_key = ''inventory'', ni_title = ''Inventory'', ni_view_name = ''inventory'', ni_required_module = Some ''tanks'',
       ni_required_permission = None\<rparr>,
      \<lparr>ni_key = ''reports'', ni_title = ''Reports'', ni_view_name = ''reports'', ni_required_module = Some ''reports'',
       ni_required_permission = Some (''reports'', ''read'')\<rparr>,
      \<lparr>ni_key = ''attendance'', ni_title = ''Attendance'', ni_view_name = ''attendance'', ni_required_module = Some ''attendance'',
       ni_required_permission = Some (''attendance'', ''read'')\<rparr>,
      \<lparr>ni_key = ''payroll'', ni_title = ''Payroll'', ni_view_name = ''payroll'', ni_required_module = Some ''payroll'',
       ni_required_permission = Some (''payroll'', ''read'')\<rparr>,
      \<lparr>ni_key = ''notifications'', ni_title = ''Notifications'', ni_view_name = ''notifications'', ni_required_module = Some ''notifications'',
       ni_required_permission = Some (''notifications'', ''read'')\<rparr>,
      \<lparr>ni_key = ''sessions'', ni_title = ''Sessions'', ni_view_name = ''sessions'', ni_required_module = None, ni_required_permission = None\<rparr>,
      \<lparr>ni_key = ''settings'', ni_title = ''Settings'', ni_view_name = ''settings'', ni_required_module = None, ni_required_permission = None\<rparr>]"

definition item_visible :: "string list \<Rightarrow> (string \<times> string list) list \<Rightarrow> navigation_item \<Rightarrow> bool" where
  "item_visible enabled permissions i \<longleftrightarrow>
     (truthy (ni_required_module i) \<longrightarrow> the (ni_required_module i) \<in> set enabled)
     \<and> (case ni_required_permission i of None \<Rightarrow> True
        | Some (m, action) \<Rightarrow> action \<in> set (case map_of permissions m of None \<Rightarrow> [] | Some actions \<Rightarrow> actions))"

definition build_navigation :: "string list \<Rightarrow> (string \<times> string list) list \<Rightarrow> navigation_item list" where
  "build_navigation enabled_modules permissions = filter (item_visible enabled_modules permissions) NAVIGATION_ITEMS"

lemma distinct_matrix: "distinct (map fst PERMISSION_MATRIX)"
  by code_simp

lemma distinct_role_permissions: "distinct (map fst (get_role_permissions r))"
proof -
  have "map fst (map (\<lambda>(m, acts). (m, f acts)) xs) = map fst xs" for f and xs :: "(string \<times> (string \<times> string list) list) list"
    by (simp add: comp_def case_prod_beta)
  moreover have "distinct (map fst xs) \<Longrightarrow> distinct (map fst (filter P xs))" for P and xs :: "(string \<times> string list) list"
    by (rule distinct_map_filter)
  ultimately show ?thesis
    using distinct_matrix by (simp add: get_role_permissions_def comp_def case_prod_beta del: distinct_map_filter)
qed

lemma listed_action:
  "a \<in> set (case map_of (get_role_permissions r) m of None \<Rightarrow> [] | Some actions \<Rightarrow> actions)
    \<longleftrightarrow> (\<exists>acts. (m, acts) \<in> set (get_role_permissions r) \<and> a \<in> set acts)"
proof (cases "map_of (get_role_permissions r) m")
  case None
  then have "(m, acts) \<notin> set (get_role_permissions r)" for acts by (auto simp: map_of_eq_None_iff image_iff)
  with None show ?thesis by simp
next
  case (Some acts)
  then have "(m, acts') \<in> set (get_role_permissions r) \<longleftrightarrow> acts' = acts" for acts'
    using distinct_role_permissions [of r] by (metis map_of_SomeD map_of_is_SomeI option.inject)
  then show ?thesis using Some by auto
qed

lemma allowed_nonempty: "r \<in> set (allowed_roles m a) \<Longrightarrow> allowed_roles m a \<noteq> []"
  by auto

text \<open>
  The menu of the desktop client agrees with the server: a user other than a platform user sees an entry exactly when the router behind it is
  enabled and the server's permission check admits the user, and a platform user is never shown an entry the check would refuse.
\<close>

theorem navigation_agrees_with_server:
  assumes "i \<in> set NAVIGATION_ITEMS"
  shows "let shown = i \<in> set (build_navigation (map rt_name (included_routers active)) (get_effective_permissions u));
             admitted = (\<forall>m. ni_required_module i = Some m \<longrightarrow> m \<in> set active)
               \<and> (\<forall>m a. ni_required_permission i = Some (m, a) \<longrightarrow> require_permission u m a [] = ok)
         in (shown \<longrightarrow> admitted) \<and> (role_of u = ''MasterAdmin'' \<or> \<not> u_is_platform_user u \<longrightarrow> shown = admitted)"
proof -
  have names: "ni_required_module i = Some m \<Longrightarrow> m \<noteq> [] \<and> m \<in> rt_name ` set ROUTER_REGISTRY" for m
    using assms by (auto simp: NAVIGATION_ITEMS_def ROUTER_REGISTRY_def)
  then have module: "(truthy (ni_required_module i) \<longrightarrow> the (ni_required_module i) \<in> set (map rt_name (included_routers active)))
      \<longleftrightarrow> (\<forall>m. ni_required_module i = Some m \<longrightarrow> m \<in> set active)"
    by (cases "ni_required_module i") (auto simp: truthy_def included_routers_def)
  have permission: "(case ni_required_permission i of None \<Rightarrow> True
        | Some (m, a) \<Rightarrow> a \<in> set (case map_of (get_role_permissions r) m of None \<Rightarrow> [] | Some actions \<Rightarrow> actions))
      \<longleftrightarrow> (\<forall>m a. ni_required_permission i = Some (m, a) \<longrightarrow> (\<exists>acts. (m, acts) \<in> set (get_role_permissions r) \<and> a \<in> set acts))" for r
  proof (cases "ni_required_permission i")
    case (Some p)
    then show ?thesis by (cases p) (simp only: option.case prod.case listed_action option.inject prod.inject, blast)
  qed simp
  have shown: "i \<in> set (build_navigation (map rt_name (included_routers active)) (get_effective_permissions u))
      \<longleftrightarrow> (\<forall>m. ni_required_module i = Some m \<longrightarrow> m \<in> set active)
        \<and> (\<forall>m a. ni_required_permission i = Some (m, a) \<longrightarrow>
             (\<exists>acts. (m, acts) \<in> set (get_role_permissions (role_of u)) \<and> a \<in> set acts))"
    unfolding build_navigation_def get_effective_permissions_def set_filter mem_Collect_eq item_visible_def module permission
    using assms by blast
  show ?thesis
  proof (cases "role_of u = ''MasterAdmin''")
    case True
    then show ?thesis
      unfolding Let_def shown True role_permissions_master
      by (auto simp: require_permission_ok is_master_admin_def True)
  next
    case False
    then show ?thesis
      unfolding Let_def shown role_permissions_other [OF False]
      by (auto simp: require_permission_ok is_master_admin_def is_platform_user_def dest: allowed_nonempty)
  qed
qed

section \<open>The sales form (\<open>views/sales_view.py\<close>)\<close>

text \<open>The members of the JSON rows that the form reads, and its variables; the feedback line is the last message set.\<close>

record sale_station =
  xs_id :: int
  xs_name :: string
  xs_code :: string

record sale_nozzle =
  xn_id :: int
  xn_name :: string
  xn_code :: string
  xn_fuel_type_id :: int

record sale_party =
  xc_id :: int
  xc_party_name :: string
  xc_code :: string

record sales_view =
  sv_station :: string
  sv_nozzle :: string
  sv_sale_type :: string
  sv_customer :: string
  sv_rate :: string
  sv_closing_meter :: string
  sv_shift_name :: string
  sv_feedback :: string
  sv_customer_enabled :: bool
  sv_customer_labels :: "string list"
  sv_station_map :: "(string \<times> sale_station) list"
  sv_nozzle_map :: "(string \<times> sale_nozzle) list"
  sv_customer_map :: "(string \<times> sale_party) list"
  sv_station_nozzles :: "int \<Rightarrow> sale_nozzle list"
  sv_station_customers :: "int \<Rightarrow> sale_party list"

definition walk_in :: string where
  "walk_in = ''Walk-in / cash customer''"

definition station_label :: "sale_station \<Rightarrow> string" where
  "station_label s = xs_name s @ '' ('' @ xs_code s @ '')''"

definition nozzle_label :: "sale_nozzle \<Rightarrow> string" where
  "nozzle_label n = xn_code n @ '' - '' @ xn_name n"

definition customer_label :: "sale_party \<Rightarrow> string" where
  "customer_label c = xc_code c @ '' - '' @ xc_party_name c"

definition dict_of :: "('a \<Rightarrow> string) \<Rightarrow> 'a list \<Rightarrow> (string \<times> 'a) list" where
  \<comment> \<open>a dictionary built entry by entry: the last entry of a label counts\<close>
  "dict_of label xs = rev (map (\<lambda>x. (label x, x)) xs)"

definition dict_items :: "('a \<Rightarrow> string) \<Rightarrow> 'a list \<Rightarrow> (string \<times> 'a) list" where
  \<comment> \<open>its items, in the order in which the labels were first entered\<close>
  "dict_items label xs = map (\<lambda>l. (l, the (map_of (dict_of label xs) l))) (rev (remdups (rev (map label xs))))"

definition toggle_customer_state :: "sales_view \<Rightarrow> sales_view" where
  "toggle_customer_state v =
     (if sv_sale_type v = ''credit'' then
        (let v' = v\<lparr>sv_customer_enabled := True\<rparr> in
         if (sv_customer v = [] \<or> sv_customer v = walk_in) \<and> length (sv_customer_labels v) > 1
         then v'\<lparr>sv_customer := sv_customer_labels v ! 1\<rparr> else v')
      else v\<lparr>sv_customer_enabled := False, sv_customer := walk_in\<rparr>)"

definition station_changed :: "sales_view \<Rightarrow> sales_view \<times> int option" where
  \<comment> \<open>the new state and the station whose recent sales are fetched (\<open>on_station_change\<close>)\<close>
  "station_changed v =
     (let station_id = map_option xs_id (map_of (sv_station_map v) (sv_station v));
          ns = sort_key xn_code (case station_id of None \<Rightarrow> [] | Some i \<Rightarrow> sv_station_nozzles v i);
          cs = sort_key xc_party_name (case station_id of None \<Rightarrow> [] | Some i \<Rightarrow> sv_station_customers v i)
      in (toggle_customer_state (v\<lparr>sv_nozzle_map := dict_of nozzle_label ns,
            sv_nozzle := (case ns of [] \<Rightarrow> [] | n # _ \<Rightarrow> nozzle_label n),
            sv_customer_map := dict_of customer_label cs, sv_customer_labels := walk_in # map customer_label cs,
            sv_customer := walk_in\<rparr>), station_id))"

definition load_reference_data ::
  "sale_station list \<Rightarrow> (int \<Rightarrow> sale_nozzle list) \<Rightarrow> (int \<Rightarrow> sale_party list) \<Rightarrow> int option \<Rightarrow> sales_view \<Rightarrow> sales_view" where
  "load_reference_data rows station_nozzles station_customers preferred v =
     (let v' = v\<lparr>sv_station_map := dict_of station_label rows, sv_nozzle_map := [], sv_customer_map := [],
            sv_station_nozzles := station_nozzles, sv_station_customers := station_customers\<rparr>;
          items = dict_items station_label rows
      in case items of [] \<Rightarrow> v'
         | (first_label, _) # _ \<Rightarrow> fst (station_changed (v'\<lparr>sv_station :=
             (case find (\<lambda>(_, s). Some (xs_id s) = preferred) items of None \<Rightarrow> first_label | Some (l, _) \<Rightarrow> l)\<rparr>)))"

definition sale_payload :: "sales_view \<Rightarrow> sale_station \<Rightarrow> sale_nozzle \<Rightarrow> pyfloat \<Rightarrow> pyfloat \<Rightarrow> jobject" where
  "sale_payload v s n closing_meter rate =
     [(''station_id'', JInt (xs_id s)), (''nozzle_id'', JInt (xn_id n)), (''fuel_type_id'', JInt (xn_fuel_type_id n)),
      (''closing_meter'', JFloat closing_meter), (''rate_per_liter'', JFloat rate), (''sale_type'', JStr (sv_sale_type v)),
      (''shift_name'', jopt (if py_strip (sv_shift_name v) = [] then None else Some (py_strip (sv_shift_name v))))]"

definition submit :: "(string \<Rightarrow> pyfloat option) \<Rightarrow> sales_view \<Rightarrow> sales_view \<times> jobject option" where
  \<comment> \<open>\<open>float_of\<close> is the builtin \<open>float\<close> on a string; the payload is what \<open>on_submit\<close> gets\<close>
  "submit float_of v =
     (case (map_of (sv_station_map v) (sv_station v), map_of (sv_nozzle_map v) (sv_nozzle v)) of
        (Some s, Some n) \<Rightarrow>
          (case (float_of (sv_closing_meter v), float_of (sv_rate v)) of
             (Some closing_meter, Some rate) \<Rightarrow>
               let payload = sale_payload v s n closing_meter rate in
               if sv_sale_type v = ''credit'' then
                 (case map_of (sv_customer_map v) (sv_customer v) of
                    None \<Rightarrow> (v\<lparr>sv_feedback := ''Credit sales require a selected customer.''\<rparr>, None)
                  | Some c \<Rightarrow> (v, Some (payload @ [(''customer_id'', JInt (xc_id c))])))
               else (v, Some payload)
           | _ \<Rightarrow> (v\<lparr>sv_feedback := ''Closing meter and rate per liter must be valid numbers.''\<rparr>, None))
      | _ \<Rightarrow> (v\<lparr>sv_feedback := ''Select a station and nozzle before submitting a sale.''\<rparr>, None))"

definition reset_after_submit :: "sales_view \<Rightarrow> sales_view" where
  "reset_after_submit v = fst (station_changed (v\<lparr>sv_closing_meter := [], sv_shift_name := [],
     sv_feedback := ''Sale saved. You can enter the next sale now.''\<rparr>))"

text \<open>What the user does: the combo boxes are read-only, so only their entries can be chosen.\<close>

inductive view_step :: "sales_view \<Rightarrow> sales_view \<Rightarrow> bool" where
  load: "view_step v (load_reference_data rows ns cs preferred v)"
| choose_station: "l \<in> fst ` set (sv_station_map v) \<Longrightarrow> view_step v (fst (station_changed (v\<lparr>sv_station := l\<rparr>)))"
| choose_nozzle: "l \<in> fst ` set (sv_nozzle_map v) \<Longrightarrow> view_step v (v\<lparr>sv_nozzle := l\<rparr>)"
| choose_sale_type: "t \<in> {''cash'', ''credit''} \<Longrightarrow> view_step v (toggle_customer_state (v\<lparr>sv_sale_type := t\<rparr>))"
| choose_customer: "sv_customer_enabled v \<Longrightarrow> l \<in> set (sv_customer_labels v) \<Longrightarrow> view_step v (v\<lparr>sv_customer := l\<rparr>)"
| type_rate: "view_step v (v\<lparr>sv_rate := t\<rparr>)"
| type_meter: "view_step v (v\<lparr>sv_closing_meter := t\<rparr>)"
| type_shift: "view_step v (v\<lparr>sv_shift_name := t\<rparr>)"
| submitted: "view_step v (fst (submit float_of v))"
| saved: "view_step v (reset_after_submit v)"

definition chosen_station :: "sales_view \<Rightarrow> sale_station option" where
  "chosen_station v = map_of (sv_station_map v) (sv_station v)"

definition view_ok :: "sales_view \<Rightarrow> bool" where
  \<comment> \<open>the form offers what belongs to the chosen station\<close>
  "view_ok v \<longleftrightarrow> sv_sale_type v \<in> {''cash'', ''credit''}
     \<and> (\<forall>(l, n) \<in> set (sv_nozzle_map v). \<exists>s. chosen_station v = Some s \<and> n \<in> set (sv_station_nozzles v (xs_id s)))
     \<and> (\<forall>(l, c) \<in> set (sv_customer_map v). \<exists>s. chosen_station v = Some s \<and> c \<in> set (sv_station_customers v (xs_id s)))"

lemma toggle_keeps [simp]:
  "sv_sale_type (toggle_customer_state v) = sv_sale_type v" "sv_nozzle_map (toggle_customer_state v) = sv_nozzle_map v"
  "sv_customer_map (toggle_customer_state v) = sv_customer_map v" "sv_station (toggle_customer_state v) = sv_station v"
  "sv_station_map (toggle_customer_state v) = sv_station_map v"
  "sv_station_nozzles (toggle_customer_state v) = sv_station_nozzles v"
  "sv_station_customers (toggle_customer_state v) = sv_station_customers v"
  by (simp_all add: toggle_customer_state_def Let_def)

lemma station_changed_ok: "sv_sale_type v \<in> {''cash'', ''credit''} \<Longrightarrow> view_ok (fst (station_changed v))"
  by (cases "chosen_station v")
    (auto simp: station_changed_def view_ok_def dict_of_def chosen_station_def Let_def split: option.splits)

lemma view_ok_type: "view_ok v \<Longrightarrow> sv_sale_type v \<in> {''cash'', ''credit''}"
  by (simp add: view_ok_def)

lemma load_ok: "view_ok v \<Longrightarrow> view_ok (load_reference_data rows ns cs preferred v)"
proof (cases "dict_items station_label rows")
  case Nil
  assume "view_ok v"
  with Nil show ?thesis by (simp add: load_reference_data_def view_ok_def)
next
  case (Cons x xs)
  assume "view_ok v"
  from view_ok_type [OF this] Cons show ?thesis
    by (cases x) (simp add: load_reference_data_def Let_def station_changed_ok)
qed

lemma view_step_ok:
  assumes "view_step v v'" "view_ok v"
  shows "view_ok v'"
  using assms
proof cases
  case (load rows ns cs preferred)
  with assms(2) show ?thesis by (simp add: load_ok)
next
  case (choose_station l)
  with view_ok_type [OF assms(2)] show ?thesis by (simp add: station_changed_ok)
next
  case (submitted float_of)
  with assms(2) show ?thesis
    by (auto simp: submit_def Let_def view_ok_def chosen_station_def split: option.split)
next
  case saved
  with view_ok_type [OF assms(2)] show ?thesis by (simp add: reset_after_submit_def station_changed_ok)
qed (auto simp: view_ok_def chosen_station_def)
text \<open>
  Whatever is clicked and typed in the sales form, the payload it submits is of a nozzle of the chosen station, with the fuel
  type of the nozzle, and names a customer exactly when the sale is on credit, and then one of the chosen station.
\<close>

theorem submitted_sale_is_consistent:
  assumes "view_step\<^sup>*\<^sup>* v0 v" "view_ok v0" "submit float_of v = (v', Some payload)"
  shows "\<exists>s n. chosen_station v = Some s \<and> n \<in> set (sv_station_nozzles v (xs_id s))
    \<and> map_of payload ''station_id'' = Some (JInt (xs_id s)) \<and> map_of payload ''nozzle_id'' = Some (JInt (xn_id n))
    \<and> map_of payload ''fuel_type_id'' = Some (JInt (xn_fuel_type_id n))
    \<and> (if map_of payload ''sale_type'' = Some (JStr ''credit'')
       then \<exists>c \<in> set (sv_station_customers v (xs_id s)). map_of payload ''customer_id'' = Some (JInt (xc_id c))
       else map_of payload ''sale_type'' = Some (JStr ''cash'') \<and> map_of payload ''customer_id'' = None)"
proof -
  have "view_ok v" using assms(1,2) by (induction) (auto intro: view_step_ok)
  then have ok: "sv_sale_type v \<in> {''cash'', ''credit''}"
    "map_of (sv_nozzle_map v) l = Some n \<Longrightarrow> \<exists>s. chosen_station v = Some s \<and> n \<in> set (sv_station_nozzles v (xs_id s))"
    "map_of (sv_customer_map v) l = Some c \<Longrightarrow> \<exists>s. chosen_station v = Some s \<and> c \<in> set (sv_station_customers v (xs_id s))" for l n c
    by (auto simp: view_ok_def dest!: map_of_SomeD)
  from assms(3) obtain s n a b where S: "chosen_station v = Some s" "map_of (sv_nozzle_map v) (sv_nozzle v) = Some n"
    and P: "if sv_sale_type v = ''credit'' then \<exists>c. map_of (sv_customer_map v) (sv_customer v) = Some c
        \<and> payload = sale_payload v s n a b @ [(''customer_id'', JInt (xc_id c))] else payload = sale_payload v s n a b"
    by (auto simp: submit_def chosen_station_def Let_def split: option.splits if_splits)
  from ok(2) [OF S(2)] S(1) have n: "n \<in> set (sv_station_nozzles v (xs_id s))" by simp
  show ?thesis
  proof (cases "sv_sale_type v = ''credit''")
    case True
    with P obtain c where c: "map_of (sv_customer_map v) (sv_customer v) = Some c"
      "payload = sale_payload v s n a b @ [(''customer_id'', JInt (xc_id c))]" by auto
    from ok(3) [OF c(1)] S(1) have "c \<in> set (sv_station_customers v (xs_id s))" by simp
    with S n True c(2) show ?thesis by (auto simp: sale_payload_def)
  next
    case False
    with P S n ok(1) show ?thesis by (auto simp: sale_payload_def)
  qed
qed

section \<open>Signing in and out (\<open>app.py\<close>)\<close>

record desktop_app =
  da_client :: api_client
  da_root_info :: "jval option"
  da_current_user :: "jval option"
  da_navigation :: "navigation_item list"
  da_current_view :: string
  da_shell :: bool
  da_login_error :: "jval option"

definition names_of :: "jval \<Rightarrow> string list" where
  "names_of j = (case j of JList xs \<Rightarrow> concat (map (\<lambda>x. case x of JStr s \<Rightarrow> [s] | _ \<Rightarrow> []) xs) | _ \<Rightarrow> [])"

definition permissions_of :: "jval \<Rightarrow> (string \<times> string list) list" where
  "permissions_of j = (case j of JObj m \<Rightarrow> map (\<lambda>(k, v). (k, names_of v)) m | _ \<Rightarrow> [])"

definition get_or :: "jval option \<Rightarrow> string \<Rightarrow> jval \<Rightarrow> jval" where
  "get_or j key fallback = (case Option.bind j (member key) of None \<Rightarrow> fallback | Some v \<Rightarrow> v)"

definition caught :: "client_exc \<Rightarrow> desktop_app \<Rightarrow> 's \<Rightarrow> unit client_res \<times> desktop_app \<times> 's" where
  \<comment> \<open>an \<open>ApiError\<close> is shown, any other exception leaves the handler\<close>
  "caught exc app s =
     (case exc of ApiError message _ \<Rightarrow> (Inr (), app\<lparr>da_login_error := Some message\<rparr>, s) | _ \<Rightarrow> (Inl exc, app, s))"

definition signed_in :: "desktop_app \<Rightarrow> desktop_app client_res" where
  "signed_in app =
     (case index (da_current_user app) ''full_name'' of Inl exc \<Rightarrow> Inl exc | Inr _ \<Rightarrow>
      case index (da_current_user app) ''role_name'' of Inl exc \<Rightarrow> Inl exc | Inr _ \<Rightarrow>
      Inr (app\<lparr>da_navigation := build_navigation (names_of (get_or (da_root_info app) ''enabled_modules'' (JList [])))
                 (permissions_of (get_or (da_current_user app) ''permissions'' (JObj []))),
               da_current_view := ''dashboard'', da_shell := True\<rparr>))"

definition handle_login ::
  "'s network \<Rightarrow> string \<Rightarrow> string \<Rightarrow> string \<Rightarrow> desktop_app \<Rightarrow> 's \<Rightarrow> unit client_res \<times> desktop_app \<times> 's" where
  "handle_login net base_url username password app s =
     (case get_root_info net (set_base_url base_url (da_client app)) s of
        (Inl exc, k1, s1) \<Rightarrow> caught exc (app\<lparr>da_client := k1\<rparr>) s1
      | (Inr info, k1, s1) \<Rightarrow>
        (case client_login net username password k1 s1 of
           (Inl exc, k2, s2) \<Rightarrow> caught exc (app\<lparr>da_root_info := info, da_client := k2\<rparr>) s2
         | (Inr _, k2, s2) \<Rightarrow>
           (case client_current_user net k2 s2 of
              (Inl exc, k3, s3) \<Rightarrow> caught exc (app\<lparr>da_root_info := info, da_client := k3\<rparr>) s3
            | (Inr me, k3, s3) \<Rightarrow>
              (let app' = app\<lparr>da_root_info := info, da_current_user := me, da_client := k3\<rparr> in
               case signed_in app' of Inl exc \<Rightarrow> (Inl exc, app', s3) | Inr app'' \<Rightarrow> (Inr (), app'', s3)))))"

definition handle_logout :: "'s network \<Rightarrow> desktop_app \<Rightarrow> 's \<Rightarrow> unit client_res \<times> desktop_app \<times> 's" where
  "handle_logout net app s =
     (case client_logout net (da_client app) s of
        (r, k, s') \<Rightarrow>
          let signed_out = (Inr (), app\<lparr>da_client := k, da_shell := False, da_current_user := Some (JObj []), da_root_info := Some (JObj []),
                             da_current_view := ''dashboard'', da_login_error := None\<rparr>, s')
          in case r of
               Inr _ \<Rightarrow> signed_out
             | Inl (ApiError _ _) \<Rightarrow> signed_out
             | Inl exc \<Rightarrow> (Inl exc, app\<lparr>da_client := k\<rparr>, s'))"

lemma permissions_read_back: "permissions_of (permissions_json ps) = ps"
proof -
  have "names_of (names_json xs) = xs" for xs by (induction xs) (simp_all add: names_of_def names_json_def)
  then show ?thesis by (induction ps) (auto simp: permissions_of_def permissions_json_def)
qed

section \<open>Instances\<close>

lemma client_login_ok:
  assumes "login c e d username password (fw_client_host fw) None = (Inr tr, d1)"
  shows "client_login (app_network fw active router handler (ak_base_url k)) username password k (d, (c, e) # ms) = (Inr (Some (token_json tr)),
    k\<lparr>ak_tokens := Some \<lparr>ot_access_token = tr_access_token tr, ot_refresh_token = tr_refresh_token tr\<rparr>\<rparr>, (d1, ms))"
  using assms
  by (simp add: client_login_def client_request.simps call_request_def client_url_def network_exchange serve_def py_startswith_def serve_auth_def post_login_def
    header_simps string_member_def member_def answer_def add_request_context_def json_response_def token_json_def
    tokens_of_def index_def split: option.splits)

definition sample_client :: api_client where
  "sample_client = new_api_client ''http://localhost:8012/''"

definition refusing :: "unit network" where
  "refusing q s = (Inr \<lparr>wr_status = 401, wr_headers = [], wr_body = No_Body\<rparr>, s)"

theorem request_renews_at_most_once_witness:
  "\<exists>r k'. client_request (counted refusing) True True (get_call ''/stations/'' [])
       (sample_client\<lparr>ak_tokens := Some \<lparr>ot_access_token = ''a'', ot_refresh_token = ''r''\<rparr>\<rparr>) ((), 0) = (r, k', ((), 2))
     \<and> ak_tokens k' = None \<and> (\<exists>response. wr_status response \<ge> 400 \<and> r = Inl (build_api_error response))"
proof -
  let ?k = "sample_client\<lparr>ak_tokens := Some \<lparr>ot_access_token = ''a'', ot_refresh_token = ''r''\<rparr>\<rparr>"
  obtain r where R: "client_request (counted refusing) True True (get_call ''/stations/'' []) ?k ((), 0) = (r, ?k\<lparr>ak_tokens := None\<rparr>, ((), 2))"
    by (simp add: client_request.simps refresh_tokens_def counted_def refusing_def)
  from request_renews_at_most_once [OF R] R show ?thesis by auto
qed



theorem navigation_agrees_with_server_witness:
  "NAVIGATION_ITEMS ! 1 \<in> set (build_navigation (map rt_name (included_routers [''fuel_sales''])) (get_effective_permissions sample_operator))"
proof -
  have "NAVIGATION_ITEMS ! 1 \<in> set NAVIGATION_ITEMS" by (simp add: NAVIGATION_ITEMS_def)
  moreover have "\<not> u_is_platform_user sample_operator" "require_permission sample_operator ''fuel_sales'' ''create'' [] = ok" by code_simp+
  ultimately show ?thesis
    using navigation_agrees_with_server [of "NAVIGATION_ITEMS ! 1" "[''fuel_sales'']" sample_operator]
    by (simp add: Let_def NAVIGATION_ITEMS_def)
qed

definition sample_view :: sales_view where
  "sample_view = \<lparr>sv_station = [], sv_nozzle = [], sv_sale_type = ''cash'', sv_customer = [], sv_rate = ''4'', sv_closing_meter = ''150'',
     sv_shift_name = [], sv_feedback = [], sv_customer_enabled = False, sv_customer_labels = [], sv_station_map = [], sv_nozzle_map = [],
     sv_customer_map = [], sv_station_nozzles = (\<lambda>_. []), sv_station_customers = (\<lambda>_. [])\<rparr>"

definition sample_loaded_view :: sales_view where
  "sample_loaded_view = load_reference_data [\<lparr>xs_id = 1, xs_name = ''Main'', xs_code = ''HQ''\<rparr>]
     (\<lambda>_. [\<lparr>xn_id = 7, xn_name = ''N'', xn_code = ''A'', xn_fuel_type_id = 2\<rparr>]) (\<lambda>_. []) (Some 1) sample_view"

definition sample_float_of :: "string \<Rightarrow> pyfloat option" where
  "sample_float_of s = (if s = ''150'' then Some 150 else if s = ''4'' then Some 4 else None)"

theorem submitted_sale_is_consistent_witness:
  "\<exists>v' payload. submit sample_float_of sample_loaded_view = (v', Some payload) \<and> map_of payload ''sale_type'' = Some (JStr ''cash'')
     \<and> map_of payload ''customer_id'' = None"
proof -
  have "sv_sale_type sample_loaded_view = ''cash''" "snd (submit sample_float_of sample_loaded_view) \<noteq> None" by code_simp+
  then obtain v' payload where S: "submit sample_float_of sample_loaded_view = (v', Some payload)" "map_of payload ''sale_type'' = Some (JStr ''cash'')"
    by (auto simp: submit_def sale_payload_def Let_def split: option.splits if_splits)
  have "view_step\<^sup>*\<^sup>* sample_view sample_loaded_view"
    unfolding sample_loaded_view_def by (intro r_into_rtranclp view_step.load)
  moreover have "view_ok sample_view" by (simp add: view_ok_def sample_view_def)
  ultimately show ?thesis using submitted_sale_is_consistent [OF _ _ S(1)] S by auto
qed

end
