(* ===== verification/Spec2Isabelle.thy ===== *)
theory Spec2Isabelle
  imports FuelSales Payments Purchases Tankers Shifts Customers Expenses Pos Sessions Users Staff Hardware Dashboard Payables Dispatch Organizations Saas Employees Hooks Exports Monitoring Maintenance Operations Desktop
begin

text \<open>
  A verification library for PPMS, a management system for petrol stations: a FastAPI application over one SQL database
  (\<open>src/ppms/app\<close>), in which every route checks who is asking, calls a service, and commits one session.

  \<^bold>\<open>How the program is modelled.\<close> A table is the list of its rows, a SQLAlchemy model is a record (\<open>DataModel\<close>, \<open>app/models\<close>),
  and \<open>db\<close> holds the tables. An operation is a function of the environment \<open>env\<close> (the clock, \<open>core/config.py\<close>, the mail and
  message gateways), the database, its request and the current user; it returns \<open>Inl\<close> of the exception the code raises or \<open>Inr\<close> of
  the answer and the new database. The routes get a session of their own, which is rolled back after an exception, so an \<open>Inl\<close> leaves
  the database alone; the few handlers that commit before they raise (a failed login, a refused refresh token, a refused webhook, a
  dispatch, a restore) return the answer and the state side by side. Guards and early returns are branches in the order of the code.
  A Python float is the rational it denotes and every operation rounds to binary64 (\<open>Float64\<close>): equalities of amounts hold bit for bit
  where a theorem states them, and otherwise up to the rounding it names.

  \<^bold>\<open>Theories and sources.\<close>
  \<^item> \<open>Float64\<close>, \<open>Prelude\<close>, \<open>DataModel\<close>, \<open>Samples\<close>: floats; exceptions, tables with the locale \<open>row_store\<close>, JSON values; the
    schema; a small database for the concrete instances.
  \<^item> \<open>Access\<close> (\<open>core/access.py\<close>, \<open>core/permissions.py\<close>): scopes, the permission matrix and its consistency.
  \<^item> \<open>RetryQueue\<close>, \<open>Notify\<close> (\<open>services/audit.py\<close>, \<open>notifications.py\<close>, \<open>delivery_queue.py\<close>, \<open>delivery_channels.py\<close>): the audit trail, the
    fan-out of a notice and the retry queue; \<open>Monitoring\<close> (\<open>api/audit.py\<close>, \<open>api/notification.py\<close>): what users read of them.
  \<^item> \<open>FeatureModules\<close>, \<open>Organizations\<close>, \<open>Saas\<close> (\<open>services/*_modules.py\<close>, \<open>api/organization.py\<close>, \<open>station.py\<close>, \<open>brand_catalog.py\<close>,
    \<open>services/saas.py\<close>): tenants, their stations, branding, feature switches and plans.
  \<^item> \<open>Auth\<close>, \<open>Sessions\<close> (\<open>core/security.py\<close>, \<open>core/dependencies.py\<close>, \<open>services/auth_sessions.py\<close>, \<open>api/auth.py\<close>): passwords, tokens, the
    lockout, sessions; \<open>Users\<close>, \<open>Staff\<close>, \<open>Employees\<close> (\<open>api/user.py\<close>, \<open>role.py\<close>, \<open>services/attendance.py\<close>, \<open>payroll.py\<close>,
    \<open>employee_profiles.py\<close>): accounts and staff.
  \<^item> \<open>Reversal\<close>, \<open>Books\<close>, \<open>FuelSales\<close>, \<open>Payments\<close>, \<open>Purchases\<close>, \<open>Assets\<close>, \<open>Tankers\<close>, \<open>Shifts\<close>, \<open>Customers\<close>, \<open>Expenses\<close>, \<open>Pos\<close>: the
    services and routes of these names, the work of a station. \<open>Operations\<close> puts them together.
  \<^item> \<open>Ledger\<close>, \<open>Payables\<close> (\<open>api/ledger.py\<close>): ledgers recomputed from the documents. \<open>Reports\<close>, \<open>Dashboard\<close>, \<open>Exports\<close>
    (\<open>services/reports.py\<close>, \<open>report_exports.py\<close>, \<open>api/dashboard.py\<close>, \<open>accounting.py\<close>): what management reads.
  \<^item> \<open>Compliance\<close>, \<open>Documents\<close>, \<open>Dispatch\<close> (\<open>services/compliance.py\<close>, \<open>invoice_profiles.py\<close>, \<open>document_*.py\<close>,
    \<open>financial_documents.py\<close>, \<open>delivery_worker.py\<close>): invoices, statements and their delivery.
  \<^item> \<open>Hardware\<close> (\<open>services/hardware.py\<close>, \<open>hardware_adapters.py\<close>), \<open>Hooks\<close> (\<open>services/online_api_hooks.py\<close>): devices and webhooks.
    \<open>Maintenance\<close> (\<open>services/maintenance.py\<close>): backups and restores, over a file system.
  \<^item> \<open>Application\<close> (\<open>main.py\<close>, \<open>api/__init__.py\<close>): the assembled application, its routers, middleware and error handlers, and
    the routes of \<open>api/auth.py\<close> over HTTP. \<open>Desktop\<close> (\<open>desktop_app/api_client.py\<close>, \<open>navigation.py\<close>, \<open>views/sales_view.py\<close>, \<open>app.py\<close>):
    the client that keeps the tokens, renews them, and submits sales.

  \<^bold>\<open>Interfaces.\<close> \<open>row_store\<close> states the laws of a table and is interpreted by the tables of the model; \<open>rounding\<close> those of
  a rounding, interpreted by binary64; \<open>reversal_workflow\<close> the promises of the routes that reverse a document, interpreted
  by sales, purchases and both kinds of payments; \<open>retry_queue\<close> those of a delivery queue, interpreted by the notifications and by the
  document dispatches; \<open>account_book\<close> those of a balance kept beside a ledger, interpreted by customers and by suppliers; \<open>scoped_report\<close>
  those of a report that can be confined to an organization, interpreted by the eight reports; \<open>hardware_adapter\<close> those of a vendor adapter.

  \<^bold>\<open>What the lemmas show.\<close> Per operation: the effect on every branch and the frame. Per component: invariants along every sequence of its
  requests (account tables, tenants, attendance, devices, invoice profiles, staff profiles, one open shift), safety of its workflow
  (reversals and overrides need two people or an administrator, approved expenses are final, no privilege escalation, sessions end with
  the password, exports and reports stay in their organization), round trips (a reversal gives back what was taken, a signed request is accepted, a
  backup restores), bounds (credit limit, payroll), liveness and termination of the queues. Across components: the stored balances refine the ledgers, a
  statement agrees with the ledger of the API, the books of a station stay in order along every history of its requests, and the
  audit trail accounts for such a history.

  \<^bold>\<open>Bounds.\<close> No definition runs on fuel: loops over rows are structural, the renderer of templates and \<open>LIKE\<close> recurse on the text, and the worker is a
  sequence of passes; \<open>MAX_DELIVERY_ATTEMPTS\<close> passes at least ten minutes apart settle as many deliveries as one pass takes, \<open>k\<close> times as
  many passes \<open>k\<close> times as many deliveries.

  \<^bold>\<open>Parameters.\<close> What is not under \<open>src/\<close> is an argument: bcrypt, python-jose and the token generator (the record \<open>crypto\<close>), SMTP and HTTP
  gateways (\<open>env\<close>), the vendor services of devices (\<open>http_get\<close>), HMAC and base64, SQL \<open>SUM\<close> (\<open>sum_of\<close>), ReportLab (\<open>pdf_bytes\<close>),
  \<open>PRAGMA integrity_check\<close>, what FastAPI reads from a request (\<open>framework\<close>), and the network under the desktop client. A theorem that relies on one of them names the law it uses, and its instance shows that the law can hold.

  \<^bold>\<open>Assumptions.\<close> Requests run one after the other (each in one transaction); floats neither overflow nor become NaN; the sum of a list is
  folded from the left, as CPython did before 3.12, which compensates \<open>sum\<close> of floats; numbers inside texts are kept
  symbolic (\<open>fstring\<close>); SQLite does not enforce foreign keys, its default; sessions do not flush on their own (\<open>autoflush=False\<close>);
  no client clears the type or the credit limit of a customer, which \<open>CustomerUpdate\<close> and the columns allow (\<open>Customers\<close> has no \<open>NULL\<close>
  there); the subject and the addresses of a mail have no line break, on which \<open>EmailMessage\<close> raises outside the \<open>try\<close>; a vendor service
  answers a poll with a JSON object whose status is a text.

  \<^bold>\<open>Not modelled.\<close> The layout of PDF pages (\<open>services/pdf_renderer.py\<close> below the header lines) and the widgets of the Tk windows
  (\<open>desktop_app/views\<close> apart from the sale they submit) are drawing. \<open>core/logging.py\<close> and \<open>core/database.py\<close> configure the
  framework. \<open>seed.py\<close> and \<open>post.py\<close> are scripts that fill a database through the models and the API, \<open>run_local_server.py\<close> starts the
  server on Windows, \<open>ppms_flutter\<close> is in another language, \<open>alembic\<close> holds migrations of the schema, and \<open>tests\<close> are tests.
\<close>

end
